(* ===== verification/Prelude.thy ===== *)
theory Prelude
  imports "HOL-Library.Word"
begin

text \<open>
  The prelude of the development: the text and byte types, the whitespace and trimming
  functions of Rust's strings, the saturating and checked operations of machine integers,
  the decimal printing used by the session counter, runs of a state machine, and the
  interfaces (locales) that several components share.
\<close>

named_theorems sat_simps "reading the saturating and checked word operations through unat"
named_theorems run_simps "unfolding runs of a state machine"

section \<open>Text\<close>

text \<open>A text is the list of its Unicode scalar values; a byte string is a list of bytes.\<close>

type_synonym utext = "nat list"
type_synonym bytes = "8 word list"

text \<open>ASCII strings as bytes and as texts.\<close>

definition ascii :: "string \<Rightarrow> bytes" where
  "ascii s = map (\<lambda>c. word_of_nat (of_char c)) s"

definition text_of :: "string \<Rightarrow> utext" where
  "text_of s = map of_char s"

text \<open>Durations are in nanoseconds.\<close>

definition secs :: "nat \<Rightarrow> nat" where
  "secs n = n * 1000000000"

definition as_secs :: "nat \<Rightarrow> nat" where
  "as_secs d = d div 1000000000"

text \<open>Whether a list occurs inside another (str::contains).\<close>

fun contains :: "'a list \<Rightarrow> 'a list \<Rightarrow> bool" where
  "contains needle [] = (needle = [])"
| "contains needle (c # cs) = (take (length needle) (c # cs) = needle \<or> contains needle cs)"

text \<open>All the pieces of a split at an element (str::split); there is always at least one.\<close>

fun split_elem :: "'a \<Rightarrow> 'a list \<Rightarrow> 'a list list" where
  "split_elem z [] = [[]]"
| "split_elem z (x # xs) =
     (if x = z then [] # split_elem z xs
      else case split_elem z xs of [] \<Rightarrow> [[x]] | p # ps \<Rightarrow> (x # p) # ps)"

fun join_elem :: "'a \<Rightarrow> 'a list list \<Rightarrow> 'a list" where
  "join_elem z [] = []"
| "join_elem z [p] = p"
| "join_elem z (p # ps) = p @ [z] @ join_elem z ps"

lemma split_elem_not_Nil [simp]: "split_elem z xs \<noteq> []"
  by (induction xs) (auto split: list.splits)

lemma split_elem_prefix:
  "z \<notin> set p \<Longrightarrow> split_elem z (p @ z # xs) = p # split_elem z xs"
  by (induction p) auto

lemma split_elem_single: "z \<notin> set p \<Longrightarrow> split_elem z p = [p]"
  by (induction p) auto

lemma split_join:
  "ps \<noteq> [] \<Longrightarrow> list_all (\<lambda>p. z \<notin> set p) ps \<Longrightarrow> split_elem z (join_elem z ps) = ps"
  by (induction z ps rule: join_elem.induct) (auto simp: split_elem_single split_elem_prefix)

lemma join_split: "join_elem z (split_elem z xs) = xs"
proof (induction xs)
  case (Cons x xs)
  then show ?case
    by (cases "split_elem z xs" rule: list.exhaust; cases "tl (split_elem z xs)") auto
qed simp

lemma split_elem_pieces: "p \<in> set (split_elem z xs) \<Longrightarrow> z \<notin> set p"
  by (induction xs arbitrary: p) (auto split: if_splits list.splits)

text \<open>The Unicode property White_Space, which Rust's char::is_whitespace and str::trim use.\<close>

definition is_whitespace :: "nat \<Rightarrow> bool" where
  "is_whitespace c \<longleftrightarrow>
     (9 \<le> c \<and> c \<le> 13) \<or> c = 32 \<or> c = 133 \<or> c = 160 \<or> c = 5760 \<or>
     (8192 \<le> c \<and> c \<le> 8202) \<or> c = 8232 \<or> c = 8233 \<or> c = 8239 \<or> c = 8287 \<or> c = 12288"

definition trim_by :: "('a \<Rightarrow> bool) \<Rightarrow> 'a list \<Rightarrow> 'a list" where
  "trim_by p xs = rev (dropWhile p (rev (dropWhile p xs)))"

definition trim :: "utext \<Rightarrow> utext" where
  "trim = trim_by is_whitespace"

abbreviation is_blank :: "utext \<Rightarrow> bool" where
  "is_blank t \<equiv> trim t = []"

lemma trim_by_empty: "trim_by p xs = [] \<longleftrightarrow> list_all p xs"
proof -
  have "dropWhile p (rev (dropWhile p xs)) = [] \<longleftrightarrow> list_all p (dropWhile p xs)"
    by (simp add: dropWhile_eq_Nil_conv list_all_iff)
  also have "\<dots> \<longleftrightarrow> list_all p xs"
    by (induction xs) auto
  finally show ?thesis by (simp add: trim_by_def)
qed

lemma is_blank_iff: "is_blank t \<longleftrightarrow> list_all is_whitespace t"
  by (simp add: trim_def trim_by_empty)

lemma trim_by_ends:
  assumes "trim_by p xs \<noteq> []"
  shows "\<not> p (hd (trim_by p xs))" and "\<not> p (last (trim_by p xs))"
proof -
  let ?ys = "dropWhile p xs"
  let ?zs = "dropWhile p (rev ?ys)"
  have ne: "?zs \<noteq> []" using assms by (simp only: trim_by_def) blast
  then show "\<not> p (last (trim_by p xs))"
    using hd_dropWhile[OF ne] by (simp add: trim_by_def last_rev)
  obtain ws where ws: "rev ?ys = ws @ ?zs"
    by (metis takeWhile_dropWhile_id)
  then have "?ys = rev ?zs @ rev ws"
    by (metis rev_append rev_rev_ident)
  moreover have "rev ?zs \<noteq> []" using ne by (simp only: rev_is_Nil_conv not_False_eq_True)
  ultimately have "hd ?ys = hd (rev ?zs)" "?ys \<noteq> []"
    by (metis hd_append2, metis append_is_Nil_conv)
  then show "\<not> p (hd (trim_by p xs))"
    using hd_dropWhile[of p xs] by (metis trim_by_def)
qed

section \<open>Saturating and checked machine integers\<close>

definition sat_add :: "'a::len word \<Rightarrow> 'a word \<Rightarrow> 'a word" where
  "sat_add a b = (if unat a + unat b < 2 ^ LENGTH('a) then a + b else - 1)"

definition sat_sub :: "'a::len word \<Rightarrow> 'a word \<Rightarrow> 'a word" where
  "sat_sub a b = (if b \<le> a then a - b else 0)"

definition sat_mul :: "'a::len word \<Rightarrow> 'a word \<Rightarrow> 'a word" where
  "sat_mul a b = (if unat a * unat b < 2 ^ LENGTH('a) then a * b else - 1)"

definition checked_mul :: "'a::len word \<Rightarrow> 'a word \<Rightarrow> 'a word option" where
  "checked_mul a b = (if unat a * unat b < 2 ^ LENGTH('a) then Some (a * b) else None)"

definition checked_div :: "'a::len word \<Rightarrow> 'a word \<Rightarrow> 'a word option" where
  "checked_div a b = (if b = 0 then None else Some (a div b))"

lemma unat_max_word [simp]: "unat (- 1 :: 'a::len word) = 2 ^ LENGTH('a) - 1"
  by (simp add: unsigned_minus_1_eq_mask mask_eq_exp_minus_1)

lemma unat_word_of_nat: "n < 2 ^ LENGTH('a) \<Longrightarrow> unat (word_of_nat n :: 'a::len word) = n"
  by (simp add: unsigned_of_nat take_bit_nat_eq_self)

lemma unat_sat_add [sat_simps]:
  "unat (sat_add a b :: 'a::len word) = min (unat a + unat b) (2 ^ LENGTH('a) - 1)"
  by (auto simp: sat_add_def unat_word_ariths)

lemma unat_sat_sub [sat_simps]: "unat (sat_sub a b :: 'a::len word) = unat a - unat b"
  by (auto simp: sat_sub_def unat_sub word_le_nat_alt)

lemma unat_sat_mul [sat_simps]:
  "unat (sat_mul a b :: 'a::len word) = min (unat a * unat b) (2 ^ LENGTH('a) - 1)"
  by (auto simp: sat_mul_def unat_word_ariths)

lemma unat_lt_length [intro]: "unat (a :: 'a::len word) < 2 ^ LENGTH('a)"
  by (rule unsigned_less)

lemma sat_add_mono: "a \<le> sat_add a (b :: 'a::len word)"
proof -
  have "unat a \<le> 2 ^ LENGTH('a) - 1"
    using unsigned_less[of a, where ?'a = nat] by (simp add: less_Suc_eq_le[symmetric])
  then show ?thesis by (simp add: word_le_nat_alt unat_sat_add)
qed

section \<open>Decimal numbers\<close>

definition digit_char :: "nat \<Rightarrow> char" where
  "digit_char n = char_of (48 + n)"

definition digit_val :: "char \<Rightarrow> nat option" where
  "digit_val c = (let n = (of_char c :: nat) in if 48 \<le> n \<and> n \<le> 57 then Some (n - 48) else None)"

lemma digit_val_char [simp]: "n < 10 \<Longrightarrow> digit_val (digit_char n) = Some n"
  by (simp add: digit_val_def digit_char_def Let_def)

fun show_nat :: "nat \<Rightarrow> string" where
  "show_nat n =
     (if n < 10 then [digit_char n] else show_nat (n div 10) @ [digit_char (n mod 10)])"

declare show_nat.simps [simp del]

fun digits_value :: "string \<Rightarrow> nat \<Rightarrow> nat option" where
  "digits_value [] acc = Some acc"
| "digits_value (c # cs) acc =
     (case digit_val c of None \<Rightarrow> None | Some d \<Rightarrow> digits_value cs (10 * acc + d))"

lemma digits_value_append:
  "digits_value (xs @ ys) acc = Option.bind (digits_value xs acc) (digits_value ys)"
  by (induction xs acc rule: digits_value.induct) (auto split: option.splits)

lemma digits_value_show_nat: "digits_value (show_nat n) 0 = Some n"
proof (induction n rule: show_nat.induct)
  case (1 n)
  show ?case
  proof (cases "n < 10")
    case True
    then show ?thesis by (subst show_nat.simps) simp
  next
    case False
    then show ?thesis using 1
      by (subst show_nat.simps) (simp add: digits_value_append)
  qed
qed

lemma show_nat_inject [simp]: "show_nat m = show_nat n \<longleftrightarrow> m = n"
  by (metis digits_value_show_nat option.inject)

lemma show_nat_digits: "c \<in> set (show_nat n) \<Longrightarrow> 48 \<le> (of_char c :: nat) \<and> (of_char c :: nat) \<le> 57"
proof (induction n rule: show_nat.induct)
  case (1 n)
  have "48 \<le> (of_char (digit_char d) :: nat) \<and> (of_char (digit_char d) :: nat) \<le> 57" if "d < 10" for d
    using that by (simp add: digit_char_def)
  then show ?case using 1 by (subst (asm) (2) show_nat.simps) (auto split: if_splits)
qed

lemma show_nat_not_Nil [simp]: "show_nat n \<noteq> []"
  by (subst show_nat.simps) simp

text \<open>
  Rust's str::parse for unsigned integers: an optional plus sign, at least one digit, no
  value that does not fit.
\<close>

definition parse_uint :: "nat \<Rightarrow> string \<Rightarrow> nat option" where
  "parse_uint bits s =
     (let body = (case s of [] \<Rightarrow> s | c # cs \<Rightarrow> if c = CHR ''+'' then cs else s)
      in if body = [] then None
         else case digits_value body 0 of
                None \<Rightarrow> None
              | Some n \<Rightarrow> if n < 2 ^ bits then Some n else None)"

lemma hd_show_nat: "hd (show_nat n) \<noteq> CHR ''+''"
proof -
  have plus: "digit_char d \<noteq> CHR ''+''" if "d < 10" for d
  proof
    assume "digit_char d = CHR ''+''"
    then have "Some d = digit_val (CHR ''+'')" using that by (metis digit_val_char)
    then show False by (simp add: digit_val_def)
  qed
  show ?thesis
  proof (induction n rule: show_nat.induct)
    case (1 n)
    show ?case
      by (subst show_nat.simps) (use 1 plus in \<open>auto simp: hd_append\<close>)
  qed
qed

lemma parse_show_nat: "n < 2 ^ bits \<Longrightarrow> parse_uint bits (show_nat n) = Some n"
  using hd_show_nat[of n] digits_value_show_nat[of n]
  by (cases "show_nat n") (simp_all add: parse_uint_def del: digits_value.simps)

section \<open>Runs of a state machine\<close>

text \<open>A step takes a command and a state and returns a result and the next state.\<close>

fun run_steps :: "('c \<Rightarrow> 's \<Rightarrow> 'r \<times> 's) \<Rightarrow> 'c list \<Rightarrow> 's \<Rightarrow> 'r list \<times> 's" where
  "run_steps step [] s = ([], s)"
| "run_steps step (c # cs) s =
     (let (r, s') = step c s; (rs, s'') = run_steps step cs s' in (r # rs, s''))"

lemma fst_run_Cons [run_simps]:
  "fst (run_steps step (c # cs) s) = fst (step c s) # fst (run_steps step cs (snd (step c s)))"
  by (simp add: Let_def split: prod.splits)

lemma snd_run_Cons [run_simps]:
  "snd (run_steps step (c # cs) s) = snd (run_steps step cs (snd (step c s)))"
  by (simp add: Let_def split: prod.splits)

lemma snd_run_append [run_simps]:
  "snd (run_steps step (cs @ ds) s) = snd (run_steps step ds (snd (run_steps step cs s)))"
  by (induction cs arbitrary: s) (simp_all add: run_simps del: run_steps.simps(2))

lemma fst_run_append [run_simps]:
  "fst (run_steps step (cs @ ds) s) =
     fst (run_steps step cs s) @ fst (run_steps step ds (snd (run_steps step cs s)))"
  by (induction cs arbitrary: s) (simp_all add: run_simps del: run_steps.simps(2))

lemma length_fst_run [simp]: "length (fst (run_steps step cs s)) = length cs"
  by (induction cs arbitrary: s) (simp_all add: run_simps del: run_steps.simps(2))

text \<open>The commands of a run that are not rejected, each judged in the state it meets.\<close>

fun accepted_steps ::
  "('c \<Rightarrow> 's \<Rightarrow> 'r \<times> 's) \<Rightarrow> ('r \<Rightarrow> bool) \<Rightarrow> 'c list \<Rightarrow> 's \<Rightarrow> 'c list" where
  "accepted_steps step rejected [] s = []"
| "accepted_steps step rejected (c # cs) s =
     (if rejected (fst (step c s)) then accepted_steps step rejected cs (snd (step c s))
      else c # accepted_steps step rejected cs (snd (step c s)))"

lemma accepted_steps_append:
  "accepted_steps step rejected (cs @ ds) s =
     accepted_steps step rejected cs s @ accepted_steps step rejected ds (snd (run_steps step cs s))"
  by (induction cs arbitrary: s) (simp_all add: run_simps del: run_steps.simps(2))

text \<open>A machine whose invariant is kept by the steps that meet a condition on the command.\<close>

locale guarded_machine =
  fixes step :: "'c \<Rightarrow> 's \<Rightarrow> 'r \<times> 's"
    and inv :: "'s \<Rightarrow> bool"
    and allowed :: "'c \<Rightarrow> bool"
  assumes guarded_step: "allowed c \<Longrightarrow> inv s \<Longrightarrow> inv (snd (step c s))"
begin

lemma guarded_run: "list_all allowed cs \<Longrightarrow> inv s \<Longrightarrow> inv (snd (run_steps step cs s))"
  by (induction cs arbitrary: s) (simp_all add: run_simps guarded_step del: run_steps.simps(2))

end

text \<open>A machine with an invariant that every step keeps.\<close>

locale invariant_machine =
  fixes step :: "'c \<Rightarrow> 's \<Rightarrow> 'r \<times> 's"
    and inv :: "'s \<Rightarrow> bool"
  assumes step_inv: "inv s \<Longrightarrow> inv (snd (step c s))"

sublocale invariant_machine \<subseteq> every: guarded_machine step inv "\<lambda>_. True"
  by unfold_locales (rule step_inv)

context invariant_machine
begin

lemma run_inv: "inv s \<Longrightarrow> inv (snd (run_steps step cs s))"
  by (rule every.guarded_run) (simp add: list_all_iff)

lemma run_results:
  assumes "inv s" and "\<And>c t. inv t \<Longrightarrow> P (fst (step c t))"
  shows "list_all P (fst (run_steps step cs s))"
  using assms(1)
  by (induction cs arbitrary: s)
     (simp_all add: run_simps step_inv assms(2) del: run_steps.simps(2))

lemma run_rel:
  assumes refl: "\<And>t. R t t" and trans: "\<And>t u v. R t u \<Longrightarrow> R u v \<Longrightarrow> R t v"
    and step: "\<And>c t. inv t \<Longrightarrow> R t (snd (step c t))" and "inv s"
  shows "R s (snd (run_steps step cs s))"
  using assms(4)
proof (induction cs arbitrary: s)
  case Nil
  then show ?case by (simp add: refl)
next
  case (Cons c cs)
  have "R (snd (step c s)) (snd (run_steps step cs (snd (step c s))))"
    using Cons step_inv by blast
  then show ?case
    using step[OF Cons.prems, of c] trans by (metis snd_run_Cons)
qed

end

text \<open>A machine whose rejected commands leave the state as it was.\<close>

locale atomic_machine = invariant_machine step inv
  for step :: "'c \<Rightarrow> 's \<Rightarrow> 'r \<times> 's" and inv :: "'s \<Rightarrow> bool" +
  fixes rejected :: "'r \<Rightarrow> bool"
  assumes rejected_same: "inv s \<Longrightarrow> rejected (fst (step c s)) \<Longrightarrow> snd (step c s) = s"
begin

lemma accepted_run:
  "inv s \<Longrightarrow> snd (run_steps step (accepted_steps step rejected cs s) s) = snd (run_steps step cs s)"
proof (induction cs arbitrary: s)
  case (Cons c cs)
  then show ?case
    by (simp add: run_simps step_inv rejected_same del: run_steps.simps(2))
qed simp

lemma rejected_run_same:
  assumes "inv s" and "list_all rejected (fst (run_steps step cs s))"
  shows "snd (run_steps step cs s) = s"
  using assms
proof (induction cs arbitrary: s)
  case (Cons c cs)
  then have "snd (step c s) = s"
    by (simp add: run_simps rejected_same del: run_steps.simps(2))
  with Cons show ?case by (simp add: run_simps del: run_steps.simps(2))
qed simp

end

section \<open>A bounded queue of recent entries\<close>

text \<open>
  A queue with a capacity: pushing drops the oldest entry first when it is full (the
  terminal results of the controller and the transcript history of the daemon).
\<close>

definition push_bounded :: "nat \<Rightarrow> 'a \<Rightarrow> 'a list \<Rightarrow> 'a list" where
  "push_bounded cap x xs = (if length xs = cap then tl xs @ [x] else xs @ [x])"

locale bounded_recent =
  fixes cap :: nat and push :: "'a \<Rightarrow> 'a list \<Rightarrow> 'a list"
  assumes cap_pos: "0 < cap"
    and push_suffix: "length xs \<le> cap \<Longrightarrow> push x xs = drop (length xs + 1 - cap) (xs @ [x])"
begin

lemma push_length: "length xs \<le> cap \<Longrightarrow> length (push x xs) \<le> cap"
  using cap_pos by (simp add: push_suffix)

lemma push_last: "length xs \<le> cap \<Longrightarrow> push x xs \<noteq> [] \<and> last (push x xs) = x"
  using cap_pos by (simp add: push_suffix last_drop)

lemma push_set: "length xs \<le> cap \<Longrightarrow> set (push x xs) \<subseteq> insert x (set xs)"
  using set_drop_subset[of "length xs + 1 - cap" "xs @ [x]"] by (auto simp: push_suffix)

lemma pushes_suffix:
  "fold push ys [] = drop (length ys - cap) ys"
proof (induction ys rule: rev_induct)
  case (snoc y ys)
  have len: "length (fold push ys []) \<le> cap" by (simp add: snoc)
  have "fold push (ys @ [y]) [] = push y (drop (length ys - cap) ys)"
    using snoc by simp
  also have "\<dots> = drop (length (drop (length ys - cap) ys) + 1 - cap)
                   (drop (length ys - cap) ys @ [y])"
    using len snoc by (simp add: push_suffix)
  also have "\<dots> = drop (length (ys @ [y]) - cap) (ys @ [y])"
    using cap_pos by (cases "length ys < cap") (auto simp: Suc_diff_le not_less)
  finally show ?case .
qed simp

end

lemma bounded_recent_push_bounded: "0 < cap \<Longrightarrow> bounded_recent cap (push_bounded cap)"
  by unfold_locales (auto simp: push_bounded_def drop_Suc Suc_diff_le)

end
