(* ===== verification/Vox_Error.thy ===== *)
theory Vox_Error
  imports Prelude
begin

text \<open>
  The error taxonomy shared by every adapter (crates/voxtype-core/src/error.rs). An operation
  that returns Result in the source returns the sum type outcome here: Inl carries the
  error, Inr the value.
\<close>

datatype error_category =
    EcInvalidArgument
  | EcInvalidState
  | EcConfiguration
  | EcAuthentication
  | EcPermission
  | EcConnection
  | EcTimeout
  | EcProtocol
  | EcRateLimited
  | EcUnavailable
  | EcCancelled
  | EcInternal

record vox_error =
  err_category :: error_category
  err_code :: string
  err_message :: string
  err_retryable :: bool

type_synonym 'a outcome = "vox_error + 'a"

definition vox_error_new :: "error_category \<Rightarrow> string \<Rightarrow> string \<Rightarrow> vox_error" where
  "vox_error_new category code message =
     \<lparr> err_category = category, err_code = code, err_message = message, err_retryable = False \<rparr>"

definition with_retryable :: "bool \<Rightarrow> vox_error \<Rightarrow> vox_error" where
  "with_retryable retryable e = e\<lparr> err_retryable := retryable \<rparr>"

definition vox_error_display :: "vox_error \<Rightarrow> string" where
  "vox_error_display e = err_code e @ '': '' @ err_message e"

lemma vox_error_new_simps [simp]:
  "err_category (vox_error_new c k m) = c"
  "err_code (vox_error_new c k m) = k"
  "err_message (vox_error_new c k m) = m"
  "\<not> err_retryable (vox_error_new c k m)"
  by (simp_all add: vox_error_new_def)

lemma with_retryable_simps [simp]:
  "err_category (with_retryable b e) = err_category e"
  "err_code (with_retryable b e) = err_code e"
  "err_message (with_retryable b e) = err_message e"
  "err_retryable (with_retryable b e) = b"
  by (simp_all add: with_retryable_def)

text \<open>Reading an outcome.\<close>

fun is_ok :: "'e + 'a \<Rightarrow> bool" where
  "is_ok (Inl _) = False"
| "is_ok (Inr _) = True"

abbreviation is_err :: "'e + 'a \<Rightarrow> bool" where
  "is_err r \<equiv> \<not> is_ok r"

lemma is_ok_iff: "is_ok r \<longleftrightarrow> (\<exists>a. r = Inr a)"
  by (cases r) auto

lemma is_err_iff: "is_err r \<longleftrightarrow> (\<exists>e. r = Inl e)"
  by (cases r) auto

text \<open>The question mark operator.\<close>

fun try_then :: "'e + 'a \<Rightarrow> ('a \<Rightarrow> 'e + 'b) \<Rightarrow> 'e + 'b" where
  "try_then (Inl e) f = Inl e"
| "try_then (Inr a) f = f a"

lemma try_then_ok_iff: "try_then r f = Inr b \<longleftrightarrow> (\<exists>a. r = Inr a \<and> f a = Inr b)"
  by (cases r) auto

lemma try_then_err_iff:
  "try_then r f = Inl e \<longleftrightarrow> r = Inl e \<or> (\<exists>a. r = Inr a \<and> f a = Inl e)"
  by (cases r) auto

text \<open>A check of every element that stops at the first error.\<close>

fun try_each :: "('a \<Rightarrow> 'e + unit) \<Rightarrow> 'a list \<Rightarrow> 'e + unit" where
  "try_each f [] = Inr ()"
| "try_each f (x # xs) = try_then (f x) (\<lambda>_. try_each f xs)"

lemma try_each_ok: "try_each f xs = Inr () \<longleftrightarrow> (\<forall>x \<in> set xs. f x = Inr ())"
  by (induction xs) (auto simp: try_then_ok_iff)

end
