(* ===== verification/Provider_Types.thy ===== *)
theory Provider_Types
  imports Vox_Error
begin

text \<open>
  Provider-neutral audio and recognition types (crates/voxtype-core/src/audio.rs,
  provider.rs and cancellation.rs): the evidence of what a provider may have received, the
  normalized provider identifier, and the failure of one attempt.
\<close>

section \<open>Audio\<close>

datatype sample_format = I16Le | F32Le

record audio_format =
  sample_rate_hz :: "32 word"
  channels :: "16 word"
  sample_format :: sample_format

definition pcm_16khz_mono :: audio_format where
  "pcm_16khz_mono = \<lparr> sample_rate_hz = 16000, channels = 1, sample_format = I16Le \<rparr>"

record audio_chunk =
  sequence :: "64 word"
  captured_at_micros :: "64 word"
  chunk_format :: audio_format
  samples :: bytes

datatype panic = DivideByZero

text \<open>The inner division is Rust's panicking one; only the outer one is checked.\<close>

definition duration_micros :: "audio_chunk \<Rightarrow> panic + 64 word option" where
  "duration_micros chunk =
     (let bytes_per_sample = (case sample_format (chunk_format chunk) of I16Le \<Rightarrow> 2 | F32Le \<Rightarrow> 4)
      in case checked_mul bytes_per_sample (ucast (channels (chunk_format chunk)) :: 64 word) of
           None \<Rightarrow> Inr None
         | Some bytes_per_frame \<Rightarrow>
             if length (samples chunk) \<ge> 2 ^ 64 then Inr None
             else if bytes_per_frame = 0 then Inl DivideByZero
             else let frames = of_nat (length (samples chunk)) div bytes_per_frame
                  in case checked_mul frames 1000000 of
                       None \<Rightarrow> Inr None
                     | Some micros \<Rightarrow>
                         Inr (checked_div micros (ucast (sample_rate_hz (chunk_format chunk)))))"

section \<open>Acceptance of audio by a provider\<close>

datatype audio_acceptance = NotAccepted | PossiblyAccepted | Accepted

definition may_have_left_process :: "audio_acceptance \<Rightarrow> bool" where
  "may_have_left_process a \<longleftrightarrow> a \<noteq> NotAccepted"

fun acceptance_rank :: "audio_acceptance \<Rightarrow> nat" where
  "acceptance_rank NotAccepted = 0"
| "acceptance_rank PossiblyAccepted = 1"
| "acceptance_rank Accepted = 2"

text \<open>The order of growing evidence.\<close>

instantiation audio_acceptance :: linorder
begin

definition less_eq_audio_acceptance :: "audio_acceptance \<Rightarrow> audio_acceptance \<Rightarrow> bool" where
  "less_eq_audio_acceptance a b \<longleftrightarrow> acceptance_rank a \<le> acceptance_rank b"

definition less_audio_acceptance :: "audio_acceptance \<Rightarrow> audio_acceptance \<Rightarrow> bool" where
  "less_audio_acceptance a b \<longleftrightarrow> acceptance_rank a < acceptance_rank b"

instance
proof
  fix x y :: audio_acceptance
  show "x \<le> y \<Longrightarrow> y \<le> x \<Longrightarrow> x = y"
    by (cases x; cases y) (simp_all add: less_eq_audio_acceptance_def)
qed (auto simp: less_eq_audio_acceptance_def less_audio_acceptance_def)

end

lemma may_have_left_process_simps [simp]:
  "\<not> may_have_left_process NotAccepted"
  "may_have_left_process PossiblyAccepted"
  "may_have_left_process Accepted"
  by (simp_all add: may_have_left_process_def)

lemma may_have_left_process_mono:
  "a \<le> b \<Longrightarrow> may_have_left_process a \<Longrightarrow> may_have_left_process b"
  by (cases a; cases b) (simp_all add: less_eq_audio_acceptance_def)

section \<open>Identifiers, attempts and events\<close>

record provider_attempt_failure =
  paf_error :: vox_error
  paf_transport_started :: bool
  paf_audio_acceptance :: audio_acceptance

definition before_transport :: "vox_error \<Rightarrow> provider_attempt_failure" where
  "before_transport e =
     \<lparr> paf_error = e, paf_transport_started = False, paf_audio_acceptance = NotAccepted \<rparr>"

definition after_transport :: "vox_error \<Rightarrow> audio_acceptance \<Rightarrow> provider_attempt_failure" where
  "after_transport e a =
     \<lparr> paf_error = e, paf_transport_started = True, paf_audio_acceptance = a \<rparr>"

lemma attempt_failure_simps [simp]:
  "paf_error (before_transport e) = e"
  "\<not> paf_transport_started (before_transport e)"
  "paf_audio_acceptance (before_transport e) = NotAccepted"
  "paf_error (after_transport e a) = e"
  "paf_transport_started (after_transport e a)"
  "paf_audio_acceptance (after_transport e a) = a"
  by (simp_all add: before_transport_def after_transport_def)

datatype provider_id = ProviderId (provider_id_str: string)

definition is_ascii_lowercase :: "char \<Rightarrow> bool" where
  "is_ascii_lowercase c \<longleftrightarrow> 97 \<le> (of_char c :: nat) \<and> (of_char c :: nat) \<le> 122"

definition is_ascii_digit :: "char \<Rightarrow> bool" where
  "is_ascii_digit c \<longleftrightarrow> 48 \<le> (of_char c :: nat) \<and> (of_char c :: nat) \<le> 57"

definition provider_id_char :: "char \<Rightarrow> bool" where
  "provider_id_char c \<longleftrightarrow> is_ascii_lowercase c \<or> is_ascii_digit c \<or> c = CHR ''-''"

definition provider_id_new :: "string \<Rightarrow> provider_id outcome" where
  "provider_id_new s =
     (if s \<noteq> [] \<and> length s \<le> 64 \<and> list_all provider_id_char s
      then Inr (ProviderId s)
      else Inl (vox_error_new EcInvalidArgument ''provider.invalid_id''
                  ''provider ID must contain lowercase ASCII letters, digits, or hyphens''))"

lemma provider_id_new_ok:
  "provider_id_new s = Inr i \<longleftrightarrow>
     i = ProviderId s \<and> s \<noteq> [] \<and> length s \<le> 64 \<and> list_all provider_id_char s"
  by (auto simp: provider_id_new_def)

record provider_capabilities =
  languages :: "string list"
  accepted_formats :: "audio_format list"
  streaming :: bool
  partial_results :: bool
  provider_vad :: bool

datatype recognition_event =
    EvReady
  | EvSpeechStarted
  | EvPartial utext "64 word option"
  | EvFinal utext "64 word option"
  | EvSpeechEnded
  | EvFinished

section \<open>Cancellation\<close>

text \<open>
  The flag is shared with other threads, so what a worker sees is the value at each of its
  successive observations; cancel sets it for every observation from some point on.
\<close>

type_synonym cancellation_token = "nat \<Rightarrow> bool"

definition token_new :: cancellation_token where
  "token_new = (\<lambda>_. False)"

definition token_cancel :: "nat \<Rightarrow> cancellation_token \<Rightarrow> cancellation_token" where
  "token_cancel n tok = (\<lambda>k. tok k \<or> n \<le> k)"

definition token_later :: "nat \<Rightarrow> cancellation_token \<Rightarrow> cancellation_token" where
  "token_later n tok = (\<lambda>k. tok (n + k))"

end
