(* ===== verification/Session.thy ===== *)
theory Session
  imports Provider_Types
begin

text \<open>
  The single-session state machine (crates/voxtype-core/src/session.rs): its commands,
  states and effects, one function per transition, and the lemmas that the controller and
  the daemon rest on.
\<close>

datatype session_id = SessionId (session_str: string)

definition from_counter :: "64 word \<Rightarrow> session_id" where
  "from_counter counter = SessionId (''session-'' @ show_nat (unat counter))"

lemma from_counter_inject [simp]: "from_counter a = from_counter b \<longleftrightarrow> a = b"
  by (simp add: from_counter_def word_unat_eq_iff)

datatype trigger_mode = PushToTalk | Toggle

record start_request =
  req_mode :: trigger_mode
  req_profile :: "string option"

datatype command =
    CmdStart start_request
  | CmdStop session_id
  | CmdCancel session_id
  | CmdCaptureReady session_id
  | CmdCaptureStopped session_id
  | CmdNoSpeech session_id
  | CmdTranscriptReady session_id utext
  | CmdInsertionComplete session_id
  | CmdFail session_id vox_error
  | CmdReset

datatype session_state =
    Idle
  | Preparing session_id trigger_mode
  | Listening session_id trigger_mode
  | Finalizing session_id
  | Inserting session_id utext
  | Completed session_id
  | Cancelled session_id
  | Failed session_id vox_error

fun state_name :: "session_state \<Rightarrow> string" where
  "state_name Idle = ''idle''"
| "state_name (Preparing _ _) = ''preparing''"
| "state_name (Listening _ _) = ''listening''"
| "state_name (Finalizing _) = ''finalizing''"
| "state_name (Inserting _ _) = ''inserting''"
| "state_name (Completed _) = ''completed''"
| "state_name (Cancelled _) = ''cancelled''"
| "state_name (Failed _ _) = ''failed''"

fun state_session :: "session_state \<Rightarrow> session_id option" where
  "state_session Idle = None"
| "state_session (Preparing s _) = Some s"
| "state_session (Listening s _) = Some s"
| "state_session (Finalizing s) = Some s"
| "state_session (Inserting s _) = Some s"
| "state_session (Completed s) = Some s"
| "state_session (Cancelled s) = Some s"
| "state_session (Failed s _) = Some s"

datatype command_effect =
    EffNone
  | BeginCapture session_id start_request
  | StopCapture session_id
  | CancelWork session_id
  | InsertText session_id utext

record session_machine =
  sm_state :: session_state
  sm_next_id :: "64 word"

definition session_machine_default :: session_machine where
  "session_machine_default = \<lparr> sm_state = Idle, sm_next_id = 1 \<rparr>"

type_synonym session_result = "command_effect outcome \<times> session_machine"

definition invalid_state :: "string \<Rightarrow> vox_error" where
  "invalid_state message = vox_error_new EcInvalidState ''session.invalid_state'' message"

definition ensure_session :: "session_id \<Rightarrow> session_id \<Rightarrow> unit outcome" where
  "ensure_session active requested =
     (if active = requested then Inr ()
      else Inl (vox_error_new EcInvalidArgument ''session.id_mismatch''
                  ''command targets a different session''))"

fun is_terminal :: "session_state \<Rightarrow> bool" where
  "is_terminal (Completed _) = True"
| "is_terminal (Cancelled _) = True"
| "is_terminal (Failed _ _) = True"
| "is_terminal _ = False"

fun is_active :: "session_state \<Rightarrow> bool" where
  "is_active (Preparing _ _) = True"
| "is_active (Listening _ _) = True"
| "is_active (Finalizing _) = True"
| "is_active (Inserting _ _) = True"
| "is_active _ = False"

definition sm_start :: "start_request \<Rightarrow> session_machine \<Rightarrow> session_result" where
  "sm_start request m0 =
     (let m = (if is_terminal (sm_state m0) then m0\<lparr> sm_state := Idle \<rparr> else m0)
      in if sm_state m \<noteq> Idle then (Inl (invalid_state ''a session is already active''), m)
         else let session = from_counter (sm_next_id m)
              in (Inr (BeginCapture session request),
                  m\<lparr> sm_next_id := sat_add (sm_next_id m) 1,
                     sm_state := Preparing session (req_mode request) \<rparr>))"

definition sm_stop :: "session_id \<Rightarrow> session_machine \<Rightarrow> session_result" where
  "sm_stop requested m =
     (case sm_state m of
        Listening session _ \<Rightarrow>
          (case ensure_session session requested of
             Inl e \<Rightarrow> (Inl e, m)
           | Inr _ \<Rightarrow> (Inr (StopCapture session), m\<lparr> sm_state := Finalizing session \<rparr>))
      | _ \<Rightarrow> (Inl (invalid_state ''stop requires a listening session''), m))"

definition sm_cancel :: "session_id \<Rightarrow> session_machine \<Rightarrow> session_result" where
  "sm_cancel requested m =
     (case state_session (sm_state m) of
        None \<Rightarrow> (Inl (invalid_state ''there is no session to cancel''), m)
      | Some active \<Rightarrow>
          (case ensure_session active requested of
             Inl e \<Rightarrow> (Inl e, m)
           | Inr _ \<Rightarrow> (Inr (CancelWork active), m\<lparr> sm_state := Cancelled active \<rparr>)))"

definition sm_capture_ready :: "session_id \<Rightarrow> session_machine \<Rightarrow> session_result" where
  "sm_capture_ready requested m =
     (case sm_state m of
        Preparing session mode \<Rightarrow>
          (case ensure_session session requested of
             Inl e \<Rightarrow> (Inl e, m)
           | Inr _ \<Rightarrow> (Inr EffNone, m\<lparr> sm_state := Listening session mode \<rparr>))
      | _ \<Rightarrow> (Inl (invalid_state ''capture-ready requires a preparing session''), m))"

definition sm_capture_stopped :: "session_id \<Rightarrow> session_machine \<Rightarrow> session_result" where
  "sm_capture_stopped requested m =
     (case sm_state m of
        Listening session _ \<Rightarrow>
          (case ensure_session session requested of
             Inl e \<Rightarrow> (Inl e, m)
           | Inr _ \<Rightarrow> (Inr EffNone, m\<lparr> sm_state := Finalizing session \<rparr>))
      | _ \<Rightarrow> (Inl (invalid_state ''capture-stopped requires a listening session''), m))"

definition sm_transcript_ready ::
  "session_id \<Rightarrow> utext \<Rightarrow> session_machine \<Rightarrow> session_result" where
  "sm_transcript_ready requested txt m =
     (case sm_state m of
        Finalizing session \<Rightarrow>
          (case ensure_session session requested of
             Inl e \<Rightarrow> (Inl e, m)
           | Inr _ \<Rightarrow>
               if is_blank txt
               then (Inl (vox_error_new EcProtocol ''transcript.empty''
                            ''provider returned an empty final transcript''), m)
               else (Inr (InsertText session txt), m\<lparr> sm_state := Inserting session txt \<rparr>))
      | _ \<Rightarrow> (Inl (invalid_state ''a final transcript requires a finalizing session''), m))"

definition sm_no_speech :: "session_id \<Rightarrow> session_machine \<Rightarrow> session_result" where
  "sm_no_speech requested m =
     (case sm_state m of
        Finalizing session \<Rightarrow>
          (case ensure_session session requested of
             Inl e \<Rightarrow> (Inl e, m)
           | Inr _ \<Rightarrow> (Inr EffNone, m\<lparr> sm_state := Completed session \<rparr>))
      | _ \<Rightarrow> (Inl (invalid_state ''no-speech requires a finalizing session''), m))"

definition sm_insertion_complete :: "session_id \<Rightarrow> session_machine \<Rightarrow> session_result" where
  "sm_insertion_complete requested m =
     (case sm_state m of
        Inserting session _ \<Rightarrow>
          (case ensure_session session requested of
             Inl e \<Rightarrow> (Inl e, m)
           | Inr _ \<Rightarrow> (Inr EffNone, m\<lparr> sm_state := Completed session \<rparr>))
      | _ \<Rightarrow> (Inl (invalid_state ''insertion-complete requires an inserting session''), m))"

definition sm_fail :: "session_id \<Rightarrow> vox_error \<Rightarrow> session_machine \<Rightarrow> session_result" where
  "sm_fail requested error m =
     (case state_session (sm_state m) of
        None \<Rightarrow> (Inl (invalid_state ''there is no active session to fail''), m)
      | Some active \<Rightarrow>
          (case ensure_session active requested of
             Inl e \<Rightarrow> (Inl e, m)
           | Inr _ \<Rightarrow> (Inr (CancelWork requested), m\<lparr> sm_state := Failed active error \<rparr>)))"

definition sm_reset :: "session_machine \<Rightarrow> session_result" where
  "sm_reset m =
     (if is_active (sm_state m) then (Inl (invalid_state ''cannot reset an active session''), m)
      else (Inr EffNone, m\<lparr> sm_state := Idle \<rparr>))"

fun sm_apply :: "command \<Rightarrow> session_machine \<Rightarrow> session_result" where
  "sm_apply (CmdStart request) m = sm_start request m"
| "sm_apply (CmdStop session) m = sm_stop session m"
| "sm_apply (CmdCancel session) m = sm_cancel session m"
| "sm_apply (CmdCaptureReady session) m = sm_capture_ready session m"
| "sm_apply (CmdCaptureStopped session) m = sm_capture_stopped session m"
| "sm_apply (CmdNoSpeech session) m = sm_no_speech session m"
| "sm_apply (CmdTranscriptReady session txt) m = sm_transcript_ready session txt m"
| "sm_apply (CmdInsertionComplete session) m = sm_insertion_complete session m"
| "sm_apply (CmdFail session error) m = sm_fail session error m"
| "sm_apply CmdReset m = sm_reset m"

lemmas sm_op_defs =
  sm_start_def sm_stop_def sm_cancel_def sm_capture_ready_def sm_capture_stopped_def
  sm_transcript_ready_def sm_no_speech_def sm_insertion_complete_def sm_fail_def sm_reset_def
  ensure_session_def

section \<open>One step\<close>

lemma is_terminal_iff: "is_terminal st \<longleftrightarrow> st \<noteq> Idle \<and> \<not> is_active st"
  by (cases st) auto

lemma state_session_None [simp]: "state_session st = None \<longleftrightarrow> st = Idle"
  by (cases st) auto

lemma sm_rejected_same: "is_err (fst (sm_apply c m)) \<Longrightarrow> snd (sm_apply c m) = m"
  by (cases c; cases "sm_state m")
     (auto simp: sm_op_defs Let_def split: if_splits session_state.splits option.splits)

lemma sm_next_id_step:
  "sm_next_id (snd (sm_apply c m)) =
     (case fst (sm_apply c m) of Inr (BeginCapture _ _) \<Rightarrow> sat_add (sm_next_id m) 1
                               | _ \<Rightarrow> sm_next_id m)"
  by (cases c)
     (auto simp: sm_op_defs Let_def split: session_state.splits option.splits)

lemma sm_insert_text:
  "fst (sm_apply c m) = Inr (InsertText s t) \<longleftrightarrow>
     c = CmdTranscriptReady s t \<and> sm_state m = Finalizing s \<and> \<not> is_blank t"
  by (cases c; cases "sm_state m")
     (auto simp: sm_op_defs Let_def split: session_state.splits option.splits)

lemma sm_begin_capture:
  "fst (sm_apply c m) = Inr (BeginCapture s r) \<longleftrightarrow>
     c = CmdStart r \<and> \<not> is_active (sm_state m) \<and> s = from_counter (sm_next_id m)"
  by (cases c; cases "sm_state m")
     (auto simp: sm_op_defs Let_def split: session_state.splits option.splits)

text \<open>The lifecycle position of a state.\<close>

fun phase_rank :: "session_state \<Rightarrow> nat" where
  "phase_rank Idle = 0"
| "phase_rank (Preparing _ _) = 1"
| "phase_rank (Listening _ _) = 2"
| "phase_rank (Finalizing _) = 3"
| "phase_rank (Inserting _ _) = 4"
| "phase_rank (Completed _) = 5"
| "phase_rank (Cancelled _) = 5"
| "phase_rank (Failed _ _) = 5"

lemma sm_progress:
  assumes "sm_apply c m = (Inr e, m')" and "state_session (sm_state m') = Some s"
  shows "(state_session (sm_state m) = Some s \<and>
            (phase_rank (sm_state m) < phase_rank (sm_state m') \<or>
             is_terminal (sm_state m) \<and> is_terminal (sm_state m'))) \<or>
         (\<not> is_active (sm_state m) \<and> s = from_counter (sm_next_id m) \<and>
            phase_rank (sm_state m') = 1)"
  using assms
  by (cases c; cases "sm_state m")
     (auto simp: sm_op_defs Let_def split: session_state.splits option.splits if_splits)

end
