(* ===== verification/Session_Runs.thy ===== *)
theory Session_Runs
  imports Session
begin

text \<open>
  Runs of the session machine from its initial state: the well-formedness invariant, the
  commands that must have been accepted before a text is inserted, the allocation of session
  identifiers, and what can no longer happen to a session that was cancelled or inserted.
\<close>

abbreviation sm_run :: "command list \<Rightarrow> command_effect outcome list \<times> session_machine" where
  "sm_run cs \<equiv> run_steps sm_apply cs session_machine_default"

abbreviation sm_accepted :: "command list \<Rightarrow> command list" where
  "sm_accepted cs \<equiv> accepted_steps sm_apply is_err cs session_machine_default"

section \<open>The invariant\<close>

text \<open>
  The current session was numbered by the counter, and a text on its way to the desktop is
  not blank.
\<close>

definition sm_wf :: "session_machine \<Rightarrow> bool" where
  "sm_wf m \<longleftrightarrow>
     0 < sm_next_id m \<and>
     (\<forall>s. state_session (sm_state m) = Some s \<longrightarrow>
        (\<exists>k. 0 < k \<and> k \<le> sm_next_id m \<and> s = from_counter k)) \<and>
     (\<forall>s t. sm_state m = Inserting s t \<longrightarrow> \<not> is_blank t)"

lemma sm_wf_default: "sm_wf session_machine_default"
  by (simp add: sm_wf_def session_machine_default_def)

lemma sm_step_state:
  "sm_state (snd (sm_apply c m)) = sm_state m \<or>
   state_session (sm_state (snd (sm_apply c m))) = state_session (sm_state m) \<or>
   sm_state (snd (sm_apply c m)) = Idle \<or>
   (\<not> is_active (sm_state m) \<and> sm_next_id (snd (sm_apply c m)) = sat_add (sm_next_id m) 1 \<and>
    (\<exists>mode. sm_state (snd (sm_apply c m)) = Preparing (from_counter (sm_next_id m)) mode))"
  by (cases c; cases "sm_state m")
     (auto simp: sm_op_defs Let_def split: session_state.splits option.splits)

lemma sm_inserting_nonblank:
  "sm_state (snd (sm_apply c m)) = Inserting s t \<Longrightarrow> sm_state m = Inserting s t \<or> \<not> is_blank t"
  by (cases c; cases "sm_state m")
     (auto simp: sm_op_defs Let_def split: session_state.splits option.splits if_splits)

lemma sm_next_id_mono: "sm_next_id m \<le> sm_next_id (snd (sm_apply c m))"
  by (simp add: sm_next_id_step sat_add_mono split: sum.splits command_effect.splits)

lemma sm_step_wf:
  assumes "sm_wf m" shows "sm_wf (snd (sm_apply c m))"
proof -
  let ?m = "snd (sm_apply c m)"
  have pos: "0 < sm_next_id ?m"
    using assms sm_next_id_mono[of m c] by (auto simp: sm_wf_def)
  have "\<exists>k. 0 < k \<and> k \<le> sm_next_id ?m \<and> s = from_counter k"
    if s: "state_session (sm_state ?m) = Some s" for s
    using sm_step_state[of c m]
  proof (elim disjE exE conjE)
    fix mode
    assume "sm_state ?m = Preparing (from_counter (sm_next_id m)) mode"
    then have "s = from_counter (sm_next_id m)" using s by simp
    then show ?thesis using assms sm_next_id_mono[of m c] by (auto simp: sm_wf_def)
  qed (use assms s sm_next_id_mono[of m c] in
         \<open>auto simp: sm_wf_def intro: order_trans dest!: sym[of "Some s"] spec[of _ s]\<close>)
  moreover have "\<not> is_blank t" if "sm_state ?m = Inserting s t" for s t
    using sm_inserting_nonblank[OF that] assms by (auto simp: sm_wf_def)
  ultimately show ?thesis using pos by (simp add: sm_wf_def)
qed

interpretation sm: atomic_machine sm_apply sm_wf is_err
  by unfold_locales (simp_all add: sm_step_wf sm_rejected_same)

section \<open>The commands before an insertion\<close>

text \<open>What the accepted commands of a run end with, by the state the run is in.\<close>

fun ends_with_lifecycle :: "session_state \<Rightarrow> command list \<Rightarrow> bool" where
  "ends_with_lifecycle (Preparing s _) acc = (\<exists>pre r. acc = pre @ [CmdStart r])"
| "ends_with_lifecycle (Listening s _) acc =
     (\<exists>pre r. acc = pre @ [CmdStart r, CmdCaptureReady s])"
| "ends_with_lifecycle (Finalizing s) acc =
     (\<exists>pre r x. acc = pre @ [CmdStart r, CmdCaptureReady s, x] \<and>
        x \<in> {CmdStop s, CmdCaptureStopped s})"
| "ends_with_lifecycle (Inserting s t) acc =
     (\<exists>pre r x. acc = pre @ [CmdStart r, CmdCaptureReady s, x, CmdTranscriptReady s t] \<and>
        x \<in> {CmdStop s, CmdCaptureStopped s})"
| "ends_with_lifecycle _ acc = True"

lemma ends_with_lifecycle_step:
  assumes "ends_with_lifecycle (sm_state m) acc" and "is_ok (fst (sm_apply c m))"
  shows "ends_with_lifecycle (sm_state (snd (sm_apply c m))) (acc @ [c])"
  using assms
  by (cases c; cases "sm_state m")
     (auto simp: sm_op_defs Let_def split: session_state.splits option.splits if_splits)

lemma run_ends_with_lifecycle:
  "ends_with_lifecycle (sm_state (snd (sm_run cs))) (sm_accepted cs)"
proof (induction cs rule: rev_induct)
  case Nil
  show ?case by (simp add: session_machine_default_def)
next
  case (snoc c cs)
  let ?m = "snd (sm_run cs)"
  show ?case
  proof (cases "is_ok (fst (sm_apply c ?m))")
    case True
    then show ?thesis
      using ends_with_lifecycle_step[OF snoc True]
      by (simp add: run_simps accepted_steps_append del: run_steps.simps(2))
  next
    case False
    then show ?thesis using snoc
      by (simp add: run_simps accepted_steps_append sm_rejected_same del: run_steps.simps(2))
  qed
qed

section \<open>Identifiers\<close>

fun begun_sessions :: "command_effect outcome list \<Rightarrow> session_id list" where
  "begun_sessions [] = []"
| "begun_sessions (r # rs) =
     (case r of Inr (BeginCapture s _) \<Rightarrow> s # begun_sessions rs | _ \<Rightarrow> begun_sessions rs)"

fun inserted_sessions :: "command_effect outcome list \<Rightarrow> session_id list" where
  "inserted_sessions [] = []"
| "inserted_sessions (r # rs) =
     (case r of Inr (InsertText s _) \<Rightarrow> s # inserted_sessions rs | _ \<Rightarrow> inserted_sessions rs)"

lemma in_inserted_sessions:
  "s \<in> set (inserted_sessions rs) \<longleftrightarrow> (\<exists>t. Inr (InsertText s t) \<in> set rs)"
  by (induction rs) (auto split: sum.splits command_effect.splits)

lemma unat_next_id:
  "unat n + 1 < 2 ^ 64 \<Longrightarrow> unat (sat_add n (1 :: 64 word)) = unat n + 1"
  by (simp add: unat_sat_add)

lemma begun_sessions_run:
  assumes "unat (sm_next_id m) + length cs < 2 ^ 64"
  shows "\<exists>n \<le> length cs. begun_sessions (fst (run_steps sm_apply cs m)) =
           map (\<lambda>i. from_counter (word_of_nat i)) [unat (sm_next_id m)..<unat (sm_next_id m) + n]"
  using assms
proof (induction cs arbitrary: m)
  case Nil
  show ?case by simp
next
  case (Cons c cs)
  let ?m = "snd (sm_apply c m)" and ?k = "unat (sm_next_id m)"
  show ?case
  proof (cases "\<exists>s r. fst (sm_apply c m) = Inr (BeginCapture s r)")
    case True
    then obtain s r where b: "fst (sm_apply c m) = Inr (BeginCapture s r)" by blast
    have s: "s = from_counter (sm_next_id m)" using b by (simp only: sm_begin_capture)
    have k: "unat (sm_next_id ?m) = ?k + 1"
      using Cons.prems b by (simp add: sm_next_id_step unat_next_id)
    obtain n where n: "n \<le> length cs" "begun_sessions (fst (run_steps sm_apply cs ?m)) =
        map (\<lambda>i. from_counter (word_of_nat i)) [?k + 1..<?k + 1 + n]"
      using Cons.IH[of ?m] Cons.prems k by auto
    have "begun_sessions (fst (run_steps sm_apply (c # cs) m)) =
        map (\<lambda>i. from_counter (word_of_nat i)) [?k..<?k + Suc n]"
      using b n s by (simp add: run_simps upt_conv_Cons del: run_steps.simps(2) upt_Suc)
    then show ?thesis using n by (intro exI[of _ "Suc n"]) auto
  next
    case False
    then have eq: "sm_next_id ?m = sm_next_id m"
      by (auto simp: sm_next_id_step split: sum.splits command_effect.splits)
    obtain n where n: "n \<le> length cs" "begun_sessions (fst (run_steps sm_apply cs ?m)) =
        map (\<lambda>i. from_counter (word_of_nat i)) [?k..<?k + n]"
      using Cons.IH[of ?m] Cons.prems eq by auto
    moreover have "begun_sessions (fst (run_steps sm_apply (c # cs) m)) =
        begun_sessions (fst (run_steps sm_apply cs ?m))"
      using False by (auto simp: run_simps split: sum.splits command_effect.splits
          simp del: run_steps.simps(2))
    ultimately show ?thesis by (intro exI[of _ n]) auto
  qed
qed

text \<open>The current session has a number below the counter; it holds while the counter has room.\<close>

definition sm_fresh :: "session_machine \<Rightarrow> bool" where
  "sm_fresh m \<longleftrightarrow>
     (\<forall>s. state_session (sm_state m) = Some s \<longrightarrow> (\<exists>k < sm_next_id m. s = from_counter k))"

text \<open>A session that the machine has numbered and that is past the point of insertion.\<close>

definition retired :: "session_id \<Rightarrow> session_machine \<Rightarrow> bool" where
  "retired s m \<longleftrightarrow>
     (\<exists>k < sm_next_id m. s = from_counter k) \<and>
     (state_session (sm_state m) = Some s \<longrightarrow> 4 \<le> phase_rank (sm_state m))"

lemma sm_fresh_default: "sm_fresh session_machine_default"
  by (simp add: sm_fresh_def session_machine_default_def)

lemma lt_sat_add: "unat n + 1 < 2 ^ 64 \<Longrightarrow> n < sat_add n (1 :: 64 word)"
  by (simp add: word_less_nat_alt unat_sat_add)

lemma sm_fresh_step:
  assumes "sm_fresh m" and "unat (sm_next_id m) + 1 < 2 ^ 64"
  shows "sm_fresh (snd (sm_apply c m))"
  unfolding sm_fresh_def
proof (intro allI impI)
  let ?m = "snd (sm_apply c m)"
  fix s assume s: "state_session (sm_state ?m) = Some s"
  show "\<exists>k < sm_next_id ?m. s = from_counter k"
    using sm_step_state[of c m]
  proof (elim disjE exE conjE)
    fix mode
    assume "sm_next_id ?m = sat_add (sm_next_id m) 1"
      and "sm_state ?m = Preparing (from_counter (sm_next_id m)) mode"
    then show ?thesis using s lt_sat_add[OF assms(2)] by auto
  qed (use assms(1) s sm_next_id_mono[of m c] in
         \<open>auto simp: sm_fresh_def intro: order_less_le_trans dest!: sym[of "Some s"] spec[of _ s]\<close>)
qed

lemma unat_next_id_step: "unat (sm_next_id (snd (sm_apply c m))) \<le> unat (sm_next_id m) + 1"
  by (simp add: sm_next_id_step unat_sat_add split: sum.splits command_effect.splits)

lemma sm_fresh_run:
  "sm_fresh m \<Longrightarrow> unat (sm_next_id m) + length cs < 2 ^ 64 \<Longrightarrow>
   sm_fresh (snd (run_steps sm_apply cs m))"
proof (induction cs arbitrary: m)
  case (Cons c cs)
  then show ?case
    using sm_fresh_step[of m c] unat_next_id_step[of c m]
    by (simp add: run_simps del: run_steps.simps(2))
qed simp

lemma phase_rank_ge_4: "4 \<le> phase_rank st \<longleftrightarrow> is_terminal st \<or> (\<exists>s t. st = Inserting s t)"
  by (cases st) auto

lemma retired_step:
  assumes "retired s m"
  shows "retired s (snd (sm_apply c m))" and "fst (sm_apply c m) \<noteq> Inr (InsertText s t)"
proof -
  let ?m = "snd (sm_apply c m)"
  obtain k where k: "k < sm_next_id m" "s = from_counter k"
    using assms by (auto simp: retired_def)
  have k': "k < sm_next_id ?m" using k sm_next_id_mono[of m c] by simp
  have "4 \<le> phase_rank (sm_state ?m)" if s: "state_session (sm_state ?m) = Some s"
  proof (cases "fst (sm_apply c m)")
    case (Inl e)
    then show ?thesis using assms s by (simp add: sm_rejected_same retired_def)
  next
    case (Inr e)
    then have "sm_apply c m = (Inr e, ?m)" by (metis prod.collapse)
    from sm_progress[OF this s] show ?thesis
      using assms k
      by (auto simp: retired_def phase_rank_ge_4) (metis phase_rank_ge_4 order_trans less_imp_le)+
  qed
  then show "retired s ?m" using k k' by (auto simp: retired_def)
  show "fst (sm_apply c m) \<noteq> Inr (InsertText s t)"
    using assms by (auto simp: sm_insert_text retired_def)
qed

lemma retired_run:
  "retired s m \<Longrightarrow> s \<notin> set (inserted_sessions (fst (run_steps sm_apply cs m)))"
proof (induction cs arbitrary: m)
  case (Cons c cs)
  then show ?case
    using retired_step[of s m c]
    by (auto simp: run_simps in_inserted_sessions dest: sym[of "Inr _"]
        simp del: run_steps.simps(2) inserted_sessions.simps)
qed simp

lemma sm_fresh_retires:
  assumes "sm_fresh m" and "fst (sm_apply c m) = Inr (InsertText s t)"
  shows "retired s (snd (sm_apply c m))"
proof -
  have c: "c = CmdTranscriptReady s t" "sm_state m = Finalizing s" "\<not> is_blank t"
    using assms(2) by (simp_all add: sm_insert_text)
  then show ?thesis using assms(1)
    by (auto simp: sm_fresh_def retired_def sm_transcript_ready_def ensure_session_def)
qed

lemma inserted_run_distinct:
  "sm_fresh m \<Longrightarrow> unat (sm_next_id m) + length cs < 2 ^ 64 \<Longrightarrow>
   distinct (inserted_sessions (fst (run_steps sm_apply cs m)))"
proof (induction cs arbitrary: m)
  case (Cons c cs)
  let ?m = "snd (sm_apply c m)"
  have rest: "distinct (inserted_sessions (fst (run_steps sm_apply cs ?m)))"
    using Cons sm_fresh_step[of m c] unat_next_id_step[of c m] by simp
  show ?case
    using rest retired_run[OF sm_fresh_retires[OF Cons.prems(1)]]
    by (auto simp: run_simps split: sum.splits command_effect.splits simp del: run_steps.simps(2))
qed simp

section \<open>Properties\<close>

lemma sm_cancel_retires:
  assumes "sm_fresh m" and "fst (sm_apply (CmdCancel s) m) = Inr e"
  shows "retired s (snd (sm_apply (CmdCancel s) m))"
  using assms
  by (auto simp: sm_cancel_def ensure_session_def retired_def sm_fresh_def
      split: option.splits if_splits)

text \<open>
  after any run of the machine, once Cancel is accepted for a session no later command,
  however the transcript of a late worker is delivered, makes the machine insert a text for
  that session. The bound on the length keeps the 64-bit session counter from saturating.
\<close>

theorem cancelled_session_never_inserts:
  assumes "length cs1 + 1 < 2 ^ 64"
    and "fst (sm_apply (CmdCancel s) (snd (sm_run cs1))) = Inr e"
  shows "s \<notin> set (inserted_sessions
           (fst (run_steps sm_apply cs2 (snd (sm_run (cs1 @ [CmdCancel s]))))))"
proof -
  have "sm_fresh (snd (sm_run cs1))"
    using assms(1)
    by (intro sm_fresh_run sm_fresh_default) (simp_all add: session_machine_default_def)
  from retired_run[OF sm_cancel_retires[OF this assms(2)]] show ?thesis
    by (simp add: run_simps del: run_steps.simps(2))
qed

abbreviation demo_request :: start_request where
  "demo_request \<equiv> \<lparr> req_mode = Toggle, req_profile = None \<rparr>"

theorem cancelled_session_never_inserts_witness:
  "from_counter 1 \<notin> set (inserted_sessions (fst (run_steps sm_apply
      [CmdTranscriptReady (from_counter 1) [104, 105]]
      (snd (sm_run ([CmdStart demo_request, CmdCaptureReady (from_counter 1),
                     CmdStop (from_counter 1)] @ [CmdCancel (from_counter 1)]))))))"
  by (rule cancelled_session_never_inserts[where e = "CancelWork (from_counter 1)"])
     (simp_all add: session_machine_default_def sm_op_defs Let_def)

text \<open>
  a text is handed to the desktop at most once per session: the sessions for which a run
  asks for an insertion are pairwise different.
\<close>

theorem insertion_at_most_once:
  assumes "length cs + 1 < 2 ^ 64"
  shows "distinct (inserted_sessions (fst (sm_run cs)))"
  by (rule inserted_run_distinct[OF sm_fresh_default])
     (use assms in \<open>simp add: session_machine_default_def\<close>)

theorem insertion_at_most_once_witness:
  "distinct (inserted_sessions (fst (sm_run
     [CmdStart demo_request, CmdCaptureReady (from_counter 1), CmdStop (from_counter 1),
      CmdTranscriptReady (from_counter 1) [104, 105],
      CmdTranscriptReady (from_counter 1) [104, 105]])))"
  by (rule insertion_at_most_once) simp

text \<open>
  C35: the machine is inserting a text for a session only when the commands it accepted last
  are the whole recording of that session, in order: a start, the capture becoming ready, one
  stop, and the delivery of exactly that text, which is not blank.
\<close>

theorem insertion_needs_full_recording:
  assumes "sm_state (snd (sm_run cs)) = Inserting s t"
  shows "(\<exists>pre r x. sm_accepted cs =
            pre @ [CmdStart r, CmdCaptureReady s, x, CmdTranscriptReady s t] \<and>
            x \<in> {CmdStop s, CmdCaptureStopped s}) \<and> \<not> is_blank t"
  using run_ends_with_lifecycle[of cs] sm.run_inv[OF sm_wf_default, of cs] assms
  by (auto simp: sm_wf_def)

theorem insertion_needs_full_recording_witness:
  "\<exists>cs s t. sm_state (snd (sm_run cs)) = Inserting s t \<and>
     ((\<exists>pre r x. sm_accepted cs =
            pre @ [CmdStart r, CmdCaptureReady s, x, CmdTranscriptReady s t] \<and>
            x \<in> {CmdStop s, CmdCaptureStopped s}) \<and> \<not> is_blank t)"
proof -
  let ?cs = "[CmdStart demo_request, CmdCaptureReady (from_counter 1), CmdReset,
              CmdStop (from_counter 1), CmdTranscriptReady (from_counter 1) [104, 105]]"
  have "sm_state (snd (sm_run ?cs)) = Inserting (from_counter 1) [104, 105]"
    by (simp add: session_machine_default_def sm_op_defs Let_def is_blank_iff is_whitespace_def)
  from insertion_needs_full_recording[OF this] this show ?thesis by blast
qed

text \<open>
  every accepted command either keeps the session and moves it forward in the lifecycle
  (or replaces one terminal state by another), or resets to idle, or begins the next
  session in the preparing state from a state with no session at work; a rejected command
  changes nothing.
\<close>

theorem session_lifecycle_progress:
  "case sm_apply c m of
     (Inl e, m') \<Rightarrow> m' = m
   | (Inr e, m') \<Rightarrow>
       (case state_session (sm_state m') of
          None \<Rightarrow> c = CmdReset \<and> \<not> is_active (sm_state m)
        | Some s \<Rightarrow>
            (state_session (sm_state m) = Some s \<and>
               (phase_rank (sm_state m) < phase_rank (sm_state m') \<or>
                is_terminal (sm_state m) \<and> is_terminal (sm_state m'))) \<or>
            (\<not> is_active (sm_state m) \<and> s = from_counter (sm_next_id m) \<and>
               sm_next_id m' = sat_add (sm_next_id m) 1 \<and> phase_rank (sm_state m') = 1))"
  by (cases c; cases "sm_state m")
     (auto simp: sm_op_defs Let_def split: option.splits)

text \<open>
  the sessions that a run begins are numbered consecutively from 1, so no identifier is
  given to two sessions.
\<close>

theorem session_ids_consecutive:
  assumes "length cs + 1 < 2 ^ 64"
  shows "\<exists>n \<le> length cs. begun_sessions (fst (sm_run cs)) =
           map (\<lambda>i. from_counter (word_of_nat i)) [1..<1 + n] \<and>
         distinct (begun_sessions (fst (sm_run cs)))"
proof -
  obtain n where n: "n \<le> length cs" "begun_sessions (fst (sm_run cs)) =
      map (\<lambda>i. from_counter (word_of_nat i)) [1..<1 + n]"
    using begun_sessions_run[of session_machine_default cs] assms
    by (auto simp: session_machine_default_def)
  have "inj_on (\<lambda>i. from_counter (word_of_nat i)) (set [1..<1 + n])"
    using n(1) assms by (auto intro!: inj_onI simp: word_of_nat_eq_iff take_bit_nat_eq_self)
  then have "distinct (begun_sessions (fst (sm_run cs)))"
    using n(2) by (simp only: distinct_map distinct_upt simp_thms)
  with n show ?thesis by blast
qed

theorem session_ids_consecutive_witness:
  "\<exists>n \<le> length [CmdStart demo_request, CmdStart demo_request].
     begun_sessions (fst (sm_run [CmdStart demo_request, CmdStart demo_request])) =
       map (\<lambda>i. from_counter (word_of_nat i)) [1..<1 + n] \<and>
     distinct (begun_sessions (fst (sm_run [CmdStart demo_request, CmdStart demo_request])))"
  by (rule session_ids_consecutive) simp

end
