(* ===== verification/Routing.thy ===== *)
theory Routing
  imports Provider_Types
begin

text \<open>
  Provider selection and the privacy-aware fallback rule
  (crates/voxtype-core/src/routing.rs).
\<close>

datatype replay_policy = Never | BeforeAudioAccepted | BufferedWithConsent

datatype fallback_reason = FrConnection | FrTimeout | FrRateLimited | FrUnavailable

record provider_health =
  ph_available :: bool
  ph_consecutive_failures :: "32 word"

record routing_policy =
  rp_primary :: provider_id
  rp_fallbacks :: "provider_id list"
  rp_replay :: replay_policy

record route_plan =
  rt_providers :: "provider_id list"
  rt_replay :: replay_policy

definition healthy :: "(provider_id \<rightharpoonup> provider_health) \<Rightarrow> provider_id \<Rightarrow> bool" where
  "healthy health i = (case health i of None \<Rightarrow> True | Some status \<Rightarrow> ph_available status)"

definition ordered_router_plan ::
  "routing_policy \<Rightarrow> (provider_id \<rightharpoonup> provider_health) \<Rightarrow> route_plan outcome" where
  "ordered_router_plan policy health =
     (let providers = filter (healthy health) (rp_primary policy # rp_fallbacks policy)
      in if providers = []
         then Inl (with_retryable True (vox_error_new EcUnavailable ''routing.no_provider''
                     ''no configured provider is currently available''))
         else Inr \<lparr> rt_providers = providers, rt_replay = rp_replay policy \<rparr>)"

definition may_fallback ::
  "fallback_reason \<Rightarrow> audio_acceptance \<Rightarrow> replay_policy \<Rightarrow> bool" where
  "may_fallback reason acceptance replay =
     (let transient = reason \<in> {FrConnection, FrTimeout, FrRateLimited, FrUnavailable}
      in transient \<and> (acceptance = NotAccepted \<or> replay = BufferedWithConsent))"

lemma may_fallback_iff:
  "may_fallback reason a replay \<longleftrightarrow> \<not> may_have_left_process a \<or> replay = BufferedWithConsent"
  by (cases reason) (auto simp: may_fallback_def may_have_left_process_def)

text \<open>The first two replay policies are one policy: the code never tells them apart.\<close>

lemma may_fallback_never_is_before_accepted:
  "may_fallback reason a Never = may_fallback reason a BeforeAudioAccepted"
  by (simp add: may_fallback_def)

end
