(* ===== verification/Route.thy ===== *)
theory Route
  imports Routing
begin

text \<open>
  The provider registry and the execution of a recognition route
  (crates/voxtype-app/src/provider.rs). Concrete adapters are arguments: an adapter is
  given the input, the shared cancellation flag and the logical time at which it is called,
  and returns its result with the time at which it returns, so that the flag may be set at
  any moment of a route.
\<close>

record provider_usage =
  pu_input_tokens :: "64 word option"
  pu_output_tokens :: "64 word option"
  pu_total_tokens :: "64 word option"

definition provider_usage_default :: provider_usage where
  "provider_usage_default =
     \<lparr> pu_input_tokens = None, pu_output_tokens = None, pu_total_tokens = None \<rparr>"

record provider_transcript =
  pt_text :: utext
  pt_usage :: provider_usage

record provider_success =
  ps_transcript :: provider_transcript
  ps_transport_started :: bool
  ps_audio_acceptance :: audio_acceptance

record recognition_input =
  ri_pcm_path :: string
  ri_language :: string

type_synonym recognition_result = "provider_attempt_failure + provider_success"

record provider_adapter =
  pa_id :: provider_id
  pa_capabilities :: provider_capabilities
  pa_recognize ::
    "recognition_input \<Rightarrow> cancellation_token \<Rightarrow> nat \<Rightarrow> recognition_result \<times> nat"

type_synonym provider_registry = "provider_id \<rightharpoonup> provider_adapter"

definition registry_register ::
  "provider_adapter \<Rightarrow> provider_registry \<Rightarrow> unit outcome \<times> provider_registry" where
  "registry_register adapter reg =
     (let i = pa_id adapter
      in if reg i \<noteq> None
         then (Inl (vox_error_new EcConfiguration ''provider.duplicate_registration''
                 (''provider '' @ provider_id_str i @ '' is already registered'')), reg)
         else (Inr (), reg(i \<mapsto> adapter)))"

definition registry_contains :: "provider_registry \<Rightarrow> provider_id \<Rightarrow> bool" where
  "registry_contains reg i = (reg i \<noteq> None)"

record route_attempt =
  at_provider_id :: provider_id
  at_transport_started :: bool
  at_audio_acceptance :: audio_acceptance
  at_error :: "vox_error option"

record recognition_success =
  rs_provider_id :: provider_id
  rs_transcript :: provider_transcript

record recognition_route_result =
  rr_attempts :: "route_attempt list"
  rr_outcome :: "recognition_success outcome"

definition cancelled_error :: vox_error where
  "cancelled_error =
     vox_error_new EcCancelled ''provider.cancelled'' ''provider work was cancelled''"

definition not_registered_error :: "provider_id \<Rightarrow> vox_error" where
  "not_registered_error i =
     vox_error_new EcConfiguration ''provider.not_registered''
       (''provider '' @ provider_id_str i @ '' has no runtime adapter'')"

definition empty_transcript_error :: vox_error where
  "empty_transcript_error =
     vox_error_new EcProtocol ''provider.empty_transcript''
       ''provider returned an empty final transcript''"

definition no_route_error :: vox_error where
  "no_route_error =
     vox_error_new EcUnavailable ''provider.no_route'' ''no provider was attempted''"

fun fallback_reason :: "error_category \<Rightarrow> fallback_reason option" where
  "fallback_reason EcConnection = Some FrConnection"
| "fallback_reason EcTimeout = Some FrTimeout"
| "fallback_reason EcRateLimited = Some FrRateLimited"
| "fallback_reason EcUnavailable = Some FrUnavailable"
| "fallback_reason _ = None"

definition fallback_allowed :: "replay_policy \<Rightarrow> provider_attempt_failure \<Rightarrow> bool" where
  "fallback_allowed replay f =
     (case fallback_reason (err_category (paf_error f)) of
        None \<Rightarrow> False
      | Some reason \<Rightarrow> may_fallback reason (paf_audio_acceptance f) replay)"

definition stops_route :: "replay_policy \<Rightarrow> provider_attempt_failure \<Rightarrow> bool" where
  "stops_route replay f \<longleftrightarrow>
     err_category (paf_error f) = EcCancelled \<or> \<not> err_retryable (paf_error f) \<or>
     \<not> fallback_allowed replay f"

definition route_failed :: "route_attempt list \<Rightarrow> vox_error option \<Rightarrow> recognition_route_result" where
  "route_failed attempts last_error =
     \<lparr> rr_attempts = attempts,
       rr_outcome = Inl (case last_error of None \<Rightarrow> no_route_error | Some e \<Rightarrow> e) \<rparr>"

definition failed_attempt :: "provider_id \<Rightarrow> provider_attempt_failure \<Rightarrow> route_attempt" where
  "failed_attempt i f =
     \<lparr> at_provider_id = i, at_transport_started = paf_transport_started f,
       at_audio_acceptance = paf_audio_acceptance f, at_error = Some (paf_error f) \<rparr>"

definition success_attempt ::
  "provider_id \<Rightarrow> provider_success \<Rightarrow> vox_error option \<Rightarrow> route_attempt" where
  "success_attempt i s e =
     \<lparr> at_provider_id = i, at_transport_started = ps_transport_started s,
       at_audio_acceptance = ps_audio_acceptance s, at_error = e \<rparr>"

fun route_loop ::
  "provider_registry \<Rightarrow> replay_policy \<Rightarrow> recognition_input \<Rightarrow> cancellation_token \<Rightarrow> nat \<Rightarrow>
   provider_id list \<Rightarrow> route_attempt list \<Rightarrow> vox_error option \<Rightarrow> recognition_route_result" where
  "route_loop reg replay input tok now [] attempts last_error = route_failed attempts last_error"
| "route_loop reg replay input tok now (i # rest) attempts last_error =
     (if tok now then route_failed attempts (Some cancelled_error)
      else case reg i of
        None \<Rightarrow>
          route_failed
            (attempts @ [failed_attempt i (before_transport (not_registered_error i))])
            (Some (not_registered_error i))
      | Some provider \<Rightarrow>
          (case pa_recognize provider input tok now of
             (Inr success, _) \<Rightarrow>
               if \<not> is_blank (pt_text (ps_transcript success))
               then \<lparr> rr_attempts = attempts @ [success_attempt i success None],
                      rr_outcome = Inr \<lparr> rs_provider_id = i,
                                         rs_transcript = ps_transcript success \<rparr> \<rparr>
               else route_failed
                      (attempts @ [success_attempt i success (Some empty_transcript_error)])
                      (Some empty_transcript_error)
           | (Inl failure, later) \<Rightarrow>
               (let attempts' = attempts @ [failed_attempt i failure];
                    last_error' = Some (paf_error failure)
                in if stops_route replay failure then route_failed attempts' last_error'
                   else route_loop reg replay input tok later rest attempts' last_error')))"

definition run_recognition_route ::
  "provider_registry \<Rightarrow> route_plan \<Rightarrow> recognition_input \<Rightarrow> cancellation_token \<Rightarrow> nat \<Rightarrow>
   recognition_route_result" where
  "run_recognition_route reg route input tok now =
     route_loop reg (rt_replay route) input tok now (rt_providers route) [] None"

section \<open>The loop\<close>

lemma failed_attempt_simps [simp]:
  "at_provider_id (failed_attempt i f) = i"
  "at_audio_acceptance (failed_attempt i f) = paf_audio_acceptance f"
  "at_transport_started (failed_attempt i f) = paf_transport_started f"
  "at_error (failed_attempt i f) = Some (paf_error f)"
  by (simp_all add: failed_attempt_def)

lemma success_attempt_simps [simp]:
  "at_provider_id (success_attempt i s e) = i"
  "at_audio_acceptance (success_attempt i s e) = ps_audio_acceptance s"
  "at_transport_started (success_attempt i s e) = ps_transport_started s"
  "at_error (success_attempt i s e) = e"
  by (simp_all add: success_attempt_def)

lemma route_failed_simps [simp]:
  "rr_attempts (route_failed attempts e) = attempts"
  "rr_outcome (route_failed attempts e) =
     Inl (case e of None \<Rightarrow> no_route_error | Some e \<Rightarrow> e)"
  by (simp_all add: route_failed_def)

text \<open>What must hold of an attempt for the route to go on after it.\<close>

definition passed_on :: "replay_policy \<Rightarrow> route_attempt \<Rightarrow> bool" where
  "passed_on replay a \<longleftrightarrow>
     (case at_error a of
        None \<Rightarrow> False
      | Some e \<Rightarrow>
          err_retryable e \<and> fallback_reason (err_category e) \<noteq> None \<and>
          (\<not> may_have_left_process (at_audio_acceptance a) \<or> replay = BufferedWithConsent))"

lemma passed_on_failed_attempt:
  "\<not> stops_route replay f \<Longrightarrow> passed_on replay (failed_attempt i f)"
  by (auto simp: stops_route_def passed_on_def fallback_allowed_def may_fallback_iff
      split: option.splits)

lemma route_loop_attempts:
  assumes "list_all (passed_on replay) attempts"
  shows "\<exists>new. rr_attempts (route_loop reg replay input tok now ids attempts e) = attempts @ new \<and>
           list_all (passed_on replay) (butlast (attempts @ new)) \<and>
           map at_provider_id new = take (length new) ids"
  using assms
proof (induction ids arbitrary: now attempts e)
  case Nil
  have "list_all (passed_on replay) (butlast attempts)"
    using Nil by (auto simp: list_all_iff dest: in_set_butlastD)
  then show ?case by auto
next
  case (Cons i ids)
  have bl: "list_all (passed_on replay) (butlast attempts)"
    using Cons.prems by (auto simp: list_all_iff dest: in_set_butlastD)
  show ?case
  proof (cases "\<exists>p f later. \<not> tok now \<and> reg i = Some p \<and>
      pa_recognize p input tok now = (Inl f, later) \<and> \<not> stops_route replay f")
    case True
    then obtain p f later where go: "\<not> tok now" "reg i = Some p"
      "pa_recognize p input tok now = (Inl f, later)" "\<not> stops_route replay f" by blast
    let ?as = "attempts @ [failed_attempt i f]"
    have "list_all (passed_on replay) ?as"
      using Cons.prems go(4) by (simp add: passed_on_failed_attempt)
    from Cons.IH[OF this, of later "Some (paf_error f)"] obtain new where new:
      "rr_attempts (route_loop reg replay input tok later ids ?as (Some (paf_error f))) = ?as @ new"
      "list_all (passed_on replay) (butlast (?as @ new))"
      "map at_provider_id new = take (length new) ids" by blast
    with go show ?thesis
      by (intro exI[of _ "failed_attempt i f # new"]) (simp add: Let_def)
  next
    case False
    show ?thesis
    proof (cases "tok now")
      case True
      then show ?thesis using bl by simp
    next
      case nc: False
      then have "\<exists>a. at_provider_id a = i \<and>
          rr_attempts (route_loop reg replay input tok now (i # ids) attempts e) = attempts @ [a]"
        using False by (auto simp: Let_def split: option.splits prod.splits sum.splits)
      then obtain a where "at_provider_id a = i"
        "rr_attempts (route_loop reg replay input tok now (i # ids) attempts e) = attempts @ [a]"
        by blast
      then show ?thesis using Cons.prems by (intro exI[of _ "[a]"]) simp
    qed
  qed
qed

lemma route_loop_ok:
  assumes "rr_outcome (route_loop reg replay input tok now ids attempts e) = Inr s"
  shows "\<not> is_blank (pt_text (rs_transcript s)) \<and>
         (\<exists>pre a. rr_attempts (route_loop reg replay input tok now ids attempts e) = pre @ [a] \<and>
            at_error a = None \<and> at_provider_id a = rs_provider_id s \<and>
            registry_contains reg (at_provider_id a))"
  using assms
  by (induction ids arbitrary: now attempts e)
     (auto simp: Let_def registry_contains_def split: option.splits if_splits prod.splits sum.splits)

lemma route_loop_err:
  assumes "rr_outcome (route_loop reg replay input tok now ids attempts e) = Inl x"
    and "list_all (\<lambda>a. at_error a \<noteq> None) attempts"
  shows "list_all (\<lambda>a. at_error a \<noteq> None)
           (rr_attempts (route_loop reg replay input tok now ids attempts e))"
  using assms
  by (induction ids arbitrary: now attempts e)
     (auto simp: Let_def split: option.splits if_splits prod.splits sum.splits)

lemma passed_on_error: "passed_on replay a \<Longrightarrow> at_error a \<noteq> None"
  by (auto simp: passed_on_def split: option.splits)

text \<open>The shape of the result of a whole route.\<close>

lemma run_route_shape:
  fixes reg route input tok now
  defines "result \<equiv> run_recognition_route reg route input tok now"
  shows "map at_provider_id (rr_attempts result) =
           take (length (rr_attempts result)) (rt_providers route) \<and>
         list_all (passed_on (rt_replay route)) (butlast (rr_attempts result)) \<and>
         (case rr_outcome result of
            Inr s \<Rightarrow> \<not> is_blank (pt_text (rs_transcript s)) \<and> rr_attempts result \<noteq> [] \<and>
                     at_error (last (rr_attempts result)) = None \<and>
                     at_provider_id (last (rr_attempts result)) = rs_provider_id s \<and>
                     registry_contains reg (rs_provider_id s)
          | Inl e \<Rightarrow> list_all (\<lambda>a. at_error a \<noteq> None) (rr_attempts result))"
proof -
  let ?r = "route_loop reg (rt_replay route) input tok now (rt_providers route) [] None"
  obtain new where "rr_attempts ?r = new" "list_all (passed_on (rt_replay route)) (butlast new)"
      "map at_provider_id new = take (length new) (rt_providers route)"
    using route_loop_attempts[of "rt_replay route" "[]" reg input tok now "rt_providers route" None]
    by auto
  moreover have "\<not> is_blank (pt_text (rs_transcript s)) \<and> rr_attempts ?r \<noteq> [] \<and>
      at_error (last (rr_attempts ?r)) = None \<and>
      at_provider_id (last (rr_attempts ?r)) = rs_provider_id s \<and>
      registry_contains reg (rs_provider_id s)" if "rr_outcome ?r = Inr s" for s
    using route_loop_ok[OF that] by auto
  moreover have "list_all (\<lambda>a. at_error a \<noteq> None) (rr_attempts ?r)"
    if "rr_outcome ?r = Inl e" for e
    using route_loop_err[OF that] by simp
  ultimately show ?thesis
    by (auto simp: result_def run_recognition_route_def split: sum.split)
qed

section \<open>Properties\<close>

abbreviation demo_adapter :: "string \<Rightarrow> recognition_result \<Rightarrow> provider_adapter" where
  "demo_adapter s r \<equiv>
     \<lparr> pa_id = ProviderId s,
       pa_capabilities = \<lparr> languages = [], accepted_formats = [pcm_16khz_mono], streaming = False,
                           partial_results = False, provider_vad = False \<rparr>,
       pa_recognize = (\<lambda>input tok now. (r, now + 1)) \<rparr>"

abbreviation demo_timeout :: recognition_result where
  "demo_timeout \<equiv>
     Inl (after_transport (with_retryable True (vox_error_new EcTimeout ''a.timeout'' []))
            PossiblyAccepted)"

abbreviation demo_refused :: recognition_result where
  "demo_refused \<equiv>
     Inl (after_transport (with_retryable True (vox_error_new EcConnection ''a.connect'' []))
            NotAccepted)"

abbreviation demo_heard :: recognition_result where
  "demo_heard \<equiv>
     Inr \<lparr> ps_transcript = \<lparr> pt_text = [104, 105], pt_usage = provider_usage_default \<rparr>,
           ps_transport_started = True, ps_audio_acceptance = Accepted \<rparr>"

definition demo_registry :: provider_registry where
  "demo_registry =
     [ProviderId ''a'' \<mapsto> demo_adapter ''a'' demo_refused,
      ProviderId ''b'' \<mapsto> demo_adapter ''b'' demo_timeout,
      ProviderId ''c'' \<mapsto> demo_adapter ''c'' demo_heard]"

definition demo_input :: recognition_input where
  "demo_input = \<lparr> ri_pcm_path = ''x.pcm'', ri_language = ''en-US'' \<rparr>"

definition demo_plan :: "replay_policy \<Rightarrow> route_plan" where
  "demo_plan replay =
     \<lparr> rt_providers = map ProviderId [''a'', ''b'', ''c''], rt_replay = replay \<rparr>"

text \<open>
  C3: without the consent to replay buffered audio, at most one provider of a route reports
  that it may have received audio, and it is the last one attempted: as soon as an attempt
  reports that audio may have left the process no other provider is called.
\<close>

theorem audio_disclosed_to_one_provider:
  assumes "rt_replay route \<noteq> BufferedWithConsent"
  shows "list_all (\<lambda>a. \<not> may_have_left_process (at_audio_acceptance a))
           (butlast (rr_attempts (run_recognition_route reg route input tok now)))"
proof -
  have "list_all (passed_on (rt_replay route))
          (butlast (rr_attempts (run_recognition_route reg route input tok now)))"
    using route_loop_attempts[of "rt_replay route" "[]" reg input tok now "rt_providers route" None]
    by (auto simp: run_recognition_route_def)
  then show ?thesis
    using assms by (auto simp: list_all_iff passed_on_def split: option.splits)
qed

theorem audio_disclosed_to_one_provider_witness:
  "length (rr_attempts (run_recognition_route demo_registry (demo_plan Never) demo_input
             token_new 0)) = 2 \<and>
   list_all (\<lambda>a. \<not> may_have_left_process (at_audio_acceptance a))
     (butlast (rr_attempts (run_recognition_route demo_registry (demo_plan Never) demo_input
                              token_new 0)))"
proof
  show "list_all (\<lambda>a. \<not> may_have_left_process (at_audio_acceptance a))
     (butlast (rr_attempts (run_recognition_route demo_registry (demo_plan Never) demo_input
                              token_new 0)))"
    by (rule audio_disclosed_to_one_provider) (simp add: demo_plan_def)
  show "length (rr_attempts (run_recognition_route demo_registry (demo_plan Never) demo_input
             token_new 0)) = 2"
    by (simp add: run_recognition_route_def demo_plan_def demo_registry_def token_new_def
        stops_route_def fallback_allowed_def may_fallback_def)
qed

text \<open>
  C21: the attempts of a route are its first providers in route order, each at most once per
  listing; every attempt but the last ended in a retryable error of a transient category
  that the replay policy lets fall through; and the route succeeds exactly when its last attempt
  has no error, with that provider's nonblank text.
\<close>

theorem route_attempts_in_order:
  fixes reg route input tok now
  defines "result \<equiv> run_recognition_route reg route input tok now"
  shows "map at_provider_id (rr_attempts result) =
           take (length (rr_attempts result)) (rt_providers route) \<and>
         list_all (passed_on (rt_replay route)) (butlast (rr_attempts result)) \<and>
         (case rr_outcome result of
            Inr s \<Rightarrow> \<not> is_blank (pt_text (rs_transcript s)) \<and> rr_attempts result \<noteq> [] \<and>
                     at_error (last (rr_attempts result)) = None \<and>
                     at_provider_id (last (rr_attempts result)) = rs_provider_id s \<and>
                     registry_contains reg (rs_provider_id s)
          | Inl e \<Rightarrow> list_all (\<lambda>a. at_error a \<noteq> None) (rr_attempts result))"
  unfolding result_def by (rule run_route_shape)

text \<open>
  when the flag is set before a provider is dispatched, the route ends with the cancelled
  error and no provider of the rest is attempted, whatever was attempted before.
\<close>

theorem cancelled_route_calls_nobody:
  assumes "tok now" and "rt_providers route \<noteq> []"
  shows "run_recognition_route reg route input tok now =
           \<lparr> rr_attempts = [], rr_outcome = Inl cancelled_error \<rparr> \<and>
         route_loop reg replay input tok now (i # rest) attempts e =
           \<lparr> rr_attempts = attempts, rr_outcome = Inl cancelled_error \<rparr>"
  using assms
  by (auto simp: run_recognition_route_def route_failed_def neq_Nil_conv)

theorem cancelled_route_calls_nobody_witness:
  "run_recognition_route demo_registry (demo_plan Never) demo_input (token_cancel 0 token_new) 0 =
     \<lparr> rr_attempts = [], rr_outcome = Inl cancelled_error \<rparr>"
  using cancelled_route_calls_nobody[where tok = "token_cancel 0 token_new" and now = 0
      and route = "demo_plan Never"]
  by (simp add: token_cancel_def demo_plan_def)

end
