(* ===== verification/Wake.thy ===== *)
theory Wake
  imports Prelude
begin

text \<open>
  The coalescing wake-up channel between the workers and the daemon loop
  (crates/voxtype-app/src/wake.rs): a channel of capacity one whose messages carry nothing.
\<close>

record wake_handle =
  wk_connected :: bool
  wk_pending :: nat

definition wake_disabled :: wake_handle where
  "wake_disabled = \<lparr> wk_connected = False, wk_pending = 0 \<rparr>"

definition wake_channel :: wake_handle where
  "wake_channel = \<lparr> wk_connected = True, wk_pending = 0 \<rparr>"

text \<open>The send is a try: on a full channel it fails and its result is dropped.\<close>

definition wake_notify :: "wake_handle \<Rightarrow> wake_handle" where
  "wake_notify w =
     (if wk_connected w then (if wk_pending w < 1 then w\<lparr> wk_pending := wk_pending w + 1 \<rparr> else w)
      else w)"

definition wake_try_recv :: "wake_handle \<Rightarrow> bool \<times> wake_handle" where
  "wake_try_recv w =
     (if 0 < wk_pending w then (True, w\<lparr> wk_pending := wk_pending w - 1 \<rparr>) else (False, w))"

lemma wake_notify_idem: "wake_notify (wake_notify w) = wake_notify w"
  by (simp add: wake_notify_def)

lemma wake_pending_le: "wk_pending w \<le> 1 \<Longrightarrow> wk_pending (wake_notify w) \<le> 1"
  by (simp add: wake_notify_def)

lemma wake_not_lost:
  "wk_connected w \<Longrightarrow> wk_pending w \<le> 1 \<Longrightarrow> fst (wake_try_recv (wake_notify w))"
  by (simp add: wake_notify_def wake_try_recv_def)

lemma wake_notify_pos: "0 < wk_pending (wake_notify w) \<longleftrightarrow> wk_connected w \<or> 0 < wk_pending w"
  by (auto simp: wake_notify_def)

end
