(* ===== verification/Controller.thy ===== *)
theory Controller
  imports Session_Runs Route Wake
begin

text \<open>
  The application controller (crates/voxtype-app/src/controller.rs): the single owner of the
  session machine, the bounded queue of lifecycle events, the bounded cache of terminal
  results, and the health and usage of the providers. An instant is a number of nanoseconds.
\<close>

section \<open>State\<close>

definition max_pending_events :: nat where
  "max_pending_events = 256"

definition max_session_results :: nat where
  "max_session_results = 32"

type_synonym instant = nat

definition provider_verification_ttl :: nat where
  "provider_verification_ttl = secs (15 * 60)"

datatype app_event =
    StateChanged string string
  | SessionFinished string string string string "64 word"

record terminal_session_result =
  tr_session :: string
  tr_outcome :: string
  tr_error_code :: string
  tr_backend :: string
  tr_char_count :: "64 word"

record provider_health_state =
  hs_consecutive_failures :: "32 word"
  hs_blocked_until :: "instant option"
  hs_last_success_at :: "instant option"
  hs_last_failure_at :: "instant option"
  hs_last_error_category :: "error_category option"
  hs_last_error_code :: "string option"

definition provider_health_state_default :: provider_health_state where
  "provider_health_state_default =
     \<lparr> hs_consecutive_failures = 0, hs_blocked_until = None, hs_last_success_at = None,
       hs_last_failure_at = None, hs_last_error_category = None, hs_last_error_code = None \<rparr>"

record provider_health_snapshot =
  hsn_route_available :: bool
  hsn_verified :: bool
  hsn_verified_age_seconds :: "nat option"
  hsn_verification_ttl_seconds :: nat
  hsn_consecutive_failures :: "32 word"
  hsn_retry_after_seconds :: "nat option"
  hsn_last_failure_age_seconds :: "nat option"
  hsn_last_error_category :: "error_category option"
  hsn_last_error_code :: "string option"

record provider_usage_snapshot =
  us_attempts :: "64 word"
  us_requests :: "64 word"
  us_successes :: "64 word"
  us_failures :: "64 word"
  us_audio_millis :: "64 word"
  us_token_reports :: "64 word"
  us_input_tokens :: "64 word"
  us_output_tokens :: "64 word"
  us_total_tokens :: "64 word"
  us_reported_tokens :: "64 word"

definition provider_usage_snapshot_default :: provider_usage_snapshot where
  "provider_usage_snapshot_default =
     \<lparr> us_attempts = 0, us_requests = 0, us_successes = 0, us_failures = 0, us_audio_millis = 0,
       us_token_reports = 0, us_input_tokens = 0, us_output_tokens = 0, us_total_tokens = 0,
       us_reported_tokens = 0 \<rparr>"

record app_controller =
  ac_machine :: session_machine
  ac_events :: "app_event list"
  ac_session_results :: "terminal_session_result list"
  ac_registry :: provider_registry
  ac_provider_health :: "provider_id \<rightharpoonup> provider_health_state"
  ac_provider_usage :: "provider_id \<rightharpoonup> provider_usage_snapshot"
  ac_wake :: wake_handle

definition app_with_wake :: "provider_registry \<Rightarrow> wake_handle \<Rightarrow> app_controller" where
  "app_with_wake reg wake =
     \<lparr> ac_machine = session_machine_default,
       ac_events = [StateChanged ''idle'' []],
       ac_session_results = [],
       ac_registry = reg,
       ac_provider_health = Map.empty,
       ac_provider_usage = Map.empty,
       ac_wake = wake \<rparr>"

section \<open>Health of one provider\<close>

definition is_available_at :: "provider_health_state \<Rightarrow> instant \<Rightarrow> bool" where
  "is_available_at h now =
     (case hs_blocked_until h of None \<Rightarrow> True | Some deadline \<Rightarrow> deadline \<le> now)"

definition record_success_at :: "instant \<Rightarrow> provider_health_state \<Rightarrow> provider_health_state" where
  "record_success_at now h =
     h\<lparr> hs_last_success_at := Some now, hs_consecutive_failures := 0, hs_blocked_until := None \<rparr>"

definition record_failure_at ::
  "instant \<Rightarrow> vox_error \<Rightarrow> provider_health_state \<Rightarrow> provider_health_state" where
  "record_failure_at now e h0 =
     (let h = h0\<lparr> hs_last_failure_at := Some now,
                 hs_last_error_category := Some (err_category e),
                 hs_last_error_code := Some (err_code e) \<rparr>
      in if err_retryable e
         then let h' = h\<lparr> hs_consecutive_failures := sat_add (hs_consecutive_failures h) 1 \<rparr>
              in if 3 \<le> hs_consecutive_failures h'
                 then h'\<lparr> hs_blocked_until := Some (now + secs 60) \<rparr> else h'
         else h)"

definition verified_at :: "provider_health_state \<Rightarrow> instant \<Rightarrow> bool" where
  "verified_at h now =
     (case hs_last_success_at h of
        None \<Rightarrow> False | Some success \<Rightarrow> now - success \<le> provider_verification_ttl)"

section \<open>Usage of one provider\<close>

definition or_zero :: "64 word option \<Rightarrow> 64 word" where
  "or_zero x = (case x of None \<Rightarrow> 0 | Some n \<Rightarrow> n)"

definition usage_record_success ::
  "provider_usage \<Rightarrow> provider_usage_snapshot \<Rightarrow> provider_usage_snapshot" where
  "usage_record_success usage u0 =
     (let u = u0\<lparr> us_successes := sat_add (us_successes u0) 1 \<rparr>
      in if pu_input_tokens usage = None \<and> pu_output_tokens usage = None \<and>
            pu_total_tokens usage = None
         then u
         else
           let reported = (case pu_total_tokens usage of
                             Some tot \<Rightarrow> tot
                           | None \<Rightarrow> sat_add (or_zero (pu_input_tokens usage))
                                            (or_zero (pu_output_tokens usage)))
           in u\<lparr> us_token_reports := sat_add (us_token_reports u) 1,
                us_input_tokens := sat_add (us_input_tokens u) (or_zero (pu_input_tokens usage)),
                us_output_tokens := sat_add (us_output_tokens u) (or_zero (pu_output_tokens usage)),
                us_total_tokens := sat_add (us_total_tokens u) (or_zero (pu_total_tokens usage)),
                us_reported_tokens := sat_add (us_reported_tokens u) reported \<rparr>)"

section \<open>Operations of the controller\<close>

definition backpressure_error :: vox_error where
  "backpressure_error =
     with_retryable True
       (vox_error_new EcUnavailable ''app.event_backpressure''
          ''application event queue is temporarily full'')"

definition session_string :: "session_state \<Rightarrow> string" where
  "session_string st = (case state_session st of None \<Rightarrow> [] | Some s \<Rightarrow> session_str s)"

definition state_snapshot :: "app_controller \<Rightarrow> string \<times> string" where
  "state_snapshot a =
     (state_name (sm_state (ac_machine a)), session_string (sm_state (ac_machine a)))"

definition queue_current_state :: "app_controller \<Rightarrow> app_controller" where
  "queue_current_state a =
     a\<lparr> ac_events := ac_events a @ [StateChanged (fst (state_snapshot a)) (snd (state_snapshot a))] \<rparr>"

definition notify :: "app_controller \<Rightarrow> app_controller" where
  "notify a = a\<lparr> ac_wake := wake_notify (ac_wake a) \<rparr>"

text \<open>The position of the first match is removed from the cache, if there is one.\<close>

fun remove_first :: "('a \<Rightarrow> bool) \<Rightarrow> 'a list \<Rightarrow> 'a list" where
  "remove_first p [] = []"
| "remove_first p (x # xs) = (if p x then xs else x # remove_first p xs)"

definition queue_session_finished ::
  "session_id \<Rightarrow> string \<Rightarrow> string \<Rightarrow> string \<Rightarrow> 64 word \<Rightarrow> app_controller \<Rightarrow> app_controller" where
  "queue_session_finished session outcome error_code backend char_count a =
     (let kept = remove_first (\<lambda>r. tr_session r = session_str session) (ac_session_results a);
          result = \<lparr> tr_session = session_str session, tr_outcome = outcome,
                     tr_error_code = error_code, tr_backend = backend,
                     tr_char_count = char_count \<rparr>
      in a\<lparr> ac_session_results := push_bounded max_session_results result kept,
           ac_events := ac_events a @
             [SessionFinished (session_str session) outcome error_code backend char_count] \<rparr>)"

text \<open>The commands that end a session without an insertion announce its result at once.\<close>

fun terminal_of :: "command \<Rightarrow> (session_id \<times> string \<times> string) option" where
  "terminal_of (CmdCancel s) = Some (s, ''cancelled'', [])"
| "terminal_of (CmdNoSpeech s) = Some (s, ''no-speech'', [])"
| "terminal_of (CmdFail s e) = Some (s, ''failed'', err_code e)"
| "terminal_of _ = None"

definition app_apply :: "command \<Rightarrow> app_controller \<Rightarrow> command_effect outcome \<times> app_controller" where
  "app_apply c a =
     (if length (ac_events a) > max_pending_events - 2 then (Inl backpressure_error, a)
      else case sm_apply c (ac_machine a) of
             (Inl e, m) \<Rightarrow> (Inl e, a\<lparr> ac_machine := m \<rparr>)
           | (Inr effect, m) \<Rightarrow>
               let a1 = queue_current_state (a\<lparr> ac_machine := m \<rparr>);
                   a2 = (case terminal_of c of
                           None \<Rightarrow> a1
                         | Some (session, outcome, error_code) \<Rightarrow>
                             queue_session_finished session outcome error_code [] 0 a1)
               in (Inr effect, notify a2))"

definition finish_session ::
  "session_id \<Rightarrow> string \<Rightarrow> string \<Rightarrow> string \<Rightarrow> 64 word \<Rightarrow> app_controller \<Rightarrow>
   unit outcome \<times> app_controller" where
  "finish_session session outcome error_code backend char_count a =
     (if length (ac_events a) = max_pending_events then (Inl backpressure_error, a)
      else (Inr (),
            notify (queue_session_finished session outcome error_code backend char_count a)))"

definition session_result :: "string \<Rightarrow> app_controller \<Rightarrow> terminal_session_result option" where
  "session_result session a = List.find (\<lambda>r. tr_session r = session) (rev (ac_session_results a))"

definition drain_events :: "app_controller \<Rightarrow> app_event list \<times> app_controller" where
  "drain_events a = (ac_events a, a\<lparr> ac_events := [] \<rparr>)"

definition replace_registry :: "provider_registry \<Rightarrow> app_controller \<Rightarrow> app_controller" where
  "replace_registry reg a = a\<lparr> ac_registry := reg, ac_provider_health := Map.empty \<rparr>"

definition health_entry :: "app_controller \<Rightarrow> provider_id \<Rightarrow> provider_health_state" where
  "health_entry a i =
     (case ac_provider_health a i of None \<Rightarrow> provider_health_state_default | Some h \<Rightarrow> h)"

definition provider_usage_snapshot :: "app_controller \<Rightarrow> provider_id \<Rightarrow> provider_usage_snapshot" where
  "provider_usage_snapshot a i =
     (case ac_provider_usage a i of None \<Rightarrow> provider_usage_snapshot_default | Some u \<Rightarrow> u)"

definition route_available :: "app_controller \<Rightarrow> instant \<Rightarrow> provider_id \<Rightarrow> bool" where
  "route_available a now i \<longleftrightarrow>
     registry_contains (ac_registry a) i \<and>
     (case ac_provider_health a i of None \<Rightarrow> True | Some h \<Rightarrow> is_available_at h now)"

definition plan_route ::
  "routing_policy \<Rightarrow> instant \<Rightarrow> app_controller \<Rightarrow> route_plan outcome" where
  "plan_route policy now a =
     (let ids = rp_primary policy # rp_fallbacks policy;
          health = map_of (map (\<lambda>i. (i, \<lparr> ph_available = route_available a now i,
                                         ph_consecutive_failures =
                                           (case ac_provider_health a i of
                                              None \<Rightarrow> 0 | Some h \<Rightarrow> hs_consecutive_failures h) \<rparr>))
                               (rev ids))
      in ordered_router_plan policy health)"

definition record_attempt ::
  "64 word \<Rightarrow> instant \<Rightarrow> route_attempt \<Rightarrow> app_controller \<Rightarrow> app_controller" where
  "record_attempt audio_millis now attempt a =
     (let i = at_provider_id attempt;
          u0 = provider_usage_snapshot a i;
          u1 = u0\<lparr> us_attempts := sat_add (us_attempts u0) 1 \<rparr>;
          u2 = (if at_transport_started attempt
                then u1\<lparr> us_requests := sat_add (us_requests u1) 1 \<rparr> else u1);
          u3 = (if may_have_left_process (at_audio_acceptance attempt)
                then u2\<lparr> us_audio_millis := sat_add (us_audio_millis u2) audio_millis \<rparr> else u2)
      in case at_error attempt of
           None \<Rightarrow> a\<lparr> ac_provider_usage := (ac_provider_usage a)(i \<mapsto> u3) \<rparr>
         | Some e \<Rightarrow>
             if err_category e = EcCancelled
             then a\<lparr> ac_provider_usage := (ac_provider_usage a)(i \<mapsto> u3) \<rparr>
             else a\<lparr> ac_provider_usage := (ac_provider_usage a)
                       (i \<mapsto> u3\<lparr> us_failures := sat_add (us_failures u3) 1 \<rparr>),
                    ac_provider_health := (ac_provider_health a)
                       (i \<mapsto> record_failure_at now e (health_entry a i)) \<rparr>)"

definition record_route_success ::
  "instant \<Rightarrow> recognition_success \<Rightarrow> app_controller \<Rightarrow> app_controller" where
  "record_route_success now success a =
     (let i = rs_provider_id success
      in a\<lparr> ac_provider_health := (ac_provider_health a)
             (i \<mapsto> record_success_at now (health_entry a i)),
           ac_provider_usage := (ac_provider_usage a)
             (i \<mapsto> usage_record_success (pt_usage (rs_transcript success))
                    (provider_usage_snapshot a i)) \<rparr>)"

definition record_route_result ::
  "recognition_route_result \<Rightarrow> 64 word \<Rightarrow> instant \<Rightarrow> app_controller \<Rightarrow> app_controller" where
  "record_route_result result audio_millis now a =
     (let a' = fold (record_attempt audio_millis now) (rr_attempts result) a
      in case rr_outcome result of Inl _ \<Rightarrow> a' | Inr success \<Rightarrow> record_route_success now success a')"

definition provider_health_snapshot ::
  "app_controller \<Rightarrow> provider_id \<Rightarrow> instant \<Rightarrow> provider_health_snapshot" where
  "provider_health_snapshot a i now =
     (let state = ac_provider_health a i;
          age = (\<lambda>instant. map_option (\<lambda>t. as_secs (now - t)) instant)
      in \<lparr> hsn_route_available = route_available a now i,
           hsn_verified = (case state of None \<Rightarrow> False | Some h \<Rightarrow> verified_at h now),
           hsn_verified_age_seconds = Option.bind state (\<lambda>h. age (hs_last_success_at h)),
           hsn_verification_ttl_seconds = as_secs provider_verification_ttl,
           hsn_consecutive_failures =
             (case state of None \<Rightarrow> 0 | Some h \<Rightarrow> hs_consecutive_failures h),
           hsn_retry_after_seconds =
             Option.bind (Option.bind state hs_blocked_until)
               (\<lambda>deadline. if now \<le> deadline then Some (as_secs (deadline - now)) else None),
           hsn_last_failure_age_seconds = Option.bind state (\<lambda>h. age (hs_last_failure_at h)),
           hsn_last_error_category = Option.bind state hs_last_error_category,
           hsn_last_error_code = Option.bind state hs_last_error_code \<rparr>)"

end
