(* ===== verification/Controller_Lifecycle.thy ===== *)
theory Controller_Lifecycle
  imports Controller
begin

text \<open>
  What the controller promises of its lifecycle: the bounds of its queue and cache, the
  published event stream as a lossless account of the accepted operations, and the lookup of
  terminal results.
\<close>

section \<open>Operations as one step function\<close>

datatype app_op =
    OpApply command
  | OpFinish session_id string string string "64 word"
  | OpDrain
  | OpReplaceRegistry provider_registry
  | OpRecord recognition_route_result "64 word" instant

datatype app_reply =
    ReEffect "command_effect outcome"
  | ReFinished "unit outcome"
  | ReEvents "app_event list"
  | ReNone

fun app_step :: "app_op \<Rightarrow> app_controller \<Rightarrow> app_reply \<times> app_controller" where
  "app_step (OpApply c) a = (let (r, a') = app_apply c a in (ReEffect r, a'))"
| "app_step (OpFinish s oc e b n) a = (let (r, a') = finish_session s oc e b n a in (ReFinished r, a'))"
| "app_step OpDrain a = (let (evs, a') = drain_events a in (ReEvents evs, a'))"
| "app_step (OpReplaceRegistry reg) a = (ReNone, replace_registry reg a)"
| "app_step (OpRecord result millis now) a = (ReNone, record_route_result result millis now a)"

section \<open>Accounting leaves the lifecycle alone\<close>

lemma record_attempt_frame [simp]:
  "ac_machine (record_attempt ms now at a) = ac_machine a"
  "ac_events (record_attempt ms now at a) = ac_events a"
  "ac_session_results (record_attempt ms now at a) = ac_session_results a"
  "ac_registry (record_attempt ms now at a) = ac_registry a"
  "ac_wake (record_attempt ms now at a) = ac_wake a"
  by (simp_all add: record_attempt_def Let_def split: option.splits)

lemma fold_record_attempt_frame [simp]:
  "ac_machine (fold (record_attempt ms now) ats a) = ac_machine a"
  "ac_events (fold (record_attempt ms now) ats a) = ac_events a"
  "ac_session_results (fold (record_attempt ms now) ats a) = ac_session_results a"
  "ac_registry (fold (record_attempt ms now) ats a) = ac_registry a"
  "ac_wake (fold (record_attempt ms now) ats a) = ac_wake a"
  by (induction ats arbitrary: a) simp_all

lemma record_route_result_frame [simp]:
  "ac_machine (record_route_result r ms now a) = ac_machine a"
  "ac_events (record_route_result r ms now a) = ac_events a"
  "ac_session_results (record_route_result r ms now a) = ac_session_results a"
  "ac_registry (record_route_result r ms now a) = ac_registry a"
  "ac_wake (record_route_result r ms now a) = ac_wake a"
  by (simp_all add: record_route_result_def record_route_success_def Let_def split: sum.splits)

lemma replace_registry_frame [simp]:
  "ac_machine (replace_registry reg a) = ac_machine a"
  "ac_events (replace_registry reg a) = ac_events a"
  "ac_session_results (replace_registry reg a) = ac_session_results a"
  by (simp_all add: replace_registry_def)

lemma queue_current_state_simps [simp]:
  "ac_machine (queue_current_state a) = ac_machine a"
  "ac_session_results (queue_current_state a) = ac_session_results a"
  "ac_events (queue_current_state a) =
     ac_events a @ [StateChanged (state_name (sm_state (ac_machine a)))
                                 (session_string (sm_state (ac_machine a)))]"
  by (simp_all add: queue_current_state_def state_snapshot_def)

lemma notify_simps [simp]:
  "ac_machine (notify a) = ac_machine a"
  "ac_session_results (notify a) = ac_session_results a"
  "ac_events (notify a) = ac_events a"
  by (simp_all add: notify_def)

lemma queue_session_finished_simps [simp]:
  "ac_machine (queue_session_finished s oc e b n a) = ac_machine a"
  "ac_events (queue_session_finished s oc e b n a) =
     ac_events a @ [SessionFinished (session_str s) oc e b n]"
  by (simp_all add: queue_session_finished_def Let_def)

section \<open>The cache of terminal results\<close>

lemma remove_first_length: "length (remove_first p xs) \<le> length xs"
  by (induction xs) auto

lemma remove_first_subset: "set (remove_first p xs) \<subseteq> set xs"
  by (induction xs) auto

lemma remove_first_distinct_map: "distinct (map f xs) \<Longrightarrow> distinct (map f (remove_first p xs))"
  by (induction xs) (use remove_first_subset in fastforce)+

lemma remove_first_key:
  "distinct (map f xs) \<Longrightarrow> remove_first (\<lambda>x. f x = k) xs = filter (\<lambda>x. f x \<noteq> k) xs"
  by (induction xs) (auto intro!: filter_True[symmetric] intro: rev_image_eqI)

interpretation results: bounded_recent max_session_results "push_bounded max_session_results"
  by (rule bounded_recent_push_bounded) (simp add: max_session_results_def)

definition results_wf :: "terminal_session_result list \<Rightarrow> bool" where
  "results_wf rs \<longleftrightarrow> length rs \<le> max_session_results \<and> distinct (map tr_session rs)"

definition remember_result ::
  "terminal_session_result \<Rightarrow> terminal_session_result list \<Rightarrow> terminal_session_result list" where
  "remember_result r rs =
     push_bounded max_session_results r (remove_first (\<lambda>x. tr_session x = tr_session r) rs)"

lemma queue_session_finished_results [simp]:
  "ac_session_results (queue_session_finished s oc e b n a) =
     remember_result \<lparr> tr_session = session_str s, tr_outcome = oc, tr_error_code = e,
                       tr_backend = b, tr_char_count = n \<rparr> (ac_session_results a)"
  by (simp add: queue_session_finished_def remember_result_def Let_def)

lemma distinct_map_push:
  assumes "distinct (map f xs)" and "f x \<notin> f ` set xs"
  shows "distinct (map f (push_bounded cap x xs))"
proof -
  have "distinct (map f (tl xs))" "f x \<notin> f ` set (tl xs)"
    using assms by (cases xs; auto)+
  then show ?thesis using assms by (simp add: push_bounded_def)
qed

lemma remember_result_wf: "results_wf rs \<Longrightarrow> results_wf (remember_result r rs)"
  unfolding results_wf_def remember_result_def
proof (elim conjE, intro conjI)
  assume len: "length rs \<le> max_session_results" and dist: "distinct (map tr_session rs)"
  let ?kept = "remove_first (\<lambda>x. tr_session x = tr_session r) rs"
  have "length ?kept \<le> max_session_results"
    using remove_first_length[of "\<lambda>x. tr_session x = tr_session r" rs] len by linarith
  then show "length (push_bounded max_session_results r ?kept) \<le> max_session_results"
    by (rule results.push_length)
  show "distinct (map tr_session (push_bounded max_session_results r ?kept))"
    by (rule distinct_map_push)
       (use dist in \<open>auto simp: remove_first_key distinct_map_filter\<close>)
qed

section \<open>The invariant\<close>

definition ac_wf :: "app_controller \<Rightarrow> bool" where
  "ac_wf a \<longleftrightarrow>
     sm_wf (ac_machine a) \<and> length (ac_events a) \<le> max_pending_events \<and>
     results_wf (ac_session_results a)"

lemma ac_wf_with_wake: "ac_wf (app_with_wake reg w)"
  by (simp add: ac_wf_def app_with_wake_def sm_wf_default max_pending_events_def results_wf_def)

lemma app_apply_wf: "ac_wf a \<Longrightarrow> ac_wf (snd (app_apply c a))"
  using sm_step_wf[of "ac_machine a" c]
  by (auto simp: app_apply_def ac_wf_def max_pending_events_def Let_def remember_result_wf
      split: prod.splits sum.splits option.splits)

lemma finish_session_wf: "ac_wf a \<Longrightarrow> ac_wf (snd (finish_session s oc e b n a))"
  by (auto simp: finish_session_def ac_wf_def remember_result_wf)

lemma ac_wf_frames:
  "ac_wf a \<Longrightarrow> ac_wf (snd (drain_events a))"
  "ac_wf a \<Longrightarrow> ac_wf (replace_registry reg a)"
  "ac_wf a \<Longrightarrow> ac_wf (record_route_result r ms now a)"
  by (simp_all add: drain_events_def ac_wf_def)

lemma app_step_wf: "ac_wf a \<Longrightarrow> ac_wf (snd (app_step op a))"
  by (cases op)
     (simp_all add: case_prod_beta Let_def app_apply_wf finish_session_wf ac_wf_frames)

fun app_rejected :: "app_reply \<Rightarrow> bool" where
  "app_rejected (ReEffect r) = is_err r"
| "app_rejected (ReFinished r) = is_err r"
| "app_rejected _ = False"

lemma app_apply_rejected: "is_err (fst (app_apply c a)) \<Longrightarrow> snd (app_apply c a) = a"
  using sm_rejected_same[of c "ac_machine a"]
  by (auto simp: app_apply_def Let_def split: prod.splits sum.splits)

lemma app_step_rejected: "app_rejected (fst (app_step op a)) \<Longrightarrow> snd (app_step op a) = a"
  using app_apply_rejected[of _ a]
  by (cases op) (auto simp: finish_session_def drain_events_def Let_def case_prod_beta
      split: if_splits)

interpretation app: atomic_machine app_step ac_wf app_rejected
  by unfold_locales (simp_all add: app_step_wf app_step_rejected)

section \<open>The event stream\<close>

definition state_event :: "session_state \<Rightarrow> app_event" where
  "state_event st = StateChanged (state_name st) (session_string st)"

text \<open>What an accepted operation announces.\<close>

definition finished_event :: "command \<Rightarrow> app_event list" where
  "finished_event c =
     (case terminal_of c of
        None \<Rightarrow> []
      | Some (s, outcome, code) \<Rightarrow> [SessionFinished (session_str s) outcome code [] 0])"

fun announces :: "app_op \<Rightarrow> app_controller \<Rightarrow> app_event list" where
  "announces (OpApply c) a =
     (if is_ok (fst (app_apply c a))
      then state_event (sm_state (snd (sm_apply c (ac_machine a)))) # finished_event c else [])"
| "announces (OpFinish s oc e b n) a =
     (if is_ok (fst (finish_session s oc e b n a)) then [SessionFinished (session_str s) oc e b n]
      else [])"
| "announces _ a = []"

fun announced :: "app_op list \<Rightarrow> app_controller \<Rightarrow> app_event list" where
  "announced [] a = []"
| "announced (op # ops) a = announces op a @ announced ops (snd (app_step op a))"

text \<open>What a reader receives: the events of every drain, and what is still queued.\<close>

fun published :: "app_op list \<Rightarrow> app_controller \<Rightarrow> app_event list" where
  "published [] a = ac_events a"
| "published (op # ops) a =
     (case fst (app_step op a) of ReEvents evs \<Rightarrow> evs | _ \<Rightarrow> []) @ published ops (snd (app_step op a))"

lemma app_apply_events:
  "ac_events (snd (app_apply c a)) = ac_events a @ announces (OpApply c) a"
  by (auto simp: app_apply_def Let_def state_event_def finished_event_def
      split: prod.splits sum.splits option.splits)

lemma app_step_events:
  "(case fst (app_step op a) of ReEvents evs \<Rightarrow> evs | _ \<Rightarrow> []) @ ac_events (snd (app_step op a)) =
     ac_events a @ announces op a"
  using app_apply_events[of _ a]
  by (cases op) (auto simp: finish_session_def drain_events_def Let_def case_prod_beta)

lemma published_announced: "published ops a = ac_events a @ announced ops a"
proof (induction ops arbitrary: a)
  case (Cons op ops)
  have "published (op # ops) a =
      ((case fst (app_step op a) of ReEvents evs \<Rightarrow> evs | _ \<Rightarrow> []) @ ac_events (snd (app_step op a)))
        @ announced ops (snd (app_step op a))"
    by (simp add: Cons)
  then show ?case by (simp only: app_step_events announced.simps append_assoc)
qed simp

section \<open>Lookup of terminal results\<close>

definition lookup_result ::
  "string \<Rightarrow> terminal_session_result list \<Rightarrow> terminal_session_result option" where
  "lookup_result k rs = List.find (\<lambda>r. tr_session r = k) (rev rs)"

lemma session_result_lookup: "session_result k a = lookup_result k (ac_session_results a)"
  by (simp add: session_result_def lookup_result_def)

lemma lookup_result_Some:
  assumes "distinct (map tr_session rs)"
  shows "lookup_result k rs = Some r \<longleftrightarrow> r \<in> set rs \<and> tr_session r = k"
proof
  assume "lookup_result k rs = Some r"
  then show "r \<in> set rs \<and> tr_session r = k"
    by (auto simp: lookup_result_def find_Some_iff in_set_conv_nth[of _ "rev rs", simplified])
next
  assume r: "r \<in> set rs \<and> tr_session r = k"
  then obtain r' where r': "lookup_result k rs = Some r'"
    by (cases "lookup_result k rs") (auto simp: lookup_result_def find_None_iff)
  then have "r' \<in> set rs \<and> tr_session r' = k"
    by (auto simp: lookup_result_def find_Some_iff in_set_conv_nth[of _ "rev rs", simplified])
  then have "r' = r" using r assms by (metis inj_onD distinct_map)
  with r' show "lookup_result k rs = Some r" by simp
qed

lemma lookup_result_None: "lookup_result k rs = None \<longleftrightarrow> k \<notin> tr_session ` set rs"
  by (auto simp: lookup_result_def find_None_iff)

lemma lookup_result_cong:
  assumes "distinct (map tr_session rs)" and "distinct (map tr_session rs')"
    and "\<And>x. tr_session x = k \<Longrightarrow> x \<in> set rs \<longleftrightarrow> x \<in> set rs'"
  shows "lookup_result k rs = lookup_result k rs'"
  using lookup_result_Some[OF assms(1), of k] lookup_result_Some[OF assms(2), of k] assms(3)
  by (metis option.exhaust)

lemma lookup_remember_same:
  "results_wf rs \<Longrightarrow> lookup_result (tr_session r) (remember_result r rs) = Some r"
  using remember_result_wf[of rs r]
  by (subst lookup_result_Some) (auto simp: results_wf_def remember_result_def push_bounded_def)

lemma lookup_remember_other:
  assumes wf: "results_wf rs" and k: "k \<noteq> tr_session r"
  shows "lookup_result k (remember_result r rs) = lookup_result k rs \<or>
         (lookup_result k (remember_result r rs) = None \<and> length rs = max_session_results \<and>
          tr_session (hd rs) = k)"
proof -
  let ?kept = "remove_first (\<lambda>x. tr_session x = tr_session r) rs"
  have dist: "distinct (map tr_session rs)" "distinct (map tr_session (remember_result r rs))"
    using wf remember_result_wf[OF wf, of r] by (simp_all add: results_wf_def)
  have kept: "?kept = filter (\<lambda>x. tr_session x \<noteq> tr_session r) rs"
    using dist(1) by (rule remove_first_key)
  have old: "x \<in> set rs \<and> tr_session x = k \<longleftrightarrow> x \<in> set ?kept \<and> tr_session x = k" for x
    using k by (auto simp: kept)
  show ?thesis
  proof (cases "length ?kept = max_session_results")
    case False
    have "lookup_result k (remember_result r rs) = lookup_result k rs"
      by (rule lookup_result_cong[OF dist(2,1)])
         (use old k False in \<open>auto simp: remember_result_def push_bounded_def\<close>)
    then show ?thesis ..
  next
    case True
    have "length ?kept \<le> length rs" by (rule remove_first_length)
    then have full: "length rs = max_session_results" using True wf by (simp add: results_wf_def)
    then have "?kept = rs" using True kept
      by (metis length_filter_less filter_True less_irrefl)
    then have eq: "remember_result r rs = tl rs @ [r]"
      using full by (simp add: remember_result_def push_bounded_def)
    obtain h t where ht: "rs = h # t"
      using full by (cases rs) (auto simp: max_session_results_def)
    show ?thesis
    proof (cases "tr_session h = k")
      case True
      then show ?thesis
        using dist(1) full k eq by (auto simp: ht lookup_result_None)
    next
      case False
      have "lookup_result k (remember_result r rs) = lookup_result k rs"
        by (rule lookup_result_cong[OF dist(2,1)]) (use k ht False eq in auto)
      then show ?thesis ..
    qed
  qed
qed

section \<open>Properties\<close>

text \<open>
  C14: whatever sequence of operations is run from a new controller, at most 256 events are
  queued, at most 32 terminal results are kept and no two of them are of one session; an
  operation that returns an error has changed nothing.
\<close>

theorem controller_bounds:
  fixes ops reg w
  defines "a \<equiv> snd (run_steps app_step ops (app_with_wake reg w))"
  shows "length (ac_events a) \<le> 256 \<and> length (ac_session_results a) \<le> 32 \<and>
         distinct (map tr_session (ac_session_results a)) \<and>
         (\<forall>op. app_rejected (fst (app_step op a)) \<longrightarrow> snd (app_step op a) = a)"
  using app.run_inv[OF ac_wf_with_wake, of ops reg w]
  by (simp add: a_def ac_wf_def results_wf_def max_pending_events_def max_session_results_def
      app_step_rejected)

theorem controller_bounds_witness:
  "\<exists>op. let a = snd (run_steps app_step [OpDrain] (app_with_wake Map.empty wake_channel))
        in app_rejected (fst (app_step op a)) \<and> snd (app_step op a) = a"
proof -
  let ?a = "snd (run_steps app_step [OpDrain] (app_with_wake Map.empty wake_channel))"
  have "app_rejected (fst (app_step (OpApply (CmdStop (from_counter 1))) ?a))"
    by (simp add: drain_events_def app_apply_def app_with_wake_def max_pending_events_def
        sm_stop_def session_machine_default_def)
  moreover from this have "snd (app_step (OpApply (CmdStop (from_counter 1))) ?a) = ?a"
    using controller_bounds[of "[OpDrain]" Map.empty wake_channel] by blast
  ultimately show ?thesis unfolding Let_def by blast
qed

text \<open>
  C13: the event stream is a lossless account of the session: what readers have drained
  together with what is still queued is the initial idle state followed by, for every accepted
  operation in order, the state it led to and then the terminal result it announced; a
  rejected operation publishes nothing.
\<close>

theorem events_are_lossless:
  "published ops (app_with_wake reg w) =
     StateChanged ''idle'' [] # announced ops (app_with_wake reg w)"
  by (simp add: published_announced app_with_wake_def)

text \<open>
  finishing a session makes its result the one that polling clients read, replaces an
  earlier result of the same session, and changes the answer for another session only by
  forgetting the oldest one when 32 are kept.
\<close>

theorem finish_session_result:
  assumes "ac_wf a" and "finish_session s oc e b n a = (Inr (), a')"
  shows "session_result (session_str s) a' =
           Some \<lparr> tr_session = session_str s, tr_outcome = oc, tr_error_code = e, tr_backend = b,
                  tr_char_count = n \<rparr> \<and>
         (\<forall>k. k \<noteq> session_str s \<longrightarrow>
            session_result k a' = session_result k a \<or>
            (session_result k a' = None \<and> length (ac_session_results a) = 32 \<and>
             tr_session (hd (ac_session_results a)) = k))"
proof -
  let ?r = "\<lparr> tr_session = session_str s, tr_outcome = oc, tr_error_code = e, tr_backend = b,
              tr_char_count = n \<rparr>"
  have "ac_session_results a' = remember_result ?r (ac_session_results a)"
    using assms(2) by (auto simp: finish_session_def split: if_splits)
  moreover have "results_wf (ac_session_results a)" using assms(1) by (simp add: ac_wf_def)
  ultimately show ?thesis
    using lookup_remember_same[of "ac_session_results a" ?r]
      lookup_remember_other[of "ac_session_results a" _ ?r]
    by (auto simp: session_result_lookup max_session_results_def)
qed

theorem finish_session_result_witness:
  "session_result ''session-1''
     (snd (finish_session (SessionId ''session-1'') ''completed'' [] ''fcitx'' 5
        (app_with_wake Map.empty wake_disabled))) =
   Some \<lparr> tr_session = ''session-1'', tr_outcome = ''completed'', tr_error_code = [],
          tr_backend = ''fcitx'', tr_char_count = 5 \<rparr>"
proof -
  let ?a = "app_with_wake Map.empty wake_disabled"
  let ?f = "finish_session (SessionId ''session-1'') ''completed'' [] ''fcitx'' 5 ?a"
  have "?f = (Inr (), snd ?f)"
    by (simp add: finish_session_def app_with_wake_def max_pending_events_def)
  from finish_session_result[OF ac_wf_with_wake this] show ?thesis by simp
qed

text \<open>
  cancelling a session that has already completed is accepted: it publishes a second
  terminal event and the stored result of the session becomes cancelled.
\<close>

theorem cancel_overwrites_completed_result:
  assumes "ac_wf a" and "length (ac_events a) \<le> 254"
    and "sm_state (ac_machine a) = Completed s"
  shows "fst (app_apply (CmdCancel s) a) = Inr (CancelWork s) \<and>
         map_option tr_outcome (session_result (session_str s) (snd (app_apply (CmdCancel s) a))) =
           Some ''cancelled'' \<and>
         SessionFinished (session_str s) ''cancelled'' [] [] 0 \<in>
           set (ac_events (snd (app_apply (CmdCancel s) a)))"
proof -
  let ?r = "\<lparr> tr_session = session_str s, tr_outcome = ''cancelled'', tr_error_code = [],
              tr_backend = [], tr_char_count = 0 \<rparr>"
  have "lookup_result (session_str s) (remember_result ?r (ac_session_results a)) = Some ?r"
    using lookup_remember_same[of "ac_session_results a" ?r] assms(1) by (simp add: ac_wf_def)
  then show ?thesis
    using assms(2,3)
    by (simp add: app_apply_def max_pending_events_def sm_cancel_def ensure_session_def
        session_result_lookup Let_def)
qed

theorem cancel_overwrites_completed_result_witness:
  "\<exists>a s. sm_state (ac_machine a) = Completed s \<and>
     map_option tr_outcome (session_result (session_str s) a) = Some ''completed'' \<and>
     map_option tr_outcome (session_result (session_str s) (snd (app_apply (CmdCancel s) a))) =
       Some ''cancelled''"
proof -
  let ?s = "from_counter 1"
  let ?m = "\<lparr> sm_state = Completed ?s, sm_next_id = 2 \<rparr>"
  let ?a = "snd (finish_session ?s ''completed'' [] ''fcitx'' 2
              ((app_with_wake Map.empty wake_disabled)\<lparr> ac_machine := ?m \<rparr>))"
  have m: "sm_wf ?m" by (auto simp: sm_wf_def intro!: exI[of _ 1])
  have wf: "ac_wf ?a"
    by (rule finish_session_wf)
       (use m in \<open>simp add: ac_wf_def app_with_wake_def max_pending_events_def results_wf_def\<close>)
  have st: "sm_state (ac_machine ?a) = Completed ?s" and len: "length (ac_events ?a) \<le> 254"
    by (simp_all add: finish_session_def app_with_wake_def max_pending_events_def)
  have before: "map_option tr_outcome (session_result (session_str ?s) ?a) = Some ''completed''"
    by (simp add: finish_session_def app_with_wake_def max_pending_events_def session_result_def
        remember_result_def push_bounded_def max_session_results_def)
  from cancel_overwrites_completed_result[OF wf len st] st before show ?thesis by blast
qed

end
