(* ===== verification/Str.thy ===== *)
theory Str
  imports Prelude
begin

text \<open>
  The operations of Rust's str that the adapters use, on strings whose characters are scalar
  values below 256: prefixes, splitting, lines, trimming and replacement of one character.
\<close>

definition starts_with :: "string \<Rightarrow> string \<Rightarrow> bool" where
  "starts_with p s \<longleftrightarrow> take (length p) s = p"

definition strip_prefix :: "string \<Rightarrow> string \<Rightarrow> string option" where
  "strip_prefix p s = (if starts_with p s then Some (drop (length p) s) else None)"

lemma starts_with_append [simp]: "starts_with p (p @ s)"
  by (simp add: starts_with_def)

lemma starts_with_iff: "starts_with p s \<longleftrightarrow> (\<exists>r. s = p @ r)"
  by (auto simp: starts_with_def intro: append_take_drop_id[symmetric] exI[of _ "drop (length p) s"])
     (metis append_take_drop_id)

lemma strip_prefix_append [simp]: "strip_prefix p (p @ s) = Some s"
  by (simp add: strip_prefix_def)

text \<open>The first piece of a split at a character.\<close>

definition split_first :: "char \<Rightarrow> string \<Rightarrow> string" where
  "split_first c s = takeWhile (\<lambda>x. x \<noteq> c) s"

definition strip_cr :: "string \<Rightarrow> string" where
  "strip_cr s = (if s \<noteq> [] \<and> last s = CHR 0x0D then butlast s else s)"

definition newline :: char where
  "newline = CHR 0x0A"

text \<open>Lines end with a newline or with a carriage return and a newline; no line follows the last one.\<close>

definition lines_of :: "string \<Rightarrow> string list" where
  "lines_of s =
     (let ps = split_elem newline s
      in map strip_cr (butlast ps) @ (if last ps = [] then [] else [last ps]))"

definition char_whitespace :: "char \<Rightarrow> bool" where
  "char_whitespace c = is_whitespace (of_char c)"

definition trim_str :: "string \<Rightarrow> string" where
  "trim_str = trim_by char_whitespace"

definition is_ascii_control :: "char \<Rightarrow> bool" where
  "is_ascii_control c \<longleftrightarrow> (of_char c :: nat) < 32 \<or> (of_char c :: nat) = 127"

text \<open>Replacement of every occurrence of one character.\<close>

definition replace_char :: "char \<Rightarrow> string \<Rightarrow> string \<Rightarrow> string" where
  "replace_char c by_str s = concat (map (\<lambda>x. if x = c then by_str else [x]) s)"

lemma replace_char_simps [simp]:
  "replace_char c b [] = []"
  "replace_char c b (x # xs) = (if x = c then b else [x]) @ replace_char c b xs"
  by (simp_all add: replace_char_def)

lemma replace_char_append [simp]:
  "replace_char c b (xs @ ys) = replace_char c b xs @ replace_char c b ys"
  by (simp add: replace_char_def)

text \<open>The first result of a partial function over a list.\<close>

fun find_map :: "('a \<Rightarrow> 'b option) \<Rightarrow> 'a list \<Rightarrow> 'b option" where
  "find_map f [] = None"
| "find_map f (x # xs) = (case f x of None \<Rightarrow> find_map f xs | Some y \<Rightarrow> Some y)"

lemma find_map_SomeD: "find_map f xs = Some y \<Longrightarrow> \<exists>x \<in> set xs. f x = Some y"
  by (induction xs) (auto split: option.splits)

lemma find_map_None: "find_map f xs = None \<longleftrightarrow> (\<forall>x \<in> set xs. f x = None)"
  by (induction xs) (auto split: option.splits)

lemma find_map_append:
  "find_map f (xs @ ys) = (case find_map f xs of None \<Rightarrow> find_map f ys | Some y \<Rightarrow> Some y)"
  by (induction xs) (auto split: option.splits)

text \<open>The rendering of a Boolean value.\<close>

definition show_bool :: "bool \<Rightarrow> string" where
  "show_bool b = (if b then ''true'' else ''false'')"

end
