(* ===== verification/Codec.thy ===== *)
theory Codec
  imports Prelude
begin

text \<open>
  The interface of a self-delimiting encoding: a decoder that reads one encoded value off the
  front of a byte string and returns the rest. The fixed-width little-endian integers of the
  WAV header and the varints of the recognition protocol are instances.
\<close>

locale codec =
  fixes enc :: "'a \<Rightarrow> bytes"
    and dec :: "bytes \<Rightarrow> ('a \<times> bytes) option"
  assumes dec_enc: "dec (enc x @ rest) = Some (x, rest)"
begin

lemma enc_prefix_free: "enc x @ r = enc y @ s \<Longrightarrow> x = y \<and> r = s"
  by (metis dec_enc option.inject prod.inject)

lemma enc_inj: "enc x = enc y \<Longrightarrow> x = y"
  using enc_prefix_free by blast

end

text \<open>Decoding a known number of values.\<close>

fun dec_many :: "(bytes \<Rightarrow> ('a \<times> bytes) option) \<Rightarrow> nat \<Rightarrow> bytes \<Rightarrow> ('a list \<times> bytes) option" where
  "dec_many dec 0 bs = Some ([], bs)"
| "dec_many dec (Suc n) bs =
     (case dec bs of
        None \<Rightarrow> None
      | Some (x, rest) \<Rightarrow>
          (case dec_many dec n rest of None \<Rightarrow> None | Some (xs, rest') \<Rightarrow> Some (x # xs, rest')))"

context codec
begin

lemma dec_many_enc: "dec_many dec (length xs) (concat (map enc xs) @ rest) = Some (xs, rest)"
  by (induction xs) (simp_all add: dec_enc)

end

section \<open>Little-endian integers\<close>

definition le16_bytes :: "16 word \<Rightarrow> bytes" where
  "le16_bytes w = [ucast w, ucast (drop_bit 8 w)]"

definition le32_bytes :: "32 word \<Rightarrow> bytes" where
  "le32_bytes w =
     [ucast w, ucast (drop_bit 8 w), ucast (drop_bit 16 w), ucast (drop_bit 24 w)]"

definition byte_at :: "nat \<Rightarrow> 8 word \<Rightarrow> 'a::len word" where
  "byte_at k b = push_bit (8 * k) (ucast b)"

fun read_le16 :: "bytes \<Rightarrow> (16 word \<times> bytes) option" where
  "read_le16 (a # b # rest) = Some (or (byte_at 0 a) (byte_at 1 b), rest)"
| "read_le16 _ = None"

fun read_le32 :: "bytes \<Rightarrow> (32 word \<times> bytes) option" where
  "read_le32 (a # b # c # d # rest) =
     Some (or (or (byte_at 0 a) (byte_at 1 b)) (or (byte_at 2 c) (byte_at 3 d)), rest)"
| "read_le32 _ = None"

interpretation le16: codec le16_bytes read_le16
proof
  fix x :: "16 word" and rest
  have "or (byte_at 0 (ucast x :: 8 word)) (byte_at 1 (ucast (drop_bit 8 x) :: 8 word)) = x"
    by (rule bit_word_eqI) (auto simp: byte_at_def bit_simps)
  then show "read_le16 (le16_bytes x @ rest) = Some (x, rest)"
    by (simp add: le16_bytes_def)
qed

interpretation le32: codec le32_bytes read_le32
proof
  fix x :: "32 word" and rest
  have "or (or (byte_at 0 (ucast x :: 8 word)) (byte_at 1 (ucast (drop_bit 8 x) :: 8 word)))
           (or (byte_at 2 (ucast (drop_bit 16 x) :: 8 word))
               (byte_at 3 (ucast (drop_bit 24 x) :: 8 word))) = x" (is "?w = x")
  proof (rule bit_word_eqI)
    fix n assume "n < LENGTH(32)"
    moreover have "24 + (n - 24) = n" if "24 \<le> n" using that by simp
    ultimately show "bit ?w n = bit x n"
      by (cases "n < 16"; cases "n < 24") (auto simp: byte_at_def bit_simps)
  qed
  then show "read_le32 (le32_bytes x @ rest) = Some (x, rest)"
    by (simp add: le32_bytes_def)
qed

end
