(* ===== verification/Provider_Common.thy ===== *)
theory Provider_Common
  imports Provider_Types Str Codec
begin

text \<open>
  The helpers shared by the cloud adapters (crates/voxtype-provider-common/src/lib.rs):
  secrets, the bounded curl request with its classification of failures and of what a provider
  may have received, endpoint validation, the WAV container and the quoting of curl
  configuration values. The child process is an argument: what it does when it is started,
  polled and read.
\<close>

section \<open>Secrets\<close>

definition validate_secret_bytes :: "string \<Rightarrow> unit outcome" where
  "validate_secret_bytes value =
     (if value = [] \<or> list_ex is_ascii_control value
      then Inl (vox_error_new EcAuthentication ''secret.invalid_characters''
                  ''secret must be non-empty and contain no control characters'')
      else Inr ())"

datatype secret_string = SecretString (expose: string)

definition secret_try_new :: "string \<Rightarrow> secret_string outcome" where
  "secret_try_new value = try_then (validate_secret_bytes value) (\<lambda>_. Inr (SecretString value))"

section \<open>Failures\<close>

record curl_response =
  cr_http_status :: "16 word"
  cr_body :: bytes

record curl_failure =
  cf_category :: error_category
  cf_retryable :: bool
  cf_message :: string
  cf_http_status :: "16 word option"
  cf_curl_exit_code :: "int option"
  cf_transport_started :: bool
  cf_audio_acceptance :: audio_acceptance

definition failure ::
  "error_category \<Rightarrow> bool \<Rightarrow> string \<Rightarrow> 16 word option \<Rightarrow> int option \<Rightarrow> curl_failure" where
  "failure category retryable message http_status curl_exit_code =
     \<lparr> cf_category = category, cf_retryable = retryable, cf_message = message,
       cf_http_status = http_status, cf_curl_exit_code = curl_exit_code,
       cf_transport_started = False, cf_audio_acceptance = NotAccepted \<rparr>"

definition with_transport_evidence :: "audio_acceptance \<Rightarrow> curl_failure \<Rightarrow> curl_failure" where
  "with_transport_evidence a f = f\<lparr> cf_transport_started := True, cf_audio_acceptance := a \<rparr>"

definition into_vox_error :: "string \<Rightarrow> curl_failure \<Rightarrow> vox_error" where
  "into_vox_error code f =
     with_retryable (cf_retryable f) (vox_error_new (cf_category f) code (cf_message f))"

definition into_attempt_failure :: "string \<Rightarrow> curl_failure \<Rightarrow> provider_attempt_failure" where
  "into_attempt_failure code f =
     \<lparr> paf_error = into_vox_error code f, paf_transport_started = cf_transport_started f,
       paf_audio_acceptance = cf_audio_acceptance f \<rparr>"

definition cancelled_failure :: curl_failure where
  "cancelled_failure = failure EcCancelled False ''provider request was cancelled'' None None"

lemma with_transport_evidence_simps [simp]:
  "cf_category (with_transport_evidence a f) = cf_category f"
  "cf_retryable (with_transport_evidence a f) = cf_retryable f"
  "cf_transport_started (with_transport_evidence a f)"
  "cf_audio_acceptance (with_transport_evidence a f) = a"
  by (simp_all add: with_transport_evidence_def)

lemma failure_simps [simp]:
  "cf_category (failure c r m h x) = c"
  "cf_retryable (failure c r m h x) = r"
  "\<not> cf_transport_started (failure c r m h x)"
  "cf_audio_acceptance (failure c r m h x) = NotAccepted"
  by (simp_all add: failure_def)

section \<open>What curl reports\<close>

definition http_status_marker :: string where
  "http_status_marker = ''VOXTYPE_HTTP_STATUS:''"

definition upload_bytes_marker :: string where
  "upload_bytes_marker = ''VOXTYPE_UPLOAD_BYTES:''"

definition status_of_line :: "string \<Rightarrow> 16 word option" where
  "status_of_line line =
     Option.bind (strip_prefix http_status_marker (trim_str line)) (\<lambda>value.
       case parse_uint 16 value of
         None \<Rightarrow> None | Some n \<Rightarrow> if n = 0 then None else Some (word_of_nat n))"

definition parse_http_status :: "string \<Rightarrow> 16 word option" where
  "parse_http_status diagnostics = find_map status_of_line (rev (lines_of diagnostics))"

definition upload_of_line :: "string \<Rightarrow> nat option" where
  "upload_of_line line =
     Option.bind (strip_prefix upload_bytes_marker (trim_str line))
       (\<lambda>value. parse_uint 64 (split_first CHR ''.'' value))"

definition parse_upload_bytes :: "string \<Rightarrow> nat option" where
  "parse_upload_bytes diagnostics = find_map upload_of_line (rev (lines_of diagnostics))"

definition classify_audio_acceptance ::
  "nat option \<Rightarrow> int option \<Rightarrow> 16 word option \<Rightarrow> bool \<Rightarrow> audio_acceptance" where
  "classify_audio_acceptance uploaded exit_code http_status was_cancelled =
     (if (case uploaded of None \<Rightarrow> False | Some n \<Rightarrow> 0 < n)
      then (if exit_code = Some 0 \<and>
               (case http_status of None \<Rightarrow> False | Some st \<Rightarrow> \<not> (300 \<le> st \<and> st < 400))
            then Accepted else PossiblyAccepted)
      else if uploaded = Some 0 \<or>
              (\<not> was_cancelled \<and> exit_code \<in> {Some 5, Some 6, Some 7, Some 35, Some 60})
      then NotAccepted else PossiblyAccepted)"

definition sanitized_diagnostic :: "string \<Rightarrow> string option" where
  "sanitized_diagnostic diagnostics =
     map_option (take 300)
       (List.find (\<lambda>line. line \<noteq> [] \<and> \<not> starts_with http_status_marker line \<and>
                          \<not> starts_with upload_bytes_marker line)
          (map trim_str (lines_of diagnostics)))"

definition unwrap_or :: "'a \<Rightarrow> 'a option \<Rightarrow> 'a" where
  "unwrap_or d x = (case x of None \<Rightarrow> d | Some v \<Rightarrow> v)"

definition http_failure_kind :: "16 word \<Rightarrow> error_category \<times> bool \<times> string" where
  "http_failure_kind st =
     (if st \<in> {401, 403, 407}
      then (EcAuthentication, False, ''provider rejected authentication'')
      else if st = 408 then (EcTimeout, True, ''provider request timed out'')
      else if st = 429 then (EcRateLimited, True, ''provider rate limit was reached'')
      else if 500 \<le> st \<and> st \<le> 599 then (EcUnavailable, True, ''provider service is unavailable'')
      else if 300 \<le> st \<and> st \<le> 399
      then (EcProtocol, False, ''provider returned a redirect; redirects are disabled'')
      else (EcProtocol, False, ''provider rejected the request''))"

definition classify_http_failure ::
  "16 word \<Rightarrow> int option \<Rightarrow> string option \<Rightarrow> curl_failure" where
  "classify_http_failure st exit_code diagnostic =
     (let (category, retryable, default_message) = http_failure_kind st
      in failure category retryable
           (''HTTP '' @ show_nat (unat st) @ '': '' @ unwrap_or default_message diagnostic)
           (Some st) exit_code)"

definition http_success :: "16 word \<Rightarrow> bool" where
  "http_success st \<longleftrightarrow> 200 \<le> st \<and> st < 300"

definition oversized_message :: "nat \<Rightarrow> string" where
  "oversized_message limit = ''provider response exceeded '' @ show_nat limit @ '' bytes''"

definition classify_curl_failure ::
  "int option \<Rightarrow> 16 word option \<Rightarrow> string option \<Rightarrow> nat \<Rightarrow> curl_failure" where
  "classify_curl_failure exit_code http_status diagnostic limit =
     (if exit_code = Some 22 \<and> http_status \<noteq> None
      then classify_http_failure (the http_status) exit_code diagnostic
      else if exit_code = Some 28
      then failure EcTimeout True (unwrap_or ''provider request timed out'' diagnostic)
             http_status exit_code
      else if exit_code = Some 63
      then failure EcProtocol False (oversized_message limit) http_status exit_code
      else if exit_code \<in> Some ` {5, 6, 7, 35, 52, 55, 56}
      then failure EcConnection True (unwrap_or ''provider connection failed'' diagnostic)
             http_status exit_code
      else if exit_code = Some 60
      then failure EcConnection False
             (unwrap_or ''provider TLS certificate validation failed'' diagnostic)
             http_status exit_code
      else case http_status of
             Some st \<Rightarrow>
               if \<not> http_success st then classify_http_failure st exit_code diagnostic
               else failure EcUnavailable True
                      (unwrap_or ''provider transport failed'' diagnostic) http_status exit_code
           | None \<Rightarrow> failure EcUnavailable True
                      (unwrap_or ''provider transport failed'' diagnostic) http_status exit_code)"

section \<open>One request\<close>

text \<open>A reader retains at most its limit and remembers whether more arrived.\<close>

record bounded_read =
  br_bytes :: bytes
  br_overflowed :: bool

fun read_bounded_loop :: "nat \<Rightarrow> bytes list \<Rightarrow> bytes \<Rightarrow> bool \<Rightarrow> bounded_read" where
  "read_bounded_loop limit [] bs overflowed = \<lparr> br_bytes = bs, br_overflowed = overflowed \<rparr>"
| "read_bounded_loop limit (chunk # chunks) bs overflowed =
     (if chunk = [] then \<lparr> br_bytes = bs, br_overflowed = overflowed \<rparr>
      else let remaining = limit - length bs;
               retained = min remaining (length chunk)
           in read_bounded_loop limit chunks (bs @ take retained chunk)
                (overflowed \<or> retained < length chunk))"

definition read_bounded :: "nat \<Rightarrow> bytes list \<Rightarrow> bounded_read" where
  "read_bounded limit chunks = read_bounded_loop limit chunks [] False"

definition finish_curl_attempt ::
  "int option \<Rightarrow> bool \<Rightarrow> bounded_read \<Rightarrow> string \<Rightarrow> string option \<Rightarrow> nat \<Rightarrow>
   curl_failure + curl_response" where
  "finish_curl_attempt exit_code was_cancelled body diagnostics stdin_error limit =
     (let http_status = parse_http_status diagnostics;
          acceptance = classify_audio_acceptance (parse_upload_bytes diagnostics) exit_code
                         http_status was_cancelled;
          diagnostic = sanitized_diagnostic diagnostics
      in if was_cancelled then Inl (with_transport_evidence acceptance cancelled_failure)
         else if br_overflowed body
         then Inl (with_transport_evidence acceptance
                     (failure EcProtocol False (oversized_message limit) http_status exit_code))
         else case stdin_error of
           Some e \<Rightarrow>
             Inl (with_transport_evidence acceptance
                    (failure EcConnection True
                       (''could not provide curl request credentials: '' @ e) http_status exit_code))
         | None \<Rightarrow>
             if exit_code \<noteq> Some 0
             then Inl (with_transport_evidence acceptance
                         (classify_curl_failure exit_code http_status diagnostic limit))
             else case http_status of
               None \<Rightarrow>
                 Inl (with_transport_evidence acceptance
                        (failure EcProtocol False ''curl completed without an HTTP status''
                           None exit_code))
             | Some st \<Rightarrow>
                 if \<not> http_success st
                 then Inl (with_transport_evidence acceptance
                             (classify_http_failure st exit_code diagnostic))
                 else Inr \<lparr> cr_http_status = st, cr_body = br_bytes body \<rparr>)"

text \<open>
  The wait polls the child and the flag in turn; it ends only when the child has exited or the
  flag is set, so not returning is the value None.
\<close>

type_synonym child_polls = "nat \<Rightarrow> string + int option option"

partial_function (option) wait_for_curl ::
  "child_polls \<Rightarrow> (string + int option) \<Rightarrow> cancellation_token \<Rightarrow> nat \<Rightarrow>
   (curl_failure + int option \<times> bool) option" where
  "wait_for_curl polls killed tok k =
     (case polls k of
        Inl e \<Rightarrow> Some (Inl (failure EcUnavailable True (''could not wait for curl: '' @ e) None None))
      | Inr (Some exit_code) \<Rightarrow> Some (Inr (exit_code, False))
      | Inr None \<Rightarrow>
          (if tok k
           then Some (case killed of
                        Inl e \<Rightarrow> Inl (failure EcUnavailable True
                                  (''could not reap cancelled curl: '' @ e) None None)
                      | Inr exit_code \<Rightarrow> Inr (exit_code, True))
           else wait_for_curl polls killed tok (k + 1)))"

text \<open>The child process of one request, as the standard library presents it.\<close>

record curl_child =
  ch_polls :: child_polls
  ch_killed :: "string + int option"
  ch_stdin_error :: "string option"
  ch_stdout :: "curl_failure + bytes list"
  ch_stderr :: "curl_failure + string"

definition execute_curl_cancellable ::
  "(nat \<Rightarrow> string + curl_child) \<Rightarrow> nat \<Rightarrow> cancellation_token \<Rightarrow>
   (curl_failure + curl_response) option" where
  "execute_curl_cancellable spawn max_response_bytes tok =
     (if tok 0 then Some (Inl cancelled_failure)
      else let limit = max max_response_bytes 1
           in case spawn limit of
             Inl e \<Rightarrow>
               Some (Inl (failure EcUnavailable True (''could not start curl: '' @ e) None None))
           | Inr child \<Rightarrow>
               (case wait_for_curl (ch_polls child) (ch_killed child) tok 1 of
                  None \<Rightarrow> None
                | Some (Inl f) \<Rightarrow> Some (Inl (with_transport_evidence PossiblyAccepted f))
                | Some (Inr (exit_code, was_cancelled)) \<Rightarrow>
                    Some (case ch_stdout child of
                            Inl f \<Rightarrow> Inl (with_transport_evidence PossiblyAccepted f)
                          | Inr chunks \<Rightarrow>
                              (case ch_stderr child of
                                 Inl f \<Rightarrow> Inl (with_transport_evidence PossiblyAccepted f)
                               | Inr diagnostics \<Rightarrow>
                                   finish_curl_attempt exit_code was_cancelled
                                     (read_bounded limit chunks) diagnostics
                                     (ch_stdin_error child) limit))))"

section \<open>Endpoints\<close>

definition is_loopback_http :: "string \<Rightarrow> bool" where
  "is_loopback_http endpoint =
     (case strip_prefix ''http://'' endpoint of
        None \<Rightarrow> False
      | Some rest \<Rightarrow>
          (let authority = split_first CHR ''/'' rest
           in authority = ''localhost'' \<or> starts_with ''localhost:'' authority \<or>
              authority = ''127.0.0.1'' \<or> starts_with ''127.0.0.1:'' authority \<or>
              authority = ''[::1]'' \<or> starts_with ''[::1]:'' authority))"

definition validate_endpoint :: "string \<Rightarrow> string \<Rightarrow> unit outcome" where
  "validate_endpoint endpoint message =
     (if starts_with ''https://'' endpoint \<or> is_loopback_http endpoint then Inr ()
      else Inl (vox_error_new EcConfiguration ''provider.insecure_endpoint'' message))"

section \<open>The WAV container and curl configuration\<close>

text \<open>The error is the message of the io::Error.\<close>

definition pcm_to_wav :: "bytes \<Rightarrow> string + bytes" where
  "pcm_to_wav pcm =
     (if 2 ^ 32 \<le> length pcm then Inl ''recording is too large''
      else if 2 ^ 32 \<le> length pcm + 36 then Inl ''WAV size overflow''
      else let data_length = word_of_nat (length pcm)
           in Inr (ascii ''RIFF'' @ le32_bytes (data_length + 36) @ ascii ''WAVEfmt '' @
                   le32_bytes 16 @ le16_bytes 1 @ le16_bytes 1 @ le32_bytes 16000 @
                   le32_bytes 32000 @ le16_bytes 2 @ le16_bytes 16 @ ascii ''data'' @
                   le32_bytes data_length @ pcm))"

definition backslash :: char where
  "backslash = CHR 0x5C"

definition quote :: char where
  "quote = CHR 0x22"

definition escape_curl_config :: "string \<Rightarrow> string" where
  "escape_curl_config value =
     replace_char quote [backslash, quote] (replace_char backslash [backslash, backslash] value)"

end
