(* ===== verification/Utf8.thy ===== *)
theory Utf8
  imports Prelude
begin

text \<open>
  UTF-8 as Rust's String uses it: the encoding of a text, its length in bytes, and the strict
  decoder of String::from_utf8, which rejects overlong forms, surrogates and values beyond the
  last scalar. Bytes are handled as numbers below 256.
\<close>

definition is_scalar :: "nat \<Rightarrow> bool" where
  "is_scalar c \<longleftrightarrow> c < 0xD800 \<or> (0xDFFF < c \<and> c < 0x110000)"

definition utf8_char :: "nat \<Rightarrow> nat list" where
  "utf8_char c =
     (if c < 0x80 then [c]
      else if c < 0x800 then [0xC0 + c div 64, 0x80 + c mod 64]
      else if c < 0x10000 then [0xE0 + c div 4096, 0x80 + c div 64 mod 64, 0x80 + c mod 64]
      else [0xF0 + c div 262144, 0x80 + c div 4096 mod 64, 0x80 + c div 64 mod 64,
            0x80 + c mod 64])"

definition utf8_encode :: "utext \<Rightarrow> nat list" where
  "utf8_encode t = concat (map utf8_char t)"

definition utf8_bytes :: "utext \<Rightarrow> bytes" where
  "utf8_bytes t = map word_of_nat (utf8_encode t)"

text \<open>A text as the characters of its UTF-8 bytes.\<close>

definition utf8_string :: "utext \<Rightarrow> string" where
  "utf8_string t = map char_of (utf8_encode t)"

definition utf8_length :: "utext \<Rightarrow> nat" where
  "utf8_length t = length (utf8_encode t)"

definition continuation :: "nat \<Rightarrow> bool" where
  "continuation b \<longleftrightarrow> 0x80 \<le> b \<and> b < 0xC0"

text \<open>One character off the front of the bytes.\<close>

fun utf8_step :: "nat list \<Rightarrow> (nat \<times> nat list) option" where
  "utf8_step [] = None"
| "utf8_step (a # rest) =
     (if a < 0x80 then Some (a, rest)
      else if 0xC2 \<le> a \<and> a < 0xE0 then
        (case rest of
           b # rest' \<Rightarrow> if continuation b then Some ((a - 0xC0) * 64 + (b - 0x80), rest') else None
         | _ \<Rightarrow> None)
      else if 0xE0 \<le> a \<and> a < 0xF0 then
        (case rest of
           b # c # rest' \<Rightarrow>
             (let v = (a - 0xE0) * 4096 + (b - 0x80) * 64 + (c - 0x80)
              in if continuation b \<and> continuation c \<and> 0x800 \<le> v \<and> is_scalar v
                 then Some (v, rest') else None)
         | _ \<Rightarrow> None)
      else if 0xF0 \<le> a \<and> a < 0xF5 then
        (case rest of
           b # c # d # rest' \<Rightarrow>
             (let v = (a - 0xF0) * 262144 + (b - 0x80) * 4096 + (c - 0x80) * 64 + (d - 0x80)
              in if continuation b \<and> continuation c \<and> continuation d \<and> 0x10000 \<le> v \<and> is_scalar v
                 then Some (v, rest') else None)
         | _ \<Rightarrow> None)
      else None)"

lemma utf8_step_shorter: "utf8_step bs = Some (c, rest) \<Longrightarrow> length rest < length bs"
  by (cases bs) (auto simp: Let_def split: if_splits list.splits)

function utf8_decode :: "nat list \<Rightarrow> utext option" where
  "utf8_decode bs =
     (if bs = [] then Some []
      else case utf8_step bs of
             None \<Rightarrow> None
           | Some (c, rest) \<Rightarrow> map_option (\<lambda>t. c # t) (utf8_decode rest))"
  by pat_completeness auto

termination by (relation "measure length") (auto dest: utf8_step_shorter)

declare utf8_decode.simps [simp del]

text \<open>The same decoder on bytes (String::from_utf8).\<close>

definition from_utf8 :: "bytes \<Rightarrow> utext option" where
  "from_utf8 bs = utf8_decode (map unat bs)"

text \<open>Comparison that ignores the case of the ASCII letters.\<close>

definition ascii_lower :: "nat \<Rightarrow> nat" where
  "ascii_lower c = (if 65 \<le> c \<and> c \<le> 90 then c + 32 else c)"

definition eq_ignore_ascii_case :: "utext \<Rightarrow> utext \<Rightarrow> bool" where
  "eq_ignore_ascii_case s t \<longleftrightarrow> map ascii_lower s = map ascii_lower t"

lemma base64_digits_3: "c div 4096 * 4096 + c div 64 mod 64 * 64 + c mod 64 = (c :: nat)"
proof -
  have q: "c div 4096 = c div 64 div 64" by (simp add: div_mult2_eq[symmetric])
  have "c div 64 * 64 + c mod 64 = c" "c div 64 div 64 * 64 + c div 64 mod 64 = c div 64"
    by (simp_all only: div_mult_mod_eq)
  then show ?thesis unfolding q by linarith
qed

lemma base64_digits:
  "c div 262144 * 262144 + c div 4096 mod 64 * 4096 + c div 64 mod 64 * 64 + c mod 64 = (c :: nat)"
proof -
  have q: "c div 4096 = c div 64 div 64" and r: "c div 262144 = c div 64 div 64 div 64"
    by (simp_all add: div_mult2_eq[symmetric])
  have "c div 64 * 64 + c mod 64 = c" "c div 64 div 64 * 64 + c div 64 mod 64 = c div 64"
    "c div 64 div 64 div 64 * 64 + c div 64 div 64 mod 64 = c div 64 div 64"
    by (simp_all only: div_mult_mod_eq)
  then show ?thesis unfolding q r by linarith
qed

lemma utf8_step_3:
  assumes "a < 16" "b < 64" "d < 64" "v = a * 4096 + b * 64 + d" "0x800 \<le> v" "is_scalar v"
  shows "utf8_step ([0xE0 + a, 0x80 + b, 0x80 + d] @ rest) = Some (v, rest)"
  using assms by (simp add: continuation_def)

lemma utf8_step_4:
  assumes "a < 5" "b < 64" "d < 64" "e < 64" "v = a * 262144 + b * 4096 + d * 64 + e"
    and "0x10000 \<le> v" "is_scalar v"
  shows "utf8_step ([0xF0 + a, 0x80 + b, 0x80 + d, 0x80 + e] @ rest) = Some (v, rest)"
  using assms by (simp add: continuation_def)

lemma utf8_step_char:
  assumes "is_scalar c" shows "utf8_step (utf8_char c @ rest) = Some (c, rest)"
proof -
  consider "c < 0x80" | "0x80 \<le> c" "c < 0x800" | "0x800 \<le> c" "c < 0x10000"
    | "0x10000 \<le> c" "c < 0x110000"
    using assms unfolding is_scalar_def by linarith
  then show ?thesis
  proof cases
    case 1
    then show ?thesis by (simp add: utf8_char_def)
  next
    case 2
    have "2 \<le> c div 64" "c div 64 < 32" using 2 by (simp_all add: less_eq_div_iff_mult_less_eq div_less_iff_less_mult)
    then show ?thesis using 2 by (simp add: utf8_char_def continuation_def)
  next
    case 3
    have "c div 4096 < 16" using 3 by (simp add: div_less_iff_less_mult)
    then have "utf8_step ([0xE0 + c div 4096, 0x80 + c div 64 mod 64, 0x80 + c mod 64] @ rest) =
        Some (c, rest)"
      using 3 assms by (intro utf8_step_3 base64_digits_3[symmetric]) simp_all
    moreover have "\<not> c < 0x80" "\<not> c < 0x800" using 3 by simp_all
    ultimately show ?thesis using 3 by (simp only: utf8_char_def if_False if_True)
  next
    case 4
    have "c div 262144 < 5" using 4 by (simp add: div_less_iff_less_mult)
    then have "utf8_step ([0xF0 + c div 262144, 0x80 + c div 4096 mod 64, 0x80 + c div 64 mod 64,
        0x80 + c mod 64] @ rest) = Some (c, rest)"
      using 4 assms by (intro utf8_step_4 base64_digits[symmetric]) simp_all
    moreover have "\<not> c < 0x80" "\<not> c < 0x800" "\<not> c < 0x10000" using 4 by simp_all
    ultimately show ?thesis by (simp only: utf8_char_def if_False)
  qed
qed

lemma utf8_round_trip: "list_all is_scalar t \<Longrightarrow> utf8_decode (utf8_encode t) = Some t"
proof (induction t)
  case Nil
  show ?case by (simp add: utf8_encode_def utf8_decode.simps)
next
  case (Cons c t)
  have "utf8_char c \<noteq> []" by (simp add: utf8_char_def)
  moreover have "utf8_step (utf8_char c @ utf8_encode t) = Some (c, utf8_encode t)"
    using Cons.prems by (simp add: utf8_step_char)
  ultimately show ?case using Cons
    by (simp add: utf8_encode_def utf8_decode.simps[of "utf8_char c @ concat (map utf8_char t)"])
qed

lemma utf8_length_append [simp]: "utf8_length (s @ t) = utf8_length s + utf8_length t"
  by (simp add: utf8_length_def utf8_encode_def)

lemma utf8_length_simps [simp]:
  "utf8_length [] = 0"
  "utf8_length (c # t) = length (utf8_char c) + utf8_length t"
  by (simp_all add: utf8_length_def utf8_encode_def)

lemma utf8_char_length: "0 < length (utf8_char c)" "length (utf8_char c) \<le> 4"
  by (simp_all add: utf8_char_def)

end
