(* ===== verification/Json.thy ===== *)
theory Json
  imports Prelude
begin

text \<open>
  JSON values as the serde_json library gives them, with the accessors that the providers use.
  Parsing is an argument of the functions that need it.
\<close>

text \<open>
  A value of the JSON library: a number is its rendering and, where it fits, its value as a u64.
\<close>

datatype json =
    JNull
  | JBool bool
  | JNumber string "64 word option"
  | JString utext
  | JArray "json list"
  | JObject "(string \<times> json) list"

fun json_get :: "string \<Rightarrow> json \<Rightarrow> json option" where
  "json_get k (JObject m) = map_of m k"
| "json_get k _ = None"

fun json_index :: "nat \<Rightarrow> json \<Rightarrow> json option" where
  "json_index n (JArray xs) = (if n < length xs then Some (xs ! n) else None)"
| "json_index n _ = None"

fun json_as_str :: "json \<Rightarrow> utext option" where
  "json_as_str (JString t) = Some t"
| "json_as_str _ = None"

fun json_as_u64 :: "json \<Rightarrow> 64 word option" where
  "json_as_u64 (JNumber _ n) = n"
| "json_as_u64 _ = None"

fun json_as_bool :: "json \<Rightarrow> bool option" where
  "json_as_bool (JBool b) = Some b"
| "json_as_bool _ = None"

fun json_as_array :: "json \<Rightarrow> json list option" where
  "json_as_array (JArray xs) = Some xs"
| "json_as_array _ = None"

fun json_is_object :: "json \<Rightarrow> bool" where
  "json_is_object (JObject _) = True"
| "json_is_object _ = False"

text \<open>Values for printing.\<close>

definition jtext :: "string \<Rightarrow> json" where
  "jtext s = JString (text_of s)"

definition jnat :: "nat \<Rightarrow> json" where
  "jnat n = JNumber (show_nat n) (if n < 2 ^ 64 then Some (word_of_nat n) else None)"

end
