(* ===== verification/Config.thy ===== *)
theory Config
  imports Routing Provider_Common Utf8 Json
begin

text \<open>
  The configuration and its validation (src/config.rs), with the feature of the unofficial
  Doubao provider enabled. A BTreeMap is an association list in key order; its file is
  the subject of theory Config_Store. The timeouts and quotas are only compared, so they are natural
  numbers; the audio settings enter the arithmetic of the detector and keep their widths.
\<close>

datatype insertion_backend = BackendFcitx | BackendClipboard | BackendCopy | BackendAuto

record desktop_config =
  restore_clipboard :: bool
  retain_recordings :: bool
  transcript_history_enabled :: bool
  cfg_insertion_backend :: insertion_backend

record audio_config =
  cfg_device :: utext
  minimum_duration_millis :: "64 word"
  maximum_duration_seconds :: "64 word"
  vad_enabled :: bool
  vad_rms_threshold :: "16 word"
  vad_minimum_voiced_frames :: "32 word"

record profile_config =
  pf_primary :: string
  pf_fallbacks :: "string list"
  pf_language :: string
  pf_replay :: replay_policy

datatype provider_config =
    Mock (mock_text: utext)
  | OpenaiCompatible string string string nat
  | Deepgram string string string nat bool
  | DoubaoUnofficial string nat nat nat
  | CommandProvider string "string list" nat

record provider_quota_config =
  request_limit :: "nat option"
  audio_seconds_limit :: "nat option"
  token_limit :: "nat option"

definition quota_json :: "provider_quota_config option \<Rightarrow> json" where
  "quota_json quota =
     (let limit = (\<lambda>f. case Option.bind quota f of None \<Rightarrow> JNull | Some n \<Rightarrow> jnat n)
      in JObject [(''request_limit'', limit request_limit),
                  (''audio_seconds_limit'', limit audio_seconds_limit),
                  (''token_limit'', limit token_limit)])"

record config =
  schema_version :: nat
  default_profile :: string
  cfg_desktop :: desktop_config
  cfg_audio :: audio_config
  cfg_profiles :: "(string \<times> profile_config) list"
  cfg_providers :: "(string \<times> provider_config) list"
  cfg_quotas :: "(string \<times> provider_quota_config) list"

definition desktop_config_default :: desktop_config where
  "desktop_config_default =
     \<lparr> restore_clipboard = True, retain_recordings = False, transcript_history_enabled = False,
       cfg_insertion_backend = BackendFcitx \<rparr>"

definition audio_config_default :: audio_config where
  "audio_config_default =
     \<lparr> cfg_device = [], minimum_duration_millis = 250, maximum_duration_seconds = 120,
       vad_enabled = True, vad_rms_threshold = 300, vad_minimum_voiced_frames = 2 \<rparr>"

definition configuration :: "string \<Rightarrow> vox_error" where
  "configuration message = vox_error_new EcConfiguration ''config.invalid'' message"

definition check :: "bool \<Rightarrow> string \<Rightarrow> unit outcome" where
  "check ok message = (if ok then Inr () else Inl (configuration message))"

lemma check_ok [simp]: "check b m = Inr () \<longleftrightarrow> b"
  by (simp add: check_def)

section \<open>Routes and quotas\<close>

definition profile_route :: "profile_config \<Rightarrow> string list" where
  "profile_route profile = pf_primary profile # pf_fallbacks profile"

definition has_key :: "'k \<Rightarrow> ('k \<times> 'v) list \<Rightarrow> bool" where
  "has_key k m = (map_of m k \<noteq> None)"

fun validate_route :: "config \<Rightarrow> string \<Rightarrow> string list \<Rightarrow> string list \<Rightarrow> unit outcome" where
  "validate_route config name seen [] = Inr ()"
| "validate_route config name seen (provider # rest) =
     (if \<not> has_key provider (cfg_providers config)
      then Inl (configuration (''profile '' @ name @ '' references unknown provider '' @ provider))
      else if provider \<in> set seen
      then Inl (configuration (''profile '' @ name @ '' contains duplicate provider '' @ provider))
      else validate_route config name (provider # seen) rest)"

definition validate_provider_key :: "string \<Rightarrow> unit outcome" where
  "validate_provider_key key =
     (case provider_id_new key of
        Inl e \<Rightarrow> Inl (configuration (err_message e)) | Inr _ \<Rightarrow> Inr ())"

definition validate_routes :: "config \<Rightarrow> unit outcome" where
  "validate_routes config =
     try_then (try_each validate_provider_key (map fst (cfg_providers config)))
       (\<lambda>_. try_each (\<lambda>(name, profile). validate_route config name [] (profile_route profile))
              (cfg_profiles config))"

definition validate_quotas :: "config \<Rightarrow> unit outcome" where
  "validate_quotas config =
     try_each (\<lambda>(provider, quota).
         if \<not> has_key provider (cfg_providers config)
         then Inl (configuration (''quota references unknown provider '' @ provider))
         else check (request_limit quota \<noteq> Some 0 \<and> audio_seconds_limit quota \<noteq> Some 0 \<and>
                     token_limit quota \<noteq> Some 0)
                ''provider quota limits must be positive'')
       (cfg_quotas config)"

section \<open>Providers\<close>

fun validate_doubao_provider :: "provider_config \<Rightarrow> unit outcome" where
  "validate_doubao_provider (DoubaoUnofficial secret phase_timeout total_timeout frame_interval) =
     try_then (check (trim_str secret \<noteq> []) ''Doubao managed credential reference is required'')
       (\<lambda>_. check (\<not> (total_timeout < phase_timeout \<or> total_timeout > 3600 \<or> frame_interval > 100))
              ''Doubao session timing is invalid'')"
| "validate_doubao_provider _ = Inr ()"

fun validate_provider_text :: "provider_config \<Rightarrow> unit outcome" where
  "validate_provider_text (Mock txt) = check (\<not> is_blank txt) ''mock provider text is empty''"
| "validate_provider_text (OpenaiCompatible _ model secret _) =
     check (trim_str model \<noteq> [] \<and> trim_str secret \<noteq> [])
       ''cloud provider model and secret reference are required''"
| "validate_provider_text (Deepgram _ model secret _ _) =
     check (trim_str model \<noteq> [] \<and> trim_str secret \<noteq> [])
       ''cloud provider model and secret reference are required''"
| "validate_provider_text _ = Inr ()"

fun provider_timeout :: "provider_config \<Rightarrow> nat option" where
  "provider_timeout (Mock _) = None"
| "provider_timeout (OpenaiCompatible _ _ _ t) = Some t"
| "provider_timeout (Deepgram _ _ _ t _) = Some t"
| "provider_timeout (DoubaoUnofficial _ phase_timeout _ _) = Some phase_timeout"
| "provider_timeout (CommandProvider _ _ t) = Some t"

fun validate_provider_target :: "provider_config \<Rightarrow> unit outcome" where
  "validate_provider_target (OpenaiCompatible endpoint _ _ _) =
     validate_endpoint endpoint ''provider endpoint must use HTTPS or loopback HTTP''"
| "validate_provider_target (Deepgram endpoint _ _ _ _) =
     validate_endpoint endpoint ''Deepgram endpoint must use HTTPS or loopback HTTP''"
| "validate_provider_target (CommandProvider program _ _) =
     try_then (check (trim_str program \<noteq> []) ''command provider program is empty'')
       (\<lambda>_. check (starts_with ''/'' program)
              ''command provider program must be an absolute path'')"
| "validate_provider_target _ = Inr ()"

definition validate_provider :: "provider_config \<Rightarrow> unit outcome" where
  "validate_provider provider =
     try_then (validate_provider_text provider) (\<lambda>_.
     try_then (validate_doubao_provider provider) (\<lambda>_.
       case provider_timeout provider of
         None \<Rightarrow> Inr ()
       | Some timeout_seconds \<Rightarrow>
           try_then (check (1 \<le> timeout_seconds \<and> timeout_seconds \<le> 300)
                       ''provider timeout must be between 1 and 300 seconds'')
             (\<lambda>_. validate_provider_target provider)))"

section \<open>The whole configuration\<close>

definition is_control :: "nat \<Rightarrow> bool" where
  "is_control c \<longleftrightarrow> c < 32 \<or> (127 \<le> c \<and> c < 160)"

definition validate_audio :: "audio_config \<Rightarrow> unit outcome" where
  "validate_audio audio =
     try_then (check (\<not> (vad_rms_threshold audio = 0 \<or> vad_rms_threshold audio > 10000))
                 ''VAD RMS threshold must be between 1 and 10000'') (\<lambda>_.
     try_then (check (\<not> (utf8_length (cfg_device audio) > 256 \<or> list_ex is_control (cfg_device audio)))
                 ''audio device target must be at most 256 characters and contain no controls'') (\<lambda>_.
     try_then (check (5 \<le> maximum_duration_seconds audio \<and> maximum_duration_seconds audio \<le> 3600)
                 ''maximum recording duration must be between 5 and 3600 seconds'') (\<lambda>_.
     try_then (check (1 \<le> vad_minimum_voiced_frames audio \<and> vad_minimum_voiced_frames audio \<le> 100)
                 ''VAD minimum voiced frames must be between 1 and 100'') (\<lambda>_.
     check (50 \<le> minimum_duration_millis audio \<and> minimum_duration_millis audio \<le> 10000)
       ''minimum recording duration must be between 50 and 10000 milliseconds''))))"

definition config_validate :: "config \<Rightarrow> unit outcome" where
  "config_validate config =
     try_then (check (schema_version config = 1) ''unsupported schema_version'') (\<lambda>_.
     try_then (check (has_key (default_profile config) (cfg_profiles config))
                 ''default_profile does not exist'') (\<lambda>_.
     try_then (validate_routes config) (\<lambda>_.
     try_then (try_each validate_provider (map snd (cfg_providers config))) (\<lambda>_.
     try_then (validate_quotas config) (\<lambda>_.
       validate_audio (cfg_audio config))))))"

definition config_profile :: "string option \<Rightarrow> config \<Rightarrow> (string \<times> profile_config) option" where
  "config_profile requested config =
     (let name = (case requested of
                    None \<Rightarrow> default_profile config
                  | Some n \<Rightarrow> if n = [] then default_profile config else n)
      in map_option (\<lambda>p. (name, p)) (map_of (cfg_profiles config) name))"

text \<open>The secret read from the Secret Service: trailing line ends go, and nothing else.\<close>

definition strip_line_ends :: "string \<Rightarrow> string" where
  "strip_line_ends s = rev (dropWhile (\<lambda>c. c = CHR 0x0A \<or> c = CHR 0x0D) (rev s))"

datatype secret_tool =
    ToolMissing string
  | ToolFailed
  | ToolNotUtf8
  | ToolOutput string

fun lookup_secret_text :: "string \<Rightarrow> secret_tool \<Rightarrow> string outcome" where
  "lookup_secret_text name (ToolMissing e) =
     Inl (vox_error_new EcUnavailable ''secret.service_unavailable''
            (''could not start secret-tool: '' @ e))"
| "lookup_secret_text name ToolFailed =
     Inl (vox_error_new EcAuthentication ''secret.not_found''
            (''secret '' @ name @ '' is not available in Secret Service''))"
| "lookup_secret_text name ToolNotUtf8 =
     Inl (vox_error_new EcAuthentication ''secret.invalid_encoding''
            ''stored secret is not valid UTF-8'')"
| "lookup_secret_text name (ToolOutput out) =
     (let value = strip_line_ends out
      in if value = []
         then Inl (vox_error_new EcAuthentication ''secret.empty''
                     (''secret '' @ name @ '' is empty''))
         else Inr value)"

definition lookup_secret :: "string \<Rightarrow> secret_tool \<Rightarrow> secret_string outcome" where
  "lookup_secret name tool = try_then (lookup_secret_text name tool) secret_try_new"

section \<open>What a validated configuration guarantees\<close>

lemma validate_route_ok:
  "validate_route config name seen route = Inr () \<Longrightarrow>
   (\<forall>p \<in> set route. has_key p (cfg_providers config)) \<and> distinct route \<and>
   set route \<inter> set seen = {}"
  by (induction config name seen route rule: validate_route.induct) (auto split: if_splits)

lemma validate_routes_ok:
  assumes "validate_routes config = Inr ()"
  shows "\<forall>p \<in> fst ` set (cfg_providers config). \<exists>i. provider_id_new p = Inr i"
    and "\<forall>(name, profile) \<in> set (cfg_profiles config).
           (\<forall>p \<in> set (profile_route profile). has_key p (cfg_providers config)) \<and>
           distinct (profile_route profile)"
proof -
  have keys: "try_each validate_provider_key (map fst (cfg_providers config)) = Inr ()"
    and profiles: "try_each (\<lambda>(name, profile). validate_route config name [] (profile_route profile))
           (cfg_profiles config) = Inr ()"
    using assms by (auto simp: validate_routes_def try_then_ok_iff)
  show "\<forall>p \<in> fst ` set (cfg_providers config). \<exists>i. provider_id_new p = Inr i"
    using keys by (auto simp: try_each_ok validate_provider_key_def split: sum.splits)
      (metis fst_conv sum.exhaust)
  show "\<forall>(name, profile) \<in> set (cfg_profiles config).
           (\<forall>p \<in> set (profile_route profile). has_key p (cfg_providers config)) \<and>
           distinct (profile_route profile)"
    using profiles validate_route_ok by (fastforce simp: try_each_ok)
qed

lemma config_validate_parts:
  assumes "config_validate config = Inr ()"
  shows "validate_routes config = Inr ()" and "validate_audio (cfg_audio config) = Inr ()"
    and "\<forall>p \<in> snd ` set (cfg_providers config). validate_provider p = Inr ()"
    and "has_key (default_profile config) (cfg_profiles config)"
  using assms by (auto simp: config_validate_def try_then_ok_iff try_each_ok)

end
