(* ===== verification/Adapters.thy ===== *)
theory Adapters
  imports Config Route Json
begin

text \<open>
  The composition of the configured adapters (src/provider_adapters.rs) and the bodies of the
  mock, command, OpenAI-compatible and Deepgram adapters with the request and response handling
  of crates/voxtype-provider-rest and crates/voxtype-provider-deepgram. Child processes,
  the clock, the Secret Service and the JSON parser are arguments. A body that may wait for
  ever on its child returns an option.
\<close>

section \<open>Results\<close>

definition recorded_pcm_capabilities :: provider_capabilities where
  "recorded_pcm_capabilities =
     \<lparr> languages = [], accepted_formats = [pcm_16khz_mono], streaming = False,
       partial_results = False, provider_vad = False \<rparr>"

definition success_after_audio :: "utext \<Rightarrow> provider_usage \<Rightarrow> provider_success" where
  "success_after_audio txt usage =
     \<lparr> ps_transcript = \<lparr> pt_text = txt, pt_usage = usage \<rparr>, ps_transport_started = True,
       ps_audio_acceptance = Accepted \<rparr>"

definition success_without_transport :: "utext \<Rightarrow> provider_usage \<Rightarrow> provider_success" where
  "success_without_transport txt usage =
     \<lparr> ps_transcript = \<lparr> pt_text = txt, pt_usage = usage \<rparr>, ps_transport_started = False,
       ps_audio_acceptance = NotAccepted \<rparr>"

definition recognition_cancelled_error :: vox_error where
  "recognition_cancelled_error =
     vox_error_new EcCancelled ''provider.cancelled'' ''recognition was cancelled''"

definition ensure_not_cancelled ::
  "cancellation_token \<Rightarrow> nat \<Rightarrow> provider_attempt_failure + unit" where
  "ensure_not_cancelled tok now =
     (if tok now then Inl (before_transport recognition_cancelled_error) else Inr ())"

section \<open>The mock adapter\<close>

definition mock_recognize :: "utext \<Rightarrow> cancellation_token \<Rightarrow> nat \<Rightarrow> recognition_result" where
  "mock_recognize txt tok now =
     try_then (ensure_not_cancelled tok now) (\<lambda>_.
       if is_blank txt
       then Inl (before_transport (vox_error_new EcProtocol ''provider.mock_empty''
                   ''mock provider text is empty''))
       else Inr (success_without_transport txt provider_usage_default))"

section \<open>The command adapter\<close>

record exit_status =
  es_success :: bool
  es_text :: string

text \<open>What the thread that reads the output ends with.\<close>

datatype reader_end = ReaderPanicked | ReaderFailed string | ReaderRead "bytes list"

text \<open>
  A started command: whether its output can be read, its answers to the polls, the clock at a poll,
  and the end of the reader. The reader ends when the last process that holds the pipe has ended,
  which depends on whether the process group was killed; None stands for a pipe that stays open.
\<close>

record command_child =
  cc_stdout :: bool
  cc_try_wait :: "nat \<Rightarrow> string + exit_status option"
  cc_clock :: "nat \<Rightarrow> nat"
  cc_reader :: "bool \<Rightarrow> reader_end option"

text \<open>What the adapter does to processes.\<close>

datatype process_effect =
    StartCommand string "string list" "(string \<times> string) list"
  | KillGroup

text \<open>The wait ends with a status or a failure, and tells whether the group was killed.\<close>

partial_function (option) wait_for_command ::
  "command_child \<Rightarrow> nat \<Rightarrow> cancellation_token \<Rightarrow> nat \<Rightarrow>
   (process_effect list \<times> (provider_attempt_failure + exit_status)) option" where
  "wait_for_command child deadline tok k =
     (case cc_try_wait child k of
        Inl e \<Rightarrow> Some ([], Inl (after_transport
                   (vox_error_new EcUnavailable ''provider.command_wait'' e) PossiblyAccepted))
      | Inr (Some status) \<Rightarrow> Some ([], Inr status)
      | Inr None \<Rightarrow>
          (if deadline \<le> cc_clock child k
           then Some ([KillGroup], Inl (after_transport
                  (with_retryable True (vox_error_new EcTimeout ''provider.command_timeout''
                     ''command provider timed out'')) PossiblyAccepted))
           else if tok k
           then Some ([KillGroup],
                  Inl (after_transport recognition_cancelled_error PossiblyAccepted))
           else wait_for_command child deadline tok (k + 1)))"

definition finish_command_output ::
  "exit_status \<Rightarrow> bounded_read \<Rightarrow> provider_attempt_failure + utext" where
  "finish_command_output status out =
     (if br_overflowed out
      then Inl (after_transport (vox_error_new EcProtocol ''provider.command_output_too_large''
                  ''command provider output exceeded 1048576 bytes'') Accepted)
      else if \<not> es_success status
      then Inl (after_transport (with_retryable True
                  (vox_error_new EcUnavailable ''provider.command_exit''
                     (''command exited with '' @ es_text status))) Accepted)
      else case utf8_decode (map unat (br_bytes out)) of
        None \<Rightarrow> Inl (after_transport (vox_error_new EcProtocol ''provider.command_output''
                  ''invalid utf-8 sequence'') Accepted)
      | Some decoded \<Rightarrow>
          (let txt = trim decoded
           in if txt = []
              then Inl (after_transport (vox_error_new EcProtocol ''provider.command_empty''
                          ''command provider returned empty output'') Accepted)
              else Inr txt))"

definition command_output ::
  "exit_status \<Rightarrow> reader_end \<Rightarrow> provider_attempt_failure + utext" where
  "command_output status reader =
     (case reader of
        ReaderPanicked \<Rightarrow> Inl (after_transport (vox_error_new EcInternal ''provider.command_output''
                            ''command output reader panicked'') Accepted)
      | ReaderFailed e \<Rightarrow> Inl (after_transport
                            (vox_error_new EcUnavailable ''provider.command_output'' e) Accepted)
      | ReaderRead chunks \<Rightarrow> finish_command_output status (read_bounded (1024 * 1024) chunks))"

definition command_environment :: "string \<Rightarrow> string \<Rightarrow> (string \<times> string) list" where
  "command_environment pcm_path language =
     [(''VOXTYPE_AUDIO_PATH'', pcm_path), (''VOXTYPE_LANGUAGE'', language)]"

text \<open>How the system answers to the start of a command.\<close>

type_synonym command_spawn = "string \<Rightarrow> string list \<Rightarrow> (string \<times> string) list \<Rightarrow> string + command_child"

text \<open>
  One run of a command. The reader is joined whatever the wait gave, so a pipe that stays open blocks
  the adapter for good.
\<close>

definition transcribe_command_with_evidence ::
  "command_spawn \<Rightarrow> string \<Rightarrow> string list \<Rightarrow> nat \<Rightarrow> string \<Rightarrow> string \<Rightarrow> cancellation_token \<Rightarrow> nat \<Rightarrow>
   (process_effect list \<times> (provider_attempt_failure + utext)) option" where
  "transcribe_command_with_evidence spawn program args timeout_seconds pcm_path language tok now =
     (case ensure_not_cancelled tok now of
        Inl f \<Rightarrow> Some ([], Inl f)
      | Inr _ \<Rightarrow>
          (let env = command_environment pcm_path language;
               started = StartCommand program args env
           in case spawn program args env of
             Inl e \<Rightarrow> Some ([started], Inl (before_transport (with_retryable True
                        (vox_error_new EcUnavailable ''provider.command_failed'' e))))
           | Inr child \<Rightarrow>
               if \<not> cc_stdout child
               then Some ([started], Inl (after_transport
                      (vox_error_new EcInternal ''provider.command_output''
                         ''command provider stdout is unavailable'') PossiblyAccepted))
               else (case wait_for_command child (cc_clock child (now + 1) + secs timeout_seconds)
                            tok (now + 2) of
                  None \<Rightarrow> None
                | Some (fx, waited) \<Rightarrow>
                    map_option (\<lambda>reader.
                        (started # fx, case waited of
                                         Inl f \<Rightarrow> Inl f
                                       | Inr status \<Rightarrow> command_output status reader))
                      (cc_reader child (KillGroup \<in> set fx)))))"

definition command_recognize ::
  "command_spawn \<Rightarrow> string \<Rightarrow> string list \<Rightarrow> nat \<Rightarrow> string \<Rightarrow> string \<Rightarrow> cancellation_token \<Rightarrow> nat \<Rightarrow>
   (process_effect list \<times> recognition_result) option" where
  "command_recognize spawn program args timeout_seconds pcm_path language tok now =
     map_option (\<lambda>(fx, r). (fx, case r of
         Inl f \<Rightarrow> Inl f
       | Inr txt \<Rightarrow> Inr (success_after_audio txt provider_usage_default)))
       (transcribe_command_with_evidence spawn program args timeout_seconds pcm_path language tok now)"

section \<open>JSON responses\<close>

definition first_u64 :: "json \<Rightarrow> string list \<Rightarrow> 64 word option" where
  "first_u64 obj names = find_map (\<lambda>name. Option.bind (json_get name obj) json_as_u64) names"

definition parse_usage :: "json \<Rightarrow> provider_usage" where
  "parse_usage value =
     (case json_get ''usage'' value of
        Some (JObject m) \<Rightarrow>
          \<lparr> pu_input_tokens = first_u64 (JObject m) [''input_tokens'', ''prompt_tokens''],
            pu_output_tokens = first_u64 (JObject m) [''output_tokens'', ''completion_tokens''],
            pu_total_tokens = first_u64 (JObject m) [''total_tokens''] \<rparr>
      | _ \<Rightarrow> provider_usage_default)"

text \<open>The trimmed text of a JSON string that is not blank.\<close>

definition nonblank_text :: "json option \<Rightarrow> utext option" where
  "nonblank_text v =
     (case Option.bind v json_as_str of
        None \<Rightarrow> None
      | Some t \<Rightarrow> if trim t = [] then None else Some (trim t))"

section \<open>The OpenAI-compatible adapter\<close>

record rest_provider_config =
  rest_endpoint :: string
  rest_model :: string
  rest_api_key :: secret_string
  rest_timeout_seconds :: nat

definition default_max_response_bytes :: nat where
  "default_max_response_bytes = 1024 * 1024"

text \<open>
  What the adapters rely on outside the program: the curl executable given its arguments, its
  private configuration and the limits, and the JSON parser.
\<close>

record transport =
  tp_curl :: "string list \<Rightarrow> nat \<Rightarrow> string \<Rightarrow> nat \<Rightarrow> string + curl_child"
  tp_json :: "bytes \<Rightarrow> string + json"

definition rest_args :: "rest_provider_config \<Rightarrow> string \<Rightarrow> string \<Rightarrow> string list" where
  "rest_args config wav_path language =
     [''--request'', ''POST'', ''--form'', ''file=@'' @ wav_path @ '';type=audio/wav'',
      ''--form-string'', ''model='' @ rest_model config,
      ''--form-string'', ''response_format=json''] @
     (if language = [] then [] else [''--form-string'', ''language='' @ language]) @
     [''--url'', rest_endpoint config]"

definition authorization_config :: "string \<Rightarrow> secret_string \<Rightarrow> string" where
  "authorization_config scheme key =
     ''header = '' @ [quote] @ ''Authorization: '' @ scheme @ '' '' @
     escape_curl_config (expose key) @ [quote, CHR 0x0A] @
     ''header = '' @ [quote] @ ''Accept: application/json'' @ [quote, CHR 0x0A]"

definition rest_response :: "transport \<Rightarrow> bytes \<Rightarrow> provider_attempt_failure + (utext \<times> provider_usage)" where
  "rest_response tp body =
     (case tp_json tp body of
        Inl e \<Rightarrow> Inl (after_transport (vox_error_new EcProtocol ''provider.invalid_json''
                   (''provider returned invalid JSON: '' @ e)) Accepted)
      | Inr value \<Rightarrow>
          (case nonblank_text (json_get ''text'' value) of
             None \<Rightarrow> Inl (after_transport (vox_error_new EcProtocol ''provider.missing_text''
                        ''provider response did not contain non-empty text'') Accepted)
           | Some txt \<Rightarrow> Inr (txt, parse_usage value)))"

definition rest_request ::
  "transport \<Rightarrow> rest_provider_config \<Rightarrow> string \<Rightarrow> string \<Rightarrow> cancellation_token \<Rightarrow>
   (provider_attempt_failure + (utext \<times> provider_usage)) option" where
  "rest_request tp config wav_path language tok =
     (case execute_curl_cancellable
             (tp_curl tp (rest_args config wav_path language) (rest_timeout_seconds config)
                (authorization_config ''Bearer'' (rest_api_key config)))
             default_max_response_bytes tok of
        None \<Rightarrow> None
      | Some (Inl f) \<Rightarrow> Some (Inl (into_attempt_failure ''provider.http_failed'' f))
      | Some (Inr response) \<Rightarrow> Some (rest_response tp (cr_body response)))"

text \<open>The recording is read from the file given; the error is the message of the io::Error.\<close>

definition rest_transcribe_pcm ::
  "transport \<Rightarrow> rest_provider_config \<Rightarrow> (string + bytes) \<Rightarrow> string \<Rightarrow> string \<Rightarrow> cancellation_token \<Rightarrow>
   (provider_attempt_failure + (utext \<times> provider_usage)) option" where
  "rest_transcribe_pcm tp config pcm wav_path language tok =
     (case validate_endpoint (rest_endpoint config)
             ''provider endpoint must use HTTPS or loopback HTTP'' of
        Inl e \<Rightarrow> Some (Inl (before_transport e))
      | Inr _ \<Rightarrow>
          (case try_then pcm pcm_to_wav of
             Inl e \<Rightarrow> Some (Inl (before_transport (vox_error_new EcInternal ''provider.io_failed'' e)))
           | Inr wav \<Rightarrow> rest_request tp config wav_path language tok))"

definition rest_recognize ::
  "transport \<Rightarrow> secret_tool \<Rightarrow> string \<Rightarrow> (secret_string \<Rightarrow> rest_provider_config) \<Rightarrow>
   (string + bytes) \<Rightarrow> string \<Rightarrow> string \<Rightarrow> cancellation_token \<Rightarrow> nat \<Rightarrow> recognition_result option" where
  "rest_recognize tp tool secret mk pcm wav_path language tok now =
     (case ensure_not_cancelled tok now of
        Inl f \<Rightarrow> Some (Inl f)
      | Inr _ \<Rightarrow>
          (case lookup_secret secret tool of
             Inl e \<Rightarrow> Some (Inl (before_transport e))
           | Inr key \<Rightarrow>
               map_option (\<lambda>r. case r of
                   Inl f \<Rightarrow> Inl f
                 | Inr (txt, usage) \<Rightarrow> Inr (success_after_audio txt usage))
                 (rest_transcribe_pcm tp (mk key) pcm wav_path language (token_later (now + 1) tok))))"

section \<open>The Deepgram adapter\<close>

definition hex_digit :: "nat \<Rightarrow> char" where
  "hex_digit n = (if n < 10 then char_of (48 + n) else char_of (55 + n))"

definition unreserved :: "char \<Rightarrow> bool" where
  "unreserved c \<longleftrightarrow>
     is_ascii_lowercase c \<or> (65 \<le> (of_char c :: nat) \<and> (of_char c :: nat) \<le> 90) \<or>
     is_ascii_digit c \<or> c \<in> {CHR ''-'', CHR ''.'', CHR ''_'', CHR ''~''}"

definition percent_byte :: "char \<Rightarrow> string" where
  "percent_byte c = [CHR ''%'', hex_digit (of_char c div 16), hex_digit (of_char c mod 16)]"

definition encode_query :: "string \<Rightarrow> string" where
  "encode_query value = concat (map (\<lambda>c. if unreserved c then [c] else percent_byte c) value)"

record deepgram_config =
  dg_endpoint :: string
  dg_model :: string
  dg_api_key :: secret_string
  dg_timeout_seconds :: nat
  dg_smart_format :: bool

definition request_url :: "deepgram_config \<Rightarrow> string \<Rightarrow> string" where
  "request_url config language =
     dg_endpoint config @ [if CHR ''?'' \<in> set (dg_endpoint config) then CHR ''&'' else CHR ''?''] @
     ''model='' @ encode_query (dg_model config) @ ''&smart_format='' @
     (if dg_smart_format config then ''true'' else ''false'') @
     (if language = [] then [] else ''&language='' @ encode_query language)"

definition deepgram_transcript :: "json \<Rightarrow> json option" where
  "deepgram_transcript value =
     Option.bind (json_get ''results'' value) (\<lambda>v.
     Option.bind (json_get ''channels'' v) (\<lambda>v.
     Option.bind (json_index 0 v) (\<lambda>v.
     Option.bind (json_get ''alternatives'' v) (\<lambda>v.
     Option.bind (json_index 0 v) (json_get ''transcript'')))))"

definition parse_transcription :: "transport \<Rightarrow> bytes \<Rightarrow> utext outcome" where
  "parse_transcription tp body =
     (case tp_json tp body of
        Inl e \<Rightarrow> Inl (vox_error_new EcProtocol ''provider.deepgram.invalid_json''
                   (''Deepgram returned invalid JSON: '' @ e))
      | Inr value \<Rightarrow>
          (case nonblank_text (deepgram_transcript value) of
             None \<Rightarrow> Inl (vox_error_new EcProtocol ''provider.deepgram.missing_transcript''
                        ''Deepgram response did not contain a non-empty transcript'')
           | Some txt \<Rightarrow> Inr txt))"

definition deepgram_request ::
  "transport \<Rightarrow> deepgram_config \<Rightarrow> string \<Rightarrow> string \<Rightarrow> cancellation_token \<Rightarrow>
   (provider_attempt_failure + utext) option" where
  "deepgram_request tp config wav_path language tok =
     (case execute_curl_cancellable
             (tp_curl tp
                [''--request'', ''POST'', ''--header'', ''Content-Type: application/octet-stream'',
                 ''--data-binary'', ''@'' @ wav_path, ''--url'', request_url config language]
                (dg_timeout_seconds config)
                (authorization_config ''Token'' (dg_api_key config)))
             default_max_response_bytes tok of
        None \<Rightarrow> None
      | Some (Inl f) \<Rightarrow> Some (Inl (into_attempt_failure ''provider.deepgram.http_failed'' f))
      | Some (Inr response) \<Rightarrow>
          Some (case parse_transcription tp (cr_body response) of
                  Inl e \<Rightarrow> Inl (after_transport e Accepted) | Inr txt \<Rightarrow> Inr txt))"

definition deepgram_transcribe_pcm ::
  "transport \<Rightarrow> deepgram_config \<Rightarrow> (string + bytes) \<Rightarrow> string \<Rightarrow> string \<Rightarrow> cancellation_token \<Rightarrow>
   (provider_attempt_failure + utext) option" where
  "deepgram_transcribe_pcm tp config pcm wav_path language tok =
     (case validate_endpoint (dg_endpoint config)
             ''Deepgram endpoint must use HTTPS or loopback HTTP'' of
        Inl e \<Rightarrow> Some (Inl (before_transport e))
      | Inr _ \<Rightarrow>
          (case try_then pcm pcm_to_wav of
             Inl e \<Rightarrow> Some (Inl (before_transport
                        (vox_error_new EcInternal ''provider.deepgram.io_failed'' e)))
           | Inr wav \<Rightarrow> deepgram_request tp config wav_path language tok))"

definition deepgram_recognize ::
  "transport \<Rightarrow> secret_tool \<Rightarrow> string \<Rightarrow> (secret_string \<Rightarrow> deepgram_config) \<Rightarrow>
   (string + bytes) \<Rightarrow> string \<Rightarrow> string \<Rightarrow> cancellation_token \<Rightarrow> nat \<Rightarrow> recognition_result option" where
  "deepgram_recognize tp tool secret mk pcm wav_path language tok now =
     (case ensure_not_cancelled tok now of
        Inl f \<Rightarrow> Some (Inl f)
      | Inr _ \<Rightarrow>
          (case lookup_secret secret tool of
             Inl e \<Rightarrow> Some (Inl (before_transport e))
           | Inr key \<Rightarrow>
               map_option (\<lambda>r. case r of
                   Inl f \<Rightarrow> Inl f
                 | Inr txt \<Rightarrow> Inr (success_after_audio txt provider_usage_default))
                 (deepgram_transcribe_pcm tp (mk key) pcm wav_path language
                    (token_later (now + 1) tok))))"

section \<open>The registry\<close>

text \<open>
  The recognizer of a configured provider, as a function of its settings: the mock is the
  function above, the others run against the outside world, which is an argument.
\<close>

type_synonym recognizer_fun = "recognition_input \<Rightarrow> cancellation_token \<Rightarrow> nat \<Rightarrow> recognition_result \<times> nat"

definition adapter_recognizer ::
  "(provider_config \<Rightarrow> recognizer_fun) \<Rightarrow> provider_config \<Rightarrow> recognizer_fun" where
  "adapter_recognizer world p =
     (case p of Mock txt \<Rightarrow> (\<lambda>input tok now. (mock_recognize txt tok now, now + 1))
              | _ \<Rightarrow> world p)"

definition build_adapter ::
  "(provider_config \<Rightarrow> recognizer_fun) \<Rightarrow> provider_id \<Rightarrow> provider_config \<Rightarrow> provider_adapter" where
  "build_adapter world i p =
     \<lparr> pa_id = i, pa_capabilities = recorded_pcm_capabilities,
       pa_recognize = adapter_recognizer world p \<rparr>"

fun register_providers ::
  "(provider_config \<Rightarrow> recognizer_fun) \<Rightarrow> (string \<times> provider_config) list \<Rightarrow>
   provider_registry \<Rightarrow> provider_registry outcome" where
  "register_providers world [] reg = Inr reg"
| "register_providers world ((name, p) # rest) reg =
     try_then (provider_id_new name) (\<lambda>i.
       (case registry_register (build_adapter world i p) reg of
          (Inl e, _) \<Rightarrow> Inl e
        | (Inr _, reg') \<Rightarrow> register_providers world rest reg'))"

definition build_provider_registry ::
  "(provider_config \<Rightarrow> recognizer_fun) \<Rightarrow> config \<Rightarrow> provider_registry outcome" where
  "build_provider_registry world config =
     register_providers world (cfg_providers config) Map.empty"

end
