(* ===== verification/Levels.thy ===== *)
theory Levels
  imports Prelude
begin

text \<open>
  Levels of a PCM frame: the integer square roots of src/vad.rs and src/audio.rs, the RMS and
  peak of a frame as the voice activity detector computes them (src/vad.rs), and the metrics
  that the capture reader reports (src/audio.rs). The roots are computed on natural numbers:
  their arguments are below 2^64 and none of the sums can reach the width of a u64.
\<close>

section \<open>Integer square roots\<close>

text \<open>The contract of an integer square root.\<close>

locale floor_root =
  fixes root :: "nat \<Rightarrow> nat"
  assumes root_lower: "root v * root v \<le> v"
    and root_upper: "v < (root v + 1) * (root v + 1)"
begin

lemma root_unique: "r * r \<le> v \<Longrightarrow> v < (r + 1) * (r + 1) \<Longrightarrow> root v = r"
proof -
  assume lo: "r * r \<le> v" and hi: "v < (r + 1) * (r + 1)"
  have "\<not> r + 1 \<le> root v"
    using mult_le_mono[of "r + 1" "root v" "r + 1" "root v"] root_lower[of v] hi by linarith
  moreover have "\<not> root v + 1 \<le> r"
    using mult_le_mono[of "root v + 1" r "root v + 1" r] root_upper[of v] lo by linarith
  ultimately show ?thesis by linarith
qed

lemma root_square: "root (n * n) = n"
  by (rule root_unique) auto

lemma root_mono: "v \<le> w \<Longrightarrow> root v \<le> root w"
proof (rule ccontr)
  assume "v \<le> w" and "\<not> root v \<le> root w"
  then have "root w + 1 \<le> root v" by simp
  then have "(root w + 1) * (root w + 1) \<le> root v * root v" by (rule mult_le_mono) fact
  then show False using root_lower[of v] root_upper[of w] \<open>v \<le> w\<close> by linarith
qed

lemma root_le_bound: "v \<le> b * b \<Longrightarrow> root v \<le> b"
  using root_mono[of v "b * b"] by (simp add: root_square)

end

text \<open>Newton's iteration of src/vad.rs, from the value itself.\<close>

function isqrt_loop :: "nat \<Rightarrow> nat \<Rightarrow> nat \<Rightarrow> nat" where
  "isqrt_loop v estimate next =
     (if next < estimate then isqrt_loop v next ((next + v div next) div 2) else estimate)"
  by pat_completeness auto

termination by (relation "measure (\<lambda>(v, estimate, next). estimate)") auto

declare isqrt_loop.simps [simp del]

definition integer_sqrt :: "nat \<Rightarrow> nat" where
  "integer_sqrt v =
     (if v < 2 then v else isqrt_loop v v ((v + v div v) div 2))"

lemma four_mult_le: "4 * (a * b) \<le> (a + b) * (a + b :: nat)"
proof (cases "a \<le> b")
  case True
  then obtain d where "b = a + d" by (auto simp: le_iff_add)
  then show ?thesis by (simp add: algebra_simps)
next
  case False
  then obtain d where "a = b + d" by (metis le_iff_add nat_le_linear)
  then show ?thesis by (simp add: algebra_simps)
qed

lemma newton_above: "0 < (e :: nat) \<Longrightarrow> v < ((e + v div e) div 2 + 1) * ((e + v div e) div 2 + 1)"
proof -
  assume e: "0 < e"
  define q where "q = v div e"
  let ?q = q and ?m = "(e + q) div 2 + 1"
  have v: "v < e * (?q + 1)"
    using e unfolding q_def by (metis div_less_iff_less_mult less_add_one mult.commute)
  have "e + ?q + 1 \<le> 2 * ?m" by presburger
  then have "(e + (?q + 1)) * (e + (?q + 1)) \<le> (2 * ?m) * (2 * ?m)"
    by (intro mult_le_mono) simp_all
  moreover have "4 * (e * (?q + 1)) \<le> (e + (?q + 1)) * (e + (?q + 1))"
    by (rule four_mult_le)
  ultimately have "4 * (e * (?q + 1)) \<le> 4 * (?m * ?m)" by linarith
  with v have "v < ?m * ?m" by linarith
  then show ?thesis by (simp only: q_def)
qed

lemma isqrt_loop_root:
  assumes "0 < estimate" "next = (estimate + v div estimate) div 2" "0 < v"
    and "v < (estimate + 1) * (estimate + 1)"
  shows "isqrt_loop v estimate next * isqrt_loop v estimate next \<le> v \<and>
         v < (isqrt_loop v estimate next + 1) * (isqrt_loop v estimate next + 1)"
  using assms
proof (induction v estimate "next" rule: isqrt_loop.induct)
  case (1 v estimate "next")
  show ?case
  proof (cases "next < estimate")
    case True
    have "0 < next"
    proof (rule ccontr)
      assume "\<not> 0 < next"
      then have "estimate + v div estimate < 2" using 1 by simp
      then have "estimate = 1" "v div estimate = 0" using 1 by auto
      then show False using 1 by simp
    qed
    moreover have "v < (next + 1) * (next + 1)"
      using newton_above[of estimate v] 1 by simp
    ultimately show ?thesis
      using 1 True by (subst (1 2 3 4) isqrt_loop.simps) simp
  next
    case False
    then have "estimate \<le> v div estimate" using 1 by simp
    then have "estimate * estimate \<le> v"
      using 1 by (metis less_eq_div_iff_mult_less_eq)
    with False 1 show ?thesis by (subst (1 2 3 4) isqrt_loop.simps) simp
  qed
qed

interpretation isqrt: floor_root integer_sqrt
proof
  fix v
  have "integer_sqrt v * integer_sqrt v \<le> v \<and> v < (integer_sqrt v + 1) * (integer_sqrt v + 1)"
  proof (cases "v < 2")
    case True
    then have "v = 0 \<or> v = 1" by linarith
    then show ?thesis by (auto simp: integer_sqrt_def)
  next
    case False
    then show ?thesis
      using isqrt_loop_root[of v "(v + v div v) div 2" v]
      by (simp add: integer_sqrt_def)
  qed
  then show "integer_sqrt v * integer_sqrt v \<le> v"
    and "v < (integer_sqrt v + 1) * (integer_sqrt v + 1)" by auto
qed

text \<open>
  The iteration of src/audio.rs starts from a power of two chosen by the position of the
  leading bit.
\<close>

fun ilog2 :: "nat \<Rightarrow> nat" where
  "ilog2 v = (if v < 2 then 0 else 1 + ilog2 (v div 2))"

declare ilog2.simps [simp del]

definition initial_estimate :: "nat \<Rightarrow> nat" where
  "initial_estimate v = 2 ^ ((ilog2 v + 1) div 2)"

definition audio_integer_sqrt :: "nat \<Rightarrow> nat" where
  "audio_integer_sqrt v =
     (if v = 0 then 0
      else let e = initial_estimate v in isqrt_loop v e ((e + v div e) div 2))"

lemma ilog2_bounds: "0 < v \<Longrightarrow> 2 ^ ilog2 v \<le> v \<and> v < 2 * 2 ^ ilog2 v"
proof (induction v rule: ilog2.induct)
  case (1 v)
  show ?case
  proof (cases "v < 2")
    case True
    then show ?thesis using 1 by (subst (1 2) ilog2.simps) simp
  next
    case False
    then have "2 ^ ilog2 (v div 2) \<le> v div 2 \<and> v div 2 < 2 * 2 ^ ilog2 (v div 2)"
      using 1 by simp
    then show ?thesis using False
      by (subst (1 2) ilog2.simps) auto
  qed
qed

lemma audio_root_even:
  assumes "0 < v" and "even (ilog2 v)"
  shows "audio_integer_sqrt v = 2 ^ (ilog2 v div 2)"
proof -
  obtain k where k: "ilog2 v = 2 * k" using assms(2) by (elim evenE)
  let ?e = "2 ^ k :: nat"
  have e: "initial_estimate v = ?e" by (simp add: initial_estimate_def k)
  have "?e * ?e \<le> v"
    using ilog2_bounds[OF assms(1)] by (simp add: k mult_2 power_add)
  then have "?e \<le> v div ?e" by (simp add: less_eq_div_iff_mult_less_eq)
  then have "\<not> (?e + v div ?e) div 2 < ?e" by simp
  then show ?thesis using assms(1)
    by (simp add: audio_integer_sqrt_def e k isqrt_loop.simps[of v "2 ^ k"])
qed

lemma audio_root_odd:
  assumes "odd (ilog2 v)"
  shows "audio_integer_sqrt v = integer_sqrt v"
proof -
  obtain k where k: "ilog2 v = 2 * k + 1" using assms by (elim oddE)
  have v: "0 < v" using k by (intro gr0I) (simp add: ilog2.simps)
  let ?e = "2 ^ (k + 1) :: nat"
  have e: "initial_estimate v = ?e" by (simp add: initial_estimate_def k)
  have "?e * ?e = 2 ^ ((k + 1) + (k + 1))" by (simp only: power_add)
  also have "\<dots> = 2 * 2 ^ ilog2 v" by (simp add: k mult_2)
  finally have "v < ?e * ?e" using ilog2_bounds[OF v] by simp
  also have "\<dots> \<le> (?e + 1) * (?e + 1)" by (intro mult_le_mono) simp_all
  finally have "v < (?e + 1) * (?e + 1)" .
  from isqrt_loop_root[OF _ refl v this]
  have "audio_integer_sqrt v * audio_integer_sqrt v \<le> v \<and>
        v < (audio_integer_sqrt v + 1) * (audio_integer_sqrt v + 1)"
    using v by (simp add: audio_integer_sqrt_def e Let_def)
  then show ?thesis by (metis isqrt.root_unique)
qed

lemma audio_root_le: "audio_integer_sqrt v \<le> integer_sqrt v"
proof (cases "v = 0 \<or> odd (ilog2 v)")
  case True
  then show ?thesis by (auto simp: audio_root_odd) (simp add: audio_integer_sqrt_def)
next
  case False
  then obtain k where k: "ilog2 v = 2 * k" by auto
  have "(2 ^ k * 2 ^ k :: nat) = 2 ^ ilog2 v" by (simp add: k mult_2 power_add)
  then have "2 ^ k * 2 ^ k \<le> v" using ilog2_bounds[of v] False by simp
  then have "2 ^ k \<le> integer_sqrt v"
    using isqrt.root_mono[of "2 ^ k * 2 ^ k" v] by (simp add: isqrt.root_square)
  then show ?thesis using False by (simp add: audio_root_even k)
qed

section \<open>Samples\<close>

definition i16_from_le :: "8 word \<Rightarrow> 8 word \<Rightarrow> 16 word" where
  "i16_from_le b0 b1 = word_of_int (uint b0 + 256 * uint b1)"

definition unsigned_abs :: "16 word \<Rightarrow> 16 word" where
  "unsigned_abs w = (if sint w < 0 then - w else w)"

text \<open>The magnitudes of the whole samples; an odd trailing byte is ignored.\<close>

fun magnitudes :: "bytes \<Rightarrow> 16 word list" where
  "magnitudes (b0 # b1 # rest) = unsigned_abs (i16_from_le b0 b1) # magnitudes rest"
| "magnitudes _ = []"

lemma magnitudes_length: "length (magnitudes pcm) = length pcm div 2"
  by (induction pcm rule: magnitudes.induct) auto

lemma unsigned_abs_nat: "unat (unsigned_abs w) = nat \<bar>sint w\<bar>"
proof -
  have range: "- (2 ^ 15) \<le> sint w" "sint w < 2 ^ 15"
    using sint_ge[of w] sint_lt[of w] by simp_all
  have "uint (unsigned_abs w) = \<bar>sint w\<bar>"
  proof (cases "sint w < 0")
    case True
    have "- w = word_of_int (- sint w)" by simp
    then have "uint (- w) = - sint w mod 2 ^ 16" by (simp only: uint_word_of_int) simp
    then show ?thesis using True range by (simp add: unsigned_abs_def)
  next
    case False
    have "uint w = sint w mod 2 ^ 16" by (simp add: uint_sint take_bit_eq_mod)
    then show ?thesis using False range by (simp add: unsigned_abs_def)
  qed
  then show ?thesis by (simp add: unat_eq_nat_uint)
qed

lemma unsigned_abs_le: "unat (unsigned_abs w) \<le> 32768"
  using sint_ge[of w] sint_lt[of w] by (simp add: unsigned_abs_nat)

section \<open>Levels of a frame\<close>

definition u16_or_default :: "nat \<Rightarrow> 16 word" where
  "u16_or_default n = (if n < 2 ^ 16 then word_of_nat n else 0)"

definition add_square :: "16 word \<Rightarrow> 64 word \<Rightarrow> 64 word" where
  "add_square magnitude square_sum =
     (let v = ucast magnitude in sat_add square_sum (sat_mul v v))"

fun level_step ::
  "16 word \<Rightarrow> 64 word \<times> 64 word \<times> 16 word \<Rightarrow> 64 word \<times> 64 word \<times> 16 word" where
  "level_step m (square_sum, count, peak) =
     (add_square m square_sum, sat_add count 1, max peak m)"

definition frame_level :: "bytes \<Rightarrow> 16 word \<times> 16 word" where
  "frame_level frame =
     (let (square_sum, count, peak) = fold level_step (magnitudes frame) (0, 0, 0)
      in ((case checked_div square_sum count of
             None \<Rightarrow> 0 | Some mean \<Rightarrow> u16_or_default (integer_sqrt (unat mean))), peak))"

record audio_frame_metrics =
  fm_frame :: "64 word"
  fm_rms :: "16 word"
  fm_peak :: "16 word"
  fm_clipped_samples :: "16 word"
  fm_samples :: "16 word"

fun metrics_step ::
  "16 word \<Rightarrow> 64 word \<times> 16 word \<times> 16 word \<times> 16 word \<Rightarrow>
   64 word \<times> 16 word \<times> 16 word \<times> 16 word" where
  "metrics_step m (square_sum, peak, clipped, count) =
     (add_square m square_sum, max peak m,
      (if sat_sub 32767 32 \<le> m then sat_add clipped 1 else clipped), sat_add count 1)"

definition frame_metrics :: "64 word \<Rightarrow> bytes \<Rightarrow> audio_frame_metrics" where
  "frame_metrics frame pcm =
     (let (square_sum, peak, clipped, count) = fold metrics_step (magnitudes pcm) (0, 0, 0, 0)
      in \<lparr> fm_frame = frame,
           fm_rms = (case checked_div square_sum (ucast count) of
                       None \<Rightarrow> 0
                     | Some mean \<Rightarrow> u16_or_default (audio_integer_sqrt (unat mean))),
           fm_peak = peak, fm_clipped_samples = clipped, fm_samples = count \<rparr>)"

text \<open>The mean square of a frame, without bounds.\<close>

definition square_total :: "16 word list \<Rightarrow> nat" where
  "square_total ms = sum_list (map (\<lambda>m. unat m * unat m) ms)"

definition mean_square :: "bytes \<Rightarrow> nat" where
  "mean_square pcm = square_total (magnitudes pcm) div length (magnitudes pcm)"

lemma fold_level_step:
  "fold level_step ms (sq, n, pk) =
     (fold add_square ms sq, fold (\<lambda>_ n. sat_add n 1) ms n, fold (\<lambda>m pk. max pk m) ms pk)"
  by (induction ms arbitrary: sq n pk) auto

lemma fold_metrics_step:
  "fold metrics_step ms (sq, pk, cl, n) =
     (fold add_square ms sq, fold (\<lambda>m pk. max pk m) ms pk,
      fold (\<lambda>m cl. if sat_sub 32767 32 \<le> m then sat_add cl 1 else cl) ms cl,
      fold (\<lambda>_ n. sat_add n 1) ms n)"
  by (induction ms arbitrary: sq n pk cl) auto

lemma unat_square_bound: "unat (m :: 16 word) * unat m < 2 ^ 32"
proof -
  have "unat m < 2 ^ 16" using unsigned_less[of m, where ?'a = nat] by simp
  then have "unat m * unat m < 2 ^ 16 * 2 ^ 16" by (intro mult_strict_mono') simp_all
  then show ?thesis by simp
qed

lemma unat_add_square:
  assumes "unat sq + unat m * unat m < 2 ^ 64"
  shows "unat (add_square m sq) = unat sq + unat m * unat m"
proof -
  have u: "unat (ucast m :: 64 word) = unat m"
    using unsigned_less[of m, where ?'a = nat]
    by (simp add: unsigned_ucast_eq take_bit_nat_eq_self)
  show ?thesis using assms unat_square_bound[of m]
    by (simp add: add_square_def u unat_sat_add unat_sat_mul Let_def)
qed

lemma fold_add_square:
  "unat sq + square_total ms < 2 ^ 64 \<Longrightarrow>
   unat (fold add_square ms sq) = unat sq + square_total ms"
proof (induction ms arbitrary: sq)
  case (Cons m ms)
  then have "unat (add_square m sq) = unat sq + unat m * unat m"
    by (intro unat_add_square) (simp add: square_total_def)
  then show ?case using Cons by (simp add: square_total_def)
qed (simp add: square_total_def)

lemma fold_count:
  "unat (n :: 'a::len word) + length ms < 2 ^ LENGTH('a) \<Longrightarrow>
   unat (fold (\<lambda>_ n. sat_add n 1) ms n) = unat n + length ms"
proof (induction ms arbitrary: n)
  case (Cons m ms)
  have "unat (sat_add n 1) = unat n + 1"
    using Cons.prems by (cases "LENGTH('a) = 1") (auto simp: unat_sat_add)
  then show ?case using Cons by simp
qed simp

lemma fold_max_ge:
  "pk \<le> fold (\<lambda>m pk. max pk m) ms (pk :: 16 word)"
  "m \<in> set ms \<Longrightarrow> m \<le> fold (\<lambda>m pk. max pk m) ms pk"
proof (induction ms arbitrary: pk)
  case (Cons x ms)
  {
    case 1
    show ?case using Cons.IH(1)[of "max pk x"] by simp
  next
    case 2
    then show ?case
      using Cons.IH(1)[of "max pk x"] Cons.IH(2)[of "max pk x"] by auto
  }
qed simp_all

lemma square_total_le: "(\<And>m. m \<in> set ms \<Longrightarrow> unat m \<le> b) \<Longrightarrow> square_total ms \<le> length ms * (b * b)"
proof (induction ms)
  case (Cons m ms)
  have "unat m * unat m \<le> b * b" using Cons.prems by (intro mult_le_mono) simp_all
  with Cons show ?case by (simp add: square_total_def)
qed (simp add: square_total_def)

lemma square_total_lt:
  assumes "length ms < 2 ^ 32" shows "square_total ms < 2 ^ 64"
proof -
  have "unat m \<le> 2 ^ 16 - 1" for m :: "16 word"
    using unsigned_less[of m, where ?'a = nat] by simp
  then have "square_total ms \<le> length ms * ((2 ^ 16 - 1) * (2 ^ 16 - 1))"
    by (rule square_total_le)
  also have "\<dots> \<le> length ms * 2 ^ 32" by (intro mult_le_mono2) simp
  also have "\<dots> < 2 ^ 32 * 2 ^ 32" using assms by (intro mult_strict_right_mono) simp_all
  finally show ?thesis by simp
qed

lemma mean_square_le:
  assumes "\<And>m. m \<in> set (magnitudes pcm) \<Longrightarrow> unat m \<le> b"
  shows "mean_square pcm \<le> b * b"
proof (cases "magnitudes pcm = []")
  case False
  have "square_total (magnitudes pcm) \<le> length (magnitudes pcm) * (b * b)"
    by (rule square_total_le) (rule assms)
  then have "square_total (magnitudes pcm) div length (magnitudes pcm)
      \<le> (length (magnitudes pcm) * (b * b)) div length (magnitudes pcm)"
    by (rule div_le_mono)
  then show ?thesis using False by (simp add: mean_square_def)
qed (simp add: mean_square_def)

lemma mean_square_lt: "mean_square pcm < 2 ^ 32"
proof -
  have "unat m \<le> 2 ^ 16 - 1" for m :: "16 word"
    using unsigned_less[of m, where ?'a = nat] by simp
  then have "mean_square pcm \<le> (2 ^ 16 - 1) * (2 ^ 16 - 1)" by (rule mean_square_le)
  then show ?thesis by simp
qed

lemma mean_of_words:
  assumes "length (magnitudes pcm) < 2 ^ 32" and "magnitudes pcm \<noteq> []"
    and "unat n = length (magnitudes pcm)"
  shows "checked_div (fold add_square (magnitudes pcm) 0) n = Some (word_of_nat (mean_square pcm))"
    and "unat (word_of_nat (mean_square pcm) :: 64 word) = mean_square pcm"
proof -
  have sq: "unat (fold add_square (magnitudes pcm) 0) = square_total (magnitudes pcm)"
    using fold_add_square[of 0 "magnitudes pcm"] square_total_lt[OF assms(1)] by simp
  show m: "unat (word_of_nat (mean_square pcm) :: 64 word) = mean_square pcm"
    using mean_square_lt[of pcm] by (simp add: unat_word_of_nat)
  have "n \<noteq> 0" using assms(2,3) by auto
  moreover have "unat (fold add_square (magnitudes pcm) 0 div n) = mean_square pcm"
    by (simp add: unat_div sq assms(3) mean_square_def)
  then have "fold add_square (magnitudes pcm) 0 div n = word_of_nat (mean_square pcm)"
    using m by (simp add: word_unat_eq_iff)
  ultimately show "checked_div (fold add_square (magnitudes pcm) 0) n =
      Some (word_of_nat (mean_square pcm))"
    by (simp add: checked_div_def)
qed

lemma root_lt_u16: "v < 2 ^ 32 \<Longrightarrow> integer_sqrt v < 2 ^ 16"
proof -
  assume "v < 2 ^ 32"
  then have "integer_sqrt v * integer_sqrt v < 2 ^ 16 * 2 ^ 16"
    using isqrt.root_lower[of v] by simp
  then show ?thesis using mult_le_mono[of "2 ^ 16" "integer_sqrt v" "2 ^ 16" "integer_sqrt v"]
    by (meson not_less)
qed

lemma frame_level_rms:
  assumes "length pcm < 2 ^ 32"
  shows "unat (fst (frame_level pcm)) = integer_sqrt (mean_square pcm)"
proof (cases "magnitudes pcm = []")
  case True
  then show ?thesis
    by (simp add: frame_level_def mean_square_def checked_div_def integer_sqrt_def)
next
  case False
  have len: "length (magnitudes pcm) < 2 ^ 32" using assms by (simp add: magnitudes_length)
  have "unat (fold (\<lambda>_ n. sat_add n 1) (magnitudes pcm) (0 :: 64 word)) = length (magnitudes pcm)"
    using fold_count[of "0 :: 64 word" "magnitudes pcm"] len by simp
  note mean = mean_of_words[OF len False this]
  show ?thesis
    using root_lt_u16[OF mean_square_lt[of pcm]]
    by (simp add: frame_level_def fold_level_step mean u16_or_default_def unat_word_of_nat)
qed

lemma frame_level_peak:
  "m \<in> set (magnitudes pcm) \<Longrightarrow> m \<le> snd (frame_level pcm)"
  using fold_max_ge(2)[of m "magnitudes pcm" 0]
  by (simp add: frame_level_def fold_level_step Let_def)

lemma frame_metrics_rms:
  assumes "length pcm < 2 ^ 16"
  shows "unat (fm_rms (frame_metrics k pcm)) = audio_integer_sqrt (mean_square pcm)"
proof (cases "magnitudes pcm = []")
  case True
  then show ?thesis
    by (simp add: frame_metrics_def mean_square_def checked_div_def audio_integer_sqrt_def)
next
  case False
  have len: "length (magnitudes pcm) < 2 ^ 16" using assms by (simp add: magnitudes_length)
  have "unat (fold (\<lambda>_ n. sat_add n 1) (magnitudes pcm) (0 :: 16 word)) = length (magnitudes pcm)"
    using fold_count[of "0 :: 16 word" "magnitudes pcm"] len by simp
  then have "unat (ucast (fold (\<lambda>_ n. sat_add n 1) (magnitudes pcm) (0 :: 16 word)) :: 64 word) =
      length (magnitudes pcm)"
    using len by (simp add: unsigned_ucast_eq take_bit_nat_eq_self)
  note mean = mean_of_words[OF _ False this]
  have "audio_integer_sqrt (mean_square pcm) < 2 ^ 16"
    using audio_root_le[of "mean_square pcm"] root_lt_u16[OF mean_square_lt[of pcm]] by linarith
  then show ?thesis using len
    by (simp add: frame_metrics_def fold_metrics_step mean u16_or_default_def unat_word_of_nat)
qed

section \<open>Properties\<close>

text \<open>
  the RMS of a frame is the floor of the square root of the mean of its squared samples;
  no sum saturates, the conversion to 16 bits never falls back to zero, and the RMS never
  exceeds the peak.
\<close>

theorem frame_level_is_floor_rms:
  assumes "length pcm < 2 ^ 32"
  shows "unat (fst (frame_level pcm)) * unat (fst (frame_level pcm)) \<le> mean_square pcm \<and>
         mean_square pcm < (unat (fst (frame_level pcm)) + 1) * (unat (fst (frame_level pcm)) + 1) \<and>
         fst (frame_level pcm) \<le> snd (frame_level pcm)"
proof -
  have "mean_square pcm \<le> unat (snd (frame_level pcm)) * unat (snd (frame_level pcm))"
    by (rule mean_square_le) (simp add: frame_level_peak flip: word_le_nat_alt)
  then have "unat (fst (frame_level pcm)) \<le> unat (snd (frame_level pcm))"
    by (simp add: frame_level_rms[OF assms] isqrt.root_le_bound)
  then show ?thesis
    using isqrt.root_lower isqrt.root_upper
    by (simp add: frame_level_rms[OF assms] word_le_nat_alt)
qed

theorem frame_level_is_floor_rms_witness:
  "unat (fst (frame_level [144, 1, 112, 254])) * unat (fst (frame_level [144, 1, 112, 254]))
     \<le> mean_square [144, 1, 112, 254] \<and>
   mean_square [144, 1, 112, 254] = 400 * 400"
proof
  show "mean_square [144, 1, 112, 254] = 400 * 400"
    by (simp add: mean_square_def square_total_def unsigned_abs_nat i16_from_le_def
        flip: numeral_2_eq_2)
  show "unat (fst (frame_level [144, 1, 112, 254])) * unat (fst (frame_level [144, 1, 112, 254]))
     \<le> mean_square [144, 1, 112, 254]"
    using frame_level_is_floor_rms[of "[144, 1, 112, 254]"] by simp
qed

text \<open>
  the RMS of the live capture metrics agrees with the one of the voice detector exactly
  when the leading bit of the mean square is at an odd position; at an even position it is
  the power of two below the root, so the live level is under-reported (up to a factor of the
  square root of two).
\<close>

theorem live_rms_rounds_down_to_power_of_two:
  assumes "length pcm < 2 ^ 16" and "0 < mean_square pcm"
  shows "unat (fm_rms (frame_metrics k pcm)) =
           (if odd (ilog2 (mean_square pcm)) then unat (fst (frame_level pcm))
            else 2 ^ (ilog2 (mean_square pcm) div 2)) \<and>
         fm_rms (frame_metrics k pcm) \<le> fst (frame_level pcm)"
proof -
  have len: "length pcm < 2 ^ 32" using assms(1) by simp
  show ?thesis
    using audio_root_even[OF assms(2)] audio_root_odd[of "mean_square pcm"]
      audio_root_le[of "mean_square pcm"]
    by (auto simp: frame_metrics_rms[OF assms(1)] frame_level_rms[OF len] word_le_nat_alt)
qed

theorem live_rms_rounds_down_to_power_of_two_witness:
  "unat (fm_rms (frame_metrics 0 [44, 1, 212, 254])) = 256 \<and>
   unat (fst (frame_level [44, 1, 212, 254])) = 300"
proof -
  let ?pcm = "[44, 1, 212, 254] :: bytes"
  have m: "mean_square ?pcm = 300 * 300"
    by (simp add: mean_square_def square_total_def unsigned_abs_nat i16_from_le_def
        flip: numeral_2_eq_2)
  have "ilog2 90000 = 16" by (simp add: ilog2.simps)
  then show ?thesis
    using live_rms_rounds_down_to_power_of_two[of ?pcm 0] frame_level_rms[of ?pcm]
      isqrt.root_square[of 300]
    by (simp add: m)
qed

end
