(* ===== verification/Vad.thy ===== *)
theory Vad
  imports Levels "HOL-Library.Multiset"
begin

text \<open>
  The stateful energy voice activity detector (src/vad.rs): its state as a record of machine
  integers, one step per 20 ms frame, the statistics at the end of a stream, the batch
  analysis of a recording and the trimming of the recorded file.
\<close>

definition bytes_per_frame :: nat where
  "bytes_per_frame = 640"

definition pre_roll_frames :: "32 word" where
  "pre_roll_frames = 8"

definition post_roll_frames :: "32 word" where
  "post_roll_frames = 15"

definition end_silence_frames :: "32 word" where
  "end_silence_frames = 3 + 12"

record vad_config =
  rms_threshold :: "16 word"
  minimum_voiced_frames :: "32 word"

record vad_result =
  vr_speech_detected :: bool
  vr_voiced_frames :: "32 word"
  vr_total_frames :: "32 word"
  vr_peak :: "16 word"
  vr_average_rms :: "16 word"
  vr_noise_floor :: "16 word"
  vr_adaptive_threshold :: "16 word"
  vr_speech_start_frame :: "32 word option"
  vr_speech_end_frame :: "32 word option"
  vr_trim_start_frame :: "32 word option"
  vr_trim_end_frame :: "32 word option"

datatype vad_event = SpeechStarted "32 word" | SpeechEnded "32 word"

record vad_frame_analysis =
  va_frame :: "32 word"
  va_rms :: "16 word"
  va_noise_floor :: "16 word"
  va_adaptive_threshold :: "16 word"
  va_voiced :: bool
  va_speech_active :: bool
  va_attack_frames :: "32 word"
  va_release_frames :: "32 word"
  va_hangover_frames_remaining :: "32 word"
  va_event :: "vad_event option"

record streaming_vad =
  vd_config :: vad_config
  vd_noise_floor :: "16 word option"
  vd_adaptive_threshold :: "16 word"
  vd_total_frames :: "32 word"
  vd_voiced_frames :: "32 word"
  vd_rms_sum :: "64 word"
  vd_peak :: "16 word"
  vd_attack_frames :: "32 word"
  vd_attack_start_frame :: "32 word option"
  vd_release_frames :: "32 word"
  vd_speech_active :: bool
  vd_speech_start_frame :: "32 word option"
  vd_speech_end_frame :: "32 word option"

definition or_default :: "'a::zero option \<Rightarrow> 'a" where
  "or_default x = (case x of None \<Rightarrow> 0 | Some v \<Rightarrow> v)"

section \<open>Thresholds\<close>

definition threshold_for :: "vad_config \<Rightarrow> 16 word \<Rightarrow> 16 word" where
  "threshold_for config noise_floor =
     (let noise_threshold = sat_add (sat_mul noise_floor 2) 80
      in max (rms_threshold config)
             (min noise_threshold (sat_mul (rms_threshold config) 4)))"

text \<open>The shift of a signed difference rounds down, as the division of integers here.\<close>

definition smooth :: "16 word \<Rightarrow> 16 word \<Rightarrow> nat \<Rightarrow> 16 word" where
  "smooth current sample shift =
     (let delta = uint sample - uint current;
          v = uint current + delta div 2 ^ shift
      in if 0 \<le> v \<and> v < 2 ^ 16 then word_of_int v else 0)"

definition update_noise :: "16 word \<Rightarrow> streaming_vad \<Rightarrow> streaming_vad" where
  "update_noise rms v =
     (let floor = (case vd_noise_floor v of
                     None \<Rightarrow> rms
                   | Some current \<Rightarrow>
                       if rms \<le> current then smooth current rms 3 else smooth current rms 5)
      in v\<lparr> vd_noise_floor := Some floor,
            vd_adaptive_threshold := threshold_for (vd_config v) floor \<rparr>)"

section \<open>The detector\<close>

definition with_optional_noise_floor :: "vad_config \<Rightarrow> 16 word option \<Rightarrow> streaming_vad" where
  "with_optional_noise_floor config noise_floor =
     \<lparr> vd_config = config, vd_noise_floor = noise_floor,
       vd_adaptive_threshold = threshold_for config (or_default noise_floor),
       vd_total_frames = 0, vd_voiced_frames = 0, vd_rms_sum = 0, vd_peak = 0,
       vd_attack_frames = 0, vd_attack_start_frame = None, vd_release_frames = 0,
       vd_speech_active = False, vd_speech_start_frame = None, vd_speech_end_frame = None \<rparr>"

definition vad_new :: "vad_config \<Rightarrow> streaming_vad" where
  "vad_new config = with_optional_noise_floor config None"

definition with_noise_floor :: "vad_config \<Rightarrow> 16 word \<Rightarrow> streaming_vad" where
  "with_noise_floor config noise_floor = with_optional_noise_floor config (Some noise_floor)"

definition exit_threshold :: "16 word \<Rightarrow> 16 word" where
  "exit_threshold entry_threshold = sat_mul entry_threshold 3 div 4"

text \<open>
  The three branches of a frame: what it makes of the frame (voiced, reported attack, reported
  release, event) and the state after it.
\<close>

type_synonym frame_verdict =
  "(bool \<times> 32 word \<times> 32 word \<times> vad_event option) \<times> streaming_vad"

definition active_frame :: "32 word \<Rightarrow> 16 word \<Rightarrow> streaming_vad \<Rightarrow> frame_verdict" where
  "active_frame frame rms v =
     (if exit_threshold (vd_adaptive_threshold v) \<le> rms
      then ((True, 0, 0, None),
            v\<lparr> vd_voiced_frames := sat_add (vd_voiced_frames v) 1,
               vd_release_frames := 0,
               vd_speech_end_frame := Some (sat_add frame 1) \<rparr>)
      else let release = sat_add (vd_release_frames v) 1
           in if end_silence_frames \<le> release
              then ((False, 0, release, map_option SpeechEnded (vd_speech_end_frame v)),
                    update_noise rms (v\<lparr> vd_speech_active := False, vd_release_frames := 0 \<rparr>))
              else ((False, 0, release, None), v\<lparr> vd_release_frames := release \<rparr>))"

definition attack_frame :: "32 word \<Rightarrow> streaming_vad \<Rightarrow> frame_verdict" where
  "attack_frame frame v0 =
     (let v1 = v0\<lparr> vd_voiced_frames := sat_add (vd_voiced_frames v0) 1,
                   vd_attack_start_frame :=
                     (if vd_attack_frames v0 = 0 then Some frame else vd_attack_start_frame v0),
                   vd_attack_frames := sat_add (vd_attack_frames v0) 1 \<rparr>;
          attack = vd_attack_frames v1
      in if max (minimum_voiced_frames (vd_config v1)) 1 \<le> attack
         then let start = (case vd_attack_start_frame v1 of None \<Rightarrow> frame | Some s \<Rightarrow> s)
              in ((True, attack, 0, Some (SpeechStarted start)),
                  v1\<lparr> vd_speech_active := True,
                      vd_speech_start_frame :=
                        (case vd_speech_start_frame v1 of None \<Rightarrow> Some start | Some s \<Rightarrow> Some s),
                      vd_speech_end_frame := Some (sat_add frame 1),
                      vd_attack_frames := 0,
                      vd_attack_start_frame := None \<rparr>)
         else ((True, attack, 0, None), v1))"

definition idle_frame :: "16 word \<Rightarrow> streaming_vad \<Rightarrow> frame_verdict" where
  "idle_frame rms v =
     ((False, 0, 0, None),
      update_noise rms (v\<lparr> vd_attack_frames := 0, vd_attack_start_frame := None \<rparr>))"

definition process_level ::
  "16 word \<Rightarrow> streaming_vad \<Rightarrow> vad_frame_analysis \<times> streaming_vad" where
  "process_level rms v0 =
     (let frame = vd_total_frames v0;
          v = v0\<lparr> vd_total_frames := sat_add frame 1,
                  vd_rms_sum := sat_add (vd_rms_sum v0) (ucast rms) \<rparr>;
          ((voiced, attack, release, event), v') =
            (if vd_speech_active v then active_frame frame rms v
             else if vd_adaptive_threshold v \<le> rms then attack_frame frame v
             else idle_frame rms v);
          hangover = (if vd_speech_active v' \<and> 0 < release
                      then sat_sub end_silence_frames release else 0)
      in (\<lparr> va_frame = frame, va_rms = rms, va_noise_floor = or_default (vd_noise_floor v'),
            va_adaptive_threshold = vd_adaptive_threshold v', va_voiced = voiced,
            va_speech_active = vd_speech_active v', va_attack_frames = attack,
            va_release_frames = release, va_hangover_frames_remaining = hangover,
            va_event = event \<rparr>, v'))"

definition process_frame ::
  "bytes \<Rightarrow> streaming_vad \<Rightarrow> vad_frame_analysis \<times> streaming_vad" where
  "process_frame pcm v =
     (let (rms, peak) = frame_level pcm
      in process_level rms (v\<lparr> vd_peak := max (vd_peak v) peak \<rparr>))"

definition empty_result :: "16 word \<Rightarrow> vad_result" where
  "empty_result peak =
     \<lparr> vr_speech_detected = False, vr_voiced_frames = 0, vr_total_frames = 0, vr_peak = peak,
       vr_average_rms = 0, vr_noise_floor = 0, vr_adaptive_threshold = 0,
       vr_speech_start_frame = None, vr_speech_end_frame = None,
       vr_trim_start_frame = None, vr_trim_end_frame = None \<rparr>"

definition u16_or_max :: "64 word \<Rightarrow> 16 word" where
  "u16_or_max w = (if unat w < 2 ^ 16 then ucast w else - 1)"

definition vad_finish :: "streaming_vad \<Rightarrow> vad_result" where
  "vad_finish v =
     (if vd_total_frames v = 0 then empty_result (vd_peak v)
      else
        \<lparr> vr_speech_detected = (vd_speech_start_frame v \<noteq> None \<and> vd_speech_end_frame v \<noteq> None),
          vr_voiced_frames = vd_voiced_frames v,
          vr_total_frames = vd_total_frames v,
          vr_peak = vd_peak v,
          vr_average_rms = u16_or_max (vd_rms_sum v div ucast (vd_total_frames v)),
          vr_noise_floor = or_default (vd_noise_floor v),
          vr_adaptive_threshold = vd_adaptive_threshold v,
          vr_speech_start_frame = vd_speech_start_frame v,
          vr_speech_end_frame = vd_speech_end_frame v,
          vr_trim_start_frame =
            map_option (\<lambda>s. sat_sub s pre_roll_frames) (vd_speech_start_frame v),
          vr_trim_end_frame =
            map_option (\<lambda>e. min (sat_add e post_roll_frames) (vd_total_frames v))
              (vd_speech_end_frame v) \<rparr>)"

section \<open>Batch analysis and trimming\<close>

function chunks :: "nat \<Rightarrow> bytes \<Rightarrow> bytes list" where
  "chunks n xs = (if xs = [] \<or> n = 0 then [] else take n xs # chunks n (drop n xs))"
  by pat_completeness auto

termination by (relation "measure (\<lambda>(n, xs). length xs)") auto

declare chunks.simps [simp del]

definition frame_levels :: "bytes \<Rightarrow> 16 word list \<times> 16 word" where
  "frame_levels pcm =
     fold (\<lambda>frame (levels, peak).
             let (rms, frame_peak) = frame_level frame
             in if 2 \<le> length frame then (levels @ [rms], max peak frame_peak) else (levels, peak))
       (chunks bytes_per_frame pcm) ([], 0)"

definition low_percentile :: "16 word list \<Rightarrow> 16 word" where
  "low_percentile levels = sort levels ! ((length levels - 1) * 20 div 100)"

definition analyze_pcm :: "bytes \<Rightarrow> vad_config \<Rightarrow> vad_result" where
  "analyze_pcm pcm config =
     (let (levels, peak) = frame_levels pcm
      in if levels = [] then empty_result peak
         else let v = snd (run_steps process_level levels
                             (with_noise_floor config (low_percentile levels)))
              in vad_finish (v\<lparr> vd_peak := peak \<rparr>))"

text \<open>The new length and the new contents of the file; the file is read and written whole.\<close>

definition trim_file :: "bytes \<Rightarrow> vad_result \<Rightarrow> nat \<times> bytes" where
  "trim_file pcm result =
     (case (vr_trim_start_frame result, vr_trim_end_frame result) of
        (Some s, Some e) \<Rightarrow>
          (let start = min (unat s * bytes_per_frame) (length pcm);
               stop = min (unat e * bytes_per_frame) (length pcm)
           in if stop \<le> start then (length pcm, pcm)
              else (stop - start, take (stop - start) (drop start pcm)))
      | _ \<Rightarrow> (length pcm, pcm))"

end
