(* ===== verification/Ports.thy ===== *)
theory Ports
  imports Session
begin

text \<open>
  The values exchanged with the capture and insertion adapters (crates/voxtype-app/src/ports.rs).
\<close>

record capture_frame_metrics =
  cm_frame :: "64 word"
  cm_rms :: "16 word"
  cm_peak :: "16 word"
  cm_clipped_samples :: "16 word"
  cm_samples :: "16 word"

record captured_audio =
  ca_path :: string
  ca_bytes :: "64 word"
  ca_duration_millis :: "64 word"
  ca_backend :: string

datatype insertion_mode = ModeAuto | ModeFcitx | ModeClipboard | ModeCopy

record insertion_arm =
  ia_session :: session_id
  ia_backend :: string

record insertion_outcome =
  io_backend :: string
  io_clipboard_restored :: bool

end
