(* ===== verification/Daemon.thy ===== *)
theory Daemon
  imports Controller_Lifecycle Adapters Vad Ports
begin

text \<open>
  The daemon (src/daemon.rs): the single owner of the controller, the active capture, the armed
  insertion target, the background recognition and the transcript history. Every operation
  takes the world, that is what the adapters, the clock and the files answer during it, and
  returns its D-Bus result with the next state. The calls to the adapters are recorded in
  the field dm_log in the order in which they are made; notifications and overlays have no
  effect on the state and are modelled by the theory Presentation.
\<close>

section \<open>State and world\<close>

datatype fdo_error = FdoFailed string | FdoInvalidArgs string

type_synonym 'a fdo = "fdo_error + 'a"

record recognition_job =
  rj_session :: session_id
  rj_recording_path :: string
  rj_vad_result :: "vad_result option"
  rj_audio_millis :: "64 word"

datatype fx =
    FxArm session_id
  | FxCancelArm insertion_arm
  | FxCommit insertion_arm utext
  | FxCaptureStart
  | FxCaptureStop
  | FxCaptureCancel
  | FxRemoveFile string
  | FxRecognize session_id route_plan string
  | FxCancelToken session_id
  | FxInsertTest utext

record daemon =
  dm_app :: app_controller
  dm_recording :: bool
  dm_config :: config
  dm_active_profile :: "string option"
  dm_armed :: "insertion_arm option"
  dm_history :: "utext list"
  dm_recording_started_at :: "instant option"
  dm_job :: "recognition_job option"
  dm_live_vad :: "streaming_vad option"
  dm_last_live_audio :: "vad_frame_analysis option"
  dm_last_audio_overlay_at :: "instant option"
  dm_quit :: bool
  dm_log :: "fx list"

datatype recv_result =
    RecvReady recognition_route_result
  | RecvEmpty
  | RecvDisconnected

record world =
  w_now :: instant
  w_arm :: "insertion_mode \<Rightarrow> session_id \<Rightarrow> insertion_arm outcome"
  w_commit :: "insertion_arm \<Rightarrow> utext \<Rightarrow> insertion_outcome outcome"
  w_insert_diagnostic :: "utext \<Rightarrow> insertion_outcome outcome"
  w_capture_start :: "utext \<Rightarrow> unit outcome"
  w_capture_stop :: "captured_audio outcome"
  w_metrics :: "capture_frame_metrics list"
  w_read_file :: "string \<Rightarrow> string + bytes"
  w_trim_io :: "string + unit"
  w_spawn :: "string + unit"
  w_recv :: recv_result
  w_load_config :: "config outcome"
  w_recognizers :: "provider_config \<Rightarrow> recognizer_fun"
  w_fdo_display :: "fdo_error \<Rightarrow> string"

definition map_error :: "vox_error \<Rightarrow> fdo_error" where
  "map_error e = FdoFailed (err_code e @ '': '' @ err_message e)"

definition log_fx :: "fx \<Rightarrow> daemon \<Rightarrow> daemon" where
  "log_fx f d = d\<lparr> dm_log := dm_log d @ [f] \<rparr>"

definition log_all :: "fx list \<Rightarrow> daemon \<Rightarrow> daemon" where
  "log_all fs d = d\<lparr> dm_log := dm_log d @ fs \<rparr>"

abbreviation dm_machine :: "daemon \<Rightarrow> session_machine" where
  "dm_machine d \<equiv> ac_machine (dm_app d)"

abbreviation dm_state :: "daemon \<Rightarrow> session_state" where
  "dm_state d \<equiv> sm_state (dm_machine d)"

definition apply_command :: "command \<Rightarrow> daemon \<Rightarrow> command_effect outcome \<times> daemon" where
  "apply_command c d = (let (r, a) = app_apply c (dm_app d) in (r, d\<lparr> dm_app := a \<rparr>))"

text \<open>A command whose result is ignored.\<close>

definition apply_ignored :: "command \<Rightarrow> daemon \<Rightarrow> daemon" where
  "apply_ignored c d = snd (apply_command c d)"

definition cancel_armed :: "daemon \<Rightarrow> daemon" where
  "cancel_armed d = (case dm_armed d of None \<Rightarrow> d | Some arm \<Rightarrow> log_fx (FxCancelArm arm) d)"

definition compose :: "(provider_config \<Rightarrow> recognizer_fun) \<Rightarrow> config \<Rightarrow> wake_handle \<Rightarrow> daemon outcome" where
  "compose recognizers config wake =
     try_then (config_validate config) (\<lambda>_.
     try_then (build_provider_registry recognizers config) (\<lambda>registry.
       Inr \<lparr> dm_app = app_with_wake registry wake, dm_recording = False, dm_config = config,
             dm_active_profile = None, dm_armed = None, dm_history = [],
             dm_recording_started_at = None, dm_job = None, dm_live_vad = None,
             dm_last_live_audio = None, dm_last_audio_overlay_at = None, dm_quit = False,
             dm_log = [] \<rparr>))"

section \<open>Queries\<close>

text \<open>The session is named by a text of the bus; an identifier is compared by its UTF-8 bytes.\<close>

definition daemon_session_result ::
  "utext \<Rightarrow> daemon \<Rightarrow> (terminal_session_result option) fdo" where
  "daemon_session_result session d =
     (if session = [] \<or> utf8_length session > 128 \<or> list_ex is_control session
      then Inl (FdoInvalidArgs ''session ID must be non-empty and bounded'')
      else Inr (session_result (map char_of (utf8_encode session)) (dm_app d)))"

definition last_transcript :: "daemon \<Rightarrow> utext" where
  "last_transcript d = (if dm_history d = [] then [] else last (dm_history d))"

definition clear_history :: "daemon \<Rightarrow> daemon" where
  "clear_history d = d\<lparr> dm_history := [] \<rparr>"

definition millis :: "nat \<Rightarrow> nat" where
  "millis n = n * 1000000"

definition maintenance_wait :: "instant \<Rightarrow> daemon \<Rightarrow> nat" where
  "maintenance_wait now d =
     (if dm_quit d then 0
      else case dm_recording_started_at d of
        None \<Rightarrow> secs 60
      | Some started_at \<Rightarrow>
          min (millis 100)
              (secs (unat (maximum_duration_seconds (cfg_audio (dm_config d)))) - (now - started_at)))"

definition recording_deadline_reached :: "nat \<Rightarrow> 64 word \<Rightarrow> bool" where
  "recording_deadline_reached elapsed maximum_seconds \<longleftrightarrow> unat maximum_seconds \<le> as_secs elapsed"

definition is_mock :: "provider_config option \<Rightarrow> bool" where
  "is_mock p = (case p of Some (Mock _) \<Rightarrow> True | _ \<Rightarrow> False)"

definition profile_is_demo_only :: "config \<Rightarrow> profile_config \<Rightarrow> bool" where
  "profile_is_demo_only config profile =
     list_all (\<lambda>i. is_mock (map_of (cfg_providers config) i)) (profile_route profile)"

definition demo_only_message :: string where
  "demo_only_message =
     ''the default profile only contains fixed-text demo providers; configure a real ASR '' @
     ''provider in VoxType Settings, or pass the demo profile explicitly for integration testing''"

definition active_session_id :: "string \<Rightarrow> daemon \<Rightarrow> session_id fdo" where
  "active_session_id requested d =
     (case state_session (dm_state d) of
        None \<Rightarrow> Inl (FdoFailed ''no active session'')
      | Some active \<Rightarrow>
          if requested = [] \<or> requested = session_str active then Inr active
          else Inl (FdoInvalidArgs ''session ID does not match''))"

section \<open>Live telemetry\<close>

definition live_vad_config :: "config \<Rightarrow> vad_config" where
  "live_vad_config config =
     \<lparr> rms_threshold = vad_rms_threshold (cfg_audio config),
       minimum_voiced_frames = vad_minimum_voiced_frames (cfg_audio config) \<rparr>"

definition poll_audio_telemetry :: "world \<Rightarrow> daemon \<Rightarrow> daemon" where
  "poll_audio_telemetry w d =
     (let frames = (if dm_recording d then w_metrics w else [])
      in if frames = [] then d
         else case dm_live_vad d of
           None \<Rightarrow> d
         | Some v \<Rightarrow>
             (let (analyses, v') = run_steps process_level (map cm_rms frames) v;
                  d' = d\<lparr> dm_live_vad := Some v', dm_last_live_audio := Some (last analyses) \<rparr>
              in case dm_last_audio_overlay_at d' of
                   Some t \<Rightarrow> if w_now w - t < millis 100 then d'
                             else d'\<lparr> dm_last_audio_overlay_at := Some (w_now w) \<rparr>
                 | None \<Rightarrow> d'\<lparr> dm_last_audio_overlay_at := Some (w_now w) \<rparr>))"

definition clear_live :: "daemon \<Rightarrow> daemon" where
  "clear_live d =
     d\<lparr> dm_recording_started_at := None, dm_live_vad := None, dm_last_live_audio := None,
        dm_last_audio_overlay_at := None \<rparr>"

section \<open>Starting\<close>

fun insertion_mode_of :: "insertion_backend \<Rightarrow> insertion_mode" where
  "insertion_mode_of BackendFcitx = ModeFcitx"
| "insertion_mode_of BackendClipboard = ModeClipboard"
| "insertion_mode_of BackendCopy = ModeCopy"
| "insertion_mode_of BackendAuto = ModeAuto"

definition begin_capture ::
  "string \<Rightarrow> session_id \<Rightarrow> world \<Rightarrow> daemon \<Rightarrow> session_id fdo \<times> daemon" where
  "begin_capture profile_name session w d =
     (case w_capture_start w (cfg_device (cfg_audio (dm_config d))) of
        Inr _ \<Rightarrow>
          (let d1 = log_fx FxCaptureStart
                      (d\<lparr> dm_recording := True,
                          dm_live_vad := (if vad_enabled (cfg_audio (dm_config d))
                                          then Some (vad_new (live_vad_config (dm_config d)))
                                          else None),
                          dm_last_live_audio := None, dm_last_audio_overlay_at := None,
                          dm_recording_started_at := Some (w_now w),
                          dm_active_profile := Some profile_name \<rparr>)
           in case apply_command (CmdCaptureReady session) d1 of
                (Inl e, d2) \<Rightarrow> (Inl (map_error e), d2)
              | (Inr _, d2) \<Rightarrow> (Inr session, d2))
      | Inl e \<Rightarrow>
          (Inl (map_error e),
           apply_ignored (CmdFail session e) ((cancel_armed d)\<lparr> dm_armed := None \<rparr>)))"

definition daemon_start :: "string \<Rightarrow> world \<Rightarrow> daemon \<Rightarrow> session_id fdo \<times> daemon" where
  "daemon_start profile w d =
     (if dm_recording d then (Inl (FdoFailed ''recording is already active''), d)
      else case config_profile (if profile = [] then None else Some profile) (dm_config d) of
        None \<Rightarrow> (Inl (FdoInvalidArgs (''unknown profile: '' @ profile)), d)
      | Some (profile_name, selected) \<Rightarrow>
          if profile = [] \<and> profile_is_demo_only (dm_config d) selected
          then (Inl (FdoFailed demo_only_message), d)
          else case apply_command (CmdStart \<lparr> req_mode = Toggle, req_profile = Some profile_name \<rparr>) d of
            (Inl e, d1) \<Rightarrow> (Inl (map_error e), d1)
          | (Inr (BeginCapture session _), d1) \<Rightarrow>
              (let mode = insertion_mode_of (cfg_insertion_backend (cfg_desktop (dm_config d1)));
                   d2 = log_fx (FxArm session) d1
               in case w_arm w mode session of
                    Inr armed \<Rightarrow>
                      begin_capture profile_name session w (d2\<lparr> dm_armed := Some armed \<rparr>)
                  | Inl e \<Rightarrow> (Inl (map_error e), apply_ignored (CmdFail session e) d2))
          | (Inr _, d1) \<Rightarrow> (Inl (FdoFailed ''invalid start effect''), d1))"

section \<open>Recognition\<close>

datatype voice_activity =
    VoiceContinue "vad_result option" "64 word"
  | VoiceNoSpeech string

datatype daemon_response =
    RespProcessing session_id
  | RespNoSpeech session_id string
  | RespTooShort session_id
  | RespInserted session_id provider_id nat insertion_outcome

text \<open>The reason given when no speech was confirmed, decided on the levels of the recording.\<close>

definition no_speech_reason :: "vad_result \<Rightarrow> 16 word \<Rightarrow> 32 word \<Rightarrow> string" where
  "no_speech_reason result configured minimum =
     (if 32000 \<le> vr_peak result then ''clipping''
      else if sat_mul configured 3 \<le> vr_adaptive_threshold result \<and>
              configured \<le> vr_noise_floor result then ''high-noise''
      else if vr_peak result < max (sat_mul (vr_adaptive_threshold result) 2) 500 then ''too-quiet''
      else if 0 < vr_voiced_frames result \<and> vr_voiced_frames result < minimum
           then ''speech-too-short''
      else ''unconfirmed'')"

definition no_speech :: "session_id \<Rightarrow> daemon \<Rightarrow> unit fdo \<times> daemon" where
  "no_speech session d =
     (case apply_command (CmdNoSpeech session) (cancel_armed d) of
        (Inl e, d1) \<Rightarrow> (Inl (map_error e), d1)
      | (Inr _, d1) \<Rightarrow> (Inr (), d1))"

definition too_short :: "captured_audio \<Rightarrow> daemon \<Rightarrow> bool" where
  "too_short rec d \<longleftrightarrow>
     ca_duration_millis rec < minimum_duration_millis (cfg_audio (dm_config d))"

definition check_minimum_duration ::
  "session_id \<Rightarrow> captured_audio \<Rightarrow> daemon \<Rightarrow> (daemon_response option) fdo \<times> daemon" where
  "check_minimum_duration session rec d =
     (if \<not> too_short rec d then (Inr None, d)
      else case no_speech session d of
             (Inl e, d1) \<Rightarrow> (Inl e, d1)
           | (Inr _, d1) \<Rightarrow> (Inr (Some (RespTooShort session)), d1))"

definition trimmed_millis :: "nat \<Rightarrow> 64 word" where
  "trimmed_millis n = sat_mul (word_of_nat n) 1000 div 32000"

definition check_voice_activity ::
  "session_id \<Rightarrow> captured_audio \<Rightarrow> world \<Rightarrow> daemon \<Rightarrow> voice_activity fdo \<times> daemon" where
  "check_voice_activity session rec w d =
     (if \<not> vad_enabled (cfg_audio (dm_config d))
      then (Inr (VoiceContinue None (ca_duration_millis rec)), d)
      else case w_read_file w (ca_path rec) of
        Inl e \<Rightarrow> (Inl (FdoFailed (''VAD analysis failed: '' @ e)), d)
      | Inr pcm \<Rightarrow>
          (let result = analyze_pcm pcm (live_vad_config (dm_config d))
           in if vr_speech_detected result
              then (case w_trim_io w of
                      Inl e \<Rightarrow> (Inl (FdoFailed (''audio trim failed: '' @ e)), d)
                    | Inr _ \<Rightarrow>
                        (Inr (VoiceContinue (Some result)
                                (trimmed_millis (fst (trim_file pcm result)))), d))
              else case no_speech session d of
                     (Inl e, d1) \<Rightarrow> (Inl e, d1)
                   | (Inr _, d1) \<Rightarrow>
                         (Inr (VoiceNoSpeech (no_speech_reason result
                            (vad_rms_threshold (cfg_audio (dm_config d)))
                            (vad_minimum_voiced_frames (cfg_audio (dm_config d))))), d1)))"

fun provider_ids :: "string list \<Rightarrow> provider_id list outcome" where
  "provider_ids [] = Inr []"
| "provider_ids (s # ss) =
     try_then (provider_id_new s) (\<lambda>i. try_then (provider_ids ss) (\<lambda>is. Inr (i # is)))"

definition profile_policy :: "profile_config \<Rightarrow> routing_policy outcome" where
  "profile_policy profile =
     try_then (provider_id_new (pf_primary profile)) (\<lambda>primary.
     try_then (provider_ids (pf_fallbacks profile)) (\<lambda>fallbacks.
       Inr \<lparr> rp_primary = primary, rp_fallbacks = fallbacks, rp_replay = pf_replay profile \<rparr>))"

definition fail_recognition :: "session_id \<Rightarrow> vox_error \<Rightarrow> daemon \<Rightarrow> 'a fdo \<times> daemon" where
  "fail_recognition session e d =
     (Inl (FdoFailed (vox_error_display e)), apply_ignored (CmdFail session e) d)"

definition spawn_recognition ::
  "session_id \<Rightarrow> captured_audio \<Rightarrow> vad_result option \<Rightarrow> 64 word \<Rightarrow> world \<Rightarrow> daemon \<Rightarrow>
   daemon_response fdo \<times> daemon" where
  "spawn_recognition session rec vad audio_millis w d =
     (let profile_name = (case dm_active_profile d of
                            None \<Rightarrow> default_profile (dm_config d) | Some n \<Rightarrow> n)
      in case map_of (cfg_profiles (dm_config d)) profile_name of
        None \<Rightarrow> (Inl (FdoFailed ''active profile disappeared''), d)
      | Some profile \<Rightarrow>
          (case profile_policy profile of
             Inl e \<Rightarrow> (Inl (map_error e), d)
           | Inr policy \<Rightarrow>
               (case plan_route policy (w_now w) (dm_app d) of
                  Inl e \<Rightarrow> fail_recognition session e d
                | Inr route \<Rightarrow>
                    (case w_spawn w of
                       Inl e \<Rightarrow> (Inl (FdoFailed (''could not start recognition: '' @ e)), d)
                     | Inr _ \<Rightarrow>
                         (Inr (RespProcessing session),
                          log_fx (FxRecognize session route (ca_path rec))
                            (d\<lparr> dm_job := Some \<lparr> rj_session = session,
                                                rj_recording_path = ca_path rec,
                                                rj_vad_result = vad,
                                                rj_audio_millis = audio_millis \<rparr> \<rparr>))))))"

definition begin_recognition ::
  "session_id \<Rightarrow> captured_audio \<Rightarrow> world \<Rightarrow> daemon \<Rightarrow> daemon_response fdo \<times> daemon" where
  "begin_recognition session rec w d =
     (case check_minimum_duration session rec d of
        (Inl e, d1) \<Rightarrow> (Inl e, d1)
      | (Inr (Some response), d1) \<Rightarrow> (Inr response, d1)
      | (Inr None, d1) \<Rightarrow>
          (case check_voice_activity session rec w d1 of
             (Inl e, d2) \<Rightarrow> (Inl e, d2)
           | (Inr (VoiceNoSpeech reason), d2) \<Rightarrow> (Inr (RespNoSpeech session reason), d2)
           | (Inr (VoiceContinue vad audio_millis), d2) \<Rightarrow>
               spawn_recognition session rec vad audio_millis w d2))"

definition fail_nonterminal_session ::
  "session_id \<Rightarrow> string \<Rightarrow> string \<Rightarrow> daemon \<Rightarrow> daemon" where
  "fail_nonterminal_session session code message d =
     (if state_session (dm_state d) = Some session \<and> is_active (dm_state d)
      then apply_ignored (CmdFail session (vox_error_new EcInternal code message)) d
      else d)"

section \<open>Stopping\<close>

definition after_stop ::
  "captured_audio \<Rightarrow> daemon_response fdo \<times> daemon \<Rightarrow> session_id \<Rightarrow> world \<Rightarrow>
   daemon_response fdo \<times> daemon" where
  "after_stop rec outcome active w =
     (case outcome of (response, d0) \<Rightarrow>
        (let d1 = (case response of
                     Inl e \<Rightarrow> cancel_armed (fail_nonterminal_session active
                                ''recognition.pipeline_failed'' (w_fdo_display w e) d0)
                   | Inr _ \<Rightarrow> d0);
             d2 = (if dm_job d1 = None \<and> \<not> retain_recordings (cfg_desktop (dm_config d1))
                   then log_fx (FxRemoveFile (ca_path rec)) d1 else d1);
             d3 = (if dm_job d2 = None
                   then d2\<lparr> dm_active_profile := None, dm_armed := None \<rparr> else d2)
         in (response, d3)))"

definition daemon_stop :: "string \<Rightarrow> world \<Rightarrow> daemon \<Rightarrow> daemon_response fdo \<times> daemon" where
  "daemon_stop session w d =
     (case active_session_id session d of
        Inl e \<Rightarrow> (Inl e, d)
      | Inr active \<Rightarrow>
          (case apply_command (CmdStop active) (poll_audio_telemetry w d) of
             (Inl e, d1) \<Rightarrow> (Inl (map_error e), d1)
           | (Inr _, d1) \<Rightarrow>
               if \<not> dm_recording d1
               then (Inl (FdoFailed ''recording process is missing''), d1)
               else
                 (let d2 = log_fx FxCaptureStop (clear_live (d1\<lparr> dm_recording := False \<rparr>))
                  in case w_capture_stop w of
                       Inl e \<Rightarrow> (Inl (map_error e), apply_ignored (CmdFail active e) d2)
                     | Inr rec \<Rightarrow> after_stop rec (begin_recognition active rec w d2) active w)))"

section \<open>Completion of a recognition\<close>

definition insert_text ::
  "session_id \<Rightarrow> utext \<Rightarrow> world \<Rightarrow> daemon \<Rightarrow> insertion_outcome outcome \<times> daemon" where
  "insert_text session txt w d =
     (case dm_armed d of
        None \<Rightarrow> (Inl (vox_error_new EcInvalidState ''desktop.not_armed''
                    ''no text insertion target was armed for the session''), d)
      | Some armed \<Rightarrow>
          if ia_session armed \<noteq> session
          then (Inl (vox_error_new EcInvalidState ''desktop.session_mismatch''
                       ''text insertion target belongs to another session''), d)
          else (w_commit w armed txt, log_fx (FxCommit armed txt) d))"

definition history_limit :: nat where
  "history_limit = 20"

definition remember_transcript :: "utext \<Rightarrow> daemon \<Rightarrow> daemon" where
  "remember_transcript txt d =
     (if transcript_history_enabled (cfg_desktop (dm_config d))
      then d\<lparr> dm_history := push_bounded history_limit txt (dm_history d) \<rparr> else d)"

definition complete_recognition ::
  "session_id \<Rightarrow> provider_id \<Rightarrow> provider_transcript \<Rightarrow> world \<Rightarrow> daemon \<Rightarrow>
   daemon_response fdo \<times> daemon" where
  "complete_recognition session provider transcript w d =
     (let txt = pt_text transcript
      in case apply_command (CmdTranscriptReady session txt) d of
        (Inl e, d1) \<Rightarrow> (Inl (map_error e), d1)
      | (Inr (InsertText _ _), d1) \<Rightarrow>
          (case insert_text session txt w d1 of
             (Inl e, d2) \<Rightarrow> (Inl (map_error e), apply_ignored (CmdFail session e) d2)
           | (Inr insertion, d2) \<Rightarrow>
               (case apply_command (CmdInsertionComplete session) d2 of
                  (Inl e, d3) \<Rightarrow> (Inl (map_error e), d3)
                | (Inr _, d3) \<Rightarrow>
                    (case finish_session session ''completed'' [] (io_backend insertion)
                            (word_of_nat (length txt)) (dm_app d3) of
                       (Inl e, a) \<Rightarrow> (Inl (map_error e), d3\<lparr> dm_app := a \<rparr>)
                     | (Inr _, a) \<Rightarrow>
                         (Inr (RespInserted session provider (length txt) insertion),
                          remember_transcript txt (d3\<lparr> dm_app := a \<rparr>)))))
      | (Inr _, d1) \<Rightarrow> (Inl (FdoFailed ''state machine did not request insertion''), d1))"

definition cleanup_recognition_job :: "recognition_job \<Rightarrow> daemon \<Rightarrow> daemon" where
  "cleanup_recognition_job job d =
     (if retain_recordings (cfg_desktop (dm_config d)) then d
      else log_fx (FxRemoveFile (rj_recording_path job)) d)"

definition worker_disconnected :: recognition_route_result where
  "worker_disconnected =
     \<lparr> rr_attempts = [],
       rr_outcome = Inl (vox_error_new EcInternal ''provider.worker_disconnected''
                           ''recognition worker exited without a result'') \<rparr>"

definition job_is_current :: "recognition_job \<Rightarrow> daemon \<Rightarrow> bool" where
  "job_is_current job d \<longleftrightarrow> dm_state d = Finalizing (rj_session job)"

definition finish_recognition ::
  "recognition_job \<Rightarrow> recognition_route_result \<Rightarrow> world \<Rightarrow> daemon \<Rightarrow> bool fdo \<times> daemon" where
  "finish_recognition job received w d =
     (let d1 = d\<lparr> dm_app := record_route_result received (rj_audio_millis job) (w_now w) (dm_app d) \<rparr>;
          (result, d2) =
            (case rr_outcome received of
               Inr success \<Rightarrow> complete_recognition (rj_session job) (rs_provider_id success)
                                (rs_transcript success) w d1
             | Inl e \<Rightarrow> fail_recognition (rj_session job) e d1);
          d3 = (case result of Inl _ \<Rightarrow> cancel_armed d2 | Inr _ \<Rightarrow> d2);
          d4 = (cleanup_recognition_job job d3)\<lparr> dm_active_profile := None, dm_armed := None \<rparr>
      in (case result of Inl e \<Rightarrow> Inl e | Inr _ \<Rightarrow> Inr True, d4))"

definition poll_recognition :: "world \<Rightarrow> daemon \<Rightarrow> bool fdo \<times> daemon" where
  "poll_recognition w d =
     (case dm_job d of
        None \<Rightarrow> (Inr False, d)
      | Some job \<Rightarrow>
          (let handle = (\<lambda>received.
                 let d1 = d\<lparr> dm_job := None \<rparr>
                 in if \<not> job_is_current job d1 then (Inr True, cleanup_recognition_job job d1)
                    else finish_recognition job received w d1)
           in case w_recv w of
                RecvEmpty \<Rightarrow> (Inr False, d)
              | RecvReady received \<Rightarrow> handle received
              | RecvDisconnected \<Rightarrow> handle worker_disconnected))"

section \<open>Cancelling and the other operations\<close>

definition drop_work :: "daemon \<Rightarrow> daemon" where
  "drop_work d =
     (let d1 = (if dm_recording d then log_fx FxCaptureCancel (d\<lparr> dm_recording := False \<rparr>) else d);
          d2 = (case dm_job d1 of
                  None \<Rightarrow> d1
                | Some job \<Rightarrow>
                    log_all [FxCancelToken (rj_session job), FxRemoveFile (rj_recording_path job)]
                      (d1\<lparr> dm_job := None \<rparr>))
      in cancel_armed (clear_live d2))"

definition daemon_cancel :: "string \<Rightarrow> daemon \<Rightarrow> unit fdo \<times> daemon" where
  "daemon_cancel session d =
     (case active_session_id session d of
        Inl e \<Rightarrow> (Inl e, d)
      | Inr active \<Rightarrow>
          (case apply_command (CmdCancel active) d of
             (Inl e, d1) \<Rightarrow> (Inl (map_error e), d1)
           | (Inr _, d1) \<Rightarrow>
               (Inr (), (drop_work d1)\<lparr> dm_active_profile := None, dm_armed := None \<rparr>)))"

definition daemon_quit :: "daemon \<Rightarrow> daemon" where
  "daemon_quit d =
     (let d1 = drop_work d in d1\<lparr> dm_quit := True, dm_app := notify (dm_app d1) \<rparr>)"

definition daemon_reset :: "daemon \<Rightarrow> unit fdo \<times> daemon" where
  "daemon_reset d =
     (case apply_command CmdReset d of
        (Inl e, d1) \<Rightarrow> (Inl (map_error e), d1) | (Inr _, d1) \<Rightarrow> (Inr (), d1))"

definition reload_configuration :: "world \<Rightarrow> daemon \<Rightarrow> unit fdo \<times> daemon" where
  "reload_configuration w d =
     (if dm_recording d \<or> dm_job d \<noteq> None
      then (Inl (FdoFailed ''configuration reload requires an idle daemon''), d)
      else case w_load_config w of
        Inl e \<Rightarrow> (Inl (map_error e), d)
      | Inr config \<Rightarrow>
          (case build_provider_registry (w_recognizers w) config of
             Inl e \<Rightarrow> (Inl (map_error e), d)
           | Inr registry \<Rightarrow>
               (let d1 = d\<lparr> dm_config := config, dm_app := replace_registry registry (dm_app d) \<rparr>
                in (Inr (), if transcript_history_enabled (cfg_desktop config) then d1
                            else clear_history d1))))"

text \<open>The insertion test takes no part in a session; what it inserts goes to the adapter as it is.\<close>

definition daemon_insert_test :: "utext \<Rightarrow> world \<Rightarrow> daemon \<Rightarrow> string fdo \<times> daemon" where
  "daemon_insert_test txt w d =
     (case w_insert_diagnostic w txt of
        Inl e \<Rightarrow> Inl (map_error e)
      | Inr r \<Rightarrow>
          Inr (''backend='' @ io_backend r @ '' clipboard_restored='' @
               show_bool (io_clipboard_restored r)),
      log_fx (FxInsertTest txt) d)"

definition enforce_recording_deadline :: "world \<Rightarrow> daemon \<Rightarrow> bool fdo \<times> daemon" where
  "enforce_recording_deadline w d =
     (case dm_recording_started_at d of
        None \<Rightarrow> (Inr False, d)
      | Some started_at \<Rightarrow>
          if \<not> recording_deadline_reached (w_now w - started_at)
                 (maximum_duration_seconds (cfg_audio (dm_config d)))
          then (Inr False, d)
          else case daemon_stop [] w d of
                 (Inl e, d1) \<Rightarrow> (Inl e, d1) | (Inr _, d1) \<Rightarrow> (Inr True, d1))"

definition daemon_drain_events :: "daemon \<Rightarrow> app_event list \<times> daemon" where
  "daemon_drain_events d = (let (evs, a) = drain_events (dm_app d) in (evs, d\<lparr> dm_app := a \<rparr>))"

section \<open>The daemon as one step function\<close>

datatype daemon_op =
    OpStart string
  | OpStop string
  | OpToggle string
  | OpCancel string
  | OpReset
  | OpReload
  | OpQuit
  | OpClearHistory
  | OpInsertTest utext
  | OpPollRecognition
  | OpPollAudio
  | OpDeadline
  | OpDrainEvents

datatype daemon_reply =
    RpSession "session_id fdo"
  | RpResponse "daemon_response fdo"
  | RpUnit "unit fdo"
  | RpBool "bool fdo"
  | RpText "string fdo"
  | RpEvents "app_event list"
  | RpNone

fun daemon_step :: "daemon_op \<times> world \<Rightarrow> daemon \<Rightarrow> daemon_reply \<times> daemon" where
  "daemon_step (OpStart p, w) d = (let (r, d') = daemon_start p w d in (RpSession r, d'))"
| "daemon_step (OpStop s, w) d = (let (r, d') = daemon_stop s w d in (RpResponse r, d'))"
| "daemon_step (OpToggle p, w) d =
     (if dm_recording d then (let (r, d') = daemon_stop [] w d in (RpResponse r, d'))
      else (let (r, d') = daemon_start p w d in (RpSession r, d')))"
| "daemon_step (OpCancel s, w) d = (let (r, d') = daemon_cancel s d in (RpUnit r, d'))"
| "daemon_step (OpReset, w) d = (let (r, d') = daemon_reset d in (RpUnit r, d'))"
| "daemon_step (OpReload, w) d = (let (r, d') = reload_configuration w d in (RpUnit r, d'))"
| "daemon_step (OpQuit, w) d = (RpNone, daemon_quit d)"
| "daemon_step (OpClearHistory, w) d = (RpNone, clear_history d)"
| "daemon_step (OpInsertTest t, w) d = (let (r, d') = daemon_insert_test t w d in (RpText r, d'))"
| "daemon_step (OpPollRecognition, w) d = (let (r, d') = poll_recognition w d in (RpBool r, d'))"
| "daemon_step (OpPollAudio, w) d = (RpNone, poll_audio_telemetry w d)"
| "daemon_step (OpDeadline, w) d = (let (r, d') = enforce_recording_deadline w d in (RpBool r, d'))"
| "daemon_step (OpDrainEvents, w) d = (let (r, d') = daemon_drain_events d in (RpEvents r, d'))"

end
