(* ===== verification/Daemon_Frames.thy ===== *)
theory Daemon_Frames
  imports Daemon
begin

text \<open>
  How the operations of the daemon act on the parts of its state: which of them change the
  session machine and how, which record a commit, and what they leave alone. The invariant
  and the properties of the daemon are built on these lemmas.
\<close>

section \<open>Commands\<close>

text \<open>Every field but the controller.\<close>

definition same_but_app :: "daemon \<Rightarrow> daemon \<Rightarrow> bool" where
  "same_but_app d d' \<longleftrightarrow> d' = d\<lparr> dm_app := dm_app d' \<rparr>"

lemma apply_command_frame [simp]:
  "dm_recording (snd (apply_command c d)) = dm_recording d"
  "dm_config (snd (apply_command c d)) = dm_config d"
  "dm_active_profile (snd (apply_command c d)) = dm_active_profile d"
  "dm_armed (snd (apply_command c d)) = dm_armed d"
  "dm_history (snd (apply_command c d)) = dm_history d"
  "dm_recording_started_at (snd (apply_command c d)) = dm_recording_started_at d"
  "dm_job (snd (apply_command c d)) = dm_job d"
  "dm_live_vad (snd (apply_command c d)) = dm_live_vad d"
  "dm_log (snd (apply_command c d)) = dm_log d"
  by (simp_all add: apply_command_def case_prod_beta Let_def)

lemma apply_ignored_frame [simp]:
  "dm_recording (apply_ignored c d) = dm_recording d"
  "dm_config (apply_ignored c d) = dm_config d"
  "dm_active_profile (apply_ignored c d) = dm_active_profile d"
  "dm_armed (apply_ignored c d) = dm_armed d"
  "dm_history (apply_ignored c d) = dm_history d"
  "dm_recording_started_at (apply_ignored c d) = dm_recording_started_at d"
  "dm_job (apply_ignored c d) = dm_job d"
  "dm_live_vad (apply_ignored c d) = dm_live_vad d"
  "dm_log (apply_ignored c d) = dm_log d"
  by (simp_all add: apply_ignored_def)

lemma log_fx_frame [simp]:
  "dm_app (log_fx f d) = dm_app d" "dm_recording (log_fx f d) = dm_recording d"
  "dm_config (log_fx f d) = dm_config d" "dm_active_profile (log_fx f d) = dm_active_profile d"
  "dm_armed (log_fx f d) = dm_armed d" "dm_history (log_fx f d) = dm_history d"
  "dm_recording_started_at (log_fx f d) = dm_recording_started_at d"
  "dm_job (log_fx f d) = dm_job d" "dm_live_vad (log_fx f d) = dm_live_vad d"
  "dm_log (log_fx f d) = dm_log d @ [f]"
  by (simp_all add: log_fx_def)

lemma log_all_frame [simp]:
  "dm_app (log_all fs d) = dm_app d" "dm_recording (log_all fs d) = dm_recording d"
  "dm_config (log_all fs d) = dm_config d" "dm_active_profile (log_all fs d) = dm_active_profile d"
  "dm_armed (log_all fs d) = dm_armed d" "dm_history (log_all fs d) = dm_history d"
  "dm_recording_started_at (log_all fs d) = dm_recording_started_at d"
  "dm_job (log_all fs d) = dm_job d" "dm_live_vad (log_all fs d) = dm_live_vad d"
  "dm_log (log_all fs d) = dm_log d @ fs"
  by (simp_all add: log_all_def)

lemma cancel_armed_frame [simp]:
  "dm_app (cancel_armed d) = dm_app d" "dm_recording (cancel_armed d) = dm_recording d"
  "dm_config (cancel_armed d) = dm_config d"
  "dm_active_profile (cancel_armed d) = dm_active_profile d"
  "dm_armed (cancel_armed d) = dm_armed d" "dm_history (cancel_armed d) = dm_history d"
  "dm_recording_started_at (cancel_armed d) = dm_recording_started_at d"
  "dm_job (cancel_armed d) = dm_job d" "dm_live_vad (cancel_armed d) = dm_live_vad d"
  by (simp_all add: cancel_armed_def split: option.splits)

lemma clear_live_frame [simp]:
  "dm_app (clear_live d) = dm_app d" "dm_recording (clear_live d) = dm_recording d"
  "dm_config (clear_live d) = dm_config d" "dm_active_profile (clear_live d) = dm_active_profile d"
  "dm_armed (clear_live d) = dm_armed d" "dm_history (clear_live d) = dm_history d"
  "dm_recording_started_at (clear_live d) = None" "dm_job (clear_live d) = dm_job d"
  "dm_live_vad (clear_live d) = None" "dm_log (clear_live d) = dm_log d"
  by (simp_all add: clear_live_def)

lemma poll_audio_telemetry_frame [simp]:
  "dm_app (poll_audio_telemetry w d) = dm_app d"
  "dm_recording (poll_audio_telemetry w d) = dm_recording d"
  "dm_config (poll_audio_telemetry w d) = dm_config d"
  "dm_active_profile (poll_audio_telemetry w d) = dm_active_profile d"
  "dm_armed (poll_audio_telemetry w d) = dm_armed d"
  "dm_history (poll_audio_telemetry w d) = dm_history d"
  "dm_recording_started_at (poll_audio_telemetry w d) = dm_recording_started_at d"
  "dm_job (poll_audio_telemetry w d) = dm_job d"
  "dm_log (poll_audio_telemetry w d) = dm_log d"
  "dm_live_vad (poll_audio_telemetry w d) = None \<longleftrightarrow> dm_live_vad d = None"
  by (simp_all add: poll_audio_telemetry_def Let_def case_prod_beta split: option.splits)

lemma remember_transcript_frame [simp]:
  "dm_app (remember_transcript t d) = dm_app d"
  "dm_recording (remember_transcript t d) = dm_recording d"
  "dm_config (remember_transcript t d) = dm_config d"
  "dm_active_profile (remember_transcript t d) = dm_active_profile d"
  "dm_armed (remember_transcript t d) = dm_armed d"
  "dm_recording_started_at (remember_transcript t d) = dm_recording_started_at d"
  "dm_job (remember_transcript t d) = dm_job d"
  "dm_live_vad (remember_transcript t d) = dm_live_vad d"
  "dm_log (remember_transcript t d) = dm_log d"
  by (simp_all add: remember_transcript_def)

text \<open>What the machine is after a command.\<close>

lemma app_apply_machine:
  "ac_machine (snd (app_apply c a)) =
     (if length (ac_events a) > 254 then ac_machine a else snd (sm_apply c (ac_machine a)))"
  by (auto simp: app_apply_def max_pending_events_def Let_def
      split: prod.splits sum.splits option.splits)

lemma app_apply_result:
  "fst (app_apply c a) =
     (if length (ac_events a) > 254 then Inl backpressure_error else fst (sm_apply c (ac_machine a)))"
  by (auto simp: app_apply_def max_pending_events_def Let_def
      split: prod.splits sum.splits option.splits)

lemma app_apply_events_length:
  "length (ac_events (snd (app_apply c a))) \<le> length (ac_events a) + 2"
  by (auto simp: app_apply_def Let_def split: prod.splits sum.splits option.splits)

lemma finish_session_machine [simp]:
  "ac_machine (snd (finish_session s oc e b n a)) = ac_machine a"
  by (simp add: finish_session_def)

lemma apply_command_fst: "fst (apply_command c d) = fst (app_apply c (dm_app d))"
  by (simp add: apply_command_def case_prod_beta Let_def)

lemma apply_command_app: "dm_app (snd (apply_command c d)) = snd (app_apply c (dm_app d))"
  by (simp add: apply_command_def case_prod_beta Let_def)

lemma apply_ignored_app: "dm_app (apply_ignored c d) = snd (app_apply c (dm_app d))"
  by (simp add: apply_ignored_def apply_command_app)

section \<open>What the operations keep of the session machine\<close>

text \<open>
  A predicate that every command but Start keeps. The daemon applies Start only as the first
  command of daemon_start.
\<close>

definition kept :: "(session_machine \<Rightarrow> bool) \<Rightarrow> bool" where
  "kept P \<longleftrightarrow> (\<forall>c m. (\<forall>r. c \<noteq> CmdStart r) \<longrightarrow> P m \<longrightarrow> P (snd (sm_apply c m)))"

lemma kept_apply:
  assumes "kept P" and "\<forall>r. c \<noteq> CmdStart r" and "P (dm_machine d)"
  shows "P (dm_machine (snd (apply_command c d)))" and "P (dm_machine (apply_ignored c d))"
  using assms by (simp_all add: kept_def apply_command_app apply_ignored_app app_apply_machine)

lemma kept_apply_eq:
  "kept P \<Longrightarrow> apply_command c d = (r, d') \<Longrightarrow> \<forall>r. c \<noteq> CmdStart r \<Longrightarrow> P (dm_machine d) \<Longrightarrow>
   P (dm_machine d')"
  using kept_apply(1) by (metis snd_conv)

lemma kept_fail_nonterminal:
  "kept P \<Longrightarrow> P (dm_machine d) \<Longrightarrow> P (dm_machine (fail_nonterminal_session s c m d))"
  by (simp add: fail_nonterminal_session_def kept_apply)

lemma kept_no_speech:
  "kept P \<Longrightarrow> P (dm_machine d) \<Longrightarrow> P (dm_machine (snd (no_speech s d)))"
  using kept_apply(1)[of P "CmdNoSpeech s" "cancel_armed d"]
  by (auto simp: no_speech_def split: prod.splits sum.splits)

lemma kept_fail_recognition:
  "kept P \<Longrightarrow> P (dm_machine d) \<Longrightarrow> P (dm_machine (snd (fail_recognition s e d)))"
  by (simp add: fail_recognition_def kept_apply)

lemma kept_spawn:
  "kept P \<Longrightarrow> P (dm_machine d) \<Longrightarrow> P (dm_machine (snd (spawn_recognition s rec v ms w d)))"
  by (auto simp: spawn_recognition_def Let_def kept_fail_recognition
      split: option.splits sum.splits)

lemma snd_check_minimum_duration:
  "snd (check_minimum_duration s rec d) = (if too_short rec d then snd (no_speech s d) else d)"
  by (auto simp: check_minimum_duration_def split: prod.splits sum.splits)

lemma snd_check_voice_activity:
  "snd (check_voice_activity s rec w d) \<in> {d, snd (no_speech s d)}"
  by (auto simp: check_voice_activity_def Let_def split: prod.splits sum.splits)

lemma begin_recognition_end:
  "snd (begin_recognition s rec w d) \<in> {d, snd (no_speech s d)} \<or>
   (\<exists>v ms. \<not> too_short rec d \<and>
      begin_recognition s rec w d = spawn_recognition s rec v ms w d)"
proof (cases "too_short rec d")
  case True
  then show ?thesis
    by (auto simp: begin_recognition_def check_minimum_duration_def split: prod.splits sum.splits)
next
  case False
  then have eq: "begin_recognition s rec w d =
      (case check_voice_activity s rec w d of
             (Inl e, d2) \<Rightarrow> (Inl e, d2)
           | (Inr (VoiceNoSpeech reason), d2) \<Rightarrow> (Inr (RespNoSpeech s reason), d2)
           | (Inr (VoiceContinue vad audio_millis), d2) \<Rightarrow>
               spawn_recognition s rec vad audio_millis w d2)"
    by (simp add: begin_recognition_def check_minimum_duration_def)
  obtain r d2 where c: "check_voice_activity s rec w d = (r, d2)" by (metis prod.exhaust)
  have d2: "d2 \<in> {d, snd (no_speech s d)}"
    using snd_check_voice_activity[of s rec w d] by (simp add: c)
  have cont: "d2 = d" if "r = Inr (VoiceContinue v ms)" for v ms
    using c that
    by (auto simp: check_voice_activity_def Let_def split: if_splits sum.splits prod.splits)
  show ?thesis
    using d2 cont False unfolding eq c by (cases r; cases "projr r") auto
qed

lemma kept_begin_recognition:
  assumes "kept P" "P (dm_machine d)"
  shows "P (dm_machine (snd (begin_recognition s rec w d)))"
  using begin_recognition_end[of s rec w d] kept_no_speech[OF assms] kept_spawn[OF assms] assms(2)
  by auto

lemma insert_text_simps [simp]:
  "dm_app (snd (insert_text s t w d)) = dm_app d"
  "dm_recording (snd (insert_text s t w d)) = dm_recording d"
  "dm_config (snd (insert_text s t w d)) = dm_config d"
  "dm_active_profile (snd (insert_text s t w d)) = dm_active_profile d"
  "dm_armed (snd (insert_text s t w d)) = dm_armed d"
  "dm_history (snd (insert_text s t w d)) = dm_history d"
  "dm_recording_started_at (snd (insert_text s t w d)) = dm_recording_started_at d"
  "dm_job (snd (insert_text s t w d)) = dm_job d"
  "dm_live_vad (snd (insert_text s t w d)) = dm_live_vad d"
  by (simp_all add: insert_text_def split: option.splits)

lemma kept_complete:
  assumes "kept P" "P (dm_machine d)"
  shows "P (dm_machine (snd (complete_recognition s i t w d)))"
  using assms
  by (simp add: complete_recognition_def Let_def case_prod_beta kept_apply
      split: sum.splits command_effect.splits)

lemma cleanup_job_frame [simp]:
  "dm_app (cleanup_recognition_job j d) = dm_app d"
  "dm_recording (cleanup_recognition_job j d) = dm_recording d"
  "dm_config (cleanup_recognition_job j d) = dm_config d"
  "dm_active_profile (cleanup_recognition_job j d) = dm_active_profile d"
  "dm_armed (cleanup_recognition_job j d) = dm_armed d"
  "dm_history (cleanup_recognition_job j d) = dm_history d"
  "dm_recording_started_at (cleanup_recognition_job j d) = dm_recording_started_at d"
  "dm_job (cleanup_recognition_job j d) = dm_job d"
  "dm_live_vad (cleanup_recognition_job j d) = dm_live_vad d"
  by (simp_all add: cleanup_recognition_job_def)

lemma drop_work_frame [simp]:
  "dm_app (drop_work d) = dm_app d" "\<not> dm_recording (drop_work d)"
  "dm_config (drop_work d) = dm_config d" "dm_active_profile (drop_work d) = dm_active_profile d"
  "dm_armed (drop_work d) = dm_armed d" "dm_history (drop_work d) = dm_history d"
  "dm_recording_started_at (drop_work d) = None" "dm_job (drop_work d) = None"
  "dm_live_vad (drop_work d) = None"
  by (simp_all add: drop_work_def Let_def split: option.splits)

lemma kept_finish:
  assumes "kept P" "P (dm_machine d)"
  shows "P (dm_machine (snd (finish_recognition job r w d)))"
  using assms
  by (simp add: finish_recognition_def Let_def case_prod_beta kept_complete kept_fail_recognition
      split: sum.splits)

lemma kept_poll:
  assumes "kept P" "P (dm_machine d)"
  shows "P (dm_machine (snd (poll_recognition w d)))"
  using assms
  by (simp add: poll_recognition_def Let_def kept_finish split: option.splits recv_result.splits)

lemma kept_after_stop:
  assumes "kept P" "P (dm_machine (snd out))"
  shows "P (dm_machine (snd (after_stop rec out active w)))"
  using assms
  by (simp add: after_stop_def Let_def case_prod_beta kept_fail_nonterminal split: sum.splits)

lemma kept_stop:
  assumes "kept P" "P (dm_machine d)"
  shows "P (dm_machine (snd (daemon_stop s w d)))"
  using assms
  by (simp add: daemon_stop_def Let_def case_prod_beta kept_apply kept_after_stop
      kept_begin_recognition split: sum.splits)

lemma kept_cancel:
  "kept P \<Longrightarrow> P (dm_machine d) \<Longrightarrow> P (dm_machine (snd (daemon_cancel s d)))"
  by (simp add: daemon_cancel_def case_prod_beta kept_apply split: sum.splits)

lemma kept_reset: "kept P \<Longrightarrow> P (dm_machine d) \<Longrightarrow> P (dm_machine (snd (daemon_reset d)))"
  by (simp add: daemon_reset_def case_prod_beta kept_apply split: sum.splits)

lemma kept_begin_capture:
  "kept P \<Longrightarrow> P (dm_machine d) \<Longrightarrow> P (dm_machine (snd (begin_capture n s w d)))"
  by (simp add: begin_capture_def Let_def case_prod_beta kept_apply split: sum.splits)

text \<open>Starting is one Start command, and then commands that are not.\<close>

lemma kept_start:
  assumes "kept P" "P (dm_machine d)"
    and "\<And>r. P (dm_machine (snd (apply_command (CmdStart r) d)))"
  shows "P (dm_machine (snd (daemon_start p w d)))"
  using assms
  by (simp add: daemon_start_def Let_def case_prod_beta kept_apply kept_begin_capture
      split: sum.splits command_effect.splits option.splits)

lemma reload_machine [simp]: "dm_machine (snd (reload_configuration w d)) = dm_machine d"
  by (simp add: reload_configuration_def clear_history_def Let_def split: sum.splits)

lemma drain_machine [simp]: "dm_machine (snd (daemon_drain_events d)) = dm_machine d"
  by (simp add: daemon_drain_events_def drain_events_def)

lemma insert_test_machine [simp]:
  "dm_machine (snd (daemon_insert_test t w d)) = dm_machine d"
  "dm_app (snd (daemon_insert_test t w d)) = dm_app d"
  by (simp_all add: daemon_insert_test_def)

lemma quit_machine [simp]: "dm_machine (daemon_quit d) = dm_machine d"
  by (simp add: daemon_quit_def Let_def)

lemma snd_deadline:
  "snd (enforce_recording_deadline w d) \<in> {d, snd (daemon_stop [] w d)}"
  by (simp add: enforce_recording_deadline_def case_prod_beta split: option.splits sum.splits)

lemma kept_deadline:
  "kept P \<Longrightarrow> P (dm_machine d) \<Longrightarrow> P (dm_machine (snd (enforce_recording_deadline w d)))"
  using snd_deadline[of w d] kept_stop[of P d "[]" w] by auto

lemma kept_step:
  assumes "kept P" "P (dm_machine d)"
    and "\<And>r. P (dm_machine (snd (apply_command (CmdStart r) d)))"
  shows "P (dm_machine (snd (daemon_step ow d)))"
proof -
  obtain op w where ow: "ow = (op, w)" by (metis prod.exhaust)
  show ?thesis
    using assms unfolding ow
    by (cases op)
       (simp_all add: case_prod_beta Let_def kept_start kept_stop kept_cancel kept_reset kept_poll
          kept_deadline clear_history_def)
qed

section \<open>Starting, by cases\<close>

abbreviation start_command :: "string \<Rightarrow> command" where
  "start_command q \<equiv> CmdStart \<lparr> req_mode = Toggle, req_profile = Some q \<rparr>"

lemma start_cases:
  assumes "P d"
    and "\<And>q. \<forall>s r. fst (apply_command (start_command q) d) \<noteq> Inr (BeginCapture s r) \<Longrightarrow>
           P (snd (apply_command (start_command q) d))"
    and "\<And>q s r e. fst (apply_command (start_command q) d) = Inr (BeginCapture s r) \<Longrightarrow>
           P (apply_ignored (CmdFail s e)
                (log_fx (FxArm s) (snd (apply_command (start_command q) d))))"
    and "\<And>q s r mode arm. fst (apply_command (start_command q) d) = Inr (BeginCapture s r) \<Longrightarrow>
           w_arm w mode s = Inr arm \<Longrightarrow>
           P (snd (begin_capture q s w
                ((log_fx (FxArm s) (snd (apply_command (start_command q) d)))\<lparr> dm_armed := Some arm \<rparr>)))"
  shows "P (snd (daemon_start p w d))"
proof (cases "config_profile (if p = [] then None else Some p) (dm_config d)")
  case None
  then show ?thesis using assms(1) by (simp add: daemon_start_def)
next
  case (Some qs)
  let ?c = "apply_command (start_command (fst qs)) d"
  have eq: "snd (daemon_start p w d) \<in> {d, snd ?c} \<or> (\<exists>s r. fst ?c = Inr (BeginCapture s r))"
    using Some by (auto simp: daemon_start_def Let_def split: prod.splits sum.splits command_effect.splits)
  show ?thesis
  proof (cases "\<exists>s r. fst ?c = Inr (BeginCapture s r)")
    case False
    then show ?thesis using eq assms(1) assms(2)[of "fst qs"] by auto
  next
    case True
    then obtain s r where s: "fst ?c = Inr (BeginCapture s r)" by blast
    show ?thesis
      using Some assms(1) assms(3)[OF s] assms(4)[OF s] s
      by (auto simp: daemon_start_def Let_def case_prod_beta split: sum.splits)
  qed
qed

end
