(* ===== verification/Daemon_Invariant.thy ===== *)
theory Daemon_Invariant
  imports Daemon_Frames
begin

text \<open>
  The invariants of the daemon: capture, job, target and deadline are tied to the state of the
  session machine, sessions whose text was committed are past the point of insertion, and the
  armed target belongs to the session at work.
\<close>

abbreviation daemon_run :: "(daemon_op \<times> world) list \<Rightarrow> daemon \<Rightarrow> daemon_reply list \<times> daemon" where
  "daemon_run \<equiv> run_steps daemon_step"

section \<open>Commits\<close>

text \<open>The texts handed to the desktop, each with the session its target belongs to.\<close>

fun commits :: "fx list \<Rightarrow> (session_id \<times> utext) list" where
  "commits [] = []"
| "commits (FxCommit arm t # fs) = (ia_session arm, t) # commits fs"
| "commits (_ # fs) = commits fs"

lemma commits_append [simp]: "commits (fs @ gs) = commits fs @ commits gs"
  by (induction fs rule: commits.induct) simp_all

abbreviation dm_commits :: "daemon \<Rightarrow> (session_id \<times> utext) list" where
  "dm_commits d \<equiv> commits (dm_log d)"

lemma insert_test_commits [simp]: "dm_commits (snd (daemon_insert_test t w d)) = dm_commits d"
  by (simp add: daemon_insert_test_def)

lemma cancel_armed_commits [simp]: "dm_commits (cancel_armed d) = dm_commits d"
  by (simp add: cancel_armed_def split: option.splits)

lemma cleanup_commits [simp]: "dm_commits (cleanup_recognition_job j d) = dm_commits d"
  by (simp add: cleanup_recognition_job_def)

lemma drop_work_commits [simp]: "dm_commits (drop_work d) = dm_commits d"
  by (simp add: drop_work_def Let_def split: option.splits)

lemma fail_nonterminal_commits [simp]: "dm_log (fail_nonterminal_session s c m d) = dm_log d"
  by (simp add: fail_nonterminal_session_def)

lemma no_speech_commits [simp]: "dm_commits (snd (no_speech s d)) = dm_commits d"
  by (simp add: no_speech_def case_prod_beta split: sum.splits)

lemma fail_recognition_log [simp]: "dm_log (snd (fail_recognition s e d)) = dm_log d"
  by (simp add: fail_recognition_def)

lemma spawn_commits [simp]: "dm_commits (snd (spawn_recognition s rec v ms w d)) = dm_commits d"
  by (simp add: spawn_recognition_def Let_def split: option.splits sum.splits)

lemma begin_recognition_commits [simp]:
  "dm_commits (snd (begin_recognition s rec w d)) = dm_commits d"
  using begin_recognition_end[of s rec w d] by auto

lemma after_stop_commits [simp]: "dm_commits (snd (after_stop rec out s w)) = dm_commits (snd out)"
  by (simp add: after_stop_def Let_def case_prod_beta split: sum.splits)

lemma stop_commits [simp]: "dm_commits (snd (daemon_stop s w d)) = dm_commits d"
  by (simp add: daemon_stop_def Let_def case_prod_beta split: sum.splits)

lemma begin_capture_commits [simp]: "dm_commits (snd (begin_capture n s w d)) = dm_commits d"
  by (simp add: begin_capture_def Let_def case_prod_beta split: sum.splits)

lemma start_commits [simp]: "dm_commits (snd (daemon_start p w d)) = dm_commits d"
  by (simp add: daemon_start_def Let_def case_prod_beta
      split: sum.splits command_effect.splits option.splits)

lemma other_commits [simp]:
  "dm_commits (snd (daemon_cancel s d)) = dm_commits d"
  "dm_commits (snd (daemon_reset d)) = dm_commits d"
  "dm_commits (daemon_quit d) = dm_commits d"
  "dm_commits (clear_history d) = dm_commits d"
  "dm_commits (snd (reload_configuration w d)) = dm_commits d"
  "dm_commits (snd (daemon_drain_events d)) = dm_commits d"
  "dm_commits (snd (enforce_recording_deadline w d)) = dm_commits d"
  using snd_deadline[of w d]
  by (auto simp: daemon_cancel_def daemon_reset_def daemon_quit_def reload_configuration_def
      daemon_drain_events_def clear_history_def Let_def case_prod_beta split: sum.splits)

lemma kept_retired: "kept (retired s)"
  by (simp add: kept_def retired_step(1))

lemma kept_fresh: "kept sm_fresh"
  unfolding kept_def
proof (intro allI impI)
  fix c m assume c: "\<forall>r. c \<noteq> CmdStart r" and fresh: "sm_fresh m"
  have "sm_next_id (snd (sm_apply c m)) = sm_next_id m"
    using c sm_begin_capture[of c m] by (auto simp: sm_next_id_step split: sum.splits command_effect.splits)
  moreover have "state_session (sm_state (snd (sm_apply c m))) \<in> {None, state_session (sm_state m)}"
    using c by (cases c; cases "sm_state m")
      (auto simp: sm_op_defs split: session_state.splits option.splits)
  ultimately show "sm_fresh (snd (sm_apply c m))" using fresh by (auto simp: sm_fresh_def)
qed

text \<open>A commit is made only after the machine asked for the insertion, and retires the session.\<close>

lemma insert_text_commits:
  "dm_commits (snd (insert_text s t w d)) = dm_commits d \<or>
   dm_commits (snd (insert_text s t w d)) = dm_commits d @ [(s, t)]"
  by (auto simp: insert_text_def split: option.splits)

lemma complete_commits:
  fixes s i t w d
  defines "d' \<equiv> snd (complete_recognition s i t w d)"
  shows "dm_commits d' = dm_commits d \<or>
         (dm_commits d' = dm_commits d @ [(s, pt_text t)] \<and> \<not> is_blank (pt_text t) \<and>
          (sm_fresh (dm_machine d) \<longrightarrow> retired s (dm_machine d')) \<and>
          sm_state (dm_machine d) = Finalizing s)"
proof (cases "fst (apply_command (CmdTranscriptReady s (pt_text t)) d)")
  case (Inl e)
  then show ?thesis by (simp add: d'_def complete_recognition_def Let_def case_prod_beta)
next
  case (Inr eff)
  let ?d1 = "snd (apply_command (CmdTranscriptReady s (pt_text t)) d)"
  show ?thesis
  proof (cases "\<exists>a b. eff = InsertText a b")
    case False
    then show ?thesis using Inr
      by (simp add: d'_def complete_recognition_def Let_def case_prod_beta
          split: command_effect.splits)
  next
    case True
    then obtain a b where eff: "eff = InsertText a b" by blast
    have room: "\<not> 254 < length (ac_events (dm_app d))"
      and m: "fst (sm_apply (CmdTranscriptReady s (pt_text t)) (dm_machine d)) = Inr (InsertText a b)"
      using Inr eff by (simp_all add: apply_command_fst app_apply_result split: if_splits)
    from m have c: "a = s" "sm_state (dm_machine d) = Finalizing s" "\<not> is_blank (pt_text t)"
      unfolding sm_insert_text by auto
    have "retired s (dm_machine ?d1)" if "sm_fresh (dm_machine d)"
      using sm_fresh_retires[OF that m] room c(1)
      by (simp add: apply_command_app app_apply_machine)
    then have "sm_fresh (dm_machine d) \<longrightarrow> retired s (dm_machine d')"
      using Inr eff kept_apply[OF kept_retired[of s]]
      by (simp add: d'_def complete_recognition_def Let_def case_prod_beta split: sum.splits)
    moreover have "dm_commits d' = dm_commits (snd (insert_text s (pt_text t) w ?d1))"
      using Inr eff
      by (simp add: d'_def complete_recognition_def Let_def case_prod_beta split: sum.splits)
    ultimately show ?thesis using insert_text_commits[of s "pt_text t" w ?d1] c by auto
  qed
qed

lemma finish_commits:
  fixes job r w d
  defines "d' \<equiv> snd (finish_recognition job r w d)"
  shows "dm_commits d' = dm_commits d \<or>
         (\<exists>t. dm_commits d' = dm_commits d @ [(rj_session job, t)] \<and> \<not> is_blank t \<and>
              (sm_fresh (dm_machine d) \<longrightarrow> retired (rj_session job) (dm_machine d')) \<and>
              sm_state (dm_machine d) = Finalizing (rj_session job))"
proof (cases "rr_outcome r")
  case (Inl e)
  then show ?thesis
    by (simp add: d'_def finish_recognition_def Let_def case_prod_beta split: sum.splits)
next
  case (Inr success)
  let ?d1 = "d\<lparr> dm_app := record_route_result r (rj_audio_millis job) (w_now w) (dm_app d) \<rparr>"
  let ?c = "complete_recognition (rj_session job) (rs_provider_id success) (rs_transcript success) w ?d1"
  have "dm_commits d' = dm_commits (snd ?c)" "dm_machine d' = dm_machine (snd ?c)"
    using Inr by (simp_all add: d'_def finish_recognition_def Let_def case_prod_beta split: sum.splits)
  then show ?thesis
    using complete_commits[of "rj_session job" "rs_provider_id success" "rs_transcript success" w ?d1]
    by auto
qed

lemma poll_commits:
  fixes w d
  defines "d' \<equiv> snd (poll_recognition w d)"
  shows "dm_commits d' = dm_commits d \<or>
         (\<exists>s t. dm_commits d' = dm_commits d @ [(s, t)] \<and> \<not> is_blank t \<and>
              (sm_fresh (dm_machine d) \<longrightarrow> retired s (dm_machine d')) \<and>
              sm_state (dm_machine d) = Finalizing s)"
proof -
  have "d' \<in> {d} \<union> (\<lambda>job. cleanup_recognition_job job (d\<lparr> dm_job := None \<rparr>)) ` UNIV \<union>
      (\<lambda>(job, r). snd (finish_recognition job r w (d\<lparr> dm_job := None \<rparr>))) ` UNIV"
    by (auto simp: d'_def poll_recognition_def Let_def image_iff split: option.splits recv_result.splits)
  then show ?thesis
    using finish_commits[of _ _ w "d\<lparr> dm_job := None \<rparr>"] by fastforce
qed

text \<open>Sessions that were committed are retired, and each was committed once.\<close>

definition commit_inv :: "daemon \<Rightarrow> bool" where
  "commit_inv d \<longleftrightarrow>
     sm_fresh (dm_machine d) \<and> distinct (map fst (dm_commits d)) \<and>
     (\<forall>(s, t) \<in> set (dm_commits d). retired s (dm_machine d) \<and> \<not> is_blank t)"

definition has_room :: "daemon \<Rightarrow> nat \<Rightarrow> bool" where
  "has_room d n \<longleftrightarrow> unat (sm_next_id (dm_machine d)) + n < 2 ^ 64"

lemma kept_next_id: "kept (\<lambda>m. sm_next_id m = k)"
  using sm_begin_capture
  by (fastforce simp: kept_def sm_next_id_step split: sum.splits command_effect.splits)

lemma kept_next_id_le: "kept (\<lambda>m. unat (sm_next_id m) \<le> k)"
  using kept_next_id by (simp add: kept_def)

lemma start_next_id:
  "unat (sm_next_id (dm_machine (snd (apply_command (CmdStart r) d)))) \<le>
   unat (sm_next_id (dm_machine d)) + 1"
  using unat_next_id_step[of "CmdStart r" "dm_machine d"]
  by (simp add: apply_command_app app_apply_machine)

lemma step_room: "has_room d (Suc n) \<Longrightarrow> has_room (snd (daemon_step ow d)) n"
  using kept_step[OF kept_next_id_le[of "unat (sm_next_id (dm_machine d)) + 1"], of d ow]
    start_next_id[of _ d] by (force simp: has_room_def)

lemma step_retired: "retired s (dm_machine d) \<Longrightarrow> retired s (dm_machine (snd (daemon_step ow d)))"
  by (rule kept_step[OF kept_retired])
     (simp_all add: apply_command_app app_apply_machine retired_step del: sm_apply.simps)

lemma step_fresh:
  assumes "sm_fresh (dm_machine d)" "has_room d 1"
  shows "sm_fresh (dm_machine (snd (daemon_step ow d)))"
  by (rule kept_step[OF kept_fresh assms(1)])
     (use assms sm_fresh_step in
       \<open>simp add: apply_command_app app_apply_machine has_room_def del: sm_apply.simps\<close>)

lemma step_commits:
  fixes ow d
  defines "d' \<equiv> snd (daemon_step ow d)"
  shows "dm_commits d' = dm_commits d \<or>
         (\<exists>s t. dm_commits d' = dm_commits d @ [(s, t)] \<and> \<not> is_blank t \<and>
              (sm_fresh (dm_machine d) \<longrightarrow> retired s (dm_machine d')) \<and>
              sm_state (dm_machine d) = Finalizing s)"
proof -
  obtain op w where ow: "ow = (op, w)" by (metis prod.exhaust)
  show ?thesis
    using poll_commits[of w d]
    by (cases op) (auto simp: d'_def ow case_prod_beta Let_def)
qed

lemma step_commit_inv:
  assumes inv: "commit_inv d" and room: "has_room d 1"
  shows "commit_inv (snd (daemon_step ow d))"
proof -
  let ?d = "snd (daemon_step ow d)"
  have fresh: "sm_fresh (dm_machine d)" and dist: "distinct (map fst (dm_commits d))"
    and old: "\<forall>(s, t) \<in> set (dm_commits d). retired s (dm_machine d) \<and> \<not> is_blank t"
    using inv by (simp_all add: commit_inv_def)
  have old': "\<forall>(s, t) \<in> set (dm_commits d). retired s (dm_machine ?d) \<and> \<not> is_blank t"
    using old step_retired by fast
  from step_commits[of ow d] show ?thesis
  proof (elim disjE exE conjE)
    fix s t
    assume app: "dm_commits ?d = dm_commits d @ [(s, t)]" and t: "\<not> is_blank t"
      and ret: "sm_fresh (dm_machine d) \<longrightarrow> retired s (dm_machine ?d)" and st: "sm_state (dm_machine d) = Finalizing s"
    have "\<not> retired s (dm_machine d)" using st by (simp add: retired_def)
    then have "s \<notin> fst ` set (dm_commits d)" using old by auto
    then show ?thesis
      using app t ret fresh dist old' step_fresh[OF fresh room, of ow] by (auto simp: commit_inv_def)
  qed (use dist old' step_fresh[OF fresh room, of ow] in \<open>simp add: commit_inv_def\<close>)
qed

lemma run_commit_inv:
  "commit_inv d \<Longrightarrow> has_room d (length ops) \<Longrightarrow> commit_inv (snd (daemon_run ops d))"
proof (induction ops arbitrary: d)
  case (Cons op ops)
  have "has_room d 1" using Cons.prems(2) by (simp add: has_room_def)
  then show ?case
    using Cons step_commit_inv[of d op] step_room[of d "length ops" op]
    by (simp add: run_simps del: run_steps.simps(2))
qed simp

lemma compose_ok:
  assumes "compose recognizers config wake = Inr d"
  shows "config_validate config = Inr ()" and "\<exists>reg. dm_app d = app_with_wake reg wake"
    and "dm_log d = []" and "\<not> dm_recording d" and "dm_job d = None" and "dm_armed d = None"
    and "dm_history d = []" and "dm_recording_started_at d = None" and "dm_live_vad d = None"
  using assms by (auto simp: compose_def try_then_ok_iff)

lemma compose_commit_inv:
  "compose recognizers config wake = Inr d \<Longrightarrow> commit_inv d \<and> has_room d 0 \<and>
   sm_next_id (dm_machine d) = 1"
  using compose_ok[of recognizers config wake d]
    sm_fresh_default
  by (auto simp: commit_inv_def app_with_wake_def has_room_def session_machine_default_def)

section \<open>The invariant\<close>

text \<open>
  Capture, job, target and deadline are tied to the state of the machine. Only an accepted
  Start gives a recording, only an accepted Stop a job.
\<close>

definition capturing :: "session_state \<Rightarrow> session_id option" where
  "capturing st = (case st of Preparing s _ \<Rightarrow> Some s | Listening s _ \<Rightarrow> Some s | _ \<Rightarrow> None)"

definition dm_wf :: "daemon \<Rightarrow> bool" where
  "dm_wf d \<longleftrightarrow>
     ac_wf (dm_app d) \<and> length (dm_history d) \<le> 20 \<and>
     (dm_recording d \<longleftrightarrow> dm_recording_started_at d \<noteq> None) \<and>
     (dm_live_vad d \<noteq> None \<longrightarrow> dm_recording d) \<and>
     (dm_recording d \<longrightarrow> capturing (dm_state d) \<noteq> None \<and> dm_job d = None \<and>
        dm_armed d \<noteq> None \<and> dm_active_profile d \<noteq> None) \<and>
     (\<forall>job. dm_job d = Some job \<longrightarrow>
        dm_state d = Finalizing (rj_session job) \<and> dm_armed d \<noteq> None \<and>
        dm_active_profile d \<noteq> None)"

text \<open>What the machine part of the invariant needs: the states that hold no resource.\<close>

definition at_rest :: "daemon \<Rightarrow> bool" where
  "at_rest d \<longleftrightarrow>
     ac_wf (dm_app d) \<and> length (dm_history d) \<le> 20 \<and> \<not> dm_recording d \<and>
     dm_recording_started_at d = None \<and> dm_live_vad d = None \<and> dm_job d = None"

lemma at_rest_wf: "at_rest d \<Longrightarrow> dm_wf d"
  by (simp add: at_rest_def dm_wf_def)

lemma apply_command_wf:
  "ac_wf (dm_app d) \<Longrightarrow> ac_wf (dm_app (snd (apply_command c d)))"
  "ac_wf (dm_app d) \<Longrightarrow> ac_wf (dm_app (apply_ignored c d))"
  by (simp_all add: apply_command_app apply_ignored_app app_apply_wf)

lemma at_rest_apply [simp]:
  "at_rest d \<Longrightarrow> at_rest (snd (apply_command c d))" "at_rest d \<Longrightarrow> at_rest (apply_ignored c d)"
  by (simp_all add: at_rest_def apply_command_wf)

lemma at_rest_frames [simp]:
  "at_rest (log_fx f d) = at_rest d" "at_rest (cancel_armed d) = at_rest d"
  "at_rest (cleanup_recognition_job j d) = at_rest d"
  "at_rest (d\<lparr> dm_armed := a \<rparr>) = at_rest d" "at_rest (d\<lparr> dm_active_profile := p \<rparr>) = at_rest d"
  by (simp_all add: at_rest_def)

lemma at_rest_no_speech: "at_rest d \<Longrightarrow> at_rest (snd (no_speech s d))"
  by (simp add: no_speech_def case_prod_beta split: sum.splits)

lemma at_rest_fail: "at_rest d \<Longrightarrow> at_rest (snd (fail_recognition s e d))"
  by (simp add: fail_recognition_def)

lemma at_rest_fail_nonterminal: "at_rest d \<Longrightarrow> at_rest (fail_nonterminal_session s c m d)"
  by (simp add: fail_nonterminal_session_def)

text \<open>A rejected command changes nothing; the invariant survives it.\<close>

lemma apply_command_rejected: "is_err (fst (apply_command c d)) \<Longrightarrow> snd (apply_command c d) = d"
  by (simp add: apply_command_fst app_apply_rejected apply_command_def case_prod_beta Let_def)

interpretation history: bounded_recent history_limit "push_bounded history_limit"
  by (rule bounded_recent_push_bounded) (simp add: history_limit_def)

lemma remember_history: "length (dm_history d) \<le> 20 \<Longrightarrow> length (dm_history (remember_transcript t d)) \<le> 20"
  using history.push_length[of "dm_history d" t]
  by (simp add: remember_transcript_def history_limit_def)

lemma at_rest_complete: "at_rest d \<Longrightarrow> at_rest (snd (complete_recognition s i t w d))"
  by (simp add: complete_recognition_def Let_def case_prod_beta at_rest_def apply_command_wf
      finish_session_wf remember_history split: sum.splits command_effect.splits)

lemma at_rest_record [simp]:
  "at_rest (d\<lparr> dm_app := record_route_result r ms now (dm_app d) \<rparr>) = at_rest d"
  by (simp add: at_rest_def ac_wf_def)

lemma at_rest_finish: "at_rest d \<Longrightarrow> at_rest (snd (finish_recognition job r w d))"
  by (simp add: finish_recognition_def Let_def case_prod_beta at_rest_complete at_rest_fail
      split: sum.splits)

lemma wf_at_rest:
  assumes "dm_wf d"
  shows "\<not> dm_recording d \<Longrightarrow> dm_job d = None \<Longrightarrow> at_rest d"
    and "\<not> is_active (dm_state d) \<Longrightarrow> at_rest d"
    and "dm_job d = Some job \<Longrightarrow> at_rest (d\<lparr> dm_job := None \<rparr>)"
proof -
  show r: "at_rest d" if "\<not> dm_recording d" "dm_job d = None"
    using assms that by (auto simp: dm_wf_def at_rest_def)
  show "at_rest d" if "\<not> is_active (dm_state d)"
  proof -
    have "\<not> dm_recording d"
      using assms that by (cases "dm_state d") (auto simp: dm_wf_def capturing_def)
    moreover have "dm_job d = None"
      using assms that by (cases "dm_job d") (auto simp: dm_wf_def)
    ultimately show ?thesis by (rule r)
  qed
  show "at_rest (d\<lparr> dm_job := None \<rparr>)" if "dm_job d = Some job"
    using assms that by (auto simp: dm_wf_def at_rest_def)
qed

lemma begin_capture_wf:
  assumes rest: "at_rest d" and st: "capturing (dm_state d) \<noteq> None" and armed: "dm_armed d \<noteq> None"
  shows "dm_wf (snd (begin_capture n s w d))"
proof -
  have keep: "capturing (sm_state (snd (sm_apply (CmdCaptureReady s) m))) \<noteq> None"
    if "capturing (sm_state m) \<noteq> None" for m
    using that by (cases "sm_state m") (auto simp: capturing_def sm_capture_ready_def ensure_session_def)
  have "capturing (dm_state (snd (apply_command (CmdCaptureReady s) d'))) \<noteq> None"
    if "capturing (dm_state d') \<noteq> None" for d'
    using that keep[of "dm_machine d'"] by (simp add: apply_command_app app_apply_machine)
  then show ?thesis
    using assms apply_command_wf(1)
    by (simp add: begin_capture_def Let_def case_prod_beta at_rest_wf dm_wf_def at_rest_def
        apply_command_wf split: sum.splits)
qed

lemma begin_capture_effect:
  assumes "fst (apply_command c d) = Inr (BeginCapture s r)"
  shows "\<not> is_active (dm_state d)" and "capturing (dm_state (snd (apply_command c d))) = Some s"
proof -
  have room: "\<not> 254 < length (ac_events (dm_app d))"
    and m: "fst (sm_apply c (dm_machine d)) = Inr (BeginCapture s r)"
    using assms by (simp_all add: apply_command_fst app_apply_result split: if_splits)
  then have c: "c = CmdStart r" "s = from_counter (sm_next_id (dm_machine d))"
    and na: "\<not> is_active (dm_state d)"
    unfolding sm_begin_capture by auto
  show "\<not> is_active (dm_state d)" by (rule na)
  show "capturing (dm_state (snd (apply_command c d))) = Some s"
    using m room by (auto simp: c apply_command_app app_apply_machine sm_start_def Let_def capturing_def
      split: if_splits)
qed

lemma start_wf:
  assumes wf: "dm_wf d" shows "dm_wf (snd (daemon_start p w d))"
proof (rule start_cases[where P = dm_wf])
  show "dm_wf d" by (rule wf)
next
  fix q assume "\<forall>s r. fst (apply_command (start_command q) d) \<noteq> Inr (BeginCapture s r)"
  then have "is_err (fst (apply_command (start_command q) d))"
    by (auto simp: apply_command_fst app_apply_result sm_start_def Let_def split: if_splits)
  then show "dm_wf (snd (apply_command (start_command q) d))"
    using wf by (simp add: apply_command_rejected)
next
  fix q s r e assume "fst (apply_command (start_command q) d) = Inr (BeginCapture s r)"
  note s = begin_capture_effect[OF this]
  then show "dm_wf (apply_ignored (CmdFail s e)
      (log_fx (FxArm s) (snd (apply_command (start_command q) d))))"
    by (intro at_rest_wf) (simp add: wf_at_rest(2)[OF wf])
next
  fix q s r mode arm assume "fst (apply_command (start_command q) d) = Inr (BeginCapture s r)"
  note s = begin_capture_effect[OF this]
  then show "dm_wf (snd (begin_capture q s w
      ((log_fx (FxArm s) (snd (apply_command (start_command q) d)))\<lparr> dm_armed := Some arm \<rparr>)))"
    by (intro begin_capture_wf) (simp_all add: wf_at_rest(2)[OF wf])
qed

lemma spawn_cases:
  assumes "at_rest d"
  shows "at_rest (snd (spawn_recognition s rec v ms w d)) \<or>
         (\<exists>job f. rj_session job = s \<and> is_ok (fst (spawn_recognition s rec v ms w d)) \<and>
            snd (spawn_recognition s rec v ms w d) = log_fx f (d\<lparr> dm_job := Some job \<rparr>))"
  using assms at_rest_fail
  by (force simp: spawn_recognition_def Let_def split: option.splits sum.splits)

text \<open>What an operation leaves: no work at all, or the work, the target and the session it found.\<close>

definition same_work :: "daemon \<Rightarrow> daemon \<Rightarrow> bool" where
  "same_work d d' \<longleftrightarrow>
     dm_wf d' \<and> dm_armed d' = dm_armed d \<and>
     state_session (dm_state d') = state_session (dm_state d) \<and>
     (dm_recording d' \<or> dm_job d' \<noteq> None \<longrightarrow> dm_recording d \<or> dm_job d \<noteq> None)"

lemma begin_recognition_wf:
  assumes rest: "at_rest d" and st: "dm_state d = Finalizing s"
    and armed: "dm_armed d \<noteq> None" "dm_active_profile d \<noteq> None"
  shows "at_rest (snd (begin_recognition s rec w d)) \<or>
         (is_ok (fst (begin_recognition s rec w d)) \<and> dm_wf (snd (begin_recognition s rec w d)) \<and>
          dm_job (snd (begin_recognition s rec w d)) \<noteq> None \<and>
          dm_armed (snd (begin_recognition s rec w d)) = dm_armed d \<and>
          dm_state (snd (begin_recognition s rec w d)) = dm_state d)"
proof -
  have wf: "dm_wf (log_fx f (d\<lparr> dm_job := Some job \<rparr>))" if "rj_session job = s" for job f
    using assms that by (auto simp: dm_wf_def at_rest_def)
  have "at_rest (snd (spawn_recognition s rec v ms w d)) \<or>
      (is_ok (fst (spawn_recognition s rec v ms w d)) \<and> dm_wf (snd (spawn_recognition s rec v ms w d)) \<and>
       dm_job (snd (spawn_recognition s rec v ms w d)) \<noteq> None \<and>
       dm_armed (snd (spawn_recognition s rec v ms w d)) = dm_armed d \<and>
       dm_state (snd (spawn_recognition s rec v ms w d)) = dm_state d)" for v ms
    using spawn_cases[OF rest, of s rec v ms w] wf by auto
  then show ?thesis
    using begin_recognition_end[of s rec w d] rest at_rest_no_speech by fastforce
qed

lemma at_rest_after_stop: "at_rest (snd out) \<Longrightarrow> at_rest (snd (after_stop rec out s w))"
  by (simp add: after_stop_def Let_def case_prod_beta at_rest_fail_nonterminal split: sum.splits)

lemma after_stop_job:
  "is_ok (fst out) \<Longrightarrow> dm_job (snd out) \<noteq> None \<Longrightarrow> snd (after_stop rec out s w) = snd out"
  by (auto simp: after_stop_def Let_def case_prod_beta split: sum.splits)

lemma stop_effect:
  assumes "fst (apply_command (CmdStop s) d) = Inr e"
  shows "(\<exists>mode. dm_state d = Listening s mode)"
    and "dm_state (snd (apply_command (CmdStop s) d)) = Finalizing s"
  using assms
  by (auto simp: apply_command_fst apply_command_app app_apply_result app_apply_machine sm_stop_def
      ensure_session_def split: if_splits session_state.splits)

lemma stop_end:
  assumes wf: "dm_wf d"
  shows "at_rest (snd (daemon_stop s w d)) \<or> same_work d (snd (daemon_stop s w d))"
proof (cases "active_session_id s d")
  case (Inl e)
  then show ?thesis using wf by (simp add: daemon_stop_def same_work_def)
next
  case (Inr active)
  let ?p = "poll_audio_telemetry w d"
  let ?d1 = "snd (apply_command (CmdStop active) ?p)"
  let ?d2 = "log_fx FxCaptureStop (clear_live (?d1\<lparr> dm_recording := False \<rparr>))"
  have wfp: "dm_wf ?p"
    using wf poll_audio_telemetry_frame(10)[of w d] by (auto simp: dm_wf_def)
  show ?thesis
  proof (cases "fst (apply_command (CmdStop active) ?p)")
    case (Inl e)
    then show ?thesis using Inr wfp apply_command_rejected[of "CmdStop active" ?p]
      by (simp add: daemon_stop_def Let_def case_prod_beta same_work_def)
  next
    case ok: (Inr e)
    obtain mode where li: "dm_state d = Listening active mode"
      using stop_effect(1)[OF ok] by auto
    have fin: "dm_state ?d1 = Finalizing active" using stop_effect(2)[OF ok] .
    have job: "dm_job d = None" using wf li by (cases "dm_job d") (auto simp: dm_wf_def)
    have wf1: "ac_wf (dm_app ?d1)" using wf apply_command_wf(1)[of ?p] by (simp add: dm_wf_def)
    show ?thesis
    proof (cases "dm_recording d")
      case False
      then have "at_rest ?d1"
        using wf wf1 job poll_audio_telemetry_frame(10)[of w d] by (simp add: at_rest_def dm_wf_def)
      then show ?thesis using Inr ok False by (simp add: daemon_stop_def Let_def case_prod_beta)
    next
      case True
      have rest: "at_rest ?d2" using wf wf1 job by (simp add: at_rest_def dm_wf_def)
      have armed: "dm_armed ?d2 \<noteq> None" "dm_active_profile ?d2 \<noteq> None"
        using wf True by (auto simp: dm_wf_def)
      have "dm_state ?d2 = Finalizing active" using fin by simp
      note recognition = begin_recognition_wf[OF rest this armed]
      let ?after = "\<lambda>rec. snd (after_stop rec (begin_recognition active rec w ?d2) active w)"
      have "at_rest (?after rec) \<or> same_work d (?after rec)" for rec
        using recognition[of rec w] True li fin
        by (elim disjE conjE) (simp_all add: at_rest_after_stop after_stop_job same_work_def)
      then show ?thesis using Inr ok True at_rest_apply(2)[OF rest]
        by (simp add: daemon_stop_def Let_def case_prod_beta split: sum.splits)
    qed
  qed
qed

lemma stop_wf: "dm_wf d \<Longrightarrow> dm_wf (snd (daemon_stop s w d))"
  using stop_end[of d s w] at_rest_wf by (auto simp: same_work_def)

lemma poll_wf:
  assumes wf: "dm_wf d" shows "dm_wf (snd (poll_recognition w d))"
proof (cases "dm_job d")
  case None
  then show ?thesis using wf by (simp add: poll_recognition_def)
next
  case (Some job)
  then show ?thesis using wf wf_at_rest(3)[OF wf Some]
    by (simp add: poll_recognition_def Let_def at_rest_finish at_rest_wf split: recv_result.splits)
qed

lemma at_rest_drop_work:
  "ac_wf (dm_app d) \<Longrightarrow> length (dm_history d) \<le> 20 \<Longrightarrow> at_rest (drop_work d)"
  by (simp add: at_rest_def)

lemma cancel_wf:
  assumes wf: "dm_wf d" shows "dm_wf (snd (daemon_cancel s d))"
  using wf apply_command_rejected[of _ d] apply_command_wf(1)[of d]
  by (auto simp: daemon_cancel_def case_prod_beta at_rest_drop_work dm_wf_def
      split: sum.splits intro!: at_rest_wf[unfolded dm_wf_def])

lemma reset_wf:
  assumes wf: "dm_wf d" shows "dm_wf (snd (daemon_reset d))"
proof (cases "is_err (fst (apply_command CmdReset d))")
  case True
  then show ?thesis using wf apply_command_rejected[OF True]
    by (simp add: daemon_reset_def case_prod_beta split: sum.splits)
next
  case False
  then have "\<not> is_active (dm_state d)"
    by (auto simp: apply_command_fst app_apply_result sm_reset_def split: if_splits)
  then show ?thesis using wf_at_rest(2)[OF wf] False
    by (simp add: daemon_reset_def case_prod_beta at_rest_wf split: sum.splits)
qed

lemma reload_wf:
  assumes wf: "dm_wf d" shows "dm_wf (snd (reload_configuration w d))"
  using wf ac_wf_frames(2)[of "dm_app d"]
  by (auto simp: reload_configuration_def clear_history_def Let_def dm_wf_def split: sum.splits)

lemma quit_wf:
  assumes wf: "dm_wf d" shows "dm_wf (daemon_quit d)"
  using wf by (simp add: daemon_quit_def Let_def dm_wf_def ac_wf_def)

lemma insert_test_wf: "dm_wf d \<Longrightarrow> dm_wf (snd (daemon_insert_test t w d))"
  by (auto simp: daemon_insert_test_def dm_wf_def)

lemma step_wf: "dm_wf d \<Longrightarrow> dm_wf (snd (daemon_step ow d))"
proof -
  assume wf: "dm_wf d"
  obtain op w where ow: "ow = (op, w)" by (metis prod.exhaust)
  have frames: "dm_wf (clear_history d)" "dm_wf (poll_audio_telemetry w d)"
    "dm_wf (snd (daemon_drain_events d))"
    using wf poll_audio_telemetry_frame(10)[of w d]
    by (auto simp: dm_wf_def clear_history_def daemon_drain_events_def drain_events_def ac_wf_def)
  show ?thesis
    using snd_deadline[of w d] wf frames unfolding ow
    by (cases op)
       (auto simp: case_prod_beta Let_def start_wf stop_wf cancel_wf reset_wf reload_wf quit_wf poll_wf
          insert_test_wf)
qed

interpretation daemon: invariant_machine daemon_step dm_wf
  by unfold_locales (rule step_wf)

lemma compose_wf: "compose recognizers config wake = Inr d \<Longrightarrow> dm_wf d"
  using compose_ok[of recognizers config wake d] ac_wf_with_wake
  by (auto simp: dm_wf_def)

section \<open>Nothing is committed for a retired session\<close>

lemma retired_commits:
  "retired s (dm_machine d) \<Longrightarrow> (s, t) \<in> set (dm_commits (snd (daemon_run ops d))) \<longleftrightarrow>
   (s, t) \<in> set (dm_commits d)"
proof (induction ops arbitrary: d)
  case (Cons op ops)
  have "(s, t) \<in> set (dm_commits (snd (daemon_step op d))) \<longleftrightarrow> (s, t) \<in> set (dm_commits d)"
    using step_commits[of op d] Cons.prems by (auto simp: retired_def)
  then show ?case
    using Cons.IH[OF step_retired[OF Cons.prems]] by (simp add: run_simps del: run_steps.simps(2))
qed simp

section \<open>The armed target\<close>

text \<open>The contract of the insertion port: a target belongs to the session it was armed for.\<close>

definition arms_for_session :: "daemon_op \<times> world \<Rightarrow> bool" where
  "arms_for_session ow \<longleftrightarrow>
     (\<forall>mode s arm. w_arm (snd ow) mode s = Inr arm \<longrightarrow> ia_session arm = s)"

definition target_inv :: "daemon \<Rightarrow> bool" where
  "target_inv d \<longleftrightarrow> dm_wf d \<and>
     (dm_recording d \<or> dm_job d \<noteq> None \<longrightarrow>
        (\<exists>arm. dm_armed d = Some arm \<and> state_session (dm_state d) = Some (ia_session arm)))"

lemma at_rest_target: "at_rest d \<Longrightarrow> target_inv d"
  by (simp add: target_inv_def at_rest_wf) (simp add: at_rest_def)

lemma begin_capture_target:
  assumes rest: "at_rest d" and st: "capturing (dm_state d) = Some s" and armed: "dm_armed d = Some arm"
    and arm: "ia_session arm = s"
  shows "target_inv (snd (begin_capture n s w d))"
proof -
  have "state_session (dm_state (snd (apply_command (CmdCaptureReady s) d'))) = Some s"
    if "capturing (dm_state d') = Some s" for d'
    using that
    by (cases "dm_state d'") (auto simp: apply_command_app app_apply_machine capturing_def
        sm_capture_ready_def ensure_session_def)
  then show ?thesis
    using assms begin_capture_wf[of d n s w] at_rest_apply(2)
    by (auto simp: target_inv_def begin_capture_def Let_def case_prod_beta split: sum.splits)
      (simp_all add: at_rest_def)
qed

lemma start_target:
  assumes wf: "target_inv d" and arms: "arms_for_session (op, w)"
  shows "target_inv (snd (daemon_start p w d))"
proof (rule start_cases[where P = target_inv])
  have dwf: "dm_wf d" using wf by (simp add: target_inv_def)
  show "target_inv d" by (rule wf)
  {
    fix q assume "\<forall>s r. fst (apply_command (start_command q) d) \<noteq> Inr (BeginCapture s r)"
    then have "is_err (fst (apply_command (start_command q) d))"
      by (auto simp: apply_command_fst app_apply_result sm_start_def Let_def split: if_splits)
    then show "target_inv (snd (apply_command (start_command q) d))"
      using wf by (simp add: apply_command_rejected)
  next
    fix q s r e assume "fst (apply_command (start_command q) d) = Inr (BeginCapture s r)"
    note s = begin_capture_effect[OF this]
    then show "target_inv (apply_ignored (CmdFail s e)
        (log_fx (FxArm s) (snd (apply_command (start_command q) d))))"
      by (intro at_rest_target) (simp add: wf_at_rest(2)[OF dwf])
  next
    fix q s r mode arm assume "fst (apply_command (start_command q) d) = Inr (BeginCapture s r)"
      and "w_arm w mode s = Inr arm"
    note s = begin_capture_effect[OF this(1)]
      and arm = arms[unfolded arms_for_session_def snd_conv, rule_format, OF this(2)]
    then show "target_inv (snd (begin_capture q s w
        ((log_fx (FxArm s) (snd (apply_command (start_command q) d)))\<lparr> dm_armed := Some arm \<rparr>)))"
      by (intro begin_capture_target) (simp_all add: wf_at_rest(2)[OF dwf])
  }
qed

lemma same_work_target: "target_inv d \<Longrightarrow> same_work d d' \<Longrightarrow> target_inv d'"
  by (auto simp: target_inv_def same_work_def)

lemma poll_end:
  assumes wf: "dm_wf d"
  shows "at_rest (snd (poll_recognition w d)) \<or> snd (poll_recognition w d) = d"
proof (cases "dm_job d")
  case (Some job)
  then show ?thesis using wf_at_rest(3)[OF wf Some]
    by (simp add: poll_recognition_def Let_def at_rest_finish split: recv_result.splits)
qed (simp add: poll_recognition_def)

lemma cancel_end:
  assumes wf: "dm_wf d"
  shows "at_rest (snd (daemon_cancel s d)) \<or> snd (daemon_cancel s d) = d"
  using wf apply_command_rejected[of _ d] apply_command_wf(1)[of d]
  by (auto simp: daemon_cancel_def case_prod_beta at_rest_drop_work dm_wf_def split: sum.splits)

lemma reset_end:
  assumes wf: "dm_wf d"
  shows "at_rest (snd (daemon_reset d)) \<or> snd (daemon_reset d) = d"
proof (cases "is_err (fst (apply_command CmdReset d))")
  case True
  then show ?thesis using apply_command_rejected[OF True]
    by (simp add: daemon_reset_def case_prod_beta split: sum.splits)
next
  case False
  then have "\<not> is_active (dm_state d)"
    by (auto simp: apply_command_fst app_apply_result sm_reset_def split: if_splits)
  then show ?thesis using wf_at_rest(2)[OF wf] False
    by (simp add: daemon_reset_def case_prod_beta split: sum.splits)
qed

lemma same_work_frames:
  assumes wf: "dm_wf d"
  shows "same_work d (snd (reload_configuration w d))" "same_work d (clear_history d)"
    "same_work d (poll_audio_telemetry w d)" "same_work d (snd (daemon_drain_events d))"
    "same_work d (snd (daemon_insert_test t w d))"
    "at_rest (daemon_quit d)"
  using wf reload_wf[OF wf, of w] quit_wf[OF wf] step_wf[OF wf, of "(OpClearHistory, w)"]
    step_wf[OF wf, of "(OpPollAudio, w)"] step_wf[OF wf, of "(OpDrainEvents, w)"]
    insert_test_wf[OF wf, of t w]
  by (auto simp: same_work_def reload_configuration_def clear_history_def daemon_drain_events_def
      drain_events_def daemon_quit_def daemon_insert_test_def log_fx_def at_rest_def dm_wf_def Let_def
      split: sum.splits)

lemma step_target:
  assumes "arms_for_session ow" and inv: "target_inv d"
  shows "target_inv (snd (daemon_step ow d))"
proof -
  have wf: "dm_wf d" using inv by (simp add: target_inv_def)
  obtain op w where ow: "ow = (op, w)" by (metis prod.exhaust)
  have fin: "target_inv d'" if "at_rest d' \<or> same_work d d' \<or> d' = d" for d'
    using that inv at_rest_target same_work_target by blast
  have start: "target_inv (snd (daemon_start p w d))" for p
    by (rule start_target[OF inv, of op]) (use assms(1) ow in simp)
  have stop: "target_inv (snd (daemon_stop s w d))" for s
    by (rule fin) (use stop_end[OF wf, of s w] in blast)
  have "target_inv (snd (poll_recognition w d))" by (rule fin) (use poll_end[OF wf, of w] in blast)
  moreover have "target_inv (snd (daemon_cancel s d))" for s
    by (rule fin) (use cancel_end[OF wf, of s] in blast)
  moreover have "target_inv (snd (daemon_reset d))" by (rule fin) (use reset_end[OF wf] in blast)
  moreover have "target_inv (snd (enforce_recording_deadline w d))"
    using snd_deadline[of w d] stop[of "[]"] inv by auto
  ultimately show ?thesis
    using start stop fin same_work_frames[OF wf]
    unfolding ow by (cases op) (simp_all add: case_prod_beta Let_def)
qed

interpretation target: guarded_machine daemon_step target_inv arms_for_session
  by unfold_locales (rule step_target)

lemma compose_target: "compose recognizers config wake = Inr d \<Longrightarrow> target_inv d"
  using compose_wf compose_ok[of recognizers config wake d] by (simp add: target_inv_def)

end
