(* ===== verification/Provider_Common_Props.thy ===== *)
theory Provider_Common_Props
  imports Provider_Common
begin

text \<open>
  What the shared cloud helpers promise: responses are bounded and successful, the evidence of
  a failure is conservative, a set cancellation flag ends the wait for the child process, the
  WAV container and the curl quoting can be read back.
\<close>

section \<open>Bounded reading\<close>

lemma read_bounded_loop_bytes:
  "length bs \<le> limit \<Longrightarrow> length (br_bytes (read_bounded_loop limit chunks bs ov)) \<le> limit"
  by (induction chunks arbitrary: bs ov) (auto simp: Let_def)

lemma read_bounded_loop_exact:
  "[] \<notin> set chunks \<Longrightarrow> length bs \<le> limit \<Longrightarrow>
   read_bounded_loop limit chunks bs ov =
     \<lparr> br_bytes = take limit (bs @ concat chunks),
       br_overflowed = (ov \<or> limit < length (bs @ concat chunks)) \<rparr>"
proof (induction chunks arbitrary: bs ov)
  case (Cons c chunks)
  have "c \<noteq> []" using Cons.prems by auto
  show ?case
  proof (cases "length c \<le> limit - length bs")
    case True
    then show ?thesis using Cons \<open>c \<noteq> []\<close> by (simp add: Let_def min_def add.assoc)
  next
    case False
    then have "length (bs @ take (limit - length bs) c) = limit" using Cons.prems by simp
    then have "read_bounded_loop limit chunks (bs @ take (limit - length bs) c) True =
        \<lparr> br_bytes = bs @ take (limit - length bs) c, br_overflowed = True \<rparr>"
      using Cons by simp
    moreover have "limit < length bs + (length c + length (concat chunks))" using False by linarith
    ultimately show ?thesis using False Cons.prems \<open>c \<noteq> []\<close> by (simp add: Let_def min_def)
  qed
qed simp

lemma read_bounded_bytes: "length (br_bytes (read_bounded limit chunks)) \<le> limit"
  by (simp add: read_bounded_def read_bounded_loop_bytes)

section \<open>The wait for the child\<close>

lemma wait_for_curl_returns:
  assumes "k \<le> m" and "tok m \<or> polls m \<noteq> Inr None"
  shows "\<exists>r. wait_for_curl polls killed tok k = Some r"
  using assms(1)
proof (induction "m - k" arbitrary: k)
  case 0
  then have "k = m" by simp
  then show ?case using assms(2)
    by (subst wait_for_curl.simps) (auto split: sum.split option.split)
next
  case (Suc d)
  then have "\<exists>r. wait_for_curl polls killed tok (k + 1) = Some r" by simp
  then show ?case
    by (subst wait_for_curl.simps) (auto split: sum.split option.split)
qed

section \<open>The evidence of a failure\<close>

text \<open>The reports of curl from which the code concludes that no audio was accepted.\<close>

definition reports_nothing_sent :: "string \<Rightarrow> int option \<Rightarrow> bool \<Rightarrow> bool" where
  "reports_nothing_sent diagnostics exit_code was_cancelled \<longleftrightarrow>
     parse_upload_bytes diagnostics = Some 0 \<or>
     (parse_upload_bytes diagnostics = None \<and> \<not> was_cancelled \<and>
      exit_code \<in> {Some 5, Some 6, Some 7, Some 35, Some 60})"

lemma classify_not_accepted:
  "classify_audio_acceptance (parse_upload_bytes d) x h c = NotAccepted \<longleftrightarrow>
     reports_nothing_sent d x c"
  by (auto simp: classify_audio_acceptance_def reports_nothing_sent_def split: option.splits)

lemma finish_curl_err:
  assumes "finish_curl_attempt x c body d e limit = Inl f"
  shows "cf_transport_started f \<and>
         cf_audio_acceptance f =
           classify_audio_acceptance (parse_upload_bytes d) x (parse_http_status d) c \<and>
         (c \<longrightarrow> cf_category f = EcCancelled)"
  using assms
  by (auto simp: finish_curl_attempt_def Let_def cancelled_failure_def split: if_splits option.splits)

lemma finish_curl_ok:
  assumes "finish_curl_attempt x c body d e limit = Inr r"
  shows "x = Some 0 \<and> \<not> c \<and> e = None \<and> \<not> br_overflowed body \<and> http_success (cr_http_status r) \<and>
         parse_http_status d = Some (cr_http_status r) \<and> cr_body r = br_bytes body"
  using assms by (auto simp: finish_curl_attempt_def Let_def split: if_splits option.splits)

text \<open>The ways in which a request ends.\<close>

lemma execute_curl_run:
  assumes "execute_curl_cancellable spawn max_bytes tok = Some r"
  obtains (cancelled) "tok 0" "r = Inl cancelled_failure"
    | (unstarted) e where "\<not> tok 0" "spawn (max max_bytes 1) = Inl e"
        "r = Inl (failure EcUnavailable True (''could not start curl: '' @ e) None None)"
    | (lost) child f where "\<not> tok 0" "spawn (max max_bytes 1) = Inr child"
        "r = Inl (with_transport_evidence PossiblyAccepted f)"
    | (finished) child x c chunks d where "\<not> tok 0" "spawn (max max_bytes 1) = Inr child"
        "wait_for_curl (ch_polls child) (ch_killed child) tok 1 = Some (Inr (x, c))"
        "ch_stdout child = Inr chunks" "ch_stderr child = Inr d"
        "r = finish_curl_attempt x c (read_bounded (max max_bytes 1) chunks) d
               (ch_stdin_error child) (max max_bytes 1)"
proof (cases "tok 0")
  case True
  then show ?thesis using assms cancelled by (simp add: execute_curl_cancellable_def)
next
  case False
  note running = False
  show ?thesis
  proof (cases "spawn (max max_bytes 1)")
    case (Inl e)
    then show ?thesis using assms running unstarted by (simp add: execute_curl_cancellable_def Let_def)
  next
    case (Inr child)
    then show ?thesis using assms running lost finished
      by (fastforce simp: execute_curl_cancellable_def Let_def
          split: option.splits sum.splits prod.splits)
  qed
qed

text \<open>
  Why a request may be taken not to have sent audio: curl was not started, or it was waited for, and
  its own report says so.
\<close>

definition curl_sent_nothing ::
  "(nat \<Rightarrow> string + curl_child) \<Rightarrow> nat \<Rightarrow> cancellation_token \<Rightarrow> bool" where
  "curl_sent_nothing spawn max_bytes tok \<longleftrightarrow>
     tok 0 \<or> (\<exists>e. spawn (max max_bytes 1) = Inl e) \<or>
     (\<exists>child diagnostics exit_code was_cancelled.
        spawn (max max_bytes 1) = Inr child \<and> ch_stderr child = Inr diagnostics \<and>
        wait_for_curl (ch_polls child) (ch_killed child) tok 1 =
          Some (Inr (exit_code, was_cancelled)) \<and>
        reports_nothing_sent diagnostics exit_code was_cancelled)"

lemma execute_curl_started:
  assumes "execute_curl_cancellable spawn max_bytes tok = Some (Inl f)"
  shows "may_have_left_process (cf_audio_acceptance f) \<Longrightarrow> cf_transport_started f"
    and "\<not> cf_transport_started f \<Longrightarrow> tok 0 \<or> (\<exists>e. spawn (max max_bytes 1) = Inl e)"
  using assms
  by (cases rule: execute_curl_run;
      use finish_curl_err[of _ _ _ _ _ _ f] in \<open>force simp: cancelled_failure_def\<close>)+

lemma execute_curl_not_accepted:
  assumes "execute_curl_cancellable spawn max_bytes tok = Some (Inl f)"
    and "cf_audio_acceptance f = NotAccepted"
  shows "curl_sent_nothing spawn max_bytes tok"
  using assms(1)
proof (cases rule: execute_curl_run)
  case (finished child x c chunks d)
  then have "reports_nothing_sent d x c"
    using finish_curl_err[of x c _ d _ _ f] assms(2) classify_not_accepted by metis
  then show ?thesis using finished unfolding curl_sent_nothing_def by blast
qed (use assms(2) in \<open>auto simp: curl_sent_nothing_def\<close>)

section \<open>Properties\<close>

text \<open>
  C22: a request that returns a response saw curl exit by itself with status zero and a 2xx HTTP
  status, with no error on its standard input and a body that fits the configured limit; a request
  that fails and reports that no audio was accepted either never started curl or has curl's own
  word for it: an upload count of zero, or an exit code of a phase before the upload with no count
  at all.
\<close>

theorem curl_result_evidence:
  assumes "execute_curl_cancellable spawn max_bytes tok = Some r"
  shows "case r of
      Inr resp \<Rightarrow> \<not> tok 0 \<and> http_success (cr_http_status resp) \<and>
                  length (cr_body resp) \<le> max max_bytes 1 \<and>
                  (\<exists>child. spawn (max max_bytes 1) = Inr child \<and> ch_stdin_error child = None \<and>
                     wait_for_curl (ch_polls child) (ch_killed child) tok 1 =
                       Some (Inr (Some 0, False)))
    | Inl f \<Rightarrow> cf_audio_acceptance f = NotAccepted \<longrightarrow>
        \<not> cf_transport_started f \<and> (tok 0 \<or> (\<exists>e. spawn (max max_bytes 1) = Inl e)) \<or>
        (\<exists>child diagnostics exit_code was_cancelled.
           spawn (max max_bytes 1) = Inr child \<and> ch_stderr child = Inr diagnostics \<and>
           wait_for_curl (ch_polls child) (ch_killed child) tok 1 =
             Some (Inr (exit_code, was_cancelled)) \<and>
           reports_nothing_sent diagnostics exit_code was_cancelled)"
  using assms
proof (cases rule: execute_curl_run)
  case (finished child x c chunks d)
  show ?thesis
  proof (cases r)
    case (Inl f)
    then show ?thesis
      using finish_curl_err[of x c _ d _ _ f] classify_not_accepted[of d x _ c] finished by auto
  next
    case (Inr resp)
    then show ?thesis
      using finish_curl_ok[OF finished(6)[symmetric, unfolded Inr]] finished
        read_bounded_bytes[of "max max_bytes 1" chunks] by auto
  qed
qed (auto simp: cancelled_failure_def)

definition demo_child :: curl_child where
  "demo_child =
     \<lparr> ch_polls = (\<lambda>k. if k < 3 then Inr None else Inr (Some (Some 6))),
       ch_killed = Inr None, ch_stdin_error = None, ch_stdout = Inr [],
       ch_stderr = Inr [] \<rparr>"

theorem curl_result_evidence_witness:
  "\<exists>f. execute_curl_cancellable (\<lambda>_. Inr demo_child) 1024 token_new = Some (Inl f) \<and>
     cf_audio_acceptance f = NotAccepted \<and>
     (\<exists>(child :: curl_child) diagnostics exit_code was_cancelled.
        ch_stderr child = Inr diagnostics \<and>
        reports_nothing_sent diagnostics exit_code was_cancelled)"
proof -
  let ?r = "execute_curl_cancellable (\<lambda>_. Inr demo_child) 1024 token_new"
  have "wait_for_curl (ch_polls demo_child) (ch_killed demo_child) token_new 1 =
      Some (Inr (Some 6, False))"
    by (simp add: demo_child_def token_new_def wait_for_curl.simps)
  then obtain f where f: "?r = Some (Inl f)" "cf_audio_acceptance f = NotAccepted"
    by (auto simp: execute_curl_cancellable_def token_new_def demo_child_def read_bounded_def
        finish_curl_attempt_def Let_def classify_audio_acceptance_def parse_upload_bytes_def
        lines_of_def)
  have "\<not> token_new 0" by (simp add: token_new_def)
  with curl_result_evidence[OF f(1)] f show ?thesis by fastforce
qed

text \<open>
  a request always returns once the shared flag is set or the child process has exited at
  some poll; it cannot hang after a cancellation.
\<close>

theorem cancelled_curl_returns:
  assumes "1 \<le> m" and "tok m \<or> (\<forall>limit child. spawn limit = Inr child \<longrightarrow> ch_polls child m \<noteq> Inr None)"
  shows "\<exists>r. execute_curl_cancellable spawn max_bytes tok = Some r"
proof (cases "tok 0 \<or> (\<exists>e. spawn (max max_bytes 1) = Inl e)")
  case True
  then show ?thesis by (auto simp: execute_curl_cancellable_def)
next
  case False
  then obtain child where child: "spawn (max max_bytes 1) = Inr child"
    by (cases "spawn (max max_bytes 1)") auto
  then obtain w where "wait_for_curl (ch_polls child) (ch_killed child) tok 1 = Some w"
    using wait_for_curl_returns[OF assms(1), of tok "ch_polls child" "ch_killed child"] assms(2)
    by blast
  then show ?thesis using False child
    by (cases w) (auto simp: execute_curl_cancellable_def Let_def split: prod.split)
qed

theorem cancelled_curl_returns_witness:
  "\<exists>r. execute_curl_cancellable
         (\<lambda>_. Inr (demo_child\<lparr> ch_polls := (\<lambda>_. Inr None) \<rparr>)) 1024 (token_cancel 5 token_new) = Some r"
  by (rule cancelled_curl_returns[of 5]) (simp_all add: token_cancel_def)

section \<open>Containers and quoting\<close>

text \<open>A reader of the WAV container, written from the format and not from the writer.\<close>

definition expect :: "bytes \<Rightarrow> bytes \<Rightarrow> bytes option" where
  "expect magic bs =
     (if take (length magic) bs = magic then Some (drop (length magic) bs) else None)"

lemma expect_append [simp]: "expect m (m @ rest) = Some rest"
  by (simp add: expect_def)

record wav_file =
  wav_riff_length :: "32 word"
  wav_channels :: "16 word"
  wav_rate :: "32 word"
  wav_byte_rate :: "32 word"
  wav_block_align :: "16 word"
  wav_bits :: "16 word"
  wav_data :: bytes

definition parse_wav :: "bytes \<Rightarrow> wav_file option" where
  "parse_wav bs =
     Option.bind (expect (ascii ''RIFF'') bs) (\<lambda>bs.
     Option.bind (read_le32 bs) (\<lambda>(riff, bs).
     Option.bind (expect (ascii ''WAVEfmt '') bs) (\<lambda>bs.
     Option.bind (read_le32 bs) (\<lambda>(fmt_size, bs).
     Option.bind (dec_many read_le16 2 bs) (\<lambda>(tags, bs).
     Option.bind (dec_many read_le32 2 bs) (\<lambda>(rates, bs).
     Option.bind (dec_many read_le16 2 bs) (\<lambda>(sizes, bs).
     Option.bind (expect (ascii ''data'') bs) (\<lambda>bs.
     Option.bind (read_le32 bs) (\<lambda>(n, bs).
       if fmt_size = 16 \<and> tags ! 0 = 1 \<and> unat n \<le> length bs
       then Some \<lparr> wav_riff_length = riff, wav_channels = tags ! 1, wav_rate = rates ! 0,
                   wav_byte_rate = rates ! 1, wav_block_align = sizes ! 0, wav_bits = sizes ! 1,
                   wav_data = take (unat n) bs \<rparr>
       else None)))))))))"

lemma ascii_not_Nil: "length (ascii s) = length s"
  by (simp add: ascii_def)

lemma le_lengths [simp]: "length (le32_bytes w) = 4" "length (le16_bytes v) = 2"
  by (simp_all add: le32_bytes_def le16_bytes_def)

lemma dec_two:
  "dec_many read_le16 2 (le16_bytes a @ le16_bytes b @ rest) = Some ([a, b], rest)"
  "dec_many read_le32 2 (le32_bytes c @ le32_bytes d @ rest) = Some ([c, d], rest)"
  using le16.dec_many_enc[of "[a, b]" rest] le32.dec_many_enc[of "[c, d]" rest]
  by (simp_all add: numeral_2_eq_2)

text \<open>
  the WAV file written for a recording can be read back by a reader of the format: it is
  mono, 16 kHz, 16 bits, with consistent rates and lengths, and its data is the recording; only
  recordings whose sizes do not fit 32 bits are refused.
\<close>

theorem wav_round_trip:
  "case pcm_to_wav pcm of
     Inl e \<Rightarrow> 2 ^ 32 \<le> length pcm + 36
   | Inr wav \<Rightarrow>
       length wav = 44 + length pcm \<and>
       parse_wav wav = Some \<lparr> wav_riff_length = word_of_nat (length wav - 8), wav_channels = 1,
                             wav_rate = 16000, wav_byte_rate = 16000 * 2, wav_block_align = 2,
                             wav_bits = 16, wav_data = pcm \<rparr>"
proof (cases "2 ^ 32 \<le> length pcm + 36")
  case True
  then show ?thesis by (auto simp: pcm_to_wav_def)
next
  case False
  then have n: "unat (word_of_nat (length pcm) :: 32 word) = length pcm"
    by (intro unat_word_of_nat) simp
  have riff: "(word_of_nat (length pcm) + 36 :: 32 word) = word_of_nat (length pcm + 36)"
    by simp
  show ?thesis
    using False n
    by (simp add: pcm_to_wav_def Let_def parse_wav_def le32.dec_enc dec_two ascii_not_Nil
        riff add.commute del: of_nat_add)
qed

text \<open>A reader of a quoted curl configuration value, as curl documents its escapes.\<close>

definition unescape_char :: "char \<Rightarrow> char" where
  "unescape_char c =
     (if c = CHR ''t'' then CHR 0x09 else if c = CHR ''n'' then CHR 0x0A
      else if c = CHR ''r'' then CHR 0x0D else if c = CHR ''v'' then CHR 0x0B
      else c)"

fun read_quoted :: "string \<Rightarrow> (string \<times> string) option" where
  "read_quoted [] = None"
| "read_quoted (c # cs) =
     (if c = quote then Some ([], cs)
      else if c = backslash
      then (case cs of
              [] \<Rightarrow> None
            | d # ds \<Rightarrow> map_option (\<lambda>(v, rest). (unescape_char d # v, rest)) (read_quoted ds))
      else map_option (\<lambda>(v, rest). (c # v, rest)) (read_quoted cs))"

lemma quote_neq_backslash [simp]: "quote \<noteq> backslash" "backslash \<noteq> quote"
  by (simp_all add: quote_def backslash_def)

lemma unescape_self [simp]: "unescape_char quote = quote" "unescape_char backslash = backslash"
  by (simp_all add: unescape_char_def quote_def backslash_def)

lemma read_quoted_escape:
  "read_quoted (escape_curl_config v @ quote # rest) = Some (v, rest)"
  unfolding escape_curl_config_def by (induction v) auto

text \<open>
  a secret accepted by the validation cannot break out of the quoted value of the private
  curl configuration: the escaped text stays on its line, and reading the quoted value gives the
  secret back and leaves exactly what follows the closing quote.
\<close>

theorem secret_cannot_escape_quotes:
  assumes "secret_try_new v = Inr secret"
  shows "read_quoted (escape_curl_config (expose secret) @ quote # rest) = Some (v, rest) \<and>
         \<not> list_ex is_ascii_control (escape_curl_config (expose secret))"
proof -
  have v: "expose secret = v" "\<not> list_ex is_ascii_control v"
    using assms by (auto simp: secret_try_new_def validate_secret_bytes_def split: if_splits)
  have "\<not> list_ex is_ascii_control (escape_curl_config v)"
    using v(2) unfolding escape_curl_config_def
    by (induction v) (auto simp: is_ascii_control_def quote_def backslash_def)
  then show ?thesis by (simp add: v read_quoted_escape)
qed

theorem secret_cannot_escape_quotes_witness:
  "read_quoted (escape_curl_config [CHR ''a'', quote, backslash] @ quote # ''x'') =
     Some ([CHR ''a'', quote, backslash], ''x'')"
proof -
  have "secret_try_new [CHR ''a'', quote, backslash] = Inr (SecretString [CHR ''a'', quote, backslash])"
    by (simp add: secret_try_new_def validate_secret_bytes_def is_ascii_control_def quote_def
        backslash_def)
  from secret_cannot_escape_quotes[OF this] show ?thesis by simp
qed

text \<open>
  the endpoint check accepts plain HTTP to any host when the URL carries user
  information that starts with the text localhost and a colon, because it compares the
  authority and not the host.
\<close>

theorem userinfo_passes_as_loopback:
  "validate_endpoint (''http://localhost:x@'' @ host @ ''/v1'') message = Inr ()"
proof -
  have "starts_with ''localhost:'' (split_first CHR ''/'' (''localhost:x@'' @ host @ ''/v1''))"
    by (simp add: starts_with_def split_first_def)
  moreover have "strip_prefix ''http://'' (''http://localhost:x@'' @ host @ ''/v1'') =
      Some (''localhost:x@'' @ host @ ''/v1'')"
    by (simp add: strip_prefix_def starts_with_def)
  ultimately show ?thesis
    unfolding validate_endpoint_def is_loopback_http_def Let_def
    by (simp only: option.case if_P simp_thms)
qed

end
