(* ===== verification/Adapters_Props.thy ===== *)
theory Adapters_Props
  imports Adapters Provider_Common_Props
begin

text \<open>
  The contract of a provider adapter as the route relies on it, that the adapters of the
  program meet it, and what a validated configuration guarantees for routing.
\<close>

section \<open>The contract of an adapter\<close>

text \<open>
  A cancelled flag is honoured before anything is started, a success carries a nonblank text, and
  audio is never reported to have left before a transport was started.
\<close>

locale recognizer =
  fixes run :: "cancellation_token \<Rightarrow> nat \<Rightarrow> recognition_result option"
  assumes run_cancelled: "tok now \<Longrightarrow> run tok now = Some (Inl (before_transport recognition_cancelled_error))"
    and run_nonblank: "run tok now = Some (Inr s) \<Longrightarrow> \<not> is_blank (pt_text (ps_transcript s))"
    and run_evidence: "run tok now = Some (Inl f) \<Longrightarrow>
           may_have_left_process (paf_audio_acceptance f) \<Longrightarrow> paf_transport_started f"
begin

lemma not_started_not_disclosed:
  "run tok now = Some (Inl f) \<Longrightarrow> \<not> paf_transport_started f \<Longrightarrow> paf_audio_acceptance f = NotAccepted"
  using run_evidence may_have_left_process_def by blast

lemma route_with_run:
  assumes "reg i = Some p" and "pa_recognize p input tok now = (r, later)"
    and "run tok now = Some r" and "\<not> tok now"
  shows "rr_outcome (route_loop reg replay input tok now (i # rest) attempts e) \<noteq>
           Inl empty_transcript_error \<or>
         (\<exists>f. r = Inl f)"
  using assms run_nonblank[of tok now] by (cases r) auto

end

lemma try_then_cancelled:
  "tok now \<Longrightarrow> try_then (ensure_not_cancelled tok now) k = Inl (before_transport recognition_cancelled_error)"
  by (simp add: ensure_not_cancelled_def)

interpretation mock: recognizer "\<lambda>tok now. Some (mock_recognize t0 tok now)" for t0
  by unfold_locales
     (auto simp: mock_recognize_def ensure_not_cancelled_def success_without_transport_def
        split: if_splits)

section \<open>The command adapter\<close>

lemma trim_idem: "trim t \<noteq> [] \<Longrightarrow> \<not> is_blank (trim t)"
proof
  assume "trim t \<noteq> []" and "is_blank (trim t)"
  then have "is_whitespace (hd (trim t))"
    by (cases "trim t") (auto simp: is_blank_iff)
  then show False
    using trim_by_ends(1)[of is_whitespace t] \<open>trim t \<noteq> []\<close> by (simp add: trim_def)
qed

lemma finish_command_ok:
  "finish_command_output st out = Inr txt \<Longrightarrow> es_success st \<and> \<not> br_overflowed out \<and> \<not> is_blank txt"
  using trim_idem by (auto simp: finish_command_output_def Let_def split: if_splits option.splits)

lemma finish_command_err:
  "finish_command_output st out = Inl f \<Longrightarrow>
   paf_transport_started f \<and> paf_audio_acceptance f = Accepted"
  by (auto simp: finish_command_output_def Let_def split: if_splits option.splits)

text \<open>How the wait for a command ends.\<close>

lemma wait_for_command_end:
  assumes "wait_for_command child deadline tok k = Some (fx, r)"
  shows "fx = [] \<and> (\<exists>j \<ge> k. cc_try_wait child j \<noteq> Inr None) \<or>
         fx = [KillGroup] \<and> (\<exists>f. r = Inl f) \<and>
           (\<exists>j \<ge> k. cc_try_wait child j = Inr None \<and> (deadline \<le> cc_clock child j \<or> tok j))"
    and "r = Inl f \<Longrightarrow> paf_transport_started f \<and> paf_audio_acceptance f = PossiblyAccepted"
proof -
  let ?P = "\<lambda>child deadline tok k (fx, r).
      (fx = [] \<and> (\<exists>j \<ge> k. cc_try_wait child j \<noteq> Inr None) \<or>
       fx = [KillGroup] \<and> (\<exists>f. r = Inl f) \<and>
         (\<exists>j \<ge> k. cc_try_wait child j = Inr None \<and> (deadline \<le> cc_clock child j \<or> tok j))) \<and>
      (\<forall>f. r = Inl f \<longrightarrow> paf_transport_started f \<and> paf_audio_acceptance f = PossiblyAccepted)"
  have "?P child deadline tok k (fx, r)"
  proof (rule wait_for_command.raw_induct[where P = ?P, OF _ assms])
    fix w child deadline tok k fxr
    assume step: "\<And>child deadline tok k y. w child deadline tok k = Some y \<Longrightarrow> ?P child deadline tok k y"
      and run: "(case cc_try_wait child k of
          Inl e \<Rightarrow> Some ([], Inl (after_transport
                   (vox_error_new EcUnavailable ''provider.command_wait'' e) PossiblyAccepted))
        | Inr (Some status) \<Rightarrow> Some ([], Inr status)
        | Inr None \<Rightarrow>
            (if deadline \<le> cc_clock child k
             then Some ([KillGroup], Inl (after_transport
                    (with_retryable True (vox_error_new EcTimeout ''provider.command_timeout''
                       ''command provider timed out'')) PossiblyAccepted))
             else if tok k
             then Some ([KillGroup],
                    Inl (after_transport recognition_cancelled_error PossiblyAccepted))
             else w child deadline tok (k + 1))) = Some fxr"
    consider (over) "cc_try_wait child k \<noteq> Inr None \<or> deadline \<le> cc_clock child k \<or> tok k"
      | (later) "w child deadline tok (k + 1) = Some fxr"
      using run by (auto split: sum.splits option.splits if_splits)
    then show "?P child deadline tok k fxr"
    proof cases
      case over
      then show ?thesis using run by (auto split: sum.splits option.splits if_splits)
    next
      case later
      then have "?P child deadline tok (k + 1) fxr" by (rule step)
      then show ?thesis by (cases fxr) (auto dest: Suc_leD)
    qed
  qed
  then show "fx = [] \<and> (\<exists>j \<ge> k. cc_try_wait child j \<noteq> Inr None) \<or>
         fx = [KillGroup] \<and> (\<exists>f. r = Inl f) \<and>
           (\<exists>j \<ge> k. cc_try_wait child j = Inr None \<and> (deadline \<le> cc_clock child j \<or> tok j))"
    and "r = Inl f \<Longrightarrow> paf_transport_started f \<and> paf_audio_acceptance f = PossiblyAccepted" by auto
qed

lemma wait_for_command_returns:
  assumes "k \<le> m" and "deadline \<le> cc_clock child m"
  shows "\<exists>fx r. wait_for_command child deadline tok k = Some (fx, r)"
  using assms(1)
proof (induction "m - k" arbitrary: k)
  case 0
  then have "k = m" by simp
  then show ?case using assms(2)
    by (subst wait_for_command.simps) (auto split: sum.split option.split)
next
  case (Suc d)
  then have "\<exists>fx r. wait_for_command child deadline tok (k + 1) = Some (fx, r)" by simp
  then show ?case
    by (subst wait_for_command.simps) (auto split: sum.split option.split)
qed

lemma wait_for_command_kills:
  assumes "k \<le> m" and "deadline \<le> cc_clock child m"
    and "\<And>j. k \<le> j \<Longrightarrow> j \<le> m \<Longrightarrow> cc_try_wait child j = Inr None"
  shows "\<exists>f. wait_for_command child deadline tok k = Some ([KillGroup], Inl f)"
  using assms(1,3)
proof (induction "m - k" arbitrary: k)
  case 0
  then have "k = m" by simp
  then show ?case using assms(2) 0(3)[of m] by (subst wait_for_command.simps) simp
next
  case (Suc d)
  then have "\<exists>f. wait_for_command child deadline tok (k + 1) = Some ([KillGroup], Inl f)" by simp
  then show ?case using Suc(4)[of k] Suc(3)
    by (subst wait_for_command.simps) simp
qed

lemma command_output_cases:
  "command_output status reader = Inr txt \<Longrightarrow> es_success status \<and> \<not> is_blank txt"
  "command_output status reader = Inl f \<Longrightarrow>
     paf_transport_started f \<and> paf_audio_acceptance f = Accepted"
  using finish_command_ok finish_command_err
  by (auto simp: command_output_def split: reader_end.splits)

text \<open>The outcomes of a run of a command.\<close>

lemma command_run:
  assumes "command_recognize spawn program args timeout pcm language tok now = Some (fx, r)"
  obtains (cancelled) "tok now" "fx = []" "r = Inl (before_transport recognition_cancelled_error)"
    | (unstarted) e where "\<not> tok now" "spawn program args (command_environment pcm language) = Inl e"
        "fx = [StartCommand program args (command_environment pcm language)]"
        "r = Inl (before_transport (with_retryable True
               (vox_error_new EcUnavailable ''provider.command_failed'' e)))"
    | (no_output) child f where "\<not> tok now"
        "spawn program args (command_environment pcm language) = Inr child" "\<not> cc_stdout child"
        "fx = [StartCommand program args (command_environment pcm language)]" "r = Inl f"
        "paf_transport_started f" "may_have_left_process (paf_audio_acceptance f)"
    | (waited) child fx' w reader where "\<not> tok now"
        "spawn program args (command_environment pcm language) = Inr child" "cc_stdout child"
        "wait_for_command child (cc_clock child (now + 1) + secs timeout) tok (now + 2) = Some (fx', w)"
        "cc_reader child (KillGroup \<in> set fx') = Some reader"
        "fx = StartCommand program args (command_environment pcm language) # fx'"
        "case r of
           Inr s \<Rightarrow> fx' = [] \<and> \<not> is_blank (pt_text (ps_transcript s))
         | Inl f \<Rightarrow> paf_transport_started f \<and> may_have_left_process (paf_audio_acceptance f)"
proof (cases "tok now")
  case True
  then show ?thesis using assms cancelled
    by (auto simp: command_recognize_def transcribe_command_with_evidence_def ensure_not_cancelled_def)
next
  case False
  note going = False
  show ?thesis
  proof (cases "spawn program args (command_environment pcm language)")
    case (Inl e)
    then show ?thesis using assms going unstarted
      by (auto simp: command_recognize_def transcribe_command_with_evidence_def
          ensure_not_cancelled_def Let_def)
  next
    case (Inr child)
    show ?thesis
    proof (cases "cc_stdout child")
      case False
      then show ?thesis using assms going Inr no_output
        by (auto simp: command_recognize_def transcribe_command_with_evidence_def
            ensure_not_cancelled_def Let_def)
    next
      case True
      let ?wait = "wait_for_command child (cc_clock child (now + 1) + secs timeout) tok (now + 2)"
      obtain fx' w where w: "?wait = Some (fx', w)"
        using assms going Inr True
        by (auto simp: command_recognize_def transcribe_command_with_evidence_def
            ensure_not_cancelled_def Let_def split: option.splits)
      then obtain reader where reader: "cc_reader child (KillGroup \<in> set fx') = Some reader"
        and fx: "fx = StartCommand program args (command_environment pcm language) # fx'"
        and r: "r = (case case w of Inl f \<Rightarrow> Inl f | Inr status \<Rightarrow> command_output status reader of
                       Inl f \<Rightarrow> Inl f
                     | Inr txt \<Rightarrow> Inr (success_after_audio txt provider_usage_default))"
        using assms going Inr True
        by (auto simp: command_recognize_def transcribe_command_with_evidence_def
            ensure_not_cancelled_def Let_def)
      have "case r of
           Inr s \<Rightarrow> fx' = [] \<and> \<not> is_blank (pt_text (ps_transcript s))
         | Inl f \<Rightarrow> paf_transport_started f \<and> may_have_left_process (paf_audio_acceptance f)"
        using wait_for_command_end[OF w] command_output_cases[of _ reader]
        by (auto simp: r success_after_audio_def split: sum.splits)
      then show ?thesis using waited going Inr True w reader fx by blast
    qed
  qed
qed

text \<open>The adapter blocks on a pipe that stays open, and on nothing else.\<close>

lemma command_blocks:
  assumes "now + 2 \<le> m"
    and "\<And>child. spawn program args (command_environment pcm language) = Inr child \<Longrightarrow>
           cc_clock child (now + 1) + secs timeout \<le> cc_clock child m"
    and "command_recognize spawn program args timeout pcm language tok now = None"
  shows "\<not> tok now \<and>
         (\<exists>child killed. spawn program args (command_environment pcm language) = Inr child \<and>
            cc_stdout child \<and> cc_reader child killed = None)"
proof (cases "spawn program args (command_environment pcm language)")
  case (Inl e)
  then show ?thesis using assms(3)
    by (cases "tok now") (simp_all add: command_recognize_def transcribe_command_with_evidence_def
        ensure_not_cancelled_def Let_def)
next
  case (Inr child)
  obtain fx w where
    "wait_for_command child (cc_clock child (now + 1) + secs timeout) tok (now + 2) = Some (fx, w)"
    using wait_for_command_returns[OF assms(1) assms(2)[OF Inr], of tok] by blast
  then show ?thesis using assms(3) Inr
    by (cases "tok now"; cases "cc_stdout child")
      (auto simp: command_recognize_def transcribe_command_with_evidence_def
        ensure_not_cancelled_def Let_def)
qed

interpretation command: recognizer
  "\<lambda>tok now. map_option snd (command_recognize spawn program args timeout pcm language tok now)"
  for spawn program args timeout pcm language
proof
  fix tok now s f
  show "map_option snd (command_recognize spawn program args timeout pcm language tok now) =
      Some (Inl (before_transport recognition_cancelled_error))" if "tok now"
    using that
    by (simp add: command_recognize_def transcribe_command_with_evidence_def ensure_not_cancelled_def)
  show "\<not> is_blank (pt_text (ps_transcript s))"
    if ok: "map_option snd (command_recognize spawn program args timeout pcm language tok now) = Some (Inr s)"
  proof -
    obtain fx where "command_recognize spawn program args timeout pcm language tok now = Some (fx, Inr s)"
      using ok by auto
    then show ?thesis by (cases rule: command_run) auto
  qed
  show "paf_transport_started f"
    if err: "map_option snd (command_recognize spawn program args timeout pcm language tok now) = Some (Inl f)"
      and left: "may_have_left_process (paf_audio_acceptance f)"
  proof -
    obtain fx where "command_recognize spawn program args timeout pcm language tok now = Some (fx, Inl f)"
      using err by auto
    then show ?thesis using left by (cases rule: command_run) auto
  qed
qed

section \<open>The OpenAI-compatible adapter\<close>

lemma nonblank_text_ok: "nonblank_text v = Some t \<Longrightarrow> \<not> is_blank t"
  using trim_idem by (auto simp: nonblank_text_def split: option.splits if_splits)

lemma rest_response_cases:
  "rest_response tp body = Inr (t, u) \<Longrightarrow> \<not> is_blank t"
  "rest_response tp body = Inl f \<Longrightarrow>
     paf_transport_started f \<and> paf_audio_acceptance f = Accepted \<and> \<not> err_retryable (paf_error f)"
  using nonblank_text_ok
  by (auto simp: rest_response_def split: sum.splits option.splits)

lemma into_attempt_failure_simps [simp]:
  "paf_audio_acceptance (into_attempt_failure code f) = cf_audio_acceptance f"
  "paf_transport_started (into_attempt_failure code f) = cf_transport_started f"
  by (simp_all add: into_attempt_failure_def)

definition rest_spawn where
  "rest_spawn tp config wav_path language =
     tp_curl tp (rest_args config wav_path language) (rest_timeout_seconds config)
       (authorization_config ''Bearer'' (rest_api_key config))"

lemma rest_request_err:
  assumes "rest_request tp config wav language tok = Some (Inl f)"
  shows "may_have_left_process (paf_audio_acceptance f) \<Longrightarrow> paf_transport_started f"
    and "paf_audio_acceptance f = NotAccepted \<Longrightarrow>
           curl_sent_nothing (rest_spawn tp config wav language) default_max_response_bytes tok"
  using assms execute_curl_not_accepted execute_curl_started rest_response_cases(2)
  by (fastforce simp: rest_request_def rest_spawn_def split: option.splits sum.splits)+

lemma rest_transcribe_err:
  assumes "rest_transcribe_pcm tp config pcm wav language tok = Some (Inl f)"
  shows "(\<not> paf_transport_started f \<and> paf_audio_acceptance f = NotAccepted \<and>
            \<not> err_retryable (paf_error f)) \<or>
         rest_request tp config wav language tok = Some (Inl f)"
  using assms
  by (auto simp: rest_transcribe_pcm_def validate_endpoint_def split: sum.splits if_splits)

lemma rest_transcribe_ok:
  assumes "rest_transcribe_pcm tp config pcm wav language tok = Some (Inr (t, u))"
  shows "\<not> is_blank t"
  using assms rest_response_cases(1)
  by (auto simp: rest_transcribe_pcm_def rest_request_def split: sum.splits option.splits)

lemma lookup_secret_err: "lookup_secret name tool = Inl e \<Longrightarrow> \<not> err_retryable e"
  by (cases tool)
     (auto simp: lookup_secret_def secret_try_new_def validate_secret_bytes_def Let_def
        split: if_splits)

lemma rest_recognize_cases:
  assumes "rest_recognize tp tool secret mk pcm wav language tok now = Some (Inl f)"
  shows "(\<not> paf_transport_started f \<and> paf_audio_acceptance f = NotAccepted \<and>
            \<not> err_retryable (paf_error f)) \<or>
         (\<exists>key. lookup_secret secret tool = Inr key \<and>
            rest_request tp (mk key) wav language (token_later (now + 1) tok) = Some (Inl f))"
proof (cases "tok now")
  case True
  then show ?thesis
    using assms by (auto simp: rest_recognize_def ensure_not_cancelled_def recognition_cancelled_error_def)
next
  case False
  show ?thesis
  proof (cases "lookup_secret secret tool")
    case (Inl e)
    then show ?thesis
      using assms False lookup_secret_err[OF Inl]
      by (auto simp: rest_recognize_def ensure_not_cancelled_def)
  next
    case (Inr key)
    have "rest_transcribe_pcm tp (mk key) pcm wav language (token_later (now + 1) tok) =
        Some (Inl f)"
    proof (cases "rest_transcribe_pcm tp (mk key) pcm wav language (token_later (now + 1) tok)")
      case None
      then show ?thesis using assms False Inr
        by (simp add: rest_recognize_def ensure_not_cancelled_def)
    next
      case (Some z)
      then show ?thesis using assms False Inr
        by (cases z) (auto simp: rest_recognize_def ensure_not_cancelled_def)
    qed
    from rest_transcribe_err[OF this] Inr show ?thesis by blast
  qed
qed

lemma rest_recognize_ok:
  assumes "rest_recognize tp tool secret mk pcm wav language tok now = Some (Inr s)"
  shows "\<exists>key t u. rest_transcribe_pcm tp (mk key) pcm wav language (token_later (now + 1) tok) =
           Some (Inr (t, u)) \<and> s = success_after_audio t u"
proof -
  obtain key where key: "lookup_secret secret tool = Inr key" and nc: "\<not> tok now"
    using assms by (auto simp: rest_recognize_def ensure_not_cancelled_def split: sum.splits if_splits)
  obtain z where z: "rest_transcribe_pcm tp (mk key) pcm wav language (token_later (now + 1) tok) =
      Some z"
    using assms key nc by (auto simp: rest_recognize_def ensure_not_cancelled_def)
  then show ?thesis
    using assms key nc
    by (cases z) (auto simp: rest_recognize_def ensure_not_cancelled_def intro!: exI[of _ key])
qed

interpretation rest: recognizer "rest_recognize tp tool secret mk pcm wav language"
  for tp tool secret mk pcm wav language
proof
  fix tok now s f
  show "tok now \<Longrightarrow> rest_recognize tp tool secret mk pcm wav language tok now =
      Some (Inl (before_transport recognition_cancelled_error))"
    by (simp add: rest_recognize_def ensure_not_cancelled_def)
  show "\<not> is_blank (pt_text (ps_transcript s))"
    if "rest_recognize tp tool secret mk pcm wav language tok now = Some (Inr s)"
    using rest_recognize_ok[OF that] rest_transcribe_ok by (force simp: success_after_audio_def)
  show "paf_transport_started f"
    if "rest_recognize tp tool secret mk pcm wav language tok now = Some (Inl f)"
      "may_have_left_process (paf_audio_acceptance f)"
    using rest_recognize_cases[OF that(1)] that(2) rest_request_err(1) by fastforce
qed

section \<open>The Deepgram adapter\<close>

definition deepgram_spawn where
  "deepgram_spawn tp config wav_path language =
     tp_curl tp
       [''--request'', ''POST'', ''--header'', ''Content-Type: application/octet-stream'',
        ''--data-binary'', ''@'' @ wav_path, ''--url'', request_url config language]
       (dg_timeout_seconds config) (authorization_config ''Token'' (dg_api_key config))"

lemma deepgram_request_err:
  assumes "deepgram_request tp config wav language tok = Some (Inl f)"
  shows "may_have_left_process (paf_audio_acceptance f) \<Longrightarrow> paf_transport_started f"
    and "paf_audio_acceptance f = NotAccepted \<Longrightarrow>
           curl_sent_nothing (deepgram_spawn tp config wav language) default_max_response_bytes tok"
  using assms execute_curl_not_accepted execute_curl_started
  by (fastforce simp: deepgram_request_def deepgram_spawn_def split: option.splits sum.splits)+

lemma deepgram_transcribe_err:
  assumes "deepgram_transcribe_pcm tp config pcm wav language tok = Some (Inl f)"
  shows "(\<not> paf_transport_started f \<and> paf_audio_acceptance f = NotAccepted \<and>
            \<not> err_retryable (paf_error f)) \<or>
         deepgram_request tp config wav language tok = Some (Inl f)"
  using assms
  by (auto simp: deepgram_transcribe_pcm_def validate_endpoint_def split: sum.splits if_splits)

lemma deepgram_transcribe_ok:
  assumes "deepgram_transcribe_pcm tp config pcm wav language tok = Some (Inr t)"
  shows "\<not> is_blank t"
  using assms nonblank_text_ok
  by (auto simp: deepgram_transcribe_pcm_def deepgram_request_def parse_transcription_def
      split: sum.splits option.splits)

lemma deepgram_recognize_run:
  assumes "deepgram_recognize tp tool secret mk pcm wav language tok now = Some r"
  obtains (cancelled) "tok now" "r = Inl (before_transport recognition_cancelled_error)"
    | (no_secret) e where "lookup_secret secret tool = Inl e" "r = Inl (before_transport e)"
    | (failed) key f where "lookup_secret secret tool = Inr key" "r = Inl f"
        "deepgram_transcribe_pcm tp (mk key) pcm wav language (token_later (now + 1) tok) =
           Some (Inl f)"
    | (succeeded) key t where "lookup_secret secret tool = Inr key"
        "r = Inr (success_after_audio t provider_usage_default)"
        "deepgram_transcribe_pcm tp (mk key) pcm wav language (token_later (now + 1) tok) =
           Some (Inr t)"
proof (cases "tok now")
  case True
  then show ?thesis using assms cancelled by (simp add: deepgram_recognize_def ensure_not_cancelled_def)
next
  case running: False
  show ?thesis
  proof (cases "lookup_secret secret tool")
    case (Inl e)
    then show ?thesis using assms running no_secret
      by (simp add: deepgram_recognize_def ensure_not_cancelled_def)
  next
    case (Inr key)
    then obtain z where "deepgram_transcribe_pcm tp (mk key) pcm wav language
        (token_later (now + 1) tok) = Some z"
      using assms running by (auto simp: deepgram_recognize_def ensure_not_cancelled_def)
    then show ?thesis using assms running Inr failed succeeded
      by (cases z) (auto simp: deepgram_recognize_def ensure_not_cancelled_def)
  qed
qed

interpretation deepgram: recognizer "deepgram_recognize tp tool secret mk pcm wav language"
  for tp tool secret mk pcm wav language
proof
  fix tok now s f
  show "tok now \<Longrightarrow> deepgram_recognize tp tool secret mk pcm wav language tok now =
      Some (Inl (before_transport recognition_cancelled_error))"
    by (simp add: deepgram_recognize_def ensure_not_cancelled_def)
  show "\<not> is_blank (pt_text (ps_transcript s))"
    if "deepgram_recognize tp tool secret mk pcm wav language tok now = Some (Inr s)"
    using that by (cases rule: deepgram_recognize_run)
      (auto simp: success_after_audio_def dest: deepgram_transcribe_ok)
  show "paf_transport_started f"
    if "deepgram_recognize tp tool secret mk pcm wav language tok now = Some (Inl f)"
      "may_have_left_process (paf_audio_acceptance f)"
    using that by (cases rule: deepgram_recognize_run)
      (auto dest!: deepgram_transcribe_err deepgram_request_err(1))
qed

text \<open>
  What a failed cloud provider that lets the route go on knows of its request: the secret was found,
  and curl sent nothing.
\<close>

lemma cloud_not_accepted:
  assumes "err_retryable (paf_error f)" and "paf_audio_acceptance f = NotAccepted"
  shows "rest_recognize tp tool secret mk pcm wav language tok now = Some (Inl f) \<Longrightarrow>
           \<exists>key. lookup_secret secret tool = Inr key \<and>
             curl_sent_nothing (rest_spawn tp (mk key) wav language) default_max_response_bytes
               (token_later (now + 1) tok)"
    and "deepgram_recognize tp tool secret mk' pcm wav language tok now = Some (Inl f) \<Longrightarrow>
           \<exists>key. lookup_secret secret tool = Inr key \<and>
             curl_sent_nothing (deepgram_spawn tp (mk' key) wav language) default_max_response_bytes
               (token_later (now + 1) tok)"
proof -
  show "\<exists>key. lookup_secret secret tool = Inr key \<and>
      curl_sent_nothing (rest_spawn tp (mk key) wav language) default_max_response_bytes
        (token_later (now + 1) tok)"
    if "rest_recognize tp tool secret mk pcm wav language tok now = Some (Inl f)"
    using rest_recognize_cases[OF that] assms rest_request_err(2) by blast
  show "\<exists>key. lookup_secret secret tool = Inr key \<and>
      curl_sent_nothing (deepgram_spawn tp (mk' key) wav language) default_max_response_bytes
        (token_later (now + 1) tok)"
    if "deepgram_recognize tp tool secret mk' pcm wav language tok now = Some (Inl f)"
    using that
  proof (cases rule: deepgram_recognize_run)
    case (failed key f')
    then show ?thesis using deepgram_transcribe_err[OF failed(3)] deepgram_request_err(2) assms by auto
  qed (use assms lookup_secret_err in \<open>auto simp: recognition_cancelled_error_def\<close>)
qed

section \<open>The registry of a validated configuration\<close>

lemma register_providers_Cons:
  "register_providers world ((name, p) # rest) reg = Inr reg' \<longleftrightarrow>
     (\<exists>i. provider_id_new name = Inr i \<and> reg i = None \<and>
          register_providers world rest (reg(i \<mapsto> build_adapter world i p)) = Inr reg')"
  by (cases "provider_id_new name") (auto simp: registry_register_def Let_def build_adapter_def)

lemma register_providers_keep:
  "register_providers world ps reg = Inr reg' \<Longrightarrow> reg i = Some a \<Longrightarrow> reg' i = Some a"
proof (induction ps arbitrary: reg)
  case (Cons np ps)
  obtain name p where np: "np = (name, p)" by (cases np)
  then obtain j where j: "reg j = None"
      "register_providers world ps (reg(j \<mapsto> build_adapter world j p)) = Inr reg'"
    using Cons.prems(1) by (auto simp only: register_providers_Cons)
  moreover have "(reg(j \<mapsto> build_adapter world j p)) i = Some a"
    using Cons.prems(2) j(1) by auto
  ultimately show ?case using Cons.IH by blast
qed simp

lemma register_providers_ok:
  assumes "distinct (map fst ps)" and "\<forall>p \<in> fst ` set ps. \<exists>i. provider_id_new p = Inr i"
    and "\<forall>p \<in> fst ` set ps. reg (ProviderId p) = None"
  shows "\<exists>reg'. register_providers world ps reg = Inr reg' \<and>
           (\<forall>i. registry_contains reg' i \<longleftrightarrow>
                registry_contains reg i \<or> provider_id_str i \<in> fst ` set ps) \<and>
           (\<forall>name p. map_of ps name = Some p \<longrightarrow>
                reg' (ProviderId name) = Some (build_adapter world (ProviderId name) p))"
  using assms
proof (induction ps arbitrary: reg)
  case Nil
  show ?case by simp
next
  case (Cons np ps)
  obtain name p where np: "np = (name, p)" by (cases np)
  let ?i = "ProviderId name" and ?a = "build_adapter world (ProviderId name) p"
  have new: "provider_id_new name = Inr ?i"
    using Cons.prems(2) np by (auto simp: provider_id_new_ok)
  have fresh: "reg ?i = None" using Cons.prems(3) np by simp
  have pre: "distinct (map fst ps)" "\<forall>q \<in> fst ` set ps. \<exists>i. provider_id_new q = Inr i"
    "\<forall>q \<in> fst ` set ps. (reg(?i \<mapsto> ?a)) (ProviderId q) = None"
    using Cons.prems np by auto
  obtain reg' where reg': "register_providers world ps (reg(?i \<mapsto> ?a)) = Inr reg'"
      "\<forall>i. registry_contains reg' i \<longleftrightarrow>
            registry_contains (reg(?i \<mapsto> ?a)) i \<or> provider_id_str i \<in> fst ` set ps"
      "\<forall>n q. map_of ps n = Some q \<longrightarrow> reg' (ProviderId n) = Some (build_adapter world (ProviderId n) q)"
    using Cons.IH[OF pre] by blast
  have step: "register_providers world (np # ps) reg = Inr reg'"
    using reg'(1) np new fresh by (simp add: registry_register_def build_adapter_def Let_def)
  have keep: "reg' ?i = Some ?a"
    using register_providers_keep[OF reg'(1), of ?i] by simp
  have "registry_contains reg' i \<longleftrightarrow>
      registry_contains reg i \<or> provider_id_str i \<in> fst ` set (np # ps)" for i
    using reg'(2) np by (cases i) (auto simp: registry_contains_def)
  moreover have "reg' (ProviderId n) = Some (build_adapter world (ProviderId n) q)"
    if "map_of (np # ps) n = Some q" for n q
    using that reg'(3) keep np by (auto split: if_splits)
  ultimately show ?case using step by blast
qed

section \<open>Properties\<close>

text \<open>
  C23: nothing is started when the flag is set at dispatch. Otherwise the command is started once
  with the given program, arguments and environment, and when the clock reaches its deadline the
  adapter returns, unless the output of the command is a pipe that never closes: that is the only
  way in which it blocks. A command that is still running when the deadline has passed has its
  process group killed, and a success comes only from a command that was left alone, with a nonblank
  text. Every failure after the process was started reports that audio may have left, so that no
  other provider is tried without consent; a command that could not be started reports that none did.
\<close>

theorem command_adapter_evidence:
  fixes program args pcm language
  defines "env \<equiv> command_environment pcm language"
  assumes "now + 2 \<le> m"
    and "\<And>child. spawn program args env = Inr child \<Longrightarrow>
           cc_clock child (now + 1) + secs timeout \<le> cc_clock child m"
  shows "case command_recognize spawn program args timeout pcm language tok now of
      None \<Rightarrow> \<not> tok now \<and>
        (\<exists>child killed. spawn program args env = Inr child \<and> cc_stdout child \<and>
           cc_reader child killed = None)
    | Some (fx, r) \<Rightarrow>
        if tok now then fx = [] \<and> r = Inl (before_transport recognition_cancelled_error)
        else hd fx = StartCommand program args env \<and> fx \<noteq> [] \<and> set (tl fx) \<subseteq> {KillGroup} \<and>
          (\<forall>child. spawn program args env = Inr child \<longrightarrow> cc_stdout child \<longrightarrow>
             (\<forall>j \<in> {now + 2..m}. cc_try_wait child j = Inr None) \<longrightarrow> KillGroup \<in> set fx) \<and>
          (case r of
             Inr s \<Rightarrow> (\<exists>child. spawn program args env = Inr child) \<and> KillGroup \<notin> set fx \<and>
                      \<not> is_blank (pt_text (ps_transcript s))
           | Inl f \<Rightarrow>
               (may_have_left_process (paf_audio_acceptance f) \<longleftrightarrow>
                  (\<exists>child. spawn program args env = Inr child)) \<and>
               ((\<exists>child. spawn program args env = Inr child) \<longrightarrow> replay \<noteq> BufferedWithConsent \<longrightarrow>
                  stops_route replay f))"
proof -
  have stops: "stops_route replay f"
    if "may_have_left_process (paf_audio_acceptance f)" "replay \<noteq> BufferedWithConsent" for f
    using that by (auto simp: stops_route_def fallback_allowed_def may_fallback_iff split: option.splits)
  show ?thesis
  proof (cases "command_recognize spawn program args timeout pcm language tok now")
    case None
    then show ?thesis using command_blocks[of now m spawn program args pcm language timeout tok] assms
      by simp
  next
    case (Some z)
    obtain fx r where z: "z = (fx, r)" by (cases z)
    from Some[unfolded z] show ?thesis
    proof (cases rule: command_run)
      case (waited child fx' w reader)
      have "set fx' \<subseteq> {KillGroup}" using wait_for_command_end(1)[OF waited(4)] by auto
      moreover have "KillGroup \<in> set fx'" if "\<forall>j \<in> {now + 2..m}. cc_try_wait child j = Inr None"
        using wait_for_command_kills[OF assms(2) assms(3), of child tok] that waited(2,4)
        by (auto simp: env_def)
      ultimately show ?thesis using waited Some z stops
        by (cases r) (auto simp: env_def)
    qed (use Some z stops in \<open>auto simp: env_def may_have_left_process_def\<close>)
  qed
qed

definition demo_command_child :: command_child where
  "demo_command_child =
     \<lparr> cc_stdout = True, cc_try_wait = (\<lambda>_. Inr None), cc_clock = secs,
       cc_reader = (\<lambda>killed. if killed then Some (ReaderRead []) else None) \<rparr>"

theorem command_adapter_evidence_witness:
  "\<exists>fx f. command_recognize (\<lambda>_ _ _. Inr demo_command_child) ''asr'' [] 4 ''/tmp/a.pcm'' ''en''
           token_new 0 = Some (fx, Inl f) \<and>
         KillGroup \<in> set fx \<and> may_have_left_process (paf_audio_acceptance f) \<and> stops_route Never f"
proof -
  let ?run = "command_recognize (\<lambda>_ _ _. Inr demo_command_child) ''asr'' [] 4 ''/tmp/a.pcm'' ''en''
           token_new 0"
  obtain g where "wait_for_command demo_command_child 5000000000 token_new 2 = Some ([KillGroup], Inl g)"
    using wait_for_command_kills[of 2 9 5000000000 demo_command_child token_new]
    by (auto simp: demo_command_child_def secs_def)
  then obtain fx f where run: "?run = Some (fx, Inl f)"
    by (auto simp: command_recognize_def transcribe_command_with_evidence_def ensure_not_cancelled_def
        token_new_def demo_command_child_def secs_def numeral_2_eq_2)
  have "KillGroup \<in> set fx \<and> may_have_left_process (paf_audio_acceptance f) \<and> stops_route Never f"
    using command_adapter_evidence[of 0 9 "\<lambda>_ _ _. Inr demo_command_child" "''asr''" "[]"
        "''/tmp/a.pcm''" "''en''" 4 token_new Never] unfolding run
    by (auto simp: demo_command_child_def token_new_def secs_def)
  with run show ?thesis by auto
qed

text \<open>
  A command that ends in time while a process it left behind keeps the pipe open blocks the adapter
  for good: neither its deadline nor the flag is looked at while the reader is joined, and the
  process group is not killed.
\<close>

theorem open_pipe_blocks_command:
  assumes "\<not> tok now" and "spawn program args (command_environment pcm language) = Inr child"
    and "cc_stdout child" and "cc_try_wait child (now + 2) = Inr (Some status)"
    and "cc_reader child False = None"
  shows "command_recognize spawn program args timeout pcm language tok now = None"
  using assms wait_for_command.simps[of child _ tok "now + 2"]
  by (simp add: command_recognize_def transcribe_command_with_evidence_def ensure_not_cancelled_def)

theorem open_pipe_blocks_command_witness:
  "command_recognize (\<lambda>_ _ _. Inr (demo_command_child\<lparr> cc_try_wait :=
       (\<lambda>_. Inr (Some \<lparr> es_success = True, es_text = [] \<rparr>)) \<rparr>)) ''asr'' [] 4 ''/tmp/a.pcm'' ''en''
     token_new 0 = None"
  by (rule open_pipe_blocks_command[where status = "\<lparr> es_success = True, es_text = [] \<rparr>"
        and child = "demo_command_child\<lparr> cc_try_wait :=
          (\<lambda>_. Inr (Some \<lparr> es_success = True, es_text = [] \<rparr>)) \<rparr>"])
    (simp_all add: token_new_def demo_command_child_def)

text \<open>
  C20: when an OpenAI-compatible or a Deepgram provider fails and the route may go on to another
  provider without consent, then the secret had been found, and curl could not be started, was not
  started because the flag was set, or was waited for and itself reported that nothing was
  uploaded: a count of zero, or, without any count and without having been killed for the flag, an
  exit status of a phase before the upload.
\<close>

theorem cloud_fallback_needs_proof:
  assumes "(rest_recognize tp tool secret mk pcm wav language tok now = Some (Inl f) \<and>
              spawn = (\<lambda>key. rest_spawn tp (mk key) wav language)) \<or>
           (deepgram_recognize tp tool secret mk' pcm wav language tok now = Some (Inl f) \<and>
              spawn = (\<lambda>key. deepgram_spawn tp (mk' key) wav language))"
    and "\<not> stops_route replay f" and "replay \<noteq> BufferedWithConsent"
  shows "\<exists>key. lookup_secret secret tool = Inr key \<and>
           (token_later (now + 1) tok 0 \<or>
            (\<exists>e. spawn key default_max_response_bytes = Inl e) \<or>
            (\<exists>child diagnostics exit_code was_cancelled.
               spawn key default_max_response_bytes = Inr child \<and>
               ch_stderr child = Inr diagnostics \<and>
               wait_for_curl (ch_polls child) (ch_killed child) (token_later (now + 1) tok) 1 =
                 Some (Inr (exit_code, was_cancelled)) \<and>
               reports_nothing_sent diagnostics exit_code was_cancelled))"
proof -
  have "err_retryable (paf_error f)" "paf_audio_acceptance f = NotAccepted"
    using assms(2,3)
    by (auto simp: stops_route_def fallback_allowed_def may_fallback_iff may_have_left_process_def
        split: option.splits)
  from cloud_not_accepted[OF this] assms(1)
  have "\<exists>key. lookup_secret secret tool = Inr key \<and>
      curl_sent_nothing (spawn key) default_max_response_bytes (token_later (now + 1) tok)"
    by blast
  moreover have "max default_max_response_bytes 1 = default_max_response_bytes"
    by (simp add: default_max_response_bytes_def)
  ultimately show ?thesis by (simp add: curl_sent_nothing_def)
qed

definition demo_transport :: transport where
  "demo_transport =
     \<lparr> tp_curl = (\<lambda>_ _ _ _. Inl ''no curl''), tp_json = (\<lambda>_. Inl ''eof'') \<rparr>"

text \<open>A Deepgram request whose curl cannot resolve the host.\<close>

definition demo_deepgram :: "secret_string \<Rightarrow> deepgram_config" where
  "demo_deepgram key =
     \<lparr> dg_endpoint = ''https://asr.example'', dg_model = ''m'', dg_api_key = key,
       dg_timeout_seconds = 30, dg_smart_format = True \<rparr>"

theorem cloud_fallback_needs_proof_witness:
  "\<exists>f. deepgram_recognize (demo_transport\<lparr> tp_curl := (\<lambda>_ _ _ _. Inr demo_child) \<rparr>)
         (ToolOutput ''k'') ''s'' demo_deepgram (Inr [1, 2]) ''w'' ''en'' token_new 0 = Some (Inl f) \<and>
       (\<exists>exit_code was_cancelled. reports_nothing_sent [] exit_code was_cancelled \<and>
          wait_for_curl (ch_polls demo_child) (ch_killed demo_child) (token_later 1 token_new) 1 =
            Some (Inr (exit_code, was_cancelled)))"
proof -
  let ?tp = "demo_transport\<lparr> tp_curl := (\<lambda>_ _ _ _. Inr demo_child) \<rparr>"
  let ?run = "deepgram_recognize ?tp (ToolOutput ''k'') ''s'' demo_deepgram (Inr [1, 2]) ''w'' ''en''
         token_new 0"
  have tok: "token_later n token_new = token_new" for n
    by (simp add: token_later_def token_new_def)
  have nc: "\<not> token_new n" for n by (simp add: token_new_def)
  have wait: "wait_for_curl (ch_polls demo_child) (ch_killed demo_child) token_new 1 =
      Some (Inr (Some 6, False))"
    by (simp add: demo_child_def token_new_def wait_for_curl.simps)
  have spawned: "deepgram_spawn ?tp c w l = (\<lambda>_. Inr demo_child)" for c w l
    by (simp add: deepgram_spawn_def fun_eq_iff)
  have silent: "ch_stderr demo_child = Inr d \<longleftrightarrow> d = []" for d
    by (auto simp: demo_child_def)
  have sent: "execute_curl_cancellable (\<lambda>_. Inr demo_child) n token_new =
      Some (finish_curl_attempt (Some 6) False (read_bounded (max n 1) []) [] None (max n 1))" for n
    using wait by (simp add: execute_curl_cancellable_def token_new_def demo_child_def Let_def)
  obtain f where f: "?run = Some (Inl f)" "\<not> stops_route Never f"
    by (simp add: deepgram_recognize_def ensure_not_cancelled_def nc tok lookup_secret_def
        secret_try_new_def validate_secret_bytes_def is_ascii_control_def
        strip_line_ends_def deepgram_transcribe_pcm_def demo_deepgram_def validate_endpoint_def
        starts_with_def pcm_to_wav_def deepgram_request_def demo_transport_def sent read_bounded_def
        finish_curl_attempt_def Let_def classify_audio_acceptance_def parse_upload_bytes_def
        lines_of_def into_attempt_failure_def into_vox_error_def classify_curl_failure_def
        parse_http_status_def failure_def stops_route_def fallback_allowed_def may_fallback_def)
  from cloud_fallback_needs_proof[OF disjI2[OF conjI[OF f(1) refl]] f(2)] f(1)
  show ?thesis by (auto simp: tok nc spawned silent)
qed

end
