(* ===== verification/Controller_Accounting.thy ===== *)
theory Controller_Accounting
  imports Controller_Lifecycle
begin

text \<open>
  The runtime accounting of the controller: the health of a provider as a function of the
  history of its attempts, the routes that the health allows, and the usage counters.
\<close>

section \<open>Health as a function of the history\<close>

datatype health_obs = ObsSuccess instant | ObsFailure instant vox_error

fun observe :: "health_obs \<Rightarrow> provider_health_state \<Rightarrow> provider_health_state" where
  "observe (ObsSuccess now) h = record_success_at now h"
| "observe (ObsFailure now e) h = record_failure_at now e h"

text \<open>The times of the retryable failures since the last success, the latest first.\<close>

fun streak_from :: "instant list \<Rightarrow> health_obs list \<Rightarrow> instant list" where
  "streak_from ts [] = ts"
| "streak_from ts (ObsSuccess _ # obs) = streak_from [] obs"
| "streak_from ts (ObsFailure now e # obs) =
     streak_from (if err_retryable e then now # ts else ts) obs"

abbreviation streak :: "health_obs list \<Rightarrow> instant list" where
  "streak obs \<equiv> streak_from [] obs"

definition matches_streak :: "instant list \<Rightarrow> provider_health_state \<Rightarrow> bool" where
  "matches_streak ts h \<longleftrightarrow>
     unat (hs_consecutive_failures h) = length ts \<and>
     hs_blocked_until h = (if 3 \<le> length ts then Some (hd ts + secs 60) else None)"

lemma matches_streak_observe:
  assumes "matches_streak ts h" and "length ts + 1 < 2 ^ 32"
  shows "matches_streak (streak_from ts [ob]) (observe ob h)"
proof (cases ob)
  case (ObsSuccess now)
  then show ?thesis by (simp add: matches_streak_def record_success_at_def)
next
  case (ObsFailure now e)
  have "unat (sat_add (hs_consecutive_failures h) 1) = length ts + 1"
    using assms by (simp add: matches_streak_def unat_sat_add)
  moreover have "3 \<le> sat_add (hs_consecutive_failures h) 1 \<longleftrightarrow> 2 \<le> length ts"
    using calculation by (simp add: word_le_nat_alt)
  ultimately show ?thesis
    using assms ObsFailure
    by (auto simp: matches_streak_def record_failure_at_def Let_def)
qed

lemma streak_from_append: "streak_from ts (xs @ ys) = streak_from (streak_from ts xs) ys"
  by (induction ts xs rule: streak_from.induct) simp_all

lemma streak_from_length: "length (streak_from ts obs) \<le> length ts + length obs"
proof (induction ts obs rule: streak_from.induct)
  case (3 ts now e obs)
  then show ?case by (cases "err_retryable e") auto
qed auto

lemma matches_streak_fold:
  "length obs < 2 ^ 32 \<Longrightarrow>
   matches_streak (streak obs) (fold observe obs provider_health_state_default)"
proof (induction obs rule: rev_induct)
  case Nil
  show ?case by (simp add: matches_streak_def provider_health_state_default_def)
next
  case (snoc ob obs)
  have "length (streak obs) + 1 < 2 ^ 32"
    using snoc.prems streak_from_length[of "[]" obs] by simp
  then show ?case
    using matches_streak_observe snoc by (simp add: streak_from_append)
qed

text \<open>What one route tells about a provider.\<close>

fun attempt_obs :: "instant \<Rightarrow> provider_id \<Rightarrow> route_attempt \<Rightarrow> health_obs list" where
  "attempt_obs now i a =
     (case at_error a of
        None \<Rightarrow> []
      | Some e \<Rightarrow> if at_provider_id a = i \<and> err_category e \<noteq> EcCancelled
                  then [ObsFailure now e] else [])"

definition route_obs ::
  "provider_id \<Rightarrow> recognition_route_result \<times> 64 word \<times> instant \<Rightarrow> health_obs list" where
  "route_obs i entry =
     (case entry of (r, ms, now) \<Rightarrow>
        concat (map (attempt_obs now i) (rr_attempts r)) @
        (case rr_outcome r of
           Inl _ \<Rightarrow> []
         | Inr s \<Rightarrow> if rs_provider_id s = i then [ObsSuccess now] else []))"

lemma health_entry_record_attempt:
  "health_entry (record_attempt ms now at a) i = fold observe (attempt_obs now i at) (health_entry a i)"
  by (auto simp: record_attempt_def Let_def health_entry_def split: option.splits)

lemma health_entry_fold:
  "health_entry (fold (record_attempt ms now) ats a) i =
     fold observe (concat (map (attempt_obs now i) ats)) (health_entry a i)"
  by (induction ats arbitrary: a) (simp_all add: health_entry_record_attempt del: attempt_obs.simps)

lemma health_entry_record:
  "health_entry (record_route_result r ms now a) i =
     fold observe (route_obs i (r, ms, now)) (health_entry a i)"
proof -
  have "health_entry (record_route_success now s b) i =
      fold observe (if rs_provider_id s = i then [ObsSuccess now] else []) (health_entry b i)" for s b
    by (auto simp: record_route_success_def health_entry_def Let_def)
  then show ?thesis
    by (simp add: record_route_result_def route_obs_def health_entry_fold Let_def split: sum.split)
qed

definition record_all ::
  "(recognition_route_result \<times> 64 word \<times> instant) list \<Rightarrow> app_controller \<Rightarrow> app_controller" where
  "record_all entries a = fold (\<lambda>(r, ms, now). record_route_result r ms now) entries a"

lemma health_entry_record_all:
  "health_entry (record_all entries a) i =
     fold observe (concat (map (route_obs i) entries)) (health_entry a i)"
  unfolding record_all_def
  by (induction entries arbitrary: a) (auto simp: health_entry_record)

lemma record_all_registry [simp]: "ac_registry (record_all entries a) = ac_registry a"
  unfolding record_all_def by (induction entries arbitrary: a) auto

lemma route_available_entry:
  "route_available a now i \<longleftrightarrow>
     registry_contains (ac_registry a) i \<and> is_available_at (health_entry a i) now"
  by (simp add: route_available_def health_entry_def provider_health_state_default_def
      is_available_at_def split: option.split)

section \<open>Planned routes\<close>

lemma map_of_map_pair:
  "map_of (map (\<lambda>i. (i, f i)) is) i = (if i \<in> set is then Some (f i) else None)"
  by (induction "is") auto

lemma healthy_plan:
  assumes "i \<in> set ids"
  shows "healthy (map_of (map (\<lambda>i. (i, \<lparr> ph_available = av i, ph_consecutive_failures = n i \<rparr>))
            (rev ids))) i = av i"
  using assms by (simp add: healthy_def map_of_map_pair)

lemma plan_route_eq:
  "plan_route policy now a =
     (let ids = filter (route_available a now) (rp_primary policy # rp_fallbacks policy)
      in if ids = []
         then Inl (with_retryable True (vox_error_new EcUnavailable ''routing.no_provider''
                     ''no configured provider is currently available''))
         else Inr \<lparr> rt_providers = ids, rt_replay = rp_replay policy \<rparr>)"
proof -
  let ?ids = "rp_primary policy # rp_fallbacks policy"
  let ?health = "map_of (map (\<lambda>i. (i, \<lparr> ph_available = route_available a now i,
      ph_consecutive_failures = (case ac_provider_health a i of
         None \<Rightarrow> 0 | Some h \<Rightarrow> hs_consecutive_failures h) \<rparr>)) (rev ?ids))"
  have "filter (healthy ?health) ?ids = filter (route_available a now) ?ids"
    by (rule filter_cong[OF refl]) (rule healthy_plan)
  then show ?thesis
    by (simp only: plan_route_def ordered_router_plan_def Let_def)
qed

section \<open>Usage counters\<close>

definition attempts_of :: "provider_id \<Rightarrow> route_attempt list \<Rightarrow> route_attempt list" where
  "attempts_of i ats = filter (\<lambda>a. at_provider_id a = i) ats"

definition count_by :: "('a \<Rightarrow> bool) \<Rightarrow> 'a list \<Rightarrow> nat" where
  "count_by p xs = length (filter p xs)"

definition is_failure :: "route_attempt \<Rightarrow> bool" where
  "is_failure a =
     (case at_error a of None \<Rightarrow> False | Some e \<Rightarrow> err_category e \<noteq> EcCancelled)"

definition is_cancellation :: "route_attempt \<Rightarrow> bool" where
  "is_cancellation a =
     (case at_error a of None \<Rightarrow> False | Some e \<Rightarrow> err_category e = EcCancelled)"

lemma count_by_simps [simp]:
  "count_by p [] = 0"
  "count_by p (x # xs) = (if p x then 1 else 0) + count_by p xs"
  by (simp_all add: count_by_def)

abbreviation cap64 :: "nat \<Rightarrow> nat" where
  "cap64 n \<equiv> min n (2 ^ 64 - 1)"

lemma cap64_add: "cap64 (cap64 m + n) = cap64 (m + n)"
  by simp

lemma record_attempt_usage:
  fixes i now ms at a
  defines "u \<equiv> provider_usage_snapshot a i"
    and "u' \<equiv> provider_usage_snapshot (record_attempt ms now at a) i"
    and "mine \<equiv> at_provider_id at = i"
  shows "us_attempts u' = (if mine then sat_add (us_attempts u) 1 else us_attempts u)"
    and "us_requests u' =
           (if mine \<and> at_transport_started at then sat_add (us_requests u) 1 else us_requests u)"
    and "us_failures u' =
           (if mine \<and> is_failure at then sat_add (us_failures u) 1 else us_failures u)"
    and "us_audio_millis u' =
           (if mine \<and> may_have_left_process (at_audio_acceptance at)
            then sat_add (us_audio_millis u) ms else us_audio_millis u)"
    and "us_successes u' = us_successes u"
  by (auto simp: u_def u'_def mine_def record_attempt_def provider_usage_snapshot_def Let_def
      is_failure_def split: option.splits)

lemma unat64_le: "unat (x :: 64 word) \<le> 2 ^ 64 - 1"
  using unsigned_less[of x, where ?'a = nat] by simp

text \<open>A saturating counter that is stepped by the elements with a property.\<close>

lemma fold_counter:
  fixes g :: "'s \<Rightarrow> 64 word"
  assumes step: "\<And>x s. g (f x s) = (if p x then sat_add (g s) inc else g s)"
  shows "unat (g (fold f xs s)) = cap64 (unat (g s) + count_by p xs * unat inc)"
proof (induction xs arbitrary: s)
  case Nil
  show ?case using unat64_le[of "g s"] by (simp only: fold_simps count_by_simps mult_0 add_0_right min_absorb1)
next
  case (Cons x xs)
  show ?case
  proof (cases "p x")
    case True
    have "unat (g (fold f (x # xs) s)) = cap64 (cap64 (unat (g s) + unat inc) + count_by p xs * unat inc)"
      using Cons[of "f x s"] step[of x s] True by (simp add: unat_sat_add)
    also have "\<dots> = cap64 (unat (g s) + (1 + count_by p xs) * unat inc)"
      by (simp only: cap64_add add_mult_distrib mult_1 add.assoc)
    finally show ?thesis using True by simp
  next
    case False
    then show ?thesis using Cons[of "f x s"] step[of x s] by simp
  qed
qed

lemma count_by_attempts_of:
  "count_by (\<lambda>a. at_provider_id a = i \<and> p a) ats = count_by p (attempts_of i ats)"
  "count_by (\<lambda>a. at_provider_id a = i) ats = length (attempts_of i ats)"
  by (induction ats) (auto simp: attempts_of_def)

lemma fold_record_attempt_usage:
  fixes i now ms ats a
  defines "u \<equiv> provider_usage_snapshot a i"
    and "u' \<equiv> provider_usage_snapshot (fold (record_attempt ms now) ats a) i"
    and "mine \<equiv> attempts_of i ats"
  shows "unat (us_attempts u') = cap64 (unat (us_attempts u) + length mine)"
    and "unat (us_requests u') =
           cap64 (unat (us_requests u) + count_by at_transport_started mine)"
    and "unat (us_failures u') = cap64 (unat (us_failures u) + count_by is_failure mine)"
    and "unat (us_audio_millis u') =
           cap64 (unat (us_audio_millis u) +
                  count_by (\<lambda>a. may_have_left_process (at_audio_acceptance a)) mine * unat ms)"
    and "us_successes u' = us_successes u"
proof -
  have one: "unat (1 :: 64 word) = 1" by simp
  show "unat (us_attempts u') = cap64 (unat (us_attempts u) + length mine)"
    using fold_counter[where g = "\<lambda>a. us_attempts (provider_usage_snapshot a i)"
        and f = "record_attempt ms now" and inc = 1, OF record_attempt_usage(1)]
    by (simp only: u_def u'_def mine_def count_by_attempts_of one mult_1_right)
  show "unat (us_requests u') =
           cap64 (unat (us_requests u) + count_by at_transport_started mine)"
    using fold_counter[where g = "\<lambda>a. us_requests (provider_usage_snapshot a i)"
        and f = "record_attempt ms now" and inc = 1, OF record_attempt_usage(2)]
    by (simp only: u_def u'_def mine_def count_by_attempts_of one mult_1_right)
  show "unat (us_failures u') = cap64 (unat (us_failures u) + count_by is_failure mine)"
    using fold_counter[where g = "\<lambda>a. us_failures (provider_usage_snapshot a i)"
        and f = "record_attempt ms now" and inc = 1, OF record_attempt_usage(3)]
    by (simp only: u_def u'_def mine_def count_by_attempts_of one mult_1_right)
  show "unat (us_audio_millis u') =
           cap64 (unat (us_audio_millis u) +
                  count_by (\<lambda>a. may_have_left_process (at_audio_acceptance a)) mine * unat ms)"
    using fold_counter[where g = "\<lambda>a. us_audio_millis (provider_usage_snapshot a i)"
        and f = "record_attempt ms now" and inc = ms, OF record_attempt_usage(4)]
    by (simp only: u_def u'_def mine_def count_by_attempts_of)
  show "us_successes u' = us_successes u"
    unfolding u_def u'_def
    by (induction ats arbitrary: a) (auto simp: record_attempt_usage)
qed

definition route_successes :: "provider_id \<Rightarrow> recognition_route_result \<Rightarrow> nat" where
  "route_successes i r =
     (case rr_outcome r of Inl _ \<Rightarrow> 0 | Inr s \<Rightarrow> if rs_provider_id s = i then 1 else 0)"

lemma usage_record_success_simps [simp]:
  "us_attempts (usage_record_success p u) = us_attempts u"
  "us_requests (usage_record_success p u) = us_requests u"
  "us_failures (usage_record_success p u) = us_failures u"
  "us_audio_millis (usage_record_success p u) = us_audio_millis u"
  "us_successes (usage_record_success p u) = sat_add (us_successes u) 1"
  by (simp_all add: usage_record_success_def Let_def)

lemma record_route_success_usage:
  "provider_usage_snapshot (record_route_success now s a) i =
     (if rs_provider_id s = i
      then usage_record_success (pt_usage (rs_transcript s)) (provider_usage_snapshot a i)
      else provider_usage_snapshot a i)"
  by (simp add: record_route_success_def provider_usage_snapshot_def Let_def)

lemma filter_balance:
  "length xs = count_by (\<lambda>a. at_error a = None) xs + count_by is_failure xs +
     count_by is_cancellation xs"
  by (induction xs) (auto simp: is_failure_def is_cancellation_def split: option.splits)

lemma route_attempt_balance:
  fixes reg route input tok now
  defines "r \<equiv> run_recognition_route reg route input tok now"
  shows "count_by (\<lambda>a. at_error a = None) (attempts_of i (rr_attempts r)) = route_successes i r"
proof -
  have none: "count_by (\<lambda>a. at_error a = None) (attempts_of i xs) = 0"
    if "list_all (\<lambda>a. at_error a \<noteq> None) xs" for xs
    using that by (induction xs) (auto simp: attempts_of_def)
  note order = run_route_shape[of reg route input tok now, folded r_def]
  show ?thesis
  proof (cases "rr_outcome r")
    case (Inl e)
    then show ?thesis using order none by (auto simp: route_successes_def)
  next
    case (Inr s)
    let ?ats = "rr_attempts r"
    have ne: "?ats \<noteq> []" and l: "at_error (last ?ats) = None"
        "at_provider_id (last ?ats) = rs_provider_id s"
        "list_all (passed_on (rt_replay route)) (butlast ?ats)"
      using order Inr by auto
    then have "list_all (\<lambda>a. at_error a \<noteq> None) (butlast ?ats)"
      by (auto simp: list_all_iff dest: passed_on_error)
    from none[OF this] have "count_by (\<lambda>a. at_error a = None) (attempts_of i (butlast ?ats @ [last ?ats])) =
        (if rs_provider_id s = i then 1 else 0)"
      using l by (simp add: attempts_of_def count_by_def)
    then show ?thesis using ne Inr by (simp add: route_successes_def)
  qed
qed

section \<open>Properties\<close>

text \<open>
  a planned route lists exactly the configured providers that have a registered adapter
  and are not cooling down, in the configured order and with the configured replay policy; it
  is refused, as a retryable error, only when there are none.
\<close>

theorem plan_route_filters:
  "plan_route policy now a =
     (let ids = filter (route_available a now) (rp_primary policy # rp_fallbacks policy)
      in if ids = []
         then Inl (with_retryable True (vox_error_new EcUnavailable ''routing.no_provider''
                     ''no configured provider is currently available''))
         else Inr \<lparr> rt_providers = ids, rt_replay = rp_replay policy \<rparr>)"
  by (rule plan_route_eq)

text \<open>
  a provider is available for routing exactly when it is registered and, of the failures
  the controller was told of since the provider's last success, fewer than three were
  retryable or sixty seconds have passed since the latest of them. Cancellations and
  failures that are not retryable never block a provider.
\<close>

theorem provider_blocked_after_three_failures:
  fixes reg w entries i
  defines "a \<equiv> record_all entries (app_with_wake reg w)"
    and "fails \<equiv> streak (concat (map (route_obs i) entries))"
  assumes "length (concat (map (route_obs i) entries)) < 2 ^ 32"
  shows "route_available a now i \<longleftrightarrow>
           registry_contains reg i \<and> (length fails < 3 \<or> hd fails + secs 60 \<le> now)"
proof -
  have reg: "ac_registry a = reg" by (simp add: a_def app_with_wake_def)
  have "health_entry a i =
      fold observe (concat (map (route_obs i) entries)) provider_health_state_default"
    by (simp add: a_def health_entry_record_all health_entry_def[of "app_with_wake reg w"])
       (simp add: app_with_wake_def)
  then have "matches_streak fails (health_entry a i)"
    using matches_streak_fold[OF assms(3)] by (simp add: fails_def)
  then show ?thesis
    by (auto simp: route_available_entry reg matches_streak_def is_available_at_def)
qed

abbreviation demo_failed_route :: recognition_route_result where
  "demo_failed_route \<equiv>
     run_recognition_route demo_registry (demo_plan Never) demo_input token_new 0"

lemma demo_failed_route_obs:
  "route_obs (ProviderId ''b'') (demo_failed_route, ms, now) =
     [ObsFailure now (with_retryable True (vox_error_new EcTimeout ''a.timeout'' []))]"
  by (simp add: run_recognition_route_def demo_plan_def demo_registry_def token_new_def
      stops_route_def fallback_allowed_def may_fallback_def route_obs_def)

theorem provider_blocked_after_three_failures_witness:
  "\<not> route_available
      (record_all (map (\<lambda>t. (demo_failed_route, 1000, secs t)) [1, 2, 3])
         (app_with_wake demo_registry wake_disabled)) (secs 62) (ProviderId ''b'') \<and>
   route_available
      (record_all (map (\<lambda>t. (demo_failed_route, 1000, secs t)) [1, 2, 3])
         (app_with_wake demo_registry wake_disabled)) (secs 63) (ProviderId ''b'')"
proof -
  have reg: "registry_contains demo_registry (ProviderId ''b'')"
    by (simp add: registry_contains_def demo_registry_def)
  have obs: "concat (map (route_obs (ProviderId ''b''))
      (map (\<lambda>t. (demo_failed_route, 1000, secs t)) [1, 2, 3])) =
      map (\<lambda>t. ObsFailure (secs t) (with_retryable True (vox_error_new EcTimeout ''a.timeout'' [])))
        [1, 2, 3]"
    by (simp add: demo_failed_route_obs)
  show ?thesis
    using provider_blocked_after_three_failures[where i = "ProviderId ''b''" and reg = demo_registry
        and w = wake_disabled and entries = "map (\<lambda>t. (demo_failed_route, 1000, secs t)) [1, 2, 3]",
        unfolded obs]
    by (simp add: reg secs_def)
qed

text \<open>
  recording the result of a route adds to the counters of a provider exactly the attempts,
  transports, failures and success the route had with it (up to saturation at 64 bits), the
  audio only of attempts in which audio may have left the process, and nothing is counted
  twice: every attempt is one success, one failure or one cancellation.
\<close>

theorem route_usage_accounting:
  fixes reg route input tok now0 ms now a i
  defines "r \<equiv> run_recognition_route reg route input tok now0"
    and "u \<equiv> provider_usage_snapshot a i"
    and "u' \<equiv> provider_usage_snapshot
                (record_route_result (run_recognition_route reg route input tok now0) ms now a) i"
    and "mine \<equiv> attempts_of i (rr_attempts (run_recognition_route reg route input tok now0))"
  shows "unat (us_attempts u') = cap64 (unat (us_attempts u) + length mine) \<and>
         unat (us_requests u') = cap64 (unat (us_requests u) + count_by at_transport_started mine) \<and>
         unat (us_failures u') = cap64 (unat (us_failures u) + count_by is_failure mine) \<and>
         unat (us_successes u') = cap64 (unat (us_successes u) + route_successes i r) \<and>
         unat (us_audio_millis u') = cap64 (unat (us_audio_millis u) +
           count_by (\<lambda>a. may_have_left_process (at_audio_acceptance a)) mine * unat ms) \<and>
         length mine = route_successes i r + count_by is_failure mine + count_by is_cancellation mine"
proof -
  let ?b = "fold (record_attempt ms now) (rr_attempts r) a"
  have snap: "u' = (if route_successes i r = 1
      then usage_record_success (case rr_outcome r of Inr s \<Rightarrow> pt_usage (rs_transcript s)
                                 | Inl _ \<Rightarrow> provider_usage_default)
             (provider_usage_snapshot ?b i)
      else provider_usage_snapshot ?b i)"
    by (auto simp: u'_def r_def[symmetric] record_route_result_def Let_def route_successes_def
        record_route_success_usage split: sum.split)
  have succ: "route_successes i r \<in> {0, 1}"
    by (simp add: route_successes_def split: sum.split)
  note frame = fold_record_attempt_usage[of ms now "rr_attempts r" a i, folded u_def,
      folded r_def mine_def[folded r_def]]
  have "unat (us_successes u') = cap64 (unat (us_successes u) + route_successes i r)"
    using snap succ frame(5) unat64_le[of "us_successes u"] by (auto simp: unat_sat_add)
  moreover have "length mine = route_successes i r + count_by is_failure mine +
      count_by is_cancellation mine"
    using filter_balance[of mine] route_attempt_balance[of i reg route input tok now0]
    by (simp only: mine_def r_def)
  ultimately show ?thesis
    using snap frame(1-4) by (simp split: if_splits)
qed

end
