(* ===== verification/Daemon_Props.thy ===== *)
theory Daemon_Props
  imports Daemon_Invariant Adapters_Props Controller_Accounting
begin

text \<open>
  The properties of the daemon: at most one commit per session and none after a cancellation,
  the resources held in each state, the end of every delivered recognition, the recording
  deadline, the paths on which a recording or a target outlives an error, and the routing that
  follows from a validated configuration.
\<close>

section \<open>A small installation\<close>

definition demo_config :: config where
  "demo_config =
     \<lparr> schema_version = 1, default_profile = ''main'', cfg_desktop = desktop_config_default,
       cfg_audio = audio_config_default\<lparr> vad_enabled := False \<rparr>,
       cfg_profiles = [(''main'', \<lparr> pf_primary = ''mock'', pf_fallbacks = [], pf_language = ''en'',
                                   pf_replay = Never \<rparr>)],
       cfg_providers = [(''mock'', Mock [104, 105])], cfg_quotas = [] \<rparr>"

definition demo_world :: world where
  "demo_world =
     \<lparr> w_now = 0,
       w_arm = (\<lambda>_ s. Inr \<lparr> ia_session = s, ia_backend = ''fcitx'' \<rparr>),
       w_commit = (\<lambda>_ _. Inr \<lparr> io_backend = ''fcitx'', io_clipboard_restored = False \<rparr>),
       w_insert_diagnostic = (\<lambda>_. Inr \<lparr> io_backend = ''fcitx'', io_clipboard_restored = False \<rparr>),
       w_capture_start = (\<lambda>_. Inr ()),
       w_capture_stop = Inr \<lparr> ca_path = ''rec.pcm'', ca_bytes = 32000, ca_duration_millis = 1000,
                              ca_backend = ''pipewire'' \<rparr>,
       w_metrics = [], w_read_file = (\<lambda>_. Inl ''missing''), w_trim_io = Inr (), w_spawn = Inr (),
       w_recv = RecvReady \<lparr> rr_attempts = [], rr_outcome =
         Inr \<lparr> rs_provider_id = ProviderId ''mock'',
               rs_transcript = \<lparr> pt_text = [104, 105], pt_usage = provider_usage_default \<rparr> \<rparr> \<rparr>,
       w_load_config = Inr demo_config, w_recognizers = (\<lambda>_ _ _ now. (Inl (before_transport cancelled_error), now)),
       w_fdo_display = (\<lambda>_. ''failed'') \<rparr>"

definition demo_daemon :: daemon where
  "demo_daemon = projr (compose (w_recognizers demo_world) demo_config wake_channel)"

lemma demo_provider_id: "provider_id_new ''mock'' = Inr (ProviderId ''mock'')"
  by (simp add: provider_id_new_ok provider_id_char_def is_ascii_lowercase_def is_ascii_digit_def)

lemma demo_config_valid: "config_validate demo_config = Inr ()"
  by (simp add: config_validate_def demo_config_def try_then_ok_iff has_key_def validate_routes_def
      validate_provider_key_def profile_route_def validate_provider_def validate_quotas_def
      validate_audio_def audio_config_default_def demo_provider_id try_each_ok
      is_blank_iff is_whitespace_def)

lemma demo_compose:
  "compose (w_recognizers demo_world) demo_config wake_channel = Inr demo_daemon"
  "ac_events (dm_app demo_daemon) = [StateChanged ''idle'' []]"
  "dm_machine demo_daemon = session_machine_default"
  "dm_config demo_daemon = demo_config"
  "ac_provider_health (dm_app demo_daemon) = Map.empty"
  "registry_contains (ac_registry (dm_app demo_daemon)) (ProviderId ''mock'')"
  "ac_session_results (dm_app demo_daemon) = []"
  "dm_log demo_daemon = []" "\<not> dm_recording demo_daemon" "dm_history demo_daemon = []"
proof -
  have "compose (w_recognizers demo_world) demo_config wake_channel =
      Inr \<lparr> dm_app = app_with_wake [ProviderId ''mock'' \<mapsto>
                build_adapter (w_recognizers demo_world) (ProviderId ''mock'') (Mock [104, 105])] wake_channel,
             dm_recording = False, dm_config = demo_config,
             dm_active_profile = None, dm_armed = None, dm_history = [],
             dm_recording_started_at = None, dm_job = None, dm_live_vad = None,
             dm_last_live_audio = None, dm_last_audio_overlay_at = None, dm_quit = False,
             dm_log = [] \<rparr>"
    unfolding compose_def demo_config_valid
    by (simp add: build_provider_registry_def demo_config_def demo_provider_id
        registry_register_def build_adapter_def)
  note eq = this
  show "compose (w_recognizers demo_world) demo_config wake_channel = Inr demo_daemon"
    by (simp add: demo_daemon_def eq)
  show "ac_events (dm_app demo_daemon) = [StateChanged ''idle'' []]"
    "dm_machine demo_daemon = session_machine_default"
    "dm_config demo_daemon = demo_config"
    "ac_provider_health (dm_app demo_daemon) = Map.empty"
    "registry_contains (ac_registry (dm_app demo_daemon)) (ProviderId ''mock'')"
    "ac_session_results (dm_app demo_daemon) = []"
    "dm_log demo_daemon = []" "\<not> dm_recording demo_daemon" "dm_history demo_daemon = []"
    by (simp_all add: demo_daemon_def eq app_with_wake_def registry_contains_def)
qed

text \<open>One dictation of the installation, operation by operation.\<close>

abbreviation demo_arm :: insertion_arm where
  "demo_arm \<equiv> \<lparr> ia_session = from_counter 1, ia_backend = ''fcitx'' \<rparr>"

definition demo_listening :: daemon where
  "demo_listening = snd (daemon_start ''main'' demo_world demo_daemon)"

definition demo_finalizing :: daemon where
  "demo_finalizing = snd (daemon_stop [] demo_world demo_listening)"

definition demo_completed :: daemon where
  "demo_completed = snd (poll_recognition demo_world demo_finalizing)"

lemmas demo_defs =
  demo_world_def config_profile_def demo_config_def desktop_config_default_def
  audio_config_default_def apply_command_def app_apply_def max_pending_events_def sm_op_defs
  session_machine_default_def queue_current_state_def notify_def state_snapshot_def
  session_string_def

lemma demo_listening_eqs:
  "fst (daemon_start ''main'' demo_world demo_daemon) = Inr (from_counter 1)"
  "dm_state demo_listening = Listening (from_counter 1) Toggle"
  "length (ac_events (dm_app demo_listening)) = 3"
  "dm_recording demo_listening" "dm_armed demo_listening = Some demo_arm"
  "dm_log demo_listening = [FxArm (from_counter 1), FxCaptureStart]"
  "dm_config demo_listening = demo_config" "dm_active_profile demo_listening = Some ''main''"
  "dm_recording_started_at demo_listening = Some 0"
  "ac_registry (dm_app demo_listening) = ac_registry (dm_app demo_daemon)"
  "ac_provider_health (dm_app demo_listening) = Map.empty"
  using demo_compose
  by (simp_all add: demo_listening_def daemon_start_def begin_capture_def Let_def demo_defs log_fx_def)

lemma demo_stop:
  "fst (daemon_stop [] demo_world demo_listening) = Inr (RespProcessing (from_counter 1))"
  "dm_state demo_finalizing = Finalizing (from_counter 1)"
  "length (ac_events (dm_app demo_finalizing)) = 4"
  "dm_job demo_finalizing \<noteq> None \<and> rj_session (the (dm_job demo_finalizing)) = from_counter 1"
  "dm_armed demo_finalizing = Some demo_arm" "dm_commits demo_finalizing = []"
  "dm_config demo_finalizing = demo_config"
proof -
  let ?p = "poll_audio_telemetry demo_world demo_listening"
  have p: "?p = demo_listening" by (simp add: poll_audio_telemetry_def demo_world_def)
  have plan: "plan_route \<lparr> rp_primary = ProviderId ''mock'', rp_fallbacks = [], rp_replay = Never \<rparr> now a =
      Inr \<lparr> rt_providers = [ProviderId ''mock''], rt_replay = Never \<rparr>"
    if "ac_registry a = ac_registry (dm_app demo_daemon)" "ac_provider_health a = Map.empty" for now a
    using that demo_compose(6) by (simp add: plan_route_eq route_available_def)
  have spawn: "spawn_recognition (from_counter 1) rec None ms demo_world d =
      (Inr (RespProcessing (from_counter 1)),
       log_fx (FxRecognize (from_counter 1)
                 \<lparr> rt_providers = [ProviderId ''mock''], rt_replay = Never \<rparr> (ca_path rec))
         (d\<lparr> dm_job := Some \<lparr> rj_session = from_counter 1, rj_recording_path = ca_path rec,
                              rj_vad_result = None, rj_audio_millis = ms \<rparr> \<rparr>))"
    if "dm_config d = demo_config" "ac_registry (dm_app d) = ac_registry (dm_app demo_daemon)"
      "ac_provider_health (dm_app d) = Map.empty" "dm_active_profile d = Some ''main''" for rec ms d
    using that
    by (simp add: spawn_recognition_def demo_config_def profile_policy_def demo_provider_id plan)
      (simp add: demo_world_def)
  let ?d1 = "snd (apply_command (CmdStop (from_counter 1)) demo_listening)"
  let ?d2 = "log_fx FxCaptureStop (clear_live (?d1\<lparr> dm_recording := False \<rparr>))"
  let ?rec = "\<lparr> ca_path = ''rec.pcm'', ca_bytes = 32000, ca_duration_millis = 1000,
                 ca_backend = ''pipewire'' \<rparr>"
  have a: "fst (apply_command (CmdStop (from_counter 1)) demo_listening) =
      Inr (StopCapture (from_counter 1))"
    "dm_state ?d1 = Finalizing (from_counter 1)" "length (ac_events (dm_app ?d1)) = 4"
    "ac_registry (dm_app ?d1) = ac_registry (dm_app demo_daemon)"
    "ac_provider_health (dm_app ?d1) = Map.empty"
    using demo_listening_eqs
    by (simp_all add: apply_command_def app_apply_def max_pending_events_def sm_op_defs
        queue_current_state_def notify_def)
  have begin': "begin_recognition (from_counter 1) ?rec demo_world ?d2 =
      spawn_recognition (from_counter 1) ?rec None 1000 demo_world ?d2"
    using demo_listening_eqs
    by (simp add: begin_recognition_def check_minimum_duration_def too_short_def
        check_voice_activity_def demo_config_def audio_config_default_def)
  have eq: "daemon_stop [] demo_world demo_listening =
      after_stop ?rec (spawn_recognition (from_counter 1) ?rec None 1000 demo_world ?d2)
        (from_counter 1) demo_world"
    using demo_listening_eqs a(1) begin'
    by (simp add: daemon_stop_def active_session_id_def p Let_def case_prod_beta)
      (simp add: demo_world_def)
  note sp = spawn[of ?d2 ?rec 1000]
  show "fst (daemon_stop [] demo_world demo_listening) = Inr (RespProcessing (from_counter 1))"
    "dm_state demo_finalizing = Finalizing (from_counter 1)"
    "length (ac_events (dm_app demo_finalizing)) = 4"
    "dm_job demo_finalizing \<noteq> None \<and> rj_session (the (dm_job demo_finalizing)) = from_counter 1"
    "dm_armed demo_finalizing = Some demo_arm" "dm_commits demo_finalizing = []"
    "dm_config demo_finalizing = demo_config"
    using a demo_listening_eqs sp
    by (simp_all add: demo_finalizing_def eq after_stop_def Let_def)
qed

lemma demo_poll:
  "fst (poll_recognition demo_world demo_finalizing) = Inr True"
  "dm_state demo_completed = Completed (from_counter 1)"
  "dm_commits demo_completed = [(from_counter 1, [104, 105])]"
proof -
  obtain job where job: "dm_job demo_finalizing = Some job" "rj_session job = from_counter 1"
    using demo_stop(4) by auto
  have nb: "\<not> is_blank [104, 105]" by (simp add: is_blank_iff is_whitespace_def)
  show "fst (poll_recognition demo_world demo_finalizing) = Inr True"
    "dm_state demo_completed = Completed (from_counter 1)"
    "dm_commits demo_completed = [(from_counter 1, [104, 105])]"
    unfolding demo_completed_def poll_recognition_def job
    using demo_stop job nb
    by (simp_all add: demo_world_def job_is_current_def finish_recognition_def
        complete_recognition_def apply_command_def app_apply_def max_pending_events_def sm_op_defs
        insert_text_def log_fx_def finish_session_def remember_transcript_def demo_config_def
        desktop_config_default_def Let_def)
qed

abbreviation demo_ops :: "(daemon_op \<times> world) list" where
  "demo_ops \<equiv> [(OpStart ''main'', demo_world), (OpStop [], demo_world), (OpPollRecognition, demo_world)]"

lemma demo_run: "snd (daemon_run demo_ops demo_daemon) = demo_completed"
  by (simp add: demo_completed_def demo_finalizing_def demo_listening_def case_prod_beta Let_def)

section \<open>Commits and cancellation\<close>

text \<open>
  C1: whatever operations a composed daemon runs, in whatever order and with whatever answers of
  the desktop, the capture and the providers, it hands at most one text per session to the
  desktop, and never a blank one; the insertion test of the D-Bus interface, which belongs to no
  session, may come in between. The bound on the length keeps the session counter from saturating.
\<close>

theorem one_commit_per_session:
  assumes "compose recognizers config wake = Inr d" and "length ops + 1 < 2 ^ 64"
  shows "distinct (map fst (dm_commits (snd (daemon_run ops d)))) \<and>
         (\<forall>(s, t) \<in> set (dm_commits (snd (daemon_run ops d))). \<not> is_blank t)"
proof -
  have "commit_inv (snd (daemon_run ops d))"
    using compose_commit_inv[OF assms(1)] assms(2) by (intro run_commit_inv) (simp_all add: has_room_def)
  then show ?thesis by (auto simp: commit_inv_def)
qed

theorem one_commit_per_session_witness:
  "dm_commits (snd (daemon_run demo_ops demo_daemon)) = [(from_counter 1, [104, 105])] \<and>
   distinct (map fst (dm_commits (snd (daemon_run demo_ops demo_daemon))))"
  using one_commit_per_session[OF demo_compose(1), of demo_ops] demo_poll(3)
  by (simp only: demo_run) simp

text \<open>
  C2: once Cancel returns without an error, the session is cancelled, no recording, recognition
  job or armed target is left, everything that was at work was told to stop, and whatever runs
  afterwards no further text of that session is handed to the desktop.
\<close>

theorem cancel_is_final:
  assumes "compose recognizers config wake = Inr d0" and "length ops + 1 < 2 ^ 64"
  defines "d \<equiv> snd (daemon_run ops d0)"
  assumes "daemon_cancel sid d = (Inr (), d')"
  shows "\<exists>s. (sid = [] \<or> sid = session_str s) \<and> dm_state d' = Cancelled s \<and>
           \<not> dm_recording d' \<and> dm_job d' = None \<and> dm_armed d' = None \<and>
           (dm_recording d \<longrightarrow> FxCaptureCancel \<in> set (dm_log d')) \<and>
           (\<forall>job. dm_job d = Some job \<longrightarrow> FxCancelToken (rj_session job) \<in> set (dm_log d')) \<and>
           (\<forall>arm. dm_armed d = Some arm \<longrightarrow> FxCancelArm arm \<in> set (dm_log d')) \<and>
           (\<forall>later t. (s, t) \<in> set (dm_commits (snd (daemon_run later d'))) \<longleftrightarrow>
                      (s, t) \<in> set (dm_commits d'))"
proof -
  have fresh: "sm_fresh (dm_machine d)"
    using run_commit_inv[of d0 ops] compose_commit_inv[OF assms(1)] assms(2)
    by (simp add: commit_inv_def has_room_def d_def)
  obtain s where s: "active_session_id sid d = Inr s"
    using assms(4) by (auto simp: daemon_cancel_def split: sum.splits)
  let ?c = "apply_command (CmdCancel s) d"
  obtain e where e: "fst ?c = Inr e"
    and d': "d' = (drop_work (snd ?c))\<lparr> dm_active_profile := None, dm_armed := None \<rparr>"
    using assms(4) s by (auto simp: daemon_cancel_def case_prod_beta split: sum.splits)
  have room: "\<not> 254 < length (ac_events (dm_app d))"
    and m: "fst (sm_apply (CmdCancel s) (dm_machine d)) = Inr e"
    using e by (simp_all add: apply_command_fst app_apply_result split: if_splits)
  have mach: "dm_machine d' = snd (sm_apply (CmdCancel s) (dm_machine d))"
    using room by (simp add: d' apply_command_app app_apply_machine)
  have "dm_state d' = Cancelled s"
    using m mach by (auto simp: sm_cancel_def ensure_session_def split: option.splits if_splits)
  moreover have "retired s (dm_machine d')"
    unfolding mach by (rule sm_cancel_retires[OF fresh m])
  moreover have "sid = [] \<or> sid = session_str s"
    using s by (auto simp: active_session_id_def split: option.splits if_splits)
  moreover have "dm_recording d \<longrightarrow> FxCaptureCancel \<in> set (dm_log d')"
    "dm_job d = Some job \<longrightarrow> FxCancelToken (rj_session job) \<in> set (dm_log d')"
    "dm_armed d = Some arm \<longrightarrow> FxCancelArm arm \<in> set (dm_log d')" for job arm
    by (auto simp: d' drop_work_def cancel_armed_def Let_def split: option.splits)
  moreover have "\<not> dm_recording d'" "dm_job d' = None" "dm_armed d' = None"
    by (simp_all add: d')
  ultimately show ?thesis using retired_commits[of s d'] by blast
qed

theorem cancel_is_final_witness:
  "\<exists>d'. daemon_cancel [] demo_finalizing = (Inr (), d') \<and> dm_state d' = Cancelled (from_counter 1) \<and>
     (\<forall>later t. (from_counter 1, t) \<in> set (dm_commits (snd (daemon_run later d'))) \<longleftrightarrow>
                (from_counter 1, t) \<in> set (dm_commits d'))"
proof -
  let ?ops = "[(OpStart ''main'', demo_world), (OpStop [], demo_world)]"
  have run: "snd (daemon_run ?ops demo_daemon) = demo_finalizing"
    by (simp add: demo_finalizing_def demo_listening_def case_prod_beta Let_def)
  obtain d' where c: "daemon_cancel [] demo_finalizing = (Inr (), d')"
      "dm_state d' = Cancelled (from_counter 1)"
    using demo_stop(2,3)
    by (simp add: daemon_cancel_def active_session_id_def apply_command_def app_apply_def
        max_pending_events_def sm_cancel_def ensure_session_def Let_def)
  then show ?thesis
    using cancel_is_final[OF demo_compose(1), of ?ops "[]" d'] unfolding run by auto
qed

section \<open>Resources\<close>

text \<open>
  C6: at any moment of any run of a composed daemon, audio is captured only for a session that
  is preparing or listening and always under a deadline, a recognition job exists only for the
  session that is finalizing, either has an insertion target, a capture and a job never coexist,
  the live detector lives only during a capture, and the transcript history has at most twenty
  entries.
\<close>

theorem resources_follow_state:
  fixes ops d0
  assumes "compose recognizers config wake = Inr d0"
  defines "d \<equiv> snd (daemon_run ops d0)"
  shows "(dm_recording d \<longleftrightarrow> dm_recording_started_at d \<noteq> None) \<and>
         (dm_recording d \<longrightarrow> (\<exists>s mode. dm_state d \<in> {Preparing s mode, Listening s mode}) \<and>
            dm_job d = None \<and> dm_armed d \<noteq> None) \<and>
         (\<forall>job. dm_job d = Some job \<longrightarrow>
            dm_state d = Finalizing (rj_session job) \<and> dm_armed d \<noteq> None) \<and>
         (dm_live_vad d \<noteq> None \<longrightarrow> dm_recording d) \<and> length (dm_history d) \<le> 20"
proof -
  have wf: "dm_wf d" unfolding d_def by (rule daemon.run_inv[OF compose_wf[OF assms(1)]])
  have cap: "\<exists>s mode. st \<in> {Preparing s mode, Listening s mode}" if "capturing st \<noteq> None" for st
    using that by (cases st) (auto simp: capturing_def)
  show ?thesis using wf cap[of "dm_state d"] by (auto simp: dm_wf_def)
qed

theorem resources_follow_state_witness:
  "\<exists>ops. let d = snd (daemon_run ops demo_daemon)
         in dm_recording d \<and> dm_recording_started_at d \<noteq> None \<and> dm_job d = None \<and> dm_armed d \<noteq> None"
proof -
  let ?ops = "[(OpStart ''main'', demo_world)]"
  have run: "snd (daemon_run ?ops demo_daemon) = demo_listening"
    by (simp add: demo_listening_def case_prod_beta Let_def)
  show ?thesis
    using resources_follow_state[OF demo_compose(1), of ?ops] demo_listening_eqs(4)
    unfolding run by (intro exI[of _ ?ops]) (simp only: run Let_def simp_thms)
qed

text \<open>
  when the desktop arms targets for the session it is given, a capture or a recognition job
  always has a target armed for exactly the session at work, so the delivery of a text never
  fails for want of a target or because the target belongs to another session.
\<close>

theorem armed_target_matches_session:
  assumes "compose recognizers config wake = Inr d0"
    and "list_all (\<lambda>(op, w). \<forall>mode s arm. w_arm w mode s = Inr arm \<longrightarrow> ia_session arm = s) ops"
  defines "d \<equiv> snd (daemon_run ops d0)"
  assumes "dm_recording d \<or> dm_job d \<noteq> None" and "state_session (dm_state d) = Some s"
  shows "\<exists>arm. dm_armed d = Some arm \<and> ia_session arm = s \<and>
           insert_text s txt w d = (w_commit w arm txt, log_fx (FxCommit arm txt) d)"
proof -
  have "(\<lambda>(op, w). \<forall>mode s arm. w_arm w mode s = Inr arm \<longrightarrow> ia_session arm = s) = arms_for_session"
    by (rule ext) (simp only: arms_for_session_def case_prod_beta)
  then have "list_all arms_for_session ops" using assms(2) by (simp only:)
  then have "target_inv d"
    unfolding d_def by (rule target.guarded_run[OF _ compose_target[OF assms(1)]])
  then obtain arm where "dm_armed d = Some arm" "state_session (dm_state d) = Some (ia_session arm)"
    using assms(4) unfolding target_inv_def by blast
  then show ?thesis using assms(5) by (intro exI[of _ arm]) (simp add: insert_text_def)
qed

theorem armed_target_matches_session_witness:
  "\<exists>ops arm. let d = snd (daemon_run ops demo_daemon)
         in dm_job d \<noteq> None \<and> dm_armed d = Some arm \<and>
            insert_text (from_counter 1) [104] demo_world d =
              (w_commit demo_world arm [104], log_fx (FxCommit arm [104]) d)"
proof -
  let ?ops = "[(OpStart ''main'', demo_world), (OpStop [], demo_world)]"
  have run: "snd (daemon_run ?ops demo_daemon) = demo_finalizing"
    by (simp add: demo_finalizing_def demo_listening_def case_prod_beta Let_def)
  have arms: "list_all (\<lambda>(op, w). \<forall>mode s arm. w_arm w mode s = Inr arm \<longrightarrow> ia_session arm = s) ?ops"
    by (auto simp: demo_world_def)
  obtain arm where "dm_armed demo_finalizing = Some arm"
      "insert_text (from_counter 1) [104] demo_world demo_finalizing =
         (w_commit demo_world arm [104], log_fx (FxCommit arm [104]) demo_finalizing)"
    using armed_target_matches_session[OF demo_compose(1) arms, of "from_counter 1" "[104]" demo_world]
      demo_stop(2,4) unfolding run by auto
  then show ?thesis
    using demo_stop(4) unfolding Let_def
    by (intro exI[of _ ?ops] exI[of _ arm]) (simp only: run simp_thms)
qed

section \<open>Every delivered recognition ends its session\<close>

text \<open>The result that a polling client reads.\<close>

abbreviation outcome_of :: "session_id \<Rightarrow> daemon \<Rightarrow> string option" where
  "outcome_of s d \<equiv> map_option tr_outcome (session_result (session_str s) (dm_app d))"

lemma fail_outcome:
  assumes "ac_wf (dm_app d)" "length (ac_events (dm_app d)) \<le> 254"
    and "state_session (dm_state d) = Some s"
  shows "dm_state (apply_ignored (CmdFail s e) d) = Failed s e"
    and "outcome_of s (apply_ignored (CmdFail s e) d) = Some ''failed''"
proof -
  let ?r = "\<lparr> tr_session = session_str s, tr_outcome = ''failed'', tr_error_code = err_code e,
              tr_backend = [], tr_char_count = 0 \<rparr>"
  have "lookup_result (session_str s) (remember_result ?r (ac_session_results (dm_app d))) = Some ?r"
    using lookup_remember_same[of "ac_session_results (dm_app d)" ?r] assms(1) by (simp add: ac_wf_def)
  then show "outcome_of s (apply_ignored (CmdFail s e) d) = Some ''failed''"
    using assms(2,3)
    by (simp add: apply_ignored_app app_apply_def max_pending_events_def sm_fail_def ensure_session_def
        session_result_lookup Let_def)
  show "dm_state (apply_ignored (CmdFail s e) d) = Failed s e"
    using assms(2,3)
    by (simp add: apply_ignored_app app_apply_machine sm_fail_def ensure_session_def)
qed

lemma ac_wf_apply_ok:
  assumes "ac_wf a"
  shows "ac_wf (snd (app_apply c a))" and "terminal_of c = None \<Longrightarrow>
    length (ac_events (snd (app_apply c a))) \<le> length (ac_events a) + 1"
  using app_apply_wf[OF assms]
  by (auto simp: app_apply_def Let_def split: prod.splits sum.splits)

text \<open>How the session stands after complete_recognition.\<close>

definition ended :: "session_id \<Rightarrow> bool \<Rightarrow> daemon \<Rightarrow> bool" where
  "ended s ok d \<longleftrightarrow>
     (if ok then dm_state d = Completed s \<and> outcome_of s d = Some ''completed''
      else (\<exists>e. dm_state d = Failed s e) \<and> outcome_of s d = Some ''failed'')"

lemma complete_ended:
  assumes wf: "ac_wf (dm_app d)" and room: "length (ac_events (dm_app d)) \<le> 253"
    and st: "dm_state d = Finalizing s" and nb: "\<not> is_blank (pt_text t)"
  shows "ended s (is_ok (fst (complete_recognition s i t w d))) (snd (complete_recognition s i t w d))"
proof -
  let ?c = "CmdTranscriptReady s (pt_text t)"
  let ?d1 = "snd (apply_command ?c d)"
  have c: "fst (apply_command ?c d) = Inr (InsertText s (pt_text t))"
    and st1: "dm_state ?d1 = Inserting s (pt_text t)"
    using room st nb
    by (simp_all add: apply_command_fst apply_command_app app_apply_result app_apply_machine
        sm_transcript_ready_def ensure_session_def)
  have wf1: "ac_wf (dm_app ?d1)" and ev1: "length (ac_events (dm_app ?d1)) \<le> 254"
    using ac_wf_apply_ok[OF wf, of ?c] room by (simp_all add: apply_command_app)
  let ?d2 = "snd (insert_text s (pt_text t) w ?d1)"
  let ?d3 = "snd (apply_command (CmdInsertionComplete s) ?d2)"
  have c3: "fst (apply_command (CmdInsertionComplete s) ?d2) = Inr EffNone"
    and st3: "dm_state ?d3 = Completed s"
    using ev1 st1
    by (simp_all add: apply_command_fst apply_command_app app_apply_result app_apply_machine
        sm_insertion_complete_def ensure_session_def)
  have wf3: "ac_wf (dm_app ?d3)" and ev3: "length (ac_events (dm_app ?d3)) \<noteq> 256"
    using ac_wf_apply_ok[of "dm_app ?d2" "CmdInsertionComplete s"] wf1 ev1
    by (simp_all add: apply_command_app)
  show ?thesis
  proof (cases "fst (insert_text s (pt_text t) w ?d1)")
    case (Inl e)
    have "ended s False (apply_ignored (CmdFail s e) ?d2)"
      using fail_outcome[of ?d2 s e] wf1 ev1 st1 by (simp add: ended_def)
    then show ?thesis using c Inl by (simp add: complete_recognition_def Let_def case_prod_beta)
  next
    case (Inr ins)
    let ?r = "\<lparr> tr_session = session_str s, tr_outcome = ''completed'', tr_error_code = [],
                tr_backend = io_backend ins, tr_char_count = word_of_nat (length (pt_text t)) \<rparr>"
    have "lookup_result (session_str s) (remember_result ?r (ac_session_results (dm_app ?d3))) = Some ?r"
      using lookup_remember_same[of "ac_session_results (dm_app ?d3)" ?r] wf3 by (simp add: ac_wf_def)
    then show ?thesis using c Inr c3 st3 ev3
      by (simp add: complete_recognition_def Let_def case_prod_beta finish_session_def ended_def
          max_pending_events_def session_result_lookup)
  qed
qed

lemma finish_ended:
  assumes wf: "ac_wf (dm_app d)" and room: "length (ac_events (dm_app d)) \<le> 253"
    and st: "dm_state d = Finalizing (rj_session job)"
    and nb: "\<And>s. rr_outcome r = Inr s \<Longrightarrow> \<not> is_blank (pt_text (rs_transcript s))"
  shows "ended (rj_session job) (is_ok (fst (finish_recognition job r w d)))
           (snd (finish_recognition job r w d))"
proof -
  let ?d1 = "d\<lparr> dm_app := record_route_result r (rj_audio_millis job) (w_now w) (dm_app d) \<rparr>"
  have d1: "ac_wf (dm_app ?d1)" "length (ac_events (dm_app ?d1)) \<le> 253"
    "dm_state ?d1 = Finalizing (rj_session job)"
    using assms by (simp_all add: ac_wf_frames(3))
  show ?thesis
  proof (cases "rr_outcome r")
    case (Inl e)
    have "ended (rj_session job) False (apply_ignored (CmdFail (rj_session job) e) ?d1)"
      using fail_outcome[of ?d1 "rj_session job" e] d1 by (simp add: ended_def)
    then show ?thesis using Inl
      by (simp add: finish_recognition_def fail_recognition_def Let_def ended_def)
  next
    case (Inr s)
    note c = complete_ended[OF d1 nb[OF Inr], of "rs_provider_id s" w]
    show ?thesis
      using c Inr by (auto simp: finish_recognition_def Let_def case_prod_beta ended_def split: sum.splits)
  qed
qed

lemma poll_delivered:
  assumes "dm_wf d" and "dm_job d = Some job" and "length (ac_events (dm_app d)) \<le> 253"
    and "w_recv w \<in> {RecvReady (run_recognition_route reg route input tok now), RecvDisconnected}"
    and "poll_recognition w d = (res, d')"
  shows "(case res of
            Inr done \<Rightarrow> done \<and> dm_state d' = Completed (rj_session job) \<and>
                        outcome_of (rj_session job) d' = Some ''completed''
          | Inl _ \<Rightarrow> (\<exists>e. dm_state d' = Failed (rj_session job) e) \<and>
                     outcome_of (rj_session job) d' = Some ''failed'') \<and>
         dm_job d' = None \<and> dm_armed d' = None \<and> dm_active_profile d' = None"
proof -
  let ?d = "d\<lparr> dm_job := None \<rparr>"
  have st: "dm_state d = Finalizing (rj_session job)" and wf: "ac_wf (dm_app d)"
    using assms(1,2) by (auto simp: dm_wf_def)
  obtain r where r: "poll_recognition w d = finish_recognition job r w ?d"
    and shape: "r = run_recognition_route reg route input tok now \<or> r = worker_disconnected"
    using assms(2,4) st by (auto simp: poll_recognition_def job_is_current_def)
  have nb: "\<not> is_blank (pt_text (rs_transcript s))" if "rr_outcome r = Inr s" for s
    using shape that route_loop_ok
    by (auto simp: run_recognition_route_def worker_disconnected_def)
  have "ended (rj_session job) (is_ok res) d'"
    using finish_ended[of ?d job r w] wf st assms(3,5) nb r by simp
  moreover have "dm_armed d' = None" "dm_active_profile d' = None" "\<And>b. res = Inr b \<Longrightarrow> b"
    using assms(5) r by (auto simp: finish_recognition_def Let_def case_prod_beta split: sum.splits)
  moreover have "dm_job d' = None"
    using at_rest_finish[OF wf_at_rest(3)[OF assms(1,2)], of job r w] assms(5) r
    by (simp add: at_rest_def)
  ultimately show ?thesis by (auto simp: ended_def split: sum.splits)
qed

text \<open>
  when the worker of a recognition job delivers the result of its route, or dies without
  one, the session ends: the text was dispatched and the session is completed when the call
  succeeds, and it has failed otherwise, in both cases with the result that polling clients
  read. No job, target or profile is left. At most 253 undrained events leave room for the
  events of the end.
\<close>

theorem delivered_recognition_ends_session:
  assumes "dm_wf d" and "dm_job d = Some job" and "length (ac_events (dm_app d)) \<le> 253"
    and "w_recv w \<in> {RecvReady (run_recognition_route reg route input tok now), RecvDisconnected}"
    and "poll_recognition w d = (res, d')"
  shows "(case res of
            Inr done \<Rightarrow> done \<and> dm_state d' = Completed (rj_session job) \<and>
                        outcome_of (rj_session job) d' = Some ''completed''
          | Inl _ \<Rightarrow> (\<exists>e. dm_state d' = Failed (rj_session job) e) \<and>
                     outcome_of (rj_session job) d' = Some ''failed'') \<and>
         dm_job d' = None \<and> dm_armed d' = None \<and> dm_active_profile d' = None"
  by (rule poll_delivered[OF assms])

theorem delivered_recognition_ends_session_witness:
  "\<exists>e. dm_state (snd (poll_recognition (demo_world\<lparr> w_recv := RecvDisconnected \<rparr>) demo_finalizing)) =
       Failed (from_counter 1) e"
proof -
  let ?w = "demo_world\<lparr> w_recv := RecvDisconnected \<rparr>"
  let ?p = "poll_recognition ?w demo_finalizing"
  obtain job where job: "dm_job demo_finalizing = Some job" "rj_session job = from_counter 1"
    using demo_stop(4) by auto
  have wf: "dm_wf demo_finalizing"
    unfolding demo_finalizing_def demo_listening_def
    by (intro stop_wf start_wf compose_wf[OF demo_compose(1)])
  have err: "is_err (fst ?p)"
    using job demo_stop(2)
    by (simp add: poll_recognition_def job_is_current_def finish_recognition_def Let_def
        worker_disconnected_def fail_recognition_def)
  have len: "length (ac_events (dm_app demo_finalizing)) \<le> 253" using demo_stop(3) by simp
  have recv: "w_recv ?w \<in> {RecvReady (run_recognition_route Map.empty (demo_plan Never) demo_input
                token_new 0), RecvDisconnected}" by simp
  have pair: "?p = (fst ?p, snd ?p)" by simp
  from delivered_recognition_ends_session[OF wf job(1) len recv pair] show ?thesis
    using err job(2) by (cases "fst ?p") auto
qed

section \<open>The recording deadline\<close>

lemma begin_recognition_capture:
  "dm_recording (snd (begin_recognition s rec w d)) = dm_recording d"
  "\<exists>fs. dm_log (snd (begin_recognition s rec w d)) = dm_log d @ fs"
proof -
  have ns: "dm_recording (snd (no_speech s d)) = dm_recording d"
      "\<exists>fs. dm_log (snd (no_speech s d)) = dm_log d @ fs"
    by (auto simp: no_speech_def case_prod_beta cancel_armed_def split: sum.splits option.splits)
  have sp: "dm_recording (snd (spawn_recognition s rec v ms w d)) = dm_recording d"
      "\<exists>fs. dm_log (snd (spawn_recognition s rec v ms w d)) = dm_log d @ fs" for v ms
    by (auto simp: spawn_recognition_def fail_recognition_def Let_def split: option.splits sum.splits)
  show "dm_recording (snd (begin_recognition s rec w d)) = dm_recording d"
    using begin_recognition_end[of s rec w d] ns sp by auto
  show "\<exists>fs. dm_log (snd (begin_recognition s rec w d)) = dm_log d @ fs"
    using begin_recognition_end[of s rec w d] ns(2) sp(2) by (elim disjE) auto
qed

lemma after_stop_capture:
  "dm_recording (snd (after_stop rec out s w)) = dm_recording (snd out)"
  "\<exists>fs. dm_log (snd (after_stop rec out s w)) = dm_log (snd out) @ fs"
  by (auto simp: after_stop_def Let_def case_prod_beta fail_nonterminal_session_def cancel_armed_def
      split: sum.splits option.splits)

text \<open>
  A stop of a listening recording, which needs room for two events: it stops the recorder before
  anything else, or it is refused and changes nothing but the telemetry.
\<close>

lemma stop_listening:
  assumes "dm_recording d" and "dm_state d = Listening s mode"
    and "length (ac_events (dm_app d)) \<le> 254"
  shows "\<not> dm_recording (snd (daemon_stop [] w d))"
    and "\<exists>rest. dm_log (snd (daemon_stop [] w d)) = dm_log d @ FxCaptureStop # rest"
proof -
  let ?p = "poll_audio_telemetry w d"
  let ?d1 = "snd (apply_command (CmdStop s) ?p)"
  let ?d2 = "log_fx FxCaptureStop (clear_live (?d1\<lparr> dm_recording := False \<rparr>))"
  have ok: "fst (apply_command (CmdStop s) ?p) = Inr (StopCapture s)"
    using assms by (simp add: apply_command_fst app_apply_result sm_stop_def ensure_session_def)
  have eq: "snd (daemon_stop [] w d) =
      (case w_capture_stop w of Inl e \<Rightarrow> apply_ignored (CmdFail s e) ?d2
       | Inr rec \<Rightarrow> snd (after_stop rec (begin_recognition s rec w ?d2) s w))"
    using assms ok
    by (simp add: daemon_stop_def active_session_id_def Let_def case_prod_beta split: sum.splits)
  show "\<not> dm_recording (snd (daemon_stop [] w d))"
    unfolding eq by (simp add: after_stop_capture begin_recognition_capture split: sum.splits)
  have log: "dm_log ?d2 = dm_log d @ [FxCaptureStop]" by simp
  show "\<exists>rest. dm_log (snd (daemon_stop [] w d)) = dm_log d @ FxCaptureStop # rest"
  proof (cases "w_capture_stop w")
    case (Inl e)
    then show ?thesis using log by (simp add: eq)
  next
    case (Inr rec)
    obtain fs where fs: "dm_log (snd (begin_recognition s rec w ?d2)) = dm_log ?d2 @ fs"
      using begin_recognition_capture(2) by blast
    obtain gs where "dm_log (snd (after_stop rec (begin_recognition s rec w ?d2) s w)) =
        dm_log (snd (begin_recognition s rec w ?d2)) @ gs"
      using after_stop_capture(2) by blast
    then show ?thesis unfolding eq fs log by (simp add: Inr)
  qed
qed

lemma stop_refused:
  assumes "dm_state d = Listening s mode" and "254 < length (ac_events (dm_app d))"
  shows "daemon_stop [] w d = (Inl (map_error backpressure_error), poll_audio_telemetry w d)"
proof -
  let ?p = "poll_audio_telemetry w d"
  have "fst (apply_command (CmdStop s) ?p) = Inl backpressure_error"
    using assms by (simp add: apply_command_fst app_apply_result)
  then show ?thesis
    using assms(1) apply_command_rejected[of "CmdStop s" ?p]
    by (simp add: daemon_stop_def active_session_id_def case_prod_beta Let_def)
qed

text \<open>A deadline check, by whether the deadline has passed.\<close>

lemma deadline_check:
  fixes d
  defines "limit \<equiv> unat (maximum_duration_seconds (cfg_audio (dm_config d)))"
  assumes "dm_recording_started_at d = Some started" and "started \<le> w_now w"
  shows "enforce_recording_deadline w d =
    (if started + secs limit \<le> w_now w
     then (case fst (daemon_stop [] w d) of Inl e \<Rightarrow> Inl e | Inr _ \<Rightarrow> Inr True, snd (daemon_stop [] w d))
     else (Inr False, d))"
proof -
  have "limit \<le> (w_now w - started) div 1000000000 \<longleftrightarrow> limit * 1000000000 \<le> w_now w - started"
    by (simp add: less_eq_div_iff_mult_less_eq)
  then have "limit \<le> as_secs (w_now w - started) \<longleftrightarrow> started + secs limit \<le> w_now w"
    using assms(3) by (auto simp: as_secs_def secs_def)
  then show ?thesis using assms(2)
    by (simp add: enforce_recording_deadline_def recording_deadline_reached_def limit_def[symmetric]
        case_prod_beta split: sum.split)
qed

text \<open>
  C8: a recording that is listening is left alone by every deadline check before its maximum
  duration, and the first check from then on stops the recorder, whatever the answers of the
  capture and the detector. The one exception is a queue of more than 254 undrained events: then
  the stop is refused with an error, the recording and its deadline stay as they are, and the next
  check after the events have been drained stops it. The loop never waits beyond the deadline, nor
  longer than a tenth of a second.
\<close>

theorem deadline_stops_recording:
  fixes d w later s mode started now
  defines "limit \<equiv> unat (maximum_duration_seconds (cfg_audio (dm_config d)))"
    and "d' \<equiv> snd (enforce_recording_deadline w d)"
  assumes "dm_recording d" and "dm_state d = Listening s mode"
    and "dm_recording_started_at d = Some started" and "started \<le> w_now w" and "w_now w \<le> w_now later"
  shows "(if w_now w < started + secs limit then enforce_recording_deadline w d = (Inr False, d)
          else if length (ac_events (dm_app d)) \<le> 254
          then \<not> dm_recording d' \<and> (\<exists>rest. dm_log d' = dm_log d @ FxCaptureStop # rest)
          else fst (enforce_recording_deadline w d) = Inl (map_error backpressure_error) \<and>
               dm_recording d' \<and> dm_state d' = Listening s mode \<and>
               dm_recording_started_at d' = Some started \<and> dm_log d' = dm_log d \<and>
               (let d'' = snd (enforce_recording_deadline later (snd (daemon_drain_events d')))
                in \<not> dm_recording d'' \<and> (\<exists>rest. dm_log d'' = dm_log d @ FxCaptureStop # rest))) \<and>
         maintenance_wait now d \<le> 100000000 \<and>
         (started \<le> now \<and> now \<le> started + secs limit \<longrightarrow>
            now + maintenance_wait now d \<le> started + secs limit)"
proof -
  have wait: "maintenance_wait now d =
      (if dm_quit d then 0 else min (millis 100) (secs limit - (now - started)))"
    using assms(5) by (simp add: maintenance_wait_def limit_def)
  note check = deadline_check[OF assms(5,6), folded limit_def]
  have refused: "fst (enforce_recording_deadline w d) = Inl (map_error backpressure_error)"
      "d' = poll_audio_telemetry w d"
    if "\<not> w_now w < started + secs limit" "\<not> length (ac_events (dm_app d)) \<le> 254"
    using that stop_refused[OF assms(4), of w] by (simp_all add: check d'_def)
  have next_check: "\<not> dm_recording (snd (enforce_recording_deadline later e)) \<and>
      (\<exists>rest. dm_log (snd (enforce_recording_deadline later e)) = dm_log d @ FxCaptureStop # rest)"
    if "\<not> w_now w < started + secs limit" "e = snd (daemon_drain_events (poll_audio_telemetry w d))" for e
  proof -
    have e: "dm_recording e" "dm_state e = Listening s mode" "dm_recording_started_at e = Some started"
      "length (ac_events (dm_app e)) \<le> 254" "dm_log e = dm_log d" "dm_config e = dm_config d"
      using assms(3-5) by (simp_all add: that(2) daemon_drain_events_def drain_events_def)
    have "started \<le> w_now later" using assms(6,7) by simp
    from deadline_check[OF e(3) this] show ?thesis
      using stop_listening[OF e(1,2,4), of later] that(1) assms(7) by (simp add: e(5,6) limit_def)
  qed
  show ?thesis
    using wait check refused next_check stop_listening[OF assms(3,4), of w] assms(3-5)
    by (auto simp: millis_def d'_def Let_def)
qed

theorem deadline_stops_recording_witness:
  "\<not> dm_recording (snd (enforce_recording_deadline (demo_world\<lparr> w_now := secs 120 \<rparr>) demo_listening))"
proof -
  have "length (ac_events (dm_app demo_listening)) \<le> 254" using demo_listening_eqs(3) by simp
  with deadline_stops_recording[OF demo_listening_eqs(4,2,9),
      where w = "demo_world\<lparr> w_now := secs 120 \<rparr>" and later = "demo_world\<lparr> w_now := secs 120 \<rparr>"]
  show ?thesis
    using demo_listening_eqs(7) by (simp add: demo_config_def audio_config_default_def)
qed

section \<open>Errors that leave something behind\<close>

text \<open>
  C40: when exactly 254 events are queued, Start is accepted, the target is armed and the capture
  is started, but the announcement that it is ready is refused for lack of room: the caller gets
  an error although audio is being captured, and the session stays in preparing, where no
  deadline check can stop the recording even after the events are drained.
\<close>

theorem refused_capture_ready_keeps_recording:
  assumes "dm_wf d" and "\<not> is_active (dm_state d)" and "length (ac_events (dm_app d)) = 254"
    and "p \<noteq> []" and "config_profile (Some p) (dm_config d) = Some (n, profile)"
    and "\<And>mode s. \<exists>arm. w_arm w mode s = Inr arm"
    and "w_capture_start w (cfg_device (cfg_audio (dm_config d))) = Inr ()"
  defines "d' \<equiv> snd (daemon_start p w d)"
  shows "(\<exists>e. fst (daemon_start p w d) = Inl e) \<and> dm_recording d' \<and>
         (\<exists>s mode. dm_state d' = Preparing s mode) \<and>
         (\<forall>later. dm_recording (snd (enforce_recording_deadline later (snd (daemon_drain_events d')))))"
proof -
  have rec: "\<not> dm_recording d"
    using wf_at_rest(2)[OF assms(1,2)] by (simp add: at_rest_def)
  let ?c = "apply_command (start_command n) d"
  let ?s = "from_counter (sm_next_id (dm_machine d))"
  have c: "fst ?c = Inr (BeginCapture ?s \<lparr> req_mode = Toggle, req_profile = Some n \<rparr>)"
    using assms(2,3) by (auto simp: apply_command_fst app_apply_result sm_start_def Let_def is_terminal_iff)
  have st: "dm_state (snd ?c) = Preparing ?s Toggle"
    using assms(2,3)
    by (auto simp: apply_command_app app_apply_machine sm_start_def Let_def is_terminal_iff)
  have ev: "length (ac_events (dm_app (snd ?c))) = 255"
    using c assms(3) app_apply_events[of "start_command n" "dm_app d"]
    by (simp add: apply_command_app apply_command_fst finished_event_def)
  obtain arm where arm: "w_arm w (insertion_mode_of (cfg_insertion_backend (cfg_desktop (dm_config d)))) ?s =
      Inr arm" using assms(6) by blast
  let ?d2 = "(log_fx (FxArm ?s) (snd ?c))\<lparr> dm_armed := Some arm \<rparr>"
  have start: "daemon_start p w d = begin_capture n ?s w ?d2"
    using assms(4,5) rec c arm by (simp add: daemon_start_def Let_def case_prod_beta)
  have cap: "fst (begin_capture n ?s w ?d2) = Inl (map_error backpressure_error) \<and>
      dm_recording (snd (begin_capture n ?s w ?d2)) \<and>
      dm_state (snd (begin_capture n ?s w ?d2)) = Preparing ?s Toggle"
    using assms(7) ev st
    by (simp add: begin_capture_def Let_def case_prod_beta apply_command_fst apply_command_app
        app_apply_result app_apply_machine)
  have "dm_recording (snd (enforce_recording_deadline later b))"
    if "dm_recording b" "dm_state b = Preparing ?s Toggle" for later b
  proof -
    have "snd (daemon_stop [] later b) = poll_audio_telemetry later b"
    proof -
      have "\<exists>e. fst (apply_command (CmdStop ?s) (poll_audio_telemetry later b)) = Inl e"
        using that(2) by (simp add: apply_command_fst app_apply_result sm_stop_def)
      then obtain e where e: "fst (apply_command (CmdStop ?s) (poll_audio_telemetry later b)) = Inl e" ..
      then show ?thesis
        using that(2) apply_command_rejected[of "CmdStop ?s" "poll_audio_telemetry later b"]
        by (simp add: daemon_stop_def active_session_id_def case_prod_beta Let_def)
    qed
    then show ?thesis using snd_deadline[of later b] that(1) by auto
  qed
  then show ?thesis
    using start cap
    by (simp add: d'_def daemon_drain_events_def drain_events_def)
qed

theorem refused_capture_ready_keeps_recording_witness:
  "\<exists>d. dm_recording (snd (daemon_start ''main'' demo_world d)) \<and>
       (\<exists>e. fst (daemon_start ''main'' demo_world d) = Inl e)"
proof -
  let ?d = "demo_daemon\<lparr> dm_app := (dm_app demo_daemon)\<lparr> ac_events :=
              replicate 254 (StateChanged ''idle'' []) \<rparr> \<rparr>"
  have wf: "dm_wf ?d"
    using compose_wf[OF demo_compose(1)]
    by (auto simp: dm_wf_def ac_wf_def max_pending_events_def)
  have st: "\<not> is_active (dm_state ?d)" using demo_compose(3) by (simp add: session_machine_default_def)
  have prof: "config_profile (Some ''main'') (dm_config ?d) =
      Some (''main'', \<lparr> pf_primary = ''mock'', pf_fallbacks = [], pf_language = ''en'', pf_replay = Never \<rparr>)"
    using demo_compose(4) by (simp add: config_profile_def demo_config_def)
  have arm: "\<And>mode s. \<exists>arm. w_arm demo_world mode s = Inr arm"
    and cap: "w_capture_start demo_world x = Inr ()" for x
    by (simp_all add: demo_world_def)
  show ?thesis
    using refused_capture_ready_keeps_recording[OF wf st _ _ prof arm cap]
    by (intro exI[of _ ?d]) simp
qed

text \<open>
  when stopping the capture fails, the session fails, but the armed target is neither
  released nor forgotten: the only trace the operation leaves in the desktop is the attempt to
  stop the capture.
\<close>

theorem failed_stop_keeps_target:
  assumes "dm_recording d" and "dm_state d = Listening s mode" and "dm_armed d = Some arm"
    and "length (ac_events (dm_app d)) \<le> 253" and "w_capture_stop w = Inl e"
  shows "fst (daemon_stop [] w d) = Inl (map_error e) \<and>
         dm_state (snd (daemon_stop [] w d)) = Failed s e \<and>
         dm_armed (snd (daemon_stop [] w d)) = Some arm \<and>
         dm_log (snd (daemon_stop [] w d)) = dm_log d @ [FxCaptureStop]"
proof -
  let ?p = "poll_audio_telemetry w d"
  have ok: "fst (apply_command (CmdStop s) ?p) = Inr (StopCapture s)"
    and st: "dm_state (snd (apply_command (CmdStop s) ?p)) = Finalizing s"
    using assms by (simp_all add: apply_command_fst apply_command_app app_apply_result
        app_apply_machine sm_stop_def ensure_session_def)
  have ev: "length (ac_events (dm_app (snd (apply_command (CmdStop s) ?p)))) \<le> 254"
    using assms(4) app_apply_events[of "CmdStop s" "dm_app d"]
    by (simp add: apply_command_app finished_event_def)
  show ?thesis
    using assms ok st ev
    by (simp add: daemon_stop_def active_session_id_def Let_def case_prod_beta apply_ignored_app
        app_apply_machine sm_fail_def ensure_session_def)
qed

theorem failed_stop_keeps_target_witness:
  "\<exists>w. dm_armed (snd (daemon_stop [] w demo_listening)) = Some demo_arm \<and>
       \<not> is_active (dm_state (snd (daemon_stop [] w demo_listening)))"
proof -
  let ?w = "demo_world\<lparr> w_capture_stop := Inl cancelled_error \<rparr>"
  show ?thesis
    using failed_stop_keeps_target[OF demo_listening_eqs(4,2,5), of ?w cancelled_error]
      demo_listening_eqs(3)
    by (intro exI[of _ ?w]) simp
qed

section \<open>Routing by a validated configuration\<close>

lemma provider_id_new_Ex: "(\<exists>i. provider_id_new p = Inr i) \<longleftrightarrow> provider_id_new p = Inr (ProviderId p)"
  by (auto simp: provider_id_new_ok)

lemma provider_ids_ok:
  "\<forall>p \<in> set ps. \<exists>i. provider_id_new p = Inr i \<Longrightarrow> provider_ids ps = Inr (map ProviderId ps)"
  by (induction ps) (simp_all add: provider_id_new_Ex)

text \<open>
  a configuration that passes validation always composes into a daemon, and every one of its
  profiles plans, from the start, the full route it lists: the primary and then the fallbacks
  in order, without repetition, each with the adapter built from its own settings.
\<close>

theorem validated_config_routes_every_profile:
  assumes "config_validate config = Inr ()" and "distinct (map fst (cfg_providers config))"
    and "map_of (cfg_profiles config) name = Some profile"
  shows "\<exists>d policy. compose recognizers config wake = Inr d \<and> profile_policy profile = Inr policy \<and>
           plan_route policy now (dm_app d) =
             Inr \<lparr> rt_providers = map ProviderId (profile_route profile), rt_replay = pf_replay profile \<rparr> \<and>
           distinct (profile_route profile) \<and>
           (\<forall>id \<in> set (profile_route profile). \<exists>p. map_of (cfg_providers config) id = Some p \<and>
              ac_registry (dm_app d) (ProviderId id) =
                Some (build_adapter recognizers (ProviderId id) p))"
proof -
  note routes = config_validate_parts(1)[OF assms(1)]
  note keys = validate_routes_ok(1)[OF routes]
  have prof: "distinct (profile_route profile)"
      "\<forall>p \<in> set (profile_route profile). has_key p (cfg_providers config)"
    using validate_routes_ok(2)[OF routes] map_of_SomeD[OF assms(3)] by auto
  obtain reg where reg: "build_provider_registry recognizers config = Inr reg"
      "\<forall>i. registry_contains reg i \<longleftrightarrow> provider_id_str i \<in> fst ` set (cfg_providers config)"
      "\<forall>n p. map_of (cfg_providers config) n = Some p \<longrightarrow>
              reg (ProviderId n) = Some (build_adapter recognizers (ProviderId n) p)"
    using register_providers_ok[OF assms(2) keys, of Map.empty recognizers]
    by (auto simp: build_provider_registry_def registry_contains_def)
  obtain d where d: "compose recognizers config wake = Inr d" "dm_app d = app_with_wake reg wake"
    using assms(1) reg(1) by (simp add: compose_def)
  have ids: "\<forall>p \<in> set (profile_route profile). \<exists>i. provider_id_new p = Inr i"
    using prof(2) keys by (force simp: has_key_def dest: map_of_SomeD)
  then have policy: "profile_policy profile =
      Inr \<lparr> rp_primary = ProviderId (pf_primary profile),
            rp_fallbacks = map ProviderId (pf_fallbacks profile), rp_replay = pf_replay profile \<rparr>"
    by (simp add: profile_policy_def profile_route_def provider_ids_ok provider_id_new_Ex)
  have avail: "route_available (dm_app d) now (ProviderId p)" if "p \<in> set (profile_route profile)" for p
    using that prof(2) reg(2) d(2)
    by (force simp: route_available_def app_with_wake_def has_key_def dest: map_of_SomeD)
  have "filter (route_available (dm_app d) now) (map ProviderId (profile_route profile)) =
      map ProviderId (profile_route profile)"
    using avail by (auto intro: filter_True)
  then have plan: "plan_route \<lparr> rp_primary = ProviderId (pf_primary profile),
      rp_fallbacks = map ProviderId (pf_fallbacks profile), rp_replay = pf_replay profile \<rparr> now (dm_app d) =
      Inr \<lparr> rt_providers = map ProviderId (profile_route profile), rt_replay = pf_replay profile \<rparr>"
    by (simp only: plan_route_eq Let_def routing_policy.simps profile_route_def list.map) simp
  show ?thesis
    using d policy plan prof reg(3)
    by (intro exI[of _ d]) (auto simp: app_with_wake_def has_key_def)
qed

theorem validated_config_routes_every_profile_witness:
  "\<exists>d policy. compose (w_recognizers demo_world) demo_config wake_channel = Inr d \<and>
     plan_route policy 0 (dm_app d) =
       Inr \<lparr> rt_providers = [ProviderId ''mock''], rt_replay = Never \<rparr>"
proof -
  let ?p = "\<lparr> pf_primary = ''mock'', pf_fallbacks = [], pf_language = ''en'', pf_replay = Never \<rparr>"
  have "distinct (map fst (cfg_providers demo_config))"
      "map_of (cfg_profiles demo_config) ''main'' = Some ?p"
    by (simp_all add: demo_config_def)
  from validated_config_routes_every_profile[OF demo_config_valid this,
      of "w_recognizers demo_world" wake_channel 0]
  show ?thesis by (auto simp: profile_route_def)
qed

end
