(* ===== verification/Vad_Runs.thy ===== *)
theory Vad_Runs
  imports Vad
begin

text \<open>
  What the voice activity detector promises over a stream: the thresholds stay within the
  configured range, speech starts only after the configured number of voiced frames in a
  row and ends only after fifteen unvoiced ones, and the trimmed recording is the slice of
  the padded speech interval.
\<close>

section \<open>Thresholds\<close>

lemma threshold_for_bounds:
  "rms_threshold c \<le> threshold_for c n \<and> threshold_for c n \<le> sat_mul (rms_threshold c) 4"
proof -
  have "unat (rms_threshold c) \<le> 2 ^ 16 - 1"
    using unsigned_less[of "rms_threshold c", where ?'a = nat] by simp
  then have "rms_threshold c \<le> sat_mul (rms_threshold c) 4"
    by (simp add: word_le_nat_alt unat_sat_mul)
  then show ?thesis by (auto simp: threshold_for_def Let_def min_def max_def)
qed

definition threshold_ok :: "streaming_vad \<Rightarrow> bool" where
  "threshold_ok v \<longleftrightarrow>
     rms_threshold (vd_config v) \<le> vd_adaptive_threshold v \<and>
     vd_adaptive_threshold v \<le> sat_mul (rms_threshold (vd_config v)) 4"

lemma update_noise_simps [simp]:
  "vd_config (update_noise r v) = vd_config v"
  "vd_total_frames (update_noise r v) = vd_total_frames v"
  "vd_voiced_frames (update_noise r v) = vd_voiced_frames v"
  "vd_attack_frames (update_noise r v) = vd_attack_frames v"
  "vd_attack_start_frame (update_noise r v) = vd_attack_start_frame v"
  "vd_release_frames (update_noise r v) = vd_release_frames v"
  "vd_speech_active (update_noise r v) = vd_speech_active v"
  "vd_speech_start_frame (update_noise r v) = vd_speech_start_frame v"
  "vd_speech_end_frame (update_noise r v) = vd_speech_end_frame v"
  by (simp_all add: update_noise_def Let_def)

lemma threshold_ok_update_noise: "threshold_ok (update_noise r v)"
  using threshold_for_bounds by (simp add: threshold_ok_def update_noise_def Let_def)

lemmas frame_branch_defs = active_frame_def attack_frame_def idle_frame_def

lemma process_level_config [simp]: "vd_config (snd (process_level r v)) = vd_config v"
  by (simp add: process_level_def frame_branch_defs Let_def split: prod.splits)

lemma process_level_threshold:
  assumes "threshold_ok v" shows "threshold_ok (snd (process_level r v))"
proof -
  have same: "threshold_ok w" if "vd_config w = vd_config v"
      "vd_adaptive_threshold w = vd_adaptive_threshold v" for w
    using assms that by (simp add: threshold_ok_def)
  show ?thesis
    by (auto simp: process_level_def frame_branch_defs Let_def threshold_ok_update_noise
        intro: same split: prod.splits)
qed

lemma threshold_ok_initial: "threshold_ok (with_optional_noise_floor c n)"
  using threshold_for_bounds by (simp add: threshold_ok_def with_optional_noise_floor_def)

interpretation vad: invariant_machine process_level threshold_ok
  by unfold_locales (rule process_level_threshold)

section \<open>The detector against the history of its frames\<close>

text \<open>The length of the run of voiced or of unvoiced frames at the end of a history.\<close>

definition trailing :: "bool \<Rightarrow> vad_frame_analysis list \<Rightarrow> nat" where
  "trailing b outs = length (takeWhile (\<lambda>x. va_voiced x = b) (rev outs))"

lemma trailing_simps [simp]:
  "trailing b [] = 0"
  "trailing b (outs @ [x]) = (if va_voiced x = b then Suc (trailing b outs) else 0)"
  by (simp_all add: trailing_def)

text \<open>Whether the events of a history leave the speaker speaking.\<close>

definition speaking :: "vad_frame_analysis list \<Rightarrow> bool" where
  "speaking outs =
     fold (\<lambda>x s. case va_event x of
                     None \<Rightarrow> s | Some (SpeechStarted _) \<Rightarrow> True | Some (SpeechEnded _) \<Rightarrow> False)
       outs False"

lemma speaking_simps [simp]:
  "speaking [] = False"
  "speaking (outs @ [x]) =
     (case va_event x of
        None \<Rightarrow> speaking outs | Some (SpeechStarted _) \<Rightarrow> True | Some (SpeechEnded _) \<Rightarrow> False)"
  by (simp_all add: speaking_def split: option.split vad_event.split)

text \<open>
  The event that a frame has to carry, from the frames up to it: while the speaker is speaking, the
  fifteenth unvoiced frame in a row ends the speech, dated to the first of them; otherwise the
  needed number of voiced frames in a row starts it, dated to the first of them.
\<close>

definition expected_event :: "nat \<Rightarrow> vad_frame_analysis list \<Rightarrow> vad_event option" where
  "expected_event needed outs =
     (if speaking (butlast outs)
      then (if trailing False outs = 15
            then Some (SpeechEnded (word_of_nat (length outs - 15))) else None)
      else (if trailing True outs = needed
            then Some (SpeechStarted (word_of_nat (length outs - needed))) else None))"

text \<open>The threshold that a frame has to reach to be voiced.\<close>

definition needed_level :: "16 word \<Rightarrow> vad_frame_analysis list \<Rightarrow> 16 word" where
  "needed_level initial outs =
     (let entry = (if outs = [] then initial else va_adaptive_threshold (last outs))
      in if speaking outs then exit_threshold entry else entry)"

text \<open>
  The state in terms of the frames analysed so far: while speech is active its end is the frame
  after the last voiced one and the release counts the unvoiced frames that followed; otherwise the
  attack counts the voiced frames up to now.
\<close>

definition attack_needed :: "streaming_vad \<Rightarrow> nat" where
  "attack_needed v = unat (max (minimum_voiced_frames (vd_config v)) 1)"

definition vad_trace :: "vad_frame_analysis list \<Rightarrow> streaming_vad \<Rightarrow> bool" where
  "vad_trace outs v \<longleftrightarrow>
     unat (vd_total_frames v) = length outs \<and> vd_speech_active v = speaking outs \<and>
     (vd_speech_active v \<longrightarrow>
        vd_attack_frames v = 0 \<and> vd_attack_start_frame v = None \<and>
        unat (vd_release_frames v) < 15 \<and> trailing False outs = unat (vd_release_frames v) \<and>
        (\<exists>e. vd_speech_end_frame v = Some e \<and>
             unat e + unat (vd_release_frames v) = length outs)) \<and>
     (\<not> vd_speech_active v \<longrightarrow>
        vd_release_frames v = 0 \<and> unat (vd_attack_frames v) < attack_needed v \<and>
        trailing True outs = unat (vd_attack_frames v) \<and>
        (if vd_attack_frames v = 0 then vd_attack_start_frame v = None
         else \<exists>a. vd_attack_start_frame v = Some a \<and>
                  unat a + unat (vd_attack_frames v) = length outs)) \<and>
     (case (vd_speech_start_frame v, vd_speech_end_frame v) of
        (None, None) \<Rightarrow> \<not> vd_speech_active v
      | (Some s, Some e) \<Rightarrow> unat s < unat e \<and> unat e \<le> length outs
      | _ \<Rightarrow> False)"

lemma unat_succ32: "unat (w :: 32 word) + 1 < 2 ^ 32 \<Longrightarrow> unat (sat_add w 1) = unat w + 1"
  by (simp add: unat_sat_add)

lemma word_by_unat: "unat (w :: 32 word) + k = n \<Longrightarrow> w = word_of_nat (n - k)"
  by auto

lemma attack_needed_pos: "0 < attack_needed v"
proof -
  have "(1 :: 32 word) \<le> max (minimum_voiced_frames (vd_config v)) 1" by simp
  then show ?thesis by (simp add: attack_needed_def word_le_nat_alt)
qed

lemma vad_trace_initial: "vad_trace [] (with_optional_noise_floor c n)"
  using attack_needed_pos[of "with_optional_noise_floor c n"]
  by (simp add: vad_trace_def with_optional_noise_floor_def)

lemma vad_trace_step:
  assumes trace: "vad_trace outs v" and room: "length outs + 1 < 2 ^ 32"
    and step: "process_level rms v = (out, v')"
  shows "vad_trace (outs @ [out]) v' \<and>
         va_event out = expected_event (attack_needed v) (outs @ [out])"
proof -
  have tot: "unat (vd_total_frames v) = length outs" and spk: "vd_speech_active v = speaking outs"
    using trace by (simp_all add: vad_trace_def)
  have tot': "unat (sat_add (vd_total_frames v) 1) = length outs + 1"
    using unat_succ32[of "vd_total_frames v"] tot room by simp
  consider (active) "vd_speech_active v" | (attack) "\<not> vd_speech_active v"
      "vd_adaptive_threshold v \<le> rms" | (idle) "\<not> vd_speech_active v"
      "\<not> vd_adaptive_threshold v \<le> rms" by blast
  then show ?thesis
  proof cases
    case active
    then obtain e where e: "vd_speech_end_frame v = Some e"
        "unat e + unat (vd_release_frames v) = length outs"
        "trailing False outs = unat (vd_release_frames v)"
        "unat (vd_release_frames v) < 15" "vd_attack_frames v = 0" "vd_attack_start_frame v = None"
      using trace by (auto simp: vad_trace_def)
    obtain s where s: "vd_speech_start_frame v = Some s" "unat s < unat e"
      using trace e active by (auto simp: vad_trace_def split: option.splits)
    have rel: "unat (sat_add (vd_release_frames v) 1) = unat (vd_release_frames v) + 1"
      using e(4) by (intro unat_succ32) simp
    have ele: "unat e \<le> length outs" using e(2) by simp
    show ?thesis
    proof (cases "exit_threshold (vd_adaptive_threshold v) \<le> rms")
      case True
      then have o: "va_voiced out" "va_event out = None"
          and v': "vd_total_frames v' = sat_add (vd_total_frames v) 1" "vd_speech_active v'"
          "vd_attack_frames v' = 0" "vd_attack_start_frame v' = None" "vd_release_frames v' = 0"
          "vd_speech_end_frame v' = Some (sat_add (vd_total_frames v) 1)"
          "vd_speech_start_frame v' = Some s"
        using step active e s by (auto simp: process_level_def active_frame_def Let_def)
      then show ?thesis using active spk s ele
        by (simp add: vad_trace_def tot' expected_event_def)
    next
      case False
      note unvoiced = False
      show ?thesis
      proof (cases "end_silence_frames \<le> sat_add (vd_release_frames v) 1")
        case True
        then have r: "unat (vd_release_frames v) = 14"
          using e(4) by (simp add: end_silence_frames_def word_le_nat_alt rel)
        have o: "\<not> va_voiced out" "va_event out = Some (SpeechEnded e)"
          and v': "vd_total_frames v' = sat_add (vd_total_frames v) 1" "\<not> vd_speech_active v'"
          "vd_attack_frames v' = 0" "vd_attack_start_frame v' = None" "vd_release_frames v' = 0"
          "vd_speech_end_frame v' = Some e" "vd_speech_start_frame v' = Some s"
          using step active e s unvoiced True
          by (auto simp: process_level_def active_frame_def Let_def)
        have "e = word_of_nat (length (outs @ [out]) - 15)"
          using e(2) r by (intro word_by_unat) simp
        then show ?thesis using active spk s ele e r o attack_needed_pos[of v']
          by (simp add: vad_trace_def v' tot' expected_event_def)
      next
        case False
        then have r: "unat (vd_release_frames v) < 14"
          by (simp add: end_silence_frames_def word_le_nat_alt rel)
        have o: "\<not> va_voiced out" "va_event out = None"
          and v': "vd_total_frames v' = sat_add (vd_total_frames v) 1" "vd_speech_active v'"
          "vd_attack_frames v' = 0" "vd_attack_start_frame v' = None"
          "vd_release_frames v' = sat_add (vd_release_frames v) 1"
          "vd_speech_end_frame v' = Some e" "vd_speech_start_frame v' = Some s"
          using step active e s unvoiced False
          by (auto simp: process_level_def active_frame_def Let_def)
        then show ?thesis using active spk s ele e r
          by (simp add: vad_trace_def tot' rel expected_event_def)
      qed
    qed
  next
    case attack
    have at: "unat (vd_attack_frames v) < attack_needed v" "vd_release_frames v = 0"
        "trailing True outs = unat (vd_attack_frames v)"
      using trace attack by (auto simp: vad_trace_def)
    have at1: "unat (sat_add (vd_attack_frames v) 1) = unat (vd_attack_frames v) + 1"
    proof (rule unat_succ32)
      show "unat (vd_attack_frames v) + 1 < 2 ^ 32"
        using trace attack at room
        by (cases "vd_attack_frames v = 0") (auto simp: vad_trace_def)
    qed
    obtain a where a: "(if vd_attack_frames v = 0 then Some (vd_total_frames v)
                        else vd_attack_start_frame v) = Some a"
        "unat a + unat (vd_attack_frames v) = length outs"
      using trace attack tot by (cases "vd_attack_frames v = 0") (auto simp: vad_trace_def)
    have reached: "max (minimum_voiced_frames (vd_config v)) 1 \<le> sat_add (vd_attack_frames v) 1
        \<longleftrightarrow> unat (vd_attack_frames v) + 1 = attack_needed v"
      using at at1 by (simp only: word_le_nat_alt attack_needed_def) linarith
    show ?thesis
    proof (cases "unat (vd_attack_frames v) + 1 = attack_needed v")
      case True
      have o: "va_voiced out" "va_event out = Some (SpeechStarted a)"
        and v': "vd_total_frames v' = sat_add (vd_total_frames v) 1" "vd_speech_active v'"
        "vd_attack_frames v' = 0" "vd_attack_start_frame v' = None" "vd_release_frames v' = 0"
        "vd_speech_end_frame v' = Some (sat_add (vd_total_frames v) 1)"
        "vd_speech_start_frame v' = (case vd_speech_start_frame v of None \<Rightarrow> Some a | Some s \<Rightarrow> Some s)"
        using step attack a(1) at True reached
        by (auto simp: process_level_def attack_frame_def Let_def split: option.splits if_splits)
      have "a = word_of_nat (length (outs @ [out]) - attack_needed v)"
        using a(2) True by (intro word_by_unat) simp
      moreover have "vad_trace (outs @ [out]) v'"
        using trace a o by (auto simp: vad_trace_def v' tot' split: option.splits)
      ultimately show ?thesis using attack spk o at True by (simp add: expected_event_def)
    next
      case False
      have o: "va_voiced out" "va_event out = None"
        and v': "vd_total_frames v' = sat_add (vd_total_frames v) 1" "\<not> vd_speech_active v'"
        "vd_attack_frames v' = sat_add (vd_attack_frames v) 1" "vd_attack_start_frame v' = Some a"
        "vd_release_frames v' = 0" "vd_speech_end_frame v' = vd_speech_end_frame v"
        "vd_speech_start_frame v' = vd_speech_start_frame v"
        using step attack a(1) at False reached
        by (auto simp: process_level_def attack_frame_def Let_def)
      have cfg: "attack_needed v' = attack_needed v"
        using process_level_config[of rms v] step by (simp add: attack_needed_def)
      have "sat_add (vd_attack_frames v) 1 \<noteq> 0" using at1 by auto
      then have "vad_trace (outs @ [out]) v'"
        using trace attack a o at at1 False
        by (auto simp: vad_trace_def v' tot' cfg split: option.splits)
      with o show ?thesis using attack spk at False by (simp add: expected_event_def)
    qed
  next
    case idle
    then have o: "\<not> va_voiced out" "va_event out = None"
      and v': "vd_total_frames v' = sat_add (vd_total_frames v) 1" "\<not> vd_speech_active v'"
      "vd_attack_frames v' = 0" "vd_attack_start_frame v' = None"
      "vd_release_frames v' = vd_release_frames v"
      "vd_speech_end_frame v' = vd_speech_end_frame v"
      "vd_speech_start_frame v' = vd_speech_start_frame v"
      using step by (auto simp: process_level_def idle_frame_def Let_def)
    have "vad_trace (outs @ [out]) v'"
      using trace idle attack_needed_pos[of v'] o
      by (auto simp: vad_trace_def v' tot' split: option.splits)
    with o show ?thesis using idle spk attack_needed_pos[of v] by (simp add: expected_event_def)
  qed
qed

text \<open>What a step says of its frame: the level, and whether that reaches the threshold.\<close>

lemma process_level_voiced:
  assumes "process_level rms v = (out, v')"
  shows "va_rms out = rms" and "va_frame out = vd_total_frames v"
    and "va_voiced out \<longleftrightarrow>
           (if vd_speech_active v then exit_threshold (vd_adaptive_threshold v)
            else vd_adaptive_threshold v) \<le> rms"
    and "va_speech_active out = vd_speech_active v'"
    and "va_adaptive_threshold out = vd_adaptive_threshold v'"
  using assms
  by (auto simp: process_level_def frame_branch_defs Let_def split: if_splits)

definition frame_as_expected ::
  "nat \<Rightarrow> 16 word \<Rightarrow> 16 word \<Rightarrow> vad_frame_analysis list \<Rightarrow> vad_frame_analysis \<Rightarrow> bool" where
  "frame_as_expected needed initial rms past out \<longleftrightarrow>
     unat (va_frame out) = length past \<and> va_rms out = rms \<and>
     (va_voiced out \<longleftrightarrow> needed_level initial past \<le> rms) \<and>
     va_event out = expected_event needed (past @ [out]) \<and>
     (va_speech_active out \<longleftrightarrow> speaking (past @ [out]))"

lemma vad_run_trace:
  assumes "vad_trace outs v" and "length outs + length levels < 2 ^ 32"
    and "vd_adaptive_threshold v = (if outs = [] then initial else va_adaptive_threshold (last outs))"
  shows "vad_trace (outs @ fst (run_steps process_level levels v)) (snd (run_steps process_level levels v)) \<and>
         (\<forall>i < length levels. frame_as_expected (attack_needed v) initial (levels ! i)
            (outs @ take i (fst (run_steps process_level levels v)))
            (fst (run_steps process_level levels v) ! i))"
  using assms
proof (induction levels arbitrary: outs v)
  case (Cons r levels)
  obtain out v' where step: "process_level r v = (out, v')" by (cases "process_level r v")
  have st: "vad_trace (outs @ [out]) v'" "va_event out = expected_event (attack_needed v) (outs @ [out])"
    using vad_trace_step[OF Cons.prems(1) _ step] Cons.prems(2) by simp_all
  have first: "frame_as_expected (attack_needed v) initial r outs out"
    using st process_level_voiced[OF step] Cons.prems(1,3)
    by (simp add: frame_as_expected_def needed_level_def vad_trace_def del: speaking_simps(2))
  have cfg: "attack_needed v' = attack_needed v"
    using process_level_config[of r v] step by (simp add: attack_needed_def)
  have IH: "vad_trace ((outs @ [out]) @ fst (run_steps process_level levels v'))
        (snd (run_steps process_level levels v')) \<and>
      (\<forall>i < length levels. frame_as_expected (attack_needed v) initial (levels ! i)
         ((outs @ [out]) @ take i (fst (run_steps process_level levels v')))
         (fst (run_steps process_level levels v') ! i))"
    using Cons.IH[of "outs @ [out]" v'] st Cons.prems(2) cfg process_level_voiced(5)[OF step] by simp
  have "frame_as_expected (attack_needed v) initial ((r # levels) ! i)
      (outs @ take i (out # fst (run_steps process_level levels v')))
      ((out # fst (run_steps process_level levels v')) ! i)"
    if "i < length (r # levels)" for i
    using that first IH by (cases i) simp_all
  then show ?case
    using IH by (simp add: run_simps step del: run_steps.simps(2))
qed simp

section \<open>Statistics and trimming\<close>

lemma vad_finish_bounds:
  assumes "vad_trace outs v" and "vr_speech_detected (vad_finish v)"
  shows "\<exists>s e ts te.
           vr_speech_start_frame (vad_finish v) = Some s \<and>
           vr_speech_end_frame (vad_finish v) = Some e \<and>
           vr_trim_start_frame (vad_finish v) = Some ts \<and>
           vr_trim_end_frame (vad_finish v) = Some te \<and>
           unat ts = unat s - 8 \<and> unat s < unat e \<and> unat e \<le> unat te \<and>
           unat te = min (unat e + 15) (length outs)"
proof -
  have ne: "vd_total_frames v \<noteq> 0"
    using assms(2) by (auto simp: vad_finish_def empty_result_def)
  then obtain s e where se: "vd_speech_start_frame v = Some s" "vd_speech_end_frame v = Some e"
    using assms(2) by (auto simp: vad_finish_def)
  have tot: "unat (vd_total_frames v) = length outs" and lt: "unat s < unat e"
    and le: "unat e \<le> length outs"
    using assms(1) se by (auto simp: vad_trace_def)
  have "length outs < 2 ^ 32"
    using unsigned_less[of "vd_total_frames v", where ?'a = nat] by (simp add: tot)
  then have te: "unat (min (sat_add e post_roll_frames) (vd_total_frames v)) =
      min (unat e + 15) (length outs)"
    by (simp add: min_def word_le_nat_alt tot unat_sat_add post_roll_frames_def)
  show ?thesis
    using se lt le te ne
    by (simp add: vad_finish_def unat_sat_sub pre_roll_frames_def)
qed

lemma chunks_levels:
  "640 * length (filter (\<lambda>c. 2 \<le> length c) (chunks bytes_per_frame xs)) \<le> length xs + 638"
proof (induction bytes_per_frame xs rule: chunks.induct)
  case (1 xs)
  show ?case
  proof (cases "xs = []")
    case True
    then show ?thesis by (simp add: chunks.simps)
  next
    case False
    then have "chunks bytes_per_frame xs =
        take bytes_per_frame xs # chunks bytes_per_frame (drop bytes_per_frame xs)"
      by (subst chunks.simps) (simp add: bytes_per_frame_def)
    then show ?thesis
      using 1 False by (cases "bytes_per_frame \<le> length xs")
        (auto simp: bytes_per_frame_def chunks.simps[of _ "[]"])
  qed
qed

lemma frame_levels_fold:
  "length (fst (fold (\<lambda>frame (levels, peak).
             let (rms, frame_peak) = frame_level frame
             in if 2 \<le> length frame then (levels @ [rms], max peak frame_peak) else (levels, peak))
       cs (levels, peak))) = length levels + length (filter (\<lambda>c. 2 \<le> length c) cs)"
  by (induction cs arbitrary: levels peak) (auto simp: Let_def split: prod.splits)

lemma frame_levels_length: "640 * length (fst (frame_levels pcm)) \<le> length pcm + 638"
  using chunks_levels[of pcm] by (simp only: frame_levels_def frame_levels_fold) simp

text \<open>The batch analysis is the end of one run of the detector.\<close>

lemma vad_trace_peak [simp]: "vad_trace outs (v\<lparr> vd_peak := p \<rparr>) = vad_trace outs v"
  by (auto simp: vad_trace_def attack_needed_def split: option.splits if_splits)

lemma analyze_pcm_trace:
  assumes "length pcm < 2 ^ 32" and "vr_speech_detected (analyze_pcm pcm c)"
  shows "\<exists>outs v. vad_trace outs v \<and> analyze_pcm pcm c = vad_finish v \<and>
           length outs = length (fst (frame_levels pcm))"
proof -
  obtain levels peak where lp: "frame_levels pcm = (levels, peak)" by (cases "frame_levels pcm")
  have "640 * length levels \<le> length pcm + 638" using frame_levels_length[of pcm] lp by simp
  then have "length levels < 2 ^ 32" using assms(1) by linarith
  then show ?thesis
    using vad_run_trace[OF vad_trace_initial, of levels c "Some (low_percentile levels)"
        "threshold_for c (low_percentile levels)"] assms(2) lp
    by (intro exI[of _ "fst (run_steps process_level levels
              (with_noise_floor c (low_percentile levels)))"]
          exI[of _ "(snd (run_steps process_level levels
              (with_noise_floor c (low_percentile levels))))\<lparr> vd_peak := peak \<rparr>"])
       (auto simp: analyze_pcm_def with_noise_floor_def with_optional_noise_floor_def or_default_def
          empty_result_def Let_def split: if_splits)
qed

section \<open>Properties\<close>

text \<open>
  C38: in every stream each frame is voiced exactly when its level reaches the threshold that the
  frame before it left (three quarters of it during speech), and the detector reports an event
  exactly when it should: the start of speech at the last of the configured number of consecutive
  voiced frames, dated to the first of them, and the end of a speech that was started at the
  fifteenth consecutive unvoiced frame, dated to the first of them; no other frame carries an event.
\<close>

theorem speech_events_are_confirmed:
  fixes c n levels
  defines "outs \<equiv> fst (run_steps process_level levels (with_optional_noise_floor c n))"
  assumes "length levels < 2 ^ 32" and "i < length levels"
  shows "va_event (outs ! i) =
           expected_event (unat (max (minimum_voiced_frames c) 1)) (take i outs @ [outs ! i]) \<and>
         (va_voiced (outs ! i) \<longleftrightarrow>
           needed_level (threshold_for c (or_default n)) (take i outs) \<le> levels ! i) \<and>
         (va_speech_active (outs ! i) \<longleftrightarrow> speaking (take i outs @ [outs ! i]))"
proof -
  have "attack_needed (with_optional_noise_floor c n) = unat (max (minimum_voiced_frames c) 1)"
    "vd_adaptive_threshold (with_optional_noise_floor c n) = threshold_for c (or_default n)"
    by (simp_all add: attack_needed_def with_optional_noise_floor_def)
  then have "frame_as_expected (unat (max (minimum_voiced_frames c) 1))
      (threshold_for c (or_default n)) (levels ! i) (take i outs) (outs ! i)"
    using vad_run_trace[OF vad_trace_initial, of levels c n "threshold_for c (or_default n)"] assms
    by simp
  then show ?thesis by (simp only: frame_as_expected_def)
qed

abbreviation demo_vad_config :: vad_config where
  "demo_vad_config \<equiv> \<lparr> rms_threshold = 500, minimum_voiced_frames = 2 \<rparr>"

theorem speech_events_are_confirmed_witness:
  "map va_event (fst (run_steps process_level [10, 900, 900] (vad_new demo_vad_config))) =
     [None, None, Some (SpeechStarted 1)] \<and>
   expected_event 2 (fst (run_steps process_level [10, 900, 900] (vad_new demo_vad_config))) =
     Some (SpeechStarted 1)"
proof -
  let ?outs = "fst (run_steps process_level [10, 900, 900] (vad_new demo_vad_config))"
  have ev: "map va_event ?outs = [None, None, Some (SpeechStarted 1)]"
    by (simp add: vad_new_def with_optional_noise_floor_def process_level_def frame_branch_defs
        update_noise_def threshold_for_def sat_add_def sat_mul_def Let_def or_default_def
        word_le_nat_alt max_def min_def)
  obtain outs where outs: "outs = ?outs" by simp
  have len: "length outs = 3" using arg_cong[OF ev, of length] unfolding outs by simp
  then have whole: "take 2 outs @ [outs ! 2] = outs"
    using take_Suc_conv_app_nth[of 2 outs] by simp
  have "va_event (outs ! 2) = map va_event outs ! 2" using len by simp
  then have "va_event (outs ! 2) = Some (SpeechStarted 1)" using ev unfolding outs by simp
  moreover have "va_event (outs ! 2) = expected_event 2 outs"
    using speech_events_are_confirmed[of "[10, 900, 900]" 2 demo_vad_config None]
    by (simp add: vad_new_def[symmetric] outs[symmetric] whole del: run_steps.simps)
  ultimately show ?thesis using ev by (simp add: outs del: run_steps.simps)
qed

text \<open>
  however the noise develops, the adaptive entry threshold of a detector stays between the
  configured threshold and four times that value (at most 65535), so that noise can neither
  make the detector more sensitive than configured nor deaf.
\<close>

theorem adaptive_threshold_bounded:
  "rms_threshold c \<le>
     vd_adaptive_threshold (snd (run_steps process_level levels (with_optional_noise_floor c n))) \<and>
   vd_adaptive_threshold (snd (run_steps process_level levels (with_optional_noise_floor c n))) \<le>
     sat_mul (rms_threshold c) 4"
proof -
  have "vd_config (snd (run_steps process_level levels v)) = vd_config v" for v
    by (induction levels arbitrary: v) (simp_all add: run_simps del: run_steps.simps(2))
  then have "vd_config (snd (run_steps process_level levels (with_optional_noise_floor c n))) = c"
    by (simp add: with_optional_noise_floor_def)
  then show ?thesis
    using vad.run_inv[OF threshold_ok_initial, of levels c n] by (simp add: threshold_ok_def)
qed

text \<open>
  when the analysis of a recording detects speech, its interval is not empty and lies
  within the trimmed one, which is padded by at most 8 frames before and 15 after, and trimming
  the file keeps exactly the bytes of that interval, which are not empty.
\<close>

theorem trim_keeps_padded_speech:
  assumes "length pcm < 2 ^ 32" and "vr_speech_detected (analyze_pcm pcm c)"
  shows "\<exists>s e ts te.
           vr_speech_start_frame (analyze_pcm pcm c) = Some s \<and>
           vr_speech_end_frame (analyze_pcm pcm c) = Some e \<and>
           vr_trim_start_frame (analyze_pcm pcm c) = Some ts \<and>
           vr_trim_end_frame (analyze_pcm pcm c) = Some te \<and>
           unat ts = unat s - 8 \<and> unat s < unat e \<and> unat e \<le> unat te \<and>
           unat te \<le> unat e + 15 \<and>
           snd (trim_file pcm (analyze_pcm pcm c)) =
             take (640 * unat te - 640 * unat ts) (drop (640 * unat ts) pcm) \<and>
           snd (trim_file pcm (analyze_pcm pcm c)) \<noteq> [] \<and>
           fst (trim_file pcm (analyze_pcm pcm c)) =
             length (snd (trim_file pcm (analyze_pcm pcm c)))"
proof -
  obtain outs v where v: "vad_trace outs v" "analyze_pcm pcm c = vad_finish v"
      "length outs = length (fst (frame_levels pcm))"
    using analyze_pcm_trace[OF assms] by blast
  obtain s e ts te where b: "vr_speech_start_frame (vad_finish v) = Some s"
      "vr_speech_end_frame (vad_finish v) = Some e"
      "vr_trim_start_frame (vad_finish v) = Some ts" "vr_trim_end_frame (vad_finish v) = Some te"
      "unat ts = unat s - 8" "unat s < unat e" "unat e \<le> unat te"
      "unat te = min (unat e + 15) (length outs)"
    using vad_finish_bounds[OF v(1)] assms(2) v(2) by auto
  have "640 * unat te \<le> 640 * length outs" using b(8) by simp
  also have "\<dots> \<le> length pcm + 638" using frame_levels_length[of pcm] v(3) by simp
  finally have fit: "640 * unat te \<le> length pcm + 638" .
  have lt: "unat ts + 1 \<le> unat te" using b(5,6,7) by linarith
  have start: "640 * unat ts < length pcm" using fit lt by linarith
  have stop: "640 * unat ts < min (640 * unat te) (length pcm)" using start lt by simp
  then have not_le: "\<not> min (unat te * 640) (length pcm) \<le> unat ts * 640"
    by (simp only: not_le mult.commute)
  have trim: "trim_file pcm (vad_finish v) =
      (min (640 * unat te) (length pcm) - 640 * unat ts,
       take (min (640 * unat te) (length pcm) - 640 * unat ts) (drop (640 * unat ts) pcm))"
    using start not_le by (simp add: trim_file_def b(3,4) bytes_per_frame_def Let_def mult.commute)
  have same: "take (min (640 * unat te) (length pcm) - 640 * unat ts) (drop (640 * unat ts) pcm) =
      take (640 * unat te - 640 * unat ts) (drop (640 * unat ts) pcm)"
    by (cases "640 * unat te \<le> length pcm") (simp_all add: min_def)
  have out: "trim_file pcm (analyze_pcm pcm c) =
      (length (take (640 * unat te - 640 * unat ts) (drop (640 * unat ts) pcm)),
       take (640 * unat te - 640 * unat ts) (drop (640 * unat ts) pcm))"
    unfolding v(2) trim same[symmetric] by simp
  have ne: "take (640 * unat te - 640 * unat ts) (drop (640 * unat ts) pcm) \<noteq> []"
    using start lt by simp
  have te15: "unat te \<le> unat e + 15" using b(8) by simp
  show ?thesis
    using b(1-7) te15 ne unfolding out v(2)[symmetric] fst_conv snd_conv by blast
qed

abbreviation demo_pcm :: bytes where
  "demo_pcm \<equiv> [232, 3, 232, 3]"

lemma demo_pcm_level: "fst (frame_level demo_pcm) = 1000"
proof -
  have "mean_square demo_pcm = 1000 * 1000"
    by (simp add: mean_square_def square_total_def unsigned_abs_nat i16_from_le_def
        flip: numeral_2_eq_2)
  then have "unat (fst (frame_level demo_pcm)) = 1000"
    using frame_level_rms[of demo_pcm] isqrt.root_square[of 1000] by simp
  then show ?thesis by (simp add: word_unat_eq_iff)
qed

theorem trim_keeps_padded_speech_witness:
  "vr_speech_detected (analyze_pcm demo_pcm \<lparr> rms_threshold = 100, minimum_voiced_frames = 1 \<rparr>) \<and>
   snd (trim_file demo_pcm
      (analyze_pcm demo_pcm \<lparr> rms_threshold = 100, minimum_voiced_frames = 1 \<rparr>)) \<noteq> []"
proof -
  let ?c = "\<lparr> rms_threshold = 100, minimum_voiced_frames = 1 \<rparr>"
  have "fst (frame_levels demo_pcm) = [1000]"
    by (simp add: frame_levels_def bytes_per_frame_def chunks.simps demo_pcm_level case_prod_beta Let_def)
  then obtain peak where "frame_levels demo_pcm = ([1000], peak)"
    by (cases "frame_levels demo_pcm") simp
  then have speech: "vr_speech_detected (analyze_pcm demo_pcm ?c)"
    by (simp add: analyze_pcm_def low_percentile_def with_noise_floor_def
        with_optional_noise_floor_def process_level_def frame_branch_defs threshold_for_def
        sat_add_def sat_mul_def Let_def or_default_def word_le_nat_alt max_def min_def
        vad_finish_def)
  show ?thesis
    using trim_keeps_padded_speech[OF _ speech] speech by auto
qed

end
