(* ===== verification/Doubao_Wire.thy ===== *)
theory Doubao_Wire
  imports Provider_Common Utf8
begin

text \<open>
  The wire format of the unofficial Doubao provider
  (crates/voxtype-provider-doubao/src/lib.rs): the writer of the request envelope and the reader
  of the response envelope, over a message and a cursor into it. A reader returns the message
  of a protocol error, or the value read and the next cursor; a failed read ends the decoding,
  so the cursor is not part of a failure. A cursor is a usize of 64 bits.
\<close>

unbundle bit_operations_syntax

section \<open>Writing\<close>

function write_varint :: "64 word \<Rightarrow> bytes" where
  "write_varint value =
     (if 0x80 \<le> value then (ucast (value AND 0x7F) OR 0x80) # write_varint (drop_bit 7 value)
      else [ucast value])"
  by pat_completeness auto
termination
proof (relation "measure unat")
  fix v :: "64 word"
  assume "0x80 \<le> v"
  then have "0 < unat v" by (simp add: word_le_nat_alt)
  then have "unat v div 2 ^ 7 < unat v" by (intro div_less_dividend) auto
  moreover have "unat (drop_bit 7 v) = unat v div 2 ^ 7"
    using unat_drop_bit_eq[of 7 v] drop_bit_eq_div[of 7 "unat v"] by simp
  ultimately show "(drop_bit 7 v, v) \<in> measure unat" by simp
qed simp

declare write_varint.simps [simp del]

definition write_bytes :: "32 word \<Rightarrow> bytes \<Rightarrow> bytes" where
  "write_bytes field value =
     write_varint (push_bit 3 (ucast field) OR 2) @ write_varint (word_of_nat (length value)) @ value"

definition write_varint_field :: "32 word \<Rightarrow> 64 word \<Rightarrow> bytes" where
  "write_varint_field field value = write_varint (push_bit 3 (ucast field)) @ write_varint value"

datatype frame_state = First | Middle | Last

fun frame_state_value :: "frame_state option \<Rightarrow> 64 word" where
  "frame_state_value None = 0"
| "frame_state_value (Some First) = 1"
| "frame_state_value (Some Middle) = 3"
| "frame_state_value (Some Last) = 9"

definition encode_request ::
  "bytes \<Rightarrow> string \<Rightarrow> bytes \<Rightarrow> bytes \<Rightarrow> bytes \<Rightarrow> frame_state option \<Rightarrow> bytes" where
  "encode_request token method json_payload audio request_id frame_state =
     write_bytes 2 token @ write_bytes 3 (ascii ''ASR'') @ write_bytes 5 (ascii method) @
     write_bytes 6 json_payload @ write_bytes 7 audio @ write_bytes 8 request_id @
     write_varint_field 9 (frame_state_value frame_state)"

section \<open>Reading\<close>

type_synonym 'a reader = "bytes \<Rightarrow> nat \<Rightarrow> string + ('a \<times> nat)"

definition varint_shifts :: "nat list" where
  "varint_shifts = [0, 7, 14, 21, 28, 35, 42, 49, 56, 63]"

fun read_varint_loop :: "nat list \<Rightarrow> 64 word \<Rightarrow> 64 word reader" where
  "read_varint_loop [] value message cursor = Inl ''protobuf varint is too long''"
| "read_varint_loop (shift # shifts) value message cursor =
     (if length message \<le> cursor then Inl ''truncated protobuf varint''
      else let byte = message ! cursor;
               value' = value OR push_bit shift (ucast (byte AND 0x7F))
           in if shift = 63 \<and> 1 < byte then Inl ''protobuf varint overflow''
              else if byte AND 0x80 = 0 then Inr (value', cursor + 1)
              else read_varint_loop shifts value' message (cursor + 1))"

definition read_varint :: "64 word reader" where
  "read_varint = read_varint_loop varint_shifts 0"

definition read_bytes :: "bytes reader" where
  "read_bytes message cursor =
     try_then (read_varint message cursor) (\<lambda>(len, c).
       if 2 ^ 64 \<le> c + unat len then Inl ''protobuf field length overflow''
       else if length message < c + unat len then Inl ''truncated protobuf bytes field''
       else Inr (take (unat len) (drop c message), c + unat len))"

definition read_string :: "utext reader" where
  "read_string message cursor =
     try_then (read_bytes message cursor) (\<lambda>(value, c).
       case utf8_decode (map unat value) of
         None \<Rightarrow> Inl ''protobuf string is not UTF-8'' | Some t \<Rightarrow> Inr (t, c))"

definition advance :: "nat \<Rightarrow> unit reader" where
  "advance count message cursor =
     (if 2 ^ 64 \<le> cursor + count then Inl ''protobuf cursor overflow''
      else if length message < cursor + count then Inl ''truncated protobuf fixed-width field''
      else Inr ((), cursor + count))"

definition skip_field :: "nat \<Rightarrow> unit reader" where
  "skip_field wire message cursor =
     (if wire = 0 then try_then (read_varint message cursor) (\<lambda>(_, c). Inr ((), c))
      else if wire = 1 then advance 8 message cursor
      else if wire = 2 then try_then (read_bytes message cursor) (\<lambda>(_, c). Inr ((), c))
      else if wire = 5 then advance 4 message cursor
      else Inl ''unsupported protobuf wire type'')"

record response_envelope =
  re_request_id :: utext
  re_task_id :: utext
  re_service :: utext
  re_message_type :: utext
  re_status_code :: "64 word"
  re_status_message :: utext
  re_result_json :: bytes

definition response_envelope_default :: response_envelope where
  "response_envelope_default =
     \<lparr> re_request_id = [], re_task_id = [], re_service = [], re_message_type = [],
       re_status_code = 0, re_status_message = [], re_result_json = [] \<rparr>"

definition max_message_bytes :: nat where
  "max_message_bytes = 4 * 1024 * 1024"

definition decode_value ::
  "nat \<Rightarrow> nat \<Rightarrow> response_envelope \<Rightarrow> response_envelope reader" where
  "decode_value field wire r message cursor =
     (if wire = 2 \<and> field = 1 then
        try_then (read_string message cursor) (\<lambda>(t, c). Inr (r\<lparr> re_request_id := t \<rparr>, c))
      else if wire = 2 \<and> field = 2 then
        try_then (read_string message cursor) (\<lambda>(t, c). Inr (r\<lparr> re_task_id := t \<rparr>, c))
      else if wire = 2 \<and> field = 3 then
        try_then (read_string message cursor) (\<lambda>(t, c). Inr (r\<lparr> re_service := t \<rparr>, c))
      else if wire = 2 \<and> field = 4 then
        try_then (read_string message cursor) (\<lambda>(t, c). Inr (r\<lparr> re_message_type := t \<rparr>, c))
      else if wire = 0 \<and> field = 5 then
        try_then (read_varint message cursor) (\<lambda>(n, c). Inr (r\<lparr> re_status_code := n \<rparr>, c))
      else if wire = 2 \<and> field = 6 then
        try_then (read_string message cursor) (\<lambda>(t, c). Inr (r\<lparr> re_status_message := t \<rparr>, c))
      else if wire = 2 \<and> field = 7 then
        try_then (read_bytes message cursor) (\<lambda>(b, c). Inr (r\<lparr> re_result_json := b \<rparr>, c))
      else try_then (skip_field wire message cursor) (\<lambda>(_, c). Inr (r, c)))"

definition decode_field :: "response_envelope \<Rightarrow> response_envelope reader" where
  "decode_field r message cursor =
     try_then (read_varint message cursor) (\<lambda>(key, c).
       if 2 ^ 32 \<le> unat (drop_bit 3 key) then Inl ''invalid field number''
       else decode_value (unat (drop_bit 3 key)) (unat (key AND 7)) r message c)"

section \<open>A successful read moves the cursor\<close>

lemma read_varint_loop_progress:
  "read_varint_loop shifts v message cursor = Inr (x, c) \<Longrightarrow> cursor < c \<and> c \<le> length message"
  by (induction shifts v message cursor rule: read_varint_loop.induct)
     (auto simp: Let_def not_le split: if_splits intro: Suc_lessD)

lemma read_varint_progress:
  "read_varint message cursor = Inr (x, c) \<Longrightarrow> cursor < c \<and> c \<le> length message"
  unfolding read_varint_def by (rule read_varint_loop_progress)

lemma read_bytes_progress:
  "read_bytes message cursor = Inr (x, c) \<Longrightarrow> cursor < c \<and> c \<le> length message"
  by (auto simp: read_bytes_def try_then_ok_iff split: if_splits dest!: read_varint_progress)

lemma read_string_progress:
  "read_string message cursor = Inr (x, c) \<Longrightarrow> cursor < c \<and> c \<le> length message"
  by (auto simp: read_string_def try_then_ok_iff split: option.splits dest!: read_bytes_progress)

lemma skip_field_progress:
  "skip_field wire message cursor = Inr (x, c) \<Longrightarrow> cursor < c \<and> c \<le> length message"
  by (auto simp: skip_field_def advance_def try_then_ok_iff split: if_splits
      dest!: read_varint_progress read_bytes_progress)

lemma decode_value_progress:
  assumes "decode_value field wire r message cursor = Inr (x, c)"
  shows "cursor < c \<and> c \<le> length message"
  using assms
  by (auto simp: decode_value_def try_then_ok_iff split: if_splits
      dest!: read_string_progress read_bytes_progress read_varint_progress skip_field_progress)

lemma decode_field_progress:
  assumes "decode_field r message cursor = Inr (x, c)"
  shows "cursor < c \<and> c \<le> length message"
  using assms
  by (fastforce simp: decode_field_def try_then_ok_iff split: if_splits
      dest!: read_varint_progress decode_value_progress)

function decode_loop ::
  "bytes \<Rightarrow> nat \<Rightarrow> response_envelope \<Rightarrow> string + response_envelope" where
  "decode_loop message cursor r =
     (if cursor < length message
      then (case decode_field r message cursor of
              Inl e \<Rightarrow> Inl e | Inr (r', cursor') \<Rightarrow> decode_loop message cursor' r')
      else Inr r)"
  by pat_completeness auto
termination
  by (relation "measure (\<lambda>(message, cursor, r). length message - cursor)")
     (auto dest!: sym[of "Inr _"] decode_field_progress)

declare decode_loop.simps [simp del]

definition decode_response :: "bytes \<Rightarrow> string + response_envelope" where
  "decode_response message =
     (if max_message_bytes < length message
      then Inl ''doubao response exceeds the size limit''
      else decode_loop message 0 response_envelope_default)"

section \<open>Reading back a varint\<close>

text \<open>
  The low seven bits of a value travel in one byte, whose top bit says whether more follow; the
  facts are stated with take_bit, and the masks of the code are brought to it.
\<close>

lemma low_mask: "x AND 0x7F = take_bit 7 x" for x :: "'a::len word"
  by (simp add: take_bit_eq_mask mask_numeral)

lemma top_mask: "x AND 0x80 = 0 \<longleftrightarrow> \<not> bit x 7" for x :: "8 word"
  using and_exp_eq_0_iff_not_bit[of x 7] by simp

lemma more_byte:
  fixes v :: "64 word"
  defines "b \<equiv> (ucast (v AND 0x7F) :: 8 word) OR 0x80"
  shows "b AND 0x80 \<noteq> 0" and "(ucast (b AND 0x7F) :: 64 word) = take_bit 7 v"
proof -
  have b: "b = ucast (take_bit 7 v) OR push_bit 7 1"
    by (simp add: b_def low_mask)
  show "b AND 0x80 \<noteq> 0" unfolding top_mask b by (simp add: bit_simps)
  show "(ucast (b AND 0x7F) :: 64 word) = take_bit 7 v" unfolding low_mask b
    by (rule bit_word_eqI) (auto simp: bit_simps)
qed

lemma last_byte:
  fixes v :: "64 word"
  assumes "\<not> 0x80 \<le> v"
  shows "(ucast v :: 8 word) AND 0x80 = 0"
    and "(ucast ((ucast v :: 8 word) AND 0x7F) :: 64 word) = v"
    and "unat (ucast v :: 8 word) = unat v"
proof -
  have small: "unat v < 2 ^ 7" using assms by (simp add: word_le_nat_alt)
  then have v: "take_bit 7 v = v"
    by (intro unsigned_word_eqI[where ?'a = nat]) (simp add: unsigned_take_bit_eq take_bit_nat_eq_self)
  show "unat (ucast v :: 8 word) = unat v"
    using small by (simp add: unsigned_ucast_eq take_bit_nat_eq_self)
  have nb: "\<not> bit v n" if "7 \<le> n" for n
    using that v by (metis bit_take_bit_iff not_less)
  show "(ucast v :: 8 word) AND 0x80 = 0" unfolding top_mask
    using nb[of 7] by (simp add: bit_simps)
  show "(ucast ((ucast v :: 8 word) AND 0x7F) :: 64 word) = v" unfolding low_mask
    by (rule bit_word_eqI) (use nb in \<open>auto simp: bit_simps not_le[symmetric]\<close>)
qed

lemma push_split:
  "push_bit s (take_bit 7 v) OR push_bit (s + 7) (drop_bit 7 v) = push_bit s v"
  for v :: "64 word"
proof (rule bit_word_eqI)
  fix n assume "n < LENGTH(64)"
  have "s + 7 \<le> n \<Longrightarrow> 7 + (n - (s + 7)) = n - s" by simp
  moreover have "n - s < 7 \<longleftrightarrow> n < s + 7" if "s \<le> n" using that by linarith
  ultimately show "bit (push_bit s (take_bit 7 v) OR push_bit (s + 7) (drop_bit 7 v)) n =
      bit (push_bit s v) n"
    by (auto simp: bit_simps not_less)
qed

lemma varint_shifts_step: "k < 10 \<Longrightarrow> map ((*) 7) [k..<10] = 7 * k # map ((*) 7) [Suc k..<10]"
  by (simp add: upt_conv_Cons)

lemma read_loop_write:
  assumes "unat v * 2 ^ (7 * k) < 2 ^ 64"  and "k < 10"
  shows "read_varint_loop (map ((*) 7) [k..<10]) acc (pre @ write_varint v @ rest) (length pre) =
           Inr (acc OR push_bit (7 * k) v, length pre + length (write_varint v))"
  using assms
proof (induction v arbitrary: k acc pre rule: write_varint.induct)
  case (1 v)
  show ?case
  proof (cases "0x80 \<le> v")
    case True
    let ?b = "(ucast (v AND 0x7F) :: 8 word) OR 0x80"
    have "2 ^ 7 \<le> unat v" using True by (simp add: word_le_nat_alt)
    then have "(2::nat) ^ (7 + 7 * k) < 2 ^ 64"
      unfolding power_add by (rule le_less_trans[OF mult_le_mono1 1(2)])
    then have k: "7 + 7 * k < 64" by (rule power_less_imp_less_exp[rotated]) simp
    have d: "unat (drop_bit 7 v) = unat v div 2 ^ 7"
      using unat_drop_bit_eq[of 7 v] drop_bit_eq_div[of 7 "unat v"] by simp
    have "unat v div 2 ^ 7 * 2 ^ (7 * Suc k) = (unat v div 2 ^ 7 * 2 ^ 7) * 2 ^ (7 * k)"
      by (simp add: power_add)
    also have "\<dots> \<le> unat v * 2 ^ (7 * k)" by (intro mult_le_mono1 div_times_less_eq_dividend)
    finally have "unat (drop_bit 7 v) * 2 ^ (7 * Suc k) < 2 ^ 64" using 1(2) d by simp
    then have IH: "read_varint_loop (map ((*) 7) [Suc k..<10]) acc'
        ((pre @ [?b]) @ write_varint (drop_bit 7 v) @ rest) (length (pre @ [?b])) =
          Inr (acc' OR push_bit (7 * Suc k) (drop_bit 7 v),
               length (pre @ [?b]) + length (write_varint (drop_bit 7 v)))" for acc'
      using k by (intro 1(1)[OF True]) simp_all
    have w: "write_varint v = ?b # write_varint (drop_bit 7 v)"
      using True by (subst write_varint.simps) simp
    have s: "push_bit (7 * k) (take_bit 7 v) OR push_bit (7 + 7 * k) (drop_bit 7 v) =
        push_bit (7 * k) v"
      using push_split[of "7 * k" v] by (simp add: add.commute)
    show ?thesis
      using k more_byte[of v] IH[of "acc OR push_bit (7 * k) (take_bit 7 v)"]
      by (simp add: w varint_shifts_step[OF \<open>k < 10\<close>] nth_append s or.assoc
          del: upt_Suc upt_conv_Cons_Cons cong: if_cong)
  next
    case False
    then have w: "write_varint v = [ucast v]" by (subst write_varint.simps) simp
    have "\<not> (7 * k = 63 \<and> 1 < (ucast v :: 8 word))"
      using 1(2) last_byte(3)[OF False] by (auto simp: word_less_nat_alt)
    then show ?thesis
      using last_byte[OF False]
      by (auto simp: w varint_shifts_step[OF \<open>k < 10\<close>] nth_append Let_def simp del: upt_Suc)
  qed
qed

lemma read_varint_write:
  "read_varint (pre @ write_varint v @ rest) (length pre) =
     Inr (v, length pre + length (write_varint v))"
proof -
  have "varint_shifts = map ((*) 7) [0..<10]"
    by (simp add: varint_shifts_def upt_conv_Cons)
  then show ?thesis
    using read_loop_write[of v 0 0 pre rest] unsigned_less[of v, where ?'a = nat]
    by (simp add: read_varint_def)
qed

text \<open>The varints are a self-delimiting encoding.\<close>

definition dec_varint :: "bytes \<Rightarrow> (64 word \<times> bytes) option" where
  "dec_varint bs = (case read_varint bs 0 of Inl _ \<Rightarrow> None | Inr (v, c) \<Rightarrow> Some (v, drop c bs))"

interpretation varint: codec write_varint dec_varint
  by unfold_locales (use read_varint_write[of "[]"] in \<open>simp add: dec_varint_def\<close>)

section \<open>A message as a list of fields\<close>

text \<open>
  The reference view of a message: numbered fields, each with a value of one of the four wire
  types that the reader accepts. Applying a field to an envelope is the meaning of the field.
\<close>

datatype wire_value = Varint "64 word" | Fixed64 bytes | Delimited bytes | Fixed32 bytes

type_synonym wire_field = "32 word \<times> wire_value"

fun wire_type :: "wire_value \<Rightarrow> nat" where
  "wire_type (Varint _) = 0"
| "wire_type (Fixed64 _) = 1"
| "wire_type (Delimited _) = 2"
| "wire_type (Fixed32 _) = 5"

fun wire_payload :: "wire_value \<Rightarrow> bytes" where
  "wire_payload (Varint v) = write_varint v"
| "wire_payload (Fixed64 b) = b"
| "wire_payload (Delimited b) = write_varint (word_of_nat (length b)) @ b"
| "wire_payload (Fixed32 b) = b"

fun wire_value_ok :: "wire_value \<Rightarrow> bool" where
  "wire_value_ok (Varint _) = True"
| "wire_value_ok (Fixed64 b) = (length b = 8)"
| "wire_value_ok (Delimited b) = True"
| "wire_value_ok (Fixed32 b) = (length b = 4)"

definition wire_key :: "32 word \<Rightarrow> nat \<Rightarrow> 64 word" where
  "wire_key field wire = push_bit 3 (ucast field) OR word_of_nat wire"

definition enc_field :: "wire_field \<Rightarrow> bytes" where
  "enc_field f = write_varint (wire_key (fst f) (wire_type (snd f))) @ wire_payload (snd f)"

definition enc_message :: "wire_field list \<Rightarrow> bytes" where
  "enc_message fs = concat (map enc_field fs)"

definition text_field ::
  "(utext \<Rightarrow> response_envelope) \<Rightarrow> bytes \<Rightarrow> string + response_envelope" where
  "text_field set_to b =
     (case utf8_decode (map unat b) of
        None \<Rightarrow> Inl ''protobuf string is not UTF-8'' | Some t \<Rightarrow> Inr (set_to t))"

fun apply_field :: "wire_field \<Rightarrow> response_envelope \<Rightarrow> string + response_envelope" where
  "apply_field (f, Delimited b) r =
     (if f = 1 then text_field (\<lambda>t. r\<lparr> re_request_id := t \<rparr>) b
      else if f = 2 then text_field (\<lambda>t. r\<lparr> re_task_id := t \<rparr>) b
      else if f = 3 then text_field (\<lambda>t. r\<lparr> re_service := t \<rparr>) b
      else if f = 4 then text_field (\<lambda>t. r\<lparr> re_message_type := t \<rparr>) b
      else if f = 6 then text_field (\<lambda>t. r\<lparr> re_status_message := t \<rparr>) b
      else if f = 7 then Inr (r\<lparr> re_result_json := b \<rparr>)
      else Inr r)"
| "apply_field (f, Varint v) r = (if f = 5 then Inr (r\<lparr> re_status_code := v \<rparr>) else Inr r)"
| "apply_field (f, _) r = Inr r"

fun apply_fields :: "wire_field list \<Rightarrow> response_envelope \<Rightarrow> string + response_envelope" where
  "apply_fields [] r = Inr r"
| "apply_fields (f # fs) r = try_then (apply_field f r) (apply_fields fs)"

lemma wire_key_parts:
  assumes "wire < 8"
  shows "unat (drop_bit 3 (wire_key field wire)) = unat field"
    and "unat (wire_key field wire AND 7) = wire"
proof -
  have w: "\<not> bit wire n" if "3 \<le> n" for n
  proof -
    have "take_bit 3 wire = wire" using assms by (simp add: take_bit_nat_eq_self)
    then show ?thesis using that by (metis bit_take_bit_iff not_less)
  qed
  have "drop_bit 3 (wire_key field wire) = ucast field"
    unfolding wire_key_def by (rule bit_word_eqI) (auto simp: bit_simps w dest: bit_imp_le_length)
  then show "unat (drop_bit 3 (wire_key field wire)) = unat field"
    using unsigned_less[of field, where ?'a = nat]
    by (simp add: unsigned_ucast_eq take_bit_nat_eq_self)
  have m: "x AND 7 = take_bit 3 x" for x :: "64 word"
    by (simp add: take_bit_eq_mask mask_numeral)
  have "bit wire n \<Longrightarrow> n < 3" for n
    using w[of n] by (cases "n < 3") auto
  then have "wire_key field wire AND 7 = word_of_nat wire"
    unfolding wire_key_def m by (intro bit_word_eqI) (auto simp: bit_simps)
  then show "unat (wire_key field wire AND 7) = wire"
    using assms by (simp add: unat_word_of_nat)
qed

lemma wire_type_less [simp]: "wire_type v < 8"
  by (cases v) simp_all

lemma read_bytes_write:
  assumes "length (pre @ write_varint (word_of_nat (length b)) @ b @ rest) < 2 ^ 64"
  shows "read_bytes (pre @ write_varint (word_of_nat (length b)) @ b @ rest) (length pre) =
     Inr (b, length pre + length (write_varint (word_of_nat (length b))) + length b)"
proof -
  have "unat (word_of_nat (length b) :: 64 word) = length b"
    using assms by (intro unat_word_of_nat) simp
  then show ?thesis
    using assms by (simp add: read_bytes_def read_varint_write)
qed

text \<open>Reading one field gives what the field means, and stops at its end.\<close>

lemma read_string_write:
  assumes "length (pre @ write_varint (word_of_nat (length b)) @ b @ rest) < 2 ^ 64"
  shows "try_then (read_string (pre @ write_varint (word_of_nat (length b)) @ b @ rest) (length pre))
           (\<lambda>(t, c). Inr (g t, c)) =
         try_then (text_field g b)
           (\<lambda>r. Inr (r, length pre + length (write_varint (word_of_nat (length b))) + length b))"
  using assms
  by (simp add: read_string_def read_bytes_write text_field_def split: option.splits)

lemma decode_value_write:
  assumes "wire_value_ok v" and "length (pre @ wire_payload v @ rest) < 2 ^ 64"
  shows "decode_value (unat f) (wire_type v) r (pre @ wire_payload v @ rest) (length pre) =
     try_then (apply_field (f, v) r) (\<lambda>r'. Inr (r', length pre + length (wire_payload v)))"
proof -
  have nums: "(f = 1) = (unat f = 1)" "(f = 2) = (unat f = 2)" "(f = 3) = (unat f = 3)"
    "(f = 4) = (unat f = 4)" "(f = 5) = (unat f = 5)" "(f = 6) = (unat f = 6)"
    "(f = 7) = (unat f = 7)"
    by (simp_all add: word_unat_eq_iff)
  show ?thesis
  proof (cases v)
    case (Varint w)
    then show ?thesis
      by (simp add: decode_value_def skip_field_def read_varint_write nums)
  next
    case (Fixed64 b)
    then show ?thesis using assms by (simp add: decode_value_def skip_field_def advance_def)
  next
    case (Fixed32 b)
    then show ?thesis using assms by (simp add: decode_value_def skip_field_def advance_def)
  next
    case (Delimited b)
    have len: "length (pre @ write_varint (word_of_nat (length b)) @ b @ rest) < 2 ^ 64"
      using assms Delimited by simp
    show ?thesis
      unfolding Delimited decode_value_def apply_field.simps nums wire_type.simps wire_payload.simps
      using read_string_write[OF len] read_bytes_write[OF len]
      by (simp add: skip_field_def add.assoc)
  qed
qed

lemma decode_field_write:
  assumes "wire_value_ok (snd f)" and "length (pre @ enc_field f @ rest) < 2 ^ 64"
  shows "decode_field r (pre @ enc_field f @ rest) (length pre) =
     try_then (apply_field f r) (\<lambda>r'. Inr (r', length pre + length (enc_field f)))"
proof -
  obtain n v where f: "f = (n, v)" by (cases f)
  let ?k = "write_varint (wire_key n (wire_type v))"
  have "unat n < 2 ^ 32" using unsigned_less[of n, where ?'a = nat] by simp
  then have "decode_field r (pre @ ?k @ wire_payload v @ rest) (length pre) =
      decode_value (unat n) (wire_type v) r ((pre @ ?k) @ wire_payload v @ rest) (length (pre @ ?k))"
    by (simp add: decode_field_def read_varint_write wire_key_parts)
  also have "\<dots> = try_then (apply_field (n, v) r)
      (\<lambda>r'. Inr (r', length (pre @ ?k) + length (wire_payload v)))"
    using assms f by (intro decode_value_write) (simp_all add: enc_field_def)
  finally show ?thesis by (simp add: f enc_field_def add.assoc)
qed

lemma enc_field_not_Nil [simp]: "enc_field f \<noteq> []"
  by (simp add: enc_field_def) (subst write_varint.simps, simp)

lemma decode_loop_write:
  assumes "list_all (\<lambda>f. wire_value_ok (snd f)) fs" and "length (pre @ enc_message fs) < 2 ^ 64"
  shows "decode_loop (pre @ enc_message fs) (length pre) r = apply_fields fs r"
  using assms
proof (induction fs arbitrary: pre r)
  case Nil
  then show ?case by (subst decode_loop.simps) (simp add: enc_message_def)
next
  case (Cons f fs)
  have m: "pre @ enc_message (f # fs) = pre @ enc_field f @ enc_message fs"
    by (simp add: enc_message_def)
  have d: "decode_field r (pre @ enc_field f @ enc_message fs) (length pre) =
      try_then (apply_field f r) (\<lambda>r'. Inr (r', length pre + length (enc_field f)))"
    using Cons.prems by (intro decode_field_write) (simp_all only: m list.pred_inject)
  show ?case
  proof (cases "apply_field f r")
    case (Inl e)
    then show ?thesis unfolding m by (subst decode_loop.simps) (simp add: d)
  next
    case (Inr r')
    have "decode_loop ((pre @ enc_field f) @ enc_message fs) (length (pre @ enc_field f)) r' =
        apply_fields fs r'"
      using Cons.prems by (intro Cons.IH) (simp_all add: enc_message_def)
    then show ?thesis unfolding m using Inr by (subst decode_loop.simps) (simp add: d)
  qed
qed

lemma decode_enc_message:
  assumes "list_all (\<lambda>f. wire_value_ok (snd f)) fs" and "length (enc_message fs) \<le> max_message_bytes"
  shows "decode_response (enc_message fs) = apply_fields fs response_envelope_default"
  using decode_loop_write[of fs "[]"] assms
  by (simp add: decode_response_def max_message_bytes_def)

lemma write_varint_small: "v < 0x80 \<Longrightarrow> write_varint v = [ucast v]"
proof -
  assume "v < 0x80"
  then have "\<not> 0x80 \<le> v" by (simp only: not_le)
  then show ?thesis by (subst write_varint.simps) simp
qed

lemma request_fields:
  "encode_request token method json_payload audio request_id frame_state =
     enc_message
       [(2, Delimited token), (3, Delimited (ascii ''ASR'')), (5, Delimited (ascii method)),
        (6, Delimited json_payload), (7, Delimited audio), (8, Delimited request_id),
        (9, Varint (frame_state_value frame_state))]"
  by (simp add: encode_request_def enc_message_def enc_field_def write_bytes_def
      write_varint_field_def wire_key_def)

lemma frame_state_value_inject:
  "frame_state_value f = frame_state_value g \<longleftrightarrow> f = g"
  by (cases f rule: frame_state_value.cases; cases g rule: frame_state_value.cases) simp_all

lemma ascii_inject: "ascii s = ascii t \<longleftrightarrow> s = t"
proof -
  have "inj (\<lambda>c :: char. word_of_nat (of_char c) :: 8 word)"
  proof (rule injI)
    fix c d :: char
    assume eq: "(word_of_nat (of_char c) :: 8 word) = word_of_nat (of_char d)"
    have "unat (word_of_nat (of_char x) :: 8 word) = of_char x" for x :: char
    proof (rule unat_word_of_nat)
      have "(of_char x :: nat) mod 256 < 256" by simp
      then show "(of_char x :: nat) < 2 ^ LENGTH(8)" by simp
    qed
    then have "(of_char c :: nat) = of_char d" using eq by metis
    then show "c = d" by simp
  qed
  then show ?thesis by (simp add: ascii_def inj_map_eq_map)
qed

lemma delimited_prefix:
  assumes "enc_field (n, Delimited a) @ r = enc_field (n, Delimited b) @ s"
    and "length a < 2 ^ 64" and "length b < 2 ^ 64"
  shows "a = b \<and> r = s"
proof -
  have "write_varint (wire_key n 2) @ (write_varint (word_of_nat (length a)) @ a @ r) =
      write_varint (wire_key n 2) @ (write_varint (word_of_nat (length b)) @ b @ s)"
    using assms(1) by (simp add: enc_field_def)
  then have "write_varint (word_of_nat (length a)) @ (a @ r) =
      write_varint (word_of_nat (length b)) @ (b @ s)" by simp
  then have "(word_of_nat (length a) :: 64 word) = word_of_nat (length b)" and rest: "a @ r = b @ s"
    using varint.enc_prefix_free by blast+
  moreover have "unat (word_of_nat (length x) :: 64 word) = length x" if "length x < 2 ^ 64" for x :: bytes
    using that by (intro unat_word_of_nat) simp
  ultimately have "length a = length b" using assms(2,3) by metis
  then show ?thesis using rest by simp
qed

end
