(* ===== verification/Doubao_Events.thy ===== *)
theory Doubao_Events
  imports Doubao_Wire Json
begin

text \<open>
  What the Doubao provider reads out of a result (parse_recognition_event of
  crates/voxtype-provider-doubao/src/lib.rs) and how it cuts audio into frames of 20 ms
  (Pcm20msFramer). The JSON parser is an argument: serde_json is not part of the repository.
\<close>

section \<open>Recognition events\<close>

record doubao_event =
  rv_text :: "utext option"
  rv_interim :: bool
  rv_vad_started :: bool
  rv_vad_finished :: bool
  rv_final_result :: bool
  rv_packet_number :: "64 word option"

definition bool_field :: "string \<Rightarrow> json \<Rightarrow> bool option" where
  "bool_field k v = Option.bind (json_get k v) json_as_bool"

definition text_of_result :: "json \<Rightarrow> utext option" where
  "text_of_result result = Option.bind (json_get ''text'' result) json_as_str"

definition nonstream_of_result :: "json \<Rightarrow> bool" where
  "nonstream_of_result result =
     (Option.bind (json_get ''extra'' result) (bool_field ''nonstream_result'') = Some True)"

definition event_of_results ::
  "json list \<Rightarrow> bool \<Rightarrow> 64 word option \<Rightarrow> doubao_event" where
  "event_of_results results vad_started packet_number =
     (let interim = (\<not> list_ex (\<lambda>r. bool_field ''is_interim'' r = Some False) results);
          vad_finished = list_ex (\<lambda>r. bool_field ''is_vad_finished'' r = Some True) results;
          nonstream = list_ex nonstream_of_result results
      in \<lparr> rv_text = find_map text_of_result (rev results), rv_interim = interim,
           rv_vad_started = vad_started, rv_vad_finished = vad_finished,
           rv_final_result = (nonstream \<or> (\<not> interim \<and> vad_finished)),
           rv_packet_number = packet_number \<rparr>)"

definition parse_recognition_event ::
  "(bytes \<Rightarrow> json option) \<Rightarrow> response_envelope \<Rightarrow> string + doubao_event option" where
  "parse_recognition_event parse_json response =
     (if re_result_json response = [] then Inr None
      else case parse_json (re_result_json response) of
        None \<Rightarrow> Inl ''invalid Doubao result JSON''
      | Some v \<Rightarrow>
          (let extra = (case json_get ''extra'' v of None \<Rightarrow> JNull | Some e \<Rightarrow> e);
               vad_started = (bool_field ''vad_start'' extra = Some True);
               packet_number = Option.bind (json_get ''packet_number'' extra) json_as_u64
           in case Option.bind (json_get ''results'' v) json_as_array of
                None \<Rightarrow>
                  Inr (Some \<lparr> rv_text = None, rv_interim = True, rv_vad_started = vad_started,
                             rv_vad_finished = False, rv_final_result = False,
                             rv_packet_number = packet_number \<rparr>)
              | Some results \<Rightarrow> Inr (Some (event_of_results results vad_started packet_number))))"

section \<open>Frames of 20 ms\<close>

definition pcm_frame_bytes :: nat where
  "pcm_frame_bytes = 640"

record framer =
  fr_pending :: bytes

definition framer_default :: framer where
  "framer_default = \<lparr> fr_pending = [] \<rparr>"

text \<open>The loop of push: whole frames leave the front of the pending bytes.\<close>

function framer_loop :: "bytes \<Rightarrow> bytes list \<Rightarrow> bytes list \<times> bytes" where
  "framer_loop pending frames =
     (if pcm_frame_bytes \<le> length pending
      then framer_loop (drop pcm_frame_bytes pending) (frames @ [take pcm_frame_bytes pending])
      else (frames, pending))"
  by pat_completeness auto
termination by (relation "measure (\<lambda>(p, _). length p)") (auto simp: pcm_frame_bytes_def)

declare framer_loop.simps [simp del]

lemma framer_loop_step:
  "pcm_frame_bytes \<le> length p \<Longrightarrow>
     framer_loop p fs = framer_loop (drop pcm_frame_bytes p) (fs @ [take pcm_frame_bytes p])"
  "\<not> pcm_frame_bytes \<le> length p \<Longrightarrow> framer_loop p fs = (fs, p)"
  by (subst framer_loop.simps, simp)+

definition framer_push :: "bytes \<Rightarrow> framer \<Rightarrow> bytes list \<times> framer" where
  "framer_push pcm f =
     (let (frames, rest) = framer_loop (fr_pending f @ pcm) []
      in (frames, f\<lparr> fr_pending := rest \<rparr>))"

definition finish_padded :: "framer \<Rightarrow> bytes option \<times> framer" where
  "finish_padded f =
     (if fr_pending f = [] then (None, f)
      else (Some (fr_pending f @ replicate (pcm_frame_bytes - length (fr_pending f)) 0),
            f\<lparr> fr_pending := [] \<rparr>))"

definition pending_bytes :: "framer \<Rightarrow> nat" where
  "pending_bytes f = length (fr_pending f)"

section \<open>Framing is independent of the chunks\<close>

lemma framer_loop_spec:
  "framer_loop p fs = (fs', rest) \<Longrightarrow>
     (\<exists>new. fs' = fs @ new \<and> concat new @ rest = p \<and>
            list_all (\<lambda>f. length f = pcm_frame_bytes) new \<and> length rest < pcm_frame_bytes)"
proof (induction p fs rule: framer_loop.induct)
  case (1 p fs)
  show ?case
  proof (cases "pcm_frame_bytes \<le> length p")
    case True
    then have "framer_loop (drop pcm_frame_bytes p) (fs @ [take pcm_frame_bytes p]) = (fs', rest)"
      using 1(2) by (simp only: framer_loop_step(1))
    then obtain new where new: "fs' = (fs @ [take pcm_frame_bytes p]) @ new"
      "concat new @ rest = drop pcm_frame_bytes p"
      "list_all (\<lambda>f. length f = pcm_frame_bytes) new" "length rest < pcm_frame_bytes"
      using 1(1) True by blast
    have "fs' = fs @ (take pcm_frame_bytes p # new)" using new(1) by simp
    moreover have "concat (take pcm_frame_bytes p # new) @ rest = p" by (simp add: new(2))
    moreover have "list_all (\<lambda>f. length f = pcm_frame_bytes) (take pcm_frame_bytes p # new)"
      using new(3) True by (simp add: min_absorb2)
    ultimately show ?thesis using new(4) by blast
  next
    case False
    then show ?thesis using 1(2) by (simp add: framer_loop_step(2))
  qed
qed

text \<open>Frames of one size and a shorter rest are determined by the bytes they hold.\<close>

lemma frames_unique:
  assumes "concat xs @ r = concat ys @ s"
    and "list_all (\<lambda>f. length f = k) xs" "length r < k"
    and "list_all (\<lambda>f. length f = k) ys" "length s < k"
  shows "xs = ys \<and> r = s"
  using assms
proof (induction xs arbitrary: ys)
  case Nil
  then show ?case by (cases ys) auto
next
  case (Cons x xs)
  have "\<not> length (concat (x # xs) @ r) < k" using Cons.prems(2) by simp
  then have "\<not> length (concat ys @ s) < k" by (simp only: Cons.prems(1) not_False_eq_True)
  then obtain y ys' where ys: "ys = y # ys'" using Cons.prems(5) by (cases ys) auto
  have "x @ (concat xs @ r) = y @ (concat ys' @ s)" and "length x = length y"
    using Cons.prems(1,2,4) by (simp_all add: ys)
  then have "x = y" and rest: "concat xs @ r = concat ys' @ s"
    using append_eq_append_conv by blast+
  moreover have "xs = ys' \<and> r = s"
    using Cons.prems(2-5) rest by (intro Cons.IH) (simp_all add: ys)
  ultimately show ?case by (simp add: ys)
qed

lemma framer_push_spec:
  assumes "framer_push pcm f = (frames, f')"
  shows "concat frames @ fr_pending f' = fr_pending f @ pcm"
    and "list_all (\<lambda>x. length x = pcm_frame_bytes) frames"
    and "length (fr_pending f') < pcm_frame_bytes"
  using assms framer_loop_spec[of "fr_pending f @ pcm" "[]"]
  by (auto simp: framer_push_def case_prod_beta Let_def prod_eq_iff)

definition push_all :: "bytes list \<Rightarrow> framer \<Rightarrow> bytes list list \<times> framer" where
  "push_all = run_steps framer_push"

lemma push_all_spec:
  "length (fr_pending f) < pcm_frame_bytes \<Longrightarrow> push_all cs f = (fss, f') \<Longrightarrow>
     concat (concat fss) @ fr_pending f' = fr_pending f @ concat cs \<and>
     list_all (\<lambda>x. length x = pcm_frame_bytes) (concat fss) \<and>
     length (fr_pending f') < pcm_frame_bytes"
proof (induction cs arbitrary: f fss f')
  case Nil
  then show ?case by (auto simp: push_all_def)
next
  case (Cons c cs)
  obtain fs f1 where p: "framer_push c f = (fs, f1)" by (cases "framer_push c f")
  obtain gss f2 where r: "push_all cs f1 = (gss, f2)" by (cases "push_all cs f1")
  have eq: "fss = fs # gss" "f' = f2" using Cons.prems p r by (auto simp: push_all_def)
  note IH = Cons.IH[OF framer_push_spec(3)[OF p] r]
  have "concat (concat fss) @ fr_pending f' = concat fs @ (concat (concat gss) @ fr_pending f2)"
    by (simp add: eq)
  also have "\<dots> = (concat fs @ fr_pending f1) @ concat cs" using IH by simp
  also have "\<dots> = fr_pending f @ concat (c # cs)" by (simp add: framer_push_spec(1)[OF p])
  finally show ?case using IH framer_push_spec(2)[OF p] by (simp add: eq)
qed

lemma framer_chunks:
  assumes "push_all cs framer_default = (fss, f)"
    and "framer_push (concat cs) framer_default = (frames, g)"
  shows "concat fss = frames \<and> f = g"
proof -
  have d: "fr_pending framer_default = []" by (simp add: framer_default_def)
  have a: "concat (concat fss) @ fr_pending f = concat cs"
    "list_all (\<lambda>x. length x = pcm_frame_bytes) (concat fss)" "length (fr_pending f) < pcm_frame_bytes"
    using push_all_spec[OF _ assms(1)] by (simp_all add: d pcm_frame_bytes_def)
  have b: "concat frames @ fr_pending g = concat cs"
    "list_all (\<lambda>x. length x = pcm_frame_bytes) frames" "length (fr_pending g) < pcm_frame_bytes"
    using framer_push_spec[OF assms(2)] by (simp_all add: d)
  have "concat fss = frames \<and> fr_pending f = fr_pending g"
    using a b by (intro frames_unique[where k = pcm_frame_bytes]) simp_all
  then show ?thesis by simp
qed

end
