(* ===== verification/Doubao_Wire_Props.thy ===== *)
theory Doubao_Wire_Props
  imports Doubao_Events
begin

text \<open>
  The properties of the Doubao wire format: what the reader makes of a message, which requests
  the writer keeps apart, and what the framer does to a stream of audio.
\<close>

section \<open>Reading a message\<close>

text \<open>
  C24: The response reader agrees with the reference view of a message as a list of fields: on the
  encoding of any list of fields within the size limit, of any number and of the four wire types
  it accepts, it returns what applying the fields in order to the default envelope gives. So
  unknown fields are skipped, the last of several values of a field wins, and a text that is not
  UTF-8 is the only rejection.
\<close>

theorem decode_response_applies_fields:
  assumes "list_all (\<lambda>f. wire_value_ok (snd f)) fs"
    and "length (enc_message fs) \<le> max_message_bytes"
  shows "decode_response (enc_message fs) = apply_fields fs response_envelope_default"
  by (rule decode_enc_message[OF assms])

theorem decode_response_applies_fields_witness:
  "decode_response
     (enc_message [(5, Varint 7), (99, Fixed32 [1, 2, 3, 4]), (2, Delimited [0x61]),
                   (2, Delimited [0x62]), (7, Delimited [])]) =
   Inr (response_envelope_default\<lparr> re_status_code := 7, re_task_id := [0x62] \<rparr>)"
proof -
  let ?fs = "[(5, Varint 7), (99, Fixed32 [1, 2, 3, 4]), (2, Delimited [0x61]),
              (2, Delimited [0x62]), (7, Delimited [])] :: wire_field list"
  have "write_varint 797 = [0x9D, 6]"
    by (subst write_varint.simps) (simp add: write_varint_small)
  then have "length (enc_message ?fs) \<le> max_message_bytes"
    by (simp add: enc_message_def enc_field_def wire_key_def write_varint_small max_message_bytes_def)
  then have "decode_response (enc_message ?fs) = apply_fields ?fs response_envelope_default"
    by (intro decode_response_applies_fields) simp_all
  then show ?thesis
    by (simp add: text_field_def utf8_decode.simps response_envelope_default_def)
qed

section \<open>Writing a request\<close>

text \<open>The length-delimited fields of fixed numbers, read off the front together.\<close>

lemma delimited_fields_prefix:
  assumes "length ns = length xs" and "length xs = length ys"
    and "enc_message (zip ns (map Delimited xs)) @ r = enc_message (zip ns (map Delimited ys)) @ s"
    and "list_all (\<lambda>b. length b < 2 ^ 64) (xs @ ys)"
  shows "xs = ys \<and> r = s"
  using assms
proof (induction ns xs ys rule: list_induct3)
  case (Cons n ns x xs y ys)
  have "enc_field (n, Delimited x) @ (enc_message (zip ns (map Delimited xs)) @ r) =
      enc_field (n, Delimited y) @ (enc_message (zip ns (map Delimited ys)) @ s)"
    using Cons.prems(1) by (simp add: enc_message_def)
  then have "x = y \<and> enc_message (zip ns (map Delimited xs)) @ r =
      enc_message (zip ns (map Delimited ys)) @ s"
    by (rule delimited_prefix) (use Cons.prems(2) in simp_all)
  then show ?case using Cons.IH Cons.prems(2) by simp
qed (simp add: enc_message_def)

text \<open>
  A request envelope can be read back: two requests have the same bytes only if they agree in
  the token, the method, the payload, the audio, the request id and the frame state.
\<close>

theorem request_encoding_injective:
  assumes "encode_request token method json_payload audio request_id frame =
           encode_request token' method' json_payload' audio' request_id' frame'"
    and "list_all (\<lambda>b. length b < 2 ^ 64)
           [token, ascii method, json_payload, audio, request_id,
            token', ascii method', json_payload', audio', request_id']"
  shows "token = token' \<and> method = method' \<and> json_payload = json_payload' \<and> audio = audio' \<and>
         request_id = request_id' \<and> frame = frame'"
proof -
  let ?ns = "[2, 3, 5, 6, 7, 8] :: 32 word list"
    and ?xs = "[token, ascii ''ASR'', ascii method, json_payload, audio, request_id]"
    and ?ys = "[token', ascii ''ASR'', ascii method', json_payload', audio', request_id']"
  have eq: "enc_message (zip ?ns (map Delimited ?xs)) @ enc_field (9, Varint (frame_state_value frame)) =
      enc_message (zip ?ns (map Delimited ?ys)) @ enc_field (9, Varint (frame_state_value frame'))"
    using assms(1) by (simp add: request_fields enc_message_def)
  have "length (ascii ''ASR'') < 2 ^ 64" by (simp add: ascii_def)
  then have same: "?xs = ?ys" and last: "enc_field (9, Varint (frame_state_value frame)) =
      enc_field (9, Varint (frame_state_value frame'))"
    using delimited_fields_prefix[OF _ _ eq] assms(2) by simp_all
  have "write_varint (frame_state_value frame) = write_varint (frame_state_value frame')"
    using last by (simp add: enc_field_def)
  then have "frame = frame'" using varint.enc_inj frame_state_value_inject by blast
  then show ?thesis using same by (simp add: ascii_inject)
qed

theorem request_encoding_injective_witness:
  "encode_request [] ''TaskRequest'' [2] [5] [0x72] (Some First) \<noteq>
   encode_request [] ''TaskRequest'' [2] [5] [0x72] (Some Middle)"
proof
  assume "encode_request [] ''TaskRequest'' [2] [5] [0x72] (Some First) =
    encode_request [] ''TaskRequest'' [2] [5] [0x72] (Some Middle)"
  from request_encoding_injective[OF this] show False by (simp add: ascii_def)
qed

section \<open>Framing\<close>

text \<open>
  Framing does not depend on how the audio arrives: pushing any sequence of chunks gives the
  same frames, and leaves the same pending bytes, as pushing their concatenation at once; the
  frames and the pending bytes hold exactly the audio, every frame has 640 bytes and less than a
  frame is pending.
\<close>

theorem framing_independent_of_chunks:
  "concat (fst (push_all cs framer_default)) = fst (framer_push (concat cs) framer_default) \<and>
   snd (push_all cs framer_default) = snd (framer_push (concat cs) framer_default) \<and>
   concat (concat (fst (push_all cs framer_default))) @ fr_pending (snd (push_all cs framer_default))
     = concat cs \<and>
   list_all (\<lambda>f. length f = 640) (concat (fst (push_all cs framer_default))) \<and>
   pending_bytes (snd (push_all cs framer_default)) < 640"
proof -
  have "length (fr_pending framer_default) < pcm_frame_bytes"
    by (simp add: framer_default_def pcm_frame_bytes_def)
  note all = push_all_spec[OF this prod.collapse[symmetric], of cs]
  have "concat (fst (push_all cs framer_default)) = fst (framer_push (concat cs) framer_default) \<and>
      snd (push_all cs framer_default) = snd (framer_push (concat cs) framer_default)"
    by (rule framer_chunks) simp_all
  then show ?thesis using all
    by (simp add: framer_default_def pcm_frame_bytes_def pending_bytes_def)
qed

section \<open>Final events\<close>

text \<open>
  A recognition result counts as final exactly when some entry is the non-streaming result,
  or some entry is not interim and some entry reports the end of the voice activity; the text is
  that of the last entry that has one.
\<close>

theorem final_event_iff:
  assumes "re_result_json response \<noteq> []"
    and "jparse (re_result_json response) = Some (JObject m)"
    and "map_of m ''results'' = Some (JArray results)"
  shows "\<exists>ev. parse_recognition_event jparse response = Inr (Some ev) \<and>
     (rv_final_result ev \<longleftrightarrow>
        (\<exists>r \<in> set results. nonstream_of_result r) \<or>
        ((\<exists>r \<in> set results. bool_field ''is_interim'' r = Some False) \<and>
         (\<exists>r \<in> set results. bool_field ''is_vad_finished'' r = Some True))) \<and>
     (rv_text ev = None \<longleftrightarrow> (\<forall>r \<in> set results. text_of_result r = None)) \<and>
     (\<forall>before r after t. results = before @ r # after \<longrightarrow> text_of_result r = Some t \<longrightarrow>
        (\<forall>q \<in> set after. text_of_result q = None) \<longrightarrow> rv_text ev = Some t)"
proof -
  obtain vs pn where
    "parse_recognition_event jparse response = Inr (Some (event_of_results results vs pn))"
    using assms by (simp add: parse_recognition_event_def Let_def)
  moreover have "rv_text (event_of_results results vs pn) = Some t"
    if "results = before @ r # after" "text_of_result r = Some t"
      "\<forall>q \<in> set after. text_of_result q = None" for before r after t
    using that find_map_None[of text_of_result "rev after"] by (simp add: event_of_results_def Let_def find_map_append)
  ultimately show ?thesis
    by (auto simp: event_of_results_def Let_def list_ex_iff find_map_None)
qed

theorem final_event_iff_witness:
  "\<exists>ev. parse_recognition_event (\<lambda>_. Some (JObject [(''results'', JArray [JObject []])]))
          (response_envelope_default\<lparr> re_result_json := [1] \<rparr>) = Inr (Some ev) \<and>
     (rv_final_result ev \<longleftrightarrow> False) \<and> rv_text ev = None"
  using final_event_iff[of "response_envelope_default\<lparr> re_result_json := [1] \<rparr>"
      "\<lambda>_. Some (JObject [(''results'', JArray [JObject []])])" "[(''results'', JArray [JObject []])]"
      "[JObject []]"]
  by (auto simp: nonstream_of_result_def bool_field_def text_of_result_def)

end
