(* ===== verification/Eff.thy ===== *)
theory Eff
  imports Vox_Error
begin

text \<open>
  Fallible operations on a state that a method borrows mutably: the result is the error or the
  value, and in both cases the state the method leaves behind.
\<close>

type_synonym ('s, 'e, 'a) eff = "'s \<Rightarrow> ('e + 'a) \<times> 's"

definition give :: "'a \<Rightarrow> ('s, 'e, 'a) eff" where
  "give a s = (Inr a, s)"

definition raise :: "'e \<Rightarrow> ('s, 'e, 'a) eff" where
  "raise e s = (Inl e, s)"

definition seq :: "('s, 'e, 'a) eff \<Rightarrow> ('a \<Rightarrow> ('s, 'e, 'b) eff) \<Rightarrow> ('s, 'e, 'b) eff" where
  "seq m f s = (case m s of (Inl e, t) \<Rightarrow> (Inl e, t) | (Inr a, t) \<Rightarrow> f a t)"

lemma give_simps [simp]: "give a s = (Inr a, s)"
  by (simp add: give_def)

lemma raise_simps [simp]: "raise e s = (Inl e, s)"
  by (simp add: raise_def)

lemma seq_give [simp]: "seq (give a) f = f a"
  by (rule ext) (simp add: seq_def)

lemma seq_raise [simp]: "seq (raise e) f = raise e"
  by (rule ext) (simp add: seq_def)

lemma seq_assoc: "seq (seq m f) g = seq m (\<lambda>a. seq (f a) g)"
  by (rule ext) (simp add: seq_def split: prod.splits sum.splits)

lemma seq_ok: "seq m f s = (Inr b, u) \<longleftrightarrow> (\<exists>a t. m s = (Inr a, t) \<and> f a t = (Inr b, u))"
  by (auto simp: seq_def split: prod.splits sum.splits)

lemma seq_err:
  "seq m f s = (Inl e, u) \<longleftrightarrow> m s = (Inl e, u) \<or> (\<exists>a t. m s = (Inr a, t) \<and> f a t = (Inl e, u))"
  by (auto simp: seq_def split: prod.splits sum.splits)

section \<open>Loops that may not end\<close>

text \<open>
  The body of a loop gives the result of the loop or the argument of the next round; a loop that
  does not end has no result.
\<close>

type_synonym ('s, 'e, 'a) run = "'s \<Rightarrow> (('e + 'a) \<times> 's) option"

partial_function (option) iterate ::
  "('a \<Rightarrow> 's \<Rightarrow> ('e + ('b + 'a)) \<times> 's) \<Rightarrow> 'a \<Rightarrow> 's \<Rightarrow> (('e + 'b) \<times> 's) option" where
  "iterate body a s =
     (case body a s of
        (Inl e, t) \<Rightarrow> Some (Inl e, t)
      | (Inr (Inl b), t) \<Rightarrow> Some (Inr b, t)
      | (Inr (Inr a'), t) \<Rightarrow> iterate body a' t)"

text \<open>What every round keeps holds at the end.\<close>

lemma iterate_inv:
  fixes body :: "'a \<Rightarrow> 's \<Rightarrow> ('e + ('b + 'a)) \<times> 's"
  assumes "iterate body a s = Some (r, t)"
    and "P a s" and "\<And>a s a' t. P a s \<Longrightarrow> body a s = (Inr (Inr a'), t) \<Longrightarrow> P a' t"
    and "\<And>a s b t. P a s \<Longrightarrow> body a s = (Inr (Inl b), t) \<Longrightarrow> Q (Inr b) t"
    and "\<And>a s e t. P a s \<Longrightarrow> body a s = (Inl e, t) \<Longrightarrow> Q (Inl e) t"
  shows "Q r t"
proof -
  let ?C = "\<lambda>body' a s (r, t). body' = body \<longrightarrow> P a s \<longrightarrow> Q r t"
  have "?C body a s (r, t)"
  proof (rule iterate.raw_induct[where P = ?C, OF _ assms(1)])
    fix f :: "('a \<Rightarrow> 's \<Rightarrow> ('e + ('b + 'a)) \<times> 's) \<Rightarrow> 'a \<Rightarrow> 's \<Rightarrow> (('e + 'b) \<times> 's) option"
      and body' a s p
    assume IH: "\<And>body' a s p. f body' a s = Some p \<Longrightarrow> ?C body' a s p"
      and eq: "(case body' a s of (Inl e, t) \<Rightarrow> Some (Inl e, t) | (Inr (Inl b), t) \<Rightarrow> Some (Inr b, t)
        | (Inr (Inr a'), t) \<Rightarrow> f body' a' t) = Some p"
    show "?C body' a s p"
    proof (clarify)
      fix q u assume p: "p = (q, u)" "body' = body" and "P a s"
      show "Q q u"
      proof (cases "body a s")
        case (Pair r' t')
        show ?thesis
        proof (cases r')
          case (Inl e)
          then show ?thesis using eq p Pair assms(5)[OF \<open>P a s\<close>] by auto
        next
          case (Inr ba)
          show ?thesis
          proof (cases ba)
            case (Inl b)
            then show ?thesis using eq p Pair \<open>r' = Inr ba\<close> assms(4)[OF \<open>P a s\<close>] by auto
          next
            case (Inr a')
            then have "f body a' t' = Some (q, u)" using eq p Pair \<open>r' = Inr ba\<close> by simp
            moreover have "P a' t'" using assms(3)[OF \<open>P a s\<close>] Pair \<open>r' = Inr ba\<close> Inr by simp
            ultimately show ?thesis using IH[of body a' t' "(q, u)"] by simp
          qed
        qed
      qed
    qed
  qed
  then show ?thesis using assms(2) by simp
qed

text \<open>
  A loop ends when its rounds move a counter on, and none of them goes on from a bound.
\<close>

lemma iterate_returns:
  assumes "\<And>a s a' t. body a s = (Inr (Inr a'), t) \<Longrightarrow> count s < count t \<and> count s < (N :: nat)"
  shows "\<exists>r t. iterate body a s = Some (r, t)"
proof (induction "N - count s" arbitrary: a s rule: less_induct)
  case less
  show ?case
  proof (cases "body a s")
    case (Pair r t)
    show ?thesis
    proof (cases "\<exists>a'. r = Inr (Inr a')")
      case True
      then obtain a' where r: "r = Inr (Inr a')" by blast
      have "N - count t < N - count s" using assms[of a s a' t] Pair r by auto
      then show ?thesis using less[of t a'] Pair r by (subst iterate.simps) simp
    next
      case False
      then show ?thesis using Pair
        by (subst iterate.simps) (auto split: sum.splits)
    qed
  qed
qed

definition lift :: "('s, 'e, 'a) eff \<Rightarrow> ('s, 'e, 'a) run" where
  "lift m s = Some (m s)"

definition andthen :: "('s, 'e, 'a) run \<Rightarrow> ('a \<Rightarrow> ('s, 'e, 'b) run) \<Rightarrow> ('s, 'e, 'b) run" where
  "andthen m f s =
     (case m s of
        None \<Rightarrow> None
      | Some (Inl e, t) \<Rightarrow> Some (Inl e, t)
      | Some (Inr a, t) \<Rightarrow> f a t)"

lemma lift_some [simp]: "lift m s = Some p \<longleftrightarrow> m s = p"
  by (simp add: lift_def)

lemma andthen_some:
  "andthen m f s = Some (r, u) \<longleftrightarrow>
     (\<exists>e. m s = Some (Inl e, u) \<and> r = Inl e) \<or> (\<exists>a t. m s = Some (Inr a, t) \<and> f a t = Some (r, u))"
  by (auto simp: andthen_def split: option.splits prod.splits sum.splits)

lemma andthen_returns:
  assumes "\<exists>r t. m s = Some (r, t)" and "\<And>a t. m s = Some (Inr a, t) \<Longrightarrow> \<exists>r u. f a t = Some (r, u)"
  shows "\<exists>r u. andthen m f s = Some (r, u)"
  using assms by (fastforce simp: andthen_def split: sum.splits)

lemma lift_returns: "\<exists>r t. lift m s = Some (r, t)"
  by (cases "m s") simp

section \<open>Triples\<close>

text \<open>
  A precondition, what holds of the value and the state on success, and what holds of the state
  after an error; for loops, when they end.
\<close>

definition triple ::
  "('s \<Rightarrow> bool) \<Rightarrow> ('s, 'e, 'a) eff \<Rightarrow> ('a \<Rightarrow> 's \<Rightarrow> bool) \<Rightarrow> ('s \<Rightarrow> bool) \<Rightarrow> bool" where
  "triple P m Q X \<longleftrightarrow>
     (\<forall>s. P s \<longrightarrow> (case m s of (Inl e, t) \<Rightarrow> X t | (Inr a, t) \<Rightarrow> Q a t))"

definition run_triple ::
  "('s \<Rightarrow> bool) \<Rightarrow> ('s, 'e, 'a) run \<Rightarrow> ('a \<Rightarrow> 's \<Rightarrow> bool) \<Rightarrow> ('s \<Rightarrow> bool) \<Rightarrow> bool" where
  "run_triple P m Q X \<longleftrightarrow>
     (\<forall>s r t. P s \<longrightarrow> m s = Some (r, t) \<longrightarrow> (case r of Inl e \<Rightarrow> X t | Inr a \<Rightarrow> Q a t))"

lemma tripleI:
  assumes "\<And>s a t. P s \<Longrightarrow> m s = (Inr a, t) \<Longrightarrow> Q a t" and "\<And>s e t. P s \<Longrightarrow> m s = (Inl e, t) \<Longrightarrow> X t"
  shows "triple P m Q X"
  using assms by (auto simp: triple_def split: prod.splits sum.splits)

lemma triple_at:
  "triple P m Q X \<Longrightarrow> P s \<Longrightarrow> (case m s of (Inl e, t) \<Rightarrow> X t | (Inr a, t) \<Rightarrow> Q a t)"
  unfolding triple_def by (erule allE, erule mp)

lemma triple_ok: "triple P m Q X \<Longrightarrow> P s \<Longrightarrow> m s = (Inr a, t) \<Longrightarrow> Q a t"
  by (auto simp: triple_def dest!: spec[of _ s])

lemma triple_err: "triple P m Q X \<Longrightarrow> P s \<Longrightarrow> m s = (Inl e, t) \<Longrightarrow> X t"
  by (auto simp: triple_def dest!: spec[of _ s])

lemma triple_seq:
  assumes "triple P m Q X" and "\<And>a. triple (Q a) (f a) R X"
  shows "triple P (seq m f) R X"
proof (rule tripleI)
  fix s b u assume "P s" "seq m f s = (Inr b, u)"
  then show "R b u" unfolding seq_ok using triple_ok[OF assms(1)] triple_ok[OF assms(2)] by blast
next
  fix s e u assume "P s" "seq m f s = (Inl e, u)"
  then show "X u" unfolding seq_err
    using triple_ok[OF assms(1)] triple_err[OF assms(1)] triple_err[OF assms(2)] by blast
qed

lemma triple_give: "(\<And>s. P s \<Longrightarrow> Q a s) \<Longrightarrow> triple P (give a) Q X"
  by (auto intro: tripleI)

lemma triple_raise: "(\<And>s. P s \<Longrightarrow> X s) \<Longrightarrow> triple P (raise e) Q X"
  by (auto intro: tripleI)

lemma triple_conseq:
  assumes "triple P m Q X" and "\<And>s. P' s \<Longrightarrow> P s" and "\<And>a s. Q a s \<Longrightarrow> Q' a s"
  shows "triple P' m Q' X"
  by (rule tripleI) (use assms triple_ok[OF assms(1)] triple_err[OF assms(1)] in blast)+

lemma run_triple_lift: "triple P m Q X \<Longrightarrow> run_triple P (lift m) Q X"
  by (auto simp: run_triple_def triple_def split: sum.splits prod.splits)

lemma run_triple_andthen:
  assumes "run_triple P m Q X" and "\<And>a. run_triple (Q a) (f a) R X"
  shows "run_triple P (andthen m f) R X"
  unfolding run_triple_def
proof (intro allI impI)
  fix s r u assume "P s" and run: "andthen m f s = Some (r, u)"
  show "case r of Inl e \<Rightarrow> X u | Inr b \<Rightarrow> R b u"
  proof (cases "\<exists>a t. m s = Some (Inr a, t)")
    case True
    then obtain a t where "m s = Some (Inr a, t)" "f a t = Some (r, u)"
      using run by (auto simp: andthen_some)
    moreover from this have "Q a t" using assms(1) \<open>P s\<close> by (auto simp: run_triple_def)
    ultimately show ?thesis using assms(2)[of a] by (simp add: run_triple_def)
  next
    case False
    then obtain e where "m s = Some (Inl e, u)" "r = Inl e" using run by (auto simp: andthen_some)
    then show ?thesis using assms(1) \<open>P s\<close> by (auto simp: run_triple_def)
  qed
qed

lemma run_triple_conseq:
  assumes "run_triple P m Q X" and "\<And>s. P' s \<Longrightarrow> P s" and "\<And>a s. Q a s \<Longrightarrow> Q' a s"
  shows "run_triple P' m Q' X"
  unfolding run_triple_def
proof (intro allI impI)
  fix s r t assume "P' s" "m s = Some (r, t)"
  then have "case r of Inl e \<Rightarrow> X t | Inr a \<Rightarrow> Q a t"
    using assms(1) assms(2)[of s] unfolding run_triple_def by blast
  then show "case r of Inl e \<Rightarrow> X t | Inr a \<Rightarrow> Q' a t" using assms(3) by (simp split: sum.splits)
qed

lemma run_triple_iterate:
  fixes body :: "'a \<Rightarrow> 's \<Rightarrow> ('e + ('b + 'a)) \<times> 's"
  assumes "\<And>a. triple (P a) (body a) (\<lambda>r t. case r of Inl b \<Rightarrow> Q b t | Inr a' \<Rightarrow> P a' t) X"
  shows "run_triple (P a) (iterate body a) Q X"
  unfolding run_triple_def
proof (intro allI impI)
  fix s r t assume "P a s" and run: "iterate body a s = Some (r, t)"
  show "case r of Inl e \<Rightarrow> X t | Inr b \<Rightarrow> Q b t"
    by (rule iterate_inv[OF run, where P = P])
       (use \<open>P a s\<close> in \<open>auto dest: triple_ok[OF assms] triple_err[OF assms]\<close>)
qed

end
