(* ===== verification/Doubao_Session.thy ===== *)
theory Doubao_Session
  imports Doubao_Events Eff
begin

text \<open>
  The protocol session of the unofficial Doubao provider
  (crates/voxtype-provider-doubao/src/session.rs): a state machine over the requests that the
  client builds and the binary responses that it receives. A method that takes the protocol by
  mutable reference returns its result and the protocol it leaves. The JSON library is an
  argument: its parser and its printer.
\<close>

record json_lib =
  jl_parse :: "bytes \<Rightarrow> json option"
  jl_to_vec :: "json \<Rightarrow> bytes"

section \<open>State\<close>

datatype session_phase =
    Disconnected | TaskStarting | TaskStarted | SessionStarting | Streaming | Finishing
  | Finished | Failed | Cancelled

datatype input_state = InputOpen | AudioRequestPending | InputFinished

record session_outcome =
  so_transcript :: utext
  so_task_id :: "utext option"
  so_sent_audio_frames :: "64 word"
  so_last_packet_number :: "64 word option"
  so_provider_vad_started :: bool
  so_provider_vad_finished :: bool

datatype session_event =
    SeTaskStarted
  | SeSessionStarted
  | SeRecognition doubao_event
  | SeDuplicateIgnored
  | SeFinished session_outcome

record session_error =
  se_category :: error_category
  se_code :: string
  se_message :: string
  se_status_code :: "64 word option"

definition session_error_with_category ::
  "error_category \<Rightarrow> string \<Rightarrow> string \<Rightarrow> session_error" where
  "session_error_with_category category code message =
     \<lparr> se_category = category, se_code = code, se_message = message, se_status_code = None \<rparr>"

definition session_error_new :: "string \<Rightarrow> string \<Rightarrow> session_error" where
  "session_error_new code message = session_error_with_category EcProtocol code message"

definition session_error_with_status ::
  "error_category \<Rightarrow> string \<Rightarrow> string \<Rightarrow> 64 word \<Rightarrow> session_error" where
  "session_error_with_status category code message status_code =
     \<lparr> se_category = category, se_code = code, se_message = message,
       se_status_code = Some status_code \<rparr>"

record doubao_protocol =
  dp_request_id :: utext
  dp_phase :: session_phase
  dp_task_id :: "utext option"
  dp_sent_audio_frames :: "64 word"
  dp_input_state :: input_state
  dp_audio_acceptance :: audio_acceptance
  dp_last_packet_number :: "64 word option"
  dp_final_transcript :: "utext option"
  dp_provider_vad_started :: bool
  dp_provider_vad_finished :: bool

type_synonym 'a session_op = "(doubao_protocol, session_error, 'a) eff"

definition max_request_id_bytes :: nat where
  "max_request_id_bytes = 128"

definition max_session_json_bytes :: nat where
  "max_session_json_bytes = 256 * 1024"

definition max_opus_packet_bytes :: nat where
  "max_opus_packet_bytes = 1275"

definition last_frame_marker_bytes :: nat where
  "last_frame_marker_bytes = 100"

definition protocol_new :: "utext \<Rightarrow> session_error + doubao_protocol" where
  "protocol_new request_id =
     (if request_id = [] \<or> max_request_id_bytes < utf8_length request_id \<or>
         list_ex (\<lambda>b. b < 32 \<or> b = 127) (utf8_encode request_id)
      then Inl (session_error_new ''doubao.invalid_request_id'' ''Doubao request ID is invalid'')
      else Inr \<lparr> dp_request_id = request_id, dp_phase = Disconnected, dp_task_id = None,
                 dp_sent_audio_frames = 0, dp_input_state = InputOpen,
                 dp_audio_acceptance = NotAccepted, dp_last_packet_number = None,
                 dp_final_transcript = None, dp_provider_vad_started = False,
                 dp_provider_vad_finished = False \<rparr>)"

section \<open>Failing\<close>

definition fail_with_category ::
  "error_category \<Rightarrow> string \<Rightarrow> string \<Rightarrow> 'a session_op" where
  "fail_with_category category code message p =
     (Inl (session_error_with_category category code message),
      if dp_phase p \<noteq> Cancelled then p\<lparr> dp_phase := Failed \<rparr> else p)"

definition fail :: "string \<Rightarrow> string \<Rightarrow> 'a session_op" where
  "fail code message = fail_with_category EcProtocol code message"

definition fail_remote_status :: "64 word \<Rightarrow> 'a session_op" where
  "fail_remote_status status_code p =
     (let code = (case dp_phase p of
                    TaskStarting \<Rightarrow> ''doubao.start_task_status_failed''
                  | SessionStarting \<Rightarrow> ''doubao.start_session_status_failed''
                  | Streaming \<Rightarrow> ''doubao.streaming_status_failed''
                  | Finishing \<Rightarrow> ''doubao.finish_session_status_failed''
                  | _ \<Rightarrow> ''doubao.remote_status_failed'')
      in (Inl (session_error_with_status EcProtocol code
                 ''Doubao returned a non-zero protocol status'' status_code),
          if dp_phase p \<noteq> Cancelled then p\<lparr> dp_phase := Failed \<rparr> else p))"

definition require_phase :: "session_phase \<Rightarrow> string \<Rightarrow> unit session_op" where
  "require_phase expected code p =
     (if dp_phase p = expected then (Inr (), p)
      else fail code ''Doubao session lifecycle transition is invalid'' p)"

definition require_streaming_input :: "unit session_op" where
  "require_streaming_input =
     seq (require_phase Streaming ''doubao.session_not_streaming'') (\<lambda>_ p.
       if dp_input_state p = InputFinished
       then fail ''doubao.audio_already_finished'' ''Doubao audio input is already finished'' p
       else (Inr (), p))"

section \<open>Requests\<close>

definition timestamp_json :: "json_lib \<Rightarrow> 64 word \<Rightarrow> bytes" where
  "timestamp_json J timestamp_millis =
     jl_to_vec J (JObject [(''extra'', JObject []),
                           (''timestamp_ms'', JNumber (show_nat (unat timestamp_millis))
                                                (Some timestamp_millis))])"

definition start_task :: "secret_string \<Rightarrow> bytes session_op" where
  "start_task token =
     seq (require_phase Disconnected ''doubao.task_already_started'') (\<lambda>_ p.
       let p' = p\<lparr> dp_phase := TaskStarting \<rparr>
       in (Inr (encode_request (ascii (expose token)) ''StartTask'' [] []
                  (utf8_bytes (dp_request_id p')) None), p'))"

definition json_object :: "json_lib \<Rightarrow> bytes \<Rightarrow> bool" where
  "json_object J b = (case jl_parse J b of None \<Rightarrow> False | Some v \<Rightarrow> json_is_object v)"

definition start_session :: "json_lib \<Rightarrow> secret_string \<Rightarrow> bytes \<Rightarrow> bytes session_op" where
  "start_session J token session_json =
     seq (require_phase TaskStarted ''doubao.task_not_started'') (\<lambda>_ p.
       if max_session_json_bytes < length session_json \<or> \<not> json_object J session_json
       then fail ''doubao.invalid_session_json''
              ''Doubao StartSession payload must be a bounded JSON object'' p
       else let p' = p\<lparr> dp_phase := SessionStarting \<rparr>
            in (Inr (encode_request (ascii (expose token)) ''StartSession'' session_json []
                       (utf8_bytes (dp_request_id p')) None), p'))"

definition audio_request :: "json_lib \<Rightarrow> 64 word \<Rightarrow> bytes \<Rightarrow> bytes session_op" where
  "audio_request J timestamp_millis opus_packet =
     seq require_streaming_input (\<lambda>_ p.
       if dp_input_state p = AudioRequestPending
       then fail ''doubao.audio_request_pending''
              ''Doubao audio request must be confirmed before building another frame'' p
       else if opus_packet = [] \<or> max_opus_packet_bytes < length opus_packet
       then fail ''doubao.invalid_opus_packet'' ''Doubao audio packet is empty or oversized'' p
       else let state = (if dp_sent_audio_frames p = 0 then First else Middle)
            in (Inr (encode_request [] ''TaskRequest'' (timestamp_json J timestamp_millis)
                       opus_packet (utf8_bytes (dp_request_id p)) (Some state)),
                p\<lparr> dp_input_state := AudioRequestPending \<rparr>))"

definition confirm_audio_sent :: "unit session_op" where
  "confirm_audio_sent =
     seq (require_phase Streaming ''doubao.session_not_streaming'') (\<lambda>_ p.
       if dp_input_state p \<noteq> AudioRequestPending
       then fail ''doubao.no_pending_audio_request''
              ''Doubao has no pending audio request to confirm'' p
       else (Inr (), p\<lparr> dp_input_state := InputOpen,
                        dp_sent_audio_frames := sat_add (dp_sent_audio_frames p) 1,
                        dp_audio_acceptance := PossiblyAccepted \<rparr>))"

definition mark_audio_write_ambiguous :: "unit session_op" where
  "mark_audio_write_ambiguous =
     seq (require_phase Streaming ''doubao.session_not_streaming'') (\<lambda>_ p.
       if dp_input_state p \<noteq> AudioRequestPending
       then fail ''doubao.no_pending_audio_request''
              ''Doubao has no pending audio request to mark ambiguous'' p
       else (Inr (), p\<lparr> dp_audio_acceptance := PossiblyAccepted \<rparr>))"

definition finish_audio :: "json_lib \<Rightarrow> 64 word \<Rightarrow> bytes session_op" where
  "finish_audio J timestamp_millis =
     seq require_streaming_input (\<lambda>_ p.
       if dp_input_state p = AudioRequestPending
       then fail ''doubao.audio_request_pending''
              ''Doubao audio request must be confirmed before finishing input'' p
       else if dp_sent_audio_frames p = 0
       then fail ''doubao.no_audio_frames''
              ''Doubao session cannot finish before a real audio frame'' p
       else (Inr (encode_request [] ''TaskRequest'' (timestamp_json J timestamp_millis)
                    (replicate last_frame_marker_bytes 0) (utf8_bytes (dp_request_id p))
                    (Some Last)),
             p\<lparr> dp_input_state := InputFinished \<rparr>))"

definition doubao_finish_session :: "secret_string \<Rightarrow> bytes session_op" where
  "doubao_finish_session token =
     seq (require_phase Streaming ''doubao.session_not_streaming'') (\<lambda>_ p.
       if dp_input_state p \<noteq> InputFinished
       then fail ''doubao.audio_not_finished''
              ''Doubao audio must finish before FinishSession'' p
       else let p' = p\<lparr> dp_phase := Finishing \<rparr>
            in (Inr (encode_request (ascii (expose token)) ''FinishSession'' [] []
                       (utf8_bytes (dp_request_id p')) None), p'))"

section \<open>Responses\<close>

text \<open>
  The lower case of a character as far as ASCII text can see it: besides the letters A to Z,
  the capital I with a dot above and the Kelvin sign have an ASCII letter in their lower case;
  every other character stays, or becomes characters that are not ASCII, and the search is for
  ASCII words.
\<close>

definition lowercase_char :: "nat \<Rightarrow> utext" where
  "lowercase_char c =
     (if 65 \<le> c \<and> c \<le> 90 then [c + 32]
      else if c = 0x130 then [0x69, 0x307]
      else if c = 0x212A then [0x6B]
      else [c])"

definition auth_like_response :: "response_envelope \<Rightarrow> bool" where
  "auth_like_response r =
     (if re_status_code r = 401 \<or> re_status_code r = 403 then True
      else let normalized = concat (map lowercase_char (take 1024 (re_status_message r)))
           in list_ex (\<lambda>needle. contains (text_of needle) normalized)
                [''token'', ''auth'', ''credential'', ''app_key'', ''unauthorized'',
                 ''forbidden''])"

definition note_event :: "doubao_event \<Rightarrow> doubao_protocol \<Rightarrow> doubao_protocol" where
  "note_event event p =
     p\<lparr> dp_last_packet_number :=
          (case rv_packet_number event of
             None \<Rightarrow> dp_last_packet_number p | Some packet \<Rightarrow> Some packet),
        dp_provider_vad_started := (dp_provider_vad_started p \<or> rv_vad_started event),
        dp_provider_vad_finished := (dp_provider_vad_finished p \<or> rv_vad_finished event),
        dp_audio_acceptance :=
          (if rv_vad_started event \<or> rv_text event \<noteq> None \<or> rv_final_result event then Accepted
           else dp_audio_acceptance p) \<rparr>"

definition duplicate_packet :: "doubao_event \<Rightarrow> doubao_protocol \<Rightarrow> bool" where
  "duplicate_packet event p =
     (case (rv_packet_number event, dp_last_packet_number p) of
        (Some packet, Some previous) \<Rightarrow> packet \<le> previous | _ \<Rightarrow> False)"

definition handle_event :: "doubao_event \<Rightarrow> session_event option session_op" where
  "handle_event event p =
     (if duplicate_packet event p then (Inr (Some SeDuplicateIgnored), p)
      else let p' = note_event event p
           in if rv_final_result event
              then (case rv_text event of
                      Some t \<Rightarrow>
                        if is_blank t
                        then fail ''doubao.empty_final_transcript''
                               ''Doubao returned an empty final transcript'' p'
                        else (Inr (Some (SeRecognition event)),
                              p'\<lparr> dp_final_transcript := Some t \<rparr>)
                    | None \<Rightarrow>
                        fail ''doubao.empty_final_transcript''
                          ''Doubao returned an empty final transcript'' p')
              else (Inr (Some (SeRecognition event)), p'))"

definition handle_result ::
  "json_lib \<Rightarrow> response_envelope \<Rightarrow> session_event option session_op" where
  "handle_result J response p =
     (if re_result_json response = [] then (Inr None, p)
      else if dp_phase p \<noteq> Streaming \<and> dp_phase p \<noteq> Finishing
      then fail ''doubao.result_before_session_started''
             ''Doubao returned recognition data before the session started'' p
      else case parse_recognition_event (jl_parse J) response of
             Inl _ \<Rightarrow> fail ''doubao.invalid_result_json''
                        ''Doubao returned malformed recognition result JSON'' p
           | Inr None \<Rightarrow> (Inr None, p)
           | Inr (Some event) \<Rightarrow> handle_event event p)"

definition handle_session_finished :: "session_event option session_op" where
  "handle_session_finished =
     seq (require_phase Finishing ''doubao.unexpected_session_finished'') (\<lambda>_ p.
       case dp_final_transcript p of
         None \<Rightarrow> fail ''doubao.missing_final_transcript''
                   ''Doubao finished the session without a final transcript'' p
       | Some transcript \<Rightarrow>
           let p' = p\<lparr> dp_phase := Finished \<rparr>
           in (Inr (Some (SeFinished
                 \<lparr> so_transcript = transcript, so_task_id = dp_task_id p',
                   so_sent_audio_frames = dp_sent_audio_frames p',
                   so_last_packet_number = dp_last_packet_number p',
                   so_provider_vad_started = dp_provider_vad_started p',
                   so_provider_vad_finished = dp_provider_vad_finished p' \<rparr>)), p'))"

definition start_task_auth_failed :: "'a session_op" where
  "start_task_auth_failed =
     fail_with_category EcAuthentication ''doubao.start_task_auth_failed''
       ''Doubao rejected the StartTask credential''"

definition handle_message ::
  "json_lib \<Rightarrow> response_envelope \<Rightarrow> session_event option session_op" where
  "handle_message J response p =
     (let message_type = re_message_type response
      in if message_type = text_of ''TaskFailed'' \<and> dp_phase p = TaskStarting \<and>
            auth_like_response response
         then start_task_auth_failed p
         else if message_type = text_of ''TaskFailed'' \<or> message_type = text_of ''SessionFailed''
         then fail ''doubao.remote_session_failed'' ''Doubao rejected the recognition session'' p
         else if message_type = text_of ''TaskStarted''
         then seq (require_phase TaskStarting ''doubao.unexpected_task_started'') (\<lambda>_ q.
                (Inr (Some SeTaskStarted),
                 q\<lparr> dp_task_id := (if re_task_id response \<noteq> [] then Some (re_task_id response)
                                   else dp_task_id q),
                    dp_phase := TaskStarted \<rparr>)) p
         else if message_type = text_of ''SessionStarted''
         then seq (require_phase SessionStarting ''doubao.unexpected_session_started'') (\<lambda>_ q.
                (Inr (Some SeSessionStarted), q\<lparr> dp_phase := Streaming \<rparr>)) p
         else if message_type = text_of ''SessionFinished'' then handle_session_finished p
         else handle_result J response p)"

definition handle_binary :: "json_lib \<Rightarrow> bytes \<Rightarrow> session_event option session_op" where
  "handle_binary J message p =
     (if dp_phase p \<in> {Finished, Failed, Cancelled, Disconnected}
      then (Inl (session_error_new ''doubao.session_not_receiving''
                   ''Doubao session is not accepting provider responses''), p)
      else case decode_response message of
        Inl _ \<Rightarrow> fail ''doubao.invalid_response_envelope''
                   ''Doubao returned a malformed response envelope'' p
      | Inr response \<Rightarrow>
          if re_request_id response \<noteq> dp_request_id p
          then fail ''doubao.response_request_mismatch''
                 ''Doubao response request ID does not match the active session'' p
          else if re_service response \<noteq> [] \<and> re_service response \<noteq> text_of ''ASR''
          then fail ''doubao.response_service_mismatch''
                 ''Doubao response service does not match ASR'' p
          else if re_status_code response \<noteq> 0
          then (if dp_phase p = TaskStarting \<and> auth_like_response response
                then start_task_auth_failed p
                else fail_remote_status (re_status_code response) p)
          else handle_message J response p)"

definition cancel :: "doubao_protocol \<Rightarrow> doubao_protocol" where
  "cancel p =
     (if dp_phase p \<noteq> Finished \<and> dp_phase p \<noteq> Failed then p\<lparr> dp_phase := Cancelled \<rparr> else p)"

end
