(* ===== verification/Doubao_Socket.thy ===== *)
theory Doubao_Socket
  imports Provider_Common Eff
begin

text \<open>
  The WebSocket transport of the Doubao provider
  (crates/voxtype-provider-doubao/src/websocket.rs): the validation of the handshake, the mapping
  of the library's errors, and the nonblocking queue, flush and poll operations over what the
  tungstenite library answers. The connection is an argument: the answers that the library, the
  clock and the cancellation flag give, each at its own tick; an operation that asks moves to the
  next tick. The messages handed to the library are kept, except for those that it gave back: after any
  other answer, errors included, they may be in its write buffer or on the wire.
\<close>

section \<open>The library's messages and errors\<close>

datatype ws_message =
    WsText utext | WsBinary bytes | WsPing bytes | WsPong bytes | WsClose | WsFrame

datatype ws_error =
    WeIo bool
  | WeConnectionClosed
  | WeAlreadyClosed
  | WeTls
  | WeCapacity
  | WeProtocol
  | WeUtf8
  | WeAttackAttempt
  | WeWriteBufferFull ws_message
  | WeHttp "16 word"
  | WeOther

text \<open>The argument of WeIo says whether the kind is WouldBlock or TimedOut (would_block).\<close>

record transport_error =
  te_category :: error_category
  te_retryable :: bool
  te_code :: string
  te_message :: string

definition transport_error :: "error_category \<Rightarrow> bool \<Rightarrow> string \<Rightarrow> string \<Rightarrow> transport_error" where
  "transport_error category retryable code message =
     \<lparr> te_category = category, te_retryable = retryable, te_code = code, te_message = message \<rparr>"

definition timeout :: "string \<Rightarrow> string \<Rightarrow> transport_error" where
  "timeout code message = transport_error EcTimeout True code message"

definition connection_error :: "string \<Rightarrow> string \<Rightarrow> transport_error" where
  "connection_error code message = transport_error EcConnection True code message"

definition configuration_error :: "string \<Rightarrow> string \<Rightarrow> transport_error" where
  "configuration_error code message = transport_error EcConfiguration False code message"

definition websocket_cancelled :: transport_error where
  "websocket_cancelled =
     transport_error EcCancelled False ''doubao.websocket_cancelled''
       ''Doubao WebSocket operation was cancelled''"

definition transport_into_vox_error :: "transport_error \<Rightarrow> vox_error" where
  "transport_into_vox_error e =
     with_retryable (te_retryable e) (vox_error_new (te_category e) (te_code e) (te_message e))"

fun map_handshake_error :: "ws_error \<Rightarrow> transport_error" where
  "map_handshake_error (WeHttp status) =
     (if status = 401 \<or> status = 403
      then transport_error EcAuthentication False ''doubao.websocket_auth_rejected''
             ''Doubao rejected the WebSocket handshake credentials''
      else if status = 429
      then transport_error EcRateLimited True ''doubao.websocket_rate_limited''
             ''Doubao rate limited the WebSocket handshake''
      else transport_error EcProtocol False ''doubao.websocket_handshake_rejected''
             ''Doubao rejected the WebSocket handshake'')"
| "map_handshake_error WeTls =
     transport_error EcConnection False ''doubao.websocket_tls_failed''
       ''Doubao WebSocket TLS validation failed''"
| "map_handshake_error (WeIo _) =
     connection_error ''doubao.websocket_handshake_io_failed''
       ''Doubao WebSocket handshake I/O failed''"
| "map_handshake_error _ =
     transport_error EcProtocol False ''doubao.websocket_handshake_failed''
       ''Doubao WebSocket handshake failed''"

definition map_socket_error :: "ws_error \<Rightarrow> string \<Rightarrow> transport_error" where
  "map_socket_error e default_code =
     (case e of
        WeTls \<Rightarrow> transport_error EcConnection False ''doubao.websocket_tls_failed''
                   ''Doubao WebSocket TLS connection failed''
      | _ \<Rightarrow>
          if e \<in> {WeCapacity, WeProtocol, WeUtf8, WeAttackAttempt}
          then transport_error EcProtocol False ''doubao.websocket_protocol_failed''
                 ''Doubao WebSocket protocol validation failed''
          else connection_error default_code ''Doubao WebSocket connection failed'')"

section \<open>The handshake\<close>

text \<open>Durations and instants are in nanoseconds.\<close>

definition millis :: "nat \<Rightarrow> nat" where
  "millis n = n * 1000000"

record websocket_spec =
  ws_endpoint :: string
  ws_headers :: "(string \<times> string) list"
  ws_connect_timeout :: nat
  ws_poll_interval :: nat

definition max_endpoint_bytes :: nat where
  "max_endpoint_bytes = 16 * 1024"

definition max_headers :: nat where
  "max_headers = 32"

definition max_header_name_bytes :: nat where
  "max_header_name_bytes = 64"

definition max_header_value_bytes :: nat where
  "max_header_value_bytes = 1024"

definition is_ascii_alphanumeric :: "char \<Rightarrow> bool" where
  "is_ascii_alphanumeric c \<longleftrightarrow>
     is_ascii_digit c \<or> is_ascii_lowercase c \<or>
     (65 \<le> (of_char c :: nat) \<and> (of_char c :: nat) \<le> 90)"

definition to_ascii_lowercase_char :: "char \<Rightarrow> char" where
  "to_ascii_lowercase_char c =
     (if 65 \<le> (of_char c :: nat) \<and> (of_char c :: nat) \<le> 90 then char_of (of_char c + 32 :: nat)
      else c)"

definition to_ascii_lowercase :: "string \<Rightarrow> string" where
  "to_ascii_lowercase s = map to_ascii_lowercase_char s"

definition valid_header_name :: "string \<Rightarrow> bool" where
  "valid_header_name name \<longleftrightarrow>
     name \<noteq> [] \<and> length name \<le> max_header_name_bytes \<and>
     list_all (\<lambda>c. is_ascii_alphanumeric c \<or> c = CHR ''-'') name"

definition is_reserved_header :: "string \<Rightarrow> bool" where
  "is_reserved_header name \<longleftrightarrow>
     to_ascii_lowercase name \<in>
       {''connection'', ''host'', ''upgrade'', ''sec-websocket-accept'',
        ''sec-websocket-extensions'', ''sec-websocket-key'', ''sec-websocket-protocol'',
        ''sec-websocket-version''}"

definition is_loopback_ws :: "string \<Rightarrow> bool" where
  "is_loopback_ws endpoint =
     (case strip_prefix ''ws://'' endpoint of
        None \<Rightarrow> False
      | Some rest \<Rightarrow>
          (let authority = to_ascii_lowercase (takeWhile (\<lambda>c. c \<noteq> CHR ''/'' \<and> c \<noteq> CHR ''?'') rest)
           in authority = ''localhost'' \<or> starts_with ''localhost:'' authority \<or>
              authority = ''127.0.0.1'' \<or> starts_with ''127.0.0.1:'' authority \<or>
              authority = ''[::1]'' \<or> starts_with ''[::1]:'' authority))"

fun validate_headers :: "(string \<times> string) list \<Rightarrow> transport_error + unit" where
  "validate_headers [] = Inr ()"
| "validate_headers ((name, v) # headers) =
     (if \<not> valid_header_name name \<or> v = [] \<or> max_header_value_bytes < length v \<or>
         list_ex is_ascii_control v \<or> is_reserved_header name
      then Inl (configuration_error ''doubao.websocket_invalid_header''
                  ''Doubao WebSocket handshake header is invalid or reserved'')
      else validate_headers headers)"

text \<open>The URI parser of the http library is an argument, and so is what it finds in a URI.\<close>

record ws_uri =
  uri_scheme :: "string option"
  uri_host :: "string option"
  uri_port :: "16 word option"

definition validate_spec :: "(string \<Rightarrow> 'uri option) \<Rightarrow> websocket_spec \<Rightarrow> transport_error + 'uri" where
  "validate_spec parse_uri spec =
     (if ws_endpoint spec = [] \<or> max_endpoint_bytes < length (ws_endpoint spec) \<or>
         list_ex is_ascii_control (ws_endpoint spec)
      then Inl (configuration_error ''doubao.websocket_invalid_endpoint''
                  ''Doubao WebSocket endpoint is invalid'')
      else if \<not> (millis 100 \<le> ws_connect_timeout spec \<and> ws_connect_timeout spec \<le> millis 60000) \<or>
              \<not> (millis 1 \<le> ws_poll_interval spec \<and> ws_poll_interval spec \<le> millis 100)
      then Inl (configuration_error ''doubao.websocket_invalid_timeout''
                  ''Doubao WebSocket timeouts are outside the safe range'')
      else if \<not> starts_with ''wss://'' (ws_endpoint spec) \<and> \<not> is_loopback_ws (ws_endpoint spec)
      then Inl (configuration_error ''doubao.websocket_insecure_endpoint''
                  ''Doubao WebSocket endpoint must use WSS or loopback WS'')
      else if max_headers < length (ws_headers spec)
      then Inl (configuration_error ''doubao.websocket_too_many_headers''
                  ''Doubao WebSocket handshake contains too many headers'')
      else try_then (validate_headers (ws_headers spec)) (\<lambda>_.
        case parse_uri (ws_endpoint spec) of
          None \<Rightarrow> Inl (configuration_error ''doubao.websocket_invalid_uri''
                         ''Doubao WebSocket endpoint is not a valid URI'')
        | Some uri \<Rightarrow> Inr uri))"

section \<open>Connecting\<close>

text \<open>
  The environment: the clock, the flag and the answers of the library, by tick; the outcomes of a
  TCP attempt and of a round of the handshake; and what the resolver, the socket options and the
  TLS library say once.
\<close>

datatype tcp_answer = TcpConnected | TcpTimedOut | TcpFailed

datatype handshake_answer = HsDone | HsInterrupted | HsFailure ws_error

record ws_env =
  we_clock :: "nat \<Rightarrow> nat"
  we_tok :: cancellation_token
  we_write :: "nat \<Rightarrow> bytes \<Rightarrow> ws_error + unit"
  we_flush :: "nat \<Rightarrow> ws_error + unit"
  we_read :: "nat \<Rightarrow> ws_error + ws_message"
  we_tcp :: "nat \<Rightarrow> nat \<Rightarrow> tcp_answer"
  we_handshake :: "nat \<Rightarrow> handshake_answer"
  we_parse_uri :: "string \<Rightarrow> ws_uri option"
  we_resolve :: "string \<Rightarrow> nat \<Rightarrow> nat list option"
  we_tls_provider :: bool
  we_nodelay :: bool
  we_nonblocking :: bool

type_synonym 'a connect_op = "(nat, transport_error, 'a) eff"
type_synonym 'a connect_run = "(nat, transport_error, 'a) run"

definition check_connect_cancelled :: "ws_env \<Rightarrow> unit connect_op" where
  "check_connect_cancelled E k = (if we_tok E k then Inl websocket_cancelled else Inr (), Suc k)"

definition connect_clock :: "ws_env \<Rightarrow> nat connect_op" where
  "connect_clock E k = (Inr (we_clock E k), Suc k)"

definition ensure_rustls_provider :: "ws_env \<Rightarrow> unit connect_op" where
  "ensure_rustls_provider E =
     (if we_tls_provider E then give ()
      else raise (transport_error EcInternal False ''doubao.websocket_crypto_provider_unavailable''
                    ''Could not initialize the Doubao TLS crypto provider''))"

text \<open>
  One pass over the addresses: connected, or another pass because some attempt timed out. The
  slice of time of an attempt bounds the library's call, which answers.
\<close>

fun connect_pass :: "ws_env \<Rightarrow> nat \<Rightarrow> nat list \<Rightarrow> bool \<Rightarrow> (unit + unit) connect_op" where
  "connect_pass E deadline [] saw_timeout =
     (if saw_timeout then give (Inr ())
      else raise (connection_error ''doubao.websocket_connect_failed''
                    ''Could not connect to the Doubao WebSocket service''))"
| "connect_pass E deadline (address # addresses) saw_timeout =
     seq (check_connect_cancelled E) (\<lambda>_.
     seq (connect_clock E) (\<lambda>now.
       if deadline \<le> now
       then raise (timeout ''doubao.websocket_connect_timeout''
                     ''Doubao WebSocket TCP connection timed out'')
       else (\<lambda>k. (case we_tcp E k address of
                    TcpConnected \<Rightarrow> give (Inl ())
                  | TcpTimedOut \<Rightarrow> connect_pass E deadline addresses True
                  | TcpFailed \<Rightarrow> connect_pass E deadline addresses saw_timeout) (Suc k))))"

definition connect_tcp :: "ws_env \<Rightarrow> nat \<Rightarrow> nat list \<Rightarrow> unit connect_run" where
  "connect_tcp E deadline addresses =
     iterate (\<lambda>_ :: unit. connect_pass E deadline addresses False) ()"

definition handshake_failure :: "ws_env \<Rightarrow> ws_error \<Rightarrow> 'a connect_op" where
  "handshake_failure E e =
     seq (check_connect_cancelled E) (\<lambda>_. raise (map_handshake_error e))"

definition handshake_round :: "ws_env \<Rightarrow> nat \<Rightarrow> unit \<Rightarrow> (unit + unit) connect_op" where
  "handshake_round E deadline _ =
     seq (check_connect_cancelled E) (\<lambda>_.
     seq (connect_clock E) (\<lambda>now.
       if deadline \<le> now
       then raise (timeout ''doubao.websocket_handshake_timeout''
                     ''Doubao WebSocket handshake timed out'')
       else (\<lambda>k. (case we_handshake E k of
                    HsDone \<Rightarrow> give (Inl ())
                  | HsInterrupted \<Rightarrow> give (Inr ())
                  | HsFailure e \<Rightarrow> handshake_failure E e) (Suc k))))"

definition finish_handshake :: "ws_env \<Rightarrow> nat \<Rightarrow> unit connect_run" where
  "finish_handshake E deadline = iterate (handshake_round E deadline) ()"

definition resolve_addresses :: "ws_env \<Rightarrow> ws_uri \<Rightarrow> nat list connect_op" where
  "resolve_addresses E uri =
     (case uri_host uri of
        None \<Rightarrow> raise (transport_error EcConfiguration False ''doubao.websocket_missing_host''
                         ''Doubao WebSocket endpoint has no host'')
      | Some host \<Rightarrow>
          let port = (case uri_port uri of
                        Some p \<Rightarrow> unat p
                      | None \<Rightarrow> if uri_scheme uri = Some ''wss'' then 443 else 80)
          in case we_resolve E host port of
               None \<Rightarrow> raise (transport_error EcUnavailable True ''doubao.websocket_dns_failed''
                                ''Could not resolve the Doubao WebSocket host'')
             | Some addresses \<Rightarrow>
                 if addresses = []
                 then raise (transport_error EcUnavailable True ''doubao.websocket_dns_empty''
                               ''Doubao WebSocket host resolved to no addresses'')
                 else give addresses)"

definition set_socket_options :: "ws_env \<Rightarrow> unit connect_op" where
  "set_socket_options E =
     (if \<not> we_nodelay E
      then raise (connection_error ''doubao.websocket_nodelay_failed''
                    ''Could not configure the Doubao TCP connection'')
      else if \<not> we_nonblocking E
      then raise (connection_error ''doubao.websocket_nonblocking_failed''
                    ''Could not configure nonblocking Doubao WebSocket I/O'')
      else give ())"

definition client_handshake :: "ws_env \<Rightarrow> nat \<Rightarrow> unit connect_run" where
  "client_handshake E deadline k =
     (case we_handshake E k of
        HsDone \<Rightarrow> Some (Inr (), Suc k)
      | HsInterrupted \<Rightarrow> finish_handshake E deadline (Suc k)
      | HsFailure e \<Rightarrow> Some (handshake_failure E e (Suc k)))"

definition connect_websocket :: "ws_env \<Rightarrow> websocket_spec \<Rightarrow> unit connect_run" where
  "connect_websocket E spec =
     (case validate_spec (we_parse_uri E) spec of
        Inl e \<Rightarrow> lift (raise e)
      | Inr uri \<Rightarrow>
          andthen (lift (check_connect_cancelled E)) (\<lambda>_.
          andthen (lift (if uri_scheme uri = Some ''wss'' then ensure_rustls_provider E
                         else give ())) (\<lambda>_.
          andthen (lift (connect_clock E)) (\<lambda>start.
          andthen (lift (resolve_addresses E uri)) (\<lambda>addresses.
          andthen (connect_tcp E (start + ws_connect_timeout spec) addresses) (\<lambda>_.
          andthen (lift (set_socket_options E)) (\<lambda>_.
          client_handshake E (start + ws_connect_timeout spec))))))))"

section \<open>The open connection\<close>

record ws_socket =
  sk_at :: nat
  sk_buffered :: "bytes list"

type_synonym 'a socket_op = "(ws_socket, transport_error, 'a) eff"

definition ticked :: "ws_socket \<Rightarrow> ws_socket" where
  "ticked s = s\<lparr> sk_at := Suc (sk_at s) \<rparr>"

datatype queue_result = Queued | Full bytes

datatype flush_result = Flushed | Pending | Closed

datatype socket_event = EvBinary bytes | EvPing bytes | EvPong | EvClose

datatype poll_result = PollIdle | PollEvent socket_event | PollClosed

text \<open>A message that the library did not give back.\<close>

definition handed_over :: "bytes \<Rightarrow> ws_socket \<Rightarrow> ws_socket" where
  "handed_over payload s = (ticked s)\<lparr> sk_buffered := sk_buffered s @ [payload] \<rparr>"

text \<open>
  Only a full buffer gives the message back. A write that fails otherwise leaves the message with
  the library, which may have sent it or may send it with a later flush.
\<close>

definition queue_binary :: "ws_env \<Rightarrow> bytes \<Rightarrow> queue_result socket_op" where
  "queue_binary E payload s =
     (case we_write E (sk_at s) payload of
        Inr _ \<Rightarrow> (Inr Queued, handed_over payload s)
      | Inl (WeWriteBufferFull (WsBinary bs)) \<Rightarrow> (Inr (Full bs), ticked s)
      | Inl (WeWriteBufferFull _) \<Rightarrow>
          (Inl (transport_error EcInternal False ''doubao.websocket_buffer_state''
                  ''WebSocket returned an unexpected buffered message''), handed_over payload s)
      | Inl e \<Rightarrow>
          (Inl (map_socket_error e ''doubao.websocket_write_failed''), handed_over payload s))"

definition flush :: "ws_env \<Rightarrow> flush_result socket_op" where
  "flush E s =
     (case we_flush E (sk_at s) of
        Inr _ \<Rightarrow> (Inr Flushed, ticked s)
      | Inl (WeIo True) \<Rightarrow> (Inr Pending, ticked s)
      | Inl WeConnectionClosed \<Rightarrow> (Inr Closed, ticked s)
      | Inl WeAlreadyClosed \<Rightarrow> (Inr Closed, ticked s)
      | Inl e \<Rightarrow> (Inl (map_socket_error e ''doubao.websocket_flush_failed''), ticked s))"

definition nonbinary_error :: transport_error where
  "nonbinary_error =
     transport_error EcProtocol False ''doubao.websocket_nonbinary_message''
       ''Doubao WebSocket returned an unsupported non-binary message''"

definition poll :: "ws_env \<Rightarrow> poll_result socket_op" where
  "poll E s =
     (case we_read E (sk_at s) of
        Inr (WsBinary bs) \<Rightarrow> (Inr (PollEvent (EvBinary bs)), ticked s)
      | Inr (WsPing bs) \<Rightarrow> seq (flush E) (\<lambda>_. give (PollEvent (EvPing bs))) (ticked s)
      | Inr (WsPong _) \<Rightarrow> (Inr (PollEvent EvPong), ticked s)
      | Inr WsClose \<Rightarrow> seq (flush E) (\<lambda>_. give (PollEvent EvClose)) (ticked s)
      | Inr _ \<Rightarrow> (Inl nonbinary_error, ticked s)
      | Inl (WeIo True) \<Rightarrow> (Inr PollIdle, ticked s)
      | Inl WeConnectionClosed \<Rightarrow> (Inr PollClosed, ticked s)
      | Inl WeAlreadyClosed \<Rightarrow> (Inr PollClosed, ticked s)
      | Inl e \<Rightarrow> (Inl (map_socket_error e ''doubao.websocket_read_failed''), ticked s))"

text \<open>What the operations do to the socket.\<close>

lemma queue_binary_frame:
  assumes "queue_binary E payload s = (r, t)"
  shows "sk_at t = Suc (sk_at s)"
    and "sk_buffered t = sk_buffered s @ (case r of Inr (Full _) \<Rightarrow> [] | _ \<Rightarrow> [payload])"
  using assms
  by (auto simp: queue_binary_def ticked_def handed_over_def split: sum.splits ws_error.splits ws_message.splits)

lemma flush_frame:
  assumes "flush E s = (r, t)"
  shows "sk_at t = Suc (sk_at s)" and "sk_buffered t = sk_buffered s"
  using assms
  by (auto simp: flush_def ticked_def split: sum.splits ws_error.splits bool.splits)

text \<open>A poll reads once and flushes at most once.\<close>

lemma poll_state:
  assumes "poll E s = (r, t)"
  shows "t = ticked s \<or> (\<exists>f. flush E (ticked s) = (f, t))"
proof (cases "we_read E (sk_at s)")
  case (Inl e)
  then show ?thesis using assms by (cases e) (auto simp: poll_def split: bool.splits)
next
  case (Inr m)
  have "(\<exists>f. flush E (ticked s) = (f, t))" if "seq (flush E) g (ticked s) = (r, t)" "\<And>a u. snd (g a u) = u" for g
    using that by (cases "flush E (ticked s)") (auto simp: seq_def split: sum.splits; metis snd_conv)
  note flushed = this[where g = "\<lambda>_. give _"]
  show ?thesis using assms Inr
    by (cases m) (auto simp: poll_def intro!: flushed disjI2)
qed

lemma poll_frame:
  assumes "poll E s = (r, t)"
  shows "sk_at s < sk_at t" and "sk_buffered t = sk_buffered s"
  using poll_state[OF assms] flush_frame(1)[of E "ticked s" _ t] flush_frame(2)[of E "ticked s" _ t]
  by (auto simp: ticked_def)

section \<open>Connecting ends\<close>

text \<open>The clock exceeds every bound for good.\<close>

definition clock_runs :: "ws_env \<Rightarrow> bool" where
  "clock_runs E \<longleftrightarrow> (\<forall>bound. \<exists>n. \<forall>k \<ge> n. bound \<le> we_clock E k)"

lemma connect_pass_ticks:
  assumes "connect_pass E deadline addresses saw k = (r, t)"
  shows "k \<le> t"
  using assms
proof (induction addresses arbitrary: saw k)
  case Nil
  then show ?case by (auto split: if_splits)
next
  case (Cons a as)
  have "t = Suc k \<or> t = Suc (Suc k) \<or> t = Suc (Suc (Suc k)) \<or>
      (\<exists>saw'. connect_pass E deadline as saw' (Suc (Suc (Suc k))) = (r, t))"
    using Cons.prems
    by (auto simp: seq_def check_connect_cancelled_def connect_clock_def
        split: if_splits tcp_answer.splits)
  then show ?case using Cons.IH[where k = "Suc (Suc (Suc k))"] by (auto dest: Suc_leD)
qed

lemma connect_pass_continues:
  assumes "connect_pass E deadline addresses False k = (Inr (Inr u), t)"
  shows "k < t \<and> \<not> deadline \<le> we_clock E (Suc k)"
proof (cases addresses)
  case (Cons a as)
  then have "\<not> deadline \<le> we_clock E (Suc k) \<and>
      (\<exists>saw'. connect_pass E deadline as saw' (Suc (Suc (Suc k))) = (Inr (Inr u), t))"
    using assms
    by (auto simp: seq_def check_connect_cancelled_def connect_clock_def
        split: if_splits tcp_answer.splits)
  then show ?thesis using connect_pass_ticks by (metis Suc_le_eq Suc_leD)
qed (use assms in simp)

lemma connect_tcp_returns:
  assumes "clock_runs E"
  shows "\<exists>r t. connect_tcp E deadline addresses k = Some (r, t)"
proof -
  obtain n where n: "\<And>k. n \<le> k \<Longrightarrow> deadline \<le> we_clock E k"
    using assms unfolding clock_runs_def by blast
  show ?thesis unfolding connect_tcp_def
  proof (rule iterate_returns[where count = id and N = n])
    fix a s a' t assume "connect_pass E deadline addresses False s = (Inr (Inr a'), t)"
    from connect_pass_continues[OF this] show "id s < id t \<and> id s < n"
      using n[of "Suc s"] by (cases "n \<le> s") auto
  qed
qed

lemma finish_handshake_returns:
  assumes "clock_runs E"
  shows "\<exists>r t. finish_handshake E deadline k = Some (r, t)"
proof -
  obtain n where n: "\<And>k. n \<le> k \<Longrightarrow> deadline \<le> we_clock E k"
    using assms unfolding clock_runs_def by blast
  show ?thesis unfolding finish_handshake_def
  proof (rule iterate_returns[where count = id and N = n])
    fix a s a' t assume "handshake_round E deadline a s = (Inr (Inr a'), t)"
    then have "s < t \<and> \<not> deadline \<le> we_clock E (Suc s)"
      by (auto simp: handshake_round_def handshake_failure_def seq_def check_connect_cancelled_def
          connect_clock_def split: if_splits handshake_answer.splits)
    then show "id s < id t \<and> id s < n" using n[of "Suc s"] by (cases "n \<le> s") auto
  qed
qed

lemma connect_websocket_returns:
  assumes "clock_runs E"
  shows "\<exists>r t. connect_websocket E spec k = Some (r, t)"
proof (cases "validate_spec (we_parse_uri E) spec")
  case (Inr uri)
  have client: "\<exists>r t. client_handshake E dl k = Some (r, t)" for dl k
    using finish_handshake_returns[OF assms]
    by (auto simp: client_handshake_def split: handshake_answer.split)
  show ?thesis unfolding connect_websocket_def Inr sum.case
    by (intro andthen_returns lift_returns connect_tcp_returns[OF assms] client)
qed (simp add: connect_websocket_def lift_returns)

end
