(* ===== verification/Doubao_Runner.thy ===== *)
theory Doubao_Runner
  imports Doubao_Session Doubao_Socket
begin

text \<open>
  The driver of one Doubao recognition (crates/voxtype-provider-doubao/src/runner.rs): it reads
  the recording frame by frame, encodes it, and moves the protocol session over the WebSocket
  while it watches the deadlines and the cancellation flag. The recording, the encoder and the
  environment of the socket are arguments. A loop that does not end has no result.
\<close>

section \<open>Configuration\<close>

record run_config =
  rc_websocket :: websocket_spec
  rc_request_id :: utext
  rc_session_json :: bytes
  rc_phase_timeout :: nat
  rc_total_timeout :: nat
  rc_frame_interval :: nat

record transcription =
  tn_text :: utext
  tn_sent_audio_millis :: "64 word"
  tn_partial_results :: "64 word"
  tn_provider_vad_started :: bool
  tn_provider_vad_finished :: bool

definition max_pcm_bytes :: nat where
  "max_pcm_bytes = 16000 * 2 * 3600"

definition max_inbound_per_tick :: nat where
  "max_inbound_per_tick = 8"

definition run_error :: "error_category \<Rightarrow> string \<Rightarrow> string \<Rightarrow> bool \<Rightarrow> vox_error" where
  "run_error category code message retryable =
     with_retryable retryable (vox_error_new category code message)"

definition validate_run_config :: "json_lib \<Rightarrow> run_config \<Rightarrow> unit outcome" where
  "validate_run_config J config =
     (if \<not> (millis 100 \<le> rc_phase_timeout config \<and> rc_phase_timeout config \<le> millis 60000) \<or>
         rc_total_timeout config < rc_phase_timeout config \<or>
         millis 3600000 < rc_total_timeout config \<or>
         millis 100 < rc_frame_interval config
      then Inl (run_error EcConfiguration ''doubao.invalid_run_timeout''
                  ''Doubao session timing configuration is invalid'' False)
      else if 256 * 1024 < length (rc_session_json config) \<or> \<not> json_object J (rc_session_json config)
      then Inl (run_error EcConfiguration ''doubao.invalid_session_json''
                  ''Doubao session configuration must be a bounded JSON object'' False)
      else Inr ())"

section \<open>The recording\<close>

text \<open>
  What the reads of the recording give: some bytes, where none is the end of the file, an
  interrupted call, or an error. A read takes no more than it asked for, so the rest of a longer
  piece is there for the next one.
\<close>

datatype read_result = RdBytes bytes | RdInterrupted | RdError

record pcm_file =
  pf_opens :: bool
  pf_length :: "nat option"
  pf_reads :: "read_result list"

definition prepare_pcm :: "pcm_file \<Rightarrow> read_result list outcome" where
  "prepare_pcm file =
     (if \<not> pf_opens file
      then Inl (run_error EcUnavailable ''doubao.pcm_open_failed''
                  ''Could not open the PCM recording'' True)
      else case pf_length file of
        None \<Rightarrow> Inl (run_error EcUnavailable ''doubao.pcm_metadata_failed''
                  ''Could not inspect the PCM recording'' True)
      | Some len \<Rightarrow>
          if len = 0 \<or> max_pcm_bytes < len \<or> len mod 2 \<noteq> 0
          then Inl (run_error EcInvalidArgument ''doubao.invalid_pcm''
                      ''PCM recording must be non-empty bounded 16-bit audio'' False)
          else Inr (pf_reads file))"

definition pcm_read_failed :: vox_error where
  "pcm_read_failed =
     run_error EcUnavailable ''doubao.pcm_read_failed'' ''Could not read the PCM recording'' True"

text \<open>The bytes read so far of a frame of 640, and the reads that are left.\<close>

fun fill_frame :: "bytes \<Rightarrow> read_result list \<Rightarrow> (vox_error + bytes) \<times> read_result list" where
  "fill_frame filled [] = (Inr filled, [])"
| "fill_frame filled (r # rs) =
     (if pcm_frame_bytes \<le> length filled then (Inr filled, r # rs)
      else case r of
        RdInterrupted \<Rightarrow> fill_frame filled rs
      | RdError \<Rightarrow> (Inl pcm_read_failed, rs)
      | RdBytes b \<Rightarrow>
          let room = pcm_frame_bytes - length filled
          in if b = [] then (Inr filled, rs)
             else if room < length b then (Inr (filled @ take room b), RdBytes (drop room b) # rs)
             else fill_frame (filled @ b) rs)"

definition read_pcm_frame ::
  "read_result list \<Rightarrow> (vox_error + bytes option) \<times> read_result list" where
  "read_pcm_frame reads =
     (case fill_frame [] reads of
        (Inl e, rest) \<Rightarrow> (Inl e, rest)
      | (Inr filled, rest) \<Rightarrow>
          (if filled = [] then Inr None
           else if length filled mod 2 \<noteq> 0
           then Inl (run_error EcInvalidArgument ''doubao.invalid_pcm''
                       ''PCM recording ended with an incomplete sample'' False)
           else Inr (Some (filled @ replicate (pcm_frame_bytes - length filled) 0)), rest))"

text \<open>The system clock: milliseconds since the epoch, or None before it.\<close>

definition unix_millis :: "nat option \<Rightarrow> 64 word outcome" where
  "unix_millis wall =
     (case wall of
        None \<Rightarrow> Inl (run_error EcInternal ''doubao.system_clock_invalid''
                  ''System clock is before the Unix epoch'' False)
      | Some m \<Rightarrow>
          if 2 ^ 64 \<le> m
          then Inl (run_error EcInternal ''doubao.system_clock_overflow''
                      ''System clock timestamp is too large'' False)
          else Inr (word_of_nat m))"

section \<open>The driver\<close>

record driver =
  dr_socket :: ws_socket
  dr_protocol :: doubao_protocol
  dr_partial_results :: "64 word"
  dr_outcome :: "session_outcome option"

record run_env =
  rn_ws :: ws_env
  rn_json :: json_lib
  rn_encode :: "nat \<Rightarrow> bytes \<Rightarrow> bytes option"
  rn_wall :: "nat option"
  rn_total_deadline :: nat
  rn_phase_timeout :: nat

type_synonym 'a drive = "(driver, vox_error, 'a) eff"
type_synonym 'a drive_run = "(driver, vox_error, 'a) run"

definition protocol_vox_error :: "session_error \<Rightarrow> vox_error" where
  "protocol_vox_error e =
     run_error (se_category e) (se_code e)
       (case se_status_code e of
          None \<Rightarrow> ''Doubao session protocol validation failed''
        | Some status \<Rightarrow>
            ''Doubao session protocol validation failed with status '' @ show_nat (unat status))
       False"

definition connection_closed :: vox_error where
  "connection_closed =
     run_error EcConnection ''doubao.websocket_closed_early''
       ''Doubao WebSocket closed before recognition completed'' True"

definition on_socket :: "'a socket_op \<Rightarrow> 'a drive" where
  "on_socket m d =
     (let (r, s) = m (dr_socket d)
      in (map_sum transport_into_vox_error id r, d\<lparr> dr_socket := s \<rparr>))"

definition on_protocol :: "'a session_op \<Rightarrow> 'a drive" where
  "on_protocol m d =
     (let (r, p) = m (dr_protocol d)
      in (map_sum protocol_vox_error id r, d\<lparr> dr_protocol := p \<rparr>))"

definition instant_now :: "run_env \<Rightarrow> nat drive" where
  "instant_now E d =
     (Inr (we_clock (rn_ws E) (sk_at (dr_socket d))), d\<lparr> dr_socket := ticked (dr_socket d) \<rparr>)"

definition is_cancelled :: "run_env \<Rightarrow> bool drive" where
  "is_cancelled E d =
     (Inr (we_tok (rn_ws E) (sk_at (dr_socket d))), d\<lparr> dr_socket := ticked (dr_socket d) \<rparr>)"

definition check_deadlines :: "run_env \<Rightarrow> nat \<Rightarrow> unit drive" where
  "check_deadlines E phase_deadline =
     seq (is_cancelled E) (\<lambda>cancelled.
       if cancelled
       then raise (run_error EcCancelled ''doubao.session_cancelled''
                     ''Doubao recognition session was cancelled'' False)
       else seq (instant_now E) (\<lambda>now.
         if rn_total_deadline E \<le> now
         then raise (run_error EcTimeout ''doubao.total_timeout''
                       ''Doubao recognition exceeded its total timeout'' True)
         else if phase_deadline \<le> now
         then raise (run_error EcTimeout ''doubao.phase_timeout''
                       ''Doubao recognition phase timed out'' True)
         else give ()))"

definition phase_deadline :: "run_env \<Rightarrow> nat drive" where
  "phase_deadline E =
     seq (instant_now E) (\<lambda>now. give (min (now + rn_phase_timeout E) (rn_total_deadline E)))"

definition note_session_event :: "session_event option \<Rightarrow> unit drive" where
  "note_session_event ev d =
     (Inr (),
      case ev of
        Some (SeRecognition recognition) \<Rightarrow>
          if rv_interim recognition
          then d\<lparr> dr_partial_results := sat_add (dr_partial_results d) 1 \<rparr> else d
      | Some (SeFinished out) \<Rightarrow> d\<lparr> dr_outcome := Some out \<rparr>
      | _ \<Rightarrow> d)"

definition pump_once :: "run_env \<Rightarrow> bool drive" where
  "pump_once E =
     seq (on_socket (poll (rn_ws E))) (\<lambda>r.
       case r of
         PollIdle \<Rightarrow> give False
       | PollClosed \<Rightarrow> raise connection_closed
       | PollEvent EvClose \<Rightarrow> raise connection_closed
       | PollEvent (EvBinary message) \<Rightarrow>
           seq (on_protocol (handle_binary (rn_json E) message)) (\<lambda>ev.
             seq (note_session_event ev) (\<lambda>_. give True))
       | PollEvent _ \<Rightarrow> give True)"

fun drain_loop :: "run_env \<Rightarrow> nat \<Rightarrow> unit drive" where
  "drain_loop E 0 = give ()"
| "drain_loop E (Suc n) = seq (pump_once E) (\<lambda>more. if more then drain_loop E n else give ())"

definition drain_inbound :: "run_env \<Rightarrow> unit drive" where
  "drain_inbound E = drain_loop E max_inbound_per_tick"

definition flush_once :: "run_env \<Rightarrow> nat \<Rightarrow> unit drive" where
  "flush_once E deadline =
     seq (check_deadlines E deadline) (\<lambda>_.
       seq (on_socket (flush (rn_ws E))) (\<lambda>f.
         if f = Closed then raise connection_closed
         else seq (pump_once E) (\<lambda>_. give ())))"

section \<open>Sending\<close>

definition when_audio :: "bool \<Rightarrow> unit session_op \<Rightarrow> unit drive" where
  "when_audio audio m = (if audio then on_protocol m else give ())"

text \<open>
  One round of the first loop of send_payload: the result of the loop, or the payload that the
  full buffer gave back.
\<close>

definition queue_round :: "run_env \<Rightarrow> nat \<Rightarrow> bool \<Rightarrow> bytes \<Rightarrow> (unit + bytes) drive" where
  "queue_round E deadline audio payload =
     seq (check_deadlines E deadline) (\<lambda>_ d.
       case on_socket (queue_binary (rn_ws E) payload) d of
         (Inr Queued, d') \<Rightarrow>
           seq (when_audio audio mark_audio_write_ambiguous) (\<lambda>_. give (Inl ())) d'
       | (Inr (Full returned), d') \<Rightarrow>
           seq (flush_once E deadline) (\<lambda>_. give (Inr returned)) d'
       | (Inl e, d') \<Rightarrow>
           seq (when_audio audio mark_audio_write_ambiguous) (\<lambda>_. raise e) d')"

text \<open>One round of its second loop.\<close>

definition flush_round :: "run_env \<Rightarrow> nat \<Rightarrow> bool \<Rightarrow> unit \<Rightarrow> (unit + unit) drive" where
  "flush_round E deadline audio _ =
     seq (check_deadlines E deadline) (\<lambda>_.
       seq (on_socket (flush (rn_ws E))) (\<lambda>f.
         case f of
           Flushed \<Rightarrow> seq (when_audio audio confirm_audio_sent) (\<lambda>_. give (Inl ()))
         | Pending \<Rightarrow> seq (pump_once E) (\<lambda>_. give (Inr ()))
         | Closed \<Rightarrow> raise connection_closed))"

definition send_payload :: "run_env \<Rightarrow> bytes \<Rightarrow> nat \<Rightarrow> bool \<Rightarrow> unit drive_run" where
  "send_payload E payload deadline audio =
     andthen (iterate (queue_round E deadline audio) payload) (\<lambda>_.
       iterate (flush_round E deadline audio) ())"

text \<open>The deadline of a call is computed before the call.\<close>

definition send_within_phase :: "run_env \<Rightarrow> bytes \<Rightarrow> bool \<Rightarrow> unit drive_run" where
  "send_within_phase E payload audio =
     andthen (lift (phase_deadline E)) (\<lambda>deadline. send_payload E payload deadline audio)"

section \<open>Waiting\<close>

definition phase_round :: "run_env \<Rightarrow> session_phase \<Rightarrow> nat \<Rightarrow> unit \<Rightarrow> (unit + unit) drive" where
  "phase_round E expected deadline _ d =
     (if dp_phase (dr_protocol d) = expected then (Inr (Inl ()), d)
      else seq (check_deadlines E deadline) (\<lambda>_.
             seq (pump_once E) (\<lambda>_. give (Inr ()))) d)"

definition wait_for_phase :: "run_env \<Rightarrow> session_phase \<Rightarrow> unit drive_run" where
  "wait_for_phase E expected =
     andthen (lift (phase_deadline E)) (\<lambda>deadline. iterate (phase_round E expected deadline) ())"

definition slot_round :: "run_env \<Rightarrow> nat \<Rightarrow> unit \<Rightarrow> (unit + unit) drive" where
  "slot_round E send_at _ =
     seq (instant_now E) (\<lambda>now.
       if send_at \<le> now then give (Inl ())
       else seq (check_deadlines E (rn_total_deadline E)) (\<lambda>_.
              seq (drain_inbound E) (\<lambda>_.
                seq (instant_now E) (\<lambda>_. give (Inr ())))))"

definition wait_for_send_slot :: "run_env \<Rightarrow> nat \<Rightarrow> unit drive_run" where
  "wait_for_send_slot E send_at = iterate (slot_round E send_at) ()"

section \<open>One recognition\<close>

definition sent_frames :: "driver \<Rightarrow> 64 word" where
  "sent_frames d = dp_sent_audio_frames (dr_protocol d)"

definition frame_slot :: "nat \<Rightarrow> nat \<Rightarrow> driver \<Rightarrow> nat" where
  "frame_slot started interval d = started + interval * min (unat (sent_frames d)) (2 ^ 32 - 1)"

definition frame_timestamp :: "64 word \<Rightarrow> driver \<Rightarrow> 64 word" where
  "frame_timestamp base d = sat_add base (sat_mul (sent_frames d) 20)"

definition encode_frame :: "run_env \<Rightarrow> nat \<Rightarrow> bytes \<Rightarrow> bytes drive" where
  "encode_frame E k frame =
     (case rn_encode E k frame of
        None \<Rightarrow> raise (run_error EcInternal ''doubao.opus_encode_failed''
                        ''Could not encode a Doubao Opus frame'' False)
      | Some packet \<Rightarrow> give packet)"

definition send_frame :: "run_env \<Rightarrow> nat \<Rightarrow> nat \<Rightarrow> 64 word \<Rightarrow> nat \<Rightarrow> bytes \<Rightarrow> unit drive_run" where
  "send_frame E started interval base k frame d =
     andthen (wait_for_send_slot E (frame_slot started interval d)) (\<lambda>_.
       andthen (lift (encode_frame E k frame)) (\<lambda>packet.
         andthen (\<lambda>d'. lift (on_protocol
                    (audio_request (rn_json E) (frame_timestamp base d') packet)) d') (\<lambda>request.
           andthen (send_within_phase E request True) (\<lambda>_.
             lift (drain_inbound E))))) d"

fun read_size :: "read_result \<Rightarrow> nat" where
  "read_size (RdBytes b) = Suc (length b)"
| "read_size _ = 1"

lemma fill_frame_size:
  "fill_frame filled reads = (r, rest) \<Longrightarrow>
     sum_list (map read_size rest) \<le> sum_list (map read_size reads)"
proof (induction reads arbitrary: filled)
  case (Cons x xs)
  have IH: "fill_frame f xs = (r, rest) \<Longrightarrow>
      sum_list (map read_size rest) \<le> read_size x + sum_list (map read_size xs)" for f
    using Cons.IH[of f] by linarith
  show ?case using Cons.prems
    by (cases x) (auto simp: Let_def split: if_splits dest: IH)
qed simp

lemma fill_frame_progress:
  "fill_frame [] reads = (r, rest) \<Longrightarrow> r \<noteq> Inr [] \<Longrightarrow>
     sum_list (map read_size rest) < sum_list (map read_size reads)"
proof (induction reads)
  case (Cons x xs)
  show ?case
  proof (cases x)
    case (RdBytes b)
    show ?thesis
    proof (cases "pcm_frame_bytes < length b")
      case True
      then show ?thesis using Cons.prems RdBytes
        by (auto simp: Let_def pcm_frame_bytes_def split: if_splits)
    next
      case False
      then have "b = [] \<and> r = Inr [] \<or> fill_frame b xs = (r, rest)"
        using Cons.prems RdBytes by (auto simp: Let_def pcm_frame_bytes_def split: if_splits)
      then show ?thesis using Cons.prems RdBytes fill_frame_size[of b xs r rest] by auto
    qed
  qed (use Cons in \<open>auto simp: pcm_frame_bytes_def split: if_splits\<close>)
qed simp

lemma read_pcm_frame_size:
  "(Inr (Some frame), rest) = read_pcm_frame reads \<Longrightarrow>
     sum_list (map read_size rest) < sum_list (map read_size reads)"
  by (cases "fill_frame [] reads")
     (auto simp: read_pcm_frame_def split: sum.splits if_splits dest: fill_frame_progress)

function send_frames ::
  "run_env \<Rightarrow> nat \<Rightarrow> nat \<Rightarrow> 64 word \<Rightarrow> nat \<Rightarrow> read_result list \<Rightarrow> unit drive_run" where
  "send_frames E started interval base k reads d =
     (case read_pcm_frame reads of
        (Inl e, rest) \<Rightarrow> Some (Inl e, d)
      | (Inr None, rest) \<Rightarrow> Some (Inr (), d)
      | (Inr (Some frame), rest) \<Rightarrow>
          (case send_frame E started interval base k frame d of
             None \<Rightarrow> None
           | Some (Inl e, d') \<Rightarrow> Some (Inl e, d')
           | Some (Inr _, d') \<Rightarrow> send_frames E started interval base (Suc k) rest d'))"
  by pat_completeness auto
termination
  by (relation "measure (\<lambda>(E, s, i, b, k, reads, d). sum_list (map read_size reads))")
     (auto dest: read_pcm_frame_size)

declare send_frames.simps [simp del]

definition from_outcome :: "'a outcome \<Rightarrow> 'a drive" where
  "from_outcome r d = (r, d)"

definition take_outcome :: "session_outcome drive" where
  "take_outcome d =
     (case dr_outcome d of
        None \<Rightarrow> (Inl (run_error EcProtocol ''doubao.missing_session_outcome''
                        ''Doubao session finished without a retained outcome'' False), d)
      | Some out \<Rightarrow> (Inr out, d\<lparr> dr_outcome := None \<rparr>))"

definition report :: "session_outcome \<Rightarrow> transcription drive" where
  "report out d =
     (Inr \<lparr> tn_text = so_transcript out,
            tn_sent_audio_millis = sat_mul (so_sent_audio_frames out) 20,
            tn_partial_results = dr_partial_results d,
            tn_provider_vad_started = so_provider_vad_started out,
            tn_provider_vad_finished = so_provider_vad_finished out \<rparr>, d)"

definition open_session :: "run_env \<Rightarrow> secret_string \<Rightarrow> bytes \<Rightarrow> unit drive_run" where
  "open_session E token session_json =
     andthen (lift (on_protocol (start_task token))) (\<lambda>task_request.
     andthen (send_within_phase E task_request False) (\<lambda>_.
     andthen (wait_for_phase E TaskStarted) (\<lambda>_.
     andthen (lift (on_protocol (start_session (rn_json E) token session_json))) (\<lambda>session_request.
     andthen (send_within_phase E session_request False) (\<lambda>_.
     wait_for_phase E Streaming)))))"

definition close_session :: "run_env \<Rightarrow> secret_string \<Rightarrow> 64 word \<Rightarrow> transcription drive_run" where
  "close_session E token base =
     andthen (\<lambda>d. lift (on_protocol (finish_audio (rn_json E) (frame_timestamp base d))) d) (\<lambda>marker.
     andthen (send_within_phase E marker False) (\<lambda>_.
     andthen (lift (on_protocol (doubao_finish_session token))) (\<lambda>finish_request.
     andthen (send_within_phase E finish_request False) (\<lambda>_.
     andthen (wait_for_phase E Finished) (\<lambda>_.
     andthen (lift take_outcome) (\<lambda>out. lift (report out)))))))"

definition run_session ::
  "run_env \<Rightarrow> secret_string \<Rightarrow> run_config \<Rightarrow> read_result list \<Rightarrow> transcription drive_run" where
  "run_session E token config reads =
     andthen (open_session E token (rc_session_json config)) (\<lambda>_.
     andthen (lift (instant_now E)) (\<lambda>started.
     andthen (lift (from_outcome (unix_millis (rn_wall E)))) (\<lambda>base.
     andthen (send_frames E started (rc_frame_interval config) base 0 reads) (\<lambda>_.
     close_session E token base))))"

section \<open>An attempt\<close>

text \<open>
  What an attempt meets: the connection, the recording, the encoder if libopus has one, and the
  clocks. The ticks of the environment count from the first check of the connection on.
\<close>

record attempt_world =
  aw_ws :: ws_env
  aw_file :: pcm_file
  aw_encoder :: "(nat \<Rightarrow> bytes \<Rightarrow> bytes option) option"
  aw_wall :: "nat option"
  aw_json :: json_lib

definition connect_failure :: "transport_error \<Rightarrow> provider_attempt_failure" where
  "connect_failure e =
     (if te_category e = EcConfiguration then before_transport (transport_into_vox_error e)
      else after_transport (transport_into_vox_error e) NotAccepted)"

definition env_of ::
  "attempt_world \<Rightarrow> (nat \<Rightarrow> bytes \<Rightarrow> bytes option) \<Rightarrow> run_config \<Rightarrow> nat \<Rightarrow> run_env" where
  "env_of W encode config k =
     \<lparr> rn_ws = aw_ws W, rn_json = aw_json W, rn_encode = encode, rn_wall = aw_wall W,
       rn_total_deadline = we_clock (aw_ws W) k + rc_total_timeout config,
       rn_phase_timeout = rc_phase_timeout config \<rparr>"

definition driver_new :: "doubao_protocol \<Rightarrow> nat \<Rightarrow> driver" where
  "driver_new protocol k =
     \<lparr> dr_socket = \<lparr> sk_at = Suc k, sk_buffered = [] \<rparr>, dr_protocol = protocol,
       dr_partial_results = 0, dr_outcome = None \<rparr>"

text \<open>The checks before the connection.\<close>

definition attempt_setup ::
  "attempt_world \<Rightarrow> run_config \<Rightarrow> vox_error + (read_result list \<times> doubao_protocol)" where
  "attempt_setup W config =
     try_then (validate_run_config (aw_json W) config) (\<lambda>_.
     try_then (prepare_pcm (aw_file W)) (\<lambda>reads.
     try_then (map_sum protocol_vox_error id (protocol_new (rc_request_id config))) (\<lambda>protocol.
     Inr (reads, protocol))))"

text \<open>The result of an attempt and the messages that it left with the WebSocket library.\<close>

definition transcribe_pcm_with_encoder ::
  "attempt_world \<Rightarrow> run_config \<Rightarrow> secret_string \<Rightarrow> (nat \<Rightarrow> bytes \<Rightarrow> bytes option) \<Rightarrow>
   ((provider_attempt_failure + transcription) \<times> bytes list) option" where
  "transcribe_pcm_with_encoder W config token encode =
     (case attempt_setup W config of
        Inl e \<Rightarrow> Some (Inl (before_transport e), [])
      | Inr (reads, protocol) \<Rightarrow>
          (case connect_websocket (aw_ws W) (rc_websocket config) 0 of
             None \<Rightarrow> None
           | Some (Inl e, k) \<Rightarrow> Some (Inl (connect_failure e), [])
           | Some (Inr _, k) \<Rightarrow>
               (case run_session (env_of W encode config k) token config reads
                       (driver_new protocol k) of
                  None \<Rightarrow> None
                | Some (Inr t, d) \<Rightarrow> Some (Inr t, sk_buffered (dr_socket d))
                | Some (Inl e, d) \<Rightarrow>
                    Some (Inl (after_transport e (dp_audio_acceptance (cancel (dr_protocol d)))),
                          sk_buffered (dr_socket d)))))"

definition transcribe_pcm_with_evidence ::
  "attempt_world \<Rightarrow> run_config \<Rightarrow> secret_string \<Rightarrow>
   ((provider_attempt_failure + transcription) \<times> bytes list) option" where
  "transcribe_pcm_with_evidence W config token =
     (case aw_encoder W of
        None \<Rightarrow> Some (Inl (before_transport (run_error EcUnavailable ''doubao.opus_unavailable''
                             ''System Opus encoder is unavailable'' False)), [])
      | Some encode \<Rightarrow> transcribe_pcm_with_encoder W config token encode)"

text \<open>
  The second attempt meets a world of its own; what the buffers of the attempts took is kept
  per attempt. The refresh is made only when it is needed, and may not return.
\<close>

definition transcribe_pcm_with_token_refresh ::
  "(nat \<Rightarrow> attempt_world) \<Rightarrow> run_config \<Rightarrow> secret_string \<Rightarrow> bool \<Rightarrow>
   (vox_error + secret_string) option \<Rightarrow> ((provider_attempt_failure + transcription) \<times> bytes list list) option" where
  "transcribe_pcm_with_token_refresh worlds config initial_token cancelled refreshed =
     (case transcribe_pcm_with_evidence (worlds 0) config initial_token of
        None \<Rightarrow> None
      | Some (Inr t, out) \<Rightarrow> Some (Inr t, [out])
      | Some (Inl first, out) \<Rightarrow>
          if err_category (paf_error first) = EcAuthentication \<and>
             paf_audio_acceptance first = NotAccepted \<and> \<not> cancelled
          then (case refreshed of
                  None \<Rightarrow> None
                | Some (Inl e) \<Rightarrow> Some (Inl (after_transport e NotAccepted), [out])
                | Some (Inr token) \<Rightarrow>
                    map_option (\<lambda>(r, out'). (r, [out, out']))
                      (transcribe_pcm_with_evidence (worlds 1) config token))
          else Some (Inl first, [out]))"

end
