(* ===== verification/Doubao_Bootstrap.thy ===== *)
theory Doubao_Bootstrap
  imports Doubao_Runner Adapters
begin

text \<open>
  The HTTP exchange that registers a device and fetches the token of the unofficial Doubao
  provider (crates/voxtype-provider-doubao/src/lib.rs). A string is held as the characters of its
  UTF-8 bytes. The curl executable, the system clock, the JSON parser and the MD5 library are
  arguments, and so is what the lossy conversion makes of bytes that are not UTF-8.
\<close>

section \<open>Types and limits\<close>

definition max_bootstrap_response_bytes :: nat where
  "max_bootstrap_response_bytes = 1024 * 1024"

definition max_registration_body_bytes :: nat where
  "max_registration_body_bytes = 256 * 1024"

definition max_query_parameters :: nat where
  "max_query_parameters = 64"

definition settings_body :: bytes where
  "settings_body = ascii ''body=null''"

record bootstrap_http_config =
  bh_registration_endpoint :: string
  bh_settings_endpoint :: string
  bh_timeout_seconds :: "64 word"

record bootstrap_request_context =
  bc_user_agent :: string
  bc_common_query :: "(string \<times> string) list"

datatype registration_document = RegistrationDocument (document_bytes: bytes)

record device_identity =
  di_client_udid :: string
  di_open_udid :: string
  di_cdid :: string

record registered_device =
  rd_device_id :: string
  rd_install_id :: string

definition from_json :: "json_lib \<Rightarrow> json \<Rightarrow> string + registration_document" where
  "from_json J v =
     (if \<not> json_is_object v then Inl ''registration document must be a JSON object''
      else let bs = jl_to_vec J v
           in if max_registration_body_bytes < length bs
              then Inl ''registration document is too large''
              else Inr (RegistrationDocument bs))"

text \<open>A bounded string without control bytes that is not empty.\<close>

definition plain_text :: "nat \<Rightarrow> string \<Rightarrow> bool" where
  "plain_text limit s \<longleftrightarrow> s \<noteq> [] \<and> length s \<le> limit \<and> \<not> list_ex is_ascii_control s"

definition validate_identity :: "device_identity \<Rightarrow> string + unit" where
  "validate_identity i =
     (if list_all (plain_text 128) [di_client_udid i, di_open_udid i, di_cdid i] then Inr ()
      else Inl ''invalid persistent device identifier'')"

section \<open>Validation\<close>

definition bootstrap_error :: "error_category \<Rightarrow> string \<Rightarrow> string \<Rightarrow> vox_error" where
  "bootstrap_error category code message = vox_error_new category code message"

definition validate_bootstrap_endpoint :: "string \<Rightarrow> unit outcome" where
  "validate_bootstrap_endpoint endpoint =
     try_then (validate_endpoint endpoint ''Doubao bootstrap endpoints must use HTTPS or loopback HTTP'')
       (\<lambda>_. if CHR ''?'' \<in> set endpoint \<or> CHR ''#'' \<in> set endpoint \<or> list_ex is_ascii_control endpoint
            then Inl (bootstrap_error EcConfiguration ''doubao.invalid_bootstrap_endpoint''
                   ''Doubao bootstrap endpoint must not contain a query, fragment, or control byte'')
            else Inr ())"

definition valid_query_key :: "string \<Rightarrow> bool" where
  "valid_query_key key \<longleftrightarrow>
     key \<noteq> [] \<and> length key \<le> 64 \<and>
     list_all (\<lambda>c. is_ascii_alphanumeric c \<or> c \<in> {CHR ''_'', CHR ''-'', CHR ''.''}) key"

fun validate_query_pair :: "string \<times> string \<Rightarrow> unit outcome" where
  "validate_query_pair (key, v) =
     (if \<not> valid_query_key key \<or> 1024 < length v \<or> list_ex is_ascii_control v \<or>
         key = ''_rticket'' \<or> key = ''device_id''
      then Inl (bootstrap_error EcConfiguration ''doubao.invalid_query_metadata''
             ''Doubao client query metadata is invalid or overrides a reserved identity field'')
      else Inr ())"

definition validate_bootstrap_config ::
  "bootstrap_http_config \<Rightarrow> bootstrap_request_context \<Rightarrow> unit outcome" where
  "validate_bootstrap_config config context1 =
     (if \<not> (1 \<le> bh_timeout_seconds config \<and> bh_timeout_seconds config \<le> 300)
      then Inl (bootstrap_error EcConfiguration ''doubao.invalid_timeout''
             ''Doubao bootstrap timeout must be between 1 and 300 seconds'')
      else
      try_then (try_each validate_bootstrap_endpoint
                  [bh_registration_endpoint config, bh_settings_endpoint config]) (\<lambda>_.
      if \<not> plain_text 512 (bc_user_agent context1)
      then Inl (bootstrap_error EcConfiguration ''doubao.invalid_user_agent''
             ''Doubao client User-Agent is invalid'')
      else if max_query_parameters < length (bc_common_query context1)
      then Inl (bootstrap_error EcConfiguration ''doubao.too_many_query_parameters''
             ''Doubao client metadata contains too many query parameters'')
      else try_each validate_query_pair (bc_common_query context1)))"

definition validate_registered_device :: "registered_device \<Rightarrow> unit outcome" where
  "validate_registered_device registered =
     (if plain_text 128 (rd_device_id registered) then Inr ()
      else Inl (bootstrap_error EcConfiguration ''doubao.invalid_registered_device''
             ''registered Doubao device identifier is invalid''))"

section \<open>Requests\<close>

definition percent_encode :: "string \<Rightarrow> string" where
  "percent_encode s = concat (map (\<lambda>c. if unreserved c then [c] else percent_byte c) s)"

fun bootstrap_url_loop ::
  "bool \<Rightarrow> string \<Rightarrow> (string \<times> string) list \<Rightarrow> string outcome" where
  "bootstrap_url_loop first url [] = Inr url"
| "bootstrap_url_loop first url ((key, v) # rest) =
     (let url' = url @ [if first then CHR ''?'' else CHR ''&''] @ percent_encode key @ ''='' @
                 percent_encode v
      in if 16 * 1024 < length url'
         then Inl (bootstrap_error EcConfiguration ''doubao.query_too_large''
                ''Doubao bootstrap query is too large'')
         else bootstrap_url_loop False url' rest)"

definition bootstrap_url ::
  "string \<Rightarrow> (string \<times> string) list \<Rightarrow> (string \<times> string) list \<Rightarrow> string outcome" where
  "bootstrap_url endpoint common_query identity_query =
     bootstrap_url_loop True endpoint (common_query @ identity_query)"

definition request_ticket_at :: "nat option \<Rightarrow> string outcome" where
  "request_ticket_at wall =
     (case wall of
        None \<Rightarrow> Inl (bootstrap_error EcInternal ''doubao.system_clock_invalid''
                  ''System clock is before the Unix epoch'')
      | Some m \<Rightarrow> Inr (show_nat m))"

definition config_line :: "string \<Rightarrow> string \<Rightarrow> string" where
  "config_line prefix1 v = prefix1 @ escape_curl_config v @ [quote, newline]"

definition curl_post_config ::
  "(bytes \<Rightarrow> string) \<Rightarrow> string \<Rightarrow> string \<Rightarrow> string \<Rightarrow> bytes \<Rightarrow> (string \<times> string) option \<Rightarrow> string" where
  "curl_post_config lossy url user_agent content_type body extra_header =
     ''request = '' @ [quote] @ ''POST'' @ [quote, newline] @
     config_line (''url = '' @ [quote]) url @
     config_line (''header = '' @ [quote] @ ''User-Agent: '') user_agent @
     ''header = '' @ [quote] @ ''Accept: application/json'' @ [quote, newline] @
     config_line (''header = '' @ [quote] @ ''Content-Type: '') content_type @
     config_line (''data = '' @ [quote]) (lossy body) @
     (case extra_header of
        None \<Rightarrow> []
      | Some (name, v) \<Rightarrow>
          ''header = '' @ [quote] @ escape_curl_config name @ '': '' @ escape_curl_config v @
          [quote, newline])"

definition redacted_bootstrap_transport_error :: "curl_failure \<Rightarrow> string \<Rightarrow> string \<Rightarrow> vox_error" where
  "redacted_bootstrap_transport_error f code message =
     with_retryable (cf_retryable f) (vox_error_new (cf_category f) code message)"

definition ensure_bootstrap_not_cancelled :: "cancellation_token \<Rightarrow> nat \<Rightarrow> unit outcome" where
  "ensure_bootstrap_not_cancelled tok now =
     (if tok now
      then Inl (bootstrap_error EcCancelled ''doubao.bootstrap_cancelled''
             ''Doubao credential bootstrap was cancelled'')
      else Inr ())"

section \<open>Responses\<close>

definition parse_bootstrap_json :: "json_lib \<Rightarrow> bytes \<Rightarrow> string + json" where
  "parse_bootstrap_json J body =
     (if max_bootstrap_response_bytes < length body
      then Inl ''Doubao bootstrap response is too large''
      else case jl_parse J body of
             None \<Rightarrow> Inl ''invalid Doubao bootstrap JSON'' | Some v \<Rightarrow> Inr v)"

fun value_at :: "string list \<Rightarrow> json \<Rightarrow> json option" where
  "value_at [] v = Some v"
| "value_at (segment # path) v = Option.bind (json_get segment v) (value_at path)"

definition identifier_at :: "json \<Rightarrow> string list \<Rightarrow> string option" where
  "identifier_at v path =
     Option.bind (value_at path v) (\<lambda>current.
       let identifier = (case current of
                           JString t \<Rightarrow> Some (utf8_string t)
                         | JNumber n _ \<Rightarrow> Some n
                         | _ \<Rightarrow> None)
       in case identifier of
            None \<Rightarrow> None
          | Some i \<Rightarrow> if i \<noteq> [] \<and> i \<noteq> ''0'' then Some i else None)"

definition or_else :: "'a option \<Rightarrow> 'a option \<Rightarrow> 'a option" where
  "or_else a b = (case a of None \<Rightarrow> b | Some x \<Rightarrow> Some x)"

definition parse_device_registration :: "json_lib \<Rightarrow> bytes \<Rightarrow> string + registered_device" where
  "parse_device_registration J body =
     try_then (parse_bootstrap_json J body) (\<lambda>v.
       case or_else (identifier_at v [''device_id'']) (identifier_at v [''data'', ''device_id'']) of
         None \<Rightarrow> Inl ''registration response has no positive device_id''
       | Some device_id \<Rightarrow>
           Inr \<lparr> rd_device_id = device_id,
                 rd_install_id = unwrap_or [] (or_else (identifier_at v [''install_id''])
                                                 (identifier_at v [''data'', ''install_id''])) \<rparr>)"

definition parse_settings_token :: "json_lib \<Rightarrow> bytes \<Rightarrow> string + secret_string" where
  "parse_settings_token J body =
     try_then (parse_bootstrap_json J body) (\<lambda>v.
       case Option.bind (value_at [''data'', ''settings'', ''asr_config'', ''app_key''] v) json_as_str of
         None \<Rightarrow> Inl ''settings response has no ASR app_key''
       | Some token \<Rightarrow>
           map_sum (\<lambda>_. ''settings ASR app_key is invalid'') id (secret_try_new (utf8_string token)))"

section \<open>The exchange\<close>

text \<open>
  What an exchange meets: curl, given the timeout, its private configuration and the limit; the
  system clock; the flag with the time of its last check; and the libraries.
\<close>

record bootstrap_world =
  bw_curl :: "64 word \<Rightarrow> string \<Rightarrow> nat \<Rightarrow> string + curl_child"
  bw_wall :: "nat option"
  bw_tok :: cancellation_token
  bw_done :: nat
  bw_json :: json_lib
  bw_md5_upper :: "bytes \<Rightarrow> string"
  bw_lossy :: "bytes \<Rightarrow> string"

definition x_ss_stub :: "bootstrap_world \<Rightarrow> bytes \<Rightarrow> string" where
  "x_ss_stub B body = bw_md5_upper B body"

text \<open>The request and the check of the flag after it; the response is parsed by the caller.\<close>

definition bootstrap_exchange ::
  "bootstrap_world \<Rightarrow> 64 word \<Rightarrow> string \<Rightarrow> string \<Rightarrow> string \<Rightarrow> (bytes outcome) option" where
  "bootstrap_exchange B timeout_seconds private_config code message =
     (case execute_curl_cancellable (bw_curl B timeout_seconds private_config)
             default_max_response_bytes (token_later 1 (bw_tok B)) of
        None \<Rightarrow> None
      | Some (Inl f) \<Rightarrow> Some (Inl (redacted_bootstrap_transport_error f code message))
      | Some (Inr response) \<Rightarrow>
          Some (try_then (ensure_bootstrap_not_cancelled (bw_tok B) (bw_done B))
                  (\<lambda>_. Inr (cr_body response))))"

definition register_prepare ::
  "bootstrap_world \<Rightarrow> bootstrap_http_config \<Rightarrow> bootstrap_request_context \<Rightarrow> registration_document \<Rightarrow>
   string outcome" where
  "register_prepare B config context1 document =
     try_then (validate_bootstrap_config config context1) (\<lambda>_.
     try_then (ensure_bootstrap_not_cancelled (bw_tok B) 0) (\<lambda>_.
     try_then (request_ticket_at (bw_wall B)) (\<lambda>ticket.
     try_then (bootstrap_url (bh_registration_endpoint config) (bc_common_query context1)
                 [(''_rticket'', ticket)]) (\<lambda>url.
       Inr (curl_post_config (bw_lossy B) url (bc_user_agent context1) ''application/json''
              (document_bytes document) None)))))"

definition register_device_http ::
  "bootstrap_world \<Rightarrow> bootstrap_http_config \<Rightarrow> bootstrap_request_context \<Rightarrow> registration_document \<Rightarrow>
   (registered_device outcome) option" where
  "register_device_http B config context1 document =
     (case register_prepare B config context1 document of
        Inl e \<Rightarrow> Some (Inl e)
      | Inr private_config \<Rightarrow>
          map_option (\<lambda>r. try_then r (\<lambda>body.
              map_sum (\<lambda>_. bootstrap_error EcProtocol ''doubao.invalid_registration_response''
                         ''Doubao registration response did not contain valid identifiers'') id
                (parse_device_registration (bw_json B) body)))
            (bootstrap_exchange B (bh_timeout_seconds config) private_config
               ''doubao.registration_http_failed'' ''Doubao device registration request failed''))"

definition settings_prepare ::
  "bootstrap_world \<Rightarrow> bootstrap_http_config \<Rightarrow> bootstrap_request_context \<Rightarrow> registered_device \<Rightarrow>
   string outcome" where
  "settings_prepare B config context1 registered =
     try_then (validate_bootstrap_config config context1) (\<lambda>_.
     try_then (validate_registered_device registered) (\<lambda>_.
     try_then (ensure_bootstrap_not_cancelled (bw_tok B) 0) (\<lambda>_.
     try_then (request_ticket_at (bw_wall B)) (\<lambda>ticket.
     try_then (bootstrap_url (bh_settings_endpoint config) (bc_common_query context1)
                 [(''_rticket'', ticket), (''device_id'', rd_device_id registered)]) (\<lambda>url.
       Inr (curl_post_config (bw_lossy B) url (bc_user_agent context1)
              ''application/x-www-form-urlencoded'' settings_body
              (Some (''x-ss-stub'', x_ss_stub B settings_body))))))))"

definition fetch_settings_token_http ::
  "bootstrap_world \<Rightarrow> bootstrap_http_config \<Rightarrow> bootstrap_request_context \<Rightarrow> registered_device \<Rightarrow>
   (secret_string outcome) option" where
  "fetch_settings_token_http B config context1 registered =
     (case settings_prepare B config context1 registered of
        Inl e \<Rightarrow> Some (Inl e)
      | Inr private_config \<Rightarrow>
          map_option (\<lambda>r. try_then r (\<lambda>body.
              map_sum (\<lambda>_. bootstrap_error EcProtocol ''doubao.invalid_settings_response''
                         ''Doubao settings response did not contain a valid ASR token'') id
                (parse_settings_token (bw_json B) body)))
            (bootstrap_exchange B (bh_timeout_seconds config) private_config
               ''doubao.settings_http_failed'' ''Doubao settings request failed''))"

end
