(* ===== verification/Doubao_Managed.thy ===== *)
theory Doubao_Managed
  imports Doubao_Bootstrap
begin

text \<open>
  The managed recognition of the unofficial Doubao provider
  (crates/voxtype-provider-doubao/src/managed.rs) and the adapter that registers it as a
  recognizer (src/provider_adapters.rs): the credential bundle of the Secret Service, the token
  that is fetched before the recognition and refreshed at most once, and the result with its
  evidence. The deserializer that the serde library derives for the bundle is an argument.
\<close>

section \<open>The credential bundle\<close>

record raw_bundle =
  rw_schema :: "32 word"
  rw_registration_endpoint :: string
  rw_settings_endpoint :: string
  rw_user_agent :: string
  rw_common_query :: "(string \<times> string) list"
  rw_device_id :: string
  rw_install_id :: string
  rw_websocket_endpoint :: string
  rw_websocket_headers :: "(string \<times> string) list"
  rw_session :: json

record managed_credential_bundle =
  mb_bootstrap :: bootstrap_http_config
  mb_context :: bootstrap_request_context
  mb_registered :: registered_device
  mb_websocket_endpoint :: string
  mb_websocket_headers :: "(string \<times> string) list"
  mb_session_json :: bytes

record managed_doubao_config =
  mc_credentials :: managed_credential_bundle
  mc_phase_timeout :: nat
  mc_total_timeout :: nat
  mc_frame_interval :: nat

definition max_credential_bundle_bytes :: nat where
  "max_credential_bundle_bytes = 256 * 1024"

definition bundle_error :: "string \<Rightarrow> string \<Rightarrow> vox_error" where
  "bundle_error code message = vox_error_new EcConfiguration code message"

definition validate_text :: "nat \<Rightarrow> string \<Rightarrow> unit outcome" where
  "validate_text maximum v =
     (if v = [] \<or> maximum < length v \<or> list_ex is_ascii_control v
      then Inl (bundle_error ''doubao.credential_bundle_field''
             ''Doubao credential bundle contains an invalid field'')
      else Inr ())"

definition validate_pair :: "string \<times> string \<Rightarrow> unit outcome" where
  "validate_pair pair = try_then (validate_text 64 (fst pair)) (\<lambda>_. validate_text 1024 (snd pair))"

definition validate_bundle_fields :: "raw_bundle \<Rightarrow> unit outcome" where
  "validate_bundle_fields raw =
     try_then (validate_text 4096 (rw_registration_endpoint raw)) (\<lambda>_.
     try_then (validate_text 4096 (rw_settings_endpoint raw)) (\<lambda>_.
     try_then (validate_text 512 (rw_user_agent raw)) (\<lambda>_.
     try_then (validate_text 128 (rw_device_id raw)) (\<lambda>_.
     try_then (if rw_install_id raw = [] then Inr () else validate_text 128 (rw_install_id raw)) (\<lambda>_.
     try_then (validate_text (16 * 1024) (rw_websocket_endpoint raw)) (\<lambda>_.
     if 64 < length (rw_common_query raw) \<or> 32 < length (rw_websocket_headers raw)
     then Inl (bundle_error ''doubao.credential_bundle_fields''
            ''Doubao credential bundle contains too many metadata fields'')
     else try_each validate_pair (rw_common_query raw @ rw_websocket_headers raw)))))))"

definition bundle_of_raw :: "raw_bundle \<Rightarrow> bytes \<Rightarrow> managed_credential_bundle" where
  "bundle_of_raw raw session_json =
     \<lparr> mb_bootstrap =
         \<lparr> bh_registration_endpoint = rw_registration_endpoint raw,
           bh_settings_endpoint = rw_settings_endpoint raw, bh_timeout_seconds = 15 \<rparr>,
       mb_context =
         \<lparr> bc_user_agent = rw_user_agent raw, bc_common_query = rw_common_query raw \<rparr>,
       mb_registered =
         \<lparr> rd_device_id = rw_device_id raw, rd_install_id = rw_install_id raw \<rparr>,
       mb_websocket_endpoint = rw_websocket_endpoint raw,
       mb_websocket_headers = rw_websocket_headers raw, mb_session_json = session_json \<rparr>"

definition bundle_parse ::
  "(string \<Rightarrow> raw_bundle option) \<Rightarrow> json_lib \<Rightarrow> secret_string \<Rightarrow> managed_credential_bundle outcome" where
  "bundle_parse deserialize J secret =
     (if max_credential_bundle_bytes < length (expose secret)
      then Inl (bundle_error ''doubao.credential_bundle_too_large''
             ''Doubao credential bundle is too large'')
      else case deserialize (expose secret) of
        None \<Rightarrow> Inl (bundle_error ''doubao.credential_bundle_invalid_json''
                  ''Doubao credential bundle is not valid JSON'')
      | Some raw \<Rightarrow>
          if rw_schema raw \<noteq> 1
          then Inl (bundle_error ''doubao.credential_bundle_schema''
                 ''Doubao credential bundle schema is unsupported'')
          else
          try_then (validate_bundle_fields raw) (\<lambda>_.
            if \<not> json_is_object (rw_session raw)
            then Inl (bundle_error ''doubao.credential_session_invalid''
                   ''Doubao session profile must be a JSON object'')
            else Inr (bundle_of_raw raw (jl_to_vec J (rw_session raw)))))"

section \<open>The recognition\<close>

text \<open>
  What a recognition meets: the exchange for the token and for its refresh, the attempts, the
  flag as the runner sees it after a rejected token, the clock of the request identifier and the
  counter of identifiers.
\<close>

record managed_world =
  mw_token :: bootstrap_world
  mw_refresh :: bootstrap_world
  mw_attempts :: "nat \<Rightarrow> attempt_world"
  mw_cancelled :: bool
  mw_wall :: "nat option"
  mw_counter :: "64 word"

definition managed_request_id :: "managed_world \<Rightarrow> provider_attempt_failure + utext" where
  "managed_request_id M =
     (case mw_wall M of
        None \<Rightarrow> Inl (before_transport (vox_error_new EcInternal ''doubao.system_clock_invalid''
                  ''System clock is before the Unix epoch''))
      | Some m \<Rightarrow>
          Inr (text_of (''voxtype-'' @ show_nat m @ ''-'' @ show_nat (unat (mw_counter M)))))"

definition bootstrap_failure :: "vox_error \<Rightarrow> provider_attempt_failure" where
  "bootstrap_failure e =
     (if err_category e = EcConfiguration then before_transport e else after_transport e NotAccepted)"

definition run_config_of :: "managed_doubao_config \<Rightarrow> utext \<Rightarrow> run_config" where
  "run_config_of config request_id =
     \<lparr> rc_websocket =
         \<lparr> ws_endpoint = mb_websocket_endpoint (mc_credentials config),
           ws_headers = mb_websocket_headers (mc_credentials config),
           ws_connect_timeout = mc_phase_timeout config, ws_poll_interval = millis 10 \<rparr>,
       rc_request_id = request_id, rc_session_json = mb_session_json (mc_credentials config),
       rc_phase_timeout = mc_phase_timeout config, rc_total_timeout = mc_total_timeout config,
       rc_frame_interval = mc_frame_interval config \<rparr>"

definition fetch_token :: "bootstrap_world \<Rightarrow> managed_doubao_config \<Rightarrow> (secret_string outcome) option" where
  "fetch_token B config =
     fetch_settings_token_http B (mb_bootstrap (mc_credentials config))
       (mb_context (mc_credentials config)) (mb_registered (mc_credentials config))"

text \<open>The result, and the messages that each attempt left with the WebSocket library.\<close>

definition transcribe_managed_pcm ::
  "managed_world \<Rightarrow> managed_doubao_config \<Rightarrow>
   ((provider_attempt_failure + transcription) \<times> bytes list list) option" where
  "transcribe_managed_pcm M config =
     (case fetch_token (mw_token M) config of
        None \<Rightarrow> None
      | Some (Inl e) \<Rightarrow> Some (Inl (bootstrap_failure e), [])
      | Some (Inr initial) \<Rightarrow>
          (case managed_request_id M of
             Inl f \<Rightarrow> Some (Inl f, [])
           | Inr request_id \<Rightarrow>
               transcribe_pcm_with_token_refresh (mw_attempts M) (run_config_of config request_id)
                 initial (mw_cancelled M) (fetch_token (mw_refresh M) config)))"

section \<open>The adapter\<close>

definition doubao_managed_config ::
  "nat \<Rightarrow> nat \<Rightarrow> nat \<Rightarrow> managed_credential_bundle \<Rightarrow> managed_doubao_config" where
  "doubao_managed_config phase_timeout total_timeout frame_interval credentials =
     \<lparr> mc_credentials = credentials, mc_phase_timeout = phase_timeout,
       mc_total_timeout = total_timeout, mc_frame_interval = frame_interval \<rparr>"

definition doubao_recognize ::
  "(string \<Rightarrow> raw_bundle option) \<Rightarrow> json_lib \<Rightarrow> managed_world \<Rightarrow> secret_tool \<Rightarrow> string \<Rightarrow>
   (managed_credential_bundle \<Rightarrow> managed_doubao_config) \<Rightarrow> cancellation_token \<Rightarrow> nat \<Rightarrow>
   (recognition_result \<times> bytes list list) option" where
  "doubao_recognize deserialize J M tool secret mk tok now =
     (case ensure_not_cancelled tok now of
        Inl f \<Rightarrow> Some (Inl f, [])
      | Inr _ \<Rightarrow>
          (case lookup_secret secret tool of
             Inl e \<Rightarrow> Some (Inl (before_transport e), [])
           | Inr key \<Rightarrow>
               (case bundle_parse deserialize J key of
                  Inl e \<Rightarrow> Some (Inl (before_transport e), [])
                | Inr credentials \<Rightarrow>
                    map_option (\<lambda>(r, outs).
                        (case r of
                           Inl f \<Rightarrow> Inl f
                         | Inr t \<Rightarrow> Inr (success_after_audio (tn_text t) provider_usage_default), outs))
                      (transcribe_managed_pcm M (mk credentials)))))"

end
