(* ===== verification/Doubao_Session_Props.thy ===== *)
theory Doubao_Session_Props
  imports Doubao_Session
begin

text \<open>
  The Doubao session as a transition system: the commands of its driver, the step they make on
  the code's model, and the transition relation that specifies the steps (guards, requests and
  effects on the phase, without the wire format). Invariants are proved by cases on the relation
  and carried over runs through the interfaces of the prelude.
\<close>

section \<open>Commands and steps\<close>

datatype doubao_command =
    DcStartTask secret_string
  | DcStartSession secret_string bytes
  | DcAudio "64 word" bytes
  | DcConfirm
  | DcAmbiguous
  | DcFinishAudio "64 word"
  | DcFinishSession secret_string
  | DcBinary bytes
  | DcCancel

datatype doubao_reply = DrRequest bytes | DrDone | DrEvent "session_event option"

definition replying :: "('a \<Rightarrow> doubao_reply) \<Rightarrow> 'a session_op \<Rightarrow> doubao_reply session_op" where
  "replying f m = seq m (\<lambda>a. give (f a))"

fun session_step :: "json_lib \<Rightarrow> doubao_command \<Rightarrow> doubao_reply session_op" where
  "session_step J (DcStartTask token) = replying DrRequest (start_task token)"
| "session_step J (DcStartSession token body) = replying DrRequest (start_session J token body)"
| "session_step J (DcAudio ts packet) = replying DrRequest (audio_request J ts packet)"
| "session_step J DcConfirm = replying (\<lambda>_. DrDone) confirm_audio_sent"
| "session_step J DcAmbiguous = replying (\<lambda>_. DrDone) mark_audio_write_ambiguous"
| "session_step J (DcFinishAudio ts) = replying DrRequest (finish_audio J ts)"
| "session_step J (DcFinishSession token) = replying DrRequest (doubao_finish_session token)"
| "session_step J (DcBinary message) = replying DrEvent (handle_binary J message)"
| "session_step J DcCancel = (\<lambda>p. (Inr DrDone, cancel p))"

section \<open>The transitions\<close>

definition failed :: "doubao_protocol \<Rightarrow> doubao_protocol" where
  "failed p = (if dp_phase p = Cancelled then p else p\<lparr> dp_phase := Failed \<rparr>)"

definition closed_phase :: "session_phase \<Rightarrow> bool" where
  "closed_phase ph \<longleftrightarrow> ph \<in> {Finished, Failed, Cancelled, Disconnected}"

text \<open>The requests, by the method and the frame state they carry.\<close>

datatype request_kind = KStartTask | KStartSession | KAudio frame_state | KFinishSession

fun kind_method :: "request_kind \<Rightarrow> string" where
  "kind_method KStartTask = ''StartTask''"
| "kind_method KStartSession = ''StartSession''"
| "kind_method (KAudio _) = ''TaskRequest''"
| "kind_method KFinishSession = ''FinishSession''"

fun kind_frame :: "request_kind \<Rightarrow> frame_state option" where
  "kind_frame (KAudio f) = Some f"
| "kind_frame _ = None"

definition request_of :: "utext \<Rightarrow> request_kind \<Rightarrow> bytes \<Rightarrow> bool" where
  "request_of request_id k b \<longleftrightarrow>
     (\<exists>token payload audio.
        b = encode_request token (kind_method k) payload audio (utf8_bytes request_id) (kind_frame k))"

inductive session_trans ::
  "doubao_command \<Rightarrow> doubao_protocol \<Rightarrow> session_error + doubao_reply \<Rightarrow> doubao_protocol \<Rightarrow> bool"
where
  refused: "c \<noteq> DcCancel \<Longrightarrow> session_trans c p (Inl e) (failed p)"
| not_receiving: "closed_phase (dp_phase p) \<Longrightarrow> session_trans (DcBinary m) p (Inl e) p"
| task_requested:
    "dp_phase p = Disconnected \<Longrightarrow> request_of (dp_request_id p) KStartTask b \<Longrightarrow>
     session_trans (DcStartTask token) p (Inr (DrRequest b)) (p\<lparr> dp_phase := TaskStarting \<rparr>)"
| session_requested:
    "dp_phase p = TaskStarted \<Longrightarrow> request_of (dp_request_id p) KStartSession b \<Longrightarrow>
     session_trans (DcStartSession token body) p (Inr (DrRequest b))
       (p\<lparr> dp_phase := SessionStarting \<rparr>)"
| audio_requested:
    "dp_phase p = Streaming \<Longrightarrow> dp_input_state p = InputOpen \<Longrightarrow>
     request_of (dp_request_id p) (KAudio (if dp_sent_audio_frames p = 0 then First else Middle)) b \<Longrightarrow>
     session_trans (DcAudio ts packet) p (Inr (DrRequest b))
       (p\<lparr> dp_input_state := AudioRequestPending \<rparr>)"
| audio_confirmed:
    "dp_phase p = Streaming \<Longrightarrow> dp_input_state p = AudioRequestPending \<Longrightarrow>
     session_trans DcConfirm p (Inr DrDone)
       (p\<lparr> dp_input_state := InputOpen, dp_sent_audio_frames := sat_add (dp_sent_audio_frames p) 1,
          dp_audio_acceptance := PossiblyAccepted \<rparr>)"
| audio_ambiguous:
    "dp_phase p = Streaming \<Longrightarrow> dp_input_state p = AudioRequestPending \<Longrightarrow>
     session_trans DcAmbiguous p (Inr DrDone) (p\<lparr> dp_audio_acceptance := PossiblyAccepted \<rparr>)"
| last_requested:
    "dp_phase p = Streaming \<Longrightarrow> dp_input_state p = InputOpen \<Longrightarrow> dp_sent_audio_frames p \<noteq> 0 \<Longrightarrow>
     request_of (dp_request_id p) (KAudio Last) b \<Longrightarrow>
     session_trans (DcFinishAudio ts) p (Inr (DrRequest b)) (p\<lparr> dp_input_state := InputFinished \<rparr>)"
| finish_requested:
    "dp_phase p = Streaming \<Longrightarrow> dp_input_state p = InputFinished \<Longrightarrow>
     request_of (dp_request_id p) KFinishSession b \<Longrightarrow>
     session_trans (DcFinishSession token) p (Inr (DrRequest b)) (p\<lparr> dp_phase := Finishing \<rparr>)"
| nothing_received:
    "\<not> closed_phase (dp_phase p) \<Longrightarrow> session_trans (DcBinary m) p (Inr (DrEvent None)) p"
| duplicate_received:
    "dp_phase p \<in> {Streaming, Finishing} \<Longrightarrow>
     session_trans (DcBinary m) p (Inr (DrEvent (Some SeDuplicateIgnored))) p"
| task_started:
    "dp_phase p = TaskStarting \<Longrightarrow>
     session_trans (DcBinary m) p (Inr (DrEvent (Some SeTaskStarted)))
       (p\<lparr> dp_task_id := t, dp_phase := TaskStarted \<rparr>)"
| session_started:
    "dp_phase p = SessionStarting \<Longrightarrow>
     session_trans (DcBinary m) p (Inr (DrEvent (Some SeSessionStarted)))
       (p\<lparr> dp_phase := Streaming \<rparr>)"
| event_received:
    "dp_phase p \<in> {Streaming, Finishing} \<Longrightarrow> \<not> duplicate_packet ev p \<Longrightarrow> \<not> rv_final_result ev \<Longrightarrow>
     session_trans (DcBinary m) p (Inr (DrEvent (Some (SeRecognition ev)))) (note_event ev p)"
| final_received:
    "dp_phase p \<in> {Streaming, Finishing} \<Longrightarrow> \<not> duplicate_packet ev p \<Longrightarrow> rv_final_result ev \<Longrightarrow>
     rv_text ev = Some t \<Longrightarrow> \<not> is_blank t \<Longrightarrow>
     session_trans (DcBinary m) p (Inr (DrEvent (Some (SeRecognition ev))))
       ((note_event ev p)\<lparr> dp_final_transcript := Some t \<rparr>)"
| blank_final_received:
    "dp_phase p \<in> {Streaming, Finishing} \<Longrightarrow> rv_final_result ev \<Longrightarrow>
     session_trans (DcBinary m) p (Inl e) (failed (note_event ev p))"
| session_finished:
    "dp_phase p = Finishing \<Longrightarrow> dp_final_transcript p = Some t \<Longrightarrow> so_transcript out = t \<Longrightarrow>
     so_sent_audio_frames out = dp_sent_audio_frames p \<Longrightarrow>
     session_trans (DcBinary m) p (Inr (DrEvent (Some (SeFinished out)))) (p\<lparr> dp_phase := Finished \<rparr>)"
| cancelled: "session_trans DcCancel p (Inr DrDone) (cancel p)"

inductive_cases session_transE: "session_trans c p r p'"

text \<open>Errors of the code are refusals of the relation.\<close>

lemma fail_failed: "fail_with_category category code message p =
    (Inl (session_error_with_category category code message), failed p)"
  by (simp add: fail_with_category_def failed_def)

lemma fail_refused [simp]: "fail code message p = (Inl (session_error_new code message), failed p)"
  by (simp add: fail_def fail_failed session_error_new_def)

lemma require_phase_simps [simp]:
  "seq (require_phase ph code) f p =
     (if dp_phase p = ph then f () p
      else (Inl (session_error_new code ''Doubao session lifecycle transition is invalid''),
            failed p))"
  by (simp add: seq_def require_phase_def)

lemma require_streaming_input_simps [simp]:
  "seq require_streaming_input f p =
     (if dp_phase p = Streaming \<and> dp_input_state p \<noteq> InputFinished then f () p
      else (Inl (if dp_phase p = Streaming
                 then session_error_new ''doubao.audio_already_finished''
                        ''Doubao audio input is already finished''
                 else session_error_new ''doubao.session_not_streaming''
                        ''Doubao session lifecycle transition is invalid''), failed p))"
  by (simp add: require_streaming_input_def require_phase_def seq_def)

lemma input_open_iff: "i = InputOpen \<longleftrightarrow> i \<noteq> AudioRequestPending \<and> i \<noteq> InputFinished"
  by (cases i) simp_all

lemma replying_apply:
  "replying f m p = (case m p of (Inl e, q) \<Rightarrow> (Inl e, q) | (Inr a, q) \<Rightarrow> (Inr (f a), q))"
  by (simp add: replying_def seq_def split: prod.splits sum.splits)

lemma request_ofI:
  "request_of (dp_request_id p) k
     (encode_request token (kind_method k) payload audio (utf8_bytes (dp_request_id p)) (kind_frame k))"
  unfolding request_of_def by blast

lemmas client_ops = start_task_def start_session_def audio_request_def confirm_audio_sent_def
  mark_audio_write_ambiguous_def finish_audio_def doubao_finish_session_def

text \<open>Every client operation is a transition.\<close>

lemma client_trans:
  assumes "\<And>m. c \<noteq> DcBinary m"
  shows "session_trans c p (fst (session_step J c p)) (snd (session_step J c p))"
proof (cases c)
  case (DcStartTask token)
  then show ?thesis using request_ofI[of p KStartTask]
    by (auto simp: replying_apply client_ops Let_def intro: session_trans.intros)
next
  case (DcStartSession token body)
  then show ?thesis using request_ofI[of p KStartSession]
    by (auto simp: replying_apply client_ops Let_def intro: session_trans.intros)
next
  case (DcAudio ts packet)
  then show ?thesis
    using request_ofI[of p "KAudio (if dp_sent_audio_frames p = 0 then First else Middle)"]
    by (auto simp: replying_apply client_ops Let_def input_open_iff intro!: session_trans.intros)
next
  case (DcFinishAudio ts)
  then show ?thesis using request_ofI[of p "KAudio Last"]
    by (auto simp: replying_apply client_ops Let_def input_open_iff intro!: session_trans.intros)
next
  case (DcFinishSession token)
  then show ?thesis using request_ofI[of p KFinishSession]
    by (auto simp: replying_apply client_ops Let_def intro: session_trans.intros)
qed (use assms in \<open>auto simp: replying_apply client_ops Let_def intro: session_trans.intros\<close>)

text \<open>Every response is handled by a transition.\<close>

definition received :: "session_error + session_event option \<Rightarrow> session_error + doubao_reply" where
  "received r = (case r of Inl e \<Rightarrow> Inl e | Inr v \<Rightarrow> Inr (DrEvent v))"

lemma received_simps [simp]:
  "received (Inl e) = Inl e" "received (Inr v) = Inr (DrEvent v)"
  by (simp_all add: received_def)

abbreviation receives ::
  "doubao_protocol \<Rightarrow> (session_error + session_event option) \<times> doubao_protocol \<Rightarrow> bool" where
  "receives p out \<equiv> (\<forall>m. session_trans (DcBinary m) p (received (fst out)) (snd out))"

lemma receives_refused: "receives p (Inl e, failed p)"
  by (auto intro: session_trans.intros)

lemma handle_event_receives:
  assumes "dp_phase p \<in> {Streaming, Finishing}"
  shows "receives p (handle_event ev p)"
  using assms
  by (auto simp: handle_event_def Let_def split: option.splits intro: session_trans.intros
      simp del: insert_iff)

lemma handle_result_receives:
  assumes "\<not> closed_phase (dp_phase p)"
  shows "receives p (handle_result J response p)"
proof -
  have ev: "receives p (handle_event ev p)" if "dp_phase p = Streaming \<or> dp_phase p = Finishing" for ev
    using that by (intro handle_event_receives) auto
  show ?thesis
    using assms ev
    by (auto simp: handle_result_def split: sum.splits option.splits intro: session_trans.intros)
qed

lemma handle_session_finished_receives: "receives p (handle_session_finished p)"
  by (auto simp: handle_session_finished_def Let_def split: option.splits intro: session_trans.intros)

lemma start_task_auth_failed_receives: "receives p (start_task_auth_failed p)"
  by (auto simp: start_task_auth_failed_def fail_failed intro: session_trans.intros)

lemma task_started_same_id:
  "dp_phase p = TaskStarting \<Longrightarrow>
     session_trans (DcBinary m) p (Inr (DrEvent (Some SeTaskStarted))) (p\<lparr> dp_phase := TaskStarted \<rparr>)"
  using task_started[of p m "dp_task_id p"] by simp

lemma handle_message_receives:
  assumes "\<not> closed_phase (dp_phase p)"
  shows "receives p (handle_message J response p)"
  using handle_result_receives[OF assms, of J response] handle_session_finished_receives[of p]
    start_task_auth_failed_receives[of p]
  unfolding handle_message_def Let_def
  by (auto intro: session_trans.intros task_started_same_id)

lemma fail_remote_status_receives: "receives p (fail_remote_status code p)"
proof -
  obtain e where "(fail_remote_status code :: session_event option session_op) p = (Inl e, failed p)"
    by (simp add: fail_remote_status_def failed_def Let_def)
  then show ?thesis using receives_refused by simp
qed

lemma handle_binary_receives: "receives p (handle_binary J message p)"
proof (cases "closed_phase (dp_phase p)")
  case True
  then show ?thesis
    by (auto simp: handle_binary_def closed_phase_def intro: session_trans.intros)
next
  case False
  then have open_phase: "dp_phase p \<notin> {Finished, Failed, Cancelled, Disconnected}"
    by (simp add: closed_phase_def)
  show ?thesis
  proof (cases "decode_response message")
    case (Inl e)
    then show ?thesis using open_phase receives_refused[of p]
      by (simp add: handle_binary_def)
  next
    case (Inr response)
    then show ?thesis
      using open_phase receives_refused[of p] handle_message_receives[OF False, of J response]
        start_task_auth_failed_receives[of p] fail_remote_status_receives[of p]
      by (simp only: handle_binary_def if_False sum.case fail_refused split: if_split) blast
  qed
qed

lemma binary_trans:
  "session_trans (DcBinary m) p (fst (session_step J (DcBinary m) p))
     (snd (session_step J (DcBinary m) p))"
proof -
  obtain r q where h: "handle_binary J m p = (r, q)" by (cases "handle_binary J m p")
  then have "session_trans (DcBinary m) p (received r) q"
    using handle_binary_receives[of p J m] by simp
  then show ?thesis by (cases r) (simp_all add: replying_apply h)
qed

lemma step_trans: "session_trans c p (fst (session_step J c p)) (snd (session_step J c p))"
  using binary_trans client_trans by (cases "\<exists>m. c = DcBinary m") blast+

section \<open>Invariants\<close>

definition early_phase :: "session_phase \<Rightarrow> bool" where
  "early_phase ph \<longleftrightarrow> ph \<in> {Disconnected, TaskStarting, TaskStarted, SessionStarting}"

definition proto_inv :: "doubao_protocol \<Rightarrow> bool" where
  "proto_inv p \<longleftrightarrow>
     (dp_audio_acceptance p = NotAccepted \<longrightarrow> dp_sent_audio_frames p = 0) \<and>
     (early_phase (dp_phase p) \<longrightarrow>
        dp_sent_audio_frames p = 0 \<and> dp_input_state p = InputOpen \<and>
        dp_audio_acceptance p = NotAccepted \<and> dp_final_transcript p = None) \<and>
     (dp_input_state p = InputFinished \<longrightarrow> dp_sent_audio_frames p \<noteq> 0) \<and>
     (dp_phase p \<in> {Finishing, Finished} \<longrightarrow> dp_input_state p = InputFinished) \<and>
     (\<forall>t. dp_final_transcript p = Some t \<longrightarrow> \<not> is_blank t \<and> dp_audio_acceptance p \<noteq> NotAccepted) \<and>
     (dp_phase p = Finished \<longrightarrow> dp_final_transcript p \<noteq> None)"

lemma phase_classes [simp]:
  "early_phase Disconnected" "early_phase TaskStarting" "early_phase TaskStarted"
  "early_phase SessionStarting" "\<not> early_phase Streaming" "\<not> early_phase Finishing"
  "\<not> early_phase Finished" "\<not> early_phase Failed" "\<not> early_phase Cancelled"
  "closed_phase Disconnected" "\<not> closed_phase TaskStarting" "\<not> closed_phase TaskStarted"
  "\<not> closed_phase SessionStarting" "\<not> closed_phase Streaming" "\<not> closed_phase Finishing"
  "closed_phase Finished" "closed_phase Failed" "closed_phase Cancelled"
  by (simp_all add: early_phase_def closed_phase_def)

lemma sat_add_one_nonzero: "sat_add f 1 \<noteq> (0 :: 64 word)"
proof -
  have "unat (sat_add f 1 :: 64 word) \<noteq> 0" by (simp add: unat_sat_add)
  then show ?thesis by auto
qed

lemma failed_simps [simp]:
  "dp_phase (failed p) = (if dp_phase p = Cancelled then Cancelled else Failed)"
  "dp_sent_audio_frames (failed p) = dp_sent_audio_frames p"
  "dp_input_state (failed p) = dp_input_state p"
  "dp_audio_acceptance (failed p) = dp_audio_acceptance p"
  "dp_final_transcript (failed p) = dp_final_transcript p"
  "dp_request_id (failed p) = dp_request_id p"
  by (simp_all add: failed_def)

lemma note_event_simps [simp]:
  "dp_phase (note_event ev p) = dp_phase p"
  "dp_sent_audio_frames (note_event ev p) = dp_sent_audio_frames p"
  "dp_input_state (note_event ev p) = dp_input_state p"
  "dp_final_transcript (note_event ev p) = dp_final_transcript p"
  "dp_request_id (note_event ev p) = dp_request_id p"
  "dp_audio_acceptance (note_event ev p) =
     (if rv_vad_started ev \<or> rv_text ev \<noteq> None \<or> rv_final_result ev then Accepted
      else dp_audio_acceptance p)"
  by (simp_all add: note_event_def)

lemma failed_inv: "proto_inv p \<Longrightarrow> proto_inv (failed p)"
  by (auto simp: proto_inv_def)

lemma note_event_inv:
  "proto_inv p \<Longrightarrow> dp_phase p \<in> {Streaming, Finishing} \<Longrightarrow> proto_inv (note_event ev p)"
  by (auto simp: proto_inv_def)

lemma cancel_inv: "proto_inv p \<Longrightarrow> proto_inv (cancel p)"
  by (auto simp: proto_inv_def cancel_def)

lemma trans_inv:
  assumes "session_trans c p r p'" and "proto_inv p"
  shows "proto_inv p'"
  using assms
proof cases
  case blank_final_received
  then show ?thesis using assms(2) note_event_inv failed_inv by blast
next
  case refused
  then show ?thesis using assms(2) failed_inv by blast
next
  case cancelled
  then show ?thesis using assms(2) cancel_inv by blast
next
  case event_received
  then show ?thesis using assms(2) note_event_inv by blast
qed (use assms(2) in \<open>auto simp: proto_inv_def sat_add_one_nonzero\<close>)

interpretation doubao: invariant_machine "session_step J" proto_inv for J
  by unfold_locales (rule trans_inv[OF step_trans])

lemma protocol_new_inv: "protocol_new request_id = Inr p \<Longrightarrow> proto_inv p"
  by (auto simp: protocol_new_def proto_inv_def split: if_splits)

section \<open>Evidence only grows\<close>

lemma trans_evidence:
  assumes "session_trans c p r p'" and "proto_inv p"
  shows "dp_audio_acceptance p \<noteq> NotAccepted \<longrightarrow> dp_audio_acceptance p' \<noteq> NotAccepted"
    and "c = DcConfirm \<or> c = DcAmbiguous \<Longrightarrow> is_ok r \<Longrightarrow> dp_audio_acceptance p' \<noteq> NotAccepted"
  using assms by (cases; auto simp: cancel_def)+

lemma run_evidence:
  assumes "proto_inv p" and "dp_audio_acceptance p \<noteq> NotAccepted"
  shows "dp_audio_acceptance (snd (run_steps (session_step J) cs p)) \<noteq> NotAccepted"
proof -
  have "dp_audio_acceptance p \<noteq> NotAccepted \<longrightarrow>
      dp_audio_acceptance (snd (run_steps (session_step J) cs p)) \<noteq> NotAccepted"
    by (rule doubao.run_rel[where R = "\<lambda>t u. dp_audio_acceptance t \<noteq> NotAccepted \<longrightarrow>
          dp_audio_acceptance u \<noteq> NotAccepted"])
       (use assms(1) trans_evidence(1)[OF step_trans] in auto)
  then show ?thesis using assms(2) by simp
qed

lemma run_writes_evidence:
  assumes "proto_inv p" and "dp_audio_acceptance (snd (run_steps (session_step J) cs p)) = NotAccepted"
  shows "list_all2 (\<lambda>c r. c = DcConfirm \<or> c = DcAmbiguous \<longrightarrow> is_err r)
           cs (fst (run_steps (session_step J) cs p))"
  using assms
proof (induction cs arbitrary: p)
  case (Cons c cs)
  let ?p' = "snd (session_step J c p)"
  have inv: "proto_inv ?p'" using Cons.prems(1) by (rule doubao.step_inv)
  have "dp_audio_acceptance ?p' = NotAccepted"
    using Cons.prems(2) run_evidence[OF inv, of J cs] unfolding snd_run_Cons by blast
  then have "c = DcConfirm \<or> c = DcAmbiguous \<longrightarrow> is_err (fst (session_step J c p))"
    using trans_evidence(2)[OF step_trans Cons.prems(1)] by blast
  then show ?case
    using Cons.IH[OF inv] Cons.prems(2) by (simp add: run_simps del: run_steps.simps(2))
qed simp

section \<open>The order of the requests\<close>

fun request_next :: "request_kind option \<Rightarrow> request_kind \<Rightarrow> bool" where
  "request_next None k = (k = KStartTask)"
| "request_next (Some KStartTask) k = (k = KStartSession)"
| "request_next (Some KStartSession) k = (k = KAudio First)"
| "request_next (Some (KAudio Last)) k = (k = KFinishSession)"
| "request_next (Some (KAudio _)) k = (k = KAudio Middle \<or> k = KAudio Last)"
| "request_next (Some KFinishSession) k = False"

fun in_order :: "request_kind option \<Rightarrow> request_kind list \<Rightarrow> bool" where
  "in_order prev [] = True"
| "in_order prev (k # ks) = (request_next prev k \<and> in_order (Some k) ks)"

fun after_request :: "request_kind option \<Rightarrow> doubao_protocol \<Rightarrow> bool" where
  "after_request None p = (dp_phase p = Disconnected)"
| "after_request (Some KStartTask) p = (dp_phase p \<in> {TaskStarting, TaskStarted})"
| "after_request (Some KStartSession) p =
     (dp_phase p = SessionStarting \<or>
      (dp_phase p = Streaming \<and> dp_input_state p = InputOpen \<and> dp_sent_audio_frames p = 0))"
| "after_request (Some (KAudio Last)) p =
     (dp_phase p = Streaming \<and> dp_input_state p = InputFinished)"
| "after_request (Some (KAudio _)) p =
     (dp_phase p = Streaming \<and>
      (dp_input_state p = AudioRequestPending \<or>
       (dp_input_state p = InputOpen \<and> dp_sent_audio_frames p \<noteq> 0)))"
| "after_request (Some KFinishSession) p = (dp_phase p \<in> {Finishing, Finished})"

definition order_sim :: "request_kind option \<Rightarrow> doubao_protocol \<Rightarrow> bool" where
  "order_sim prev p \<longleftrightarrow> proto_inv p \<and> (dp_phase p \<in> {Failed, Cancelled} \<or> after_request prev p)"

fun sent_request :: "session_error + doubao_reply \<Rightarrow> bytes option" where
  "sent_request (Inr (DrRequest b)) = Some b"
| "sent_request _ = None"

fun sent_requests :: "(session_error + doubao_reply) list \<Rightarrow> bytes list" where
  "sent_requests [] = []"
| "sent_requests (r # rs) =
     (case sent_request r of None \<Rightarrow> sent_requests rs | Some b \<Rightarrow> b # sent_requests rs)"

lemma trans_request_id: "session_trans c p r p' \<Longrightarrow> dp_request_id p' = dp_request_id p"
  by (cases rule: session_trans.cases) (auto simp: cancel_def)

lemma previous_request_cases:
  obtains "prev = None" | "prev = Some KStartTask" | "prev = Some KStartSession"
  | "prev = Some (KAudio First)" | "prev = Some (KAudio Middle)" | "prev = Some (KAudio Last)"
  | "prev = Some KFinishSession"
proof (cases prev)
  case (Some k)
  then show thesis
  proof (cases k)
    case (KAudio f)
    then show thesis using Some that by (cases f) simp_all
  qed (use Some that in simp_all)
qed (use that in simp)

definition ordered :: "request_kind option \<Rightarrow> doubao_protocol \<Rightarrow> bool" where
  "ordered prev p \<longleftrightarrow> dp_phase p \<in> {Failed, Cancelled} \<or> after_request prev p"

text \<open>A transition without a request stays after the same request.\<close>

lemma trans_no_request:
  assumes t: "session_trans c p r p'" and "order_sim prev p" and "sent_request r = None"
  shows "order_sim prev p'"
proof -
  have inv: "proto_inv p" "proto_inv p'" and o: "ordered prev p"
    using assms(1,2) trans_inv by (auto simp: order_sim_def ordered_def)
  have "ordered prev p'"
    using t
  proof cases
    case audio_confirmed
    then show ?thesis using o
      by (cases rule: previous_request_cases[of prev]) (auto simp: ordered_def sat_add_one_nonzero)
  next
    case session_started
    then show ?thesis using o inv(1)
      by (cases rule: previous_request_cases[of prev]) (auto simp: ordered_def proto_inv_def)
  next
    case cancelled
    then show ?thesis using o
      by (cases rule: previous_request_cases[of prev]) (auto simp: ordered_def cancel_def)
  qed (use o assms(3) in
      \<open>cases rule: previous_request_cases[of prev]; auto simp: ordered_def cancel_def\<close>)+
  then show ?thesis using inv(2) by (simp add: order_sim_def ordered_def)
qed

lemma trans_request:
  assumes t: "session_trans c p r p'" and "order_sim prev p" and "sent_request r = Some b"
  shows "\<exists>k. request_next prev k \<and> request_of (dp_request_id p) k b \<and> order_sim (Some k) p'"
proof -
  have inv: "proto_inv p" "proto_inv p'" and o: "ordered prev p"
    using assms(1,2) trans_inv by (auto simp: order_sim_def ordered_def)
  have "\<exists>k. request_next prev k \<and> request_of (dp_request_id p) k b \<and> after_request (Some k) p'"
    using t
  proof cases
    case (audio_requested b' ts packet)
    then show ?thesis using o assms(3)
      by (intro exI[of _ "KAudio (if dp_sent_audio_frames p = 0 then First else Middle)"];
          cases rule: previous_request_cases[of prev]) (auto simp: ordered_def)
  qed (use o assms(3) in \<open>cases rule: previous_request_cases[of prev]; auto simp: ordered_def\<close>)+
  then show ?thesis using inv(2) unfolding order_sim_def by blast
qed

lemma run_in_order:
  "order_sim prev p \<Longrightarrow>
     \<exists>ks. in_order prev ks \<and>
       list_all2 (request_of (dp_request_id p)) ks
         (sent_requests (fst (run_steps (session_step J) cs p)))"
proof (induction cs arbitrary: prev p)
  case Nil
  then show ?case by (auto intro: exI[of _ "[]"])
next
  case (Cons c cs)
  let ?r = "fst (session_step J c p)" and ?p' = "snd (session_step J c p)"
  have id: "dp_request_id ?p' = dp_request_id p" by (rule trans_request_id[OF step_trans])
  show ?case
  proof (cases "sent_request ?r")
    case None
    then have "order_sim prev ?p'" using trans_no_request[OF step_trans Cons.prems] by blast
    then show ?thesis using Cons.IH[of prev ?p'] id None
      by (simp add: run_simps del: run_steps.simps(2))
  next
    case (Some b)
    then obtain k where k: "request_next prev k" "request_of (dp_request_id p) k b"
      "order_sim (Some k) ?p'"
      using trans_request[OF step_trans Cons.prems] by blast
    then obtain ks where "in_order (Some k) ks" "list_all2 (request_of (dp_request_id p)) ks
         (sent_requests (fst (run_steps (session_step J) cs ?p')))"
      using Cons.IH[of "Some k" ?p'] id by auto
    then show ?thesis using k Some
      by (intro exI[of _ "k # ks"]) (simp add: run_simps del: run_steps.simps(2))
  qed
qed

lemma protocol_new_order: "protocol_new request_id = Inr p \<Longrightarrow> order_sim None p"
  using protocol_new_inv by (auto simp: order_sim_def protocol_new_def split: if_splits)

lemma protocol_new_id: "protocol_new request_id = Inr p \<Longrightarrow> dp_request_id p = request_id"
  by (auto simp: protocol_new_def split: if_splits)

section \<open>The end of a session\<close>

definition ended :: "doubao_protocol \<Rightarrow> bool" where
  "ended p \<longleftrightarrow> dp_phase p \<in> {Finished, Failed, Cancelled}"

definition silent :: "session_error + doubao_reply \<Rightarrow> bool" where
  "silent r \<longleftrightarrow> is_err r \<or> r = Inr DrDone"

lemma trans_ended:
  assumes "session_trans c p r p'" and "ended p"
  shows "ended p'" and "silent r" and "r = Inr DrDone \<Longrightarrow> c = DcCancel"
    and "dp_phase p = Cancelled \<Longrightarrow> p' = p"
    and "dp_final_transcript p' = dp_final_transcript p"
  using assms by (cases; auto simp: ended_def silent_def cancel_def failed_def)+

interpretation ending: invariant_machine "session_step J" ended for J
  by unfold_locales (rule trans_ended(1)[OF step_trans])

lemma ended_run_silent: "ended p \<Longrightarrow> list_all silent (fst (run_steps (session_step J) cs p))"
  by (rule ending.run_results) (use trans_ended(2)[OF step_trans] in blast)+

lemma cancelled_run:
  "dp_phase p = Cancelled \<Longrightarrow> snd (run_steps (session_step J) cs p) = p"
proof (induction cs)
  case (Cons c cs)
  have "snd (session_step J c p) = p"
    using trans_ended(4)[OF step_trans] Cons.prems by (simp add: ended_def)
  then show ?case using Cons by (simp add: run_simps del: run_steps.simps(2))
qed simp

section \<open>What a finished session reports\<close>

fun final_of_result :: "session_error + doubao_reply \<Rightarrow> utext option" where
  "final_of_result (Inr (DrEvent (Some (SeRecognition ev)))) =
     (if rv_final_result ev then rv_text ev else None)"
| "final_of_result _ = None"

fun last_final :: "utext option \<Rightarrow> (session_error + doubao_reply) list \<Rightarrow> utext option" where
  "last_final t [] = t"
| "last_final t (r # rs) =
     last_final (case final_of_result r of None \<Rightarrow> t | Some u \<Rightarrow> Some u) rs"

fun confirmed :: "doubao_command list \<Rightarrow> (session_error + doubao_reply) list \<Rightarrow> nat" where
  "confirmed (c # cs) (r # rs) = (if c = DcConfirm \<and> is_ok r then 1 else 0) + confirmed cs rs"
| "confirmed _ _ = 0"

lemma trans_final:
  "session_trans c p r p' \<Longrightarrow>
     dp_final_transcript p' =
       (case final_of_result r of None \<Rightarrow> dp_final_transcript p | Some u \<Rightarrow> Some u)"
  by (cases rule: session_trans.cases) (auto simp: cancel_def)

lemma trans_frames:
  assumes "session_trans c p r p'"
  shows "unat (dp_sent_audio_frames p') =
    min (unat (dp_sent_audio_frames p) + (if c = DcConfirm \<and> is_ok r then 1 else 0)) (2 ^ 64 - 1)"
proof -
  have "unat (dp_sent_audio_frames p) < 2 ^ 64" using unat_lt_length[of "dp_sent_audio_frames p"] by simp
  with assms show ?thesis by cases (auto simp: cancel_def unat_sat_add)
qed

lemma run_final:
  "dp_final_transcript (snd (run_steps (session_step J) cs p)) =
     last_final (dp_final_transcript p) (fst (run_steps (session_step J) cs p))"
  by (induction cs arbitrary: p)
     (simp_all add: run_simps trans_final[OF step_trans] del: run_steps.simps(2))

lemma run_frames:
  "unat (dp_sent_audio_frames (snd (run_steps (session_step J) cs p))) =
     min (unat (dp_sent_audio_frames p) + confirmed cs (fst (run_steps (session_step J) cs p)))
       (2 ^ 64 - 1)"
proof (induction cs arbitrary: p)
  case Nil
  then show ?case using unat_lt_length[of "dp_sent_audio_frames p"] by simp
next
  case (Cons c cs)
  show ?case unfolding run_simps Cons trans_frames[OF step_trans]
    by simp
qed

section \<open>Properties of the session\<close>

text \<open>
  Evidence of disclosure in the Doubao session is never lost: if a session made for a valid
  request id ends with the acceptance NotAccepted, no command of its run confirmed an audio
  message as written or marked one as possibly written.
\<close>

theorem doubao_not_accepted_means_no_audio:
  assumes "protocol_new request_id = Inr p"
    and "dp_audio_acceptance (snd (run_steps (session_step J) cs p)) = NotAccepted"
  shows "list_all2 (\<lambda>c r. c = DcConfirm \<or> c = DcAmbiguous \<longrightarrow> is_err r)
           cs (fst (run_steps (session_step J) cs p))"
  using run_writes_evidence[OF protocol_new_inv[OF assms(1)] assms(2)] .

text \<open>
  C11: Whatever its driver calls and whatever the provider answers, the requests that a Doubao
  session produces carry its request id and follow the order StartTask, StartSession, a First
  audio frame, Middle audio frames, the Last frame, FinishSession; a run that stops early stops
  in a prefix of this order.
\<close>

theorem doubao_requests_in_order:
  assumes "protocol_new request_id = Inr p"
  shows "\<exists>ks. in_order None ks \<and>
           list_all2 (request_of request_id) ks
             (sent_requests (fst (run_steps (session_step J) cs p)))"
  using run_in_order[OF protocol_new_order[OF assms]] protocol_new_id[OF assms] by simp

text \<open>
  Cancelling a Doubao session that has not ended is final: no later call and no late response
  changes the protocol, and no later call gives a request or an event.
\<close>

theorem doubao_cancel_is_final:
  assumes "dp_phase p \<noteq> Finished" and "dp_phase p \<noteq> Failed"
  shows "snd (run_steps (session_step J) cs (cancel p)) = cancel p \<and>
         list_all silent (fst (run_steps (session_step J) cs (cancel p)))"
proof -
  have "dp_phase (cancel p) = Cancelled" using assms by (simp add: cancel_def)
  then show ?thesis using cancelled_run ended_run_silent by (simp add: ended_def)
qed

text \<open>
  When a Doubao session reports that it finished, the transcript is not blank and is the
  text of the last final recognition event of the run, at least one audio frame was confirmed,
  the reported number of frames is the number of confirmations (up to the 64-bit bound), and
  nothing that happens later gives another request or event.
\<close>

theorem doubao_finished_outcome:
  assumes "protocol_new request_id = Inr p"
    and "session_step J c (snd (run_steps (session_step J) cs p)) =
           (Inr (DrEvent (Some (SeFinished out))), q)"
  shows "\<not> is_blank (so_transcript out) \<and>
     last_final None (fst (run_steps (session_step J) cs p)) = Some (so_transcript out) \<and>
     0 < confirmed cs (fst (run_steps (session_step J) cs p)) \<and>
     unat (so_sent_audio_frames out) =
       min (confirmed cs (fst (run_steps (session_step J) cs p))) (2 ^ 64 - 1) \<and>
     list_all silent (fst (run_steps (session_step J) ds q))"
proof -
  let ?rs = "fst (run_steps (session_step J) cs p)" and ?q = "snd (run_steps (session_step J) cs p)"
  have "session_trans c ?q (Inr (DrEvent (Some (SeFinished out)))) q"
    using step_trans[of c ?q J] assms(2) by simp
  then have q: "dp_phase ?q = Finishing" "dp_final_transcript ?q = Some (so_transcript out)"
    "so_sent_audio_frames out = dp_sent_audio_frames ?q" "dp_phase q = Finished"
    by (cases; simp)+
  have inv: "proto_inv ?q"
    by (rule doubao.run_inv[OF protocol_new_inv[OF assms(1)]])
  have new: "dp_final_transcript p = None" "dp_sent_audio_frames p = 0"
    using assms(1) by (auto simp: protocol_new_def split: if_splits)
  have f: "unat (dp_sent_audio_frames ?q) = min (confirmed cs ?rs) (2 ^ 64 - 1)"
    using run_frames[of J cs p] by (simp add: new)
  moreover have "dp_sent_audio_frames ?q \<noteq> 0" using inv q(1) by (auto simp: proto_inv_def)
  ultimately have "0 < confirmed cs ?rs" by (metis gr0I min_0L unat_0_iff unsigned_0)
  moreover have "last_final None ?rs = Some (so_transcript out)"
    using run_final[of J cs p] q(2) by (simp add: new)
  moreover have "\<not> is_blank (so_transcript out)" using inv q(2) by (auto simp: proto_inv_def)
  moreover have "list_all silent (fst (run_steps (session_step J) ds q))"
    using q(4) by (intro ended_run_silent) (simp add: ended_def)
  ultimately show ?thesis using f q(3) by simp
qed

section \<open>A session that runs to its end\<close>

definition demo_json :: json_lib where
  "demo_json =
     \<lparr> jl_parse = (\<lambda>b. if b = [1]
          then Some (JObject [(''results'', JArray [JObject
                 [(''text'', JString [104, 105]), (''is_interim'', JBool False),
                  (''is_vad_finished'', JBool True)]])])
          else Some (JObject [])),
       jl_to_vec = (\<lambda>_. []) \<rparr>"

definition demo_token :: secret_string where
  "demo_token = SecretString ''t''"

definition demo_message :: "string \<Rightarrow> bytes \<Rightarrow> bytes" where
  "demo_message message_type result =
     enc_message [(1, Delimited [114]), (4, Delimited (ascii message_type)), (7, Delimited result)]"

definition demo_envelope :: "string \<Rightarrow> bytes \<Rightarrow> response_envelope" where
  "demo_envelope message_type result =
     response_envelope_default\<lparr> re_request_id := [114], re_message_type := text_of message_type,
       re_result_json := result \<rparr>"

definition demo_commands :: "doubao_command list" where
  "demo_commands =
     [DcStartTask demo_token, DcBinary (demo_message ''TaskStarted'' []),
      DcStartSession demo_token [2], DcBinary (demo_message ''SessionStarted'' []),
      DcAudio 0 [5], DcConfirm, DcBinary (demo_message ''Result'' [1]),
      DcFinishAudio 20, DcFinishSession demo_token]"

definition demo_protocol :: doubao_protocol where
  "demo_protocol =
     \<lparr> dp_request_id = [114], dp_phase = Disconnected, dp_task_id = None,
       dp_sent_audio_frames = 0, dp_input_state = InputOpen, dp_audio_acceptance = NotAccepted,
       dp_last_packet_number = None, dp_final_transcript = None,
       dp_provider_vad_started = False, dp_provider_vad_finished = False \<rparr>"

lemma demo_new: "protocol_new [114] = Inr demo_protocol"
  by (simp add: protocol_new_def demo_protocol_def max_request_id_bytes_def utf8_encode_def
      utf8_char_def)

lemmas demo_bytes = enc_message_def enc_field_def wire_key_def write_varint_small ascii_def
  utf8_decode.simps demo_envelope_def demo_message_def text_field_def text_of_def
  max_message_bytes_def

lemma demo_decode:
  "ty \<in> {''TaskStarted'', ''SessionStarted'', ''Result'', ''SessionFinished''} \<Longrightarrow> js \<in> {[], [1]} \<Longrightarrow>
     decode_response (demo_message ty js) = Inr (demo_envelope ty js)"
  unfolding demo_message_def
  by (subst decode_enc_message) (auto simp: demo_bytes)

lemmas demo_eval = replying_apply client_ops Let_def handle_binary_def handle_message_def
  handle_result_def handle_event_def handle_session_finished_def demo_decode demo_envelope_def
  response_envelope_default_def text_of_def parse_recognition_event_def event_of_results_def
  demo_json_def json_object_def bool_field_def text_of_result_def nonstream_of_result_def
  duplicate_packet_def note_event_def max_session_json_bytes_def max_opus_packet_bytes_def
  trim_def trim_by_def is_whitespace_def

lemma demo_session_run:
  "dp_phase (snd (run_steps (session_step demo_json) demo_commands demo_protocol)) = Finishing"
  "dp_final_transcript (snd (run_steps (session_step demo_json) demo_commands demo_protocol)) =
     Some [104, 105]"
  "dp_request_id (snd (run_steps (session_step demo_json) demo_commands demo_protocol)) = [114]"
  unfolding demo_commands_def demo_protocol_def
  by (simp_all add: run_simps demo_eval sat_add_def del: run_steps.simps(2))

definition demo_end :: doubao_protocol where
  "demo_end = snd (run_steps (session_step demo_json) demo_commands demo_protocol)"

definition demo_outcome :: session_outcome where
  "demo_outcome =
     \<lparr> so_transcript = [104, 105], so_task_id = dp_task_id demo_end,
       so_sent_audio_frames = dp_sent_audio_frames demo_end,
       so_last_packet_number = dp_last_packet_number demo_end,
       so_provider_vad_started = dp_provider_vad_started demo_end,
       so_provider_vad_finished = dp_provider_vad_finished demo_end \<rparr>"

lemmas demo_end_simps = demo_session_run[folded demo_end_def]

lemma demo_finishes:
  "session_step demo_json (DcBinary (demo_message ''SessionFinished'' [])) demo_end =
     (Inr (DrEvent (Some (SeFinished demo_outcome))), demo_end\<lparr> dp_phase := Finished \<rparr>)"
  by (simp add: demo_end_simps demo_eval demo_outcome_def)

theorem doubao_not_accepted_means_no_audio_witness:
  "list_all2 (\<lambda>c r. c = DcConfirm \<or> c = DcAmbiguous \<longrightarrow> is_err r)
     [DcStartTask demo_token, DcConfirm]
     (fst (run_steps (session_step demo_json) [DcStartTask demo_token, DcConfirm] demo_protocol))"
  by (rule doubao_not_accepted_means_no_audio[OF demo_new])
     (simp add: run_simps demo_eval demo_protocol_def del: run_steps.simps(2))

theorem doubao_requests_in_order_witness:
  "\<exists>ks. in_order None ks \<and>
     list_all2 (request_of [114]) ks
       (sent_requests (fst (run_steps (session_step demo_json) demo_commands demo_protocol)))"
  by (rule doubao_requests_in_order[OF demo_new])

theorem doubao_cancel_is_final_witness:
  "snd (run_steps (session_step demo_json) [DcConfirm, DcBinary (demo_message ''Result'' [1])]
          (cancel demo_end)) = cancel demo_end \<and>
   list_all silent (fst (run_steps (session_step demo_json)
          [DcConfirm, DcBinary (demo_message ''Result'' [1])] (cancel demo_end)))"
  by (rule doubao_cancel_is_final) (simp_all add: demo_end_simps)

theorem doubao_finished_outcome_witness:
  "\<not> is_blank (so_transcript demo_outcome) \<and>
   last_final None (fst (run_steps (session_step demo_json) demo_commands demo_protocol)) =
     Some (so_transcript demo_outcome) \<and>
   0 < confirmed demo_commands (fst (run_steps (session_step demo_json) demo_commands demo_protocol)) \<and>
   unat (so_sent_audio_frames demo_outcome) =
     min (confirmed demo_commands
            (fst (run_steps (session_step demo_json) demo_commands demo_protocol))) (2 ^ 64 - 1) \<and>
   list_all silent (fst (run_steps (session_step demo_json) [DcCancel, DcConfirm]
      (demo_end\<lparr> dp_phase := Finished \<rparr>)))"
  by (rule doubao_finished_outcome[OF demo_new demo_finishes[unfolded demo_end_def], folded demo_end_def])

end
