(* ===== verification/Doubao_Runner_Props.thy ===== *)
theory Doubao_Runner_Props
  imports Doubao_Runner Doubao_Session_Props
begin

text \<open>
  The properties of a Doubao recognition: what was handed to the WebSocket library when it fails, that
  it ends when the clock passes its deadline, and what a successful one returns. The proofs
  compose triples over the operations of the driver.
\<close>

section \<open>The invariant of the driver\<close>

definition quiet :: "utext \<Rightarrow> bytes \<Rightarrow> bool" where
  "quiet request_id b \<longleftrightarrow> request_of request_id KStartTask b \<or> request_of request_id KStartSession b"

definition driver_inv :: "utext \<Rightarrow> driver \<Rightarrow> bool" where
  "driver_inv request_id d \<longleftrightarrow>
     proto_inv (dr_protocol d) \<and> dp_request_id (dr_protocol d) = request_id \<and>
     (dp_audio_acceptance (dr_protocol d) = NotAccepted \<longrightarrow>
        list_all (quiet request_id) (sk_buffered (dr_socket d))) \<and>
     (\<forall>out. dr_outcome d = Some out \<longrightarrow> \<not> is_blank (so_transcript out))"

text \<open>The library gives a payload back as it was when its buffer is full.\<close>

definition returns_payload :: "ws_env \<Rightarrow> bool" where
  "returns_payload W \<longleftrightarrow>
     (\<forall>k payload bs. we_write W k payload = Inl (WeWriteBufferFull (WsBinary bs)) \<longrightarrow> bs = payload)"

text \<open>The invariant with a condition on the protocol that the socket cannot change.\<close>

definition with_inv :: "utext \<Rightarrow> (doubao_protocol \<Rightarrow> bool) \<Rightarrow> driver \<Rightarrow> bool" where
  "with_inv i C d \<longleftrightarrow> driver_inv i d \<and> C (dr_protocol d)"

abbreviation anything :: "doubao_protocol \<Rightarrow> bool" where
  "anything \<equiv> (\<lambda>_. True)"

lemma with_inv_weaken: "with_inv i C d \<Longrightarrow> driver_inv i d"
  by (simp add: with_inv_def)

definition sending_audio :: "doubao_protocol \<Rightarrow> bool" where
  "sending_audio p \<longleftrightarrow> dp_phase p = Streaming \<and> dp_input_state p = AudioRequestPending"

lemma sending_audio_acceptance [simp]:
  "sending_audio (p\<lparr> dp_audio_acceptance := a \<rparr>) = sending_audio p"
  by (simp add: sending_audio_def)

definition disclosed :: "doubao_protocol \<Rightarrow> bool" where
  "disclosed p \<longleftrightarrow> dp_audio_acceptance p \<noteq> NotAccepted"

text \<open>A condition that no accepted response changes.\<close>

definition stable :: "(doubao_protocol \<Rightarrow> bool) \<Rightarrow> bool" where
  "stable C \<longleftrightarrow>
     (\<forall>m p r p'. C p \<longrightarrow> session_trans (DcBinary m) p (Inr r) p' \<longrightarrow> C p')"

lemma stable_sending: "stable sending_audio"
  unfolding stable_def sending_audio_def
proof (intro allI impI)
  fix m p r p'
  assume "dp_phase p = Streaming \<and> dp_input_state p = AudioRequestPending"
    and t: "session_trans (DcBinary m) p (Inr r) p'"
  then show "dp_phase p' = Streaming \<and> dp_input_state p' = AudioRequestPending"
    by (cases rule: session_trans.cases[OF t]) auto
qed

lemma stable_disclosed: "stable disclosed"
  unfolding stable_def disclosed_def
proof (intro allI impI)
  fix m p r p'
  assume "dp_audio_acceptance p \<noteq> NotAccepted" and t: "session_trans (DcBinary m) p (Inr r) p'"
  then show "dp_audio_acceptance p' \<noteq> NotAccepted"
    by (cases rule: session_trans.cases[OF t]) auto
qed

lemma stable_anything: "stable anything"
  by (simp add: stable_def)

section \<open>Triples of the basic operations\<close>

lemma ticked_simps [simp]:
  "sk_at (ticked s) = Suc (sk_at s)" "sk_buffered (ticked s) = sk_buffered s"
  by (simp_all add: ticked_def)

lemma driver_inv_socket [simp]:
  "sk_buffered s = sk_buffered (dr_socket d) \<Longrightarrow> driver_inv i (d\<lparr> dr_socket := s \<rparr>) = driver_inv i d"
  by (simp add: driver_inv_def)

lemma on_socket_triple:
  assumes "\<And>s r t. m s = (r, t) \<Longrightarrow> sk_buffered t = sk_buffered s"
  shows "triple (with_inv i C) (on_socket m) (\<lambda>_. with_inv i C) (driver_inv i)"
proof (rule tripleI)
  fix d a t assume w: "with_inv i C d" and run: "on_socket m d = (Inr a, t)"
  then show "with_inv i C t" using assms[of "dr_socket d"]
    by (cases "m (dr_socket d)") (auto simp: on_socket_def with_inv_def)
next
  fix d e t assume "with_inv i C d" "on_socket m d = (Inl e, t)"
  then show "driver_inv i t" using assms[of "dr_socket d"]
    by (cases "m (dr_socket d)") (auto simp: on_socket_def with_inv_def)
qed

lemmas flush_triple = on_socket_triple[where m = "flush W" for W, OF flush_frame(2)]
lemmas poll_triple = on_socket_triple[where m = "poll W" for W, OF poll_frame(2)]

lemma check_deadlines_triple:
  "triple (with_inv i C) (check_deadlines E dl) (\<lambda>_. with_inv i C) (driver_inv i)"
  by (rule tripleI) (auto simp: check_deadlines_def seq_def is_cancelled_def instant_now_def
      with_inv_def split: if_splits)

lemma instant_now_triple:
  "triple (with_inv i C) (instant_now E) (\<lambda>_. with_inv i C) (driver_inv i)"
  by (rule tripleI) (auto simp: instant_now_def with_inv_def)

lemma phase_deadline_triple:
  "triple (with_inv i C) (phase_deadline E) (\<lambda>_. with_inv i C) (driver_inv i)"
  unfolding phase_deadline_def by (rule triple_seq[OF instant_now_triple]) (rule triple_give)

text \<open>An operation of the protocol keeps the invariant; its success may establish a condition.\<close>

lemma proto_step_inv:
  assumes "driver_inv i d" and "session_trans c (dr_protocol d) r p'"
  shows "driver_inv i (d\<lparr> dr_protocol := p' \<rparr>)"
  using assms trans_inv[OF assms(2)] trans_evidence(1)[OF assms(2)] trans_request_id[OF assms(2)]
  by (auto simp: driver_inv_def)

lemma on_protocol_triple:
  assumes step: "\<And>p r p'. m p = (r, p') \<Longrightarrow> \<exists>r'. session_trans c p r' p'"
    and ok: "\<And>p a p'. proto_inv p \<Longrightarrow> dp_request_id p = i \<Longrightarrow> C p \<Longrightarrow> m p = (Inr a, p') \<Longrightarrow> D a p'"
  shows "triple (with_inv i C) (on_protocol m) (\<lambda>a. with_inv i (D a)) (driver_inv i)"
proof (rule tripleI)
  fix d a t assume w: "with_inv i C d" and run: "on_protocol m d = (Inr a, t)"
  obtain r p' where m: "m (dr_protocol d) = (r, p')" by (cases "m (dr_protocol d)")
  then have "r = Inr a" "t = d\<lparr> dr_protocol := p' \<rparr>"
    using run by (cases r; simp add: on_protocol_def)+
  moreover have "driver_inv i (d\<lparr> dr_protocol := p' \<rparr>)"
    using step[OF m] w proto_step_inv by (auto simp: with_inv_def)
  moreover have "proto_inv (dr_protocol d)" "dp_request_id (dr_protocol d) = i" "C (dr_protocol d)"
    using w by (auto simp: with_inv_def driver_inv_def)
  ultimately show "with_inv i (D a) t" using ok[of "dr_protocol d" a p'] m by (simp add: with_inv_def)
next
  fix d e t assume w: "with_inv i C d" and run: "on_protocol m d = (Inl e, t)"
  obtain r p' where m: "m (dr_protocol d) = (r, p')" by (cases "m (dr_protocol d)")
  then have "t = d\<lparr> dr_protocol := p' \<rparr>" using run by (simp add: on_protocol_def)
  then show "driver_inv i t" using step[OF m] w proto_step_inv by (auto simp: with_inv_def)
qed

section \<open>Receiving\<close>

lemma handle_binary_trans:
  "handle_binary J message p = (r, p') \<Longrightarrow> session_trans (DcBinary message) p (received r) p'"
  using handle_binary_receives[of p J message] by simp

lemma finished_transcript:
  assumes "session_trans c p (Inr (DrEvent (Some (SeFinished out)))) p'" and "proto_inv p"
  shows "\<not> is_blank (so_transcript out)"
  using assms by (cases) (auto simp: proto_inv_def)

definition good_event :: "session_event option \<Rightarrow> bool" where
  "good_event ev \<longleftrightarrow> (\<forall>out. ev = Some (SeFinished out) \<longrightarrow> \<not> is_blank (so_transcript out))"

lemma handle_binary_triple:
  assumes "stable C"
  shows "triple (with_inv i C) (on_protocol (handle_binary J message))
           (\<lambda>ev. with_inv i (\<lambda>p. C p \<and> good_event ev)) (driver_inv i)"
proof (rule on_protocol_triple)
  show "\<exists>r'. session_trans (DcBinary message) p r' p'" if "handle_binary J message p = (r, p')" for p r p'
    using handle_binary_trans[OF that] by blast
next
  fix p ev p'
  assume "proto_inv p" "C p" and h: "handle_binary J message p = (Inr ev, p')"
  have t: "session_trans (DcBinary message) p (Inr (DrEvent ev)) p'"
    using handle_binary_trans[OF h] by simp
  then show "C p' \<and> good_event ev"
    using assms \<open>C p\<close> finished_transcript[OF _ \<open>proto_inv p\<close>]
    by (auto simp: stable_def good_event_def)
qed

lemma note_session_event_triple:
  "triple (with_inv i (\<lambda>p. C p \<and> good_event ev)) (note_session_event ev) (\<lambda>_. with_inv i C)
     (driver_inv i)"
  by (rule tripleI)
     (auto simp: note_session_event_def with_inv_def driver_inv_def good_event_def
       split: option.splits session_event.splits if_splits)

lemma pump_once_triple:
  assumes "stable C"
  shows "triple (with_inv i C) (pump_once E) (\<lambda>_. with_inv i C) (driver_inv i)"
  unfolding pump_once_def
proof (rule triple_seq[OF poll_triple])
  fix r
  have binary: "triple (with_inv i C)
      (seq (on_protocol (handle_binary (rn_json E) message)) (\<lambda>ev.
         seq (note_session_event ev) (\<lambda>_. give True))) (\<lambda>_. with_inv i C) (driver_inv i)" for message
    by (rule triple_seq[OF handle_binary_triple[OF assms]], rule triple_seq[OF note_session_event_triple],
        rule triple_give)
  show "triple (with_inv i C)
      (case r of
         PollIdle \<Rightarrow> give False
       | PollClosed \<Rightarrow> raise connection_closed
       | PollEvent EvClose \<Rightarrow> raise connection_closed
       | PollEvent (EvBinary message) \<Rightarrow>
           seq (on_protocol (handle_binary (rn_json E) message)) (\<lambda>ev.
             seq (note_session_event ev) (\<lambda>_. give True))
       | PollEvent _ \<Rightarrow> give True) (\<lambda>_. with_inv i C) (driver_inv i)"
    by (auto split: poll_result.split socket_event.split
        intro: binary triple_give triple_raise with_inv_weaken)
qed

lemma drain_loop_triple:
  "stable C \<Longrightarrow> triple (with_inv i C) (drain_loop E n) (\<lambda>_. with_inv i C) (driver_inv i)"
proof (induction n)
  case 0
  show ?case unfolding drain_loop.simps by (rule triple_give)
next
  case (Suc n)
  show ?case unfolding drain_loop.simps
    by (rule triple_seq[OF pump_once_triple[OF Suc.prems]]) (auto intro: Suc triple_give)
qed

lemma flush_once_triple:
  assumes "stable C"
  shows "triple (with_inv i C) (flush_once E dl) (\<lambda>_. with_inv i C) (driver_inv i)"
  unfolding flush_once_def
proof (rule triple_seq[OF check_deadlines_triple], rule triple_seq[OF flush_triple])
  fix f
  show "triple (with_inv i C)
      (if f = Closed then raise connection_closed else seq (pump_once E) (\<lambda>_. give ()))
      (\<lambda>_. with_inv i C) (driver_inv i)"
    using triple_seq[OF pump_once_triple[OF assms, of i E] triple_give]
    by (auto intro: triple_raise with_inv_weaken)
qed

section \<open>Sending\<close>

text \<open>
  A payload may be sent if it carries no audio, or replay is already unsafe, or it is the pending
  audio request, which is marked as soon as it was handed over, by a write that failed as well.
\<close>

definition may_send :: "utext \<Rightarrow> bytes \<Rightarrow> bool \<Rightarrow> doubao_protocol \<Rightarrow> bool" where
  "may_send i payload audio p \<longleftrightarrow>
     (if audio then sending_audio p else quiet i payload \<or> disclosed p)"

lemma stable_may_send: "stable (may_send i payload audio)"
  using stable_sending stable_disclosed unfolding stable_def may_send_def by (cases audio) auto

lemma mark_result:
  "sending_audio p \<Longrightarrow>
     mark_audio_write_ambiguous p = (Inr (), p\<lparr> dp_audio_acceptance := PossiblyAccepted \<rparr>)"
  by (simp add: mark_audio_write_ambiguous_def sending_audio_def)

lemma mark_on_driver:
  "sending_audio (dr_protocol d) \<Longrightarrow>
     on_protocol mark_audio_write_ambiguous d =
       (Inr (), d\<lparr> dr_protocol := (dr_protocol d)\<lparr> dp_audio_acceptance := PossiblyAccepted \<rparr> \<rparr>)"
  by (simp add: on_protocol_def mark_result)

lemma marked_inv:
  assumes "driver_inv i d" and "sending_audio (dr_protocol d)"
  shows "driver_inv i (d\<lparr> dr_socket := s', dr_protocol :=
           (dr_protocol d)\<lparr> dp_audio_acceptance := PossiblyAccepted \<rparr> \<rparr>)"
  using assms by (auto simp: driver_inv_def proto_inv_def sending_audio_def)

definition after_queue :: "bool \<Rightarrow> doubao_protocol \<Rightarrow> bool" where
  "after_queue audio p \<longleftrightarrow> (audio \<longrightarrow> sending_audio p \<and> disclosed p)"

lemma queue_step_triple:
  assumes "returns_payload (rn_ws E)"
  shows "triple (with_inv i (may_send i payload audio))
     (\<lambda>d. case on_socket (queue_binary (rn_ws E) payload) d of
         (Inr Queued, d') \<Rightarrow>
           seq (when_audio audio mark_audio_write_ambiguous) (\<lambda>_. give (Inl ())) d'
       | (Inr (Full returned), d') \<Rightarrow>
           seq (flush_once E deadline) (\<lambda>_. give (Inr returned)) d'
       | (Inl e, d') \<Rightarrow>
           seq (when_audio audio mark_audio_write_ambiguous) (\<lambda>_. raise e) d')
     (\<lambda>r d. case r of Inl _ \<Rightarrow> with_inv i (after_queue audio) d
          | Inr payload' \<Rightarrow> with_inv i (may_send i payload' audio) d)
     (driver_inv i)"
  unfolding triple_def
proof (intro allI impI)
  fix d assume w: "with_inv i (may_send i payload audio) d"
  then have inv: "driver_inv i d" and may: "may_send i payload audio (dr_protocol d)"
    by (auto simp: with_inv_def)
  obtain r s where q: "queue_binary (rn_ws E) payload (dr_socket d) = (r, s)"
    by (cases "queue_binary (rn_ws E) payload (dr_socket d)")
  let ?d = "d\<lparr> dr_socket := s \<rparr>"
  let ?marked = "d\<lparr> dr_socket := s, dr_protocol :=
      (dr_protocol d)\<lparr> dp_audio_acceptance := PossiblyAccepted \<rparr> \<rparr>"
  have step: "on_socket (queue_binary (rn_ws E) payload) d = (map_sum transport_into_vox_error id r, ?d)"
    by (simp add: on_socket_def q)
  have mark: "when_audio audio mark_audio_write_ambiguous ?d = (Inr (), if audio then ?marked else ?d)"
    using may mark_on_driver[of ?d] by (simp add: when_audio_def may_send_def)
  have marked: "audio \<Longrightarrow> driver_inv i ?marked"
    using marked_inv[OF inv] may by (simp add: may_send_def)
  show "case case on_socket (queue_binary (rn_ws E) payload) d of
         (Inr Queued, d') \<Rightarrow>
           seq (when_audio audio mark_audio_write_ambiguous) (\<lambda>_. give (Inl ())) d'
       | (Inr (Full returned), d') \<Rightarrow>
           seq (flush_once E deadline) (\<lambda>_. give (Inr returned)) d'
       | (Inl e, d') \<Rightarrow>
           seq (when_audio audio mark_audio_write_ambiguous) (\<lambda>_. raise e) d' of
      (Inl e, t) \<Rightarrow> driver_inv i t
    | (Inr a, t) \<Rightarrow>
        (case a of Inl _ \<Rightarrow> with_inv i (after_queue audio) t
         | Inr payload' \<Rightarrow> with_inv i (may_send i payload' audio) t)"
  proof (cases r)
    case (Inl e)
    have "sk_buffered s = sk_buffered (dr_socket d) @ [payload]"
      using queue_binary_frame(2)[OF q] Inl by simp
    then have "\<not> audio \<Longrightarrow> driver_inv i ?d"
      using inv may by (auto simp: driver_inv_def may_send_def disclosed_def)
    then show ?thesis using marked by (simp add: step Inl seq_def mark)
  next
    case (Inr out)
    show ?thesis
    proof (cases out)
      case Queued
      have buf: "sk_buffered s = sk_buffered (dr_socket d) @ [payload]"
        using queue_binary_frame(2)[OF q] Inr Queued by simp
      have "\<not> audio \<Longrightarrow> driver_inv i ?d"
        using inv may buf by (auto simp: driver_inv_def may_send_def disclosed_def)
      then show ?thesis using marked may
        by (simp add: step Inr Queued seq_def mark with_inv_def after_queue_def disclosed_def
            may_send_def split: if_splits)
    next
      case (Full returned)
      have same: "sk_buffered s = sk_buffered (dr_socket d)" "returned = payload"
        using queue_binary_frame(2)[OF q] q Inr Full assms
        by (auto simp: queue_binary_def returns_payload_def
            split: sum.splits ws_error.splits ws_message.splits)
      then have "with_inv i (may_send i payload audio) ?d" using w by (simp add: with_inv_def)
      moreover have "triple (with_inv i (may_send i payload audio))
          (seq (flush_once E deadline) (\<lambda>_. give (Inr payload)))
          (\<lambda>r d. case r of Inl _ \<Rightarrow> with_inv i (after_queue audio) d
                | Inr payload' \<Rightarrow> with_inv i (may_send i payload' audio) d) (driver_inv i)"
        by (rule triple_seq[OF flush_once_triple[OF stable_may_send]]) (simp add: triple_give)
      ultimately have "case seq (flush_once E deadline) (\<lambda>_. give (Inr payload)) ?d of
          (Inl e, t) \<Rightarrow> driver_inv i t
        | (Inr a, t) \<Rightarrow> (case a of Inl _ \<Rightarrow> with_inv i (after_queue audio) t
            | Inr payload' \<Rightarrow> with_inv i (may_send i payload' audio) t)"
        by (rule triple_at[rotated])
      then show ?thesis
        by (simp only: step Inr Full same(2) map_sum.simps id_apply prod.case sum.case
            queue_result.case)
    qed
  qed
qed

lemma queue_round_triple:
  assumes "returns_payload (rn_ws E)"
  shows "triple (with_inv i (may_send i payload audio)) (queue_round E deadline audio payload)
     (\<lambda>r d. case r of Inl _ \<Rightarrow> with_inv i (after_queue audio) d
          | Inr payload' \<Rightarrow> with_inv i (may_send i payload' audio) d)
     (driver_inv i)"
  unfolding queue_round_def
  by (rule triple_seq[OF check_deadlines_triple queue_step_triple[OF assms]])

lemma stable_after_queue: "stable (after_queue audio)"
  using stable_sending stable_disclosed unfolding stable_def after_queue_def by blast

definition sent_ok :: "bool \<Rightarrow> doubao_protocol \<Rightarrow> bool" where
  "sent_ok audio p \<longleftrightarrow> (audio \<longrightarrow> disclosed p)"

lemma confirm_triple:
  "triple (with_inv i (after_queue True)) (on_protocol confirm_audio_sent)
     (\<lambda>_. with_inv i (sent_ok True)) (driver_inv i)"
proof (rule on_protocol_triple[where c = DcConfirm])
  fix p r p' assume "confirm_audio_sent p = (r, p')"
  then show "\<exists>r'. session_trans DcConfirm p r' p'"
    using step_trans[of DcConfirm p undefined] by (auto simp: replying_apply split: sum.splits)
next
  fix p a p' assume "confirm_audio_sent p = (Inr a, p')"
  then show "sent_ok True p'"
    by (auto simp: confirm_audio_sent_def sent_ok_def disclosed_def split: if_splits)
qed

lemma flush_round_triple:
  "triple (with_inv i (after_queue audio)) (flush_round E deadline audio u)
     (\<lambda>r d. case r of Inl _ \<Rightarrow> with_inv i (sent_ok audio) d | Inr _ \<Rightarrow> with_inv i (after_queue audio) d)
     (driver_inv i)"
  unfolding flush_round_def
proof (rule triple_seq[OF check_deadlines_triple], rule triple_seq[OF flush_triple])
  fix f
  let ?Q = "\<lambda>r d. case r of Inl _ \<Rightarrow> with_inv i (sent_ok audio) d
      | Inr _ \<Rightarrow> with_inv i (after_queue audio) d"
  have "triple (with_inv i (after_queue audio))
      (seq (when_audio audio confirm_audio_sent) (\<lambda>_. give (Inl ()))) ?Q (driver_inv i)"
  proof (cases audio)
    case True
    then have audio: "audio = True" by simp
    show ?thesis unfolding when_audio_def audio if_True
      by (rule triple_seq[OF confirm_triple]) (simp add: triple_give)
  next
    case False
    have "triple (with_inv i (after_queue audio)) (give (Inl ())) ?Q (driver_inv i)"
      by (rule triple_give) (use False in \<open>simp add: with_inv_def sent_ok_def\<close>)
    then show ?thesis by (simp only: when_audio_def False if_False seq_give)
  qed
  moreover have "triple (with_inv i (after_queue audio)) (seq (pump_once E) (\<lambda>_. give (Inr ()))) ?Q
      (driver_inv i)"
    by (rule triple_seq[OF pump_once_triple[OF stable_after_queue]]) (simp add: triple_give)
  ultimately show "triple (with_inv i (after_queue audio))
      (case f of
         Flushed \<Rightarrow> seq (when_audio audio confirm_audio_sent) (\<lambda>_. give (Inl ()))
       | Pending \<Rightarrow> seq (pump_once E) (\<lambda>_. give (Inr ()))
       | Closed \<Rightarrow> raise connection_closed) ?Q (driver_inv i)"
    by (cases f) (auto intro: triple_raise with_inv_weaken)
qed

lemma send_payload_triple:
  assumes "returns_payload (rn_ws E)"
  shows "run_triple (with_inv i (may_send i payload audio)) (send_payload E payload deadline audio)
     (\<lambda>_. with_inv i (sent_ok audio)) (driver_inv i)"
  unfolding send_payload_def
proof (rule run_triple_andthen)
  show "run_triple (with_inv i (may_send i payload audio))
      (iterate (queue_round E deadline audio) payload) (\<lambda>_. with_inv i (after_queue audio)) (driver_inv i)"
    by (rule run_triple_iterate[where P = "\<lambda>payload. with_inv i (may_send i payload audio)"])
       (rule queue_round_triple[OF assms])
  show "run_triple (with_inv i (after_queue audio)) (iterate (flush_round E deadline audio) ())
      (\<lambda>_. with_inv i (sent_ok audio)) (driver_inv i)" for u :: unit
    by (rule run_triple_iterate[where P = "\<lambda>_. with_inv i (after_queue audio)"])
       (rule flush_round_triple)
qed

lemma send_within_phase_triple:
  assumes "returns_payload (rn_ws E)"
  shows "run_triple (with_inv i (may_send i payload audio)) (send_within_phase E payload audio)
     (\<lambda>_. with_inv i (sent_ok audio)) (driver_inv i)"
  unfolding send_within_phase_def
  by (rule run_triple_andthen[OF run_triple_lift[OF phase_deadline_triple]
        send_payload_triple[OF assms]])

section \<open>The requests of the driver\<close>

lemma request_trans:
  assumes "replying DrRequest m = session_step J c" and "m p = (r, p')"
  shows "session_trans c p (map_sum id DrRequest r) p'"
proof -
  have "session_step J c p = (map_sum id DrRequest r, p')"
    using assms(2) unfolding assms(1)[symmetric] by (cases r) (simp_all add: replying_apply)
  then show ?thesis using step_trans[of c p J] by simp
qed

lemma request_triple:
  assumes "replying DrRequest m = session_step J c"
    and "\<And>p b p'. proto_inv p \<Longrightarrow> session_trans c p (Inr (DrRequest b)) p' \<Longrightarrow>
           may_send (dp_request_id p) b audio p'"
  shows "triple (with_inv i anything) (on_protocol m) (\<lambda>b. with_inv i (may_send i b audio)) (driver_inv i)"
proof (rule on_protocol_triple)
  show "\<exists>r'. session_trans c p r' p'" if "m p = (r, p')" for p r p'
    using request_trans[OF assms(1) that] by blast
next
  fix p b p' assume "proto_inv p" "dp_request_id p = i" "m p = (Inr b, p')"
  then show "may_send i b audio p'"
    using request_trans[OF assms(1), of p "Inr b" p'] assms(2)[of p b p'] by simp
qed

lemma start_task_triple:
  "triple (with_inv i anything) (on_protocol (start_task token))
     (\<lambda>b. with_inv i (may_send i b False)) (driver_inv i)"
proof (rule request_triple)
  show "replying DrRequest (start_task token) = session_step J (DcStartTask token)" for J by simp
  fix p b p' assume "session_trans (DcStartTask token) p (Inr (DrRequest b)) p'"
  then show "may_send (dp_request_id p) b False p'"
    by cases (simp add: may_send_def quiet_def)
qed

lemma start_session_triple:
  "triple (with_inv i anything) (on_protocol (start_session J token body))
     (\<lambda>b. with_inv i (may_send i b False)) (driver_inv i)"
proof (rule request_triple)
  show "replying DrRequest (start_session J token body) = session_step J (DcStartSession token body)"
    by simp
  fix p b p' assume "session_trans (DcStartSession token body) p (Inr (DrRequest b)) p'"
  then show "may_send (dp_request_id p) b False p'"
    by cases (simp add: may_send_def quiet_def)
qed

lemma audio_request_triple:
  "triple (with_inv i anything) (on_protocol (audio_request J ts packet))
     (\<lambda>b. with_inv i (may_send i b True)) (driver_inv i)"
proof (rule request_triple)
  show "replying DrRequest (audio_request J ts packet) = session_step J (DcAudio ts packet)" by simp
  fix p b p' assume "session_trans (DcAudio ts packet) p (Inr (DrRequest b)) p'"
  then show "may_send (dp_request_id p) b True p'"
    by cases (simp add: may_send_def sending_audio_def)
qed

lemma finish_audio_triple:
  "triple (with_inv i anything) (on_protocol (finish_audio J ts))
     (\<lambda>b. with_inv i (may_send i b False)) (driver_inv i)"
proof (rule request_triple)
  show "replying DrRequest (finish_audio J ts) = session_step J (DcFinishAudio ts)" by simp
  fix p b p' assume "proto_inv p" "session_trans (DcFinishAudio ts) p (Inr (DrRequest b)) p'"
  from this(2,1) show "may_send (dp_request_id p) b False p'"
    by cases (auto simp: may_send_def disclosed_def proto_inv_def)
qed

lemma finish_session_triple:
  "triple (with_inv i anything) (on_protocol (doubao_finish_session token))
     (\<lambda>b. with_inv i (may_send i b False)) (driver_inv i)"
proof (rule request_triple)
  show "replying DrRequest (doubao_finish_session token) = session_step J (DcFinishSession token)" for J
    by simp
  fix p b p' assume "proto_inv p" "session_trans (DcFinishSession token) p (Inr (DrRequest b)) p'"
  from this(2,1) show "may_send (dp_request_id p) b False p'"
    by cases (auto simp: may_send_def disclosed_def proto_inv_def)
qed

section \<open>Waiting and the whole run\<close>

abbreviation inv_run :: "utext \<Rightarrow> 'a drive_run \<Rightarrow> bool" where
  "inv_run i m \<equiv> run_triple (with_inv i anything) m (\<lambda>_. with_inv i anything) (driver_inv i)"

lemma drop_condition:
  "run_triple P m (\<lambda>a. with_inv i (D a)) X \<Longrightarrow> run_triple P m (\<lambda>_. with_inv i anything) X"
  by (erule run_triple_conseq) (auto simp: with_inv_def)

lemma wait_for_phase_inv: "inv_run i (wait_for_phase E ph)"
  unfolding wait_for_phase_def
proof (rule run_triple_andthen[OF run_triple_lift[OF phase_deadline_triple]])
  fix dl
  have pump: "triple (with_inv i anything)
      (seq (check_deadlines E dl) (\<lambda>_. seq (pump_once E) (\<lambda>_. give (Inr ()))))
      (\<lambda>(r :: unit + unit) d. case r of Inl _ \<Rightarrow> with_inv i anything d
          | Inr _ \<Rightarrow> with_inv i anything d) (driver_inv i)"
    by (rule triple_seq[OF check_deadlines_triple], rule triple_seq[OF pump_once_triple])
       (simp_all add: triple_give stable_anything)
  have round: "triple (with_inv i anything) (phase_round E ph dl u)
      (\<lambda>r d. case r of Inl _ \<Rightarrow> with_inv i anything d | Inr _ \<Rightarrow> with_inv i anything d) (driver_inv i)" for u
    using pump by (simp add: triple_def phase_round_def)
  show "inv_run i (iterate (phase_round E ph dl) ())"
    by (rule run_triple_iterate[where P = "\<lambda>_. with_inv i anything"]) (rule round)
qed

lemma wait_for_send_slot_inv: "inv_run i (wait_for_send_slot E at)"
  unfolding wait_for_send_slot_def
proof (rule run_triple_iterate[where P = "\<lambda>_. with_inv i anything"])
  fix u
  let ?Q = "\<lambda>(r :: unit + unit) d. case r of Inl _ \<Rightarrow> with_inv i anything d
      | Inr _ \<Rightarrow> with_inv i anything d"
  have step: "triple (with_inv i anything)
      (seq (check_deadlines E dl) (\<lambda>_. seq (drain_inbound E) (\<lambda>_.
         seq (instant_now E) (\<lambda>_. give (Inr ()))))) ?Q (driver_inv i)" for dl
    unfolding drain_inbound_def
    by (rule triple_seq[OF check_deadlines_triple], rule triple_seq[OF drain_loop_triple],
        rule stable_anything, rule triple_seq[OF instant_now_triple], rule triple_give) simp
  have ended: "triple (with_inv i anything) (give (Inl ()) :: (unit + unit) drive) ?Q (driver_inv i)"
    by (rule triple_give) simp
  show "triple (with_inv i anything) (slot_round E at u) ?Q (driver_inv i)"
    unfolding slot_round_def
    by (rule triple_seq[OF instant_now_triple]) (use step ended in \<open>simp split: if_split\<close>)
qed

lemma sent_anything:
  assumes "returns_payload (rn_ws E)"
  shows "run_triple (with_inv i (may_send i b audio)) (send_within_phase E b audio)
     (\<lambda>_. with_inv i anything) (driver_inv i)"
  by (rule drop_condition[OF send_within_phase_triple[OF assms]])

lemma encode_frame_triple:
  "triple (with_inv i C) (encode_frame E k frame) (\<lambda>_. with_inv i C) (driver_inv i)"
  by (auto simp: encode_frame_def split: option.splits intro: triple_give triple_raise with_inv_weaken)

lemma run_triple_state:
  assumes "\<And>d. run_triple P (m d) Q X"
  shows "run_triple P (\<lambda>d. m d d) Q X"
  using assms by (auto simp: run_triple_def)

lemma send_frame_inv:
  assumes "returns_payload (rn_ws E)"
  shows "inv_run i (send_frame E started interval base k frame)"
proof -
  have request: "run_triple (with_inv i anything)
      (\<lambda>d. lift (on_protocol (audio_request (rn_json E) (frame_timestamp base d) packet)) d)
      (\<lambda>b. with_inv i (may_send i b True)) (driver_inv i)" for packet
    by (rule run_triple_state) (rule run_triple_lift[OF audio_request_triple])
  have "inv_run i (andthen (wait_for_send_slot E slot) (\<lambda>_.
       andthen (lift (encode_frame E k frame)) (\<lambda>packet.
         andthen (\<lambda>d'. lift (on_protocol
                    (audio_request (rn_json E) (frame_timestamp base d') packet)) d') (\<lambda>request.
           andthen (send_within_phase E request True) (\<lambda>_.
             lift (drain_inbound E))))))" for slot
    unfolding drain_inbound_def
    by (rule run_triple_andthen[OF wait_for_send_slot_inv],
        rule run_triple_andthen[OF run_triple_lift[OF encode_frame_triple]],
        rule run_triple_andthen[OF request], rule run_triple_andthen[OF sent_anything[OF assms]],
        rule run_triple_lift[OF drain_loop_triple[OF stable_anything]])
  then show ?thesis unfolding send_frame_def[abs_def] by (rule run_triple_state)
qed

lemma send_frames_inv:
  assumes "returns_payload (rn_ws E)"
  shows "inv_run i (send_frames E started interval base k reads)"
proof -
  have "with_inv i anything d \<Longrightarrow> send_frames E started interval base k reads d = Some (r, t) \<Longrightarrow>
      (case r of Inl e \<Rightarrow> driver_inv i t | Inr a \<Rightarrow> with_inv i anything t)" for d r t
    using assms
  proof (induction E started interval base k reads d rule: send_frames.induct)
    case (1 E started interval base k reads d)
    obtain res rest where rd: "read_pcm_frame reads = (res, rest)" by (cases "read_pcm_frame reads")
    show ?case
    proof (cases "\<exists>frame d'. res = Inr (Some frame) \<and>
        send_frame E started interval base k frame d = Some (Inr (), d')")
      case True
      then obtain frame d' where f: "res = Inr (Some frame)"
        "send_frame E started interval base k frame d = Some (Inr (), d')" by blast
      then have "with_inv i anything d'"
        using send_frame_inv[OF 1(4)] 1(2) by (fastforce simp: run_triple_def)
      moreover have "send_frames E started interval base (Suc k) rest d' = Some (r, t)"
        using 1(3) rd f by (subst (asm) send_frames.simps) simp
      ultimately show ?thesis using 1(1,4) rd f by auto
    next
      case False
      then show ?thesis
        using 1(2,3) rd send_frame_inv[OF 1(4), of i started interval base k]
        by (subst (asm) send_frames.simps)
           (fastforce simp: run_triple_def with_inv_def split: option.splits sum.splits)
    qed
  qed
  then show ?thesis by (simp add: run_triple_def)
qed

lemma open_session_inv:
  assumes "returns_payload (rn_ws E)"
  shows "inv_run i (open_session E token session_json)"
  unfolding open_session_def
  by (rule run_triple_andthen[OF run_triple_lift[OF start_task_triple]],
      rule run_triple_andthen[OF sent_anything[OF assms]],
      rule run_triple_andthen[OF wait_for_phase_inv],
      rule run_triple_andthen[OF run_triple_lift[OF start_session_triple]],
      rule run_triple_andthen[OF sent_anything[OF assms]], rule wait_for_phase_inv)

text \<open>The outcome that a driver retains has a transcript.\<close>

lemma take_outcome_triple:
  "triple (with_inv i anything) take_outcome
     (\<lambda>out d. with_inv i anything d \<and> \<not> is_blank (so_transcript out)) (driver_inv i)"
  by (rule tripleI) (auto simp: take_outcome_def with_inv_def driver_inv_def split: option.splits)

lemma report_triple:
  "triple (\<lambda>d. with_inv i anything d \<and> \<not> is_blank (so_transcript out)) (report out)
     (\<lambda>t d. with_inv i anything d \<and> \<not> is_blank (tn_text t)) (driver_inv i)"
  by (rule tripleI) (auto simp: report_def)

lemma close_session_inv:
  assumes "returns_payload (rn_ws E)"
  shows "run_triple (with_inv i anything) (close_session E token base)
     (\<lambda>t d. with_inv i anything d \<and> \<not> is_blank (tn_text t)) (driver_inv i)"
proof -
  have marker: "run_triple (with_inv i anything)
      (\<lambda>d. lift (on_protocol (finish_audio (rn_json E) (frame_timestamp base d))) d)
      (\<lambda>b. with_inv i (may_send i b False)) (driver_inv i)"
    by (rule run_triple_state) (rule run_triple_lift[OF finish_audio_triple])
  show ?thesis unfolding close_session_def
    by (rule run_triple_andthen[OF marker],
        rule run_triple_andthen[OF sent_anything[OF assms]],
        rule run_triple_andthen[OF run_triple_lift[OF finish_session_triple]],
        rule run_triple_andthen[OF sent_anything[OF assms]],
        rule run_triple_andthen[OF wait_for_phase_inv],
        rule run_triple_andthen[OF run_triple_lift[OF take_outcome_triple]],
        rule run_triple_lift[OF report_triple])
qed

lemma from_outcome_triple:
  "triple (with_inv i C) (from_outcome r) (\<lambda>_. with_inv i C) (driver_inv i)"
  by (rule tripleI) (auto simp: from_outcome_def with_inv_def)

lemma run_session_inv:
  assumes "returns_payload (rn_ws E)"
  shows "run_triple (with_inv i anything) (run_session E token config reads)
     (\<lambda>t d. with_inv i anything d \<and> \<not> is_blank (tn_text t)) (driver_inv i)"
  unfolding run_session_def
  by (rule run_triple_andthen[OF open_session_inv[OF assms]],
      rule run_triple_andthen[OF run_triple_lift[OF instant_now_triple]],
      rule run_triple_andthen[OF run_triple_lift[OF from_outcome_triple]],
      rule run_triple_andthen[OF send_frames_inv[OF assms]], rule close_session_inv[OF assms])

lemma setup_driver_inv:
  assumes "attempt_setup W config = Inr (reads, protocol)"
  shows "with_inv (rc_request_id config) anything (driver_new protocol k)"
proof -
  have "protocol_new (rc_request_id config) = Inr protocol"
    using assms by (cases "protocol_new (rc_request_id config)")
      (auto simp: attempt_setup_def try_then_ok_iff)
  then show ?thesis
    by (auto simp: with_inv_def driver_inv_def driver_new_def dest: protocol_new_inv protocol_new_id)
qed

section \<open>A run ends when its deadline passes\<close>

definition tick_of :: "driver \<Rightarrow> nat" where
  "tick_of d = sk_at (dr_socket d)"

definition moves_on :: "'a drive \<Rightarrow> bool" where
  "moves_on m \<longleftrightarrow> (\<forall>d r t. m d = (r, t) \<longrightarrow> tick_of d \<le> tick_of t)"

text \<open>From some tick on, the clock is past the total deadline.\<close>

definition deadline_passes :: "run_env \<Rightarrow> nat \<Rightarrow> bool" where
  "deadline_passes E n \<longleftrightarrow> (\<forall>k \<ge> n. rn_total_deadline E \<le> we_clock (rn_ws E) k)"

lemma moves_on_give [simp]: "moves_on (give a)"
  by (simp add: moves_on_def)

lemma moves_on_pair [simp]: "moves_on (Pair r)"
  by (simp add: moves_on_def)

lemma moves_on_raise [simp]: "moves_on (raise e)"
  by (simp add: moves_on_def)

lemma moves_on_seq:
  assumes "moves_on m" and "\<And>a. moves_on (f a)"
  shows "moves_on (seq m f)"
  unfolding moves_on_def
proof (intro allI impI)
  fix d r t assume "seq m f d = (r, t)"
  then consider e where "m d = (Inl e, t)" | a u where "m d = (Inr a, u)" "f a u = (r, t)"
    by (auto simp: seq_def split: prod.splits sum.splits)
  then show "tick_of d \<le> tick_of t"
    using assms by cases (force simp: moves_on_def intro: order_trans)+
qed

lemma moves_on_socket:
  assumes "\<And>s r t. m s = (r, t) \<Longrightarrow> sk_at s \<le> sk_at t"
  shows "moves_on (on_socket m)"
  unfolding moves_on_def
proof (intro allI impI)
  fix d r t assume "on_socket m d = (r, t)"
  then show "tick_of d \<le> tick_of t" using assms[of "dr_socket d"]
    by (cases "m (dr_socket d)") (auto simp: on_socket_def tick_of_def)
qed

lemma moves_on_protocol [simp]: "moves_on (on_protocol m)"
  by (auto simp: moves_on_def on_protocol_def tick_of_def case_prod_beta Let_def)

lemma moves_on_flush [simp]: "moves_on (on_socket (flush W))"
  by (rule moves_on_socket) (simp add: flush_frame)

lemma moves_on_poll [simp]: "moves_on (on_socket (poll W))"
  by (rule moves_on_socket) (simp add: less_imp_le poll_frame)

lemma moves_on_queue [simp]: "moves_on (on_socket (queue_binary W payload))"
  by (rule moves_on_socket) (simp add: queue_binary_frame)

lemma moves_on_note [simp]: "moves_on (note_session_event ev)"
  by (auto simp: moves_on_def note_session_event_def tick_of_def
      split: option.splits session_event.splits)

lemma moves_on_now [simp]: "moves_on (instant_now E)" "moves_on (is_cancelled E)"
  by (auto simp: moves_on_def instant_now_def is_cancelled_def tick_of_def)

lemma moves_on_check [simp]: "moves_on (check_deadlines E dl)"
  unfolding check_deadlines_def by (intro moves_on_seq) (auto intro: moves_on_seq)

lemma moves_on_pump [simp]: "moves_on (pump_once E)"
  unfolding pump_once_def
  by (intro moves_on_seq) (auto intro!: moves_on_seq split: poll_result.split socket_event.split)

lemma moves_on_drain_loop [simp]: "moves_on (drain_loop E n)"
  by (induction n) (auto intro!: moves_on_seq simp del: give_simps)

lemma moves_on_drain [simp]: "moves_on (drain_inbound E)"
  by (simp add: drain_inbound_def)

lemma moves_on_flush_once [simp]: "moves_on (flush_once E dl)"
  unfolding flush_once_def by (intro moves_on_seq) (auto intro: moves_on_seq)

lemma check_deadlines_ok:
  assumes "check_deadlines E dl d = (Inr u, t)" and "deadline_passes E n"
  shows "tick_of d < tick_of t \<and> tick_of d < n"
proof -
  have "\<not> rn_total_deadline E \<le> we_clock (rn_ws E) (Suc (tick_of d))" and "tick_of d < tick_of t"
    using assms(1)
    by (auto simp: check_deadlines_def seq_def is_cancelled_def instant_now_def tick_of_def
        split: if_splits)
  then show ?thesis using assms(2) unfolding deadline_passes_def by (metis le_SucI not_less)
qed

text \<open>A round that begins with a check of the deadlines and goes on has moved on before the end.\<close>

lemma checked_round:
  assumes "deadline_passes E n" and "seq (check_deadlines E dl) f d = (Inr r, t)"
    and "\<And>a. moves_on (f a)"
  shows "tick_of d < tick_of t \<and> tick_of d < n"
proof -
  obtain a u where c: "check_deadlines E dl d = (Inr a, u)" and "f a u = (Inr r, t)"
    using assms(2) unfolding seq_ok by blast
  then have "tick_of u \<le> tick_of t" using assms(3) by (auto simp: moves_on_def)
  then show ?thesis using check_deadlines_ok[OF c assms(1)] by simp
qed

abbreviation returns :: "'a drive_run \<Rightarrow> bool" where
  "returns m \<equiv> (\<forall>d. \<exists>r t. m d = Some (r, t))"

lemma returns_lift: "returns (lift m)"
  by (simp add: lift_returns)

lemma returns_andthen: "returns m \<Longrightarrow> (\<And>a. returns (f a)) \<Longrightarrow> returns (andthen m f)"
  by (blast intro: andthen_returns)

lemma returns_iterate:
  fixes body :: "'a \<Rightarrow> ('b + 'a) drive"
  assumes "\<And>a d a' t. body a d = (Inr (Inr a'), t) \<Longrightarrow> tick_of d < tick_of t \<and> tick_of d < n"
  shows "returns (iterate body a)"
  by (rule allI, rule iterate_returns[where count = tick_of and N = n]) (rule assms)

lemma moves_on_queue_step:
  "moves_on (\<lambda>d. case on_socket (queue_binary W payload) d of
         (Inr Queued, d') \<Rightarrow> seq (when_audio audio m) (\<lambda>_. give (Inl ())) d'
       | (Inr (Full returned), d') \<Rightarrow> seq (flush_once E dl) (\<lambda>_. give (Inr returned)) d'
       | (Inl e, d') \<Rightarrow> seq (when_audio audio m) (\<lambda>_. raise e) d')"
proof -
  have w: "moves_on (seq (when_audio audio m) f)" if "\<And>a. moves_on (f a)"
    for f :: "unit \<Rightarrow> (unit + bytes) drive"
    using that by (intro moves_on_seq) (simp_all add: when_audio_def)
  have fl: "moves_on (seq (flush_once E dl) (\<lambda>_. give (Inr returned) :: (unit + bytes) drive))"
    for returned :: bytes by (intro moves_on_seq) simp_all
  show ?thesis unfolding moves_on_def
  proof (intro allI impI)
    fix d and r :: "vox_error + (unit + bytes)" and t
    obtain q d' where q: "on_socket (queue_binary W payload) d = (q, d')"
      by (cases "on_socket (queue_binary W payload) d")
    then have "tick_of d \<le> tick_of d'" using moves_on_queue[of W payload] by (auto simp: moves_on_def)
    moreover assume "(case on_socket (queue_binary W payload) d of
         (Inr Queued, d') \<Rightarrow> seq (when_audio audio m) (\<lambda>_. give (Inl ())) d'
       | (Inr (Full returned), d') \<Rightarrow> seq (flush_once E dl) (\<lambda>_. give (Inr returned)) d'
       | (Inl e, d') \<Rightarrow> seq (when_audio audio m) (\<lambda>_. raise e) d') = (r, t)"
    then have "tick_of d' \<le> tick_of t"
      using w[of "\<lambda>_. give (Inl ())"] w[of "\<lambda>_. raise e" for e] fl
      by (auto simp: q moves_on_def split: sum.splits queue_result.splits)
    ultimately show "tick_of d \<le> tick_of t" by simp
  qed
qed

lemma send_payload_returns:
  assumes "deadline_passes E n"
  shows "returns (send_payload E payload dl audio)"
  unfolding send_payload_def
proof (rule returns_andthen)
  show "returns (iterate (queue_round E dl audio) payload)"
    unfolding queue_round_def
    by (rule returns_iterate[where n = n]) (erule checked_round[OF assms], rule moves_on_queue_step)
  show "returns (iterate (flush_round E dl audio) ())"
    unfolding flush_round_def
    by (rule returns_iterate[where n = n], erule checked_round[OF assms])
       (auto intro!: moves_on_seq simp: when_audio_def split: flush_result.split)
qed

lemma send_within_phase_returns:
  "deadline_passes E n \<Longrightarrow> returns (send_within_phase E payload audio)"
  unfolding send_within_phase_def by (intro returns_andthen returns_lift send_payload_returns)

lemma wait_for_phase_returns:
  assumes "deadline_passes E n"
  shows "returns (wait_for_phase E ph)"
proof -
  have "tick_of d < tick_of t \<and> tick_of d < n"
    if "phase_round E ph dl u d = (Inr (Inr u'), t)" for dl u d u' t
    using that
    by (auto simp: phase_round_def split: if_splits
        intro!: checked_round[OF assms, where f = "\<lambda>_. seq (pump_once E) (\<lambda>_. give (Inr ()))"]
        moves_on_seq)
  then show ?thesis unfolding wait_for_phase_def
    by (intro returns_andthen returns_lift returns_iterate)
qed

lemma wait_for_send_slot_returns:
  assumes "deadline_passes E n"
  shows "returns (wait_for_send_slot E at)"
proof -
  let ?f = "\<lambda>_ :: unit. seq (drain_inbound E) (\<lambda>_. seq (instant_now E) (\<lambda>_.
      give (Inr ()) :: (unit + unit) drive))"
  have "tick_of d < tick_of t \<and> tick_of d < n"
    if "slot_round E at u d = (Inr (Inr u'), t)" for u d u' t
  proof -
    have now: "seq (instant_now E) g d = g (we_clock (rn_ws E) (tick_of d))
        (d\<lparr> dr_socket := ticked (dr_socket d) \<rparr>)" for g :: "nat \<Rightarrow> (unit + unit) drive"
      by (simp add: seq_def instant_now_def tick_of_def)
    let ?d' = "d\<lparr> dr_socket := ticked (dr_socket d) \<rparr>"
    have "seq (check_deadlines E (rn_total_deadline E)) ?f ?d' = (Inr (Inr u'), t)"
      using that unfolding slot_round_def now by (simp split: if_splits)
    moreover have "tick_of d < tick_of ?d'" by (simp add: tick_of_def)
    moreover have "tick_of ?d' < tick_of t \<and> tick_of ?d' < n"
      by (rule checked_round[OF assms calculation(1)]) (intro moves_on_seq; simp)
    ultimately show ?thesis by simp
  qed
  then show ?thesis unfolding wait_for_send_slot_def by (intro returns_iterate)
qed

lemma send_frame_returns:
  assumes "deadline_passes E n"
  shows "returns (send_frame E started interval base k frame)"
proof (rule allI)
  fix d
  have request: "returns (\<lambda>d'. lift (on_protocol
      (audio_request (rn_json E) (frame_timestamp base d') packet)) d')" for packet
    by (simp add: lift_returns)
  have "returns (andthen (wait_for_send_slot E (frame_slot started interval d)) (\<lambda>_.
       andthen (lift (encode_frame E k frame)) (\<lambda>packet.
         andthen (\<lambda>d'. lift (on_protocol
                    (audio_request (rn_json E) (frame_timestamp base d') packet)) d') (\<lambda>request.
           andthen (send_within_phase E request True) (\<lambda>_.
             lift (drain_inbound E))))))"
    by (intro returns_andthen wait_for_send_slot_returns[OF assms] returns_lift request
        send_within_phase_returns[OF assms])
  then show "\<exists>r t. send_frame E started interval base k frame d = Some (r, t)"
    unfolding send_frame_def by blast
qed

lemma send_frames_returns:
  assumes "deadline_passes E n"
  shows "\<exists>r t. send_frames E started interval base k reads d = Some (r, t)"
  using assms
proof (induction E started interval base k reads d rule: send_frames.induct)
  case (1 E started interval base k reads d)
  obtain res rest where rd: "read_pcm_frame reads = (res, rest)" by (cases "read_pcm_frame reads")
  show ?case
  proof (cases "\<exists>frame. res = Inr (Some frame)")
    case True
    then obtain frame where f: "res = Inr (Some frame)" by blast
    obtain r t where s: "send_frame E started interval base k frame d = Some (r, t)"
      using send_frame_returns[OF 1(2)] by blast
    show ?thesis
      using 1 rd f s by (subst send_frames.simps) (cases r; simp)
  next
    case False
    then show ?thesis using rd
      by (subst send_frames.simps) (auto split: sum.splits option.splits)
  qed
qed

lemma run_session_returns:
  assumes "deadline_passes E n"
  shows "returns (run_session E token config reads)"
proof -
  note steps = returns_lift send_within_phase_returns[OF assms] wait_for_phase_returns[OF assms]
  have "returns (open_session E token body)" for body
    unfolding open_session_def by (intro returns_andthen steps)
  moreover have "returns (send_frames E started interval base k reads)" for started interval base k
    using send_frames_returns[OF assms] by blast
  moreover have "returns (\<lambda>d. lift (on_protocol (finish_audio (rn_json E) (frame_timestamp base d))) d)"
    for base by (simp add: lift_returns)
  then have "returns (close_session E token base)" for base
    unfolding close_session_def by (intro returns_andthen steps)
  ultimately show ?thesis
    unfolding run_session_def by (intro returns_andthen returns_lift)
qed

section \<open>Properties of an attempt\<close>

lemma attempt_run:
  assumes "transcribe_pcm_with_encoder W config token encode = Some (r, out)"
  obtains e where "r = Inl (before_transport e)" "out = []"
  | e where "r = Inl (connect_failure e)" "out = []"
  | reads protocol k t d where "attempt_setup W config = Inr (reads, protocol)"
      "run_session (env_of W encode config k) token config reads (driver_new protocol k) = Some (Inr t, d)"
      "r = Inr t" "out = sk_buffered (dr_socket d)"
  | reads protocol k e d where "attempt_setup W config = Inr (reads, protocol)"
      "run_session (env_of W encode config k) token config reads (driver_new protocol k) = Some (Inl e, d)"
      "r = Inl (after_transport e (dp_audio_acceptance (dr_protocol d)))"
      "out = sk_buffered (dr_socket d)"
  using assms
  by (auto simp: transcribe_pcm_with_encoder_def cancel_def
      split: sum.splits option.splits prod.splits if_splits)

lemma attempt_evidence:
  assumes "returns_payload (aw_ws W)"
    and "transcribe_pcm_with_encoder W config token encode = Some (Inl f, out)"
    and "paf_audio_acceptance f = NotAccepted"
  shows "list_all (quiet (rc_request_id config)) out"
  using assms(2)
proof (cases rule: attempt_run)
  case (4 reads protocol k e d)
  have "returns_payload (rn_ws (env_of W encode config k))" using assms(1) by (simp add: env_of_def)
  then have "driver_inv (rc_request_id config) d"
    using run_session_inv[where i = "rc_request_id config"] setup_driver_inv[OF 4(1)] 4(2)
    by (fastforce simp: run_triple_def)
  then show ?thesis using 4(3,4) assms(3) by (simp add: driver_inv_def)
qed simp_all

lemma evidence_evidence:
  assumes "returns_payload (aw_ws W)"
    and "transcribe_pcm_with_evidence W config token = Some (Inl f, out)"
    and "paf_audio_acceptance f = NotAccepted"
  shows "list_all (quiet (rc_request_id config)) out"
  using assms attempt_evidence
  by (auto simp: transcribe_pcm_with_evidence_def split: option.splits)

lemma attempt_success:
  assumes "returns_payload (aw_ws W)"
    and "transcribe_pcm_with_evidence W config token = Some (Inr t, out)"
  shows "\<not> is_blank (tn_text t)"
proof -
  obtain encode where "transcribe_pcm_with_encoder W config token encode = Some (Inr t, out)"
    using assms(2) by (auto simp: transcribe_pcm_with_evidence_def split: option.splits)
  then show ?thesis
  proof (cases rule: attempt_run)
    case (3 reads protocol k u d)
    have "returns_payload (rn_ws (env_of W encode config k))" using assms(1) by (simp add: env_of_def)
    then show ?thesis
      using run_session_inv[where i = "rc_request_id config"] setup_driver_inv[OF 3(1)] 3(2,3)
      by (fastforce simp: run_triple_def)
  qed simp_all
qed

text \<open>
  A Doubao attempt that fails with the acceptance NotAccepted has handed no audio to the WebSocket
  library: every message that it did not give back, those of failed writes included, is a
  StartTask or StartSession request, whatever the connection, the clock, the provider and the
  cancellation flag did.
\<close>

theorem doubao_failure_evidence:
  assumes "returns_payload (aw_ws W)"
    and "transcribe_pcm_with_evidence W config token = Some (Inl f, out)"
    and "paf_audio_acceptance f = NotAccepted"
  shows "list_all (quiet (rc_request_id config)) out"
  by (rule evidence_evidence[OF assms])

text \<open>
  C4: The refresh of a rejected token never replays audio: a recognition makes at most two
  attempts, and when it makes two the first one had left nothing but StartTask and StartSession
  requests with the WebSocket library, which counts every message that was handed to it and not given
  back, by failed writes as well. Whenever the recognition fails and reports that no audio was
  accepted, the same is true of all of its attempts. A success has a transcript that is not blank.
\<close>

theorem doubao_refresh_never_replays_audio:
  assumes "\<And>n. returns_payload (aw_ws (worlds n))"
    and "transcribe_pcm_with_token_refresh worlds config token cancelled refreshed = Some (r, outs)"
  shows "length outs \<le> 2 \<and> (length outs = 2 \<longrightarrow> list_all (quiet (rc_request_id config)) (hd outs)) \<and>
         (\<forall>f. r = Inl f \<longrightarrow> paf_audio_acceptance f = NotAccepted \<longrightarrow>
            list_all (list_all (quiet (rc_request_id config))) outs) \<and>
         (\<forall>t. r = Inr t \<longrightarrow> \<not> is_blank (tn_text t))"
proof -
  obtain r0 out where first: "transcribe_pcm_with_evidence (worlds 0) config token = Some (r0, out)"
    using assms(2) by (auto simp: transcribe_pcm_with_token_refresh_def split: option.splits)
  show ?thesis
  proof (cases r0)
    case (Inr t)
    then show ?thesis
      using assms(2) first attempt_success[OF assms(1)[of 0], of config token t out]
      by (auto simp: transcribe_pcm_with_token_refresh_def)
  next
    case (Inl f)
    then have quiet_first: "paf_audio_acceptance f = NotAccepted \<Longrightarrow>
        list_all (quiet (rc_request_id config)) out"
      using evidence_evidence[OF assms(1)[of 0]] first by blast
    show ?thesis
      using assms(2) first Inl quiet_first attempt_success[OF assms(1)[of 1], of config]
        evidence_evidence[OF assms(1)[of 1], of config]
      by (auto simp: transcribe_pcm_with_token_refresh_def split: if_splits option.splits sum.splits)
  qed
qed

text \<open>
  C12: A Doubao recognition returns: if the clock eventually stays past every bound, the attempt
  gives a result, whatever the connection answers (attempts that time out, a handshake that is
  interrupted, a full buffer, a pending flush or silence for ever), and however long the
  recording is.
\<close>

theorem doubao_recognition_returns:
  assumes "clock_runs (aw_ws W)"
  shows "\<exists>r out. transcribe_pcm_with_evidence W config token = Some (r, out)"
proof -
  have run: "\<exists>r t. run_session (env_of W encode config k) token config reads d = Some (r, t)"
    for encode reads d k
  proof -
    obtain n where "\<forall>j \<ge> n. we_clock (aw_ws W) k + rc_total_timeout config \<le> we_clock (aw_ws W) j"
      using assms unfolding clock_runs_def by blast
    then have "deadline_passes (env_of W encode config k) n"
      by (simp add: deadline_passes_def env_of_def)
    then show ?thesis using run_session_returns by blast
  qed
  obtain c k where c: "connect_websocket (aw_ws W) (rc_websocket config) 0 = Some (c, k)"
    using connect_websocket_returns[OF assms] by blast
  have "\<exists>r out. transcribe_pcm_with_encoder W config token encode = Some (r, out)" for encode
  proof (cases "attempt_setup W config")
    case (Inr sp)
    obtain reads protocol where sp: "sp = (reads, protocol)" by (cases sp)
    obtain r t where "run_session (env_of W encode config k) token config reads
        (driver_new protocol k) = Some (r, t)" using run by blast
    then show ?thesis
      by (cases r; cases c) (simp_all add: transcribe_pcm_with_encoder_def Inr sp c)
  qed (simp add: transcribe_pcm_with_encoder_def)
  then show ?thesis by (simp add: transcribe_pcm_with_evidence_def split: option.split)
qed

section \<open>A rejected token\<close>

text \<open>A provider that answers the StartTask request with a failure that blames the token.\<close>

definition demo_rejection :: bytes where
  "demo_rejection =
     enc_message [(1, Delimited [114]), (4, Delimited (ascii ''TaskFailed'')),
                  (6, Delimited (ascii ''token expired''))]"

definition rejecting_ws :: ws_env where
  "rejecting_ws =
     \<lparr> we_clock = (\<lambda>k. k), we_tok = (\<lambda>_. False),
       we_write = (\<lambda>_ _. Inr ()), we_flush = (\<lambda>_. Inr ()),
       we_read = (\<lambda>_. Inr (WsBinary demo_rejection)), we_tcp = (\<lambda>_ _. TcpConnected),
       we_handshake = (\<lambda>_. HsDone),
       we_parse_uri = (\<lambda>_. Some \<lparr> uri_scheme = Some ''wss'', uri_host = Some ''host'',
                                   uri_port = None \<rparr>),
       we_resolve = (\<lambda>_ _. Some [7]), we_tls_provider = True, we_nodelay = True,
       we_nonblocking = True \<rparr>"

definition rejecting_world :: attempt_world where
  "rejecting_world =
     \<lparr> aw_ws = rejecting_ws,
       aw_file = \<lparr> pf_opens = True, pf_length = Some 2, pf_reads = [RdBytes [1, 2]] \<rparr>,
       aw_encoder = Some (\<lambda>_ _. Some [5]), aw_wall = Some 0, aw_json = demo_json \<rparr>"

definition rejecting_config :: run_config where
  "rejecting_config =
     \<lparr> rc_websocket = \<lparr> ws_endpoint = ''wss://host'', ws_headers = [],
                        ws_connect_timeout = millis 100, ws_poll_interval = millis 10 \<rparr>,
       rc_request_id = [114], rc_session_json = [2], rc_phase_timeout = millis 100,
       rc_total_timeout = millis 200, rc_frame_interval = millis 20 \<rparr>"

lemma rejecting_setup:
  "attempt_setup rejecting_world rejecting_config = Inr ([RdBytes [1, 2]], demo_protocol)"
  by (simp add: attempt_setup_def rejecting_world_def rejecting_config_def validate_run_config_def
      demo_json_def json_object_def prepare_pcm_def max_pcm_bytes_def demo_new millis_def)

lemmas connect_eval = connect_websocket_def validate_spec_def max_endpoint_bytes_def max_headers_def
  millis_def starts_with_def is_ascii_control_def andthen_def lift_def
  check_connect_cancelled_def ensure_rustls_provider_def connect_clock_def resolve_addresses_def
  set_socket_options_def client_handshake_def seq_def

lemma rejecting_ws_simps [simp]:
  "we_clock rejecting_ws = (\<lambda>k. k)" "we_tok rejecting_ws = (\<lambda>_. False)"
  "we_write rejecting_ws = (\<lambda>_ _. Inr ())" "we_flush rejecting_ws = (\<lambda>_. Inr ())"
  "we_read rejecting_ws = (\<lambda>_. Inr (WsBinary demo_rejection))"
  "we_tcp rejecting_ws = (\<lambda>_ _. TcpConnected)" "we_handshake rejecting_ws = (\<lambda>_. HsDone)"
  "we_parse_uri rejecting_ws = (\<lambda>_. Some \<lparr> uri_scheme = Some ''wss'', uri_host = Some ''host'',
     uri_port = None \<rparr>)"
  "we_resolve rejecting_ws = (\<lambda>_ _. Some [7])"
  "we_tls_provider rejecting_ws" "we_nodelay rejecting_ws" "we_nonblocking rejecting_ws"
  by (simp_all add: rejecting_ws_def)

lemma rejecting_tcp:
  "5 < dl \<Longrightarrow> connect_tcp rejecting_ws dl [7] (Suc (Suc 0)) = Some (Inr (), 5)"
  unfolding connect_tcp_def by (subst iterate.simps) (simp add: connect_eval)

lemma rejecting_connect:
  "connect_websocket rejecting_ws (rc_websocket rejecting_config) 0 = Some (Inr (), 6)"
  by (simp add: rejecting_config_def connect_eval rejecting_tcp)

lemma demo_rejection_decode:
  "decode_response demo_rejection =
     Inr (response_envelope_default\<lparr> re_request_id := [114], re_message_type := text_of ''TaskFailed'',
            re_status_message := text_of ''token expired'' \<rparr>)"
  unfolding demo_rejection_def
  by (subst decode_enc_message) (simp_all add: demo_bytes)

definition rejecting_env :: run_env where
  "rejecting_env = env_of rejecting_world (\<lambda>_ _. Some [5]) rejecting_config 6"

lemma rejecting_env_simps [simp]:
  "rn_ws rejecting_env = rejecting_ws" "rn_json rejecting_env = demo_json"
  "rn_total_deadline rejecting_env = 6 + millis 200" "rn_phase_timeout rejecting_env = millis 100"
  by (simp_all add: rejecting_env_def env_of_def rejecting_world_def rejecting_config_def)

definition started_protocol :: doubao_protocol where
  "started_protocol = demo_protocol\<lparr> dp_phase := TaskStarting \<rparr>"

definition task_request :: bytes where
  "task_request = encode_request (ascii ''t'') ''StartTask'' [] [] (utf8_bytes [114]) None"

lemmas round_eval = seq_def check_deadlines_def is_cancelled_def instant_now_def on_socket_def
  queue_binary_def handed_over_def flush_def poll_def ticked_def millis_def when_audio_def

lemma rejecting_start:
  "on_protocol (start_task demo_token) (driver_new demo_protocol 6) =
     (Inr task_request, driver_new started_protocol 6)"
  by (simp add: on_protocol_def start_task_def driver_new_def demo_protocol_def started_protocol_def
      task_request_def demo_token_def)

lemma rejecting_send:
  "send_within_phase rejecting_env b False (driver_new started_protocol 6) =
     Some (Inr (), (driver_new started_protocol 6)
       \<lparr> dr_socket := \<lparr> sk_at = 14, sk_buffered = [b] \<rparr> \<rparr>)"
  unfolding send_within_phase_def send_payload_def andthen_def lift_def
  by (simp add: driver_new_def phase_deadline_def round_eval,
      subst iterate.simps, simp add: queue_round_def round_eval,
      subst iterate.simps, simp add: flush_round_def round_eval)

lemma rejecting_wait:
  "\<exists>d. wait_for_phase rejecting_env TaskStarted ((driver_new started_protocol 6)
       \<lparr> dr_socket := \<lparr> sk_at = 14, sk_buffered = [b] \<rparr> \<rparr>) =
     Some (Inl (run_error EcAuthentication ''doubao.start_task_auth_failed''
                  ''Doubao session protocol validation failed'' False), d) \<and>
     sk_buffered (dr_socket d) = [b] \<and> dp_audio_acceptance (dr_protocol d) = NotAccepted"
  unfolding wait_for_phase_def andthen_def lift_def
  by (simp add: driver_new_def phase_deadline_def round_eval started_protocol_def demo_protocol_def,
      subst iterate.simps,
      simp add: phase_round_def round_eval pump_once_def on_protocol_def handle_binary_def
        demo_rejection_decode response_envelope_default_def handle_message_def
        start_task_auth_failed_def fail_with_category_def auth_like_response_def text_of_def
        lowercase_char_def protocol_vox_error_def session_error_with_category_def)

lemma rejecting_attempt:
  "transcribe_pcm_with_evidence rejecting_world rejecting_config demo_token =
     Some (Inl (after_transport (run_error EcAuthentication ''doubao.start_task_auth_failed''
                  ''Doubao session protocol validation failed'' False) NotAccepted), [task_request])"
proof -
  obtain d where d: "wait_for_phase rejecting_env TaskStarted ((driver_new started_protocol 6)
       \<lparr> dr_socket := \<lparr> sk_at = 14, sk_buffered = [task_request] \<rparr> \<rparr>) =
     Some (Inl (run_error EcAuthentication ''doubao.start_task_auth_failed''
                  ''Doubao session protocol validation failed'' False), d)"
     "sk_buffered (dr_socket d) = [task_request]" "dp_audio_acceptance (dr_protocol d) = NotAccepted"
    using rejecting_wait[of task_request] by blast
  have "open_session rejecting_env demo_token body (driver_new demo_protocol 6) =
      Some (Inl (run_error EcAuthentication ''doubao.start_task_auth_failed''
                  ''Doubao session protocol validation failed'' False), d)" for body
    using d(1) by (simp add: open_session_def andthen_def lift_def rejecting_start rejecting_send)
  then have "run_session rejecting_env demo_token rejecting_config [RdBytes [1, 2]]
      (driver_new demo_protocol 6) =
      Some (Inl (run_error EcAuthentication ''doubao.start_task_auth_failed''
                  ''Doubao session protocol validation failed'' False), d)"
    by (simp add: run_session_def andthen_def)
  then show ?thesis
    using d(2,3) by (simp add: transcribe_pcm_with_evidence_def transcribe_pcm_with_encoder_def
        rejecting_setup rejecting_connect rejecting_env_def[symmetric] cancel_def
        rejecting_world_def[THEN arg_cong[where f = aw_encoder], simplified]
        rejecting_world_def[THEN arg_cong[where f = aw_ws], simplified])
qed

lemma rejecting_returns_payload: "returns_payload (aw_ws rejecting_world)"
  by (simp add: returns_payload_def rejecting_world_def rejecting_ws_def)

theorem doubao_failure_evidence_witness:
  "list_all (quiet (rc_request_id rejecting_config)) [task_request]"
  by (rule doubao_failure_evidence[OF rejecting_returns_payload rejecting_attempt]) simp

lemma rejected_twice:
  "transcribe_pcm_with_token_refresh (\<lambda>_. rejecting_world) rejecting_config demo_token False
     (Some (Inr demo_token)) =
   Some (Inl (after_transport (run_error EcAuthentication ''doubao.start_task_auth_failed''
                ''Doubao session protocol validation failed'' False) NotAccepted),
         [[task_request], [task_request]])"
  by (simp add: transcribe_pcm_with_token_refresh_def rejecting_attempt run_error_def)

theorem doubao_refresh_never_replays_audio_witness:
  "list_all (quiet (rc_request_id rejecting_config)) (hd [[task_request], [task_request]])"
  using doubao_refresh_never_replays_audio[where worlds = "\<lambda>_. rejecting_world",
      OF rejecting_returns_payload rejected_twice] by simp

theorem doubao_recognition_returns_witness:
  "\<exists>r out. transcribe_pcm_with_evidence rejecting_world rejecting_config demo_token = Some (r, out)"
  by (rule doubao_recognition_returns)
     (auto simp: rejecting_world_def rejecting_ws_def clock_runs_def)

end
