(* ===== verification/Doubao_Managed_Props.thy ===== *)
theory Doubao_Managed_Props
  imports Doubao_Managed Doubao_Runner_Props Adapters_Props
begin

text \<open>
  What the managed Doubao recognition guarantees: the query of its requests can be read back and
  names the registered device, and a failure of the adapter is evidence of what was sent.
\<close>

section \<open>Percent encoding\<close>

definition hex_value :: "char \<Rightarrow> nat option" where
  "hex_value c =
     (let n = (of_char c :: nat)
      in if 48 \<le> n \<and> n \<le> 57 then Some (n - 48)
         else if 65 \<le> n \<and> n \<le> 70 then Some (n - 55) else None)"

fun percent_decode :: "string \<Rightarrow> string option" where
  "percent_decode [] = Some []"
| "percent_decode (c # cs) =
     (if c = CHR ''%''
      then (case cs of
              a # b # rest \<Rightarrow>
                (case (hex_value a, hex_value b) of
                   (Some h, Some l) \<Rightarrow> map_option (Cons (char_of (16 * h + l))) (percent_decode rest)
                 | _ \<Rightarrow> None)
            | _ \<Rightarrow> None)
      else map_option (Cons c) (percent_decode cs))"

lemma hex_value_digit: "n < 16 \<Longrightarrow> hex_value (hex_digit n) = Some n"
  by (auto simp: hex_value_def hex_digit_def Let_def)

lemma of_char_256: "(of_char c :: nat) < 256"
  using nat_of_char_less_256 by simp

lemma of_char_div: "(of_char c :: nat) div 16 < 16"
  using of_char_256[of c] by linarith

lemma decode_percent_byte: "percent_decode (percent_byte c @ rest) = map_option (Cons c) (percent_decode rest)"
proof -
  have "hex_value (hex_digit (of_char c div 16)) = Some (of_char c div 16)"
    by (rule hex_value_digit[OF of_char_div])
  moreover have "hex_value (hex_digit (of_char c mod 16)) = Some (of_char c mod 16)"
    by (rule hex_value_digit) linarith
  moreover have "16 * (of_char c div 16) + of_char c mod 16 = (of_char c :: nat)"
    by (rule mult_div_mod_eq)
  ultimately show ?thesis by (simp add: percent_byte_def)
qed

lemma unreserved_plain: "unreserved c \<Longrightarrow> c \<notin> {CHR ''%'', CHR ''&'', CHR ''='', CHR ''?''}"
  by (auto simp: unreserved_def is_ascii_lowercase_def is_ascii_digit_def)

lemma percent_decode_encode: "percent_decode (percent_encode s) = Some s"
proof (induction s)
  case (Cons c s)
  show ?case
  proof (cases "unreserved c")
    case True
    then have "c \<noteq> CHR ''%''" using unreserved_plain by blast
    then show ?thesis using Cons True by (simp add: percent_encode_def)
  next
    case False
    then have "percent_encode (c # s) = percent_byte c @ percent_encode s"
      by (simp add: percent_encode_def)
    then show ?thesis using Cons by (simp only: decode_percent_byte option.map)
  qed
qed (simp add: percent_encode_def)

lemma hex_digit_plain: "n < 16 \<Longrightarrow> hex_digit n \<notin> {CHR ''&'', CHR ''='', CHR ''?''}"
  using hex_value_digit[of n] by (auto simp: hex_value_def)

lemma percent_encode_plain: "set (percent_encode s) \<inter> {CHR ''&'', CHR ''='', CHR ''?''} = {}"
proof (induction s)
  case (Cons c s)
  have "set (percent_byte c) \<inter> {CHR ''&'', CHR ''='', CHR ''?''} = {}"
    using hex_digit_plain[OF of_char_div[of c]] hex_digit_plain[of "of_char c mod 16"]
    by (auto simp: percent_byte_def)
  then show ?case using Cons unreserved_plain[of c] by (auto simp: percent_encode_def)
qed (simp add: percent_encode_def)

section \<open>Queries\<close>

definition query_pair :: "string \<times> string \<Rightarrow> string" where
  "query_pair p = percent_encode (fst p) @ ''='' @ percent_encode (snd p)"

text \<open>The reference reader of a query: pairs between ampersands, each split at the equals sign.\<close>

definition parse_pair :: "string \<Rightarrow> (string \<times> string) option" where
  "parse_pair s =
     (case dropWhile (\<lambda>c. c \<noteq> CHR ''='') s of
        [] \<Rightarrow> None
      | _ # v \<Rightarrow>
          Option.bind (percent_decode (takeWhile (\<lambda>c. c \<noteq> CHR ''='') s)) (\<lambda>k.
            map_option (Pair k) (percent_decode v)))"

definition parse_query :: "string \<Rightarrow> (string \<times> string) option list" where
  "parse_query q = map parse_pair (split_elem CHR ''&'' q)"

lemma split_at_first:
  assumes "x \<notin> set p"
  shows "takeWhile (\<lambda>c. c \<noteq> x) (p @ x # s) = p" and "dropWhile (\<lambda>c. c \<noteq> x) (p @ x # s) = x # s"
  using assms by (induction p) auto

lemma parse_query_pair: "parse_pair (query_pair p) = Some p"
proof -
  have "CHR ''='' \<notin> set (percent_encode (fst p))" using percent_encode_plain by blast
  from split_at_first[OF this] show ?thesis
    by (simp add: parse_pair_def query_pair_def percent_decode_encode)
qed

lemma query_pair_plain: "CHR ''&'' \<notin> set (query_pair p)"
  using percent_encode_plain by (auto simp: query_pair_def)

lemma parse_query_pairs:
  "parse_query (query_pair p @ concat (map (\<lambda>p. CHR ''&'' # query_pair p) ps)) = map Some (p # ps)"
proof (induction ps arbitrary: p)
  case Nil
  show ?case using split_elem_single[OF query_pair_plain] parse_query_pair by (simp add: parse_query_def)
next
  case (Cons p' ps)
  then show ?case
    using split_elem_prefix[OF query_pair_plain] parse_query_pair[of p] by (simp add: parse_query_def)
qed

lemma url_loop_ok:
  "bootstrap_url_loop False url ps = Inr u \<Longrightarrow> length url \<le> 16 * 1024 \<Longrightarrow>
   u = url @ concat (map (\<lambda>p. CHR ''&'' # query_pair p) ps) \<and> length u \<le> 16 * 1024"
  by (induction "False" url ps rule: bootstrap_url_loop.induct)
     (auto simp: Let_def query_pair_def split: if_splits)

lemma bootstrap_url_ok:
  assumes "bootstrap_url endpoint common identity = Inr u" and "common @ identity \<noteq> []"
  shows "\<exists>q. u = endpoint @ ''?'' @ q \<and> parse_query q = map Some (common @ identity) \<and>
             length u \<le> 16 * 1024"
proof -
  obtain p ps where ps: "common @ identity = p # ps" using assms(2) by (cases "common @ identity") auto
  have "bootstrap_url_loop False (endpoint @ ''?'' @ query_pair p) ps = Inr u"
    "length (endpoint @ ''?'' @ query_pair p) \<le> 16 * 1024"
    using assms(1) unfolding bootstrap_url_def ps
    by (cases p; simp add: Let_def query_pair_def split: if_splits)+
  note loop = url_loop_ok[OF this]
  have u: "u = endpoint @ ''?'' @ query_pair p @ concat (map (\<lambda>p. CHR ''&'' # query_pair p) ps)"
    using conjunct1[OF loop] by simp
  have len: "length u \<le> 16 * 1024" by (rule conjunct2[OF loop])
  show ?thesis
    unfolding ps by (intro exI conjI, rule u, rule parse_query_pairs, rule len)
qed

section \<open>The settings request\<close>

lemma query_pair_keys:
  "validate_query_pair p = Inr () \<Longrightarrow> fst p \<noteq> ''_rticket'' \<and> fst p \<noteq> ''device_id''"
  by (cases p) (auto split: if_splits)

lemma settings_prepare_parts:
  assumes "settings_prepare B config context1 registered = Inr pc"
  obtains ticket url where
    "try_each validate_query_pair (bc_common_query context1) = Inr ()"
    "bootstrap_url (bh_settings_endpoint config) (bc_common_query context1)
       [(''_rticket'', ticket), (''device_id'', rd_device_id registered)] = Inr url"
    "pc = curl_post_config (bw_lossy B) url (bc_user_agent context1)
            ''application/x-www-form-urlencoded'' settings_body
            (Some (''x-ss-stub'', x_ss_stub B settings_body))"
  using assms
  by (auto simp: settings_prepare_def validate_bootstrap_config_def try_then_ok_iff split: if_splits)

text \<open>
  The request for the token names the registered device and no other: the private
  configuration of curl begins with the POST method and a quoted URL that curl reads back
  unchanged; the URL is the configured endpoint with a query whose pairs, decoded, are exactly
  the caller's metadata followed by the ticket and the device identifier, whatever characters
  they hold. No pair of the caller's metadata carries the name of either, and the URL has at most
  16 KiB.
\<close>

theorem settings_request_names_device:
  assumes "settings_prepare B config context1 registered = Inr pc"
  shows "\<exists>rest rest' url q ticket.
     pc = ''request = '' @ [quote] @ ''POST'' @ [quote, newline] @ ''url = '' @ [quote] @ rest \<and>
     read_quoted rest = Some (url, rest') \<and>
     url = bh_settings_endpoint config @ ''?'' @ q \<and> length url \<le> 16 * 1024 \<and>
     parse_query q = map Some (bc_common_query context1 @
       [(''_rticket'', ticket), (''device_id'', rd_device_id registered)]) \<and>
     list_all (\<lambda>p. fst p \<noteq> ''_rticket'' \<and> fst p \<noteq> ''device_id'') (bc_common_query context1)"
proof -
  obtain ticket url where keys: "try_each validate_query_pair (bc_common_query context1) = Inr ()"
    and url: "bootstrap_url (bh_settings_endpoint config) (bc_common_query context1)
       [(''_rticket'', ticket), (''device_id'', rd_device_id registered)] = Inr url"
    and pc: "pc = curl_post_config (bw_lossy B) url (bc_user_agent context1)
            ''application/x-www-form-urlencoded'' settings_body
            (Some (''x-ss-stub'', x_ss_stub B settings_body))"
    using settings_prepare_parts[OF assms] .
  obtain q where q: "url = bh_settings_endpoint config @ ''?'' @ q" "length url \<le> 16 * 1024"
      "parse_query q = map Some (bc_common_query context1 @
         [(''_rticket'', ticket), (''device_id'', rd_device_id registered)])"
    using bootstrap_url_ok[OF url] by auto
  obtain rest where "pc = ''request = '' @ [quote] @ ''POST'' @ [quote, newline] @ ''url = '' @ [quote] @
      escape_curl_config url @ quote # rest"
    unfolding pc curl_post_config_def config_line_def by simp
  moreover have "list_all (\<lambda>p. fst p \<noteq> ''_rticket'' \<and> fst p \<noteq> ''device_id'') (bc_common_query context1)"
    using keys query_pair_keys by (auto simp: try_each_ok list_all_iff)
  ultimately show ?thesis using q read_quoted_escape[of url] by blast
qed

section \<open>Evidence\<close>

text \<open>
  A recognition whose token is refreshed: the buffers of all its attempts are free of audio when
  the failure reports that nothing was accepted.
\<close>

lemma refresh_evidence:
  assumes "\<And>n. returns_payload (aw_ws (worlds n))"
    and "transcribe_pcm_with_token_refresh worlds config token cancelled refreshed = Some (r, outs)"
  shows "length outs \<le> 2 \<and>
         (case r of Inr t \<Rightarrow> \<not> is_blank (tn_text t)
          | Inl f \<Rightarrow> paf_audio_acceptance f = NotAccepted \<longrightarrow>
                     list_all (list_all (quiet (rc_request_id config))) outs)"
proof -
  obtain r0 out where first: "transcribe_pcm_with_evidence (worlds 0) config token = Some (r0, out)"
    using assms(2) by (auto simp: transcribe_pcm_with_token_refresh_def split: option.splits)
  show ?thesis
  proof (cases r0)
    case (Inr t)
    then show ?thesis
      using assms(2) first attempt_success[OF assms(1)[of 0], of config token t out]
      by (auto simp: transcribe_pcm_with_token_refresh_def)
  next
    case (Inl f)
    have quiet_first: "paf_audio_acceptance f = NotAccepted \<Longrightarrow>
        list_all (quiet (rc_request_id config)) out"
      using evidence_evidence[OF assms(1)[of 0]] first Inl by blast
    show ?thesis
    proof (cases "\<exists>r1 out1 token1. r = r1 \<and> outs = [out, out1] \<and>
        transcribe_pcm_with_evidence (worlds 1) config token1 = Some (r1, out1) \<and>
        paf_audio_acceptance f = NotAccepted")
      case True
      then show ?thesis
        using quiet_first evidence_evidence[OF assms(1)[of 1]] attempt_success[OF assms(1)[of 1]]
        by (fastforce split: sum.splits)
    next
      case False
      then show ?thesis
        using assms(2) first Inl quiet_first
        by (auto simp: transcribe_pcm_with_token_refresh_def split: if_splits option.splits sum.splits)
    qed
  qed
qed

lemma managed_evidence:
  assumes "\<And>n. returns_payload (aw_ws (mw_attempts M n))"
    and "transcribe_managed_pcm M config = Some (r, outs)"
  shows "length outs \<le> 2 \<and>
         (case r of Inr t \<Rightarrow> \<not> is_blank (tn_text t)
          | Inl f \<Rightarrow> paf_audio_acceptance f = NotAccepted \<longrightarrow> outs \<noteq> [] \<longrightarrow>
              (\<exists>i. managed_request_id M = Inr i \<and> list_all (list_all (quiet i)) outs))"
proof (cases "\<exists>i token cancelled refreshed. managed_request_id M = Inr i \<and>
    transcribe_pcm_with_token_refresh (mw_attempts M) (run_config_of config i) token cancelled
      refreshed = Some (r, outs)")
  case True
  then obtain i token cancelled refreshed where i: "managed_request_id M = Inr i"
    and run: "transcribe_pcm_with_token_refresh (mw_attempts M) (run_config_of config i) token
      cancelled refreshed = Some (r, outs)" by blast
  show ?thesis
    using refresh_evidence[where worlds = "mw_attempts M", OF assms(1) run] i
    by (cases r) (auto simp: run_config_of_def)
next
  case False
  then have "outs = [] \<and> (\<exists>f. r = Inl f)"
    using assms(2) by (auto simp: transcribe_managed_pcm_def split: option.splits sum.splits)
  then show ?thesis by auto
qed

text \<open>The failures that let a route go on without consent report that nothing was accepted.\<close>

lemma passed_on_not_accepted:
  "\<not> stops_route replay f \<Longrightarrow> replay \<noteq> BufferedWithConsent \<Longrightarrow> paf_audio_acceptance f = NotAccepted"
  by (auto simp: stops_route_def fallback_allowed_def may_fallback_iff may_have_left_process_def
      split: option.splits)

text \<open>A recognition either ends before any attempt or is the outcome of the managed one.\<close>

lemma doubao_recognize_cases:
  assumes "doubao_recognize deserialize J M tool secret mk tok now = Some (r, outs)"
  shows "outs = [] \<and> (\<exists>f. r = Inl f) \<or>
    (\<exists>q config. transcribe_managed_pcm M config = Some (q, outs) \<and>
       r = (case q of Inl f \<Rightarrow> Inl f
            | Inr t \<Rightarrow> Inr (success_after_audio (tn_text t) provider_usage_default)))"
proof (cases "ensure_not_cancelled tok now")
  case (Inl f)
  then show ?thesis using assms by (auto simp: doubao_recognize_def)
next
  case (Inr u)
  show ?thesis
  proof (cases "lookup_secret secret tool")
    case (Inl e)
    then show ?thesis using assms Inr by (auto simp: doubao_recognize_def)
  next
    case key: (Inr key)
    show ?thesis
    proof (cases "bundle_parse deserialize J key")
      case (Inl e)
      then show ?thesis using assms Inr key by (auto simp: doubao_recognize_def)
    next
      case credentials: (Inr credentials)
      then obtain q where "transcribe_managed_pcm M (mk credentials) = Some (q, outs)"
        and "r = (case q of Inl f \<Rightarrow> Inl f
            | Inr t \<Rightarrow> Inr (success_after_audio (tn_text t) provider_usage_default))"
        using assms Inr key by (auto simp: doubao_recognize_def)
      then show ?thesis by blast
    qed
  qed
qed

text \<open>
  C5: The Doubao recognizer of a route is honest about the audio. It makes at most two attempts,
  the second with a refreshed token. When it fails and reports that no audio was accepted, and so
  whenever the route may try another provider without consent, every message left with the
  WebSocket library in any attempt, by failed writes as well, is a StartTask or StartSession
  request of its own request identifier; a failure before the connection, in the Secret Service,
  the credential bundle or the exchange for the token, made no attempt at all. A success has a
  transcript that is not blank.
\<close>

theorem doubao_adapter_evidence:
  assumes "\<And>n. returns_payload (aw_ws (mw_attempts M n))"
    and "doubao_recognize deserialize J M tool secret mk tok now = Some (r, outs)"
  shows "length outs \<le> 2 \<and>
    (\<forall>success. r = Inr success \<longrightarrow> \<not> is_blank (pt_text (ps_transcript success))) \<and>
    (\<forall>f. r = Inl f \<longrightarrow>
       paf_audio_acceptance f = NotAccepted \<or>
         (\<not> stops_route replay f \<and> replay \<noteq> BufferedWithConsent) \<longrightarrow>
       outs = [] \<or> (\<exists>i. managed_request_id M = Inr i \<and> list_all (list_all (quiet i)) outs))"
proof (cases "\<exists>q config. transcribe_managed_pcm M config = Some (q, outs) \<and>
    r = (case q of Inl f \<Rightarrow> Inl f
         | Inr t \<Rightarrow> Inr (success_after_audio (tn_text t) provider_usage_default))")
  case True
  then obtain q config where q: "transcribe_managed_pcm M config = Some (q, outs)"
    and r: "r = (case q of Inl f \<Rightarrow> Inl f
         | Inr t \<Rightarrow> Inr (success_after_audio (tn_text t) provider_usage_default))" by blast
  show ?thesis
    using managed_evidence[OF assms(1) q] r passed_on_not_accepted[of replay]
    by (cases q) (auto simp: success_after_audio_def)
next
  case False
  with doubao_recognize_cases[OF assms(2)] have "outs = [] \<and> (\<exists>f. r = Inl f)" by blast
  then show ?thesis by auto
qed

section \<open>A recognition whose token is fetched\<close>

definition demo_config_child :: curl_child where
  "demo_config_child =
     \<lparr> ch_polls = (\<lambda>k. Inr (Some (Some 0))), ch_killed = Inr None, ch_stdin_error = None,
       ch_stdout = Inr [[123]], ch_stderr = Inr ''VOXTYPE_HTTP_STATUS:200'' \<rparr>"

definition demo_settings :: json where
  "demo_settings =
     JObject [(''data'', JObject [(''settings'', JObject [(''asr_config'',
       JObject [(''app_key'', JString [107])])])])]"

definition demo_bootstrap :: bootstrap_world where
  "demo_bootstrap =
     \<lparr> bw_curl = (\<lambda>_ _ _. Inr demo_config_child), bw_wall = Some 7,
       bw_tok = (\<lambda>_. False), bw_done = 3,
       bw_json = \<lparr> jl_parse = (\<lambda>_. Some demo_settings), jl_to_vec = (\<lambda>_. []) \<rparr>,
       bw_md5_upper = (\<lambda>_. ''AB''), bw_lossy = (\<lambda>_. ''body=null'') \<rparr>"

definition demo_http :: bootstrap_http_config where
  "demo_http =
     \<lparr> bh_registration_endpoint = ''https://h/r'', bh_settings_endpoint = ''https://h/s'',
       bh_timeout_seconds = 15 \<rparr>"

definition demo_request_context :: bootstrap_request_context where
  "demo_request_context = \<lparr> bc_user_agent = ''a'', bc_common_query = [(''k'', ''a&b'')] \<rparr>"

definition demo_device :: registered_device where
  "demo_device = \<lparr> rd_device_id = ''d1'', rd_install_id = [] \<rparr>"

lemma demo_ticket: "show_nat 7 = ''7''"
  by (subst show_nat.simps) (simp add: digit_char_def char_of_eq_iff)

lemmas prepare_eval = settings_prepare_def validate_bootstrap_config_def validate_bootstrap_endpoint_def
  validate_endpoint_def starts_with_def plain_text_def max_query_parameters_def valid_query_key_def
  validate_registered_device_def ensure_bootstrap_not_cancelled_def request_ticket_at_def demo_ticket
  bootstrap_url_def percent_encode_def is_ascii_control_def is_ascii_alphanumeric_def
  is_ascii_lowercase_def is_ascii_digit_def

lemma demo_prepare:
  "\<exists>pc. settings_prepare demo_bootstrap demo_http demo_request_context demo_device = Inr pc"
  by (simp add: prepare_eval demo_bootstrap_def demo_http_def demo_request_context_def demo_device_def
      unreserved_def percent_byte_def)

theorem settings_request_names_device_witness:
  "\<exists>pc. settings_prepare demo_bootstrap demo_http demo_request_context demo_device = Inr pc \<and>
     (\<exists>rest rest' url q ticket.
        pc = ''request = '' @ [quote] @ ''POST'' @ [quote, newline] @ ''url = '' @ [quote] @ rest \<and>
        read_quoted rest = Some (url, rest') \<and>
        parse_query q = [Some (''k'', ''a&b''), Some (''_rticket'', ticket), Some (''device_id'', ''d1'')])"
proof -
  obtain pc where pc: "settings_prepare demo_bootstrap demo_http demo_request_context demo_device = Inr pc"
    using demo_prepare by blast
  from settings_request_names_device[OF pc] show ?thesis
    using pc by (fastforce simp: demo_request_context_def demo_device_def)
qed

lemma demo_fetch:
  "execute_curl_cancellable (\<lambda>_. Inr demo_config_child) default_max_response_bytes (\<lambda>_. False) =
     Some (Inr \<lparr> cr_http_status = 200, cr_body = [123] \<rparr>)"
proof -
  have "lines_of ''VOXTYPE_HTTP_STATUS:200'' = [''VOXTYPE_HTTP_STATUS:200'']"
    by (simp add: lines_of_def newline_def split_elem_single del: split_elem.simps)
  moreover have "trim_str ''VOXTYPE_HTTP_STATUS:200'' = ''VOXTYPE_HTTP_STATUS:200''"
    by (simp add: trim_str_def trim_by_def char_whitespace_def is_whitespace_def)
  moreover have "strip_prefix http_status_marker ''VOXTYPE_HTTP_STATUS:200'' = Some ''200''"
    by (simp add: strip_prefix_def starts_with_def http_status_marker_def)
  moreover have "parse_uint 16 ''200'' = Some 200"
    by (simp add: parse_uint_def digit_val_def)
  ultimately have "parse_http_status ''VOXTYPE_HTTP_STATUS:200'' = Some 200"
    by (simp add: parse_http_status_def status_of_line_def)
  moreover have "wait_for_curl (ch_polls demo_config_child) (ch_killed demo_config_child) (\<lambda>_. False) 1 =
      Some (Inr (Some 0, False))"
    by (simp add: demo_config_child_def wait_for_curl.simps)
  ultimately show ?thesis
    by (simp add: execute_curl_cancellable_def demo_config_child_def read_bounded_def
        default_max_response_bytes_def finish_curl_attempt_def http_success_def)
qed

definition demo_managed_world :: managed_world where
  "demo_managed_world =
     \<lparr> mw_token = demo_bootstrap, mw_refresh = demo_bootstrap,
       mw_attempts = (\<lambda>_. rejecting_world\<lparr> aw_encoder := None \<rparr>), mw_cancelled = False,
       mw_wall = Some 7, mw_counter = 1 \<rparr>"

definition demo_raw :: raw_bundle where
  "demo_raw =
     \<lparr> rw_schema = 1, rw_registration_endpoint = ''https://h/r'',
       rw_settings_endpoint = ''https://h/s'', rw_user_agent = ''a'',
       rw_common_query = [(''k'', ''a&b'')], rw_device_id = ''d1'', rw_install_id = [],
       rw_websocket_endpoint = ''wss://h'', rw_websocket_headers = [], rw_session = JObject [] \<rparr>"

definition demo_managed_config :: "managed_credential_bundle \<Rightarrow> managed_doubao_config" where
  "demo_managed_config = doubao_managed_config (millis 100) (millis 200) (millis 20)"

lemma demo_bundle_parse:
  "bundle_parse (\<lambda>_. Some demo_raw) demo_json (SecretString ''x'') = Inr (bundle_of_raw demo_raw [])"
  by (simp add: bundle_parse_def max_credential_bundle_bytes_def demo_raw_def validate_bundle_fields_def
      validate_text_def validate_pair_def is_ascii_control_def demo_json_def)

lemma demo_fetch_token:
  "fetch_token demo_bootstrap (demo_managed_config (bundle_of_raw demo_raw [])) =
     Some (Inr (SecretString ''k''))"
proof -
  let ?c = "mc_credentials (demo_managed_config (bundle_of_raw demo_raw []))"
  have "mb_bootstrap ?c = demo_http" "mb_context ?c = demo_request_context" "mb_registered ?c = demo_device"
    by (simp_all add: bundle_of_raw_def demo_raw_def demo_http_def demo_request_context_def
        demo_device_def demo_managed_config_def doubao_managed_config_def)
  then obtain pc where pc: "settings_prepare demo_bootstrap (mb_bootstrap ?c) (mb_context ?c)
      (mb_registered ?c) = Inr pc" using demo_prepare by metis
  have "token_later 1 (\<lambda>_. False) = (\<lambda>_. False)" by (simp add: token_later_def fun_eq_iff)
  then have exchange: "bootstrap_exchange demo_bootstrap t pc code message = Some (Inr [123])"
    for t code message
    by (simp add: bootstrap_exchange_def demo_bootstrap_def demo_fetch
        ensure_bootstrap_not_cancelled_def)
  have "parse_settings_token (bw_json demo_bootstrap) [123] = Inr (SecretString ''k'')"
    by (simp add: demo_bootstrap_def parse_settings_token_def parse_bootstrap_json_def
        max_bootstrap_response_bytes_def demo_settings_def secret_try_new_def validate_secret_bytes_def
        utf8_string_def utf8_encode_def utf8_char_def is_ascii_control_def char_of_eq_iff)
  then show ?thesis
    by (simp only: fetch_token_def fetch_settings_token_http_def pc) (simp add: exchange)
qed

lemma demo_recognition:
  "doubao_recognize (\<lambda>_. Some demo_raw) demo_json demo_managed_world (ToolOutput ''x'') ''n''
     demo_managed_config token_new 0 =
   Some (Inl (before_transport (run_error EcUnavailable ''doubao.opus_unavailable''
           ''System Opus encoder is unavailable'' False)), [[]])"
  by (simp add: doubao_recognize_def ensure_not_cancelled_def token_new_def lookup_secret_def
      strip_line_ends_def secret_try_new_def validate_secret_bytes_def is_ascii_control_def
      demo_bundle_parse transcribe_managed_pcm_def demo_managed_world_def demo_fetch_token
      managed_request_id_def transcribe_pcm_with_token_refresh_def transcribe_pcm_with_evidence_def run_error_def)

theorem doubao_adapter_evidence_witness:
  "length [[] :: bytes list] \<le> 2 \<and>
     (\<exists>i. managed_request_id demo_managed_world = Inr i \<and> list_all (list_all (quiet i)) [[]])"
proof -
  have "returns_payload (aw_ws (mw_attempts demo_managed_world n))" for n
    using rejecting_returns_payload by (simp add: demo_managed_world_def)
  from doubao_adapter_evidence[OF this demo_recognition, of WhileBuffered] show ?thesis by simp
qed

end
