(* ===== verification/Utf8_Index.thy ===== *)
theory Utf8_Index
  imports Utf8
begin

text \<open>
  Byte positions in a text, as Rust's str has them: the byte offsets of the characters, character
  boundaries and slices. A slice between two boundaries is the text of the characters in between.
\<close>

definition len_utf8 :: "nat \<Rightarrow> nat" where
  "len_utf8 c = length (utf8_char c)"

fun char_indices_from :: "nat \<Rightarrow> utext \<Rightarrow> (nat \<times> nat) list" where
  "char_indices_from i [] = []"
| "char_indices_from i (c # cs) = (i, c) # char_indices_from (i + len_utf8 c) cs"

definition char_indices :: "utext \<Rightarrow> (nat \<times> nat) list" where
  "char_indices t = char_indices_from 0 t"

fun is_char_boundary :: "utext \<Rightarrow> nat \<Rightarrow> bool" where
  "is_char_boundary [] n = (n = 0)"
| "is_char_boundary (c # cs) n =
     (n = 0 \<or> (len_utf8 c \<le> n \<and> is_char_boundary cs (n - len_utf8 c)))"

fun take_bytes :: "nat \<Rightarrow> utext \<Rightarrow> utext" where
  "take_bytes n [] = []"
| "take_bytes n (c # cs) = (if len_utf8 c \<le> n then c # take_bytes (n - len_utf8 c) cs else [])"

fun drop_bytes :: "nat \<Rightarrow> utext \<Rightarrow> utext" where
  "drop_bytes n [] = []"
| "drop_bytes n (c # cs) = (if len_utf8 c \<le> n then drop_bytes (n - len_utf8 c) cs else c # cs)"

text \<open>Indexing by a range of bytes; where an end is not a boundary the code panics.\<close>

definition str_index :: "utext \<Rightarrow> nat \<Rightarrow> nat \<Rightarrow> utext" where
  "str_index t a b = take_bytes (b - a) (drop_bytes a t)"

definition str_get :: "utext \<Rightarrow> nat \<Rightarrow> nat \<Rightarrow> utext option" where
  "str_get t a b =
     (if a \<le> b \<and> is_char_boundary t a \<and> is_char_boundary t b then Some (str_index t a b) else None)"

lemma len_utf8_pos [simp]: "0 < len_utf8 c"
  using utf8_char_length(1)[of c] by (simp add: len_utf8_def)

lemma len_utf8_nonzero [simp]: "len_utf8 c \<noteq> 0"
  by (rule not_sym) (simp add: less_imp_neq)

lemma utf8_length_Cons: "utf8_length (c # cs) = len_utf8 c + utf8_length cs"
  by (simp add: len_utf8_def)

lemma boundary_prefix: "is_char_boundary (p @ q) (utf8_length p)"
proof (induction p)
  case Nil
  show ?case by (cases q) simp_all
qed (simp add: len_utf8_def)

lemma boundary_split:
  "is_char_boundary t n \<Longrightarrow> \<exists>p q. t = p @ q \<and> n = utf8_length p"
proof (induction t n rule: is_char_boundary.induct)
  case (1 n)
  then show ?case by (intro exI[of _ "[]"]) simp
next
  case (2 c cs n)
  show ?case
  proof (cases "n = 0")
    case True
    show ?thesis by (rule exI[of _ "[]"], rule exI[of _ "c # cs"]) (use True in \<open>simp\<close>)
  next
    case False
    then obtain p q where split: "cs = p @ q" "n - len_utf8 c = utf8_length p" "len_utf8 c \<le> n"
      using 2 by auto
    show ?thesis by (rule exI[of _ "c # p"], rule exI[of _ q]) (use split in \<open>simp add: len_utf8_def\<close>)
  qed
qed

lemma boundary_le: "is_char_boundary t n \<Longrightarrow> n \<le> utf8_length t"
  using boundary_split by fastforce

lemma boundary_end [simp]: "is_char_boundary t (utf8_length t)"
  using boundary_prefix[of t "[]"] by simp

lemma boundary_zero [simp]: "is_char_boundary t 0"
  by (cases t) simp_all

lemma zero_bytes [simp]: "drop_bytes 0 q = q" "take_bytes 0 q = []"
proof -
  show "drop_bytes 0 q = q" by (cases q) simp_all
  show "take_bytes 0 q = []" by (cases q) simp_all
qed

lemma drop_bytes_prefix [simp]: "drop_bytes (utf8_length p) (p @ q) = q"
  by (induction p) (simp_all add: len_utf8_def)

lemma take_bytes_prefix [simp]: "take_bytes (utf8_length p) (p @ q) = p"
  by (induction p) (simp_all add: len_utf8_def)

lemma str_index_middle:
  "str_index (p @ q @ r) (utf8_length p) (utf8_length p + utf8_length q) = q"
  by (simp add: str_index_def)

lemma char_indices_append:
  "char_indices_from i (p @ q) = char_indices_from i p @ char_indices_from (i + utf8_length p) q"
  by (induction p arbitrary: i) (simp_all add: len_utf8_def add.assoc)

text \<open>An index and its character split the text.\<close>

lemma char_indices_split:
  "(j, c) \<in> set (char_indices_from i t) \<Longrightarrow> \<exists>p q. t = p @ c # q \<and> j = i + utf8_length p"
proof (induction t arbitrary: i)
  case (Cons d t)
  show ?case
  proof (cases "(j, c) = (i, d)")
    case True
    show ?thesis by (rule exI[of _ "[]"], rule exI[of _ t]) (use True in \<open>simp\<close>)
  next
    case False
    then obtain p q where split: "t = p @ c # q" "j = i + len_utf8 d + utf8_length p"
      using Cons by fastforce
    show ?thesis by (rule exI[of _ "d # p"], rule exI[of _ q]) (use split in \<open>simp add: len_utf8_def\<close>)
  qed
qed simp

text \<open>The first and the last characters with a property, by their positions.\<close>

lemma takeWhile_indices:
  "takeWhile (\<lambda>(_, c). P c) (char_indices_from i t) = char_indices_from i (takeWhile P t)"
  by (induction t arbitrary: i) simp_all

definition ends_at :: "(nat \<times> nat) list \<Rightarrow> nat" where
  "ends_at ics = (case rev ics of [] \<Rightarrow> 0 | (i, c) # _ \<Rightarrow> i + len_utf8 c)"

lemma ends_at_indices: "ends_at (char_indices_from 0 p) = utf8_length p"
proof (cases p rule: rev_cases)
  case (snoc q c)
  then show ?thesis by (simp add: ends_at_def char_indices_append len_utf8_def)
qed (simp add: ends_at_def)

definition starts_at :: "nat \<Rightarrow> (nat \<times> nat) list \<Rightarrow> nat" where
  "starts_at otherwise ics = (case rev ics of [] \<Rightarrow> otherwise | (i, c) # _ \<Rightarrow> i)"

text \<open>Scanning backwards from the end stops where the last run begins.\<close>

lemma starts_at_indices:
  fixes t :: utext and P :: "nat \<Rightarrow> bool"
  defines "p \<equiv> rev (dropWhile P (rev t))" and "q \<equiv> rev (takeWhile P (rev t))"
  shows "t = p @ q" and "list_all P q"
    and "starts_at (i + utf8_length t) (takeWhile (\<lambda>(_, c). P c) (rev (char_indices_from i t))) =
           i + utf8_length p"
proof -
  show t: "t = p @ q" unfolding p_def q_def by (metis rev_append rev_rev_ident takeWhile_dropWhile_id)
  show q: "list_all P q" unfolding q_def by (simp add: list_all_iff) (metis set_takeWhileD)
  have p: "p = [] \<or> \<not> P (last p)"
    unfolding p_def by (cases "dropWhile P (rev t) = []") (auto simp: last_rev hd_dropWhile)
  have all: "takeWhile (\<lambda>(_, c). P c) (rev (char_indices_from k q) @ xs) =
      rev (char_indices_from k q) @ takeWhile (\<lambda>(_, c). P c) xs" for k xs
  proof (rule takeWhile_append2)
    fix x assume "x \<in> set (rev (char_indices_from k q))"
    then have "(fst x, snd x) \<in> set (char_indices_from k q)" by simp
    from char_indices_split[OF this] show "(case x of (_, c) \<Rightarrow> P c)"
      using q by (auto simp: list_all_iff case_prod_beta)
  qed
  have stop: "takeWhile (\<lambda>(_, c). P c) (rev (char_indices_from i p)) = []"
  proof (cases p rule: rev_cases)
    case (snoc ys y)
    then show ?thesis using p by (simp add: char_indices_append)
  qed simp
  have "takeWhile (\<lambda>(_, c). P c) (rev (char_indices_from i t)) =
      rev (char_indices_from (i + utf8_length p) q)"
    using all[of "i + utf8_length p" "rev (char_indices_from i p)"] stop
    by (subst t) (simp add: char_indices_append)
  moreover have "starts_at (i + utf8_length t) (rev (char_indices_from (i + utf8_length p) q)) =
      i + utf8_length p"
    using t by (cases q) (simp_all add: starts_at_def)
  ultimately show "starts_at (i + utf8_length t)
      (takeWhile (\<lambda>(_, c). P c) (rev (char_indices_from i t))) = i + utf8_length p"
    by simp
qed

end
