(* ===== verification/Grammar.thy ===== *)
theory Grammar
  imports Utf8_Index "HOL-Library.Product_Lexorder"
begin

text \<open>
  The local text checks of the daemon (src/src/grammar.rs): the rules propose candidate edits by
  byte positions, a selection keeps those that do not overlap an earlier one, and the report holds
  the edits with the text they suggest. Positions and lengths are natural numbers: a text is far
  shorter than a usize can count. The Unicode class of letters and digits beyond ASCII, which the
  standard library takes from its tables, is an argument.
\<close>

unbundle bit_operations_syntax

section \<open>Types\<close>

datatype edit_safety = Safe | Review

datatype edit_confidence = High | Medium

record cleanup_edit =
  ce_start_byte :: nat
  ce_end_byte :: nat
  ce_original :: utext
  ce_replacement :: utext
  ce_rule_id :: string
  ce_message :: string
  ce_safety :: edit_safety
  ce_confidence :: edit_confidence

record grammar_report =
  gr_schema :: "8 word"
  gr_clean :: bool
  gr_original_fingerprint :: string
  gr_original_bytes :: nat
  gr_original_characters :: nat
  gr_suggested :: utext
  gr_safe_edit_count :: nat
  gr_review_edit_count :: nat
  gr_edits :: "cleanup_edit list"

record candidate =
  cd_start :: nat
  cd_end :: nat
  cd_replacement :: utext
  cd_rule_id :: string
  cd_message :: string
  cd_safety :: edit_safety
  cd_confidence :: edit_confidence
  cd_priority :: nat

section \<open>Character classes\<close>

definition is_horizontal_whitespace :: "nat \<Rightarrow> bool" where
  "is_horizontal_whitespace c \<longleftrightarrow> c \<in> {0x20, 0x09, 0xA0, 0x3000}"

definition is_sentence_punctuation :: "nat \<Rightarrow> bool" where
  "is_sentence_punctuation c \<longleftrightarrow>
     c \<in> {0x2C, 0x2E, 0x3B, 0x3A, 0x21, 0x3F, 0xFF0C, 0x3002, 0xFF1B, 0xFF1A, 0xFF01, 0xFF1F}"

definition is_collapsible_punctuation :: "nat \<Rightarrow> bool" where
  "is_collapsible_punctuation c \<longleftrightarrow>
     c \<in> {0x2C, 0x3B, 0x3A, 0x21, 0x3F, 0xFF0C, 0xFF1B, 0xFF1A, 0xFF01, 0xFF1F}"

definition punctuation_replacement :: "nat \<Rightarrow> utext" where
  "punctuation_replacement c =
     (if c \<in> {0x2C, 0x3B, 0x3A, 0x21, 0x3F, 0xFF0C, 0xFF1B, 0xFF1A, 0xFF01, 0xFF1F} then [c] else [])"

definition is_ascii_lower :: "nat \<Rightarrow> bool" where
  "is_ascii_lower c \<longleftrightarrow> 97 \<le> c \<and> c \<le> 122"

definition uppercase_ascii :: "nat \<Rightarrow> utext" where
  "uppercase_ascii c = (if is_ascii_lower c then [c - 32] else [])"

definition is_opening_quote :: "nat \<Rightarrow> bool" where
  "is_opening_quote c \<longleftrightarrow> c \<in> {0x22, 0x27, 0x201C, 0x2018, 0x28, 0x5B, 0x7B}"

definition is_sentence_terminator :: "nat \<Rightarrow> bool" where
  "is_sentence_terminator c \<longleftrightarrow> c \<in> {0x2E, 0x21, 0x3F, 0x3002, 0xFF01, 0xFF1F}"

definition is_alphanumeric :: "(nat \<Rightarrow> bool) \<Rightarrow> nat \<Rightarrow> bool" where
  "is_alphanumeric beyond_ascii c =
     (if c < 128 then (48 \<le> c \<and> c \<le> 57) \<or> (65 \<le> c \<and> c \<le> 90) \<or> is_ascii_lower c
      else beyond_ascii c)"

section \<open>Spans\<close>

type_synonym span = "nat \<times> nat"

fun token_loop :: "(nat \<times> nat) list \<Rightarrow> nat option \<Rightarrow> span list \<Rightarrow> span list" where
  "token_loop [] start spans = spans"
| "token_loop ((index, c) # rest) start spans =
     (if is_whitespace c
      then (case start of
              None \<Rightarrow> token_loop rest None spans
            | Some s \<Rightarrow> token_loop rest None (spans @ [(s, index)]))
      else token_loop rest (Some (case start of None \<Rightarrow> index | Some s \<Rightarrow> s)) spans)"

definition token_spans :: "utext \<Rightarrow> span list" where
  "token_spans t = token_loop (char_indices t @ [(utf8_length t, 0x20)]) None []"

definition protected_token_spans :: "utext \<Rightarrow> span list" where
  "protected_token_spans t =
     filter (\<lambda>(s, e). let token = str_index t s e
               in contains [0x3A, 0x2F, 0x2F] token \<or> 0x40 \<in> set token \<or>
                  take 4 token = [0x77, 0x77, 0x77, 0x2E])
       (token_spans t)"

text \<open>The byte position of the first occurrence.\<close>

fun find_text :: "utext \<Rightarrow> utext \<Rightarrow> nat \<Rightarrow> nat option" where
  "find_text needle [] at = (if needle = [] then Some at else None)"
| "find_text needle (c # cs) at =
     (if take (length needle) (c # cs) = needle then Some at
      else find_text needle cs (at + len_utf8 c))"

record word_span =
  wd_start :: nat
  wd_end :: nat
  wd_value :: utext

definition normalized_word :: "(nat \<Rightarrow> bool) \<Rightarrow> utext \<Rightarrow> span \<Rightarrow> word_span option" where
  "normalized_word beyond_ascii t span =
     (let token = str_index t (fst span) (snd span);
          v = trim_by is_sentence_punctuation token
      in if v = [] \<or> \<not> list_ex (is_alphanumeric beyond_ascii) v then None
         else case find_text v token 0 of
                None \<Rightarrow> None
              | Some relative_start \<Rightarrow>
                  Some \<lparr> wd_start = fst span + relative_start,
                         wd_end = fst span + relative_start + utf8_length v, wd_value = v \<rparr>)"

section \<open>Rules\<close>

definition candidate_new ::
  "nat \<Rightarrow> nat \<Rightarrow> utext \<Rightarrow> string \<Rightarrow> string \<Rightarrow> edit_safety \<Rightarrow> edit_confidence \<Rightarrow> nat \<Rightarrow> candidate" where
  "candidate_new s e replacement rule_id message safety confidence priority =
     \<lparr> cd_start = s, cd_end = e, cd_replacement = replacement, cd_rule_id = rule_id,
       cd_message = message, cd_safety = safety, cd_confidence = confidence,
       cd_priority = priority \<rparr>"

definition outer_horizontal_whitespace :: "utext \<Rightarrow> candidate list" where
  "outer_horizontal_whitespace t =
     (let leading_end =
            ends_at (takeWhile (\<lambda>(_, c). is_horizontal_whitespace c) (char_indices t));
          trailing_start =
            starts_at (utf8_length t)
              (takeWhile (\<lambda>(_, c). is_horizontal_whitespace c) (rev (char_indices t)))
      in (if 0 < leading_end
          then [candidate_new 0 leading_end [] ''cleanup.outer-whitespace''
                  ''Remove leading horizontal whitespace'' Safe High 0] else []) @
         (if trailing_start < utf8_length t \<and> leading_end \<le> trailing_start
          then [candidate_new trailing_start (utf8_length t) [] ''cleanup.outer-whitespace''
                  ''Remove trailing horizontal whitespace'' Safe High 0] else []))"

definition repeated_word ::
  "(nat \<Rightarrow> bool) \<Rightarrow> utext \<Rightarrow> span \<times> span \<Rightarrow> candidate list" where
  "repeated_word beyond_ascii t pair =
     (let previous = fst pair; current = snd pair
      in case normalized_word beyond_ascii t previous of
           None \<Rightarrow> []
         | Some previous_word \<Rightarrow>
             (case normalized_word beyond_ascii t current of
                None \<Rightarrow> []
              | Some current_word \<Rightarrow>
                  if eq_ignore_ascii_case (wd_value previous_word) (wd_value current_word) \<and>
                     0x0A \<notin> set (str_index t (snd previous) (fst current)) \<and>
                     wd_start current_word = fst current
                  then [candidate_new (snd previous) (wd_end current_word) []
                          ''cleanup.repeated-word'' ''Remove an adjacent repeated word''
                          Review Medium 1]
                  else []))"

definition repeated_words :: "(nat \<Rightarrow> bool) \<Rightarrow> utext \<Rightarrow> candidate list" where
  "repeated_words beyond_ascii t =
     (let tokens = token_spans t
      in concat (map (repeated_word beyond_ascii t) (zip tokens (tl tokens))))"

definition spacing_before :: "utext \<Rightarrow> nat \<times> nat \<Rightarrow> candidate list" where
  "spacing_before t ic =
     (let index = fst ic
      in if \<not> is_sentence_punctuation (snd ic) then []
         else let s = starts_at index
                        (takeWhile (\<lambda>(_, c). is_horizontal_whitespace c)
                           (rev (char_indices (str_index t 0 index))))
              in if s < index
                 then [candidate_new s index [] ''cleanup.punctuation-spacing''
                         ''Remove horizontal whitespace before punctuation'' Safe High 2]
                 else [])"

definition punctuation_spacing :: "utext \<Rightarrow> candidate list" where
  "punctuation_spacing t = concat (map (spacing_before t) (char_indices t))"

fun punctuation_loop ::
  "(nat \<times> nat) list \<Rightarrow> (nat \<times> nat \<times> nat) option \<Rightarrow> candidate list \<Rightarrow> candidate list" where
  "punctuation_loop [] run out = out"
| "punctuation_loop ((index, c) # rest) run out =
     (case run of
        Some (start, previous, count) \<Rightarrow>
          if c = previous then punctuation_loop rest (Some (start, previous, count + 1)) out
          else punctuation_loop rest (Some (index, c, 1))
                 (if 1 < count \<and> is_collapsible_punctuation previous
                  then out @ [candidate_new start index (punctuation_replacement previous)
                                ''cleanup.repeated-punctuation'' ''Collapse repeated punctuation''
                                Review Medium 3]
                  else out)
      | None \<Rightarrow> punctuation_loop rest (Some (index, c, 1)) out)"

definition repeated_punctuation :: "utext \<Rightarrow> candidate list" where
  "repeated_punctuation t = punctuation_loop (char_indices t @ [(utf8_length t, 0)]) None []"

fun whitespace_loop ::
  "utext \<Rightarrow> (nat \<times> nat) list \<Rightarrow> nat option \<Rightarrow> candidate list \<Rightarrow> candidate list" where
  "whitespace_loop t [] run_start out = out"
| "whitespace_loop t ((index, c) # rest) run_start out =
     (if is_horizontal_whitespace c
      then whitespace_loop t rest (Some (case run_start of None \<Rightarrow> index | Some s \<Rightarrow> s)) out
      else case run_start of
        None \<Rightarrow> whitespace_loop t rest None out
      | Some start \<Rightarrow>
          whitespace_loop t rest None
            (if 1 < length (str_index t start index) \<and> 0 < start \<and> index < utf8_length t \<and>
                (let before = str_index t 0 start in \<not> (before \<noteq> [] \<and> last before = 0x0A))
             then out @ [candidate_new start index [0x20] ''cleanup.repeated-whitespace''
                           ''Collapse repeated horizontal whitespace'' Review High 4]
             else out))"

definition repeated_horizontal_whitespace :: "utext \<Rightarrow> candidate list" where
  "repeated_horizontal_whitespace t =
     whitespace_loop t (char_indices t @ [(utf8_length t, 0)]) None []"

fun case_loop :: "span list \<Rightarrow> (nat \<times> nat) list \<Rightarrow> bool \<Rightarrow> candidate list \<Rightarrow> candidate list" where
  "case_loop protected_spans [] sentence_start out = out"
| "case_loop protected_spans ((index, c) # rest) sentence_start out =
     (if list_ex (\<lambda>(s, e). s \<le> index \<and> index < e) protected_spans
      then case_loop protected_spans rest False out
      else if sentence_start
      then (if is_ascii_lower c
            then case_loop protected_spans rest False
                   (out @ [candidate_new index (index + len_utf8 c) (uppercase_ascii c)
                             ''cleanup.sentence-case'' ''Capitalize an ASCII sentence beginning''
                             Review Medium 5])
            else case_loop protected_spans rest
                   (is_whitespace c \<or> is_opening_quote c) out)
      else case_loop protected_spans rest (is_sentence_terminator c) out)"

definition sentence_case :: "utext \<Rightarrow> candidate list" where
  "sentence_case t = case_loop (protected_token_spans t) (char_indices t) True []"

section \<open>The report\<close>

definition ranges_overlap :: "nat \<Rightarrow> nat \<Rightarrow> nat \<Rightarrow> nat \<Rightarrow> bool" where
  "ranges_overlap a_start a_end b_start b_end \<longleftrightarrow> a_start < b_end \<and> b_start < a_end"

definition fnv_step :: "64 word \<Rightarrow> nat \<Rightarrow> 64 word" where
  "fnv_step hash byte = (hash XOR word_of_nat byte) * 0x100000001B3"

definition fnv1a :: "utext \<Rightarrow> 64 word" where
  "fnv1a t = foldl fnv_step 0xCBF29CE484222325 (utf8_encode t)"

definition hex_lower :: "nat \<Rightarrow> char" where
  "hex_lower n = (if n < 10 then char_of (48 + n) else char_of (87 + n))"

fun hex_digits :: "nat \<Rightarrow> nat \<Rightarrow> string" where
  "hex_digits 0 n = []"
| "hex_digits (Suc k) n = hex_digits k (n div 16) @ [hex_lower (n mod 16)]"

definition fingerprint :: "utext \<Rightarrow> string" where
  "fingerprint t = ''fnv1a64:'' @ hex_digits 16 (unat (fnv1a t))"

fun edits_valid :: "utext \<Rightarrow> nat \<Rightarrow> cleanup_edit list \<Rightarrow> bool" where
  "edits_valid t previous_end [] = True"
| "edits_valid t previous_end (e # es) =
     (\<not> (ce_start_byte e < previous_end \<or> ce_end_byte e < ce_start_byte e \<or>
          utf8_length t < ce_end_byte e \<or> \<not> is_char_boundary t (ce_start_byte e) \<or>
          \<not> is_char_boundary t (ce_end_byte e) \<or>
          str_get t (ce_start_byte e) (ce_end_byte e) \<noteq> Some (ce_original e)) \<and>
      edits_valid t (ce_end_byte e) es)"

fun splice :: "utext \<Rightarrow> nat \<Rightarrow> cleanup_edit list \<Rightarrow> utext" where
  "splice t cursor [] = str_index t cursor (utf8_length t)"
| "splice t cursor (e # es) =
     str_index t cursor (ce_start_byte e) @ ce_replacement e @ splice t (ce_end_byte e) es"

definition apply_edits :: "utext \<Rightarrow> cleanup_edit list \<Rightarrow> utext option" where
  "apply_edits t edits = (if edits_valid t 0 edits then Some (splice t 0 edits) else None)"

fun select_edits :: "utext \<Rightarrow> candidate list \<Rightarrow> candidate list \<Rightarrow> candidate list" where
  "select_edits t [] selected = selected"
| "select_edits t (c # cs) selected =
     (if cd_end c \<le> cd_start c \<or> \<not> is_char_boundary t (cd_start c) \<or>
         \<not> is_char_boundary t (cd_end c) \<or>
         list_ex (\<lambda>e. ranges_overlap (cd_start c) (cd_end c) (cd_start e) (cd_end e)) selected
      then select_edits t cs selected
      else select_edits t cs (selected @ [c]))"

definition edit_of :: "utext \<Rightarrow> candidate \<Rightarrow> cleanup_edit" where
  "edit_of t c =
     \<lparr> ce_start_byte = cd_start c, ce_end_byte = cd_end c,
       ce_original = str_index t (cd_start c) (cd_end c), ce_replacement = cd_replacement c,
       ce_rule_id = cd_rule_id c, ce_message = cd_message c, ce_safety = cd_safety c,
       ce_confidence = cd_confidence c \<rparr>"

definition candidates :: "(nat \<Rightarrow> bool) \<Rightarrow> utext \<Rightarrow> candidate list" where
  "candidates beyond_ascii t =
     outer_horizontal_whitespace t @ repeated_words beyond_ascii t @ punctuation_spacing t @
     repeated_punctuation t @ repeated_horizontal_whitespace t @ sentence_case t"

definition selected_edits :: "(nat \<Rightarrow> bool) \<Rightarrow> utext \<Rightarrow> cleanup_edit list" where
  "selected_edits beyond_ascii t =
     map (edit_of t)
       (sort_key cd_start
          (select_edits t
             (sort_key (\<lambda>c. (cd_priority c, cd_start c, cd_end c)) (candidates beyond_ascii t)) []))"

definition check :: "(nat \<Rightarrow> bool) \<Rightarrow> utext \<Rightarrow> grammar_report" where
  "check beyond_ascii t =
     (let edits = selected_edits beyond_ascii t;
          safe_edit_count = length (filter (\<lambda>e. ce_safety e = Safe) edits)
      in \<lparr> gr_schema = 1, gr_clean = (edits = []), gr_original_fingerprint = fingerprint t,
           gr_original_bytes = utf8_length t, gr_original_characters = length t,
           gr_suggested = (case apply_edits t edits of None \<Rightarrow> t | Some s \<Rightarrow> s),
           gr_safe_edit_count = safe_edit_count,
           gr_review_edit_count = length edits - safe_edit_count, gr_edits = edits \<rparr>)"

definition apply_report :: "utext \<Rightarrow> grammar_report \<Rightarrow> utext option" where
  "apply_report t report =
     (if utf8_length t \<noteq> gr_original_bytes report \<or> length t \<noteq> gr_original_characters report \<or>
         fingerprint t \<noteq> gr_original_fingerprint report
      then None
      else apply_edits t (gr_edits report))"

end
