(* ===== verification/Grammar_Props.thy ===== *)
theory Grammar_Props
  imports Grammar
begin

text \<open>
  What a cleanup report is good for: its edits can be applied to the text it was made from and
  give its suggestion, an application changes the edited spans only, and the edits that count as
  safe delete horizontal whitespace only.
\<close>

section \<open>The selection\<close>

definition disjoint_ranges :: "candidate \<Rightarrow> candidate \<Rightarrow> bool" where
  "disjoint_ranges a b \<longleftrightarrow> \<not> ranges_overlap (cd_start a) (cd_end a) (cd_start b) (cd_end b)"

definition selected_ok :: "utext \<Rightarrow> candidate list \<Rightarrow> bool" where
  "selected_ok t cs \<longleftrightarrow>
     (\<forall>c \<in> set cs. cd_start c < cd_end c \<and> is_char_boundary t (cd_start c) \<and>
        is_char_boundary t (cd_end c)) \<and>
     distinct cs \<and> (\<forall>a \<in> set cs. \<forall>b \<in> set cs. a \<noteq> b \<longrightarrow> disjoint_ranges a b)"

lemma disjoint_sym: "disjoint_ranges a b \<Longrightarrow> disjoint_ranges b a"
  by (auto simp: disjoint_ranges_def ranges_overlap_def)

lemma select_edits_ok:
  "selected_ok t selected \<Longrightarrow> selected_ok t (select_edits t cs selected)"
proof (induction t cs selected rule: select_edits.induct)
  case (2 t c cs selected)
  show ?case
  proof (cases "cd_end c \<le> cd_start c \<or> \<not> is_char_boundary t (cd_start c) \<or>
         \<not> is_char_boundary t (cd_end c) \<or>
         list_ex (\<lambda>e. ranges_overlap (cd_start c) (cd_end c) (cd_start e) (cd_end e)) selected")
    case True
    then show ?thesis using 2 by simp
  next
    case False
    then have c: "cd_start c < cd_end c" "is_char_boundary t (cd_start c)"
      "is_char_boundary t (cd_end c)" and d: "\<And>e. e \<in> set selected \<Longrightarrow> disjoint_ranges c e"
      by (auto simp: list_ex_iff disjoint_ranges_def)
    have "c \<notin> set selected"
    proof
      assume "c \<in> set selected"
      then show False using d[of c] c(1) by (simp add: disjoint_ranges_def ranges_overlap_def)
    qed
    then have "selected_ok t (selected @ [c])"
      using 2(3) c d disjoint_sym unfolding selected_ok_def by (auto simp: ball_Un)
    then show ?thesis using 2(2)[OF False] False by simp
  qed
qed simp

lemma select_edits_subset: "set (select_edits t cs selected) \<subseteq> set cs \<union> set selected"
  by (induction t cs selected rule: select_edits.induct) auto

lemma edit_of_simps [simp]:
  "ce_start_byte (edit_of t c) = cd_start c" "ce_end_byte (edit_of t c) = cd_end c"
  "ce_original (edit_of t c) = str_index t (cd_start c) (cd_end c)"
  "ce_replacement (edit_of t c) = cd_replacement c" "ce_safety (edit_of t c) = cd_safety c"
  by (simp_all add: edit_of_def)

text \<open>Sorted by their start, disjoint nonempty spans follow each other.\<close>

lemma sorted_edits_valid:
  assumes "selected_ok t cs" and "sorted (map cd_start cs)" and "\<forall>c \<in> set cs. prev \<le> cd_start c"
  shows "edits_valid t prev (map (edit_of t) cs)"
  using assms
proof (induction cs arbitrary: prev)
  case (Cons c cs)
  have c: "cd_start c < cd_end c" "is_char_boundary t (cd_start c)" "is_char_boundary t (cd_end c)"
    using Cons.prems(1) by (auto simp: selected_ok_def)
  have "cd_end c \<le> cd_start d" if "d \<in> set cs" for d
  proof -
    have "disjoint_ranges c d" "cd_start d < cd_end d" "cd_start c \<le> cd_start d"
      using Cons.prems(1,2) that by (auto simp: selected_ok_def)
    then show ?thesis by (auto simp: disjoint_ranges_def ranges_overlap_def)
  qed
  moreover have "selected_ok t cs" using Cons.prems(1) by (auto simp: selected_ok_def)
  ultimately have "edits_valid t (cd_end c) (map (edit_of t) cs)"
    using Cons.prems(2) by (intro Cons.IH) auto
  then show ?case using c Cons.prems(3) boundary_le[OF c(3)]
    by (auto simp: str_get_def)
qed simp

lemma selected_edits_valid: "edits_valid t 0 (selected_edits beyond_ascii t)"
proof -
  let ?cs = "select_edits t
      (sort_key (\<lambda>c. (cd_priority c, cd_start c, cd_end c)) (candidates beyond_ascii t)) []"
  have "selected_ok t ?cs" by (rule select_edits_ok) (simp add: selected_ok_def)
  then have "selected_ok t (sort_key cd_start ?cs)" by (simp add: selected_ok_def)
  then show ?thesis unfolding selected_edits_def
    by (intro sorted_edits_valid) simp_all
qed

section \<open>What an application changes\<close>

text \<open>Gaps and pieces in turn, with a gap at both ends.\<close>

fun weave :: "utext list \<Rightarrow> utext list \<Rightarrow> utext" where
  "weave (g # gs) (x # xs) = g @ x @ weave gs xs"
| "weave gs [] = concat gs"
| "weave [] xs = concat xs"

lemma boundary_after:
  assumes "is_char_boundary (p @ q) n" and "utf8_length p \<le> n"
  shows "\<exists>g r. q = g @ r \<and> n = utf8_length p + utf8_length g"
proof -
  obtain a b where ab: "p @ q = a @ b" "n = utf8_length a" using boundary_split[OF assms(1)] by blast
  then consider u where "p = a @ u" "u @ q = b" | u where "p @ u = a" "q = u @ b"
    by (auto simp: append_eq_append_conv2)
  then show ?thesis
  proof cases
    case (1 u)
    then have "utf8_length u = 0" using assms(2) ab(2) by simp
    then have "u = []" using utf8_char_length(1) by (cases u) auto
    then have "q = [] @ q \<and> n = utf8_length p + utf8_length []" using 1 ab by simp
    then show ?thesis by blast
  next
    case (2 u)
    then show ?thesis using ab(2) by auto
  qed
qed

lemma splice_weave:
  assumes "t = p @ q" and "edits_valid t (utf8_length p) es"
  shows "\<exists>gs. length gs = Suc (length es) \<and> q = weave gs (map ce_original es) \<and>
           splice t (utf8_length p) es = weave gs (map ce_replacement es)"
  using assms
proof (induction es arbitrary: p q)
  case Nil
  have "splice t (utf8_length p) [] = q"
    using str_index_middle[of p q "[]"] Nil by simp
  then show ?case by (intro exI[of _ "[q]"]) simp
next
  case (Cons e es)
  have e: "utf8_length p \<le> ce_start_byte e" "ce_start_byte e \<le> ce_end_byte e"
    "is_char_boundary t (ce_start_byte e)" "is_char_boundary t (ce_end_byte e)"
    "str_index t (ce_start_byte e) (ce_end_byte e) = ce_original e"
    "edits_valid t (ce_end_byte e) es"
    using Cons.prems(2) by (auto simp: str_get_def)
  obtain g r where g: "q = g @ r" "ce_start_byte e = utf8_length p + utf8_length g"
    using boundary_after[of p q] e(1,3) Cons.prems(1) by blast
  have "\<exists>x r'. r = x @ r' \<and> ce_end_byte e = utf8_length (p @ g) + utf8_length x"
    by (rule boundary_after) (use e(2,4) g Cons.prems(1) in simp_all)
  then obtain x r' where x: "r = x @ r'" "ce_end_byte e = utf8_length (p @ g) + utf8_length x"
    by blast
  have t: "t = p @ g @ x @ r'" using Cons.prems(1) g(1) x(1) by simp
  have "ce_original e = x"
    using e(5) str_index_middle[of "p @ g" x r'] g(2) x(2) by (simp add: t)
  moreover have "str_index t (utf8_length p) (ce_start_byte e) = g"
    using str_index_middle[of p g "x @ r'"] g(2) by (simp add: t)
  moreover obtain gs where "length gs = Suc (length es)" "r' = weave gs (map ce_original es)"
    "splice t (ce_end_byte e) es = weave gs (map ce_replacement es)"
    using Cons.IH[of "p @ g @ x" r'] e(6) x(2) t by (auto simp: add.assoc)
  ultimately show ?case
    using g(1) x(1) by (intro exI[of _ "g # gs"]) simp
qed

section \<open>Safe edits\<close>

definition deletes_spaces :: "utext \<Rightarrow> candidate \<Rightarrow> bool" where
  "deletes_spaces t c \<longleftrightarrow>
     (cd_safety c = Safe \<longrightarrow>
        cd_replacement c = [] \<and>
        list_all is_horizontal_whitespace (str_index t (cd_start c) (cd_end c)))"

lemma outer_deletes_spaces: "\<forall>c \<in> set (outer_horizontal_whitespace t). deletes_spaces t c"
proof -
  let ?p = "takeWhile is_horizontal_whitespace t"
  let ?a = "rev (dropWhile is_horizontal_whitespace (rev t))"
    and ?b = "rev (takeWhile is_horizontal_whitespace (rev t))"
  have lead: "str_index t 0 (utf8_length ?p) = ?p"
    using str_index_middle[of "[]" ?p "dropWhile is_horizontal_whitespace t"] by simp
  have "list_all is_horizontal_whitespace ?p" by (simp add: list_all_iff) (metis set_takeWhileD)
  moreover note starts_at_indices(2)[where P = is_horizontal_whitespace and t = t]
    starts_at_indices(3)[where P = is_horizontal_whitespace and i = 0 and t = t]
  moreover have "str_index t (utf8_length ?a) (utf8_length t) = ?b"
    using str_index_middle[of ?a ?b "[]"] starts_at_indices(1)[of t is_horizontal_whitespace]
    by simp (metis utf8_length_append)
  ultimately show ?thesis
    by (auto simp: outer_horizontal_whitespace_def Let_def deletes_spaces_def candidate_new_def
        char_indices_def takeWhile_indices ends_at_indices lead)
qed

lemma spacing_deletes_spaces: "\<forall>c \<in> set (punctuation_spacing t). deletes_spaces t c"
proof
  fix c assume "c \<in> set (punctuation_spacing t)"
  then obtain index ch where ic: "(index, ch) \<in> set (char_indices_from 0 t)"
    and c: "c \<in> set (spacing_before t (index, ch))"
    by (auto simp: punctuation_spacing_def char_indices_def)
  obtain p q where t: "t = p @ ch # q" "index = utf8_length p"
    using char_indices_split[OF ic] by auto
  let ?a = "rev (dropWhile is_horizontal_whitespace (rev p))"
    and ?b = "rev (takeWhile is_horizontal_whitespace (rev p))"
  have p: "p = ?a @ ?b" by (rule starts_at_indices(1))
  have before: "str_index t 0 (utf8_length p) = p"
    using str_index_middle[of "[]" p "ch # q"] t by simp
  have "utf8_length p = utf8_length ?a + utf8_length ?b"
    using arg_cong[OF p, of utf8_length] by (simp only: utf8_length_append)
  moreover have "t = ?a @ ?b @ ch # q" using t(1) p by (metis append_assoc)
  ultimately have spaces: "str_index t (utf8_length ?a) (utf8_length p) = ?b"
    by (simp only: str_index_middle)
  have "starts_at (utf8_length p)
      (takeWhile (\<lambda>(_, c). is_horizontal_whitespace c) (rev (char_indices_from 0 p))) = utf8_length ?a"
    using starts_at_indices(3)[where P = is_horizontal_whitespace and i = 0 and t = p] by simp
  then have "c = candidate_new (utf8_length ?a) (utf8_length p) [] ''cleanup.punctuation-spacing''
      ''Remove horizontal whitespace before punctuation'' Safe High 2"
    using c by (simp add: spacing_before_def Let_def t(2) before char_indices_def split: if_splits)
  then show "deletes_spaces t c"
    using spaces starts_at_indices(2)[where P = is_horizontal_whitespace and t = p]
    by (simp add: deletes_spaces_def candidate_new_def)
qed

abbreviation all_review :: "candidate list \<Rightarrow> bool" where
  "all_review cs \<equiv> list_all (\<lambda>c. cd_safety c = Review) cs"

lemma repeated_words_review: "all_review (repeated_words b t)"
  by (auto simp: repeated_words_def repeated_word_def Let_def candidate_new_def list_all_iff
      split: option.splits if_splits)

lemma punctuation_loop_review: "all_review out \<Longrightarrow> all_review (punctuation_loop ics run out)"
  by (induction ics run out rule: punctuation_loop.induct)
     (auto simp: candidate_new_def split: option.splits prod.splits)

lemma whitespace_loop_review: "all_review out \<Longrightarrow> all_review (whitespace_loop t ics run out)"
  by (induction t ics run out rule: whitespace_loop.induct)
     (auto simp: candidate_new_def Let_def split: option.splits)

lemma case_loop_review: "all_review out \<Longrightarrow> all_review (case_loop spans ics start out)"
  by (induction spans ics start out rule: case_loop.induct) (auto simp: candidate_new_def)

lemma candidates_delete_spaces: "\<forall>c \<in> set (candidates b t). deletes_spaces t c"
proof -
  have "all_review (repeated_words b t @ repeated_punctuation t @
      repeated_horizontal_whitespace t @ sentence_case t)"
    using repeated_words_review punctuation_loop_review whitespace_loop_review case_loop_review
    by (simp add: repeated_punctuation_def repeated_horizontal_whitespace_def sentence_case_def)
  then have "\<forall>c \<in> set (repeated_words b t @ repeated_punctuation t @
      repeated_horizontal_whitespace t @ sentence_case t). deletes_spaces t c"
    by (simp add: list_all_iff deletes_spaces_def ball_Un)
  then show ?thesis
    using outer_deletes_spaces spacing_deletes_spaces by (simp add: candidates_def ball_Un)
qed

section \<open>Properties\<close>

text \<open>
  Applying edits changes the edited spans only: whenever a list of edits is accepted for a
  text, the text is the weaving of some gaps with the originals of the edits, and the result is
  the weaving of the same gaps with their replacements.
\<close>

theorem apply_edits_replaces_spans:
  assumes "apply_edits t edits = Some s"
  shows "\<exists>gaps. length gaps = Suc (length edits) \<and> t = weave gaps (map ce_original edits) \<and>
           s = weave gaps (map ce_replacement edits)"
  using assms splice_weave[of t "[]" t edits]
  by (auto simp: apply_edits_def split: if_splits)

theorem apply_edits_replaces_spans_witness:
  "\<exists>gaps. length gaps = Suc (length (selected_edits (\<lambda>_. False) [0x20, 0x61, 0x20, 0x2E])) \<and>
     [0x20, 0x61, 0x20, 0x2E] =
       weave gaps (map ce_original (selected_edits (\<lambda>_. False) [0x20, 0x61, 0x20, 0x2E])) \<and>
     splice [0x20, 0x61, 0x20, 0x2E] 0 (selected_edits (\<lambda>_. False) [0x20, 0x61, 0x20, 0x2E]) =
       weave gaps (map ce_replacement (selected_edits (\<lambda>_. False) [0x20, 0x61, 0x20, 0x2E]))"
  by (rule apply_edits_replaces_spans) (simp add: apply_edits_def selected_edits_valid)

text \<open>
  C36: A cleanup report can be applied to the text it was made from, and gives the text it
  suggests: the edits it selected are in range, in order and disjoint, whatever the rules
  proposed. Its safe edits delete horizontal whitespace and nothing else, and it is clean exactly
  when it has no edits, in which case it suggests the text itself.
\<close>

theorem report_applies_to_its_text:
  "apply_report t (check b t) = Some (gr_suggested (check b t)) \<and>
   list_all (\<lambda>e. ce_safety e = Safe \<longrightarrow>
       ce_replacement e = [] \<and> list_all is_horizontal_whitespace (ce_original e))
     (gr_edits (check b t)) \<and>
   (gr_clean (check b t) \<longrightarrow> gr_suggested (check b t) = t)"
proof -
  have "set (selected_edits b t) \<subseteq> edit_of t ` set (candidates b t)"
    using select_edits_subset[of t "sort_key (\<lambda>c. (cd_priority c, cd_start c, cd_end c))
        (candidates b t)" "[]"]
    by (auto simp: selected_edits_def)
  then have "list_all (\<lambda>e. ce_safety e = Safe \<longrightarrow>
       ce_replacement e = [] \<and> list_all is_horizontal_whitespace (ce_original e)) (selected_edits b t)"
    using candidates_delete_spaces[of b t] by (auto simp: list_all_iff deletes_spaces_def)
  moreover have "splice t 0 [] = t" using str_index_middle[of "[]" t "[]"] by simp
  ultimately show ?thesis
    using selected_edits_valid[of t b]
    by (simp add: check_def apply_report_def Let_def apply_edits_def)
qed

theorem report_applies_to_its_text_witness:
  "apply_report [0x20, 0x61, 0x2E] (check (\<lambda>_. False) [0x20, 0x61, 0x2E]) = Some [0x41, 0x2E]"
proof -
  have "apply_edits [0x20, 0x61, 0x2E] (selected_edits (\<lambda>_. False) [0x20, 0x61, 0x2E]) =
      Some [0x41, 0x2E]"
    by (simp add: apply_edits_def selected_edits_def candidates_def outer_horizontal_whitespace_def
        repeated_words_def token_spans_def punctuation_spacing_def spacing_before_def
        repeated_punctuation_def repeated_horizontal_whitespace_def sentence_case_def
        protected_token_spans_def char_indices_def len_utf8_def utf8_char_def ends_at_def starts_at_def
        is_horizontal_whitespace_def is_sentence_punctuation_def is_whitespace_def is_ascii_lower_def
        is_collapsible_punctuation_def is_opening_quote_def is_sentence_terminator_def Let_def
        candidate_new_def ranges_overlap_def str_index_def str_get_def edit_of_def uppercase_ascii_def)
  then have "gr_suggested (check (\<lambda>_. False) [0x20, 0x61, 0x2E]) = [0x41, 0x2E]"
    by (simp add: check_def Let_def)
  then show ?thesis
    using report_applies_to_its_text[of "[0x20, 0x61, 0x2E]" "\<lambda>_. False"] by simp
qed

end
