(* ===== verification/Fcitx.thy ===== *)
theory Fcitx
  imports Ports Eff Utf8
begin

text \<open>
  The client of the Fcitx5 bridge (src/src/fcitx.rs): a request is the fields of a command joined
  by zero bytes, sent as one datagram to the bridge's socket from a socket of its own, and the
  bridge answers with one datagram. The file system, the sockets and the process identifier are
  arguments: they answer the n-th request of the client. A text inside an error message is held
  as the characters of its UTF-8 bytes.
\<close>

section \<open>Types\<close>

record fcitx_target =
  ft_program :: utext
  ft_frontend :: utext

record fcitx_context =
  fx_target :: fcitx_target
  fx_generation :: "64 word"
  fx_cursor :: nat
  fx_anchor :: nat
  fx_capabilities :: "utext list"
  fx_truncated :: bool
  fx_text :: utext

text \<open>
  The client: its counter, the number of requests it made, the datagrams it handed to its
  sockets and the paths of the sockets that exist.
\<close>

record fcitx_client =
  fc_counter :: "64 word"
  fc_requests :: nat
  fc_sent :: "bytes list"
  fc_paths :: "string list"

record fcitx_world =
  fw_runtime_set :: bool
  fw_pid :: "32 word"
  fw_create_dir :: "nat \<Rightarrow> string option"
  fw_bind :: "nat \<Rightarrow> string option"
  fw_set_timeout :: "nat \<Rightarrow> string option"
  fw_send_to :: "nat \<Rightarrow> bytes \<Rightarrow> string option"
  fw_recv :: "nat \<Rightarrow> bytes \<Rightarrow> string + bytes"

type_synonym ('x, 'a) fcitx_op = "('x fcitx_client_scheme, vox_error, 'a) eff"

section \<open>Fields\<close>

definition field_at :: "nat \<Rightarrow> bytes \<Rightarrow> bytes option" where
  "field_at n response =
     (let fields = split_elem 0 response in if n < length fields then Some (fields ! n) else None)"

definition byte_chars :: "bytes \<Rightarrow> string" where
  "byte_chars bs = map (\<lambda>b. char_of (unat b)) bs"

definition max_message :: nat where
  "max_message = 60 * 1024"

definition encode_message :: "bytes list \<Rightarrow> bytes outcome" where
  "encode_message parts =
     (let message = join_elem 0 parts
      in if max_message < length message
         then Inl (vox_error_new EcProtocol ''fcitx.message_too_large''
                ''Fcitx bridge request exceeds the bounded datagram size'')
         else Inr message)"

section \<open>Responses\<close>

definition invalid_response :: "string \<Rightarrow> vox_error" where
  "invalid_response message = vox_error_new EcProtocol ''fcitx.invalid_response'' message"

definition rejection_category :: "string \<Rightarrow> error_category" where
  "rejection_category code =
     (if code = ''secure-context'' then EcPermission
      else if code = ''no-focused-context'' \<or> code = ''focus-changed'' then EcInvalidState
      else if code = ''session-mismatch'' \<or> code = ''empty-text'' then EcProtocol
      else EcUnavailable)"

definition rejection_code :: "bytes \<Rightarrow> string" where
  "rejection_code response =
     (case field_at 1 response of
        None \<Rightarrow> ''bridge-error''
      | Some value \<Rightarrow> (case from_utf8 value of None \<Rightarrow> ''bridge-error'' | Some _ \<Rightarrow> byte_chars value))"

definition expect_ok :: "bytes \<Rightarrow> unit outcome" where
  "expect_ok response =
     (if field_at 0 response = Some (ascii ''OK'') then Inr ()
      else let code = rejection_code response
           in Inl (vox_error_new (rejection_category code) ''fcitx.bridge_rejected''
                (''Fcitx bridge rejected request: '' @ code)))"

definition dispatch_confirmed :: "bytes \<Rightarrow> bool" where
  "dispatch_confirmed response \<longleftrightarrow>
     field_at 1 response \<in> {Some (ascii ''dispatched''), Some (ascii ''committed'')}"

definition expect_dispatched :: "bytes \<Rightarrow> unit outcome" where
  "expect_dispatched response =
     try_then (expect_ok response) (\<lambda>_.
       if dispatch_confirmed response then Inr ()
       else Inl (vox_error_new EcProtocol ''fcitx.dispatch_unconfirmed''
              ''Fcitx bridge did not confirm dispatch to the input context''))"

definition expect_dispatched_for :: "bytes \<Rightarrow> string \<Rightarrow> unit outcome" where
  "expect_dispatched_for response request_id =
     try_then (expect_ok response) (\<lambda>_.
       if dispatch_confirmed response \<and>
          Option.bind (field_at 2 response) from_utf8 = Some (text_of request_id)
       then Inr ()
       else Inl (vox_error_new EcProtocol ''fcitx.dispatch_unconfirmed''
              ''Fcitx bridge did not confirm dispatch for this request id''))"

definition unknown_identity :: utext where
  "unknown_identity = text_of ''unknown''"

definition parse_identity_field :: "bytes option \<Rightarrow> utext outcome" where
  "parse_identity_field field =
     (case field of
        None \<Rightarrow> Inr unknown_identity
      | Some value \<Rightarrow>
          (case from_utf8 value of
             None \<Rightarrow> Inl (invalid_response ''Fcitx bridge response contains invalid UTF-8'')
           | Some t \<Rightarrow> Inr (if t = [] then unknown_identity else t)))"

definition parse_arm_response :: "bytes \<Rightarrow> fcitx_target outcome" where
  "parse_arm_response response =
     try_then (expect_ok response) (\<lambda>_.
     try_then (parse_identity_field (field_at 2 response)) (\<lambda>program.
     try_then (parse_identity_field (field_at 3 response)) (\<lambda>frontend.
       Inr \<lparr> ft_program = program, ft_frontend = frontend \<rparr>)))"

definition parse_utf8 :: "bytes option \<Rightarrow> string \<Rightarrow> utext outcome" where
  "parse_utf8 field name =
     (case field of
        None \<Rightarrow> Inl (invalid_response (''Fcitx '' @ name @ '' is missing''))
      | Some value \<Rightarrow>
          (case from_utf8 value of
             None \<Rightarrow> Inl (invalid_response (''Fcitx '' @ name @ '' contains invalid UTF-8''))
           | Some t \<Rightarrow> Inr t))"

definition parse_u64 :: "utext \<Rightarrow> nat option" where
  "parse_u64 t = (if list_all (\<lambda>c. c < 256) t then parse_uint 64 (map char_of t) else None)"

definition parse_number :: "bytes option \<Rightarrow> string \<Rightarrow> nat outcome" where
  "parse_number field name =
     try_then (parse_utf8 field name) (\<lambda>t.
       case parse_u64 t of
         None \<Rightarrow> Inl (invalid_response (''Fcitx '' @ name @ '' is invalid''))
       | Some n \<Rightarrow> Inr n)"

definition parse_capabilities :: "bytes option \<Rightarrow> utext list outcome" where
  "parse_capabilities field =
     try_then (parse_utf8 field ''capabilities'') (\<lambda>t.
       Inr (filter (\<lambda>v. v \<noteq> []) (split_elem 0x2C t)))"

definition parse_truncated :: "bytes option \<Rightarrow> bool outcome" where
  "parse_truncated field =
     (if field = Some (ascii ''0'') then Inr False
      else if field = Some (ascii ''1'') then Inr True
      else Inl (invalid_response ''Fcitx truncation flag is invalid''))"

definition parse_context_response :: "bytes \<Rightarrow> fcitx_context outcome" where
  "parse_context_response response =
     try_then (expect_ok response) (\<lambda>_.
     if field_at 1 response \<noteq> Some (ascii ''context'')
     then Inl (invalid_response ''Fcitx bridge response is not a context snapshot'')
     else
     try_then (parse_identity_field (field_at 2 response)) (\<lambda>program.
     try_then (parse_identity_field (field_at 3 response)) (\<lambda>frontend.
     try_then (parse_number (field_at 4 response) ''context generation'') (\<lambda>generation.
     try_then (parse_number (field_at 5 response) ''cursor'') (\<lambda>cursor.
     try_then (parse_number (field_at 6 response) ''anchor'') (\<lambda>anchor.
     try_then (parse_capabilities (field_at 7 response)) (\<lambda>capabilities.
     try_then (parse_truncated (field_at 8 response)) (\<lambda>truncated.
     try_then (parse_utf8 (field_at 9 response) ''surrounding text'') (\<lambda>text1.
       if 4096 < length text1 \<or> length text1 < cursor \<or> length text1 < anchor
       then Inl (invalid_response
              ''Fcitx surrounding text or cursor exceeds the bounded context'')
       else Inr \<lparr> fx_target = \<lparr> ft_program = program, ft_frontend = frontend \<rparr>,
                  fx_generation = word_of_nat generation, fx_cursor = cursor,
                  fx_anchor = anchor, fx_capabilities = capabilities,
                  fx_truncated = truncated, fx_text = text1 \<rparr>)))))))))"

definition slice_characters :: "utext \<Rightarrow> nat \<Rightarrow> nat \<Rightarrow> utext" where
  "slice_characters t s e = take (e - s) (drop s t)"

definition review_text :: "fcitx_context \<Rightarrow> utext" where
  "review_text c =
     (let s = min (fx_cursor c) (fx_anchor c); e = max (fx_cursor c) (fx_anchor c)
      in if s \<noteq> e then slice_characters (fx_text c) s e
         else slice_characters (fx_text c) (fx_cursor c - 1200) (fx_cursor c))"

section \<open>Transport\<close>

definition transport_io :: "string \<Rightarrow> vox_error" where
  "transport_io message = vox_error_new EcUnavailable ''fcitx.transport_failed'' message"

definition io_step :: "string option \<Rightarrow> ('x, unit) fcitx_op" where
  "io_step r = (case r of None \<Rightarrow> give () | Some message \<Rightarrow> raise (transport_io message))"

definition runtime_dir :: "fcitx_world \<Rightarrow> ('x, unit) fcitx_op" where
  "runtime_dir W =
     (if fw_runtime_set W then give ()
      else raise (vox_error_new EcUnavailable ''fcitx.runtime_unavailable''
             ''XDG_RUNTIME_DIR is unavailable''))"

text \<open>The counter before it is incremented.\<close>

definition fetch_counter :: "('x, 64 word) fcitx_op" where
  "fetch_counter c = (Inr (fc_counter c), c\<lparr> fc_counter := fc_counter c + 1 \<rparr>)"

definition client_path :: "fcitx_world \<Rightarrow> 64 word \<Rightarrow> string" where
  "client_path W n =
     ''fcitx-client-'' @ show_nat (unat (fw_pid W)) @ ''-'' @ show_nat (unat n) @ ''.sock''"

text \<open>The guard removes the path of the socket on every way out.\<close>

definition with_socket :: "string \<Rightarrow> ('x, 'a) fcitx_op \<Rightarrow> ('x, 'a) fcitx_op" where
  "with_socket path body c =
     (case body (c\<lparr> fc_paths := path # fc_paths c \<rparr>) of
        (r, c') \<Rightarrow> (r, c'\<lparr> fc_paths := removeAll path (fc_paths c') \<rparr>))"

definition send_to :: "fcitx_world \<Rightarrow> nat \<Rightarrow> bytes \<Rightarrow> ('x, unit) fcitx_op" where
  "send_to W n message =
     seq (\<lambda>c. (Inr (), c\<lparr> fc_sent := fc_sent c @ [message] \<rparr>))
       (\<lambda>_. io_step (fw_send_to W n message))"

definition receive :: "fcitx_world \<Rightarrow> nat \<Rightarrow> bytes \<Rightarrow> ('x, bytes) fcitx_op" where
  "receive W n message =
     (case fw_recv W n message of
        Inl e \<Rightarrow> raise (transport_io e)
      | Inr datagram \<Rightarrow> give (take (20 * 1024) datagram))"

definition request_message_at :: "fcitx_world \<Rightarrow> bytes \<Rightarrow> ('x, bytes) fcitx_op" where
  "request_message_at W message c =
     (let n = fc_requests c
      in seq (io_step (fw_create_dir W n)) (\<lambda>_.
         seq fetch_counter (\<lambda>k.
         seq (io_step (fw_bind W n)) (\<lambda>_.
           with_socket (client_path W k)
             (seq (io_step (fw_set_timeout W n)) (\<lambda>_.
              seq (send_to W n message) (\<lambda>_.
                receive W n message))))))
         (c\<lparr> fc_requests := n + 1 \<rparr>))"

definition from_result :: "'a outcome \<Rightarrow> ('x, 'a) fcitx_op" where
  "from_result r = (case r of Inl e \<Rightarrow> raise e | Inr a \<Rightarrow> give a)"

definition request :: "fcitx_world \<Rightarrow> bytes list \<Rightarrow> ('x, bytes) fcitx_op" where
  "request W parts =
     seq (runtime_dir W) (\<lambda>_.
     seq (from_result (encode_message parts)) (\<lambda>message.
       request_message_at W message))"

definition retry_message :: "bytes \<Rightarrow> (bytes \<Rightarrow> ('x, 'a) fcitx_op) \<Rightarrow> ('x, 'a) fcitx_op" where
  "retry_message message operation c =
     (case operation message c of
        (Inr response, c') \<Rightarrow> (Inr response, c')
      | (Inl e, c') \<Rightarrow>
          if err_code e = ''fcitx.transport_failed'' then operation message c' else (Inl e, c'))"

definition request_with_retry :: "fcitx_world \<Rightarrow> bytes list \<Rightarrow> ('x, bytes) fcitx_op" where
  "request_with_retry W parts =
     seq (runtime_dir W) (\<lambda>_.
     seq (from_result (encode_message parts)) (\<lambda>message.
       retry_message message (request_message_at W)))"

section \<open>The bridge\<close>

definition session_bytes :: "session_id \<Rightarrow> bytes" where
  "session_bytes session = ascii (session_str session)"

definition bridge_ping :: "fcitx_world \<Rightarrow> ('x, unit) fcitx_op" where
  "bridge_ping W = seq (request W [ascii ''PING'']) (\<lambda>r. from_result (expect_ok r))"

definition arm_target :: "fcitx_world \<Rightarrow> session_id \<Rightarrow> ('x, fcitx_target) fcitx_op" where
  "arm_target W session =
     seq (request W [ascii ''ARM'', session_bytes session]) (\<lambda>r.
       from_result (parse_arm_response r))"

definition bridge_arm :: "fcitx_world \<Rightarrow> session_id \<Rightarrow> ('x, unit) fcitx_op" where
  "bridge_arm W session = seq (arm_target W session) (\<lambda>_. give ())"

text \<open>A failure to cancel is ignored.\<close>

definition bridge_cancel :: "fcitx_world \<Rightarrow> session_id \<Rightarrow> ('x, unit) fcitx_op" where
  "bridge_cancel W session c =
     (Inr (), snd (request W [ascii ''CANCEL'', session_bytes session] c))"

definition bridge_probe :: "fcitx_world \<Rightarrow> ('x, fcitx_target) fcitx_op" where
  "bridge_probe W =
     (let session = from_counter (- 1)
      in seq (arm_target W session) (\<lambda>target.
         seq (bridge_cancel W session) (\<lambda>_. give target)))"

definition bridge_context :: "fcitx_world \<Rightarrow> ('x, fcitx_context) fcitx_op" where
  "bridge_context W =
     seq (request W [ascii ''CONTEXT'']) (\<lambda>r. from_result (parse_context_response r))"

definition request_id_of :: "fcitx_world \<Rightarrow> 64 word \<Rightarrow> string" where
  "request_id_of W k = show_nat (unat (fw_pid W)) @ ''-'' @ show_nat (unat k)"

definition commit_parts :: "string \<Rightarrow> session_id \<Rightarrow> utext \<Rightarrow> bytes list" where
  "commit_parts request_id session t =
     [ascii ''COMMIT2'', ascii request_id, session_bytes session, utf8_bytes t]"

definition unknown_command :: "vox_error \<Rightarrow> bool" where
  "unknown_command e \<longleftrightarrow> contains ''unknown-command'' (err_message e)"

text \<open>The older command, for a bridge that does not know the newer one.\<close>

definition legacy_commit :: "fcitx_world \<Rightarrow> session_id \<Rightarrow> utext \<Rightarrow> ('x, unit) fcitx_op" where
  "legacy_commit W session t =
     seq (request W [ascii ''COMMIT'', session_bytes session, utf8_bytes t]) (\<lambda>r.
       from_result (expect_dispatched r))"

definition bridge_commit :: "fcitx_world \<Rightarrow> session_id \<Rightarrow> utext \<Rightarrow> ('x, unit) fcitx_op" where
  "bridge_commit W session t =
     seq fetch_counter (\<lambda>k.
     seq (request_with_retry W (commit_parts (request_id_of W k) session t)) (\<lambda>response.
       case expect_dispatched_for response (request_id_of W k) of
         Inr _ \<Rightarrow> give ()
       | Inl e \<Rightarrow> if unknown_command e then legacy_commit W session t else raise e))"

definition commit_test :: "fcitx_world \<Rightarrow> utext \<Rightarrow> ('x, fcitx_target) fcitx_op" where
  "commit_test W t =
     (if is_blank t
      then raise (vox_error_new EcProtocol ''fcitx.empty_test'' ''diagnostic text is empty'')
      else let session = from_counter (- 1 - 1)
           in seq (arm_target W session) (\<lambda>target c.
                case bridge_commit W session t c of
                  (Inl e, c') \<Rightarrow> seq (bridge_cancel W session) (\<lambda>_. raise e) c'
                | (Inr _, c') \<Rightarrow> (Inr target, c')))"

end
