(* ===== verification/Desktop.thy ===== *)
theory Desktop
  imports Fcitx
begin

text \<open>
  Insertion through the clipboard (src/src/desktop.rs) and the insertion adapter that chooses
  between it and the Fcitx bridge (src/src/insertion.rs). The clipboard tools wl-paste and wl-copy
  and the key injector ydotool are arguments: they answer the n-th tool call. An error of the
  standard library's io module is its message.
\<close>

section \<open>Tools\<close>

record insertion_result =
  ir_clipboard_restored :: bool
  ir_backend :: string

datatype clipboard_snapshot = SnapEmpty | SnapText bytes | SnapUnsupported

record clipboard_inserter =
  ci_restore_delay :: nat
  ci_restore_clipboard :: bool

definition clipboard_inserter_default :: clipboard_inserter where
  "clipboard_inserter_default = \<lparr> ci_restore_delay = 250, ci_restore_clipboard = True \<rparr>"

definition with_restore :: "bool \<Rightarrow> clipboard_inserter \<Rightarrow> clipboard_inserter" where
  "with_restore b ci = ci\<lparr> ci_restore_clipboard := b \<rparr>"

text \<open>A finished run of a tool: whether its status is success, and the status as it is shown.\<close>

record tool_run =
  tr_success :: bool
  tr_status :: string
  tr_stdout :: bytes

text \<open>A run of wl-copy: its start, its input, and its end.\<close>

record copy_run =
  cr_spawn :: "string option"
  cr_stdin :: bool
  cr_write_all :: "string option"
  cr_wait :: "string + tool_run"

record desktop_tools =
  dt_paste_text :: "nat \<Rightarrow> string + tool_run"
  dt_list_types :: "nat \<Rightarrow> string + tool_run"
  dt_copy :: "nat \<Rightarrow> bytes \<Rightarrow> copy_run"
  dt_clear :: "nat \<Rightarrow> string + tool_run"
  dt_chord :: "nat \<Rightarrow> string + tool_run"

text \<open>The calls of the tools in order, with the delay before the restoration.\<close>

datatype tool_call =
    ReadText | ListTypes | CopyText bytes | ClearClipboard | PasteChord | Sleep nat

record desktop = fcitx_client +
  dk_calls :: "tool_call list"

type_synonym 'a desktop_op = "(desktop, string, 'a) eff"

definition tool_call_of :: "tool_call \<Rightarrow> (nat \<Rightarrow> 'a) \<Rightarrow> desktop \<Rightarrow> 'a \<times> desktop" where
  "tool_call_of call answer d =
     (answer (length (dk_calls d)), d\<lparr> dk_calls := dk_calls d @ [call] \<rparr>)"

section \<open>The clipboard\<close>

definition read_clipboard :: "desktop_tools \<Rightarrow> bytes option desktop_op" where
  "read_clipboard T d =
     (case tool_call_of ReadText (dt_paste_text T) d of
        (Inl _, d') \<Rightarrow> (Inr None, d')
      | (Inr run, d') \<Rightarrow> (Inr (if tr_success run then Some (tr_stdout run) else None), d'))"

definition read_clipboard_snapshot :: "desktop_tools \<Rightarrow> clipboard_snapshot desktop_op" where
  "read_clipboard_snapshot T =
     seq (tool_call_of ReadText (dt_paste_text T)) (\<lambda>text_run.
       if tr_success text_run then give (SnapText (tr_stdout text_run))
       else seq (tool_call_of ListTypes (dt_list_types T)) (\<lambda>types.
              give (if tr_success types \<and> tr_stdout types \<noteq> [] then SnapUnsupported
                    else SnapEmpty)))"

definition clipboard_contents_match :: "bytes option \<Rightarrow> bytes \<Rightarrow> bool" where
  "clipboard_contents_match current expected =
     (case current of None \<Rightarrow> False | Some c \<Rightarrow> c = expected)"

definition clipboard_matches :: "desktop_tools \<Rightarrow> bytes \<Rightarrow> bool desktop_op" where
  "clipboard_matches T expected =
     seq (read_clipboard T) (\<lambda>current. give (clipboard_contents_match current expected))"

definition clear_clipboard :: "desktop_tools \<Rightarrow> bool desktop_op" where
  "clear_clipboard T d =
     (case tool_call_of ClearClipboard (dt_clear T) d of
        (Inl _, d') \<Rightarrow> (Inr False, d')
      | (Inr run, d') \<Rightarrow> (Inr (tr_success run), d'))"

definition write_clipboard :: "desktop_tools \<Rightarrow> bytes \<Rightarrow> unit desktop_op" where
  "write_clipboard T contents d =
     (let (child, d') = tool_call_of (CopyText contents) (\<lambda>n. dt_copy T n contents) d
      in (case cr_spawn child of
            Some e \<Rightarrow> Inl e
          | None \<Rightarrow>
              if \<not> cr_stdin child then Inl ''wl-copy stdin is unavailable''
              else (case cr_write_all child of
                      Some e \<Rightarrow> Inl e
                    | None \<Rightarrow>
                        (case cr_wait child of
                           Inl e \<Rightarrow> Inl e
                         | Inr run \<Rightarrow>
                             if tr_success run then Inr ()
                             else Inl (''wl-copy failed with '' @ tr_status run))), d'))"

definition send_paste_chord :: "desktop_tools \<Rightarrow> unit desktop_op" where
  "send_paste_chord T =
     seq (tool_call_of PasteChord (dt_chord T)) (\<lambda>run.
       if tr_success run then give () else raise (''ydotool failed with '' @ tr_status run))"

section \<open>Insertion through the clipboard\<close>

definition take_snapshot ::
  "desktop_tools \<Rightarrow> clipboard_inserter \<Rightarrow> clipboard_snapshot option desktop_op" where
  "take_snapshot T ci =
     (if ci_restore_clipboard ci
      then seq (read_clipboard_snapshot T) (\<lambda>snapshot.
             if snapshot = SnapUnsupported
             then raise ''clipboard contains non-text data that VoxType cannot restore safely''
             else give (Some snapshot))
      else give None)"

text \<open>Restoring gives whether it succeeded; an error of wl-copy is a failure to restore.\<close>

definition restore_snapshot ::
  "desktop_tools \<Rightarrow> clipboard_snapshot option \<Rightarrow> bool desktop_op" where
  "restore_snapshot T previous =
     (case previous of
        Some (SnapText contents) \<Rightarrow>
          (\<lambda>d. let (r, d') = write_clipboard T contents d in (Inr (is_ok r), d'))
      | Some SnapEmpty \<Rightarrow> clear_clipboard T
      | Some SnapUnsupported \<Rightarrow> give False
      | None \<Rightarrow> give False)"

definition thread_sleep :: "nat \<Rightarrow> unit desktop_op" where
  "thread_sleep delay = tool_call_of (Sleep delay) (\<lambda>_. Inr ())"

definition clipboard_insert ::
  "desktop_tools \<Rightarrow> clipboard_inserter \<Rightarrow> utext \<Rightarrow> insertion_result desktop_op" where
  "clipboard_insert T ci t =
     (if t = [] then raise ''refusing to insert empty text''
      else
      seq (take_snapshot T ci) (\<lambda>previous.
      seq (write_clipboard T (utf8_bytes t)) (\<lambda>_.
      seq (send_paste_chord T) (\<lambda>_.
      seq (thread_sleep (ci_restore_delay ci)) (\<lambda>_.
      seq (if ci_restore_clipboard ci
           then seq (clipboard_matches T (utf8_bytes t)) (\<lambda>ours.
                  if ours then restore_snapshot T previous else give False)
           else give False) (\<lambda>restored.
        give \<lparr> ir_clipboard_restored = restored, ir_backend = ''wl-copy+ydotool'' \<rparr>))))))"

definition clipboard_copy :: "desktop_tools \<Rightarrow> utext \<Rightarrow> insertion_result desktop_op" where
  "clipboard_copy T t =
     (if t = [] then raise ''refusing to copy empty text''
      else seq (write_clipboard T (utf8_bytes t)) (\<lambda>_.
             give \<lparr> ir_clipboard_restored = False, ir_backend = ''copy-only'' \<rparr>))"

section \<open>The insertion adapter\<close>

type_synonym 'a adapter_op = "(desktop, vox_error, 'a) eff"

definition desktop_inserter :: "bool \<Rightarrow> clipboard_inserter" where
  "desktop_inserter restore = with_restore restore clipboard_inserter_default"

definition may_auto_fallback_from_fcitx :: "vox_error \<Rightarrow> bool" where
  "may_auto_fallback_from_fcitx e \<longleftrightarrow>
     err_code e = ''fcitx.transport_failed'' \<or> err_code e = ''fcitx.runtime_unavailable''"

definition arm_backend :: "fcitx_world \<Rightarrow> insertion_mode \<Rightarrow> session_id \<Rightarrow> string adapter_op" where
  "arm_backend W mode session =
     (case mode of
        ModeAuto \<Rightarrow>
          (\<lambda>d. case bridge_arm W session d of
             (Inr _, d') \<Rightarrow> (Inr ''fcitx5'', d')
           | (Inl e, d') \<Rightarrow>
               if may_auto_fallback_from_fcitx e then (Inr ''copy-only'', d') else (Inl e, d'))
      | ModeFcitx \<Rightarrow> seq (bridge_arm W session) (\<lambda>_. give ''fcitx5'')
      | ModeClipboard \<Rightarrow> give ''wl-copy+ydotool''
      | ModeCopy \<Rightarrow> give ''copy-only'')"

definition adapter_arm ::
  "fcitx_world \<Rightarrow> insertion_mode \<Rightarrow> session_id \<Rightarrow> insertion_arm adapter_op" where
  "adapter_arm W mode session =
     seq (arm_backend W mode session) (\<lambda>backend.
       give \<lparr> ia_session = session, ia_backend = backend \<rparr>)"

text \<open>The mapping of a clipboard result to the outcome and to an error of the adapter.\<close>

definition clipboard_outcome ::
  "string \<Rightarrow> insertion_result desktop_op \<Rightarrow> insertion_outcome adapter_op" where
  "clipboard_outcome code operation d =
     (case operation d of
        (Inr result, d') \<Rightarrow>
          (Inr \<lparr> io_backend = ir_backend result,
                 io_clipboard_restored = ir_clipboard_restored result \<rparr>, d')
      | (Inl message, d') \<Rightarrow> (Inl (vox_error_new EcUnavailable code message), d'))"

definition adapter_commit ::
  "fcitx_world \<Rightarrow> desktop_tools \<Rightarrow> clipboard_inserter \<Rightarrow> insertion_arm \<Rightarrow> utext \<Rightarrow>
   insertion_outcome adapter_op" where
  "adapter_commit W T ci arm t =
     (if ia_backend arm = ''fcitx5''
      then seq (bridge_commit W (ia_session arm) t) (\<lambda>_.
             give \<lparr> io_backend = ''fcitx5'', io_clipboard_restored = True \<rparr>)
      else if ia_backend arm = ''wl-copy+ydotool''
      then clipboard_outcome ''desktop.insertion_failed'' (clipboard_insert T ci t)
      else if ia_backend arm = ''copy-only''
      then clipboard_outcome ''desktop.copy_failed'' (clipboard_copy T t)
      else raise (vox_error_new EcInvalidState ''desktop.invalid_arm''
                    ''insertion arm selected an unknown backend''))"

definition adapter_cancel :: "fcitx_world \<Rightarrow> insertion_arm \<Rightarrow> unit adapter_op" where
  "adapter_cancel W arm =
     (if ia_backend arm = ''fcitx5'' then bridge_cancel W (ia_session arm) else give ())"

definition insert_diagnostic ::
  "desktop_tools \<Rightarrow> clipboard_inserter \<Rightarrow> utext \<Rightarrow> insertion_outcome adapter_op" where
  "insert_diagnostic T ci t =
     clipboard_outcome ''desktop.insertion_failed'' (clipboard_insert T ci t)"

end
