(* ===== verification/Fcitx_Props.thy ===== *)
theory Fcitx_Props
  imports Fcitx
begin

text \<open>
  What the Fcitx client guarantees: the fields of a message, the bounds of a parsed context, and
  the datagrams that a commit sends.
\<close>

section \<open>Fields\<close>

section \<open>Frames of a request\<close>

lemma io_step_simps [simp]:
  "io_step None c = (Inr (), c)" "io_step (Some m) c = (Inl (transport_io m), c)"
  by (simp_all add: io_step_def)

lemma from_result_simps [simp]:
  "from_result (Inl e) c = (Inl e, c)" "from_result (Inr a) c = (Inr a, c)"
  by (simp_all add: from_result_def)

text \<open>Whether the n-th request for a message gets to its socket, and the answer that it receives.\<close>

definition reaches_socket :: "fcitx_world \<Rightarrow> nat \<Rightarrow> bool" where
  "reaches_socket W n \<longleftrightarrow> fw_create_dir W n = None \<and> fw_bind W n = None \<and> fw_set_timeout W n = None"

definition answer :: "fcitx_world \<Rightarrow> nat \<Rightarrow> bytes \<Rightarrow> bytes option" where
  "answer W n message =
     (if reaches_socket W n \<and> fw_send_to W n message = None
      then case fw_recv W n message of Inl _ \<Rightarrow> None | Inr r \<Rightarrow> Some (take (20 * 1024) r)
      else None)"

definition reached :: "fcitx_world \<Rightarrow> nat \<Rightarrow> bytes \<Rightarrow> bytes list" where
  "reached W n message = (if reaches_socket W n then [message] else [])"

lemma request_message_facts:
  "(case fst (request_message_at W m c) of
      Inr r \<Rightarrow> answer W (fc_requests c) m = Some r
    | Inl e \<Rightarrow> answer W (fc_requests c) m = None \<and> err_code e = ''fcitx.transport_failed'') \<and>
   fc_sent (snd (request_message_at W m c)) = fc_sent c @ reached W (fc_requests c) m \<and>
   fc_requests (snd (request_message_at W m c)) = fc_requests c + 1 \<and>
   set (fc_paths (snd (request_message_at W m c))) \<subseteq> set (fc_paths c) \<and>
   fcitx_client.more (snd (request_message_at W m c)) = fcitx_client.more c"
  by (cases "fw_create_dir W (fc_requests c)"; cases "fw_bind W (fc_requests c)";
      cases "fw_set_timeout W (fc_requests c)"; cases "fw_send_to W (fc_requests c) m";
      cases "fw_recv W (fc_requests c) m")
     (auto simp: request_message_at_def seq_def fetch_counter_def with_socket_def send_to_def
       receive_def answer_def reached_def reaches_socket_def transport_io_def Let_def)

lemma request_message_cases:
  assumes "request_message_at W m c = (r, c')"
  shows "(\<exists>a. r = Inr a \<and> answer W (fc_requests c) m = Some a) \<or>
         (\<exists>e. r = Inl e \<and> answer W (fc_requests c) m = None \<and>
              err_code e = ''fcitx.transport_failed'')"
    and "fc_sent c' = fc_sent c @ reached W (fc_requests c) m"
    and "fc_requests c' = fc_requests c + 1"
    and "set (fc_paths c') \<subseteq> set (fc_paths c)"
    and "fcitx_client.more c' = fcitx_client.more c"
  using request_message_facts[of W c m] assms by (auto split: sum.splits)

lemma reached_cases: "reached W n m = [] \<or> reached W n m = [m]"
  by (simp add: reached_def)

section \<open>Requests\<close>

text \<open>A request is refused before anything is sent, or is the exchange of its message.\<close>

lemma request_cases:
  assumes "request W parts c = (r, c')"
  obtains (refused) e where "r = Inl e" "c' = c"
      "\<not> fw_runtime_set W \<or> max_message < length (join_elem 0 parts)"
    | (sent) "request_message_at W (join_elem 0 parts) c = (r, c')" "fw_runtime_set W"
  using assms
  by (auto simp: request_def runtime_dir_def encode_message_def Let_def seq_def split: if_splits)

lemma request_with_retry_cases:
  assumes "request_with_retry W parts c = (r, c')"
  obtains (refused) e where "r = Inl e" "c' = c"
    | (once) "request_message_at W (join_elem 0 parts) c = (r, c')"
    | (twice) e d where "request_message_at W (join_elem 0 parts) c = (Inl e, d)"
        "request_message_at W (join_elem 0 parts) d = (r, c')"
  using assms
  by (auto simp: request_with_retry_def retry_message_def runtime_dir_def encode_message_def
      Let_def seq_def split: if_splits prod.splits sum.splits)

lemma request_sends:
  assumes "request W parts c = (r, c')"
  defines "m \<equiv> join_elem 0 parts"
  shows "\<exists>ls. fc_sent c' = fc_sent c @ ls \<and> set ls \<subseteq> {m} \<and> length ls \<le> 1"
    and "r = Inr a \<Longrightarrow> answer W (fc_requests c) m = Some a"
    and "fcitx_client.more c' = fcitx_client.more c"
proof -
  have "(\<exists>ls. fc_sent c' = fc_sent c @ ls \<and> set ls \<subseteq> {m} \<and> length ls \<le> 1) \<and>
        (r = Inr a \<longrightarrow> answer W (fc_requests c) m = Some a) \<and>
        fcitx_client.more c' = fcitx_client.more c"
    using assms(1)
  proof (cases rule: request_cases)
    case sent
    from request_message_cases[OF this(1)] reached_cases[of W "fc_requests c" m] show ?thesis
      unfolding m_def[symmetric] by auto
  qed auto
  then show "\<exists>ls. fc_sent c' = fc_sent c @ ls \<and> set ls \<subseteq> {m} \<and> length ls \<le> 1"
    and "r = Inr a \<Longrightarrow> answer W (fc_requests c) m = Some a"
    and "fcitx_client.more c' = fcitx_client.more c"
    by blast+
qed

lemma retry_sends:
  assumes "request_with_retry W parts c = (r, c')"
  defines "m \<equiv> join_elem 0 parts" and "n \<equiv> fc_requests c"
  shows "\<exists>ms. fc_sent c' = fc_sent c @ ms \<and> set ms \<subseteq> {m} \<and> length ms \<le> 2 \<and>
              (length ms = 2 \<longrightarrow> answer W n m = None)"
    and "r = Inr a \<Longrightarrow> \<exists>i. n \<le> i \<and> i < fc_requests c' \<and> fc_requests c' \<le> n + 2 \<and>
                          answer W i m = Some a"
    and "fcitx_client.more c' = fcitx_client.more c"
proof -
  have "(\<exists>ms. fc_sent c' = fc_sent c @ ms \<and> set ms \<subseteq> {m} \<and> length ms \<le> 2 \<and>
              (length ms = 2 \<longrightarrow> answer W n m = None)) \<and>
        (r = Inr a \<longrightarrow> (\<exists>i. n \<le> i \<and> i < fc_requests c' \<and> fc_requests c' \<le> n + 2 \<and>
                          answer W i m = Some a)) \<and>
        fcitx_client.more c' = fcitx_client.more c"
    using assms(1)
  proof (cases rule: request_with_retry_cases)
    case once
    from request_message_cases[OF this] reached_cases[of W n m] show ?thesis
      unfolding m_def[symmetric] n_def[symmetric] by auto
  next
    case (twice e d)
    note first = request_message_cases[OF twice(1), folded m_def n_def]
      and second = request_message_cases[OF twice(2), folded m_def n_def]
    have "answer W n m = None" using first(1) by blast
    moreover have "fc_sent c' = fc_sent c @ reached W n m @ reached W (n + 1) m"
      using first(2) second(2) first(3) by simp
    moreover have "r = Inr a \<longrightarrow> answer W (n + 1) m = Some a" and "fc_requests c' = n + 2"
      using second(1,3) first(3) by auto
    ultimately show ?thesis
      using reached_cases[of W n m] reached_cases[of W "n + 1" m] first(5) second(5)
      by (auto intro!: exI[of _ "n + 1"])
  qed auto
  then show "\<exists>ms. fc_sent c' = fc_sent c @ ms \<and> set ms \<subseteq> {m} \<and> length ms \<le> 2 \<and>
              (length ms = 2 \<longrightarrow> answer W n m = None)"
    and "r = Inr a \<Longrightarrow> \<exists>i. n \<le> i \<and> i < fc_requests c' \<and> fc_requests c' \<le> n + 2 \<and>
                          answer W i m = Some a"
    and "fcitx_client.more c' = fcitx_client.more c"
    by blast+
qed

section \<open>Contexts\<close>

lemma utf8_step_scalar: "utf8_step bs = Some (c, rest) \<Longrightarrow> list_all (\<lambda>b. b < 256) bs \<Longrightarrow> is_scalar c"
  by (cases bs) (auto simp: Let_def is_scalar_def continuation_def split: if_splits list.splits)

lemma utf8_step_rest:
  "utf8_step bs = Some (c, rest) \<Longrightarrow> list_all P bs \<Longrightarrow> list_all P rest"
  by (cases bs) (auto simp: Let_def split: if_splits list.splits)

lemma utf8_decode_scalars:
  "utf8_decode bs = Some t \<Longrightarrow> list_all (\<lambda>b. b < 256) bs \<Longrightarrow> list_all is_scalar t"
proof (induction bs arbitrary: t rule: utf8_decode.induct)
  case (1 bs)
  show ?case
  proof (cases "bs = []")
    case True
    then show ?thesis using 1 by (simp add: utf8_decode.simps)
  next
    case False
    with 1(2) obtain c rest u where "utf8_step bs = Some (c, rest)" "utf8_decode rest = Some u"
        "t = c # u"
      by (subst (asm) utf8_decode.simps) (auto split: option.splits)
    then show ?thesis
      using 1(1)[OF False _ refl] 1(3) utf8_step_scalar utf8_step_rest by (metis list.pred_inject(2))
  qed
qed

lemma from_utf8_scalars: "from_utf8 bs = Some t \<Longrightarrow> list_all is_scalar t"
  unfolding from_utf8_def
  by (rule utf8_decode_scalars) (auto simp: list_all_iff intro: unsigned_less[where 'b = 8, simplified])

lemma identity_nonempty: "parse_identity_field f = Inr t \<Longrightarrow> t \<noteq> []"
  by (auto simp: parse_identity_field_def unknown_identity_def text_of_def
      split: option.splits if_splits)

lemma context_parts:
  assumes "parse_context_response r = Inr c"
  shows "parse_identity_field (field_at 2 r) = Inr (ft_program (fx_target c))"
    and "parse_identity_field (field_at 3 r) = Inr (ft_frontend (fx_target c))"
    and "parse_capabilities (field_at 7 r) = Inr (fx_capabilities c)"
    and "parse_utf8 (field_at 9 r) ''surrounding text'' = Inr (fx_text c)"
    and "fx_cursor c \<le> length (fx_text c)" "fx_anchor c \<le> length (fx_text c)"
    and "length (fx_text c) \<le> 4096"
  using assms
  by (auto simp: parse_context_response_def try_then_ok_iff split: if_splits)

lemma slice_split:
  "s \<le> e \<Longrightarrow> e \<le> length t \<Longrightarrow> t = take s t @ slice_characters t s e @ drop e t"
proof -
  assume "s \<le> e" "e \<le> length t"
  then have "slice_characters t s e @ drop e t = drop s t"
    using append_take_drop_id[of "e - s" "drop s t"] by (simp add: slice_characters_def)
  then show ?thesis by simp
qed

lemma slice_length: "s \<le> e \<Longrightarrow> e \<le> length t \<Longrightarrow> length (slice_characters t s e) = e - s"
  by (simp add: slice_characters_def)

text \<open>
  C37: A context that the client accepts is well formed: its text is at most 4096 Unicode scalar
  values, the cursor and the anchor are positions of it, the names of the program and of the
  frontend are not empty and no capability is empty or holds a comma. The text offered for review
  is a contiguous part of it: the selection when there is one, and otherwise the text that ends
  at the cursor, of at most 1200 characters.
\<close>

theorem accepted_context_well_formed:
  assumes "parse_context_response r = Inr c"
  shows "length (fx_text c) \<le> 4096 \<and> list_all is_scalar (fx_text c) \<and>
         fx_cursor c \<le> length (fx_text c) \<and> fx_anchor c \<le> length (fx_text c) \<and>
         ft_program (fx_target c) \<noteq> [] \<and> ft_frontend (fx_target c) \<noteq> [] \<and>
         list_all (\<lambda>v. v \<noteq> [] \<and> 0x2C \<notin> set v) (fx_capabilities c) \<and>
         (\<exists>before after. fx_text c = before @ review_text c @ after \<and>
            length before + length (review_text c) = max (fx_cursor c) (fx_anchor c) \<and>
            length (review_text c) =
              (if fx_cursor c = fx_anchor c then min (fx_cursor c) 1200
               else max (fx_cursor c) (fx_anchor c) - min (fx_cursor c) (fx_anchor c)))"
proof -
  note parts = context_parts[OF assms]
  define s where "s = (if fx_cursor c = fx_anchor c then fx_cursor c - 1200
                       else min (fx_cursor c) (fx_anchor c))"
  define e where "e = max (fx_cursor c) (fx_anchor c)"
  have review: "review_text c = slice_characters (fx_text c) s e" and bounds: "s \<le> e" "e \<le> length (fx_text c)"
    using parts(5,6) by (auto simp: review_text_def s_def e_def Let_def)
  have "list_all is_scalar (fx_text c)"
    using parts(4) by (auto simp: parse_utf8_def from_utf8_scalars split: option.splits)
  moreover have "list_all (\<lambda>v. v \<noteq> [] \<and> 0x2C \<notin> set v) (fx_capabilities c)"
  proof -
    obtain a where a: "filter (\<lambda>v. v \<noteq> []) (split_elem 0x2C a) = fx_capabilities c"
      using parts(3) by (auto simp: parse_capabilities_def try_then_ok_iff)
    show ?thesis unfolding a[symmetric] by (auto simp: list_all_iff dest: split_elem_pieces)
  qed
  moreover have "\<exists>before after. fx_text c = before @ review_text c @ after \<and>
      length before + length (review_text c) = e \<and> length (review_text c) = e - s"
    using slice_split[OF bounds] slice_length[OF bounds] bounds
    by (simp only: review)
       (rule exI[of _ "take s (fx_text c)"], rule exI[of _ "drop e (fx_text c)"], simp)
  moreover have "e - s = (if fx_cursor c = fx_anchor c then min (fx_cursor c) 1200
               else max (fx_cursor c) (fx_anchor c) - min (fx_cursor c) (fx_anchor c))"
    by (auto simp: s_def e_def)
  ultimately show ?thesis
    using parts identity_nonempty unfolding e_def[symmetric] by metis
qed

text \<open>The snapshot of the unit tests, with its selection.\<close>

definition demo_context_response :: bytes where
  "demo_context_response =
     join_elem 0 [ascii ''OK'', ascii ''context'', ascii ''kate'', ascii ''wayland'', ascii ''42'',
       ascii ''3'', ascii ''1'', ascii ''surrounding-text,multiline'', ascii ''0'',
       utf8_bytes [97, 98, 99, 0x4E2D]]"

definition demo_context :: fcitx_context where
  "demo_context =
     \<lparr> fx_target = \<lparr> ft_program = text_of ''kate'', ft_frontend = text_of ''wayland'' \<rparr>,
       fx_generation = 42, fx_cursor = 3, fx_anchor = 1,
       fx_capabilities = [text_of ''surrounding-text'', text_of ''multiline''],
       fx_truncated = False, fx_text = [97, 98, 99, 0x4E2D] \<rparr>"

lemma utf8_decode_step:
  "utf8_decode [] = Some []"
  "utf8_decode (b # bs) = (case utf8_step (b # bs) of
     None \<Rightarrow> None | Some (c, rest) \<Rightarrow> map_option (\<lambda>t. c # t) (utf8_decode rest))"
  by (subst utf8_decode.simps, simp)+

lemma demo_fields:
  "split_elem 0 demo_context_response =
     [ascii ''OK'', ascii ''context'', ascii ''kate'', ascii ''wayland'', ascii ''42'',
       ascii ''3'', ascii ''1'', ascii ''surrounding-text,multiline'', ascii ''0'',
       utf8_bytes [97, 98, 99, 0x4E2D]]"
  unfolding demo_context_response_def
  by (rule split_join) (simp_all add: ascii_def utf8_bytes_def utf8_encode_def utf8_char_def)

lemma demo_context_parses: "parse_context_response demo_context_response = Inr demo_context"
  by (simp add: parse_context_response_def expect_ok_def field_at_def demo_fields
      parse_identity_field_def parse_number_def parse_utf8_def parse_capabilities_def
      parse_truncated_def from_utf8_def utf8_decode_step ascii_def utf8_bytes_def utf8_encode_def
      utf8_char_def continuation_def is_scalar_def parse_u64_def parse_uint_def digit_val_def
      demo_context_def text_of_def char_of_eq_iff Let_def)

theorem accepted_context_well_formed_witness:
  "length (fx_text demo_context) \<le> 4096 \<and> review_text demo_context = [98, 99]"
  using accepted_context_well_formed[OF demo_context_parses]
  by (simp add: review_text_def demo_context_def slice_characters_def)

section \<open>Commits\<close>

lemma expect_ok_cases:
  "expect_ok a = Inr () \<longleftrightarrow> field_at 0 a = Some (ascii ''OK'')"
  "expect_ok a = Inl e \<Longrightarrow> unknown_command e \<Longrightarrow>
     field_at 0 a \<noteq> Some (ascii ''OK'') \<and> contains ''unknown-command'' (rejection_code a)"
  by (auto simp: expect_ok_def Let_def unknown_command_def split: if_splits)

text \<open>The confirmation of a commit, with the identifier of the request when it has one.\<close>

definition confirms :: "string option \<Rightarrow> bytes \<Rightarrow> bool" where
  "confirms request_id a \<longleftrightarrow>
     field_at 0 a = Some (ascii ''OK'') \<and>
     field_at 1 a \<in> {Some (ascii ''dispatched''), Some (ascii ''committed'')} \<and>
     (\<forall>k. request_id = Some k \<longrightarrow> Option.bind (field_at 2 a) from_utf8 = Some (text_of k))"

lemma expect_dispatched_ok: "expect_dispatched a = Inr () \<longleftrightarrow> confirms None a"
  by (auto simp: expect_dispatched_def try_then_ok_iff confirms_def dispatch_confirmed_def
      expect_ok_cases)

lemma expect_dispatched_for_ok: "expect_dispatched_for a k = Inr () \<longleftrightarrow> confirms (Some k) a"
  by (auto simp: expect_dispatched_for_def try_then_ok_iff confirms_def dispatch_confirmed_def
      expect_ok_cases)

lemma expect_dispatched_for_unknown:
  assumes "expect_dispatched_for a k = Inl e" and "unknown_command e"
  shows "field_at 0 a \<noteq> Some (ascii ''OK'') \<and> contains ''unknown-command'' (rejection_code a)"
proof -
  have "expect_ok a = Inl e"
    using assms by (cases "expect_ok a")
      (auto simp: expect_dispatched_for_def unknown_command_def split: if_splits)
  then show ?thesis using expect_ok_cases(2) assms(2) by blast
qed

definition legacy_message :: "session_id \<Rightarrow> utext \<Rightarrow> bytes" where
  "legacy_message session t = join_elem 0 [ascii ''COMMIT'', session_bytes session, utf8_bytes t]"

definition commit_message :: "fcitx_world \<Rightarrow> 'x fcitx_client_scheme \<Rightarrow> session_id \<Rightarrow> utext \<Rightarrow> bytes" where
  "commit_message W c session t =
     join_elem 0 (commit_parts (request_id_of W (fc_counter c)) session t)"

lemma fetch_counter_simps [simp]:
  "fetch_counter c = (Inr (fc_counter c), c\<lparr> fc_counter := fc_counter c + 1 \<rparr>)"
  by (simp add: fetch_counter_def)

text \<open>A commit ends with the answer to its message, or with the answer to the older command.\<close>

lemma bridge_commit_cases:
  assumes "bridge_commit W session t c = (r, c')"
  defines "c1 \<equiv> c\<lparr> fc_counter := fc_counter c + 1 \<rparr>"
    and "k \<equiv> request_id_of W (fc_counter c)"
  obtains (failed) e where "request_with_retry W (commit_parts k session t) c1 = (Inl e, c')" "r = Inl e"
    | (answered) a where "request_with_retry W (commit_parts k session t) c1 = (Inr a, c')"
        "r = expect_dispatched_for a k"
    | (legacy) a d e where "request_with_retry W (commit_parts k session t) c1 = (Inr a, d)"
        "expect_dispatched_for a k = Inl e" "unknown_command e"
        "legacy_commit W session t d = (r, c')"
proof (cases "request_with_retry W (commit_parts k session t) c1")
  case (Pair q d)
  show thesis
  proof (cases q)
    case (Inl e)
    then show thesis using assms(1) Pair failed
      by (simp add: bridge_commit_def seq_def c1_def[symmetric] k_def[symmetric])
  next
    case (Inr a)
    with assms(1) Pair have "(case expect_dispatched_for a k of
         Inr _ \<Rightarrow> give ()
       | Inl e \<Rightarrow> if unknown_command e then legacy_commit W session t else raise e) d = (r, c')"
      by (simp add: bridge_commit_def seq_def c1_def[symmetric] k_def[symmetric])
    then show thesis
      using Pair Inr answered[of a] legacy[of a d]
      by (cases "expect_dispatched_for a k") (auto split: if_splits)
  qed
qed

text \<open>
  C26: A commit through the Fcitx bridge sends its message once, and a second time, byte for byte
  the same with the same request identifier, only when the first exchange got no answer; it sends
  the older command at most once, and only after an answer that rejects the newer one as unknown.
  It reports success only when an answer of the bridge confirms the dispatch, and for the newer
  command only when the answer names this request. So a lost answer is never mistaken for a
  dispatch, and no other failure sends the text again.
\<close>

theorem fcitx_commit_evidence:
  assumes "bridge_commit W session t c = (r, c')"
  shows "\<exists>ms ls. fc_sent c' = fc_sent c @ ms @ ls \<and>
     set ms \<subseteq> {commit_message W c session t} \<and> length ms \<le> 2 \<and>
     (length ms = 2 \<longrightarrow> answer W (fc_requests c) (commit_message W c session t) = None) \<and>
     set ls \<subseteq> {legacy_message session t} \<and> length ls \<le> 1 \<and>
     (ls \<noteq> [] \<longrightarrow> (\<exists>i a. answer W i (commit_message W c session t) = Some a \<and>
         field_at 0 a \<noteq> Some (ascii ''OK'') \<and> contains ''unknown-command'' (rejection_code a))) \<and>
     (r = Inr () \<longrightarrow> (\<exists>i a.
         answer W i (commit_message W c session t) = Some a \<and>
           confirms (Some (request_id_of W (fc_counter c))) a \<or>
         answer W i (legacy_message session t) = Some a \<and> confirms None a))"
  using assms
proof (cases rule: bridge_commit_cases)
  case (failed e)
  obtain ms where ms: "fc_sent c' = fc_sent c @ ms" "set ms \<subseteq> {commit_message W c session t}"
      "length ms \<le> 2"
      "length ms = 2 \<longrightarrow> answer W (fc_requests c) (commit_message W c session t) = None"
    using retry_sends(1)[OF failed(1), folded commit_message_def] by auto
  show ?thesis by (rule exI[of _ ms], rule exI[of _ "[]"]) (use ms failed(2) in simp)
next
  case (answered a)
  obtain i where "answer W i (commit_message W c session t) = Some a"
    using retry_sends(2)[OF answered(1) refl, folded commit_message_def] by blast
  moreover obtain ms where ms: "fc_sent c' = fc_sent c @ ms"
      "set ms \<subseteq> {commit_message W c session t}" "length ms \<le> 2"
      "length ms = 2 \<longrightarrow> answer W (fc_requests c) (commit_message W c session t) = None"
    using retry_sends(1)[OF answered(1), folded commit_message_def] by auto
  moreover have "r = Inr () \<longrightarrow> confirms (Some (request_id_of W (fc_counter c))) a"
    using answered(2) expect_dispatched_for_ok by simp
  ultimately show ?thesis
    by (intro exI[of _ ms] exI[of _ "[] :: bytes list"]) auto
next
  case (legacy a d e)
  obtain i where i: "answer W i (commit_message W c session t) = Some a"
    using retry_sends(2)[OF legacy(1) refl, folded commit_message_def] by blast
  have unknown: "field_at 0 a \<noteq> Some (ascii ''OK'') \<and> contains ''unknown-command'' (rejection_code a)"
    by (rule expect_dispatched_for_unknown[OF legacy(2,3)])
  obtain q u where q: "request W [ascii ''COMMIT'', session_bytes session, utf8_bytes t] d = (q, u)"
    by fastforce
  then have u: "u = c'" and r: "r = (case q of Inl e \<Rightarrow> Inl e | Inr b \<Rightarrow> expect_dispatched b)"
    using legacy(4) by (auto simp: legacy_commit_def seq_def from_result_def split: sum.splits)
  have "\<exists>b. answer W (fc_requests d) (legacy_message session t) = Some b \<and> confirms None b"
    if "r = Inr ()"
    using that r request_sends(2)[OF q, folded legacy_message_def] expect_dispatched_ok
    by (auto split: sum.splits)
  moreover obtain ms where ms: "fc_sent d = fc_sent c @ ms"
      "set ms \<subseteq> {commit_message W c session t}" "length ms \<le> 2"
      "length ms = 2 \<longrightarrow> answer W (fc_requests c) (commit_message W c session t) = None"
    using retry_sends(1)[OF legacy(1), folded commit_message_def] by auto
  moreover obtain ls where ls: "fc_sent c' = fc_sent d @ ls" "set ls \<subseteq> {legacy_message session t}"
      "length ls \<le> 1"
    using request_sends(1)[OF q, folded legacy_message_def] u by blast
  ultimately show ?thesis
    using i unknown by (intro exI[of _ ms] exI[of _ ls] conjI) auto
qed

text \<open>A bridge whose first answer is lost.\<close>

definition demo_confirmation :: bytes where
  "demo_confirmation = join_elem 0 [ascii ''OK'', ascii ''dispatched'', ascii ''7-1'']"

definition demo_bridge :: fcitx_world where
  "demo_bridge =
     \<lparr> fw_runtime_set = True, fw_pid = 7, fw_create_dir = (\<lambda>_. None), fw_bind = (\<lambda>_. None),
       fw_set_timeout = (\<lambda>_. None), fw_send_to = (\<lambda>_ _. None),
       fw_recv = (\<lambda>n _. if n = 0 then Inl ''timed out'' else Inr demo_confirmation) \<rparr>"

definition demo_client :: fcitx_client where
  "demo_client = \<lparr> fc_counter = 1, fc_requests = 0, fc_sent = [], fc_paths = [] \<rparr>"

lemma small_show_nat: "n < 10 \<Longrightarrow> show_nat n = [digit_char n]"
  by (subst show_nat.simps) simp

lemma demo_confirmation_fields:
  "split_elem 0 demo_confirmation = [ascii ''OK'', ascii ''dispatched'', ascii ''7-1'']"
  unfolding demo_confirmation_def by (rule split_join) (simp_all add: ascii_def)

lemma demo_confirms: "confirms (Some ''7-1'') demo_confirmation"
  by (simp add: confirms_def field_at_def demo_confirmation_fields Let_def)
     (simp add: from_utf8_def utf8_decode_step ascii_def text_of_def)

lemma demo_confirmation_short: "take 20480 demo_confirmation = demo_confirmation"
  by (simp add: demo_confirmation_def ascii_def)

lemma demo_request:
  "request_message_at demo_bridge m c =
     (if fc_requests c = 0 then Inl (transport_io ''timed out'') else Inr demo_confirmation,
      c\<lparr> fc_counter := fc_counter c + 1, fc_requests := fc_requests c + 1,
         fc_sent := fc_sent c @ [m],
         fc_paths := removeAll (client_path demo_bridge (fc_counter c)) (fc_paths c) \<rparr>)"
  by (simp add: request_message_at_def seq_def with_socket_def send_to_def receive_def
      demo_bridge_def demo_confirmation_short Let_def)

lemma demo_request_id: "request_id_of demo_bridge (fc_counter demo_client) = ''7-1''"
  by (simp add: request_id_of_def demo_bridge_def demo_client_def small_show_nat digit_char_def
      char_of_eq_iff)

lemma demo_message_length:
  "length (commit_message demo_bridge demo_client (from_counter 1) [104]) \<le> max_message"
  by (simp add: commit_message_def commit_parts_def demo_request_id ascii_def session_bytes_def
      from_counter_def small_show_nat utf8_bytes_def utf8_encode_def utf8_char_def max_message_def)

lemma demo_commit:
  "fst (bridge_commit demo_bridge (from_counter 1) [104] demo_client) = Inr ()"
proof -
  let ?c = "demo_client\<lparr> fc_counter := fc_counter demo_client + 1 \<rparr>"
  have "encode_message (commit_parts ''7-1'' (from_counter 1) [104]) =
      Inr (commit_message demo_bridge demo_client (from_counter 1) [104])"
    using demo_message_length
    by (simp add: encode_message_def commit_message_def demo_request_id Let_def)
  then have "fst (request_with_retry demo_bridge (commit_parts ''7-1'' (from_counter 1) [104]) ?c) =
      Inr demo_confirmation"
    by (simp add: request_with_retry_def seq_def runtime_dir_def retry_message_def demo_request
        demo_bridge_def[THEN arg_cong, of fw_runtime_set] transport_io_def demo_client_def)
  moreover have "expect_dispatched_for demo_confirmation ''7-1'' = Inr ()"
    using demo_confirms expect_dispatched_for_ok by blast
  ultimately show ?thesis
    by (cases "request_with_retry demo_bridge (commit_parts ''7-1'' (from_counter 1) [104]) ?c")
      (simp add: bridge_commit_def seq_def demo_request_id)
qed

theorem fcitx_commit_evidence_witness:
  "\<exists>i. answer demo_bridge i (commit_message demo_bridge demo_client (from_counter 1) [104]) \<noteq> None \<or>
       answer demo_bridge i (legacy_message (from_counter 1) [104]) \<noteq> None"
  using fcitx_commit_evidence[OF prod.collapse[symmetric],
      of demo_bridge "from_counter 1" "[104]" demo_client] demo_commit by auto

end
