(* ===== verification/Desktop_Props.thy ===== *)
theory Desktop_Props
  imports Desktop Fcitx_Props
begin

text \<open>
  What the insertion adapter guarantees: a text goes only down the path that was armed for it, and
  the clipboard is overwritten and restored only where its contents are known.
\<close>

section \<open>Tool calls\<close>

text \<open>The operation makes these calls, one after the other, and leaves the Fcitx client alone.\<close>

definition calls :: "desktop \<Rightarrow> tool_call list \<Rightarrow> desktop \<Rightarrow> bool" where
  "calls d new d' \<longleftrightarrow>
     dk_calls d' = dk_calls d @ new \<and> fc_sent d' = fc_sent d \<and> fc_requests d' = fc_requests d"

lemma calls_Nil [simp]: "calls d [] d"
  by (simp add: calls_def)

lemma calls_append: "calls d xs d' \<Longrightarrow> calls d' ys d'' \<Longrightarrow> calls d (xs @ ys) d''"
  by (simp add: calls_def)

lemma calls_length: "calls d xs d' \<Longrightarrow> length (dk_calls d') = length (dk_calls d) + length xs"
  by (simp add: calls_def)

lemma tool_call_calls:
  "tool_call_of call f d = (r, d') \<Longrightarrow> calls d [call] d' \<and> r = f (length (dk_calls d))"
  by (auto simp: tool_call_of_def calls_def)

lemma write_clipboard_calls: "write_clipboard T c d = (r, d') \<Longrightarrow> calls d [CopyText c] d'"
  by (auto simp: write_clipboard_def Let_def split: prod.splits dest: tool_call_calls)

lemma clear_clipboard_calls:
  "clear_clipboard T d = (r, d') \<Longrightarrow> calls d [ClearClipboard] d' \<and> (\<exists>b. r = Inr b)"
  by (auto simp: clear_clipboard_def split: prod.splits sum.splits dest: tool_call_calls)

lemma chord_calls: "send_paste_chord T d = (r, d') \<Longrightarrow> calls d [PasteChord] d'"
  by (auto simp: send_paste_chord_def seq_def split: prod.splits sum.splits if_splits
      dest: tool_call_calls)

lemma sleep_calls: "thread_sleep n d = (r, d') \<Longrightarrow> calls d [Sleep n] d' \<and> r = Inr ()"
  by (auto simp: thread_sleep_def dest: tool_call_calls)

text \<open>The clipboard's text as the n-th tool call reports it.\<close>

definition text_at :: "desktop_tools \<Rightarrow> nat \<Rightarrow> bytes option" where
  "text_at T n =
     (case dt_paste_text T n of
        Inl _ \<Rightarrow> None
      | Inr run \<Rightarrow> if tr_success run then Some (tr_stdout run) else None)"

lemma matches_calls:
  assumes "clipboard_matches T expected d = (r, d')"
  shows "calls d [ReadText] d' \<and> r = Inr (text_at T (length (dk_calls d)) = Some expected)"
  using assms
  by (auto simp: clipboard_matches_def read_clipboard_def seq_def clipboard_contents_match_def
      text_at_def split: prod.splits sum.splits dest!: tool_call_calls)

definition snapshot_at :: "desktop_tools \<Rightarrow> nat \<Rightarrow> clipboard_snapshot option" where
  "snapshot_at T n =
     (case dt_paste_text T n of
        Inl _ \<Rightarrow> None
      | Inr run \<Rightarrow>
          if tr_success run then Some (SnapText (tr_stdout run))
          else case dt_list_types T (n + 1) of
                 Inl _ \<Rightarrow> None
               | Inr types \<Rightarrow>
                   Some (if tr_success types \<and> tr_stdout types \<noteq> [] then SnapUnsupported
                         else SnapEmpty))"

definition reads :: "tool_call list \<Rightarrow> bool" where
  "reads new \<longleftrightarrow> set new \<subseteq> {ReadText, ListTypes}"

lemma read_snapshot_calls:
  assumes "read_clipboard_snapshot T d = (r, d')"
  shows "(\<exists>new. calls d new d' \<and> reads new) \<and>
         (\<forall>snap. r = Inr snap \<longrightarrow> snapshot_at T (length (dk_calls d)) = Some snap)"
proof (cases "dt_paste_text T (length (dk_calls d))")
  case (Inl e)
  then show ?thesis
    using assms by (auto simp: read_clipboard_snapshot_def seq_def tool_call_of_def calls_def
        reads_def intro!: exI[of _ "[ReadText]"])
next
  case (Inr run)
  show ?thesis
  proof (cases "tr_success run")
    case True
    with Inr show ?thesis
      using assms by (auto simp: read_clipboard_snapshot_def seq_def tool_call_of_def calls_def
          reads_def snapshot_at_def intro!: exI[of _ "[ReadText]"])
  next
    case False
    with Inr show ?thesis
      using assms by (cases "dt_list_types T (length (dk_calls d) + 1)")
        (auto simp: read_clipboard_snapshot_def seq_def tool_call_of_def calls_def reads_def
          snapshot_at_def intro!: exI[of _ "[ReadText, ListTypes]"])
  qed
qed

definition usable_snapshot :: "desktop_tools \<Rightarrow> nat \<Rightarrow> clipboard_snapshot \<Rightarrow> bool" where
  "usable_snapshot T n snap \<longleftrightarrow> snapshot_at T n = Some snap \<and> snap \<noteq> SnapUnsupported"

lemma take_snapshot_calls:
  assumes "take_snapshot T ci d = (r, d')"
  shows "(\<exists>new. calls d new d' \<and> reads new) \<and>
         (\<forall>p. r = Inr p \<longrightarrow>
            (if ci_restore_clipboard ci
             then \<exists>snap. p = Some snap \<and> usable_snapshot T (length (dk_calls d)) snap
             else p = None))"
proof (cases "ci_restore_clipboard ci")
  case True
  obtain q d1 where q: "read_clipboard_snapshot T d = (q, d1)" by fastforce
  have "d' = d1" and "\<forall>p. r = Inr p \<longrightarrow> (\<exists>snap. q = Inr snap \<and> p = Some snap \<and> snap \<noteq> SnapUnsupported)"
    using assms True q by (auto simp: take_snapshot_def seq_def split: sum.splits if_splits)
  then show ?thesis using read_snapshot_calls[OF q] True unfolding usable_snapshot_def by auto
next
  case False
  then show ?thesis
    using assms by (auto simp: take_snapshot_def reads_def intro!: exI[of _ "[]"])
qed

definition restoring :: "clipboard_snapshot \<Rightarrow> tool_call" where
  "restoring snap = (case snap of SnapText c \<Rightarrow> CopyText c | _ \<Rightarrow> ClearClipboard)"

lemma restore_calls:
  assumes "restore_snapshot T (Some snap) d = (r, d')" and "snap \<noteq> SnapUnsupported"
  shows "calls d [restoring snap] d' \<and> (\<exists>b. r = Inr b)"
proof (cases snap)
  case (SnapText c)
  then show ?thesis
    using assms by (auto simp: restore_snapshot_def restoring_def Let_def split: prod.splits
        dest: write_clipboard_calls)
qed (use assms in \<open>auto simp: restore_snapshot_def restoring_def dest: clear_clipboard_calls\<close>)

section \<open>Insertion through the clipboard\<close>

text \<open>The calls from the first write on: writing, pasting, waiting, checking and restoring.\<close>

definition paste_calls :: "bytes \<Rightarrow> nat \<Rightarrow> tool_call list" where
  "paste_calls b delay = [CopyText b, PasteChord, Sleep delay]"

lemma paste_length [simp]: "length (paste_calls b delay) = 3"
  by (simp add: paste_calls_def)

definition restores_own :: "desktop_tools \<Rightarrow> nat \<Rightarrow> bytes \<Rightarrow> nat \<Rightarrow> clipboard_snapshot \<Rightarrow> tool_call list \<Rightarrow> bool" where
  "restores_own T n b delay snap rest \<longleftrightarrow>
     (\<exists>m. rest = take m (paste_calls b delay @ [ReadText])) \<or>
     (rest = paste_calls b delay @ [ReadText, restoring snap] \<and> text_at T (n + 3) = Some b)"

lemma paste_then_calls:
  assumes "seq (write_clipboard T b) (\<lambda>_. seq (send_paste_chord T) (\<lambda>_.
             seq (thread_sleep delay) (\<lambda>_. k))) d = (r, d')"
  shows "(\<exists>m e. calls d (take m (paste_calls b delay)) d' \<and> r = Inl e) \<or>
         (\<exists>d3. calls d (paste_calls b delay) d3 \<and> k d3 = (r, d'))"
proof -
  obtain q1 d1 where 1: "write_clipboard T b d = (q1, d1)" by fastforce
  obtain q2 d2 where 2: "send_paste_chord T d1 = (q2, d2)" by fastforce
  obtain q3 d3 where 3: "thread_sleep delay d2 = (q3, d3)" by fastforce
  note c1 = write_clipboard_calls[OF 1] and c2 = chord_calls[OF 2] and c3 = sleep_calls[OF 3]
  show ?thesis
  proof (cases q1)
    case (Inl e)
    then show ?thesis using assms 1 c1
      by (intro disjI1 exI[of _ 1] exI[of _ e]) (simp add: seq_def paste_calls_def)
  next
    case (Inr u)
    note ok1 = this
    show ?thesis
    proof (cases q2)
      case (Inl e)
      then show ?thesis using assms 1 2 ok1 calls_append[OF c1 c2]
        by (intro disjI1 exI[of _ 2] exI[of _ e]) (simp add: seq_def paste_calls_def)
    next
      case (Inr v)
      then show ?thesis using assms 1 2 3 ok1 c3 calls_append[OF calls_append[OF c1 c2]]
        by (intro disjI2 exI[of _ d3]) (simp add: seq_def paste_calls_def)
    qed
  qed
qed

lemma check_and_restore_calls:
  assumes "seq (if restore then seq (clipboard_matches T b) (\<lambda>ours.
                  if ours then restore_snapshot T p else give False) else give False)
             (\<lambda>restored. give (f restored)) d = (r, d')"
    and "restore \<Longrightarrow> p = Some snap \<and> snap \<noteq> SnapUnsupported"
  shows "\<exists>restored. r = Inr (f restored) \<and>
    (\<not> restore \<and> \<not> restored \<and> d' = d \<or>
     restore \<and> \<not> restored \<and> calls d [ReadText] d' \<or>
     restore \<and> calls d [ReadText, restoring snap] d' \<and> text_at T (length (dk_calls d)) = Some b)"
proof (cases restore)
  case True
  obtain q d1 where q: "clipboard_matches T b d = (q, d1)" by fastforce
  note m = matches_calls[OF q]
  show ?thesis
  proof (cases "text_at T (length (dk_calls d)) = Some b")
    case ours: True
    obtain q' d2 where r': "restore_snapshot T p d1 = (q', d2)" by fastforce
    have "calls d1 [restoring snap] d2 \<and> (\<exists>x. q' = Inr x)"
      using restore_calls r' assms(2)[OF True] by blast
    then show ?thesis
      using assms(1) True q m ours r' calls_append[of d "[ReadText]" d1 "[restoring snap]" d2]
      by (auto simp: seq_def)
  next
    case False
    then show ?thesis using assms(1) True q m by (auto simp: seq_def)
  qed
qed (use assms in \<open>auto simp: seq_def\<close>)

lemma clipboard_insert_calls:
  assumes "clipboard_insert T ci t d = (r, d')"
  shows "\<exists>looked rest. calls d (looked @ rest) d' \<and> reads looked \<and>
     (rest \<noteq> [] \<longrightarrow>
       (if ci_restore_clipboard ci
        then \<exists>snap. usable_snapshot T (length (dk_calls d)) snap \<and>
               restores_own T (length (dk_calls d) + length looked) (utf8_bytes t)
                 (ci_restore_delay ci) snap rest
        else looked = [] \<and> (\<exists>m. rest = take m (paste_calls (utf8_bytes t) (ci_restore_delay ci))))) \<and>
     (\<forall>res. r = Inr res \<longrightarrow> PasteChord \<in> set rest \<and>
        (ir_clipboard_restored res \<longrightarrow> ci_restore_clipboard ci \<and> length rest = 5))"
proof (cases "t = []")
  case True
  then show ?thesis
    using assms by (auto simp: clipboard_insert_def reads_def intro!: exI[of _ "[]"])
next
  case False
  obtain q d0 where q: "take_snapshot T ci d = (q, d0)" by fastforce
  obtain looked where looked: "calls d looked d0" "reads looked"
    using take_snapshot_calls[OF q] by blast
  show ?thesis
  proof (cases q)
    case (Inl e)
    then show ?thesis using assms False q looked
      by (intro exI[of _ looked] exI[of _ "[] :: tool_call list"])
         (auto simp: clipboard_insert_def seq_def)
  next
    case (Inr p)
    let ?b = "utf8_bytes t" and ?n = "length (dk_calls d) + length looked"
    let ?paste = "paste_calls ?b (ci_restore_delay ci)"
    have snap: "ci_restore_clipboard ci \<Longrightarrow>
        \<exists>snap. p = Some snap \<and> usable_snapshot T (length (dk_calls d)) snap"
      and unseen: "\<not> ci_restore_clipboard ci \<Longrightarrow> looked = []"
      using take_snapshot_calls[OF q] Inr assms q looked(1)
      by (auto simp: take_snapshot_def calls_def split: if_splits)
    have run: "seq (write_clipboard T ?b) (\<lambda>_. seq (send_paste_chord T) (\<lambda>_.
        seq (thread_sleep (ci_restore_delay ci)) (\<lambda>_.
        seq (if ci_restore_clipboard ci
             then seq (clipboard_matches T ?b) (\<lambda>ours.
                    if ours then restore_snapshot T p else give False)
             else give False) (\<lambda>restored.
          give \<lparr> ir_clipboard_restored = restored, ir_backend = ''wl-copy+ydotool'' \<rparr>)))) d0 = (r, d')"
      using assms False q Inr by (simp add: clipboard_insert_def seq_def[of "take_snapshot T ci"])
    show ?thesis
    proof (cases rule: disjE[OF paste_then_calls[OF run]])
      case 1
      then obtain m e where m: "calls d0 (take m ?paste) d'" "r = Inl e" by blast
      have "restores_own T ?n ?b (ci_restore_delay ci) sn (take m ?paste)" for sn
        unfolding restores_own_def
        by (intro disjI1 exI[of _ "min m 3"]) (simp add: take_append min_def paste_length)
      with snap unseen m(2) calls_append[OF looked(1) m(1)] looked(2) show ?thesis
        by (intro exI[of _ looked] exI[of _ "take m ?paste"]) auto
    next
      case 2
      then obtain d3 where d3: "calls d0 ?paste d3" and k:
        "seq (if ci_restore_clipboard ci
             then seq (clipboard_matches T ?b) (\<lambda>ours.
                    if ours then restore_snapshot T p else give False)
             else give False) (\<lambda>restored.
          give \<lparr> ir_clipboard_restored = restored, ir_backend = ''wl-copy+ydotool'' \<rparr>) d3 = (r, d')"
        by blast
      have at: "length (dk_calls d3) = ?n + 3"
        using calls_length[OF looked(1)] calls_length[OF d3] by (simp add: paste_calls_def)
      show ?thesis
      proof (cases "ci_restore_clipboard ci")
        case True
        then obtain sn where sn: "p = Some sn" "usable_snapshot T (length (dk_calls d)) sn"
          using snap by blast
        obtain b where r: "r = Inr \<lparr> ir_clipboard_restored = b, ir_backend = ''wl-copy+ydotool'' \<rparr>"
          and ends: "\<not> b \<and> calls d3 [ReadText] d' \<or>
            calls d3 [ReadText, restoring sn] d' \<and> text_at T (?n + 3) = Some ?b"
          using check_and_restore_calls[OF k, of sn] sn True at unfolding usable_snapshot_def by auto
        have own: "restores_own T ?n ?b (ci_restore_delay ci) sn (?paste @ [ReadText])"
          unfolding restores_own_def by (intro disjI1 exI[of _ 4]) (simp add: paste_calls_def)
        from ends show ?thesis
        proof
          assume e: "\<not> b \<and> calls d3 [ReadText] d'"
          then have "calls d0 (?paste @ [ReadText]) d'" using calls_append[OF d3] by blast
          from calls_append[OF looked(1) this] e own sn True r show ?thesis
            by (intro exI[of _ looked] exI[of _ "?paste @ [ReadText]"])
              (auto simp: looked(2) paste_calls_def)
        next
          assume e: "calls d3 [ReadText, restoring sn] d' \<and> text_at T (?n + 3) = Some ?b"
          then have "calls d0 (?paste @ [ReadText, restoring sn]) d'" using calls_append[OF d3] by blast
          moreover have "restores_own T ?n ?b (ci_restore_delay ci) sn (?paste @ [ReadText, restoring sn])"
            using e unfolding restores_own_def by blast
          ultimately show ?thesis using calls_append[OF looked(1)] sn True r
            by (intro exI[of _ looked] exI[of _ "?paste @ [ReadText, restoring sn]"])
              (auto simp: looked(2) paste_calls_def)
        qed
      next
        case False
        then have "d' = d3" and "r = Inr \<lparr> ir_clipboard_restored = False, ir_backend = ''wl-copy+ydotool'' \<rparr>"
          using k by auto
        with False unseen calls_append[OF looked(1) d3] looked(2) show ?thesis
          by (intro exI[of _ looked] exI[of _ ?paste])
            (auto simp: paste_calls_def intro: exI[of _ 3])
      qed
    qed
  qed
qed

text \<open>
  C27: Insertion through the clipboard overwrites it only with the text, and when restoration is
  on only after a snapshot that it can write back: a clipboard that holds other data, or that
  could not be read, is left alone. It writes the snapshot back, once, only if the clipboard was
  read again after the paste and still held the text, so what the user copied in the meantime is
  never overwritten; and it reports a restoration only then.
\<close>

theorem clipboard_overwrites_only_its_own:
  assumes "clipboard_insert T ci t d = (r, d')"
  shows "\<exists>looked rest. dk_calls d' = dk_calls d @ looked @ rest \<and>
     set looked \<subseteq> {ReadText, ListTypes} \<and>
     (rest \<noteq> [] \<longrightarrow>
       (if ci_restore_clipboard ci
        then \<exists>snap. snapshot_at T (length (dk_calls d)) = Some snap \<and> snap \<noteq> SnapUnsupported \<and>
               ((\<exists>m. rest = take m [CopyText (utf8_bytes t), PasteChord,
                                   Sleep (ci_restore_delay ci), ReadText]) \<or>
                rest = [CopyText (utf8_bytes t), PasteChord, Sleep (ci_restore_delay ci),
                        ReadText, restoring snap] \<and>
                text_at T (length (dk_calls d) + length looked + 3) = Some (utf8_bytes t))
        else \<exists>m. rest = take m [CopyText (utf8_bytes t), PasteChord,
                               Sleep (ci_restore_delay ci)])) \<and>
     (\<forall>res. r = Inr res \<longrightarrow> PasteChord \<in> set rest \<and>
        (ir_clipboard_restored res \<longrightarrow> ci_restore_clipboard ci \<and> length rest = 5))"
  using clipboard_insert_calls[OF assms]
  by (simp add: calls_def reads_def restores_own_def usable_snapshot_def paste_calls_def
      conj_ac ex_disj_distrib split: if_splits) blast

definition demo_tools :: desktop_tools where
  "demo_tools =
     (let ok = \<lparr> tr_success = True, tr_status = ''0'', tr_stdout = [] \<rparr>
      in \<lparr> dt_paste_text = (\<lambda>n. Inr (ok\<lparr> tr_stdout := (if n = 0 then [1] else [104]) \<rparr>)),
           dt_list_types = (\<lambda>_. Inr ok),
           dt_copy = (\<lambda>_ _. \<lparr> cr_spawn = None, cr_stdin = True, cr_write_all = None,
                             cr_wait = Inr ok \<rparr>),
           dt_clear = (\<lambda>_. Inr ok), dt_chord = (\<lambda>_. Inr ok) \<rparr>)"

definition demo_desktop :: desktop where
  "demo_desktop =
     \<lparr> fc_counter = 1, fc_requests = 0, fc_sent = [], fc_paths = [], dk_calls = [] \<rparr>"

lemma demo_insert:
  "clipboard_insert demo_tools (desktop_inserter True) [104] demo_desktop =
     (Inr \<lparr> ir_clipboard_restored = True, ir_backend = ''wl-copy+ydotool'' \<rparr>,
      demo_desktop\<lparr> dk_calls := [ReadText, CopyText [104], PasteChord, Sleep 250, ReadText,
                                 CopyText [1]] \<rparr>)"
  by (simp add: clipboard_insert_def seq_def take_snapshot_def read_clipboard_snapshot_def
      tool_call_of_def write_clipboard_def send_paste_chord_def thread_sleep_def
      clipboard_matches_def read_clipboard_def clipboard_contents_match_def restore_snapshot_def
      demo_tools_def demo_desktop_def desktop_inserter_def with_restore_def
      clipboard_inserter_default_def utf8_bytes_def utf8_encode_def utf8_char_def Let_def)

theorem clipboard_overwrites_only_its_own_witness:
  "\<exists>looked rest. [ReadText, CopyText [104], PasteChord, Sleep 250, ReadText, CopyText [1]] =
      looked @ rest \<and> length rest = 5"
  using clipboard_overwrites_only_its_own[OF demo_insert] by (auto simp: demo_desktop_def)

section \<open>The adapter\<close>

lemma more_calls: "fcitx_client.more d' = fcitx_client.more (d :: desktop) \<Longrightarrow> dk_calls d' = dk_calls d"
  by (cases d, cases d') simp

definition arm_message :: "session_id \<Rightarrow> bytes" where
  "arm_message session = join_elem 0 [ascii ''ARM'', session_bytes session]"

lemma from_result_state: "from_result r c = (q, c') \<Longrightarrow> c' = c \<and> q = r"
  by (auto simp: from_result_def split: sum.splits)

lemma rejected_codes: "parse_arm_response a = Inl e \<Longrightarrow> \<not> may_auto_fallback_from_fcitx e"
  by (auto simp: parse_arm_response_def try_then_err_iff expect_ok_def Let_def
      parse_identity_field_def invalid_response_def may_auto_fallback_from_fcitx_def
      split: if_splits option.splits)

lemma bridge_arm_result:
  assumes "bridge_arm W session d = (r, d')"
  shows "fcitx_client.more d' = fcitx_client.more d"
    and "r = Inr () \<Longrightarrow> \<exists>a target. answer W (fc_requests d) (arm_message session) = Some a \<and>
           parse_arm_response a = Inr target"
    and "r = Inl e \<Longrightarrow> may_auto_fallback_from_fcitx e \<Longrightarrow>
           \<not> fw_runtime_set W \<or> answer W (fc_requests d) (arm_message session) = None"
proof -
  obtain q d1 where q: "request W [ascii ''ARM'', session_bytes session] d = (q, d1)" by fastforce
  note req = request_sends[OF q, folded arm_message_def]
  have r: "d' = d1" "r = (case q of Inl e \<Rightarrow> Inl e
                       | Inr a \<Rightarrow> (case parse_arm_response a of Inl e \<Rightarrow> Inl e | Inr _ \<Rightarrow> Inr ()))"
    using assms q by (auto simp: bridge_arm_def arm_target_def seq_def from_result_def
        split: sum.splits prod.splits)
  show "fcitx_client.more d' = fcitx_client.more d" using req(3) r(1) by simp
  show "r = Inr () \<Longrightarrow> \<exists>a target. answer W (fc_requests d) (arm_message session) = Some a \<and>
           parse_arm_response a = Inr target"
    using r req(2) by (auto split: sum.splits)
  assume e: "r = Inl e" "may_auto_fallback_from_fcitx e"
  from q show "\<not> fw_runtime_set W \<or> answer W (fc_requests d) (arm_message session) = None"
  proof (cases rule: request_cases)
    case (refused e')
    then show ?thesis
      using q e r by (auto simp: request_def runtime_dir_def encode_message_def Let_def seq_def
          may_auto_fallback_from_fcitx_def split: if_splits)
  next
    case sent
    then show ?thesis
      using request_message_cases(1)[OF sent(1), folded arm_message_def] e r rejected_codes
      by (auto split: sum.splits)
  qed
qed

lemma clipboard_outcome_calls:
  assumes "clipboard_outcome code m d = (r, d')"
  obtains q where "m d = (q, d')" "is_ok r = is_ok q"
  using assms by (auto simp: clipboard_outcome_def split: prod.splits sum.splits)

lemma clipboard_copy_calls:
  assumes "clipboard_copy T t d = (r, d')"
  shows "calls d [] d' \<and> \<not> is_ok r \<or> calls d [CopyText (utf8_bytes t)] d'"
  using assms
  by (auto simp: clipboard_copy_def seq_def split: if_splits prod.splits sum.splits
      dest: write_clipboard_calls)

text \<open>The Fcitx client is left alone by the clipboard, and the clipboard by the Fcitx client.\<close>

lemma clipboard_insert_client: "clipboard_insert T ci t d = (r, d') \<Longrightarrow> fc_sent d' = fc_sent d"
  using clipboard_insert_calls by (fastforce simp: calls_def)

lemma bridge_commit_more:
  assumes "bridge_commit W session t c = (r, c')"
  shows "fcitx_client.more c' = fcitx_client.more c"
  using assms
proof (cases rule: bridge_commit_cases)
  case (failed e)
  then show ?thesis using retry_sends(3) by fastforce
next
  case (answered a)
  then show ?thesis using retry_sends(3) by fastforce
next
  case (legacy a d e)
  obtain q u where q: "request W [ascii ''COMMIT'', session_bytes session, utf8_bytes t] d = (q, u)"
    by fastforce
  then have "u = c'"
    using legacy(4) by (auto simp: legacy_commit_def seq_def from_result_def split: sum.splits)
  then show ?thesis using retry_sends(3)[OF legacy(1)] request_sends(3)[OF q] by simp
qed

lemma adapter_arm_ok:
  assumes "adapter_arm W mode session d = (Inr arm, d')"
  shows "ia_session arm = session \<and> dk_calls d' = dk_calls d \<and>
    (case mode of
       ModeAuto \<Rightarrow> ia_backend arm = ''fcitx5'' \<and>
             (\<exists>a target. answer W (fc_requests d) (arm_message session) = Some a \<and>
                parse_arm_response a = Inr target) \<or>
           ia_backend arm = ''copy-only'' \<and>
             (\<not> fw_runtime_set W \<or> answer W (fc_requests d) (arm_message session) = None)
     | ModeFcitx \<Rightarrow> ia_backend arm = ''fcitx5'' \<and>
           (\<exists>a target. answer W (fc_requests d) (arm_message session) = Some a \<and>
              parse_arm_response a = Inr target)
     | ModeClipboard \<Rightarrow> ia_backend arm = ''wl-copy+ydotool''
     | ModeCopy \<Rightarrow> ia_backend arm = ''copy-only'')"
proof -
  obtain b where b: "arm_backend W mode session d = (Inr b, d')"
      and arm: "arm = \<lparr> ia_session = session, ia_backend = b \<rparr>"
    using assms by (auto simp: adapter_arm_def seq_ok)
  obtain q d1 where q: "bridge_arm W session d = (q, d1)" by fastforce
  note res = bridge_arm_result[OF q]
  show ?thesis
    using b q res(2,3) more_calls[OF res(1)] unfolding arm
    by (cases mode) (auto simp: arm_backend_def seq_def split: sum.splits if_splits)
qed

text \<open>
  C25: A text goes only down the path that was armed for its session before the recording. In the
  automatic mode the clipboard replaces the Fcitx bridge only when the bridge gave no answer at
  all; a bridge that answers with a rejection (a secure field, no focus) makes arming fail. A text
  armed for Fcitx never reaches the clipboard, whatever the bridge answers to the commit, a text
  armed for the clipboard is never sent to the bridge, and only the explicit clipboard mode
  injects the paste keys.
\<close>

theorem insertion_stays_on_armed_path:
  assumes "adapter_arm W mode session d = (Inr arm, d1)"
    and "adapter_commit W' T ci arm t d2 = (r, d3)"
  shows "ia_session arm = session \<and> dk_calls d1 = dk_calls d \<and>
    ia_backend arm \<in> {''fcitx5'', ''wl-copy+ydotool'', ''copy-only''} \<and>
    (ia_backend arm = ''fcitx5'' \<longrightarrow> mode \<in> {ModeAuto, ModeFcitx} \<and> dk_calls d3 = dk_calls d2) \<and>
    (ia_backend arm \<noteq> ''fcitx5'' \<longrightarrow> fc_sent d3 = fc_sent d2) \<and>
    (ia_backend arm = ''wl-copy+ydotool'' \<longrightarrow> mode = ModeClipboard) \<and>
    (ia_backend arm = ''copy-only'' \<longrightarrow>
       dk_calls d3 \<in> {dk_calls d2, dk_calls d2 @ [CopyText (utf8_bytes t)]} \<and>
       (mode = ModeAuto \<longrightarrow>
          \<not> fw_runtime_set W \<or> answer W (fc_requests d) (arm_message session) = None))"
proof -
  note armed = adapter_arm_ok[OF assms(1)]
  have backend: "ia_backend arm \<in> {''fcitx5'', ''wl-copy+ydotool'', ''copy-only''}"
    using armed by (cases mode) auto
  have "dk_calls d3 = dk_calls d2" if "ia_backend arm = ''fcitx5''"
    using assms(2) that bridge_commit_more[THEN more_calls, of W' "ia_session arm" t d2]
    by (auto simp: adapter_commit_def seq_def split: prod.splits sum.splits)
  moreover have "fc_sent d3 = fc_sent d2" if "ia_backend arm \<noteq> ''fcitx5''"
    using assms(2) that backend
    by (auto simp: adapter_commit_def elim!: clipboard_outcome_calls dest: clipboard_insert_client
        dest!: clipboard_copy_calls simp: calls_def)
  moreover have "dk_calls d3 \<in> {dk_calls d2, dk_calls d2 @ [CopyText (utf8_bytes t)]}"
    if "ia_backend arm = ''copy-only''"
    using assms(2) that
    by (auto simp: adapter_commit_def elim!: clipboard_outcome_calls
        dest!: clipboard_copy_calls simp: calls_def)
  ultimately show ?thesis using armed backend by (cases mode) auto
qed

theorem insertion_stays_on_armed_path_witness:
  "dk_calls (snd (adapter_commit demo_bridge demo_tools (desktop_inserter True)
      \<lparr> ia_session = from_counter 1, ia_backend = ''copy-only'' \<rparr> [104] demo_desktop)) \<in>
   {[], [CopyText (utf8_bytes [104])]}"
proof -
  let ?W = "demo_bridge\<lparr> fw_runtime_set := False \<rparr>"
  have "adapter_arm ?W ModeAuto (from_counter 1) demo_desktop =
      (Inr \<lparr> ia_session = from_counter 1, ia_backend = ''copy-only'' \<rparr>, demo_desktop)"
    by (simp add: adapter_arm_def arm_backend_def bridge_arm_def arm_target_def request_def
        runtime_dir_def seq_def may_auto_fallback_from_fcitx_def)
  from insertion_stays_on_armed_path[OF this prod.collapse[symmetric,
      of "adapter_commit demo_bridge demo_tools (desktop_inserter True)
        \<lparr> ia_session = from_counter 1, ia_backend = ''copy-only'' \<rparr> [104] demo_desktop"]]
  show ?thesis by (simp add: demo_desktop_def)
qed

end
