(* ===== verification/Calibration.thy ===== *)
theory Calibration
  imports Vad Complex_Main
begin

text \<open>
  The two-phase microphone calibration (src/src/calibration.rs). A value of type f64 is a
  rational here, since every value that the analysis computes is finite; the rounding of the
  format and the common logarithm of the standard library are arguments.
\<close>

section \<open>Types\<close>

datatype calibration_confidence = CcHigh | CcMedium | CcLow

fun confidence_as_str :: "calibration_confidence \<Rightarrow> string" where
  "confidence_as_str CcHigh = ''high''"
| "confidence_as_str CcMedium = ''medium''"
| "confidence_as_str CcLow = ''low''"

datatype calibration_reason =
    CrGood | CrMarginalSnr | CrNoSpeech | CrTooQuiet | CrClipping | CrUnstableNoise

fun reason_as_str :: "calibration_reason \<Rightarrow> string" where
  "reason_as_str CrGood = ''good''"
| "reason_as_str CrMarginalSnr = ''marginal-snr''"
| "reason_as_str CrNoSpeech = ''no-speech''"
| "reason_as_str CrTooQuiet = ''too-quiet''"
| "reason_as_str CrClipping = ''clipping''"
| "reason_as_str CrUnstableNoise = ''unstable-noise''"

record calibration_result =
  cr_noise_p20 :: "16 word"
  cr_noise_p50 :: "16 word"
  cr_noise_p95 :: "16 word"
  cr_speech_p50 :: "16 word"
  cr_speech_p95 :: "16 word"
  cr_peak :: "16 word"
  cr_snr_db :: rat
  cr_clipping_ratio :: rat
  cr_speech_ratio :: rat
  cr_suggested_threshold :: "16 word"
  cr_confidence :: calibration_confidence
  cr_reason :: calibration_reason
  cr_can_apply :: bool

record f64_ops =
  fo_round :: "rat \<Rightarrow> rat"
  fo_log10 :: "rat \<Rightarrow> rat"

section \<open>The statistics of a phase\<close>

definition bytes_per_calibration_frame :: nat where
  "bytes_per_calibration_frame = 640"

definition min_phase_frames :: nat where
  "min_phase_frames = 25"

record phase_stats =
  ps_levels :: "16 word list"
  ps_peak :: "16 word"
  ps_clipped_samples :: "64 word"
  ps_samples :: "64 word"

definition phase_stats_default :: phase_stats where
  "phase_stats_default =
     \<lparr> ps_levels = [], ps_peak = 0, ps_clipped_samples = 0, ps_samples = 0 \<rparr>"

text \<open>Newton's iteration from the value itself; the midpoint of two u64 does not overflow.\<close>

definition calibration_sqrt :: "nat \<Rightarrow> nat" where
  "calibration_sqrt v = (if v < 2 then v else isqrt_loop v v ((v + v div v) div 2))"

text \<open>One sample: the peak and the clipped samples of the phase, the sum and count of the frame.\<close>

fun sample_step ::
  "16 word \<Rightarrow> 16 word \<times> 64 word \<times> 64 word \<times> 64 word \<Rightarrow>
   16 word \<times> 64 word \<times> 64 word \<times> 64 word" where
  "sample_step m (peak, clipped, square_sum, frame_samples) =
     (max peak m, (if 32700 \<le> m then sat_add clipped 1 else clipped), add_square m square_sum,
      sat_add frame_samples 1)"

definition frame_rms :: "64 word \<Rightarrow> 64 word \<Rightarrow> 16 word" where
  "frame_rms square_sum frame_samples =
     (case checked_div square_sum frame_samples of
        None \<Rightarrow> 0 | Some mean \<Rightarrow> u16_or_default (calibration_sqrt (unat mean)))"

definition frame_step :: "bytes \<Rightarrow> phase_stats \<Rightarrow> phase_stats" where
  "frame_step frame s =
     (let (peak, clipped, square_sum, frame_samples) =
            fold sample_step (magnitudes frame) (ps_peak s, ps_clipped_samples s, 0, 0)
      in \<lparr> ps_levels = ps_levels s @ [frame_rms square_sum frame_samples], ps_peak = peak,
           ps_clipped_samples = clipped, ps_samples = sat_add (ps_samples s) frame_samples \<rparr>)"

text \<open>Incomplete frames at the end are ignored.\<close>

definition chunks_exact :: "nat \<Rightarrow> bytes \<Rightarrow> bytes list" where
  "chunks_exact n xs = filter (\<lambda>c. length c = n) (chunks n xs)"

definition phase_stats_of :: "bytes \<Rightarrow> phase_stats" where
  "phase_stats_of pcm =
     fold frame_step (chunks_exact bytes_per_calibration_frame pcm) phase_stats_default"

definition percentile :: "16 word list \<Rightarrow> nat \<Rightarrow> 16 word" where
  "percentile values p = sort values ! ((length values - 1) * p div 100)"

definition u64_or_max :: "nat \<Rightarrow> 64 word" where
  "u64_or_max n = (if n < 2 ^ 64 then word_of_nat n else - 1)"

definition u32_or_max :: "64 word \<Rightarrow> nat" where
  "u32_or_max n = (if unat n < 2 ^ 32 then unat n else 2 ^ 32 - 1)"

definition ratio :: "f64_ops \<Rightarrow> 64 word \<Rightarrow> 64 word \<Rightarrow> rat" where
  "ratio F numerator denominator =
     (if denominator = 0 then 0
      else fo_round F (of_nat (u32_or_max numerator) / of_nat (u32_or_max denominator)))"

section \<open>The analysis\<close>

definition suggested_threshold :: "16 word \<Rightarrow> 16 word \<Rightarrow> 16 word" where
  "suggested_threshold noise_p95 speech_p50 =
     (if speech_p50 \<le> noise_p95 then min (sat_add noise_p95 80) 10000
      else min (sat_add noise_p95 (max (sat_sub speech_p50 noise_p95 div 4) 80)) 10000)"

definition snr_of :: "f64_ops \<Rightarrow> 16 word \<Rightarrow> 16 word \<Rightarrow> rat" where
  "snr_of F noise_p50 speech_p50 =
     (let noise_reference = of_nat (unat (max noise_p50 1));
          speech_reference = of_nat (unat (max speech_p50 1))
      in fo_round F (20 * fo_log10 F (fo_round F (speech_reference / noise_reference))))"

definition reason_of :: "bool \<Rightarrow> bool \<Rightarrow> bool \<Rightarrow> bool \<Rightarrow> rat \<Rightarrow> calibration_reason" where
  "reason_of clipping no_speech too_quiet noise_unstable snr_db =
     (if clipping then CrClipping else if no_speech then CrNoSpeech
      else if too_quiet then CrTooQuiet else if noise_unstable then CrUnstableNoise
      else if snr_db < 12 then CrMarginalSnr else CrGood)"

definition confidence_of :: "f64_ops \<Rightarrow> calibration_reason \<Rightarrow> rat \<Rightarrow> rat \<Rightarrow> calibration_confidence" where
  "confidence_of F reason snr_db clipping_ratio =
     (if reason = CrGood \<and> 16 \<le> snr_db \<and> clipping_ratio < fo_round F (1 / 1000) then CcHigh
      else if reason = CrGood \<or> reason = CrMarginalSnr then CcMedium
      else CcLow)"

definition analyze :: "f64_ops \<Rightarrow> bytes \<Rightarrow> bytes \<Rightarrow> string + calibration_result" where
  "analyze F silence_pcm speech_pcm =
     (let silence = phase_stats_of silence_pcm; speech = phase_stats_of speech_pcm
      in if length (ps_levels silence) < min_phase_frames \<or>
            length (ps_levels speech) < min_phase_frames
         then Inl ''calibration phases are too short''
         else
         let noise_p20 = percentile (ps_levels silence) 20;
             noise_p50 = percentile (ps_levels silence) 50;
             noise_p95 = percentile (ps_levels silence) 95;
             speech_p50 = percentile (ps_levels speech) 50;
             speech_p95 = percentile (ps_levels speech) 95;
             peak = max (ps_peak silence) (ps_peak speech);
             total_samples = sat_add (ps_samples silence) (ps_samples speech);
             clipped_samples = sat_add (ps_clipped_samples silence) (ps_clipped_samples speech);
             clipping_ratio = ratio F clipped_samples total_samples;
             snr_db = snr_of F noise_p50 speech_p50;
             noise_unstable = noise_p95 > sat_add (sat_mul noise_p20 3) 200;
             no_speech = (speech_p50 \<le> sat_add noise_p95 100 \<or> snr_db < 6);
             too_quiet = speech_p95 < 500;
             clipping = (fo_round F (1 / 100) \<le> clipping_ratio \<or> 32700 \<le> peak);
             reason = reason_of clipping no_speech too_quiet noise_unstable snr_db;
             confidence = confidence_of F reason snr_db clipping_ratio;
             threshold = suggested_threshold noise_p95 speech_p50;
             voiced_frames = length (filter (\<lambda>level. threshold \<le> level) (ps_levels speech));
             speech_ratio = ratio F (u64_or_max voiced_frames)
                              (u64_or_max (length (ps_levels speech)))
         in Inr \<lparr> cr_noise_p20 = noise_p20, cr_noise_p50 = noise_p50, cr_noise_p95 = noise_p95,
                  cr_speech_p50 = speech_p50, cr_speech_p95 = speech_p95, cr_peak = peak,
                  cr_snr_db = snr_db, cr_clipping_ratio = clipping_ratio,
                  cr_speech_ratio = speech_ratio, cr_suggested_threshold = threshold,
                  cr_confidence = confidence, cr_reason = reason,
                  cr_can_apply = (confidence \<noteq> CcLow \<and> fo_round F (1 / 5) \<le> speech_ratio \<and>
                                  noise_p95 < threshold) \<rparr>)"

end
