(* ===== verification/Calibration_Props.thy ===== *)
theory Calibration_Props
  imports Calibration "HOL-Library.Multiset"
begin

text \<open>
  What a calibration that may be applied guarantees of its threshold.
\<close>

section \<open>Percentiles\<close>

lemma length_filter_sort: "length (filter P (sort xs)) = length (filter P xs)"
  by (metis mset_filter mset_sort size_mset)

lemma length_filter_mono:
  "(\<And>x. x \<in> set xs \<Longrightarrow> P x \<Longrightarrow> Q x) \<Longrightarrow> length (filter P xs) \<le> length (filter Q xs)"
  by (induction xs) auto

lemma sorted_below: "sorted ys \<Longrightarrow> i < length ys \<Longrightarrow> Suc i \<le> length (filter (\<lambda>y. y \<le> ys ! i) ys)"
proof -
  assume s: "sorted ys" and i: "i < length ys"
  have "list_all (\<lambda>y. y \<le> ys ! i) (take (Suc i) ys)"
    using s i by (auto simp: list_all_length intro: sorted_nth_mono)
  then have "length (filter (\<lambda>y. y \<le> ys ! i) (take (Suc i) ys)) = Suc i"
    using i by (simp add: list_all_iff)
  then show ?thesis
    using append_take_drop_id[of "Suc i" ys] by (metis filter_append length_append le_add1)
qed

lemma sorted_above: "sorted ys \<Longrightarrow> i < length ys \<Longrightarrow> length ys - i \<le> length (filter (\<lambda>y. ys ! i \<le> y) ys)"
proof -
  assume s: "sorted ys" and i: "i < length ys"
  have "list_all (\<lambda>y. ys ! i \<le> y) (drop i ys)"
    using s i by (auto simp: list_all_length intro: sorted_nth_mono)
  then have "length (filter (\<lambda>y. ys ! i \<le> y) (drop i ys)) = length ys - i"
    by (simp add: list_all_iff)
  then show ?thesis
    using append_take_drop_id[of i ys] by (metis filter_append length_append le_add2)
qed

lemma percentile_index: "xs \<noteq> [] \<Longrightarrow> p \<le> 100 \<Longrightarrow> (length xs - 1) * p div 100 < length xs"
proof -
  assume "xs \<noteq> []" "p \<le> 100"
  then have "(length xs - 1) * p div 100 \<le> (length xs - 1) * 100 div 100"
    by (intro div_le_mono mult_le_mono2)
  also have "\<dots> < length xs" using \<open>xs \<noteq> []\<close> by simp
  finally show ?thesis .
qed

lemma percentile_below:
  assumes "xs \<noteq> []" "p \<le> 100"
  shows "p * (length xs - 1) < 100 * length (filter (\<lambda>x. x \<le> percentile xs p) xs)"
proof -
  let ?i = "(length xs - 1) * p div 100"
  have "Suc ?i \<le> length (filter (\<lambda>x. x \<le> percentile xs p) xs)"
    using sorted_below[of "sort xs" ?i] percentile_index[OF assms]
    by (simp add: percentile_def length_filter_sort)
  moreover have "(length xs - 1) * p < 100 * Suc ?i" by presburger
  ultimately show ?thesis using mult.commute[of p "length xs - 1"] by linarith
qed

lemma percentile_above:
  assumes "xs \<noteq> []" "p \<le> 100"
  shows "length xs \<le> length (filter (\<lambda>x. percentile xs p \<le> x) xs) + (length xs - 1) * p div 100"
proof -
  have "length xs - (length xs - 1) * p div 100 \<le>
      length (filter (\<lambda>x. percentile xs p \<le> x) xs)"
    using sorted_above[of "sort xs" "(length xs - 1) * p div 100"] percentile_index[OF assms]
    by (simp add: percentile_def length_filter_sort)
  then show ?thesis by linarith
qed

lemma median_above:
  "xs \<noteq> [] \<Longrightarrow> length xs \<le> 2 * length (filter (\<lambda>x. percentile xs 50 \<le> x) xs)"
  using percentile_above[of xs 50] by linarith

section \<open>The threshold\<close>

lemma threshold_separates:
  assumes "sat_add noise 100 < speech"
  shows "suggested_threshold noise speech < speech" and "suggested_threshold noise speech \<le> 10000"
    and "noise < suggested_threshold noise speech \<longleftrightarrow> noise < 10000"
proof -
  have s: "unat noise + 100 < unat speech"
    using assms unsigned_less[of speech, where ?'a = nat]
    by (auto simp: word_less_nat_alt unat_sat_add min_def split: if_splits)
  have sep: "unat (sat_sub speech noise) = unat speech - unat noise" by (rule unat_sat_sub)
  define v where "v = max (sat_sub speech noise div 4) 80"
  have v: "unat v = max ((unat speech - unat noise) div 4) 80"
    unfolding v_def by (simp add: max_def word_le_nat_alt unat_div sep)
  have fits: "unat noise + unat v < unat speech" using s unfolding v by linarith
  then have sum: "unat (sat_add noise v) = unat noise + unat v"
    using unsigned_less[of speech, where ?'a = nat] by (simp add: unat_sat_add)
  have t: "suggested_threshold noise speech = min (sat_add noise v) 10000"
    using s by (simp add: suggested_threshold_def v_def word_le_nat_alt)
  have ut: "unat (suggested_threshold noise speech) = min (unat noise + unat v) 10000"
    unfolding t by (simp add: min_def word_le_nat_alt sum)
  show "suggested_threshold noise speech < speech" and "suggested_threshold noise speech \<le> 10000"
    and "noise < suggested_threshold noise speech \<longleftrightarrow> noise < 10000"
    using fits v by (auto simp: word_less_nat_alt word_le_nat_alt ut min_def max_def split: if_splits)
qed

section \<open>The levels of a phase\<close>

text \<open>The level of a frame is the one that the voice activity detector computes.\<close>

lemma fold_sample_step:
  "fold sample_step ms (pk, cl, sq, n) =
     (fold (\<lambda>m pk. max pk m) ms pk,
      fold (\<lambda>m cl. if 32700 \<le> m then sat_add cl 1 else cl) ms cl,
      fold add_square ms sq, fold (\<lambda>_ n. sat_add n 1) ms n)"
  by (induction ms arbitrary: pk cl sq n) auto

lemma calibration_sqrt: "calibration_sqrt = integer_sqrt"
  by (rule ext) (simp add: calibration_sqrt_def integer_sqrt_def)

lemma frame_step_level:
  "ps_levels (frame_step frame s) = ps_levels s @ [fst (frame_level frame)]"
  by (simp add: frame_step_def frame_level_def fold_sample_step fold_level_step frame_rms_def
      calibration_sqrt Let_def
      split: option.splits)

lemma phase_levels:
  "ps_levels (phase_stats_of pcm) = map (\<lambda>frame. fst (frame_level frame)) (chunks_exact 640 pcm)"
proof -
  have "ps_levels (fold frame_step fs s) = ps_levels s @ map (\<lambda>f. fst (frame_level f)) fs" for fs s
    by (induction fs arbitrary: s) (simp_all add: frame_step_level)
  then show ?thesis
    by (simp add: phase_stats_of_def phase_stats_default_def bytes_per_calibration_frame_def)
qed

section \<open>The result\<close>

lemma u32_or_max_nat: "u32_or_max (u64_or_max n) = min n (2 ^ 32 - 1)"
  by (auto simp: u32_or_max_def u64_or_max_def unat_word_of_nat min_def)

lemma u64_or_max_zero: "u64_or_max n = 0 \<longleftrightarrow> n = 0"
proof
  assume "u64_or_max n = 0"
  then have "u32_or_max (u64_or_max n) = 0" by (simp add: u32_or_max_def)
  then show "n = 0" by (simp add: u32_or_max_nat)
qed (simp add: u64_or_max_def)

lemma ratio_half:
  assumes "mono (fo_round F)" and "0 < d" and "d \<le> 2 * n"
  shows "fo_round F (1 / 5) \<le> ratio F (u64_or_max n) (u64_or_max d)"
proof -
  let ?n = "min n (2 ^ 32 - 1)" and ?d = "min d (2 ^ 32 - 1)"
  have "?d \<le> 2 * ?n" and pos: "0 < ?d" using assms(2,3) by (auto simp: min_def)
  then have "(of_nat ?d :: rat) \<le> of_nat (2 * ?n)" by (simp only: of_nat_le_iff)
  then have "(1 / 5 :: rat) \<le> of_nat ?n / of_nat ?d"
    using pos by (simp add: pos_le_divide_eq of_nat_mult del: of_nat_min)
  then show ?thesis
    using monoD[OF assms(1)] assms(2) by (simp add: ratio_def u64_or_max_zero u32_or_max_nat)
qed

text \<open>The parts of a result that the threshold rests on.\<close>

lemma analyze_parts:
  assumes "analyze F silence speech = Inr res"
  defines "quiet \<equiv> ps_levels (phase_stats_of silence)"
    and "voiced \<equiv> ps_levels (phase_stats_of speech)"
  shows "25 \<le> length quiet" "25 \<le> length voiced"
    and "cr_noise_p95 res = percentile quiet 95" "cr_speech_p50 res = percentile voiced 50"
    and "cr_suggested_threshold res = suggested_threshold (cr_noise_p95 res) (cr_speech_p50 res)"
    and "cr_reason res = CrGood \<or> cr_reason res = CrMarginalSnr \<Longrightarrow>
           sat_add (cr_noise_p95 res) 100 < cr_speech_p50 res \<and> cr_peak res < 32700"
    and "cr_can_apply res \<longleftrightarrow>
           (cr_reason res = CrGood \<or> cr_reason res = CrMarginalSnr) \<and>
           fo_round F (1 / 5) \<le> ratio F
             (u64_or_max (length (filter (\<lambda>l. cr_suggested_threshold res \<le> l) voiced)))
             (u64_or_max (length voiced)) \<and>
           cr_noise_p95 res < cr_suggested_threshold res"
  using assms(1)
  by (auto simp: analyze_def Let_def min_phase_frames_def quiet_def voiced_def reason_of_def
      confidence_of_def not_less not_le split: if_splits)

text \<open>
  C39: A calibration may be applied exactly when its reason is good or marginal and the noise is
  below 10000, whatever the rounding of the floating point operations, as long as it is monotone.
  The threshold that is then suggested separates the two phases: it lies strictly between the
  95th percentile of the quiet phase and the median of the speaking phase and is at most 10000,
  so that no more than a twentieth of the quiet frames (one frame apart) and at least half of the
  frames of the speaking phase reach it.
\<close>

theorem applied_threshold_separates:
  assumes "mono (fo_round F)" and "analyze F silence speech = Inr res"
  defines "quiet \<equiv> ps_levels (phase_stats_of silence)"
    and "voiced \<equiv> ps_levels (phase_stats_of speech)"
  shows "(cr_can_apply res \<longleftrightarrow>
            (cr_reason res = CrGood \<or> cr_reason res = CrMarginalSnr) \<and> cr_noise_p95 res < 10000) \<and>
         (cr_can_apply res \<longrightarrow>
            cr_noise_p95 res < cr_suggested_threshold res \<and>
            cr_suggested_threshold res < cr_speech_p50 res \<and>
            cr_suggested_threshold res \<le> 10000 \<and>
            95 * (length quiet - 1) <
              100 * length (filter (\<lambda>l. l < cr_suggested_threshold res) quiet) \<and>
            length voiced \<le> 2 * length (filter (\<lambda>l. cr_suggested_threshold res \<le> l) voiced))"
proof -
  note parts = analyze_parts[OF assms(2), folded quiet_def voiced_def]
  let ?t = "cr_suggested_threshold res"
  have quiet: "quiet \<noteq> []" and voiced: "voiced \<noteq> []" using parts(1,2) by auto
  show ?thesis
  proof (cases "cr_reason res = CrGood \<or> cr_reason res = CrMarginalSnr")
    case True
    note sep = threshold_separates[OF conjunct1[OF parts(6)[OF True]], folded parts(5)]
    have half: "length voiced \<le> 2 * length (filter (\<lambda>l. ?t \<le> l) voiced)"
    proof -
      have "length (filter (\<lambda>l. cr_speech_p50 res \<le> l) voiced) \<le> length (filter (\<lambda>l. ?t \<le> l) voiced)"
        using sep(1) by (intro length_filter_mono) auto
      then show ?thesis using median_above[OF voiced] parts(4) by simp
    qed
    then have "fo_round F (1 / 5) \<le>
        ratio F (u64_or_max (length (filter (\<lambda>l. ?t \<le> l) voiced))) (u64_or_max (length voiced))"
      using voiced by (intro ratio_half[OF assms(1)]) simp_all
    then have apply_iff: "cr_can_apply res \<longleftrightarrow> cr_noise_p95 res < 10000"
      using parts(7) True sep(3) by blast
    have "95 * (length quiet - 1) < 100 * length (filter (\<lambda>l. l < ?t) quiet)"
      if below: "cr_noise_p95 res < ?t"
    proof -
      have "length (filter (\<lambda>l. l \<le> cr_noise_p95 res) quiet) \<le> length (filter (\<lambda>l. l < ?t) quiet)"
        using below by (intro length_filter_mono) auto
      then show ?thesis using percentile_below[OF quiet, of 95] parts(3) by simp
    qed
    then show ?thesis using apply_iff True sep half by blast
  qed (use parts(7) in blast)
qed

section \<open>A calibration\<close>

lemma chunks_replicate:
  "0 < n \<Longrightarrow> chunks n (replicate (k * n) b) = replicate k (replicate n b)"
proof (induction k)
  case (Suc k)
  then show ?case by (subst chunks.simps) (simp add: min_def)
qed (simp add: chunks.simps)

lemma chunks_exact_replicate:
  "0 < n \<Longrightarrow> chunks_exact n (replicate (k * n) b) = replicate k (replicate n b)"
  by (simp add: chunks_exact_def chunks_replicate)

lemma magnitudes_replicate:
  "magnitudes (replicate (2 * k) b) = replicate k (unsigned_abs (i16_from_le b b))"
  by (induction k) simp_all

lemma square_total_replicate: "square_total (replicate k m) = k * (unat m * unat m)"
  by (simp add: square_total_def sum_list_replicate)

lemma constant_frame_level:
  assumes "m = unsigned_abs (i16_from_le b b)"
  shows "fst (frame_level (replicate 640 b)) = m"
proof -
  have ms: "magnitudes (replicate 640 b) = replicate 320 m"
    using magnitudes_replicate[of 320 b] assms by simp
  have "mean_square (replicate 640 b) = unat m * unat m"
    by (simp add: mean_square_def ms square_total_replicate)
  then have "unat (fst (frame_level (replicate 640 b))) = unat m"
    using frame_level_rms[of "replicate 640 b"] isqrt.root_square by (simp add: ms)
  then show ?thesis by (simp add: word_unat_eq_iff)
qed

definition demo_recording :: "8 word \<Rightarrow> bytes" where
  "demo_recording b = replicate (25 * 640) b"

lemma demo_levels:
  "m = unsigned_abs (i16_from_le b b) \<Longrightarrow>
   ps_levels (phase_stats_of (demo_recording b)) = replicate 25 m"
  using chunks_exact_replicate[of 640 25 b] constant_frame_level[of m b]
  by (simp add: phase_levels demo_recording_def)

text \<open>A phase whose samples stay below the clipping level has no clipped sample.\<close>

lemma phase_unclipped:
  assumes "\<And>f m. f \<in> set (chunks_exact 640 pcm) \<Longrightarrow> m \<in> set (magnitudes f) \<Longrightarrow> m < 32700"
  shows "ps_peak (phase_stats_of pcm) < 32700 \<and> ps_clipped_samples (phase_stats_of pcm) = 0"
proof -
  have samples: "fold (\<lambda>m pk. max pk m) ms pk < 32700 \<and>
      fold (\<lambda>m cl. if 32700 \<le> m then sat_add cl 1 else cl) ms (cl :: 64 word) = cl"
    if "pk < 32700" "\<forall>m \<in> set ms. m < 32700" for ms cl and pk :: "16 word"
    using that by (induction ms arbitrary: pk) (auto dest: leD)
  have "ps_peak (fold frame_step fs s) < 32700 \<and> ps_clipped_samples (fold frame_step fs s) = 0"
    if "ps_peak s < 32700 \<and> ps_clipped_samples s = 0"
      and "\<And>f m. f \<in> set fs \<Longrightarrow> m \<in> set (magnitudes f) \<Longrightarrow> m < 32700" for fs s
    using that
  proof (induction fs arbitrary: s)
    case (Cons f fs)
    have "ps_peak (frame_step f s) < 32700 \<and> ps_clipped_samples (frame_step f s) = 0"
    proof -
      have "\<forall>m \<in> set (magnitudes f). m < 32700" using Cons.prems(2)[of f] by auto
      then show ?thesis
        using samples[of "ps_peak s" "magnitudes f" 0] Cons.prems(1)
        by (simp add: frame_step_def fold_sample_step Let_def)
    qed
    moreover have "\<And>g m. g \<in> set fs \<Longrightarrow> m \<in> set (magnitudes g) \<Longrightarrow> m < 32700"
      using Cons.prems(2) by auto
    ultimately show ?case using Cons.IH by simp
  qed simp
  then show ?thesis
    using assms by (simp add: phase_stats_of_def phase_stats_default_def bytes_per_calibration_frame_def)
qed

lemma demo_unclipped:
  assumes "unsigned_abs (i16_from_le b b) < 32700"
  shows "ps_peak (phase_stats_of (demo_recording b)) < 32700 \<and>
         ps_clipped_samples (phase_stats_of (demo_recording b)) = 0"
  by (rule phase_unclipped)
     (use assms chunks_exact_replicate[of 640 25 b] magnitudes_replicate[of 320 b] in
       \<open>simp add: demo_recording_def\<close>)

definition demo_f64 :: f64_ops where
  "demo_f64 = \<lparr> fo_round = (\<lambda>x. x), fo_log10 = (\<lambda>x. if 1000 \<le> x then 3 else 0) \<rparr>"

lemma percentile_replicate: "p \<le> 100 \<Longrightarrow> percentile (replicate 25 m) p = m"
  using percentile_index[of "replicate 25 m" p] by (simp add: percentile_def sort_replicate)

lemma demo_magnitudes:
  "unsigned_abs (i16_from_le 0 0) = 0" "unsigned_abs (i16_from_le 8 8) = 2056"
  by (simp_all add: unsigned_abs_def i16_from_le_def)

lemma demo_calibration:
  "\<exists>res. analyze demo_f64 (demo_recording 0) (demo_recording 8) = Inr res \<and>
         cr_reason res = CrGood \<and> cr_noise_p95 res = 0 \<and> cr_speech_p50 res = 2056"
proof -
  have levels: "ps_levels (phase_stats_of (demo_recording 0)) = replicate 25 0"
      "ps_levels (phase_stats_of (demo_recording 8)) = replicate 25 2056"
    using demo_levels demo_magnitudes by metis+
  have quiet: "ps_peak (phase_stats_of (demo_recording b)) < 32700"
      "ps_clipped_samples (phase_stats_of (demo_recording b)) = 0" if "b = 0 \<or> b = 8" for b
    using demo_unclipped[of b] that by (auto simp: demo_magnitudes)
  have "max (ps_peak (phase_stats_of (demo_recording 0)))
            (ps_peak (phase_stats_of (demo_recording 8))) < 32700"
    using quiet(1) by simp
  then show ?thesis
    by (simp add: analyze_def levels quiet(2) percentile_replicate min_phase_frames_def demo_f64_def
        snr_of_def reason_of_def ratio_def u32_or_max_def sat_add_def sat_mul_def not_le Let_def)
qed

theorem applied_threshold_separates_witness:
  "\<exists>res. analyze demo_f64 (demo_recording 0) (demo_recording 8) = Inr res \<and> cr_can_apply res \<and>
         cr_suggested_threshold res < 2056"
proof -
  obtain res where res: "analyze demo_f64 (demo_recording 0) (demo_recording 8) = Inr res"
      "cr_reason res = CrGood" "cr_noise_p95 res = 0" "cr_speech_p50 res = 2056"
    using demo_calibration by blast
  have "mono (fo_round demo_f64)" by (simp add: demo_f64_def mono_def)
  from applied_threshold_separates[OF this res(1)] res show ?thesis by simp
qed

end
