(* ===== verification/Capture.thy ===== *)
theory Capture
  imports Levels Ports Eff Str
begin

text \<open>
  The capture of the microphone (src/audio.rs): the command line of the recorder, the thread that
  copies its output to the recording file and sends the metrics of every frame, the bounded
  channel to the daemon, and the life of the recorder process and of its file with the drop guards.
  The process, the file system and the environment are arguments that answer every call.
\<close>

section \<open>The recorder command\<close>

definition configured_device :: "utext option \<Rightarrow> utext option" where
  "configured_device device =
     (case map_option trim device of None \<Rightarrow> None | Some d \<Rightarrow> if d = [] then None else Some d)"

definition pipewire_command :: "utext option \<Rightarrow> utext list" where
  "pipewire_command device =
     map text_of [''pw-record'', ''--raw'', ''--format=s16'', ''--rate=16000'', ''--channels=1'',
       ''--media-category=Capture'', ''--media-role=Communication'', ''--latency=20ms''] @
     (case configured_device device of None \<Rightarrow> [] | Some d \<Rightarrow> [text_of ''--target'', d]) @
     [text_of ''-'']"

definition pulseaudio_command :: "utext option \<Rightarrow> utext list" where
  "pulseaudio_command device =
     map text_of [''parec'', ''--raw'', ''--format=s16le'', ''--rate=16000'', ''--channels=1'',
       ''--latency-msec=20'', ''--process-time-msec=20''] @
     [text_of ''--device='' @
      (case configured_device device of None \<Rightarrow> text_of ''@DEFAULT_SOURCE@'' | Some d \<Rightarrow> d)]"

text \<open>The directories of the search path that hold the command, for each of its entries.\<close>

definition command_exists :: "(string \<Rightarrow> string \<Rightarrow> bool) \<Rightarrow> string list option \<Rightarrow> string \<Rightarrow> bool" where
  "command_exists is_file path name =
     (case path of None \<Rightarrow> False | Some directories \<Rightarrow> list_ex (\<lambda>d. is_file d name) directories)"

definition capture_command ::
  "(string \<Rightarrow> string \<Rightarrow> bool) \<Rightarrow> string list option \<Rightarrow> utext option \<Rightarrow> string \<times> utext list" where
  "capture_command is_file path device =
     (if command_exists is_file path ''pw-record'' then (''pw-record'', pipewire_command device)
      else (''parec'', pulseaudio_command device))"

section \<open>Recording files\<close>

text \<open>The name of a file in the runtime directory; the time is in milliseconds since the epoch.\<close>

definition recording_name :: "nat \<Rightarrow> nat \<Rightarrow> string" where
  "recording_name pid timestamp =
     ''recording-'' @ show_nat pid @ ''-'' @ show_nat timestamp @ ''.pcm''"

definition recording_path ::
  "string option \<Rightarrow> string \<Rightarrow> (string \<Rightarrow> string option) \<Rightarrow> nat option \<Rightarrow> nat \<Rightarrow> string + string" where
  "recording_path runtime_dir temp_dir create_dir wall pid =
     (let directory = (case runtime_dir of None \<Rightarrow> temp_dir | Some d \<Rightarrow> d) @ ''/voxtype''
      in case create_dir directory of
           Some e \<Rightarrow> Inl e
         | None \<Rightarrow>
             Inr (directory @ ''/'' @ recording_name pid (case wall of None \<Rightarrow> 0 | Some m \<Rightarrow> m)))"

definition ends_with :: "string \<Rightarrow> string \<Rightarrow> bool" where
  "ends_with p s \<longleftrightarrow> starts_with (rev p) (rev s)"

definition is_recording_name :: "string \<Rightarrow> bool" where
  "is_recording_name name \<longleftrightarrow> starts_with ''recording-'' name \<and> ends_with ''.pcm'' name"

text \<open>The entries that are removed, of those that the directory lists.\<close>

definition cleanup_directory :: "(string list) option \<Rightarrow> string list" where
  "cleanup_directory entries =
     (case entries of None \<Rightarrow> [] | Some names \<Rightarrow> filter is_recording_name names)"

section \<open>The reader thread and the channel\<close>

definition capture_frame_bytes :: nat where
  "capture_frame_bytes = 640"

definition channel_capacity :: nat where
  "channel_capacity = 64"

definition reader_buffer :: nat where
  "reader_buffer = 16 * 1024"

text \<open>
  The state of the reader and of the channel. The file is what reached it, the log is what the
  daemon has received; the end is the error or the number of bytes that the thread returns.
\<close>

record capture =
  cp_file :: bytes
  cp_pending :: bytes
  cp_frame :: "64 word"
  cp_written :: "64 word"
  cp_end :: "(string + 64 word) option"
  cp_queue :: "audio_frame_metrics list"
  cp_received :: "audio_frame_metrics list"

definition capture_new :: capture where
  "capture_new =
     \<lparr> cp_file = [], cp_pending = [], cp_frame = 0, cp_written = 0, cp_end = None,
       cp_queue = [], cp_received = [] \<rparr>"

text \<open>
  One read of the recorder's output and the write of the chunk. A failing write gives the error and
  the number of bytes that reached the file before; an empty chunk is the end of the stream.
\<close>

definition reader_read :: "string + bytes \<Rightarrow> (string \<times> nat) option \<Rightarrow> capture \<Rightarrow> capture" where
  "reader_read read write_error c =
     (case read of
        Inl e \<Rightarrow> c\<lparr> cp_end := Some (Inl e) \<rparr>
      | Inr chunk \<Rightarrow>
          (case write_error of
             Some (e, n) \<Rightarrow>
               c\<lparr> cp_file := cp_file c @ take n chunk, cp_end := Some (Inl e) \<rparr>
           | None \<Rightarrow>
               if chunk = [] then c\<lparr> cp_end := Some (Inr (cp_written c)) \<rparr>
               else c\<lparr> cp_file := cp_file c @ chunk,
                       cp_written := sat_add (cp_written c) (word_of_nat (length chunk)),
                       cp_pending := cp_pending c @ chunk \<rparr>))"

text \<open>A full channel refuses the metrics, and the reader ignores that.\<close>

definition try_send :: "audio_frame_metrics \<Rightarrow> audio_frame_metrics list \<Rightarrow> audio_frame_metrics list" where
  "try_send m q = (if length q < channel_capacity then q @ [m] else q)"

definition reader_send :: "capture \<Rightarrow> capture" where
  "reader_send c =
     c\<lparr> cp_queue := try_send (frame_metrics (cp_frame c) (take capture_frame_bytes (cp_pending c)))
                      (cp_queue c),
        cp_pending := drop capture_frame_bytes (cp_pending c),
        cp_frame := sat_add (cp_frame c) 1 \<rparr>"

definition try_recv :: "capture \<Rightarrow> audio_frame_metrics option \<times> capture" where
  "try_recv c =
     (case cp_queue c of
        [] \<Rightarrow> (None, c)
      | m # q \<Rightarrow> (Some m, c\<lparr> cp_queue := q, cp_received := cp_received c @ [m] \<rparr>))"

text \<open>
  The steps of the two threads in any interleaving: the reader reads when it has no complete frame
  left, sends otherwise, and the daemon receives one value at a time.
\<close>

inductive capture_step :: "capture \<Rightarrow> capture \<Rightarrow> bool" where
  reads: "cp_end c = None \<Longrightarrow> length (cp_pending c) < capture_frame_bytes \<Longrightarrow>
     length chunk \<le> reader_buffer \<Longrightarrow> capture_step c (reader_read (Inr chunk) write_error c)"
| read_fails: "cp_end c = None \<Longrightarrow> length (cp_pending c) < capture_frame_bytes \<Longrightarrow>
     capture_step c (reader_read (Inl e) write_error c)"
| sends: "cp_end c = None \<Longrightarrow> capture_frame_bytes \<le> length (cp_pending c) \<Longrightarrow>
     capture_step c (reader_send c)"
| receives: "try_recv c = (Some m, d) \<Longrightarrow> capture_step c d"

inductive captures :: "capture \<Rightarrow> capture \<Rightarrow> bool" where
  captures_refl: "captures c c"
| captures_step: "captures c d \<Longrightarrow> capture_step d e \<Longrightarrow> captures c e"

text \<open>A drain that meets no send of the reader, and the values for the daemon.\<close>

definition drain_frames :: "capture \<Rightarrow> audio_frame_metrics list \<times> capture" where
  "drain_frames c = (cp_queue c, c\<lparr> cp_queue := [], cp_received := cp_received c @ cp_queue c \<rparr>)"

definition capture_metrics_from :: "audio_frame_metrics \<Rightarrow> capture_frame_metrics" where
  "capture_metrics_from m =
     \<lparr> cm_frame = fm_frame m, cm_rms = fm_rms m, cm_peak = fm_peak m,
       cm_clipped_samples = fm_clipped_samples m, cm_samples = fm_samples m \<rparr>"

definition drain_metrics :: "capture \<Rightarrow> capture_frame_metrics list \<times> capture" where
  "drain_metrics c = (case drain_frames c of (ms, d) \<Rightarrow> (map capture_metrics_from ms, d))"

text \<open>The whole reader, with no receiver, on the chunks that it reads.\<close>

fun reader_send_frames :: "nat \<Rightarrow> capture \<Rightarrow> capture" where
  "reader_send_frames 0 c = c"
| "reader_send_frames (Suc n) c =
     (if length (cp_pending c) < capture_frame_bytes then c else reader_send_frames n (reader_send c))"

fun reader_run :: "bytes list \<Rightarrow> capture \<Rightarrow> capture" where
  "reader_run [] c = reader_read (Inr []) None c"
| "reader_run (chunk # chunks) c =
     (if chunk = [] then reader_read (Inr []) None c
      else let d = reader_read (Inr chunk) None c
           in reader_run chunks (reader_send_frames (length (cp_pending d)) d))"

section \<open>The life of a recording\<close>

text \<open>
  The answers of the system, the n-th call of a kind taking the n-th answer: what try_wait sees
  (an error or whether the child has exited), and whether wait and kill succeed; the result of the
  kill command; how the reader thread ends, or that it panicked.
\<close>

record capture_world =
  cw_path :: "string + string"
  cw_create :: "string option"
  cw_spawn :: "string option"
  cw_stdout :: bool
  cw_thread :: "string option"
  cw_backend :: string
  cw_status :: string
  cw_try_wait :: "nat \<Rightarrow> string + bool"
  cw_wait :: "nat \<Rightarrow> string option"
  cw_kill :: "nat \<Rightarrow> string option"
  cw_interrupt :: "string + bool"
  cw_reader :: "(string + 64 word) option"
  cw_length :: "string + 64 word"

datatype host_effect =
    CreateFile string
  | RemoveFile string
  | SpawnChild
  | InterruptChild
  | KillChild
  | WaitChild
  | ChildGone
  | StartReader
  | JoinReader

text \<open>The standard library remembers the status of a child that was waited for.\<close>

record host =
  hs_calls :: nat
  hs_gone :: bool
  hs_reader :: bool
  hs_effects :: "host_effect list"

definition host_new :: "nat \<Rightarrow> host" where
  "host_new n = \<lparr> hs_calls = n, hs_gone = False, hs_reader = False, hs_effects = [] \<rparr>"

definition effect :: "host_effect \<Rightarrow> host \<Rightarrow> host" where
  "effect x h = h\<lparr> hs_effects := hs_effects h @ [x], hs_calls := hs_calls h + 1 \<rparr>"

definition perform :: "host_effect \<Rightarrow> string option \<Rightarrow> (host, string, unit) eff" where
  "perform x failure1 h = (case failure1 of None \<Rightarrow> Inr () | Some e \<Rightarrow> Inl e, effect x h)"

definition gone :: "host \<Rightarrow> host" where
  "gone h = effect ChildGone (h\<lparr> hs_gone := True \<rparr>)"

definition try_wait :: "capture_world \<Rightarrow> (host, string, bool) eff" where
  "try_wait W h =
     (if hs_gone h then (Inr True, h)
      else case cw_try_wait W (hs_calls h) of
             Inl e \<Rightarrow> (Inl e, h\<lparr> hs_calls := hs_calls h + 1 \<rparr>)
           | Inr True \<Rightarrow> (Inr True, gone h)
           | Inr False \<Rightarrow> (Inr False, h\<lparr> hs_calls := hs_calls h + 1 \<rparr>))"

definition wait_child :: "capture_world \<Rightarrow> (host, string, unit) eff" where
  "wait_child W h =
     (if hs_gone h then (Inr (), h)
      else case cw_wait W (hs_calls h) of
             Some e \<Rightarrow> (Inl e, effect WaitChild h)
           | None \<Rightarrow> (Inr (), gone (effect WaitChild h)))"

definition kill_child :: "capture_world \<Rightarrow> (host, string, unit) eff" where
  "kill_child W h =
     (if hs_gone h then (Inr (), h) else perform KillChild (cw_kill W (hs_calls h)) h)"

definition join_reader :: "capture_world \<Rightarrow> (host, string, unit) eff" where
  "join_reader W h =
     (if \<not> hs_reader h then (Inr (), h)
      else (case cw_reader W of
              None \<Rightarrow> Inl ''audio reader thread panicked''
            | Some (Inl e) \<Rightarrow> Inl e
            | Some (Inr _) \<Rightarrow> Inr (), effect JoinReader (h\<lparr> hs_reader := False \<rparr>)))"

text \<open>A cleanup that runs when the operation fails, as the drop of a guard does.\<close>

definition on_error :: "(host \<Rightarrow> host) \<Rightarrow> (host, string, 'a) eff \<Rightarrow> (host, string, 'a) eff" where
  "on_error cleanup m h = (case m h of (Inl e, h') \<Rightarrow> (Inl e, cleanup h') | (Inr a, h') \<Rightarrow> (Inr a, h'))"

definition drop_path_guard :: "string \<Rightarrow> host \<Rightarrow> host" where
  "drop_path_guard path = effect (RemoveFile path)"

definition child_gone_now :: "capture_world \<Rightarrow> host \<Rightarrow> bool \<times> host" where
  "child_gone_now W h = (case try_wait W h of (Inr True, h') \<Rightarrow> (True, h') | (_, h') \<Rightarrow> (False, h'))"

definition drop_child_guard :: "capture_world \<Rightarrow> host \<Rightarrow> host" where
  "drop_child_guard W h =
     (case child_gone_now W h of
        (exited, h1) \<Rightarrow>
          let h2 = (if exited then h1 else snd (kill_child W h1)) in snd (wait_child W h2))"

record recording =
  rc_path :: string
  rc_backend :: string

record recording_result =
  rr_path :: string
  rr_bytes :: "64 word"
  rr_duration_millis :: "64 word"
  rr_backend :: string

text \<open>The part of the start that runs under both guards.\<close>

definition start_child :: "capture_world \<Rightarrow> (host, string, unit) eff" where
  "start_child W =
     seq (if cw_stdout W then give () else raise ''parec stdout is unavailable'') (\<lambda>_.
     seq (case cw_thread W of
            Some e \<Rightarrow> raise e
          | None \<Rightarrow> (\<lambda>h. (Inr (), effect StartReader (h\<lparr> hs_reader := True \<rparr>)))) (\<lambda>_.
     seq (try_wait W) (\<lambda>exited.
       if exited
       then (\<lambda>h. (Inl (cw_backend W @ '' exited during startup with '' @ cw_status W),
                   snd (join_reader W h)))
       else give ())))"

definition start_with_device :: "capture_world \<Rightarrow> (host, string, recording) eff" where
  "start_with_device W =
     (case cw_path W of
        Inl e \<Rightarrow> raise e
      | Inr path \<Rightarrow>
          on_error (drop_path_guard path)
            (seq (perform (CreateFile path) (cw_create W)) (\<lambda>_.
             seq (case cw_spawn W of Some e \<Rightarrow> raise e | None \<Rightarrow> perform SpawnChild None) (\<lambda>_.
             seq (on_error (drop_child_guard W) (start_child W)) (\<lambda>_.
               give \<lparr> rc_path = path, rc_backend = cw_backend W \<rparr>)))))"

definition drop_recording :: "capture_world \<Rightarrow> string \<Rightarrow> bool \<Rightarrow> host \<Rightarrow> host" where
  "drop_recording W path preserve h =
     (case child_gone_now W h of
        (exited, h1) \<Rightarrow>
          let h2 = (if exited then h1 else snd (wait_child W (snd (kill_child W h1))));
              h3 = snd (join_reader W h2)
          in if preserve then h3 else effect (RemoveFile path) h3)"

definition stop_body :: "capture_world \<Rightarrow> recording \<Rightarrow> (host, string, recording_result) eff" where
  "stop_body W rec =
     seq (try_wait W) (\<lambda>exited.
     seq (if exited then give ()
          else seq (\<lambda>h. (cw_interrupt W, effect InterruptChild h)) (\<lambda>ok.
               if ok then give () else kill_child W)) (\<lambda>_.
     seq (wait_child W) (\<lambda>_.
     seq (join_reader W) (\<lambda>_ h.
       case cw_length W of
         Inl e \<Rightarrow> (Inl e, h)
       | Inr n \<Rightarrow>
           (Inr \<lparr> rr_path = rc_path rec, rr_bytes = n,
                  rr_duration_millis = sat_mul n 1000 div 32000,
                  rr_backend = rc_backend rec \<rparr>, h)))))"

definition stop_recording :: "capture_world \<Rightarrow> recording \<Rightarrow> (host, string, recording_result) eff" where
  "stop_recording W rec h =
     (case stop_body W rec h of
        (Inl e, h') \<Rightarrow> (Inl e, drop_recording W (rc_path rec) False h')
      | (Inr r, h') \<Rightarrow> (Inr r, drop_recording W (rc_path rec) True h'))"

definition cancel_recording :: "capture_world \<Rightarrow> recording \<Rightarrow> host \<Rightarrow> host" where
  "cancel_recording W rec h =
     drop_recording W (rc_path rec) False
       (effect (RemoveFile (rc_path rec))
          (snd (join_reader W (snd (wait_child W (snd (kill_child W h)))))))"

section \<open>The adapter\<close>

definition adapter_start :: "capture_world \<Rightarrow> (host, vox_error, recording) eff" where
  "adapter_start W h =
     map_prod (map_sum (vox_error_new EcUnavailable ''audio.start_failed'') id) id
       (start_with_device W h)"

definition session_stop :: "capture_world \<Rightarrow> recording \<Rightarrow> (host, vox_error, captured_audio) eff" where
  "session_stop W rec h =
     map_prod (map_sum (vox_error_new EcUnavailable ''audio.stop_failed'')
         (\<lambda>r. \<lparr> ca_path = rr_path r, ca_bytes = rr_bytes r,
                ca_duration_millis = rr_duration_millis r, ca_backend = rr_backend r \<rparr>)) id
       (stop_recording W rec h)"

end
