(* ===== verification/Capture_Props.thy ===== *)
theory Capture_Props
  imports Capture "HOL-Library.Sublist"
begin

text \<open>
  What the capture guarantees: the metrics that reach the daemon are those of the frames of the
  recording file, in order, and the recorder process and its file are released on every path.
\<close>

inductive_cases captures_cases: "captures c d"

section \<open>Frames of a recording\<close>

definition frame_at :: "nat \<Rightarrow> bytes \<Rightarrow> bytes" where
  "frame_at k bs = take capture_frame_bytes (drop (capture_frame_bytes * k) bs)"

definition frame_number :: "nat \<Rightarrow> 64 word" where
  "frame_number k = word_of_nat (min k (2 ^ 64 - 1))"

definition metrics_at :: "bytes \<Rightarrow> nat \<Rightarrow> audio_frame_metrics" where
  "metrics_at bs k = frame_metrics (frame_number k) (frame_at k bs)"

lemma unat_frame_number: "unat (frame_number k) = min k (2 ^ 64 - 1)"
  unfolding frame_number_def by (rule unat_word_of_nat) (simp add: min_def)

lemma frame_number_Suc: "sat_add (frame_number k) 1 = frame_number (Suc k)"
proof -
  have "unat (sat_add (frame_number k) 1) = unat (frame_number (Suc k))"
    unfolding unat_sat_add unat_frame_number by auto
  then show ?thesis by (rule word_unat_eq_iff[THEN iffD2])
qed

lemma frame_at_append: "capture_frame_bytes * Suc k \<le> length bs \<Longrightarrow> frame_at k (bs @ cs) = frame_at k bs"
  by (simp add: frame_at_def)

lemma metrics_append:
  assumes "capture_frame_bytes * n \<le> length bs"
  shows "map (metrics_at (bs @ cs)) [0..<n] = map (metrics_at bs) [0..<n]"
proof (rule map_cong)
  fix k assume "k \<in> set [0..<n]"
  then have "capture_frame_bytes * Suc k \<le> capture_frame_bytes * n" by (intro mult_le_mono2) simp
  with assms have "capture_frame_bytes * Suc k \<le> length bs" by linarith
  then show "metrics_at (bs @ cs) k = metrics_at bs k"
    by (simp only: metrics_at_def frame_at_append)
qed simp

section \<open>The invariant of the reader and the channel\<close>

text \<open>The number of frames that the reader has processed is an argument.\<close>

definition capture_inv :: "nat \<Rightarrow> capture \<Rightarrow> bool" where
  "capture_inv n c \<longleftrightarrow>
     capture_frame_bytes * n + length (cp_pending c) \<le> length (cp_file c) \<and>
     take (length (cp_pending c)) (drop (capture_frame_bytes * n) (cp_file c)) = cp_pending c \<and>
     cp_frame c = frame_number n \<and>
     ((\<forall>e. cp_end c \<noteq> Some (Inl e)) \<longrightarrow>
        length (cp_file c) = capture_frame_bytes * n + length (cp_pending c) \<and>
        unat (cp_written c) = min (length (cp_file c)) (2 ^ 64 - 1)) \<and>
     (\<forall>w. cp_end c = Some (Inr w) \<longrightarrow> length (cp_pending c) < capture_frame_bytes \<and> w = cp_written c) \<and>
     length (cp_queue c) \<le> channel_capacity \<and>
     subseq (cp_received c @ cp_queue c) (map (metrics_at (cp_file c)) [0..<n]) \<and>
     (n \<le> channel_capacity \<longrightarrow>
        cp_received c @ cp_queue c = map (metrics_at (cp_file c)) [0..<n])"

lemma inv_new: "capture_inv 0 capture_new"
  by (simp add: capture_inv_def capture_new_def frame_number_def)

lemma inv_reads:
  assumes "capture_inv n c" and "cp_end c = None" and "length (cp_pending c) < capture_frame_bytes"
    and "length chunk < 2 ^ 64"
  shows "capture_inv n (reader_read (Inr chunk) write_error c)"
proof -
  have len: "length (cp_file c) = capture_frame_bytes * n + length (cp_pending c)"
    and written: "unat (cp_written c) = min (length (cp_file c)) (2 ^ 64 - 1)"
    using assms(1,2) by (auto simp: capture_inv_def)
  have frames: "capture_frame_bytes * n \<le> length (cp_file c)" using len by simp
  have grown: "unat (sat_add (cp_written c) (word_of_nat (length chunk))) =
      min (length (cp_file c) + length chunk) (2 ^ 64 - 1)"
    using written assms(4) by (auto simp: unat_sat_add unat_word_of_nat)
  show ?thesis
    using assms(1-3) len grown frames
    by (auto simp: capture_inv_def reader_read_def metrics_append[OF frames] split: option.splits)
qed

lemma inv_sends:
  assumes "capture_inv n c" and "cp_end c = None" and "capture_frame_bytes \<le> length (cp_pending c)"
  shows "capture_inv (Suc n) (reader_send c)"
proof -
  have held: "take (length (cp_pending c)) (drop (capture_frame_bytes * n) (cp_file c)) = cp_pending c"
    using assms(1) by (simp add: capture_inv_def)
  have "frame_at n (cp_file c) = take capture_frame_bytes (cp_pending c)"
    using held assms(3) by (metis frame_at_def min.absorb1 take_take)
  then have m: "frame_metrics (cp_frame c) (take capture_frame_bytes (cp_pending c)) = metrics_at (cp_file c) n"
    using assms(1) by (simp add: capture_inv_def metrics_at_def)
  have rest: "take (length (cp_pending c) - capture_frame_bytes)
      (drop (capture_frame_bytes * Suc n) (cp_file c)) = drop capture_frame_bytes (cp_pending c)"
  proof -
    have "drop capture_frame_bytes (take (length (cp_pending c)) (drop (capture_frame_bytes * n) (cp_file c))) =
        take (length (cp_pending c) - capture_frame_bytes)
          (drop (capture_frame_bytes * Suc n) (cp_file c))"
      by (simp add: drop_take add.commute)
    then show ?thesis by (simp only: held)
  qed
  have room: "n < channel_capacity \<Longrightarrow> length (cp_queue c) < channel_capacity"
  proof -
    assume "n < channel_capacity"
    then have "length (cp_received c @ cp_queue c) = n"
      using assms(1) by (simp add: capture_inv_def)
    then show "length (cp_queue c) < channel_capacity" using \<open>n < channel_capacity\<close> by simp
  qed
  let ?all = "cp_received c @ cp_queue c" and ?ms = "map (metrics_at (cp_file c)) [0..<n]"
  have sent: "cp_received (reader_send c) @ cp_queue (reader_send c) =
      (if length (cp_queue c) < channel_capacity then ?all @ [metrics_at (cp_file c) n] else ?all)"
    by (simp add: reader_send_def try_send_def m)
  have sub: "subseq ?all ?ms" and exact: "n \<le> channel_capacity \<Longrightarrow> ?all = ?ms"
    using assms(1) by (simp_all add: capture_inv_def)
  have "subseq (?all @ [metrics_at (cp_file c) n]) (?ms @ [metrics_at (cp_file c) n])"
    using sub by (rule list_emb_append_mono) simp
  moreover have "subseq ?all (?ms @ [metrics_at (cp_file c) n])"
    using sub by (rule list_emb_prefix)
  ultimately have "subseq (cp_received (reader_send c) @ cp_queue (reader_send c))
      (map (metrics_at (cp_file c)) [0..<Suc n])"
    by (simp add: sent)
  moreover have "Suc n \<le> channel_capacity \<Longrightarrow>
      cp_received (reader_send c) @ cp_queue (reader_send c) = map (metrics_at (cp_file c)) [0..<Suc n]"
    using room exact by (simp add: sent)
  moreover have "cp_file (reader_send c) = cp_file c" "cp_end (reader_send c) = None"
    "cp_written (reader_send c) = cp_written c" "cp_frame (reader_send c) = frame_number (Suc n)"
    "cp_pending (reader_send c) = drop capture_frame_bytes (cp_pending c)"
    "length (cp_queue (reader_send c)) \<le> channel_capacity"
    using assms by (auto simp: reader_send_def try_send_def frame_number_Suc capture_inv_def)
  moreover have "length (cp_file c) = capture_frame_bytes * n + length (cp_pending c)"
    "unat (cp_written c) = min (length (cp_file c)) (2 ^ 64 - 1)"
    using assms(1,2) by (simp_all add: capture_inv_def)
  ultimately show ?thesis
    using assms(3) rest by (simp add: capture_inv_def)
qed

lemma inv_receives:
  assumes "capture_inv n c" and "try_recv c = (Some m, d)"
  shows "capture_inv n d"
  using assms by (auto simp: try_recv_def capture_inv_def split: list.splits)

lemma inv_step:
  assumes "capture_step c d" and "capture_inv n c"
  shows "\<exists>n'. capture_inv n' d"
  using assms
proof (cases rule: capture_step.cases)
  case (reads chunk write_error)
  then have "length chunk < 2 ^ 64" by (simp add: reader_buffer_def)
  then show ?thesis using inv_reads[OF assms(2)] reads by blast
next
  case (read_fails e write_error)
  then show ?thesis using assms(2) by (auto simp: reader_read_def capture_inv_def)
next
  case sends
  then show ?thesis using inv_sends[OF assms(2)] by blast
next
  case (receives m)
  then show ?thesis using inv_receives[OF assms(2)] by blast
qed

lemma inv_captures: "captures c d \<Longrightarrow> capture_inv n c \<Longrightarrow> \<exists>n'. capture_inv n' d"
  by (induction rule: captures.induct) (blast intro: inv_step)+

lemma step_keeps_frames:
  assumes "capture_inv n c" and "capture_step c d" and "length (cp_queue c) < channel_capacity"
    and "length (cp_pending d) < length (cp_pending c)"
  shows "cp_received d @ cp_queue d = cp_received c @ cp_queue c @ [metrics_at (cp_file c) n]"
  using assms(2)
proof (cases rule: capture_step.cases)
  case (reads chunk write_error)
  then show ?thesis using assms(4) by (auto simp: reader_read_def split: option.splits if_splits)
next
  case (read_fails e write_error)
  then show ?thesis using assms(4) by (simp add: reader_read_def)
next
  case sends
  have "take (length (cp_pending c)) (drop (capture_frame_bytes * n) (cp_file c)) = cp_pending c"
    using assms(1) by (simp add: capture_inv_def)
  then have "frame_at n (cp_file c) = take capture_frame_bytes (cp_pending c)"
    using sends by (metis frame_at_def min.absorb1 take_take)
  then show ?thesis
    using sends assms(1,3)
    by (simp add: reader_send_def try_send_def metrics_at_def capture_inv_def)
next
  case (receives m)
  then show ?thesis using assms(4) by (auto simp: try_recv_def split: list.splits)
qed

section \<open>The reader without a receiver\<close>

lemma captures_trans: "captures d e \<Longrightarrow> captures c d \<Longrightarrow> captures c e"
  by (induction rule: captures.induct) (auto intro: captures_step)

lemma capture_step_captures: "capture_step c d \<Longrightarrow> captures c d"
  by (blast intro: captures.intros)

lemma send_frames_captures:
  "cp_end c = None \<Longrightarrow> length (cp_pending c) \<le> n \<Longrightarrow>
   captures c (reader_send_frames n c) \<and> length (cp_pending (reader_send_frames n c)) < capture_frame_bytes \<and>
   cp_end (reader_send_frames n c) = None \<and> cp_file (reader_send_frames n c) = cp_file c"
proof (induction n c rule: reader_send_frames.induct)
  case (1 c)
  then show ?case by (simp add: captures_refl capture_frame_bytes_def)
next
  case (2 n c)
  show ?case
  proof (cases "length (cp_pending c) < capture_frame_bytes")
    case True
    then show ?thesis using 2 by (simp add: captures_refl)
  next
    case False
    then have "capture_step c (reader_send c)" using 2 by (simp add: sends)
    moreover have "cp_end (reader_send c) = None" "cp_file (reader_send c) = cp_file c"
      "length (cp_pending (reader_send c)) \<le> n"
      using 2 False by (simp_all add: reader_send_def capture_frame_bytes_def)
    ultimately show ?thesis
      using 2 False capture_step_captures captures_trans by auto
  qed
qed

lemma reader_run_captures:
  assumes "cp_end c = None" and "length (cp_pending c) < capture_frame_bytes"
    and "list_all (\<lambda>chunk. length chunk \<le> reader_buffer) chunks"
  shows "captures c (reader_run chunks c) \<and>
         cp_file (reader_run chunks c) = cp_file c @ concat (takeWhile (\<lambda>chunk. chunk \<noteq> []) chunks)"
  using assms
proof (induction chunks c rule: reader_run.induct)
  case (1 c)
  then have "capture_step c (reader_read (Inr []) None c)" by (simp add: reads)
  then show ?case by (simp add: capture_step_captures) (simp add: reader_read_def)
next
  case (2 chunk chunks c)
  show ?case
  proof (cases "chunk = []")
    case True
    then have "capture_step c (reader_read (Inr []) None c)" using 2 by (simp add: reads)
    then show ?thesis using True by (simp add: capture_step_captures) (simp add: reader_read_def)
  next
    case False
    let ?d = "reader_read (Inr chunk) None c"
    let ?e = "reader_send_frames (length (cp_pending ?d)) ?d"
    have step: "capture_step c ?d" using 2 by (simp add: reads)
    have d: "cp_end ?d = None" "cp_file ?d = cp_file c @ chunk"
      using 2 False by (simp_all add: reader_read_def)
    note e = send_frames_captures[OF d(1) order_refl]
    then have "captures ?e (reader_run chunks ?e)" "cp_file (reader_run chunks ?e) =
        cp_file ?e @ concat (takeWhile (\<lambda>chunk. chunk \<noteq> []) chunks)"
      using 2(1)[OF False refl] 2(4) by simp_all
    then show ?thesis
      using False e d(2) captures_trans[OF _ captures_trans[OF _ capture_step_captures[OF step]]]
      by (auto simp: Let_def)
  qed
qed

section \<open>The life of a recording\<close>

definition settled :: "host \<Rightarrow> bool" where
  "settled h \<longleftrightarrow> hs_gone h \<or> subseq [KillChild, WaitChild] (hs_effects h)"

definition grows :: "host \<Rightarrow> host \<Rightarrow> bool" where
  "grows h h' \<longleftrightarrow> (\<exists>es. hs_effects h' = hs_effects h @ es) \<and> (hs_gone h \<longrightarrow> hs_gone h')"

lemmas host_defs = try_wait_def wait_child_def kill_child_def join_reader_def perform_def effect_def
  gone_def child_gone_now_def

lemma grows_trans: "grows h h' \<Longrightarrow> grows h' h'' \<Longrightarrow> grows h h''"
  by (fastforce simp: grows_def)

lemma grows_settled: "grows h h' \<Longrightarrow> settled h \<Longrightarrow> settled h'"
  by (auto simp: grows_def settled_def intro: list_emb_prefix)

lemma grows_effects: "grows h h' \<Longrightarrow> set (hs_effects h) \<subseteq> set (hs_effects h')"
  by (auto simp: grows_def)

lemma host_grows:
  "grows h (effect x h)" "grows h (snd (try_wait W h))" "grows h (snd (wait_child W h))"
  "grows h (snd (kill_child W h))" "grows h (snd (join_reader W h))" "grows h (snd (child_gone_now W h))"
  by (auto simp: grows_def host_defs split: sum.splits option.splits bool.splits)

text \<open>Killing the child and waiting for it settles it, whatever the calls answer.\<close>

lemma kill_wait_settled: "settled (snd (wait_child W (snd (kill_child W h))))"
proof (cases "hs_gone h")
  case True
  then show ?thesis by (simp add: settled_def host_defs)
next
  case False
  have "subseq [KillChild, WaitChild] (hs_effects h @ [KillChild, WaitChild])"
    by (rule list_emb_append2) simp
  then show ?thesis using False
    by (auto simp: settled_def host_defs split: option.splits)
qed

lemma drop_recording_released:
  "settled (drop_recording W path preserve h) \<and> \<not> hs_reader (drop_recording W path preserve h) \<and>
   grows h (drop_recording W path preserve h) \<and>
   (\<not> preserve \<longrightarrow> last (hs_effects (drop_recording W path preserve h)) = RemoveFile path)"
proof -
  obtain exited h1 where g: "child_gone_now W h = (exited, h1)" by (cases "child_gone_now W h")
  let ?h2 = "if exited then h1 else snd (wait_child W (snd (kill_child W h1)))"
  have "grows h h1" using host_grows(6)[of h W] g by simp
  moreover have "exited \<Longrightarrow> hs_gone h1"
    using g by (auto simp: host_defs split: sum.splits if_splits bool.splits)
  ultimately have "settled ?h2" "grows h ?h2"
    using kill_wait_settled host_grows(3,4) grows_trans by (auto simp: settled_def) blast
  moreover have "\<not> hs_reader (snd (join_reader W ?h2))" by (simp add: host_defs)
  moreover note host_grows(5)[of ?h2 W]
  ultimately have h3: "settled (snd (join_reader W ?h2))" "grows h (snd (join_reader W ?h2))"
    "\<not> hs_reader (snd (join_reader W ?h2))"
    using grows_trans grows_settled by blast+
  define h3 where "h3 = snd (join_reader W ?h2)"
  have drop: "drop_recording W path preserve h = (if preserve then h3 else effect (RemoveFile path) h3)"
    by (simp add: drop_recording_def g Let_def h3_def)
  note h3 = h3[folded h3_def]
  have "settled (effect x h3)" "grows h (effect x h3)" for x
    using h3 host_grows(1)[of h3 x] grows_settled grows_trans by blast+
  moreover have "\<not> hs_reader (effect x h3)" "last (hs_effects (effect x h3)) = x" for x
    using h3(3) by (simp_all add: effect_def)
  ultimately show ?thesis using h3 unfolding drop by simp
qed

text \<open>A start that fails has removed its file and settled the recorder that it started.\<close>

definition released :: "string \<Rightarrow> host \<Rightarrow> bool" where
  "released path h \<longleftrightarrow>
     last (hs_effects h) = RemoveFile path \<and>
     (SpawnChild \<in> set (hs_effects h) \<longrightarrow> settled h)"

lemma drop_child_guard_settled: "settled (drop_child_guard W h) \<and> grows h (drop_child_guard W h)"
proof -
  obtain exited h1 where g: "child_gone_now W h = (exited, h1)" by (cases "child_gone_now W h")
  have h1: "grows h h1" using host_grows(6)[of h W] g by simp
  show ?thesis
  proof (cases exited)
    case True
    then have "settled h1" using g
      by (auto simp: settled_def host_defs split: sum.splits if_splits bool.splits)
    moreover have "grows h (snd (wait_child W h1))" "settled h1 \<Longrightarrow> settled (snd (wait_child W h1))"
      using h1 host_grows(3)[of h1 W] grows_settled grows_trans by blast+
    ultimately show ?thesis using True by (simp add: drop_child_guard_def g)
  next
    case False
    have "grows h (snd (wait_child W (snd (kill_child W h1))))"
      using h1 host_grows(4)[of h1 W] host_grows(3)[of "snd (kill_child W h1)" W] grows_trans by blast
    then show ?thesis using False kill_wait_settled[of W h1] by (simp add: drop_child_guard_def g)
  qed
qed

lemma start_child_grows:
  assumes "start_child W h = (r, h')"
  shows "grows h h' \<and> set (hs_effects h') \<subseteq> set (hs_effects h) \<union> {StartReader, ChildGone, JoinReader} \<and>
    (\<forall>a. r = Inr a \<longrightarrow> \<not> hs_gone h \<longrightarrow>
       hs_effects h' = hs_effects h @ [StartReader] \<and> hs_reader h' \<and> \<not> hs_gone h')"
  using assms
  by (auto simp: start_child_def seq_def grows_def host_defs
      split: if_splits option.splits sum.splits bool.splits)

lemma start_outcome:
  assumes "start_with_device W (host_new n) = (r, h)" and "cw_path W = Inr path"
  shows "(\<forall>e. r = Inl e \<longrightarrow> released path h) \<and>
    (\<forall>rec. r = Inr rec \<longrightarrow>
       rc_path rec = path \<and> hs_reader h \<and> \<not> hs_gone h \<and>
       hs_effects h = [CreateFile path, SpawnChild, StartReader])"
proof -
  let ?h1 = "snd (perform (CreateFile path) (cw_create W) (host_new n))"
  have h1: "hs_effects ?h1 = [CreateFile path]" "\<not> hs_gone ?h1"
    by (simp_all add: perform_def effect_def host_new_def)
  show ?thesis
  proof (cases "cw_create W = None \<and> cw_spawn W = None")
    case False
    then show ?thesis using assms
      by (auto simp: start_with_device_def on_error_def seq_def perform_def released_def
          drop_path_guard_def effect_def host_new_def split: option.splits)
  next
    case True
    let ?h2 = "effect SpawnChild ?h1"
    obtain r1 h3 where start: "start_child W ?h2 = (r1, h3)" by (cases "start_child W ?h2")
    have "hs_effects ?h2 = [CreateFile path, SpawnChild]" "\<not> hs_gone ?h2"
      using h1 by (simp_all add: effect_def)
    then have ok: "r1 = Inr a \<Longrightarrow> hs_effects h3 = [CreateFile path, SpawnChild, StartReader] \<and>
        hs_reader h3 \<and> \<not> hs_gone h3" for a
      using start_child_grows[OF start] by simp
    have settled: "settled (effect (RemoveFile path) (drop_child_guard W h3))"
      using drop_child_guard_settled[of W h3] host_grows(1) grows_settled by blast
    show ?thesis
      using assms True start ok settled
      by (cases r1) (auto simp: start_with_device_def on_error_def seq_def perform_def
          drop_path_guard_def released_def effect_def)
  qed
qed

text \<open>What the calls of a stop add to the effects.\<close>

lemma stop_effects:
  "hs_reader (snd (try_wait W h)) = hs_reader h"
  "hs_reader (snd (kill_child W h)) = hs_reader h"
  "hs_reader (snd (wait_child W h)) = hs_reader h"
  "RemoveFile p \<in> set (hs_effects (snd (try_wait W h))) \<longleftrightarrow> RemoveFile p \<in> set (hs_effects h)"
  "RemoveFile p \<in> set (hs_effects (snd (kill_child W h))) \<longleftrightarrow> RemoveFile p \<in> set (hs_effects h)"
  "RemoveFile p \<in> set (hs_effects (snd (wait_child W h))) \<longleftrightarrow> RemoveFile p \<in> set (hs_effects h)"
  "RemoveFile p \<in> set (hs_effects (snd (join_reader W h))) \<longleftrightarrow> RemoveFile p \<in> set (hs_effects h)"
  by (auto simp: host_defs split: option.splits sum.splits bool.splits)

definition interrupt_child :: "capture_world \<Rightarrow> bool \<Rightarrow> (host, string, unit) eff" where
  "interrupt_child W exited =
     (if exited then give ()
      else seq (\<lambda>h. (cw_interrupt W, effect InterruptChild h)) (\<lambda>ok.
           if ok then give () else kill_child W))"

lemma interrupt_effects:
  "hs_reader (snd (interrupt_child W exited h)) = hs_reader h \<and>
   (RemoveFile p \<in> set (hs_effects (snd (interrupt_child W exited h))) \<longleftrightarrow>
    RemoveFile p \<in> set (hs_effects h))"
  using stop_effects(2,5)[where W = W and h = "effect InterruptChild h"]
  by (auto simp: interrupt_child_def seq_def effect_def split: sum.splits)

lemma join_ok:
  assumes "join_reader W h = (Inr u, h')"
  shows "\<not> hs_reader h' \<and> hs_gone h' = hs_gone h \<and>
    (hs_reader h \<longrightarrow> JoinReader \<in> set (hs_effects h') \<and> (\<exists>w. cw_reader W = Some (Inr w)))"
  using assms by (auto simp: join_reader_def effect_def split: if_splits option.splits sum.splits)

lemma wait_ok: "wait_child W h = (Inr u, h') \<Longrightarrow> hs_gone h'"
  by (auto simp: wait_child_def gone_def effect_def split: if_splits option.splits)

lemma stop_body_ok:
  assumes "stop_body W rec h = (Inr res, h')"
  shows "hs_gone h' \<and> \<not> hs_reader h' \<and> rr_path res = rc_path rec \<and> cw_length W = Inr (rr_bytes res) \<and>
    rr_duration_millis res = sat_mul (rr_bytes res) 1000 div 32000 \<and>
    (RemoveFile p \<in> set (hs_effects h') \<longleftrightarrow> RemoveFile p \<in> set (hs_effects h)) \<and>
    (hs_reader h \<longrightarrow> JoinReader \<in> set (hs_effects h') \<and> (\<exists>w. cw_reader W = Some (Inr w)))"
proof -
  obtain exited h1 u h2 v h3 z where t: "try_wait W h = (Inr exited, h1)"
    and i: "interrupt_child W exited h1 = (Inr u, h2)" and w: "wait_child W h2 = (Inr v, h3)"
    and j: "join_reader W h3 = (Inr z, h')"
    and r: "cw_length W = Inr (rr_bytes res)" "rr_path res = rc_path rec"
      "rr_duration_millis res = sat_mul (rr_bytes res) 1000 div 32000"
    using assms unfolding stop_body_def interrupt_child_def[symmetric] seq_ok
    by (cases "cw_length W") fastforce+
  have "hs_reader h3 = hs_reader h" "RemoveFile p \<in> set (hs_effects h') \<longleftrightarrow> RemoveFile p \<in> set (hs_effects h)"
    using stop_effects(1,4)[where W = W and h = h] stop_effects(3,6)[where W = W and h = h2] stop_effects(7)[of p W h3]
      interrupt_effects[of W exited h1 p] t i w j by simp_all
  then show ?thesis using join_ok[OF j] wait_ok[OF w] r by simp
qed

lemma stop_released:
  assumes "stop_recording W rec h = (r, h')" and "hs_reader h" and "RemoveFile (rc_path rec) \<notin> set (hs_effects h)"
  shows "case r of
     Inl e \<Rightarrow> last (hs_effects h') = RemoveFile (rc_path rec) \<and> settled h' \<and> \<not> hs_reader h'
   | Inr res \<Rightarrow> RemoveFile (rc_path rec) \<notin> set (hs_effects h') \<and> hs_gone h' \<and> \<not> hs_reader h' \<and>
       JoinReader \<in> set (hs_effects h') \<and> (\<exists>w. cw_reader W = Some (Inr w)) \<and>
       rr_path res = rc_path rec \<and> cw_length W = Inr (rr_bytes res) \<and>
       rr_duration_millis res = sat_mul (rr_bytes res) 1000 div 32000"
proof -
  obtain q h1 where body: "stop_body W rec h = (q, h1)" by (cases "stop_body W rec h")
  show ?thesis
  proof (cases q)
    case (Inl e)
    then have "h' = drop_recording W (rc_path rec) False h1" "r = Inl e"
      using assms(1) body by (simp_all add: stop_recording_def)
    then show ?thesis using drop_recording_released[of W "rc_path rec" False h1] by simp
  next
    case (Inr res)
    then have q: "stop_body W rec h = (Inr res, h1)" using body by simp
    note ok = stop_body_ok[OF q, of "rc_path rec"]
    then have "drop_recording W (rc_path rec) True h1 = h1"
      by (simp add: drop_recording_def host_defs)
    then have "h' = h1" "r = Inr res" using assms(1) q by (simp_all add: stop_recording_def)
    then show ?thesis using ok assms(2,3) by simp
  qed
qed

section \<open>Abandoned recordings\<close>

text \<open>A recording that is left behind has a name that the clean-up of the next start removes.\<close>

lemma recordings_are_cleaned:
  assumes "recording_path runtime_dir temp_dir create_dir wall pid = Inr path"
  shows "\<exists>directory name. path = directory @ ''/'' @ name \<and>
     (\<forall>names. name \<in> set names \<longrightarrow> name \<in> set (cleanup_directory (Some names)))"
proof -
  have "is_recording_name (recording_name pid timestamp)" for timestamp
    by (simp add: is_recording_name_def ends_with_def recording_name_def starts_with_def)
  moreover
  define directory where
    "directory = (case runtime_dir of None \<Rightarrow> temp_dir | Some d \<Rightarrow> d) @ ''/voxtype''"
  have "path = directory @ ''/'' @ recording_name pid (case wall of None \<Rightarrow> 0 | Some m \<Rightarrow> m)"
    using assms unfolding recording_path_def directory_def[symmetric] Let_def
    by (simp split: option.splits)
  ultimately show ?thesis
    by (intro exI[of _ directory] exI[of _ "recording_name pid (case wall of None \<Rightarrow> 0 | Some m \<Rightarrow> m)"])
       (simp add: cleanup_directory_def)
qed

section \<open>Properties\<close>

text \<open>
  C19: The metrics that the daemon receives describe the recording, whatever the interleaving of
  the reader thread with the daemon and whatever the sizes of the chunks: the values received so
  far followed by those in the channel are, in order and without repetition, metrics of frames of
  the file at their positions; none is missing while no more frames than the channel holds were
  processed, and later a frame is passed over only when the channel is full. The channel stays
  within its capacity. When the reader ends normally, every complete frame of the file was
  processed and the number of bytes that it returns is the length of the file.
\<close>

theorem capture_metrics_describe_recording:
  assumes "captures capture_new c"
  shows "\<exists>n. capture_frame_bytes * n \<le> length (cp_file c) \<and>
     subseq (cp_received c @ cp_queue c) (map (metrics_at (cp_file c)) [0..<n]) \<and>
     length (cp_queue c) \<le> channel_capacity \<and>
     (n \<le> channel_capacity \<longrightarrow>
        cp_received c @ cp_queue c = map (metrics_at (cp_file c)) [0..<n]) \<and>
     (\<forall>d. capture_step c d \<longrightarrow> length (cp_pending d) < length (cp_pending c) \<longrightarrow>
        length (cp_queue c) < channel_capacity \<longrightarrow>
        cp_received d @ cp_queue d = cp_received c @ cp_queue c @ [metrics_at (cp_file c) n]) \<and>
     (\<forall>w. cp_end c = Some (Inr w) \<longrightarrow>
        n = length (cp_file c) div capture_frame_bytes \<and>
        unat w = min (length (cp_file c)) (2 ^ 64 - 1))"
proof -
  obtain n where inv: "capture_inv n c" using inv_captures[OF assms inv_new] by blast
  have finished: "n = length (cp_file c) div capture_frame_bytes \<and> unat w = min (length (cp_file c)) (2 ^ 64 - 1)"
    if "cp_end c = Some (Inr w)" for w
  proof -
    have "length (cp_file c) = capture_frame_bytes * n + length (cp_pending c)"
      "length (cp_pending c) < capture_frame_bytes" "unat w = min (length (cp_file c)) (2 ^ 64 - 1)"
      using inv that by (auto simp: capture_inv_def)
    then show ?thesis by simp
  qed
  then show ?thesis
    using inv step_keeps_frames[OF inv]
    by (intro exI[of _ n]) (simp add: capture_inv_def)
qed

theorem capture_metrics_describe_recording_witness:
  "let c = reader_run [replicate 1000 1, replicate 300 2] capture_new
   in cp_file c = replicate 1000 1 @ replicate 300 2 \<and>
      (\<exists>n. subseq (cp_received c @ cp_queue c) (map (metrics_at (cp_file c)) [0..<n]))"
proof -
  have "captures capture_new (reader_run [replicate 1000 1, replicate 300 2] capture_new) \<and>
      cp_file (reader_run [replicate 1000 1, replicate 300 2] capture_new) =
      cp_file capture_new @ concat (takeWhile (\<lambda>chunk. chunk \<noteq> []) [replicate 1000 1, replicate 300 2])"
    by (rule reader_run_captures) (simp_all add: capture_new_def capture_frame_bytes_def reader_buffer_def)
  then show ?thesis
    using capture_metrics_describe_recording[of "reader_run [replicate 1000 1, replicate 300 2] capture_new"]
    by (auto simp: capture_new_def Let_def)
qed

text \<open>
  C10: The recorder process and its file are released on every path. A start that fails removes the
  file it was about to record to and, if it has started the recorder, has seen it gone or killed
  it and waited for it. A start that succeeds leaves a running recorder, its reader and the file.
  Stopping it successfully has waited for the recorder and joined the reader, keeps the file, and
  reports its length with the duration of that many bytes; a stop that fails at any call and a
  cancellation kill or wait for the recorder, join the reader and remove the file last.
\<close>

theorem recording_resources_released:
  assumes "start_with_device W (host_new n) = (r, h)" and "cw_path W = Inr path"
  shows "case r of
      Inl e \<Rightarrow> released path h
    | Inr rec \<Rightarrow>
        hs_effects h = [CreateFile path, SpawnChild, StartReader] \<and> \<not> hs_gone h \<and>
        (case stop_recording W rec h of
           (Inl e, h') \<Rightarrow> released path h' \<and> \<not> hs_reader h'
         | (Inr res, h') \<Rightarrow>
             RemoveFile path \<notin> set (hs_effects h') \<and> hs_gone h' \<and> \<not> hs_reader h' \<and>
             JoinReader \<in> set (hs_effects h') \<and> rr_path res = path \<and> cw_length W = Inr (rr_bytes res) \<and>
             rr_duration_millis res = sat_mul (rr_bytes res) 1000 div 32000) \<and>
        released path (cancel_recording W rec h) \<and> \<not> hs_reader (cancel_recording W rec h)"
proof (cases r)
  case (Inl e)
  then show ?thesis using start_outcome[OF assms] by simp
next
  case (Inr rec)
  then have ok: "rc_path rec = path" "hs_reader h" "\<not> hs_gone h"
    "hs_effects h = [CreateFile path, SpawnChild, StartReader]"
    using start_outcome[OF assms] by simp_all
  obtain q h' where stop: "stop_recording W rec h = (q, h')" by (cases "stop_recording W rec h")
  have "RemoveFile (rc_path rec) \<notin> set (hs_effects h)" using ok by simp
  note stopped = stop_released[OF stop ok(2) this]
  have "released path (cancel_recording W rec h) \<and> \<not> hs_reader (cancel_recording W rec h)"
    using drop_recording_released[of W path False] ok(1)
    by (simp add: cancel_recording_def released_def)
  then show ?thesis
    using Inr ok stop stopped by (auto simp: released_def split: sum.splits)
qed

text \<open>A recorder that has to be killed, since the interrupt command fails.\<close>

definition demo_capture_world :: capture_world where
  "demo_capture_world =
     \<lparr> cw_path = Inr ''/run/a.pcm'', cw_create = None, cw_spawn = None, cw_stdout = True,
       cw_thread = None, cw_backend = ''parec'', cw_status = [], cw_try_wait = (\<lambda>_. Inr False),
       cw_wait = (\<lambda>_. None), cw_kill = (\<lambda>_. None), cw_interrupt = Inr False,
       cw_reader = Some (Inr 64000), cw_length = Inr 64000 \<rparr>"

theorem recording_resources_released_witness:
  "\<exists>rec h. start_with_device demo_capture_world (host_new 0) = (Inr rec, h) \<and>
     released ''/run/a.pcm'' (cancel_recording demo_capture_world rec h) \<and>
     (\<exists>res h'. stop_recording demo_capture_world rec h = (Inr res, h') \<and>
        rr_duration_millis res = sat_mul 64000 1000 div 32000)"
proof -
  let ?W = demo_capture_world
  obtain rec h where start: "start_with_device ?W (host_new 0) = (Inr rec, h)"
    by (simp add: start_with_device_def demo_capture_world_def on_error_def seq_def start_child_def
        host_defs host_new_def)
  have "\<exists>res h'. stop_recording ?W rec h = (Inr res, h') \<and> rr_bytes res = 64000"
    by (simp add: stop_recording_def stop_body_def demo_capture_world_def seq_def host_defs)
  then obtain res h' where stop: "stop_recording ?W rec h = (Inr res, h')" "rr_bytes res = 64000"
    by blast
  have "cw_path ?W = Inr ''/run/a.pcm''" by (simp add: demo_capture_world_def)
  from recording_resources_released[OF start this] show ?thesis
    using start stop by auto
qed

end
