(* ===== verification/Utext.thy ===== *)
theory Utext
  imports Str Utf8
begin

text \<open>
  The operations of Rust's str on texts of scalar values that the HTTP requests, the pid files and
  the command line use: splitting, lines, words, and the reading of numbers.
\<close>

text \<open>A split at the first occurrence of a character (str::split_once).\<close>

definition split_once :: "nat \<Rightarrow> utext \<Rightarrow> (utext \<times> utext) option" where
  "split_once z t =
     (if z \<in> set t then Some (takeWhile (\<lambda>c. c \<noteq> z) t, tl (dropWhile (\<lambda>c. c \<noteq> z) t)) else None)"

text \<open>The lines of a text (str::lines) and its words (str::split_whitespace).\<close>

definition strip_return :: "utext \<Rightarrow> utext" where
  "strip_return l = (if l \<noteq> [] \<and> last l = 13 then butlast l else l)"

definition text_lines :: "utext \<Rightarrow> utext list" where
  "text_lines t =
     (let ps = split_elem 10 t
      in map strip_return (butlast ps) @ (if last ps = [] then [] else [last ps]))"

fun word_pieces :: "utext \<Rightarrow> utext list" where
  "word_pieces [] = [[]]"
| "word_pieces (c # cs) =
     (if is_whitespace c then [] # word_pieces cs
      else case word_pieces cs of [] \<Rightarrow> [[c]] | p # ps \<Rightarrow> (c # p) # ps)"

definition split_whitespace :: "utext \<Rightarrow> utext list" where
  "split_whitespace t = filter (\<lambda>p. p \<noteq> []) (word_pieces t)"

definition first_or_empty :: "nat \<Rightarrow> utext list \<Rightarrow> utext" where
  "first_or_empty n ps = (if n < length ps then ps ! n else [])"

text \<open>An unsigned integer in decimal; only ASCII characters can be digits.\<close>

definition parse_text_uint :: "nat \<Rightarrow> utext \<Rightarrow> nat option" where
  "parse_text_uint bits t =
     (if list_all (\<lambda>c. c < 128) t then parse_uint bits (map char_of t) else None)"

lemma text_of_inject: "text_of a = text_of b \<longleftrightarrow> a = b"
  by (auto simp: text_of_def inj_map_eq_map[OF inj_of_char])

end
