(* ===== verification/Config_Store.thy ===== *)
theory Config_Store
  imports Config Utext Eff
begin

text \<open>
  The configuration file and the stored secrets (src/config.rs): the path, reading or creating
  the file, replacing it through a temporary file, and the calls of secret-tool. A file holds the
  characters of its bytes. The TOML library, the environment and the answers of the system are
  arguments.
\<close>

section \<open>Paths and errors\<close>

definition config_io :: "string \<Rightarrow> vox_error" where
  "config_io message = vox_error_new EcConfiguration ''config.io_failed'' message"

definition config_path :: "string option \<Rightarrow> string option \<Rightarrow> string outcome" where
  "config_path xdg_config_home home =
     (case xdg_config_home of
        Some directory \<Rightarrow> Inr (directory @ ''/voxtype/config.toml'')
      | None \<Rightarrow>
          (case home of
             Some directory \<Rightarrow> Inr (directory @ ''/.config/voxtype/config.toml'')
           | None \<Rightarrow> Inl (configuration ''HOME and XDG_CONFIG_HOME are unavailable'')))"

text \<open>The text of the first configuration; the last value is Chinese.\<close>

definition default_config_lines :: "utext list" where
  "default_config_lines =
     map text_of
       [''schema_version = 1'',
        ''default_profile = '' @ [quote] @ ''test'' @ [quote],
        [],
        ''[desktop]'',
        ''restore_clipboard = true'',
        ''retain_recordings = false'',
        ''transcript_history_enabled = false'',
        ''insertion_backend = '' @ [quote] @ ''fcitx'' @ [quote],
        [],
        ''[audio]'',
        ''minimum_duration_millis = 250'',
        ''maximum_duration_seconds = 120'',
        ''vad_enabled = true'',
        ''vad_rms_threshold = 300'',
        ''vad_minimum_voiced_frames = 2'',
        [],
        ''[profiles.test]'',
        ''primary = '' @ [quote] @ ''mock'' @ [quote],
        ''fallbacks = []'',
        ''language = '' @ [quote] @ ''zh'' @ [quote],
        ''replay = '' @ [quote] @ ''never'' @ [quote],
        [],
        ''[providers.mock]'',
        ''kind = '' @ [quote] @ ''mock'' @ [quote]] @
     [text_of (''text = '' @ [quote] @ ''VoxType '') @
      [0x672C, 0x5730, 0x96C6, 0x6210, 0x6D4B, 0x8BD5] @ text_of [quote]]"

definition default_config_text :: string where
  "default_config_text = utf8_string (concat (map (\<lambda>l. l @ [10]) default_config_lines))"

section \<open>The file system\<close>

text \<open>The files, and the contents of the disk after every call so far.\<close>

record disk =
  dk_files :: "string \<Rightarrow> string option"
  dk_history :: "(string \<Rightarrow> string option) list"

definition disk_set :: "(string \<Rightarrow> string option) \<Rightarrow> disk \<Rightarrow> disk" where
  "disk_set fs d = d\<lparr> dk_files := fs, dk_history := dk_history d @ [fs] \<rparr>"

text \<open>The answers of one call of load or save; a write gives how much of it reached the file.\<close>

record file_world =
  fw_xdg_config_home :: "string option"
  fw_home :: "string option"
  fw_pid :: nat
  fw_mkdir :: "string option"
  fw_open :: "string option"
  fw_write :: "(string \<times> nat) option"
  fw_sync :: "string option"
  fw_rename :: "string option"
  fw_remove :: "string option"
  fw_read :: "string option"

definition io_result :: "string option \<Rightarrow> (disk, vox_error, unit) eff" where
  "io_result answer = (case answer of None \<Rightarrow> give () | Some e \<Rightarrow> raise (config_io e))"

definition create_new :: "file_world \<Rightarrow> string \<Rightarrow> (disk, vox_error, unit) eff" where
  "create_new W path d =
     (if dk_files d path \<noteq> None then (Inl (config_io ''File exists''), d)
      else case fw_open W of
             Some e \<Rightarrow> (Inl (config_io e), d)
           | None \<Rightarrow> (Inr (), disk_set ((dk_files d)(path \<mapsto> [])) d))"

definition write_all :: "file_world \<Rightarrow> string \<Rightarrow> string \<Rightarrow> (disk, vox_error, unit) eff" where
  "write_all W path contents d =
     (case fw_write W of
        Some (e, n) \<Rightarrow>
          (Inl (config_io e), disk_set ((dk_files d)(path \<mapsto> take n contents)) d)
      | None \<Rightarrow> (Inr (), disk_set ((dk_files d)(path \<mapsto> contents)) d))"

definition rename_file :: "file_world \<Rightarrow> string \<Rightarrow> string \<Rightarrow> (disk, vox_error, unit) eff" where
  "rename_file W from1 to1 d =
     (case fw_rename W of
        Some e \<Rightarrow> (Inl (config_io e), d)
      | None \<Rightarrow> (Inr (), disk_set ((dk_files d)(to1 := dk_files d from1, from1 := None)) d))"

definition remove_file :: "file_world \<Rightarrow> string \<Rightarrow> disk \<Rightarrow> disk" where
  "remove_file W path d =
     (case fw_remove W of Some e \<Rightarrow> d | None \<Rightarrow> disk_set ((dk_files d)(path := None)) d)"

text \<open>Reading a text file; its bytes must be UTF-8.\<close>

definition read_to_string :: "file_world \<Rightarrow> string \<Rightarrow> (disk, vox_error, string) eff" where
  "read_to_string W path d =
     (case dk_files d path of
        None \<Rightarrow> (Inl (config_io ''No such file or directory''), d)
      | Some contents \<Rightarrow>
          (case fw_read W of
             Some e \<Rightarrow> (Inl (config_io e), d)
           | None \<Rightarrow>
               if utf8_decode (map of_char contents) = None
               then (Inl (config_io ''stream did not contain valid UTF-8''), d)
               else (Inr contents, d)))"

section \<open>Load and save\<close>

definition disk_outcome :: "'a outcome \<Rightarrow> (disk, vox_error, 'a) eff" where
  "disk_outcome r = (case r of Inl e \<Rightarrow> raise e | Inr a \<Rightarrow> give a)"

definition create_default :: "file_world \<Rightarrow> string \<Rightarrow> (disk, vox_error, unit) eff" where
  "create_default W path =
     seq (io_result (fw_mkdir W)) (\<lambda>_.
     seq (create_new W path) (\<lambda>_. write_all W path default_config_text))"

definition parse_config ::
  "(string \<Rightarrow> string + config) \<Rightarrow> string \<Rightarrow> string \<Rightarrow> config outcome" where
  "parse_config parse path contents =
     (case parse contents of
        Inl e \<Rightarrow>
          Inl (vox_error_new EcConfiguration ''config.parse_failed'' (path @ '': '' @ e))
      | Inr config \<Rightarrow> try_then (config_validate config) (\<lambda>_. Inr config))"

definition load_or_create ::
  "(string \<Rightarrow> string + config) \<Rightarrow> file_world \<Rightarrow> (disk, vox_error, config) eff" where
  "load_or_create parse W =
     seq (disk_outcome (config_path (fw_xdg_config_home W) (fw_home W))) (\<lambda>path d.
     seq (if dk_files d path = None then create_default W path else give ()) (\<lambda>_.
     seq (read_to_string W path) (\<lambda>contents. disk_outcome (parse_config parse path contents))) d)"

definition temporary_path :: "file_world \<Rightarrow> string \<Rightarrow> string" where
  "temporary_path W path = path @ ''.tmp-'' @ show_nat (fw_pid W)"

definition replace_through ::
  "file_world \<Rightarrow> string \<Rightarrow> string \<Rightarrow> string \<Rightarrow> (disk, vox_error, unit) eff" where
  "replace_through W temporary path contents =
     seq (create_new W temporary) (\<lambda>_ d.
       case seq (write_all W temporary contents) (\<lambda>_.
            seq (io_result (fw_sync W)) (\<lambda>_. rename_file W temporary path)) d of
         (Inl e, d') \<Rightarrow> (Inl e, remove_file W temporary d')
       | (Inr _, d') \<Rightarrow> (Inr (), d'))"

definition config_save ::
  "(config \<Rightarrow> string + string) \<Rightarrow> file_world \<Rightarrow> config \<Rightarrow> (disk, vox_error, unit) eff" where
  "config_save print W config =
     seq (disk_outcome (config_validate config)) (\<lambda>_.
     seq (disk_outcome (config_path (fw_xdg_config_home W) (fw_home W))) (\<lambda>path.
     seq (io_result (fw_mkdir W)) (\<lambda>_.
     seq (disk_outcome (map_sum
            (vox_error_new EcConfiguration ''config.serialize_failed'') id (print config))) (\<lambda>contents.
       replace_through W (temporary_path W path) path contents))))"

section \<open>Secrets\<close>

text \<open>How secret-tool answers: the arguments and what is written to it are in the result.\<close>

datatype store_answer =
    StoreNotStarted string
  | StoreNoStdin
  | StoreWriteFailed string
  | StoreWaitFailed string
  | StoreRejected string
  | StoreAccepted

definition store_arguments :: "string \<Rightarrow> string list" where
  "store_arguments name =
     [''store'', ''--label=VoxType provider: '' @ name, ''application'', ''voxtype'', ''name'', name]"

definition lookup_arguments :: "string \<Rightarrow> string list" where
  "lookup_arguments name = [''lookup'', ''application'', ''voxtype'', ''name'', name]"

text \<open>The result, and the arguments and the input of the tool when it was started.\<close>

definition store_secret ::
  "string \<Rightarrow> string \<Rightarrow> store_answer \<Rightarrow> unit outcome \<times> (string list \<times> string) option" where
  "store_secret name v answer =
     (case validate_secret_bytes v of
        Inl e \<Rightarrow> (Inl e, None)
      | Inr _ \<Rightarrow>
          (case answer of
             StoreNotStarted e \<Rightarrow> (Inl (config_io e), None)
           | StoreNoStdin \<Rightarrow>
               (Inl (configuration ''secret-tool stdin is unavailable''), Some (store_arguments name, []))
           | StoreWriteFailed e \<Rightarrow> (Inl (config_io e), Some (store_arguments name, v))
           | StoreWaitFailed e \<Rightarrow> (Inl (config_io e), Some (store_arguments name, v))
           | StoreRejected diagnostic \<Rightarrow>
               (Inl (vox_error_new EcUnavailable ''secret.store_failed'' (trim_str diagnostic)),
                Some (store_arguments name, v))
           | StoreAccepted \<Rightarrow> (Inr (), Some (store_arguments name, v))))"

definition secret_state :: "bool option \<Rightarrow> string" where
  "secret_state status =
     (case status of Some True \<Rightarrow> ''configured'' | Some False \<Rightarrow> ''missing'' | None \<Rightarrow> ''unavailable'')"

section \<open>Process identifiers\<close>

text \<open>The number in a pid file, if the file can be read as one.\<close>

definition read_pid :: "file_world \<Rightarrow> string \<Rightarrow> disk \<Rightarrow> nat option" where
  "read_pid W path d =
     (if fw_read W \<noteq> None then None
      else Option.bind (dk_files d path) (\<lambda>contents.
           Option.bind (utf8_decode (map of_char contents)) (\<lambda>t. parse_text_uint 32 (trim t))))"

end
