(* ===== verification/Config_Store_Props.thy ===== *)
theory Config_Store_Props
  imports Config_Store Daemon_Props
begin

text \<open>
  What the storage of the configuration and of secrets guarantees: a save never shows a torn
  configuration, what was saved is what is loaded, and a stored secret is returned as it was and
  appears in no argument of a process.
\<close>

section \<open>Steps of the disk\<close>

text \<open>The calls of a save touch the temporary file only, except for a rename that succeeds.\<close>

definition only_temporary :: "string \<Rightarrow> disk \<Rightarrow> disk \<Rightarrow> bool" where
  "only_temporary temporary d d' \<longleftrightarrow>
     (\<exists>new. dk_history d' = dk_history d @ new \<and>
        (\<forall>fs \<in> set (dk_files d' # new). \<forall>p. p \<noteq> temporary \<longrightarrow> fs p = dk_files d p))"

lemma only_temporary_refl: "only_temporary t d d"
  by (simp add: only_temporary_def)

lemma only_temporary_trans: "only_temporary t d d' \<Longrightarrow> only_temporary t d' d'' \<Longrightarrow> only_temporary t d d''"
  by (fastforce simp: only_temporary_def)

lemma disk_set_temporary:
  "(\<And>p. p \<noteq> t \<Longrightarrow> fs p = dk_files d p) \<Longrightarrow> only_temporary t d (disk_set fs d)"
  by (simp add: only_temporary_def disk_set_def)

lemma disk_set_files [simp]: "dk_files (disk_set fs d) = fs" "dk_history (disk_set fs d) = dk_history d @ [fs]"
  by (simp_all add: disk_set_def)

lemma create_new_outcome:
  "create_new W t d = (r, d') \<Longrightarrow>
     only_temporary t d d' \<and>
     (case r of Inl e \<Rightarrow> d' = d | Inr _ \<Rightarrow> dk_files d t = None \<and> dk_files d' t = Some [])"
  by (auto simp: create_new_def only_temporary_refl disk_set_temporary
      split: if_splits option.splits)

lemma write_all_outcome:
  "write_all W t contents d = (r, d') \<Longrightarrow>
     only_temporary t d d' \<and> (\<forall>u. r = Inr u \<longrightarrow> dk_files d' t = Some contents)"
  by (auto simp: write_all_def disk_set_temporary split: option.splits)

lemma remove_file_outcome:
  "only_temporary t d (remove_file W t d) \<and>
   (fw_remove W = None \<longrightarrow> dk_files (remove_file W t d) t = None)"
  by (auto simp: remove_file_def only_temporary_refl disk_set_temporary split: option.splits)

text \<open>The disk while a file is replaced: a history of disks with the old or the new contents.\<close>

definition replaced :: "string \<Rightarrow> string \<Rightarrow> string \<Rightarrow> (unit outcome) \<Rightarrow> disk \<Rightarrow> disk \<Rightarrow> bool" where
  "replaced temporary path contents r d d' \<longleftrightarrow>
     (\<exists>new. dk_history d' = dk_history d @ new \<and>
        (\<forall>fs \<in> set (dk_files d' # new).
           (fs path = dk_files d path \<or> fs path = Some contents) \<and>
           (\<forall>p. p \<noteq> path \<longrightarrow> p \<noteq> temporary \<longrightarrow> fs p = dk_files d p))) \<and>
     (case r of
        Inl e \<Rightarrow> dk_files d' path = dk_files d path
      | Inr _ \<Rightarrow> dk_files d' path = Some contents \<and> dk_files d' temporary = None)"

lemma only_temporary_replaced:
  "only_temporary t d d' \<Longrightarrow> t \<noteq> path \<Longrightarrow> replaced t path contents (Inl e) d d'"
  by (fastforce simp: only_temporary_def replaced_def)

lemma rename_replaced:
  assumes "only_temporary t d d1" and "dk_files d1 t = Some contents" and "t \<noteq> path"
    and "rename_file W t path d1 = (Inr u, d2)"
  shows "replaced t path contents (Inr u) d d2"
proof -
  let ?fs = "(dk_files d1)(path := dk_files d1 t, t := None)"
  have d2: "dk_files d2 = ?fs" "dk_history d2 = dk_history d1 @ [?fs]"
    using assms(4) by (auto simp: rename_file_def split: option.splits)
  obtain new where new: "dk_history d1 = dk_history d @ new"
    "\<forall>fs \<in> set (dk_files d1 # new). \<forall>p. p \<noteq> t \<longrightarrow> fs p = dk_files d p"
    using assms(1) by (auto simp: only_temporary_def)
  show ?thesis
    unfolding replaced_def
    by (intro conjI exI[of _ "new @ [?fs]"]) (use new assms(2,3) in \<open>auto simp: d2\<close>)
qed

lemma replace_through_replaced:
  assumes "replace_through W t path contents d = (r, d')" and "t \<noteq> path"
  shows "replaced t path contents r d d'"
proof (cases r)
  case (Inl e)
  obtain r1 d1 where c: "create_new W t d = (r1, d1)" by (cases "create_new W t d")
  note created = create_new_outcome[OF c]
  have "only_temporary t d d'"
  proof (cases r1)
    case (Inl e1)
    then show ?thesis using assms(1) c created by (simp add: replace_through_def seq_def)
  next
    case (Inr u)
    obtain r2 d2 where w: "write_all W t contents d1 = (r2, d2)" by (cases "write_all W t contents d1")
    have "d' = remove_file W t d2"
      using assms(1) c Inr w \<open>r = Inl e\<close>
      by (auto simp: replace_through_def seq_def io_result_def rename_file_def
          split: sum.splits option.splits)
    then show ?thesis
      using created write_all_outcome[OF w] remove_file_outcome[of t d2 W] only_temporary_trans by blast
  qed
  then show ?thesis using Inl assms(2) only_temporary_replaced by blast
next
  case (Inr u)
  then obtain d1 d2 where c: "create_new W t d = (Inr (), d1)" and w: "write_all W t contents d1 = (Inr (), d2)"
    and rn: "rename_file W t path d2 = (Inr (), d')"
    using assms(1)
    by (auto simp: replace_through_def seq_def io_result_def
        split: prod.splits sum.splits option.splits)
  have "only_temporary t d d2" "dk_files d2 t = Some contents"
    using create_new_outcome[OF c] write_all_outcome[OF w] only_temporary_trans by auto
  from rename_replaced[OF this assms(2) rn] show ?thesis using Inr by simp
qed

lemma temporary_differs: "temporary_path W path \<noteq> path"
proof
  assume "temporary_path W path = path"
  then have "length (temporary_path W path) = length path" by simp
  then show False by (simp add: temporary_path_def)
qed

text \<open>
  A history of the disk in which a file holds what it held before or one of the good texts, whole.
\<close>

definition whole :: "(string \<Rightarrow> bool) \<Rightarrow> string \<Rightarrow> disk \<Rightarrow> disk \<Rightarrow> bool" where
  "whole good path d d' \<longleftrightarrow>
     (\<exists>new. dk_history d' = dk_history d @ new \<and>
        (\<forall>fs \<in> set (dk_files d' # new).
           fs path = dk_files d path \<or> (\<exists>t. good t \<and> fs path = Some t)))"

lemma whole_refl: "whole good path d d"
  by (simp add: whole_def)

lemma whole_trans:
  assumes "whole good path d d'" and "whole good path d' d''"
  shows "whole good path d d''"
proof -
  obtain new where new: "dk_history d' = dk_history d @ new"
    "\<forall>fs \<in> set (dk_files d' # new). fs path = dk_files d path \<or> (\<exists>t. good t \<and> fs path = Some t)"
    using assms(1) unfolding whole_def by blast
  obtain new' where new': "dk_history d'' = dk_history d' @ new'"
    "\<forall>fs \<in> set (dk_files d'' # new'). fs path = dk_files d' path \<or> (\<exists>t. good t \<and> fs path = Some t)"
    using assms(2) unfolding whole_def by blast
  have start: "dk_files d' path = dk_files d path \<or> (\<exists>t. good t \<and> dk_files d' path = Some t)"
    using new(2) by simp
  have "fs path = dk_files d path \<or> (\<exists>t. good t \<and> fs path = Some t)"
    if "fs \<in> set (dk_files d'' # new @ new')" for fs
  proof (cases "fs \<in> set new")
    case True
    then show ?thesis using new(2) by simp
  next
    case False
    then have "fs \<in> set (dk_files d'' # new')" using that by auto
    then show ?thesis using new'(2) start by metis
  qed
  then show ?thesis using new(1) new'(1) by (simp add: whole_def)
qed

lemma whole_present: "whole good path d d' \<Longrightarrow> dk_files d path \<noteq> None \<Longrightarrow> dk_files d' path \<noteq> None"
  by (auto simp: whole_def)

lemma whole_mono: "whole good path d d' \<Longrightarrow> (\<And>t. good t \<Longrightarrow> good' t) \<Longrightarrow> whole good' path d d'"
  unfolding whole_def by blast

lemma replaced_whole: "replaced temporary path contents r d d' \<Longrightarrow> good contents \<Longrightarrow> whole good path d d'"
  by (fastforce simp: replaced_def whole_def)

lemma only_temporary_whole: "only_temporary t d d' \<Longrightarrow> t \<noteq> path \<Longrightarrow> whole good path d d'"
  by (fastforce simp: only_temporary_def whole_def)

section \<open>Loading\<close>

lemma disk_outcome_simps [simp]:
  "disk_outcome (Inl e) = raise e" "disk_outcome (Inr a) = give a"
  "disk_outcome r d = (Inr b, d') \<longleftrightarrow> r = Inr b \<and> d' = d"
  by (auto simp: disk_outcome_def split: sum.splits)

lemma parse_config_ok:
  "parse_config parse path contents = Inr config \<longleftrightarrow>
     parse contents = Inr config \<and> config_validate config = Inr ()"
  by (cases "parse contents") (auto simp: parse_config_def try_then_ok_iff)

lemma load_validated: "load_or_create parse W d = (Inr config, d') \<Longrightarrow> config_validate config = Inr ()"
  by (auto simp: load_or_create_def seq_ok parse_config_ok)

text \<open>A load leaves an existing file alone.\<close>

lemma load_existing:
  assumes "config_path (fw_xdg_config_home W) (fw_home W) = Inr path" and "dk_files d path = Some contents"
  shows "load_or_create parse W d =
    seq (read_to_string W path) (\<lambda>contents. disk_outcome (parse_config parse path contents)) d"
  using assms by (simp add: load_or_create_def)

lemma read_outcome:
  "dk_files d path = Some contents \<Longrightarrow>
     read_to_string W path d = (Inr contents, d) \<or> (\<exists>e. read_to_string W path d = (Inl e, d))"
  by (simp add: read_to_string_def split: option.splits)

text \<open>
  A write of the first configuration that fails part of the way leaves a torn file, which every
  later load rejects.
\<close>

lemma torn_default_stays:
  assumes "config_path (fw_xdg_config_home W) (fw_home W) = Inr path" and "dk_files d path = None"
    and "fw_mkdir W = None" and "fw_open W = None" and "fw_write W = Some (e, n)"
    and "parse (take n default_config_text) = Inl syntax_error"
    and "config_path (fw_xdg_config_home W') (fw_home W') = Inr path"
  shows "fst (load_or_create parse W d) = Inl (config_io e) \<and>
    (\<exists>e'. load_or_create parse W' (snd (load_or_create parse W d)) =
       (Inl e', snd (load_or_create parse W d)))"
proof -
  let ?d = "snd (load_or_create parse W d)"
  have torn: "fst (load_or_create parse W d) = Inl (config_io e)"
    "dk_files ?d path = Some (take n default_config_text)"
    using assms(1-5)
    by (simp_all add: load_or_create_def seq_def create_default_def io_result_def create_new_def
        write_all_def)
  have load: "load_or_create parse W' ?d =
      seq (read_to_string W' path) (\<lambda>contents. disk_outcome (parse_config parse path contents)) ?d"
    by (rule load_existing[OF assms(7) torn(2)])
  from read_outcome[OF torn(2), of W'] have "\<exists>e'. load_or_create parse W' ?d = (Inl e', ?d)"
    unfolding load seq_def by (auto simp: parse_config_def assms(6))
  then show ?thesis using torn(1) by simp
qed

text \<open>What the disk shows of a save.\<close>

lemma save_history:
  assumes "config_save print W config d = (r, d')"
    and "config_path (fw_xdg_config_home W) (fw_home W) = Inr path"
  shows "(\<exists>new. dk_history d' = dk_history d @ new \<and>
      (\<forall>fs \<in> set (dk_files d' # new).
         (fs path = dk_files d path \<or>
            (\<exists>contents. print config = Inr contents \<and> config_validate config = Inr () \<and>
               fs path = Some contents)) \<and>
         (\<forall>p. p \<noteq> path \<longrightarrow> p \<noteq> temporary_path W path \<longrightarrow> fs p = dk_files d p))) \<and>
    (case r of
       Inl e \<Rightarrow> dk_files d' path = dk_files d path
     | Inr _ \<Rightarrow>
         (\<exists>contents. print config = Inr contents \<and> config_validate config = Inr () \<and>
            dk_files d' path = Some contents) \<and>
         dk_files d' (temporary_path W path) = None)"
proof (cases "\<exists>contents. config_validate config = Inr () \<and> print config = Inr contents \<and> fw_mkdir W = None")
  case True
  then obtain contents where c: "config_validate config = Inr ()" "print config = Inr contents"
    "fw_mkdir W = None" by blast
  then have "replace_through W (temporary_path W path) path contents d = (r, d')"
    using assms by (simp add: config_save_def io_result_def)
  then have rep: "replaced (temporary_path W path) path contents r d d'"
    using replace_through_replaced temporary_differs by blast
  then obtain new where new: "dk_history d' = dk_history d @ new"
    "\<forall>fs \<in> set (dk_files d' # new). (fs path = dk_files d path \<or> fs path = Some contents) \<and>
       (\<forall>p. p \<noteq> path \<longrightarrow> p \<noteq> temporary_path W path \<longrightarrow> fs p = dk_files d p)"
    unfolding replaced_def by blast
  have "case r of Inl e \<Rightarrow> dk_files d' path = dk_files d path
      | Inr _ \<Rightarrow> dk_files d' path = Some contents \<and> dk_files d' (temporary_path W path) = None"
    using rep unfolding replaced_def by blast
  then show ?thesis
    using new c by (intro conjI exI[of _ new]) (auto split: sum.splits)
next
  case False
  then have "d' = d \<and> (\<exists>e. r = Inl e)"
    using assms by (cases "print config"; cases "config_validate config")
      (auto simp: config_save_def disk_outcome_def io_result_def seq_def
        split: sum.splits option.splits)
  then show ?thesis by auto
qed

section \<open>Properties\<close>

text \<open>
  Saving the configuration is atomic. At every moment of a save, and so after a crash at any of
  its calls, the configuration file holds what it held before or the whole new text of a validated
  configuration, and no file other than it and the temporary file changes. A save that fails has
  left the configuration file as it was; one that succeeds has written it and left no temporary
  file behind.
\<close>

theorem config_save_is_atomic:
  assumes "config_save print W config d = (r, d')"
    and "config_path (fw_xdg_config_home W) (fw_home W) = Inr path"
  shows "(\<exists>new. dk_history d' = dk_history d @ new \<and>
      (\<forall>fs \<in> set (dk_files d' # new).
         (fs path = dk_files d path \<or>
            (\<exists>contents. print config = Inr contents \<and> config_validate config = Inr () \<and>
               fs path = Some contents)) \<and>
         (\<forall>p. p \<noteq> path \<longrightarrow> p \<noteq> temporary_path W path \<longrightarrow> fs p = dk_files d p))) \<and>
    (case r of
       Inl e \<Rightarrow> dk_files d' path = dk_files d path
     | Inr _ \<Rightarrow>
         (\<exists>contents. print config = Inr contents \<and> config_validate config = Inr () \<and>
            dk_files d' path = Some contents) \<and>
         dk_files d' (temporary_path W path) = None)"
  by (rule save_history[OF assms])

text \<open>
  C18: What was saved is what is loaded. When the TOML library reads back the text that it
  prints for this configuration, a successful save followed by a load that can read the file
  returns exactly the saved configuration and changes nothing.
\<close>

theorem saved_config_loads:
  assumes "config_save print W config d = (Inr (), d')"
    and "\<And>contents. print config = Inr contents \<Longrightarrow>
           parse contents = Inr config \<and> utf8_decode (map of_char contents) \<noteq> None"
    and "fw_xdg_config_home W' = fw_xdg_config_home W" and "fw_home W' = fw_home W"
    and "fw_read W' = None"
  shows "load_or_create parse W' d' = (Inr config, d')"
proof -
  obtain path where path: "config_path (fw_xdg_config_home W) (fw_home W) = Inr path"
    using assms(1) by (auto simp: config_save_def disk_outcome_def seq_ok split: sum.splits)
  then obtain contents where c: "config_validate config = Inr ()" "print config = Inr contents"
    "replace_through W (temporary_path W path) path contents d = (Inr (), d')"
    using assms(1) by (cases "print config")
      (auto simp: config_save_def disk_outcome_def io_result_def seq_def
        split: sum.splits option.splits)
  then have "dk_files d' path = Some contents"
    using replace_through_replaced[OF c(3) temporary_differs] by (simp add: replaced_def)
  moreover have "config_path (fw_xdg_config_home W') (fw_home W') = Inr path"
    using path assms(3,4) by simp
  ultimately show ?thesis
    using load_existing[of W' path d' contents parse] assms(2)[OF c(2)] assms(5) c(1)
    by (simp add: seq_def read_to_string_def parse_config_def)
qed

text \<open>A save whose last call, the rename, fails, and one that succeeds.\<close>

definition demo_files :: file_world where
  "demo_files =
     \<lparr> fw_xdg_config_home = Some ''/c'', fw_home = None, fw_pid = 7, fw_mkdir = None, fw_open = None,
       fw_write = None, fw_sync = None, fw_rename = None, fw_remove = None, fw_read = None \<rparr>"

definition demo_disk :: disk where
  "demo_disk = \<lparr> dk_files = (\<lambda>_. None)(''/c/voxtype/config.toml'' \<mapsto> ''old''), dk_history = [] \<rparr>"

lemma demo_path: "config_path (fw_xdg_config_home demo_files) (fw_home demo_files) =
    Inr ''/c/voxtype/config.toml''"
  by (simp add: config_path_def demo_files_def)

lemma demo_save:
  "\<exists>d'. config_save (\<lambda>_. Inr ''x'') demo_files demo_config demo_disk = (Inr (), d')"
  using temporary_differs[of demo_files "''/c/voxtype/config.toml''"]
  by (simp add: config_save_def demo_path demo_config_valid)
     (simp add: demo_files_def demo_disk_def io_result_def replace_through_def seq_def create_new_def
       write_all_def rename_file_def)

theorem config_save_is_atomic_witness:
  "\<exists>d'. config_save (\<lambda>_. Inr ''x'') (demo_files\<lparr> fw_rename := Some ''denied'' \<rparr>) demo_config demo_disk =
       (Inl (config_io ''denied''), d') \<and>
     dk_files d' ''/c/voxtype/config.toml'' = Some ''old''"
proof -
  let ?W = "demo_files\<lparr> fw_rename := Some ''denied'' \<rparr>"
  have path: "config_path (fw_xdg_config_home ?W) (fw_home ?W) = Inr ''/c/voxtype/config.toml''"
    using demo_path by simp
  have "\<exists>d'. config_save (\<lambda>_. Inr ''x'') ?W demo_config demo_disk = (Inl (config_io ''denied''), d')"
    using temporary_differs[of ?W "''/c/voxtype/config.toml''"] path
    by (simp add: config_save_def demo_config_valid)
       (simp add: demo_files_def demo_disk_def io_result_def replace_through_def seq_def create_new_def
         write_all_def rename_file_def)
  then obtain d' where
    d': "config_save (\<lambda>_. Inr ''x'') ?W demo_config demo_disk = (Inl (config_io ''denied''), d')" by blast
  from config_save_is_atomic[OF d' path] show ?thesis using d' by (simp add: demo_disk_def)
qed

theorem saved_config_loads_witness:
  "\<exists>d'. config_save (\<lambda>_. Inr ''x'') demo_files demo_config demo_disk = (Inr (), d') \<and>
     load_or_create (\<lambda>_. Inr demo_config) demo_files d' = (Inr demo_config, d')"
proof -
  obtain d' where d': "config_save (\<lambda>_. Inr ''x'') demo_files demo_config demo_disk = (Inr (), d')"
    using demo_save by blast
  have "load_or_create (\<lambda>_. Inr demo_config) demo_files d' = (Inr demo_config, d')"
    by (rule saved_config_loads[OF d'])
       (simp_all add: demo_files_def utf8_decode.simps)
  with d' show ?thesis by blast
qed

lemma strip_line_ends_plain:
  assumes "list_all (\<lambda>c. c = CHR 0x0A \<or> c = CHR 0x0D) ends" and "v \<noteq> []" and "\<not> list_ex is_ascii_control v"
  shows "strip_line_ends (v @ ends) = v"
proof -
  have "dropWhile (\<lambda>c. c = CHR 0x0A \<or> c = CHR 0x0D) (rev ends @ rev v) =
      dropWhile (\<lambda>c. c = CHR 0x0A \<or> c = CHR 0x0D) (rev v)"
    using assms(1) by (intro dropWhile_append2) (simp add: list_all_iff)
  also have "\<dots> = rev v"
  proof -
    obtain w c where w: "v = w @ [c]" using assms(2) by (metis rev_exhaust)
    then have "\<not> is_ascii_control c" using assms(3) by simp
    then have "c \<noteq> CHR 0x0A" "c \<noteq> CHR 0x0D" by (auto simp: is_ascii_control_def)
    then show ?thesis by (simp add: w)
  qed
  finally show ?thesis by (simp add: strip_line_ends_def)
qed

text \<open>
  A secret is stored without appearing in the arguments of a process, and is returned as it was.
  When secret-tool is started, the secret has passed the checks, the arguments are those of its
  name, and the tool is given the secret, or nothing, on its standard input; looking it up later,
  with whatever line ends the tool prints after it, gives exactly the stored secret.
\<close>

theorem stored_secret_returns:
  assumes "store_secret name v answer = (r, Some (args, input))"
    and "list_all (\<lambda>c. c = CHR 0x0A \<or> c = CHR 0x0D) ends"
  shows "args = store_arguments name \<and> input \<in> {[], v} \<and> (r = Inr () \<longrightarrow> input = v) \<and>
    lookup_secret name (ToolOutput (v @ ends)) = Inr (SecretString v)"
proof -
  have "validate_secret_bytes v = Inr ()"
    using assms(1) by (auto simp: store_secret_def split: sum.splits)
  then have v: "v \<noteq> []" "\<not> list_ex is_ascii_control v"
    by (auto simp: validate_secret_bytes_def split: if_splits)
  then show ?thesis
    using assms(1) \<open>validate_secret_bytes v = Inr ()\<close> strip_line_ends_plain[OF assms(2) v]
    by (auto simp: store_secret_def lookup_secret_def secret_try_new_def Let_def
        split: store_answer.splits)
qed

theorem stored_secret_returns_witness:
  "store_secret ''n'' ''key'' StoreAccepted = (Inr (), Some (store_arguments ''n'', ''key'')) \<and>
   lookup_secret ''n'' (ToolOutput (''key'' @ [CHR 0x0A])) = Inr (SecretString ''key'')"
proof -
  have "store_secret ''n'' ''key'' StoreAccepted = (Inr (), Some (store_arguments ''n'', ''key''))"
    by (simp add: store_secret_def validate_secret_bytes_def is_ascii_control_def)
  then show ?thesis using stored_secret_returns[of "''n''" "''key''" StoreAccepted _ _ _ "[CHR 0x0A]"]
    by simp
qed

end
