(* ===== verification/Settings_Http.thy ===== *)
theory Settings_Http
  imports Utext
begin

text \<open>
  The HTTP side of the settings window (src/bin/voxtype-settings.rs): reading a request from the
  loopback socket within a fixed bound, its request line and session token, percent decoding, and
  the bytes of a response. What each read of the socket gives is an argument; a read that is not
  answered within the timeout of the socket is an error.
\<close>

unbundle bit_operations_syntax

section \<open>Reading a request\<close>

definition max_settings_request :: nat where
  "max_settings_request = 128 * 1024"

definition settings_chunk :: nat where
  "settings_chunk = 8 * 1024"

definition header_terminator :: bytes where
  "header_terminator = [13, 10, 13, 10]"

text \<open>The position of the first window that equals the needle.\<close>

fun find_window :: "'a list \<Rightarrow> 'a list \<Rightarrow> nat option" where
  "find_window needle [] = (if needle = [] then Some 0 else None)"
| "find_window needle (x # xs) =
     (if take (length needle) (x # xs) = needle then Some 0
      else map_option Suc (find_window needle xs))"

definition content_length_of :: "utext \<Rightarrow> nat option" where
  "content_length_of line =
     (case split_once 58 line of
        None \<Rightarrow> None
      | Some (name, v) \<Rightarrow>
          if eq_ignore_ascii_case name (text_of ''content-length'') then parse_text_uint 64 (trim v) else None)"

definition content_length :: "utext \<Rightarrow> nat" where
  "content_length headers =
     (case find_map content_length_of (text_lines headers) of None \<Rightarrow> 0 | Some n \<Rightarrow> n)"

type_synonym socket_read = "string + bytes"

text \<open>The end of the header, the announced length, the buffer and the reads that are left.\<close>

fun read_head :: "socket_read list \<Rightarrow> bytes \<Rightarrow> string + (nat \<times> nat \<times> bytes \<times> socket_read list)" where
  "read_head [] buffer =
     (if max_settings_request \<le> length buffer then Inl ''settings request is too large''
      else Inl ''timed out'')"
| "read_head (read # reads) buffer =
     (if max_settings_request \<le> length buffer then Inl ''settings request is too large''
      else case read of
        Inl e \<Rightarrow> Inl e
      | Inr chunk \<Rightarrow>
          if chunk = [] then Inl ''incomplete settings request''
          else let buffer' = buffer @ chunk
               in case find_window header_terminator buffer' of
                    None \<Rightarrow> read_head reads buffer'
                  | Some position \<Rightarrow>
                      (case from_utf8 (take position buffer') of
                         None \<Rightarrow> Inl ''invalid HTTP headers''
                       | Some headers \<Rightarrow>
                           Inr (position + 4, content_length headers, buffer', reads)))"

fun read_body :: "nat \<Rightarrow> socket_read list \<Rightarrow> bytes \<Rightarrow> string + bytes" where
  "read_body needed reads buffer =
     (if needed \<le> length buffer then Inr buffer
      else case reads of
        [] \<Rightarrow> Inl ''timed out''
      | Inl e # _ \<Rightarrow> Inl e
      | Inr chunk # rest \<Rightarrow>
          if chunk = [] then Inl ''incomplete settings request body''
          else read_body needed rest (buffer @ chunk))"

declare read_body.simps [simp del]

record settings_request =
  rq_method :: utext
  rq_path :: utext
  rq_token :: "utext option"
  rq_body :: bytes

definition token_of_pair :: "utext \<Rightarrow> utext option" where
  "token_of_pair pair =
     (case split_once 61 pair of
        None \<Rightarrow> None
      | Some (name, v) \<Rightarrow> if name = text_of ''token'' then Some v else None)"

definition parse_request_line :: "utext \<Rightarrow> bytes \<Rightarrow> settings_request" where
  "parse_request_line line body =
     (let parts = split_whitespace line; method1 = first_or_empty 0 parts;
          target = first_or_empty 1 parts;
          (path, query) = (case split_once 63 target of None \<Rightarrow> (target, []) | Some p \<Rightarrow> p)
      in \<lparr> rq_method = method1, rq_path = path,
           rq_token = find_map token_of_pair (split_elem 38 query), rq_body = body \<rparr>)"

text \<open>The buffer is used up to the end of the announced body; what arrived after it is ignored.\<close>

definition parse_request :: "nat \<Rightarrow> nat \<Rightarrow> bytes \<Rightarrow> string + settings_request" where
  "parse_request header_end body_length buffer =
     (case from_utf8 (take (header_end - 4) buffer) of
        None \<Rightarrow> Inl ''invalid HTTP request''
      | Some headers \<Rightarrow>
          (case text_lines headers of
             [] \<Rightarrow> Inl ''missing request line''
           | line # _ \<Rightarrow> Inr (parse_request_line line (take body_length (drop header_end buffer)))))"

definition read_request :: "socket_read list \<Rightarrow> string + settings_request" where
  "read_request reads =
     (case read_head reads [] of
        Inl e \<Rightarrow> Inl e
      | Inr (header_end, body_length, buffer, rest) \<Rightarrow>
          if max_settings_request < header_end + body_length
          then Inl ''settings request body is too large''
          else case read_body (header_end + body_length) rest buffer of
                 Inl e \<Rightarrow> Inl e
               | Inr buffer' \<Rightarrow> parse_request header_end body_length buffer')"

section \<open>Percent decoding\<close>

definition hex_byte :: "8 word \<Rightarrow> string + 8 word" where
  "hex_byte b =
     (if 48 \<le> b \<and> b \<le> 57 then Inr (b - 48)
      else if 97 \<le> b \<and> b \<le> 102 then Inr (b - 97 + 10)
      else if 65 \<le> b \<and> b \<le> 70 then Inr (b - 65 + 10)
      else Inl ''invalid percent encoding'')"

fun decode_bytes :: "bytes \<Rightarrow> string + bytes" where
  "decode_bytes [] = Inr []"
| "decode_bytes (b # bs) =
     (if b = 37
      then (case bs of
              h # l # rest \<Rightarrow>
                (case hex_byte h of
                   Inl e \<Rightarrow> Inl e
                 | Inr high \<Rightarrow>
                     (case hex_byte l of
                        Inl e \<Rightarrow> Inl e
                      | Inr low \<Rightarrow>
                          map_sum id (Cons (push_bit 4 high OR low)) (decode_bytes rest)))
            | _ \<Rightarrow> Inl ''invalid percent encoding'')
      else map_sum id (Cons b) (decode_bytes bs))"

definition settings_percent_decode :: "utext \<Rightarrow> string + utext" where
  "settings_percent_decode v =
     (case decode_bytes (utf8_bytes v) of
        Inl e \<Rightarrow> Inl e
      | Inr decoded \<Rightarrow>
          (case from_utf8 decoded of None \<Rightarrow> Inl ''path is not UTF-8'' | Some t \<Rightarrow> Inr t))"

section \<open>Responses\<close>

definition reason_phrase :: "nat \<Rightarrow> string" where
  "reason_phrase status =
     (if status = 200 then ''OK'' else if status = 400 then ''Bad Request''
      else if status = 403 then ''Forbidden'' else if status = 404 then ''Not Found'' else ''Error'')"

definition crlf :: string where
  "crlf = [CHR 0x0D, CHR 0x0A]"

definition response_bytes :: "nat \<Rightarrow> bytes \<Rightarrow> bytes" where
  "response_bytes status body =
     ascii (''HTTP/1.1 '' @ show_nat status @ '' '' @ reason_phrase status @ crlf @
       ''Content-Type: application/json; charset=utf-8'' @ crlf @
       ''Content-Length: '' @ show_nat (length body) @ crlf @
       ''Access-Control-Allow-Origin: *'' @ crlf @ ''Cache-Control: no-store'' @ crlf @
       ''Connection: close'' @ crlf @ crlf) @ body"

end
