(* ===== verification/Settings.thy ===== *)
theory Settings
  imports Settings_Http Config_Store Capture Calibration Json
begin

text \<open>
  The settings window's server (src/bin/voxtype-settings.rs): the requests that read and change
  the configuration, store secrets and calibrate the microphone. A map of the configuration is an
  association list in key order. The TOML and JSON libraries, the daemon, the file system, the
  recorder and secret-tool are arguments.
\<close>

section \<open>Ordered maps\<close>

text \<open>The order of BTreeMap keys: bytes compared from the front.\<close>

fun bytes_less :: "string \<Rightarrow> string \<Rightarrow> bool" where
  "bytes_less _ [] = False"
| "bytes_less [] (_ # _) = True"
| "bytes_less (a # as) (b # bs) =
     ((of_char a :: nat) < of_char b \<or> (a = b \<and> bytes_less as bs))"

fun map_insert :: "string \<Rightarrow> 'v \<Rightarrow> (string \<times> 'v) list \<Rightarrow> (string \<times> 'v) list" where
  "map_insert k v [] = [(k, v)]"
| "map_insert k v ((k', v') # m) =
     (if k = k' then (k, v) # m
      else if bytes_less k k' then (k, v) # (k', v') # m
      else (k', v') # map_insert k v m)"

definition map_remove :: "string \<Rightarrow> (string \<times> 'v) list \<Rightarrow> (string \<times> 'v) list" where
  "map_remove k m = filter (\<lambda>p. fst p \<noteq> k) m"

section \<open>Updates\<close>

record create_provider_update =
  cu_id :: utext
  cu_kind :: string
  cu_endpoint :: utext
  cu_model :: utext
  cu_language :: utext
  cu_make_default :: bool

record general_update =
  gu_default_profile :: string
  gu_audio_device :: utext
  gu_insertion_backend :: string
  gu_restore_clipboard :: bool
  gu_retain_recordings :: bool
  gu_transcript_history_enabled :: bool
  gu_vad_enabled :: bool
  gu_vad_rms_threshold :: "16 word"
  gu_vad_minimum_voiced_frames :: "32 word"
  gu_minimum_duration_millis :: "64 word"
  gu_maximum_duration_seconds :: "64 word"

record rest_provider_update =
  pu_endpoint :: string
  pu_model :: string
  pu_timeout_seconds :: nat
  pu_smart_format :: "bool option"

record quota_update =
  qu_requests :: "nat option"
  qu_audio_seconds :: "nat option"
  qu_tokens :: "nat option"

text \<open>A character that Rust's char::is_control accepts.\<close>

definition is_control_char :: "nat \<Rightarrow> bool" where
  "is_control_char c \<longleftrightarrow> c < 32 \<or> (127 \<le> c \<and> c < 160)"

definition new_provider :: "create_provider_update \<Rightarrow> string \<Rightarrow> provider_config option" where
  "new_provider update secret =
     (let endpoint = utf8_string (trim (cu_endpoint update)); model = utf8_string (trim (cu_model update))
      in if cu_kind update = ''openai-compatible'' then Some (OpenaiCompatible endpoint model secret 30)
         else if cu_kind update = ''deepgram'' then Some (Deepgram endpoint model secret 30 True)
         else None)"

text \<open>The changed configuration, or the message of the failure.\<close>

definition apply_provider_create :: "config \<Rightarrow> create_provider_update \<Rightarrow> string + config" where
  "apply_provider_create config update =
     try_then (map_sum err_message id (provider_id_new (utf8_string (trim (cu_id update))))) (\<lambda>i.
       let name = provider_id_str i; language = trim (cu_language update)
       in if language = [] \<or> 32 < utf8_length language \<or> list_ex is_control_char language
          then Inl ''language must contain 1 to 32 characters''
          else if has_key name (cfg_providers config) \<or> has_key name (cfg_profiles config)
          then Inl ''provider or profile ID already exists''
          else case new_provider update (name @ ''-api-key'') of
            None \<Rightarrow> Inl ''unsupported provider kind''
          | Some provider \<Rightarrow>
              let profile = \<lparr> pf_primary = name, pf_fallbacks = [],
                              pf_language = utf8_string language, pf_replay = Never \<rparr>;
                  config' = config
                    \<lparr> cfg_providers := map_insert name provider (cfg_providers config),
                      cfg_profiles := map_insert name profile (cfg_profiles config),
                      default_profile :=
                        (if cu_make_default update then name else default_profile config) \<rparr>
              in map_sum err_message (\<lambda>_. config') (config_validate config'))"

definition backend_of_name :: "string \<Rightarrow> insertion_backend option" where
  "backend_of_name name =
     (if name = ''fcitx'' then Some BackendFcitx
      else if name = ''clipboard'' then Some BackendClipboard
      else if name = ''copy'' then Some BackendCopy
      else if name = ''auto'' then Some BackendAuto else None)"

fun insertion_backend_name :: "insertion_backend \<Rightarrow> string" where
  "insertion_backend_name BackendFcitx = ''fcitx''"
| "insertion_backend_name BackendClipboard = ''clipboard''"
| "insertion_backend_name BackendCopy = ''copy''"
| "insertion_backend_name BackendAuto = ''auto''"

definition apply_general :: "general_update \<Rightarrow> config \<Rightarrow> config option" where
  "apply_general update config =
     map_option (\<lambda>backend. config
         \<lparr> default_profile := gu_default_profile update,
           cfg_desktop := (cfg_desktop config)
             \<lparr> cfg_insertion_backend := backend,
               restore_clipboard := gu_restore_clipboard update,
               retain_recordings := gu_retain_recordings update,
               transcript_history_enabled := gu_transcript_history_enabled update \<rparr>,
           cfg_audio := (cfg_audio config)
             \<lparr> cfg_device := trim (gu_audio_device update),
               vad_enabled := gu_vad_enabled update,
               vad_rms_threshold := gu_vad_rms_threshold update,
               vad_minimum_voiced_frames := gu_vad_minimum_voiced_frames update,
               minimum_duration_millis := gu_minimum_duration_millis update,
               maximum_duration_seconds := gu_maximum_duration_seconds update \<rparr> \<rparr>)
       (backend_of_name (gu_insertion_backend update))"

fun edit_provider :: "rest_provider_update \<Rightarrow> provider_config \<Rightarrow> string + provider_config" where
  "edit_provider u (OpenaiCompatible _ _ secret _) =
     Inr (OpenaiCompatible (pu_endpoint u) (pu_model u) secret (pu_timeout_seconds u))"
| "edit_provider u (Deepgram _ _ secret _ smart) =
     Inr (Deepgram (pu_endpoint u) (pu_model u) secret (pu_timeout_seconds u)
            (case pu_smart_format u of None \<Rightarrow> smart | Some v \<Rightarrow> v))"
| "edit_provider u (DoubaoUnofficial _ _ _ _) =
     Inl ''Doubao managed credentials are edited through Secret Service''"
| "edit_provider u (Mock _) = Inl ''this provider does not have editable cloud API settings''"
| "edit_provider u (CommandProvider _ _ _) =
     Inl ''this provider does not have editable cloud API settings''"

definition apply_quota :: "string \<Rightarrow> quota_update \<Rightarrow> config \<Rightarrow> config" where
  "apply_quota provider update config =
     (let quota = \<lparr> request_limit = qu_requests update, audio_seconds_limit = qu_audio_seconds update,
                    token_limit = qu_tokens update \<rparr>
      in config\<lparr> cfg_quotas :=
           (if qu_requests update = None \<and> qu_audio_seconds update = None \<and> qu_tokens update = None
            then map_remove provider (cfg_quotas config)
            else map_insert provider quota (cfg_quotas config)) \<rparr>)"

section \<open>The server and its world\<close>

text \<open>What a request changes: the disk, the recorder's host, and the calls to other programs.\<close>

datatype settings_effect =
    DaemonReload
  | OpenFile string
  | SecretTool "string list" string
  | ShowPhase string

record settings =
  ss_disk :: disk
  ss_host :: host
  ss_effects :: "settings_effect list"

record settings_response =
  re_status :: nat
  re_body :: json

text \<open>
  The answers of one request: the environment of the load and of the save, the libraries and the
  deserializers, the daemon, the tools and the recorder with the recording it made.
\<close>

record settings_world =
  sw_load :: file_world
  sw_save :: file_world
  sw_parse :: "string \<Rightarrow> string + config"
  sw_print :: "config \<Rightarrow> string + string"
  sw_create :: "bytes \<Rightarrow> string + create_provider_update"
  sw_general :: "bytes \<Rightarrow> string + general_update"
  sw_rest :: "bytes \<Rightarrow> string + rest_provider_update"
  sw_quota :: "bytes \<Rightarrow> string + quota_update"
  sw_reload :: bool
  sw_open :: "string option"
  sw_store :: store_answer
  sw_secret_state :: "string \<Rightarrow> bool option"
  sw_usage :: "json option"
  sw_status :: "json option"
  sw_capture :: capture_world
  sw_pcm :: "string + bytes"
  sw_f64 :: f64_ops
  sw_show_f64 :: "rat \<Rightarrow> string"
  sw_show_text :: "string \<Rightarrow> utext"

type_synonym 'a settings_op = "(settings, string, 'a) eff"

definition response_ok :: "json \<Rightarrow> settings_response" where
  "response_ok v = \<lparr> re_status = 200, re_body = v \<rparr>"

definition response_error :: "nat \<Rightarrow> string \<Rightarrow> settings_response" where
  "response_error status message =
     \<lparr> re_status = status, re_body = JObject [(''ok'', JBool False), (''error'', jtext message)] \<rparr>"

text \<open>An operation on the disk; the error is the text of the io::Error.\<close>

definition on_disk :: "(disk, vox_error, 'a) eff \<Rightarrow> 'a settings_op" where
  "on_disk m s =
     (case m (ss_disk s) of
        (Inl e, d) \<Rightarrow> (Inl (vox_error_display e), s\<lparr> ss_disk := d \<rparr>)
      | (Inr a, d) \<Rightarrow> (Inr a, s\<lparr> ss_disk := d \<rparr>))"

definition on_host :: "(host, string, 'a) eff \<Rightarrow> 'a settings_op" where
  "on_host m s = (case m (ss_host s) of (r, h) \<Rightarrow> (r, s\<lparr> ss_host := h \<rparr>))"

definition emit :: "settings_effect \<Rightarrow> unit settings_op" where
  "emit x s = (Inr (), s\<lparr> ss_effects := ss_effects s @ [x] \<rparr>)"

definition of_sum :: "string + 'a \<Rightarrow> 'a settings_op" where
  "of_sum r = (case r of Inl e \<Rightarrow> raise e | Inr a \<Rightarrow> give a)"

definition load_config :: "settings_world \<Rightarrow> config settings_op" where
  "load_config W = on_disk (load_or_create (sw_parse W) (sw_load W))"

section \<open>Changes of the configuration\<close>

definition persist_and_reload :: "settings_world \<Rightarrow> config \<Rightarrow> settings_response settings_op" where
  "persist_and_reload W config =
     seq (on_disk (config_save (sw_print W) (sw_save W) config)) (\<lambda>_.
     seq (emit DaemonReload) (\<lambda>_.
       give (response_ok (JObject [(''ok'', JBool True), (''daemon_reloaded'', JBool (sw_reload W))]))))"

definition create_provider :: "settings_world \<Rightarrow> bytes \<Rightarrow> settings_response settings_op" where
  "create_provider W body =
     seq (of_sum (sw_create W body)) (\<lambda>update.
     seq (load_config W) (\<lambda>config.
       case apply_provider_create config update of
         Inl message \<Rightarrow> give (response_error 400 message)
       | Inr config' \<Rightarrow> persist_and_reload W config'))"

definition save_general :: "settings_world \<Rightarrow> bytes \<Rightarrow> settings_response settings_op" where
  "save_general W body =
     seq (of_sum (sw_general W body)) (\<lambda>update.
     seq (load_config W) (\<lambda>config.
       case apply_general update config of
         None \<Rightarrow> give (response_error 400 ''unsupported insertion backend'')
       | Some config' \<Rightarrow> persist_and_reload W config'))"

definition save_provider :: "settings_world \<Rightarrow> utext \<Rightarrow> bytes \<Rightarrow> settings_response settings_op" where
  "save_provider W provider body =
     seq (of_sum (sw_rest W body)) (\<lambda>update.
     seq (load_config W) (\<lambda>config.
       case map_of (cfg_providers config) (utf8_string provider) of
         None \<Rightarrow> give (response_error 404 ''provider is not configured'')
       | Some p \<Rightarrow>
           (case edit_provider update p of
              Inl message \<Rightarrow> give (response_error 400 message)
            | Inr p' \<Rightarrow>
                persist_and_reload W (config\<lparr> cfg_providers :=
                  map_insert (utf8_string provider) p' (cfg_providers config) \<rparr>))))"

definition save_quota :: "settings_world \<Rightarrow> utext \<Rightarrow> bytes \<Rightarrow> settings_response settings_op" where
  "save_quota W provider body =
     seq (of_sum (sw_quota W body)) (\<lambda>update.
     seq (load_config W) (\<lambda>config.
       if \<not> has_key (utf8_string provider) (cfg_providers config)
       then give (response_error 404 ''provider is not configured'')
       else persist_and_reload W (apply_quota (utf8_string provider) update config)))"

section \<open>Secrets\<close>

fun editable_secret :: "string \<Rightarrow> provider_config \<Rightarrow> bool" where
  "editable_secret name (OpenaiCompatible _ _ secret _) = (secret = name)"
| "editable_secret name (Deepgram _ _ secret _ _) = (secret = name)"
| "editable_secret name _ = False"

definition save_secret :: "settings_world \<Rightarrow> utext \<Rightarrow> bytes \<Rightarrow> settings_response settings_op" where
  "save_secret W name body =
     seq (load_config W) (\<lambda>config.
       if \<not> list_ex (\<lambda>p. editable_secret (utf8_string name) (snd p)) (cfg_providers config)
       then give (response_error 404 ''secret reference is not configured'')
       else if body = [] \<or> 16 * 1024 < length body \<or> 0 \<in> set body
       then give (response_error 400 ''API key must contain 1 to 16384 bytes'')
       else case store_secret (utf8_string name) (map (\<lambda>b. char_of (unat b)) body) (sw_store W) of
         (r, call) \<Rightarrow>
           seq (case call of None \<Rightarrow> give () | Some (args, input) \<Rightarrow> emit (SecretTool args input))
             (\<lambda>_. case r of
                Inl e \<Rightarrow> raise (vox_error_display e)
              | Inr _ \<Rightarrow> give (response_ok (JObject [(''ok'', JBool True)]))))"

definition open_config :: "settings_world \<Rightarrow> settings_response settings_op" where
  "open_config W =
     (case config_path (fw_xdg_config_home (sw_load W)) (fw_home (sw_load W)) of
        Inl e \<Rightarrow> raise (vox_error_display e)
      | Inr path \<Rightarrow>
          (case sw_open W of
             Some e \<Rightarrow> raise e
           | None \<Rightarrow>
               seq (emit (OpenFile path)) (\<lambda>_.
                 give (response_ok (JObject [(''ok'', JBool True)])))))"

end
