(* ===== verification/Settings_Server.thy ===== *)
theory Settings_Server
  imports Settings
begin

text \<open>
  The read-only and the recording requests of the settings window, and the dispatch of a
  connection (src/bin/voxtype-settings.rs): the state that the window shows, the calibration of the
  microphone, the session token and the routes.
\<close>

section \<open>What the window shows\<close>

definition json_pointer_escape :: "string \<Rightarrow> string" where
  "json_pointer_escape v = replace_char CHR ''/'' ''~1'' (replace_char CHR ''~'' ''~0'' v)"

text \<open>The reading of a JSON pointer (RFC 6901) by serde_json, for objects.\<close>

fun pointer_unescape :: "string \<Rightarrow> string" where
  "pointer_unescape [] = []"
| "pointer_unescape [c] = [c]"
| "pointer_unescape (c # d # cs) =
     (if c = CHR ''~'' \<and> d = CHR ''1'' then CHR ''/'' # pointer_unescape cs
      else if c = CHR ''~'' \<and> d = CHR ''0'' then CHR ''~'' # pointer_unescape cs
      else c # pointer_unescape (d # cs))"

fun pointer_at :: "string list \<Rightarrow> json \<Rightarrow> json option" where
  "pointer_at [] v = Some v"
| "pointer_at (k # ks) v = Option.bind (json_get (pointer_unescape k) v) (pointer_at ks)"

definition json_pointer :: "string \<Rightarrow> json \<Rightarrow> json option" where
  "json_pointer p v = (if p = [] then Some v else pointer_at (tl (split_elem CHR ''/'' p)) v)"

definition empty_usage :: json where
  "empty_usage =
     JObject (map (\<lambda>k. (k, jnat 0))
       [''attempts'', ''requests'', ''successes'', ''failures'', ''audio_millis'', ''token_reports'',
        ''input_tokens'', ''output_tokens'', ''total_tokens'', ''reported_tokens''])"

definition provider_health_for :: "json \<Rightarrow> string \<Rightarrow> json" where
  "provider_health_for status name =
     (case json_pointer (''/providers/'' @ json_pointer_escape name) status of
        None \<Rightarrow> JNull | Some v \<Rightarrow> v)"

definition latest_event_is_failure :: "64 word option \<Rightarrow> 64 word option \<Rightarrow> bool" where
  "latest_event_is_failure failure_age verified_age =
     (case failure_age of
        None \<Rightarrow> False
      | Some f \<Rightarrow> (case verified_age of None \<Rightarrow> True | Some v \<Rightarrow> f \<le> v))"

definition provider_readiness :: "string \<Rightarrow> string \<Rightarrow> json \<Rightarrow> string" where
  "provider_readiness kind secret_state1 health =
     (if kind = ''mock'' then ''demo''
      else if secret_state1 = ''missing'' \<or> secret_state1 = ''unavailable'' then ''setup-needed''
      else if \<not> json_is_object health then ''unknown''
      else if Option.bind (json_get ''route_available'' health) json_as_bool = Some False
      then ''unavailable''
      else if latest_event_is_failure
                (Option.bind (json_get ''last_failure_age_seconds'' health) json_as_u64)
                (Option.bind (json_get ''verified_age_seconds'' health) json_as_u64)
      then ''degraded''
      else if Option.bind (json_get ''verified'' health) json_as_bool = Some True then ''healthy''
      else ''configured'')"

definition needs_provider_onboarding :: "config \<Rightarrow> bool" where
  "needs_provider_onboarding config =
     list_all (\<lambda>(_, p). case p of Mock _ \<Rightarrow> True | _ \<Rightarrow> False) (cfg_providers config)"

text \<open>Kind, endpoint, model, secret reference, state of the secret, timeout, smart format.\<close>

fun provider_fields ::
  "(string \<Rightarrow> bool option) \<Rightarrow> provider_config \<Rightarrow>
   string \<times> string \<times> string \<times> string \<times> string \<times> json \<times> json" where
  "provider_fields tool (Mock _) = (''mock'', [], [], [], ''not-required'', JNull, JNull)"
| "provider_fields tool (OpenaiCompatible endpoint model secret timeout1) =
     (''openai-compatible'', endpoint, model, secret, secret_state (tool secret), jnat timeout1, JNull)"
| "provider_fields tool (Deepgram endpoint model secret timeout1 smart) =
     (''deepgram'', endpoint, model, secret, secret_state (tool secret), jnat timeout1, JBool smart)"
| "provider_fields tool (DoubaoUnofficial secret phase_timeout _ _) =
     (''doubao-unofficial'', [], [], secret, secret_state (tool secret), jnat phase_timeout, JNull)"
| "provider_fields tool (CommandProvider program _ timeout1) =
     (''command'', program, [], [], ''not-required'', jnat timeout1, JNull)"

definition provider_state ::
  "settings_world \<Rightarrow> string \<Rightarrow> provider_config \<Rightarrow> json \<Rightarrow> provider_quota_config option \<Rightarrow> json \<Rightarrow> json"
where
  "provider_state W name p usage quota health =
     (let (kind, endpoint, model, secret_ref, state, timeout1, smart) =
            provider_fields (sw_secret_state W) p;
          txt = (\<lambda>s. JString (sw_show_text W s)); doubao = (kind = ''doubao-unofficial'')
      in JObject
        [(''id'', txt name), (''kind'', txt kind), (''endpoint'', txt endpoint), (''model'', txt model),
         (''secret_ref'', txt secret_ref), (''secret_state'', txt state),
         (''readiness'', txt (provider_readiness kind state health)), (''health'', health),
         (''timeout_seconds'', timeout1), (''smart_format'', smart),
         (''display_name'',
            if doubao
            then JString (text_of ''Doubao'' @
                   [0xFF08, 0x975E, 0x5B98, 0x65B9, 0x517C, 0x5BB9, 0xFF09])
            else txt kind),
         (''risk_label'', txt (if doubao then ''unofficial-undocumented'' else [])),
         (''credential_mode'',
            txt (if doubao then ''managed-bootstrap'' else if secret_ref = [] then ''none''
                 else ''api-key'')),
         (''usage_capabilities'',
            JObject [(''requests'', JBool True), (''audio'', JBool True), (''tokens'', JBool (\<not> doubao)),
                     (''account_quota'', JBool False)]),
         (''usage'', usage), (''quota'', quota_json quota)])"

definition general_state :: "settings_world \<Rightarrow> config \<Rightarrow> json" where
  "general_state W config =
     (let txt = (\<lambda>s. JString (sw_show_text W s)); desktop = cfg_desktop config; audio = cfg_audio config
      in JObject
        [(''default_profile'', txt (default_profile config)),
         (''profiles'', JArray (map (\<lambda>p. txt (fst p)) (cfg_profiles config))),
         (''insertion_backend'', txt (insertion_backend_name (cfg_insertion_backend desktop))),
         (''restore_clipboard'', JBool (restore_clipboard desktop)),
         (''retain_recordings'', JBool (retain_recordings desktop)),
         (''transcript_history_enabled'', JBool (transcript_history_enabled desktop)),
         (''vad_enabled'', JBool (vad_enabled audio)),
         (''audio_device'', JString (cfg_device audio)),
         (''vad_rms_threshold'', jnat (unat (vad_rms_threshold audio))),
         (''vad_minimum_voiced_frames'', jnat (unat (vad_minimum_voiced_frames audio))),
         (''minimum_duration_millis'', jnat (unat (minimum_duration_millis audio))),
         (''maximum_duration_seconds'', jnat (unat (maximum_duration_seconds audio)))])"

definition usage_for :: "json \<Rightarrow> string \<Rightarrow> json" where
  "usage_for usage name =
     (case json_pointer (''/providers/'' @ json_pointer_escape name @ ''/usage'') usage of
        None \<Rightarrow> empty_usage | Some v \<Rightarrow> v)"

definition settings_state :: "settings_world \<Rightarrow> json settings_op" where
  "settings_state W =
     seq (load_config W) (\<lambda>config.
       let usage = (case sw_usage W of
                      None \<Rightarrow> JObject [(''scope'', jtext ''unavailable''), (''providers'', JObject [])]
                    | Some v \<Rightarrow> v);
           status = (case sw_status W of None \<Rightarrow> JNull | Some v \<Rightarrow> v);
           providers = map (\<lambda>(name, p). provider_state W name p (usage_for usage name)
                              (map_of (cfg_quotas config) name) (provider_health_for status name))
                         (cfg_providers config)
       in case config_path (fw_xdg_config_home (sw_load W)) (fw_home (sw_load W)) of
            Inl e \<Rightarrow> raise (vox_error_display e)
          | Inr path \<Rightarrow>
              give (JObject
                [(''config_path'', JString (sw_show_text W path)),
                 (''usage_scope'',
                    case Option.bind (json_get ''scope'' usage) json_as_str of
                      None \<Rightarrow> jtext ''unavailable'' | Some t \<Rightarrow> JString t),
                 (''onboarding_needed'', JBool (needs_provider_onboarding config)),
                 (''general'', general_state W config), (''providers'', JArray providers)]))"

section \<open>Calibration\<close>

definition silence_millis :: nat where
  "silence_millis = 1500"

text \<open>The recording is read and removed before it is analysed.\<close>

definition calibration_json :: "settings_world \<Rightarrow> config \<Rightarrow> string \<Rightarrow> calibration_result \<Rightarrow> json" where
  "calibration_json W config backend r =
     (let level = (\<lambda>x :: 16 word. jnat (unat x)); real = (\<lambda>x. JNumber (sw_show_f64 W x) None)
      in JObject
        [(''capture_backend'', jtext backend),
         (''configured_device'',
            if cfg_device (cfg_audio config) = [] then jtext ''default''
            else JString (cfg_device (cfg_audio config))),
         (''noise_floor'', level (cr_noise_p50 r)), (''noise_p20'', level (cr_noise_p20 r)),
         (''noise_p50'', level (cr_noise_p50 r)), (''noise_p95'', level (cr_noise_p95 r)),
         (''average_rms'', level (cr_speech_p50 r)), (''speech_p50'', level (cr_speech_p50 r)),
         (''speech_p95'', level (cr_speech_p95 r)), (''peak'', level (cr_peak r)),
         (''adaptive_threshold'', level (cr_suggested_threshold r)),
         (''suggested_threshold'', level (cr_suggested_threshold r)),
         (''snr_db'', real (cr_snr_db r)), (''clipping_ratio'', real (cr_clipping_ratio r)),
         (''speech_ratio'', real (cr_speech_ratio r)),
         (''confidence'', jtext (confidence_as_str (cr_confidence r))),
         (''reason'', jtext (reason_as_str (cr_reason r))), (''can_apply'', JBool (cr_can_apply r))])"

definition calibrate_microphone_inner :: "settings_world \<Rightarrow> settings_response settings_op" where
  "calibrate_microphone_inner W =
     seq (load_config W) (\<lambda>config.
     seq (emit (ShowPhase ''Stay quiet while VoxType measures room noise'')) (\<lambda>_.
     seq (on_host (start_with_device (sw_capture W))) (\<lambda>rec.
     seq (emit (ShowPhase ''Speak a normal sentence until the recording finishes'')) (\<lambda>_.
     seq (\<lambda>s. case on_host (stop_recording (sw_capture W) rec) s of
                (Inl e, s') \<Rightarrow>
                  (Inl e, s'\<lparr> ss_host := effect (RemoveFile (rc_path rec)) (ss_host s') \<rparr>)
              | (Inr r, s') \<Rightarrow> (Inr r, s')) (\<lambda>result.
     seq (\<lambda>s. (sw_pcm W, s\<lparr> ss_host := effect (RemoveFile (rr_path result)) (ss_host s) \<rparr>)) (\<lambda>pcm.
       let silence_bytes = min (silence_millis * 32) (length pcm)
       in seq (of_sum (analyze (sw_f64 W) (take silence_bytes pcm) (drop silence_bytes pcm))) (\<lambda>r.
          seq (emit (ShowPhase
                 (if cr_can_apply r then ''The suggested threshold is ready for review''
                  else ''The sample was not reliable enough to change the threshold''))) (\<lambda>_.
          give (response_ok (calibration_json W config (rr_backend result) r))))))))))"

definition calibrate_microphone :: "settings_world \<Rightarrow> settings_response settings_op" where
  "calibrate_microphone W s =
     (case calibrate_microphone_inner W s of
        (Inl e, s') \<Rightarrow> (Inl e, snd (emit (ShowPhase ''Check the selected device and try again'') s'))
      | (Inr r, s') \<Rightarrow> (Inr r, s'))"

section \<open>Connections\<close>

definition utext_starts :: "string \<Rightarrow> utext \<Rightarrow> bool" where
  "utext_starts p t \<longleftrightarrow> take (length p) t = text_of p"

definition with_name ::
  "nat \<Rightarrow> settings_request \<Rightarrow> (utext \<Rightarrow> settings_response settings_op) \<Rightarrow> settings_response settings_op"
where
  "with_name n request f = seq (of_sum (settings_percent_decode (drop n (rq_path request)))) f"

definition route_request :: "settings_world \<Rightarrow> settings_request \<Rightarrow> settings_response settings_op" where
  "route_request W request =
     (let path = rq_path request; get = (rq_method request = text_of ''GET'');
          post = (rq_method request = text_of ''POST''); body = rq_body request
      in if get \<and> path = text_of ''/state''
         then seq (settings_state W) (\<lambda>v. give (response_ok v))
         else if post \<and> path = text_of ''/general'' then save_general W body
         else if post \<and> path = text_of ''/calibrate'' then calibrate_microphone W
         else if post \<and> path = text_of ''/provider'' then create_provider W body
         else if post \<and> path = text_of ''/open-config'' then open_config W
         else if post \<and> utext_starts ''/provider/'' path
         then with_name 10 request (\<lambda>name. save_provider W name body)
         else if post \<and> utext_starts ''/quota/'' path
         then with_name 7 request (\<lambda>name. save_quota W name body)
         else if post \<and> utext_starts ''/secret/'' path
         then with_name 8 request (\<lambda>name. save_secret W name body)
         else give (response_error 404 ''settings endpoint not found''))"

text \<open>The response to what the reads of a connection gave; the token is that of the session.\<close>

definition handle_connection ::
  "settings_world \<Rightarrow> utext \<Rightarrow> socket_read list \<Rightarrow> settings \<Rightarrow> settings_response \<times> settings" where
  "handle_connection W token reads s =
     (case seq (of_sum (read_request reads)) (\<lambda>request.
             if rq_token request \<noteq> Some token
             then give (response_error 403 ''invalid settings session'')
             else route_request W request) s of
        (Inl e, s') \<Rightarrow> (response_error 400 e, s')
      | (Inr response, s') \<Rightarrow> (response, s'))"

text \<open>The connections that the window's server accepts, one after the other, each in its world.\<close>

fun serve_connections ::
  "utext \<Rightarrow> (settings_world \<times> socket_read list) list \<Rightarrow> settings \<Rightarrow> settings" where
  "serve_connections token [] s = s"
| "serve_connections token ((W, reads) # conns) s =
     serve_connections token conns (snd (handle_connection W token reads s))"

definition session_token :: "string + bytes \<Rightarrow> string + string" where
  "session_token random =
     (case random of
        Inl e \<Rightarrow> Inl e
      | Inr bs \<Rightarrow>
          Inr (concat (map (\<lambda>b. let n = unat b; digit = (\<lambda>d :: nat. if d < 10 then char_of (48 + d)
                                      else char_of (87 + d))
                                in [digit (n div 16), digit (n mod 16)]) bs)))"

section \<open>One window at a time\<close>

text \<open>
  The guard of the pid file: the command line of the process that the file names decides whether
  the window is open. The file is not removed when it cannot be read as a number (read_pid of
  theory Config_Store).
\<close>

definition create_pid_file :: "file_world \<Rightarrow> string \<Rightarrow> (disk, vox_error, unit) eff" where
  "create_pid_file W path =
     seq (create_new W path) (\<lambda>_. write_all W path (show_nat (fw_pid W)))"

definition instance_acquire ::
  "file_world \<Rightarrow> (nat \<Rightarrow> string) \<Rightarrow> string \<Rightarrow> (disk, string, unit) eff" where
  "instance_acquire W command_line path d =
     (case read_pid W path d of
        Some pid \<Rightarrow>
          if contains ''voxtype-settings'' (command_line pid)
          then (Inl ''the settings panel is already open'', d)
          else map_prod (map_sum err_message id) id (create_pid_file W path (remove_file W path d))
      | None \<Rightarrow> map_prod (map_sum err_message id) id (create_pid_file W path d))"

end
