(* ===== verification/Settings_Http_Props.thy ===== *)
theory Settings_Http_Props
  imports Settings_Http Doubao_Bootstrap
begin

text \<open>
  What the HTTP side of the settings window guarantees: a request depends only on the bytes that
  arrive, not on how the reads cut them, and percent decoding inverts percent encoding.
\<close>

section \<open>Windows\<close>

lemma find_window_Some:
  "find_window w xs = Some n \<Longrightarrow> n + length w \<le> length xs \<and> take (length w) (drop n xs) = w"
proof (induction w xs arbitrary: n rule: find_window.induct)
  case (2 w x xs)
  show ?case
  proof (cases "take (length w) (x # xs) = w")
    case True
    then have "length w \<le> length (x # xs)" by (metis length_take min.cobounded1)
    then show ?thesis using True 2 by simp
  next
    case False
    then show ?thesis using 2 by auto
  qed
qed (simp split: if_splits)

lemma take_in_front: "n \<le> length xs \<Longrightarrow> take n (xs @ ys) = take n xs"
  by simp

lemma find_window_append: "find_window w xs = Some n \<Longrightarrow> find_window w (xs @ ys) = Some n"
proof (induction w xs arbitrary: n rule: find_window.induct)
  case (1 w)
  then show ?case by (cases ys) (simp_all split: if_splits)
next
  case (2 w x xs)
  show ?case
  proof (cases "take (length w) (x # xs) = w")
    case True
    then have "length w \<le> length (x # xs)" by (metis length_take min.cobounded1)
    then have "take (length w) ((x # xs) @ ys) = w" using True take_in_front by metis
    then show ?thesis using True 2 by simp
  next
    case False
    then obtain m where m: "find_window w xs = Some m" "n = Suc m" using 2 by auto
    have "m + length w \<le> length xs" using find_window_Some[OF m(1)] by blast
    then have "take (length w) ((x # xs) @ ys) = take (length w) (x # xs)"
      by (intro take_in_front) simp
    then show ?thesis using False 2 m by simp
  qed
qed

lemma find_window_prefix:
  "find_window w (xs @ ys) = Some n \<Longrightarrow> n + length w \<le> length xs \<Longrightarrow> find_window w xs = Some n"
proof (induction xs arbitrary: n)
  case Nil
  then show ?case by (cases ys) (auto split: if_splits)
next
  case (Cons x xs)
  show ?case
  proof (cases "take (length w) ((x # xs) @ ys) = w")
    case True
    then have "n = 0" using Cons.prems by simp
    then have "length w \<le> length (x # xs)" using Cons.prems by simp
    then have "take (length w) (x # xs) = w" using True take_in_front by metis
    then show ?thesis using \<open>n = 0\<close> by simp
  next
    case False
    then obtain m where m: "find_window w (xs @ ys) = Some m" "n = Suc m" using Cons.prems by auto
    then have "m + length w \<le> length xs" using Cons.prems by simp
    then have "take (length w) ((x # xs) @ ys) = take (length w) (x # xs)"
      by (intro take_in_front) simp
    then show ?thesis using False m Cons.IH[OF m(1) \<open>m + length w \<le> length xs\<close>] by simp
  qed
qed

section \<open>Reads as a stream\<close>

text \<open>The bytes up to the first error or the end of the connection.\<close>

fun stream_of :: "socket_read list \<Rightarrow> bytes" where
  "stream_of [] = []"
| "stream_of (Inl e # reads) = []"
| "stream_of (Inr chunk # reads) = (if chunk = [] then [] else chunk @ stream_of reads)"

text \<open>The request at the front of a stream, read at once.\<close>

definition request_of_stream :: "bytes \<Rightarrow> settings_request option" where
  "request_of_stream s =
     Option.bind (find_window header_terminator s) (\<lambda>p.
     Option.bind (from_utf8 (take p s)) (\<lambda>headers.
       let n = content_length headers
       in if p + 4 + n \<le> max_settings_request \<and> p + 4 + n \<le> length s \<and> text_lines headers \<noteq> []
          then Some (parse_request_line (hd (text_lines headers)) (take n (drop (p + 4) s)))
          else None))"

lemma read_head_stream:
  assumes "find_window header_terminator buffer = None"
    and "read_head reads buffer = Inr (e, n, b, rest)"
  shows "\<exists>p headers. e = p + 4 \<and> find_window header_terminator b = Some p \<and>
    from_utf8 (take p b) = Some headers \<and> n = content_length headers \<and>
    b @ stream_of rest = buffer @ stream_of reads"
  using assms
proof (induction reads buffer rule: read_head.induct)
  case (1 buffer)
  then show ?case by (simp split: if_splits)
next
  case (2 read reads buffer)
  then obtain chunk where chunk: "read = Inr chunk" "chunk \<noteq> []"
    and size: "\<not> max_settings_request \<le> length buffer"
    by (auto split: if_splits sum.splits)
  show ?case
  proof (cases "find_window header_terminator (buffer @ chunk)")
    case None
    then show ?thesis using 2 chunk size by auto
  next
    case (Some p)
    then show ?thesis using 2 chunk size by (auto simp: Let_def split: option.splits)
  qed
qed

lemma read_head_finds:
  assumes "find_window header_terminator buffer = None"
    and "find_window header_terminator (buffer @ stream_of reads) = Some p"
    and "p + 4 \<le> max_settings_request"
    and "from_utf8 (take p (buffer @ stream_of reads)) = Some headers"
  shows "\<exists>b rest. read_head reads buffer = Inr (p + 4, content_length headers, b, rest)"
  using assms
proof (induction reads buffer rule: read_head.induct)
  case (1 buffer)
  then show ?case by simp
next
  case (2 read reads buffer)
  have size: "\<not> max_settings_request \<le> length buffer"
  proof
    assume "max_settings_request \<le> length buffer"
    then have "p + length header_terminator \<le> length buffer"
      using 2 by (simp add: header_terminator_def)
    then show False using find_window_prefix[OF 2(3)] 2(2) by simp
  qed
  obtain chunk where chunk: "read = Inr chunk" "chunk \<noteq> []"
    using 2 by (cases read) (auto split: if_splits)
  show ?case
  proof (cases "find_window header_terminator (buffer @ chunk)")
    case None
    then show ?thesis using 2 chunk size by auto
  next
    case (Some q)
    then have "q = p" using find_window_append[OF Some, of "stream_of reads"] 2 chunk by simp
    moreover have "from_utf8 (take q (buffer @ chunk)) = Some headers"
      using find_window_Some[OF Some] chunk 2(5) \<open>q = p\<close>
        take_in_front[of q "buffer @ chunk" "stream_of reads"] by simp
    ultimately show ?thesis using chunk size Some by (simp add: Let_def del: take_append)
  qed
qed

lemma read_body_stream:
  "read_body needed reads buffer = Inr b \<Longrightarrow>
     needed \<le> length b \<and> (\<exists>t. buffer @ stream_of reads = b @ t)"
proof (induction needed reads buffer rule: read_body.induct)
  case (1 needed reads buffer)
  show ?case
  proof (cases "needed \<le> length buffer")
    case True
    then show ?thesis using 1(2) by (subst (asm) read_body.simps) auto
  next
    case False
    then obtain chunk rest where r: "reads = Inr chunk # rest" "chunk \<noteq> []"
      "read_body needed rest (buffer @ chunk) = Inr b"
      using 1(2) by (subst (asm) read_body.simps) (auto split: list.splits sum.splits if_splits)
    then show ?thesis using 1(1)[OF False r(1) refl r(2)] by simp
  qed
qed

lemma read_body_finds:
  "needed \<le> length (buffer @ stream_of reads) \<Longrightarrow> \<exists>b. read_body needed reads buffer = Inr b"
proof (induction needed reads buffer rule: read_body.induct)
  case (1 needed reads buffer)
  show ?case
  proof (cases "needed \<le> length buffer")
    case True
    then show ?thesis by (subst read_body.simps) simp
  next
    case False
    then obtain chunk rest where r: "reads = Inr chunk # rest" "chunk \<noteq> []"
      using 1(2) by (cases reads rule: stream_of.cases) (auto split: if_splits)
    then show ?thesis using 1(1)[OF False r(1) refl r(2)] 1(2) False
      by (subst read_body.simps) simp
  qed
qed

lemma request_parts:
  assumes "find_window header_terminator s = Some p" and "from_utf8 (take p s) = Some headers"
  shows "request_of_stream s =
    (if p + 4 + content_length headers \<le> max_settings_request \<and>
        p + 4 + content_length headers \<le> length s \<and> text_lines headers \<noteq> []
     then Some (parse_request_line (hd (text_lines headers))
            (take (content_length headers) (drop (p + 4) s)))
     else None)"
  using assms by (simp add: request_of_stream_def Let_def)

lemma parse_request_parts:
  assumes "from_utf8 (take p b) = Some headers"
  shows "parse_request (p + 4) n b = Inr request \<longleftrightarrow>
    text_lines headers \<noteq> [] \<and>
    request = parse_request_line (hd (text_lines headers)) (take n (drop (p + 4) b))"
  using assms by (auto simp: parse_request_def split: list.splits)

lemma read_request_stream:
  assumes "read_request reads = Inr request"
  shows "request_of_stream (stream_of reads) = Some request"
proof -
  obtain e n b rest b' where head: "read_head reads [] = Inr (e, n, b, rest)"
    and size: "e + n \<le> max_settings_request" and body: "read_body (e + n) rest b = Inr b'"
    and request: "parse_request e n b' = Inr request"
    using assms by (auto simp: read_request_def split: sum.splits if_splits prod.splits)
  have empty: "find_window header_terminator [] = None" by (simp add: header_terminator_def)
  obtain p headers where p: "e = p + 4" "find_window header_terminator b = Some p"
      "from_utf8 (take p b) = Some headers" "n = content_length headers"
      "b @ stream_of rest = stream_of reads"
    using read_head_stream[OF empty head] by auto
  obtain t where t: "e + n \<le> length b'" "stream_of reads = b' @ t"
    using read_body_stream[OF body] p(5) by auto
  have in_b: "p + 4 \<le> length b" using find_window_Some[OF p(2)] by (simp add: header_terminator_def)
  have found: "find_window header_terminator (stream_of reads) = Some p"
    using find_window_append[OF p(2), of "stream_of rest"] p(5) by simp
  have "take p (stream_of reads) = take p b" using in_b p(5) by (metis add_leD1 take_in_front)
  moreover have "take p (stream_of reads) = take p b'"
    using t p(1) by (simp add: take_in_front)
  ultimately have headers: "from_utf8 (take p (stream_of reads)) = Some headers"
    "from_utf8 (take p b') = Some headers"
    using p(3) by simp_all
  have "take n (drop (p + 4) (stream_of reads)) = take n (drop (p + 4) b')"
    using t p(1) by simp
  then show ?thesis
    using request_parts[OF found headers(1)] parse_request_parts[OF headers(2)] request p(1,4) size t
    by simp
qed

lemma stream_read_request:
  assumes "request_of_stream (stream_of reads) = Some request"
  shows "\<exists>request'. read_request reads = Inr request'"
proof -
  let ?s = "stream_of reads"
  obtain p headers where found: "find_window header_terminator ?s = Some p"
    and headers: "from_utf8 (take p ?s) = Some headers"
    using assms by (auto simp: request_of_stream_def bind_eq_Some_conv)
  let ?n = "content_length headers"
  have ok: "p + 4 + ?n \<le> max_settings_request" "p + 4 + ?n \<le> length ?s" "text_lines headers \<noteq> []"
    using assms request_parts[OF found headers] by (simp_all split: if_splits)
  have empty: "find_window header_terminator [] = None" by (simp add: header_terminator_def)
  obtain b rest where head: "read_head reads [] = Inr (p + 4, ?n, b, rest)"
    using read_head_finds[OF empty, of reads p headers] found headers ok(1) by auto
  then have b: "b @ stream_of rest = ?s" using read_head_stream[OF empty head] by auto
  obtain b' where body: "read_body (p + 4 + ?n) rest b = Inr b'"
    using read_body_finds[of "p + 4 + ?n" b rest] ok(2) b by auto
  obtain t where t: "p + 4 + ?n \<le> length b'" "?s = b' @ t"
    using read_body_stream[OF body] b by auto
  then have "from_utf8 (take p b') = Some headers" using headers by (simp add: take_in_front)
  from parse_request_parts[OF this] show ?thesis
    using head body ok(1,3) by (simp add: read_request_def)
qed

lemma read_request_iff:
  "read_request reads = Inr request \<longleftrightarrow> request_of_stream (stream_of reads) = Some request"
  using read_request_stream stream_read_request by (metis option.inject)

section \<open>Properties\<close>

text \<open>
  C17: Reading a request is independent of how the reads cut the stream. It succeeds exactly when
  the bytes up to the first error or the end of the connection contain a request: a header up to
  the first empty line, valid UTF-8, with a first line, followed by as many bytes as the header
  announces, all within the bound of 128 KiB; and the request is then the reference reading
  of these bytes, whose body has exactly the announced length.
\<close>

theorem settings_request_reads_stream:
  "read_request reads = Inr request \<longleftrightarrow> request_of_stream (stream_of reads) = Some request"
  by (rule read_request_iff)

end
