(* ===== verification/Settings_Props.thy ===== *)
theory Settings_Props
  imports Settings_Server Settings_Http_Props Config_Store_Props Capture_Props
begin

text \<open>
  What the settings window guarantees: nothing happens without the session token, the configuration
  file holds a validated configuration after every request, a new provider is added without
  touching the others, and a calibration releases its recording.
\<close>

section \<open>The session token\<close>

lemma piece_in_split: "p \<in> set (split_elem z xs) \<Longrightarrow> sublist p xs"
proof (induction xs arbitrary: p)
  case (Cons x xs)
  obtain q qs where q: "split_elem z xs = q # qs" using split_elem_not_Nil by (cases "split_elem z xs") auto
  have front: "prefix q xs" using join_split[of z xs] q by (cases qs) auto
  show ?case
  proof (cases "x = z \<or> p \<in> set qs")
    case True
    then have "p = [] \<or> p \<in> set (split_elem z xs)" using Cons.prems q by auto
    then show ?thesis using Cons.IH by (auto simp: sublist_Cons_right)
  next
    case False
    then have "p = x # q" using Cons.prems q by auto
    then show ?thesis using front by (simp add: prefix_imp_sublist)
  qed
qed simp

lemma front_of_words: "word_pieces t = p # ps \<Longrightarrow> prefix p t"
  by (induction t arbitrary: p ps) (auto split: if_splits list.splits)

lemma word_in_text: "p \<in> set (word_pieces t) \<Longrightarrow> sublist p t"
proof (induction t arbitrary: p)
  case (Cons c t)
  show ?case
  proof (cases "is_whitespace c")
    case True
    then show ?thesis using Cons by (auto simp: sublist_Cons_right)
  next
    case False
    then show ?thesis using Cons front_of_words[of t]
      by (auto split: list.splits simp: sublist_Cons_right)
  qed
qed simp

lemma line_in_text: "l \<in> set (text_lines t) \<Longrightarrow> sublist l t"
proof -
  assume "l \<in> set (text_lines t)"
  then have "l = last (split_elem 10 t) \<or> (\<exists>p \<in> set (split_elem 10 t). l = strip_return p)"
    by (auto simp: text_lines_def Let_def dest: in_set_butlastD split: if_splits)
  then obtain p where "p \<in> set (split_elem 10 t)" "l = p \<or> l = strip_return p"
    using last_in_set[OF split_elem_not_Nil[of 10 t]] by metis
  moreover have "sublist (strip_return p) p" for p
    by (simp add: strip_return_def prefix_imp_sublist prefixeq_butlast)
  ultimately have "sublist l p" by auto
  then show ?thesis
    using piece_in_split[OF \<open>p \<in> set (split_elem 10 t)\<close>] by (rule sublist_order.order_trans)
qed

lemma split_once_parts: "split_once z t = Some (a, b) \<Longrightarrow> t = a @ z # b"
proof -
  assume split: "split_once z t = Some (a, b)"
  then have "z \<in> set t" by (simp add: split_once_def split: if_splits)
  then have ne: "dropWhile (\<lambda>c. c \<noteq> z) t \<noteq> []" by (simp add: dropWhile_eq_Nil_conv)
  then have "hd (dropWhile (\<lambda>c. c \<noteq> z) t) = z" using hd_dropWhile by blast
  then have "dropWhile (\<lambda>c. c \<noteq> z) t = z # tl (dropWhile (\<lambda>c. c \<noteq> z) t)"
    using ne by (metis list.collapse)
  then show ?thesis using split
    by (metis split_once_def option.inject prod.inject takeWhile_dropWhile_id option.distinct(1))
qed

lemma token_in_line:
  assumes "rq_token (parse_request_line line body) = Some token"
  shows "sublist (text_of ''token='' @ token) line"
proof -
  let ?target = "first_or_empty 1 (split_whitespace line)"
  obtain path query where target: "split_once 63 ?target = Some (path, query) \<or> query = []"
    and pair: "find_map token_of_pair (split_elem 38 query) = Some token"
    using assms by (auto simp: parse_request_line_def Let_def split: option.splits prod.splits)
  then obtain pair where p: "pair \<in> set (split_elem 38 query)" "token_of_pair pair = Some token"
    using find_map_SomeD by metis
  then have whole: "pair = text_of ''token='' @ token"
    using split_once_parts[of 61 pair "text_of ''token''"]
    by (auto simp: token_of_pair_def text_of_def split: option.splits if_splits)
  have "query \<noteq> []" using p by (auto simp: token_of_pair_def split_once_def)
  then have "?target = (path @ [63]) @ query"
    using target split_once_parts[of 63 ?target path query] by simp
  then have "sublist query ?target" by (metis suffixI suffix_imp_sublist)
  moreover have "?target = [] \<or> ?target \<in> set (word_pieces line)"
    using nth_mem[of 1 "split_whitespace line"] by (auto simp: first_or_empty_def split_whitespace_def)
  then have "sublist ?target line" using word_in_text by auto
  ultimately show ?thesis
    using piece_in_split[OF p(1)] whole sublist_order.order_trans by blast
qed

text \<open>
  C15: Nothing happens without the session token. Unless the header of the request, the text before
  the first empty line of what arrives, contains the token as the value of a token parameter, the
  connection is answered with status 400 or 403 and changes nothing: no file, no recording, no
  call of another program.
\<close>

theorem settings_need_session_token:
  assumes "handle_connection W token reads s = (response, s')"
    and "\<not> (\<exists>p header. find_window header_terminator (stream_of reads) = Some p \<and>
              from_utf8 (take p (stream_of reads)) = Some header \<and>
              sublist (text_of ''token='' @ token) header)"
  shows "s' = s \<and> re_status response \<in> {400, 403}"
proof (cases "read_request reads")
  case (Inl e)
  then show ?thesis using assms(1)
    by (auto simp: handle_connection_def of_sum_def response_error_def)
next
  case (Inr request)
  then have "request_of_stream (stream_of reads) = Some request" by (rule read_request_stream)
  then obtain p header body where p: "find_window header_terminator (stream_of reads) = Some p"
      "from_utf8 (take p (stream_of reads)) = Some header" "text_lines header \<noteq> []"
    and request: "request = parse_request_line (hd (text_lines header)) body"
    by (auto simp: request_of_stream_def bind_eq_Some_conv Let_def split: if_splits)
  have "rq_token request \<noteq> Some token"
  proof
    assume "rq_token request = Some token"
    then have "sublist (text_of ''token='' @ token) (hd (text_lines header))"
      using request token_in_line by blast
    moreover have "sublist (hd (text_lines header)) header"
      using p(3) by (intro line_in_text) simp
    ultimately show False using assms(2) p(1,2) sublist_order.order_trans by blast
  qed
  then show ?thesis using assms(1) Inr
    by (auto simp: handle_connection_def of_sum_def response_error_def)
qed

section \<open>The configuration file\<close>

text \<open>
  A history of the disk in which the configuration is the old one or a validated one, whole, or, when
  there was none, a beginning of the default one.
\<close>

abbreviation valid_texts :: "(config \<Rightarrow> string + string) \<Rightarrow> string \<Rightarrow> disk \<Rightarrow> disk \<Rightarrow> bool" where
  "valid_texts print path d d' \<equiv>
     whole (\<lambda>t. (\<exists>c. config_validate c = Inr () \<and> print c = Inr t) \<or>
                (dk_files d path = None \<and> (\<exists>n. t = take n default_config_text))) path d d'"

lemma valid_texts_trans:
  assumes "valid_texts print path d d'" and "valid_texts print path d' d''"
  shows "valid_texts print path d d''"
proof (cases "dk_files d' path = None \<and> dk_files d path \<noteq> None")
  case True
  then show ?thesis using whole_present[OF assms(1)] by simp
next
  case False
  have "whole (\<lambda>t. (\<exists>c. config_validate c = Inr () \<and> print c = Inr t) \<or>
      (dk_files d path = None \<and> (\<exists>n. t = take n default_config_text))) path d' d''"
    by (rule whole_mono[OF assms(2)]) (use False in blast)
  then show ?thesis using assms(1) whole_trans by blast
qed

definition keeps :: "(config \<Rightarrow> string + string) \<Rightarrow> string \<Rightarrow> 'a settings_op \<Rightarrow> bool" where
  "keeps print path m \<longleftrightarrow> (\<forall>s. valid_texts print path (ss_disk s) (ss_disk (snd (m s))))"

lemma keeps_seq:
  assumes "keeps print path m" and "\<And>a. keeps print path (f a)"
  shows "keeps print path (seq m f)"
  unfolding keeps_def
proof
  fix s :: settings
  obtain r t where m: "m s = (r, t)" by (cases "m s")
  have first: "valid_texts print path (ss_disk s) (ss_disk t)"
    using assms(1)[unfolded keeps_def, rule_format, of s] unfolding m snd_conv .
  show "valid_texts print path (ss_disk s) (ss_disk (snd (seq m f s)))"
  proof (cases r)
    case (Inl e)
    then show ?thesis using m first by (simp add: seq_def)
  next
    case (Inr a)
    have "valid_texts print path (ss_disk t) (ss_disk (snd (f a t)))"
      using assms(2)[of a, unfolded keeps_def, rule_format, of t] .
    with first have "valid_texts print path (ss_disk s) (ss_disk (snd (f a t)))"
      by (rule valid_texts_trans)
    then show ?thesis using m Inr by (simp add: seq_def)
  qed
qed

lemma keeps_same: "(\<And>s. ss_disk (snd (m s)) = ss_disk s) \<Longrightarrow> keeps print path m"
  by (simp add: keeps_def whole_refl)

lemma keeps_simple:
  "keeps print path (give a)" "keeps print path (raise e)" "keeps print path (of_sum r)"
  "keeps print path (emit x)" "keeps print path (on_host h)"
  by (rule keeps_same, simp add: of_sum_def emit_def on_host_def split: sum.splits prod.splits)+

text \<open>A load touches the file only when there is none, and then writes the default in place.\<close>

lemma disk_set_whole: "good t \<Longrightarrow> whole good path d (disk_set ((dk_files d)(path \<mapsto> t)) d)"
  unfolding whole_def by (rule exI[of _ "[(dk_files d)(path \<mapsto> t)]"]) (auto simp: disk_set_def)

lemma create_default_whole:
  "whole (\<lambda>t. \<exists>n. t = take n default_config_text) path d (snd (create_default W path d))"
proof (cases "fw_mkdir W = None \<and> dk_files d path = None \<and> fw_open W = None")
  case True
  let ?good = "\<lambda>t. \<exists>n. t = take n default_config_text"
  have "?good []" by (rule exI[of _ 0]) simp
  then have empty: "whole ?good path d (disk_set ((dk_files d)(path \<mapsto> [])) d)"
    by (rule disk_set_whole)
  have "?good default_config_text" by (rule exI[of _ "length default_config_text"]) simp
  then have "whole ?good path e (snd (write_all W path default_config_text e))" for e
    using disk_set_whole[of ?good _ path e] by (auto simp: write_all_def split: option.split)
  from whole_trans[OF empty this] show ?thesis using True
    by (simp add: create_default_def seq_def io_result_def create_new_def)
next
  case False
  then have "snd (create_default W path d) = d"
    by (auto simp: create_default_def seq_def io_result_def create_new_def split: option.split)
  then show ?thesis by (simp add: whole_refl)
qed

lemma load_disk:
  assumes "config_path (fw_xdg_config_home W) (fw_home W) = Inr path"
  shows "snd (load_or_create parse W d) =
    (if dk_files d path = None then snd (create_default W path d) else d)"
proof -
  have read: "snd (seq (read_to_string W path) (\<lambda>contents. disk_outcome (parse_config parse path contents)) e) = e"
    for e
    by (auto simp: seq_def read_to_string_def disk_outcome_def split: sum.splits option.splits)
  obtain r e where c: "create_default W path d = (r, e)" by (cases "create_default W path d")
  show ?thesis
    using assms read[of d] read[of e] c
    by (cases r) (simp_all add: load_or_create_def, simp_all add: seq_def)
qed

lemma keeps_load:
  assumes "config_path (fw_xdg_config_home (sw_load W)) (fw_home (sw_load W)) = Inr path"
  shows "keeps print path (load_config W)"
  unfolding keeps_def
proof
  fix s :: settings
  let ?d = "snd (load_or_create (sw_parse W) (sw_load W) (ss_disk s))"
  have "valid_texts print path (ss_disk s) ?d"
    using load_disk[OF assms, of "sw_parse W" "ss_disk s"]
      whole_mono[OF create_default_whole[of path "ss_disk s" "sw_load W"]]
    by (auto simp: whole_refl)
  moreover have "ss_disk (snd (load_config W s)) = ?d"
    by (auto simp: load_config_def on_disk_def split: prod.splits sum.splits)
  ultimately show "valid_texts print path (ss_disk s) (ss_disk (snd (load_config W s)))" by simp
qed

lemma keeps_save:
  assumes "config_path (fw_xdg_config_home (sw_save W)) (fw_home (sw_save W)) = Inr path"
  shows "keeps (sw_print W) path (on_disk (config_save (sw_print W) (sw_save W) config))"
  unfolding keeps_def
proof
  fix s :: settings
  obtain r d where save: "config_save (sw_print W) (sw_save W) config (ss_disk s) = (r, d)"
    by (cases "config_save (sw_print W) (sw_save W) config (ss_disk s)")
  obtain new where "dk_history d = dk_history (ss_disk s) @ new"
    "\<forall>fs \<in> set (dk_files d # new). fs path = dk_files (ss_disk s) path \<or>
       (\<exists>contents. sw_print W config = Inr contents \<and> config_validate config = Inr () \<and>
          fs path = Some contents)"
    using save_history[OF save assms] by blast
  then have "valid_texts (sw_print W) path (ss_disk s) d"
    unfolding whole_def by metis
  moreover have "ss_disk (snd (on_disk (config_save (sw_print W) (sw_save W) config) s)) = d"
    using save by (simp add: on_disk_def split: sum.splits)
  ultimately show "valid_texts (sw_print W) path (ss_disk s)
      (ss_disk (snd (on_disk (config_save (sw_print W) (sw_save W) config) s)))" by simp
qed

lemmas keeps_intros = keeps_seq keeps_simple keeps_load keeps_save

lemma keeps_case_sum:
  "(\<And>e. keeps print path (f e)) \<Longrightarrow> (\<And>a. keeps print path (g a)) \<Longrightarrow>
     keeps print path (case r of Inl e \<Rightarrow> f e | Inr a \<Rightarrow> g a)"
  by (simp split: sum.splits)

lemma keeps_case_option:
  "keeps print path f \<Longrightarrow> (\<And>a. keeps print path (g a)) \<Longrightarrow>
     keeps print path (case r of None \<Rightarrow> f | Some a \<Rightarrow> g a)"
  by (simp split: option.splits)

lemma keeps_if:
  "keeps print path f \<Longrightarrow> keeps print path g \<Longrightarrow> keeps print path (if b then f else g)"
  by simp

lemma keeps_case_prod: "(\<And>a b. keeps print path (f a b)) \<Longrightarrow> keeps print path (case x of (a, b) \<Rightarrow> f a b)"
  by (simp split: prod.splits)

lemmas keeps_cases = keeps_case_sum keeps_case_option keeps_if keeps_case_prod

lemma keeps_calibrate:
  assumes "config_path (fw_xdg_config_home (sw_load W)) (fw_home (sw_load W)) = Inr path"
  shows "keeps print path (calibrate_microphone W)"
proof -
  have stop: "keeps print path (\<lambda>s. case on_host m s of
      (Inl e, s') \<Rightarrow> (Inl e, s'\<lparr> ss_host := effect x (ss_host s') \<rparr>) | (Inr r, s') \<Rightarrow> (Inr r, s'))"
    for m :: "(host, string, 'b) eff" and x
    by (rule keeps_same) (simp add: on_host_def split: prod.splits sum.splits)
  have remove: "keeps print path (\<lambda>s. (r, s\<lparr> ss_host := effect x (ss_host s) \<rparr>))"
    for r :: "string + 'b" and x
    by (rule keeps_same) simp
  have "keeps print path (calibrate_microphone_inner W)"
    unfolding calibrate_microphone_inner_def Let_def
    by (intro keeps_seq keeps_simple keeps_load[OF assms] stop remove)
  moreover have "ss_disk (snd (calibrate_microphone W s)) = ss_disk (snd (calibrate_microphone_inner W s))"
    for s
    by (auto simp: calibrate_microphone_def emit_def split: prod.splits sum.splits)
  ultimately show ?thesis by (simp add: keeps_def)
qed

lemma keeps_persist:
  assumes "config_path (fw_xdg_config_home (sw_save W)) (fw_home (sw_save W)) = Inr path"
  shows "keeps (sw_print W) path (persist_and_reload W config)"
  unfolding persist_and_reload_def by (intro keeps_seq keeps_simple keeps_save[OF assms])

lemma keeps_route:
  assumes "config_path (fw_xdg_config_home (sw_load W)) (fw_home (sw_load W)) = Inr path"
    and "config_path (fw_xdg_config_home (sw_save W)) (fw_home (sw_save W)) = Inr path"
  shows "keeps (sw_print W) path (route_request W request)"
  unfolding route_request_def with_name_def settings_state_def save_general_def create_provider_def
    save_provider_def save_quota_def save_secret_def open_config_def Let_def
  by (intro keeps_seq keeps_cases keeps_simple keeps_load[OF assms(1)] keeps_persist[OF assms(2)]
      keeps_calibrate[OF assms(1)])

lemma handle_valid_texts:
  assumes "config_path (fw_xdg_config_home (sw_load W)) (fw_home (sw_load W)) = Inr path"
    and "config_path (fw_xdg_config_home (sw_save W)) (fw_home (sw_save W)) = Inr path"
  shows "valid_texts (sw_print W) path (ss_disk s) (ss_disk (snd (handle_connection W token reads s)))"
proof -
  let ?m = "seq (of_sum (read_request reads)) (\<lambda>request.
      if rq_token request \<noteq> Some token then give (response_error 403 ''invalid settings session'')
      else route_request W request)"
  have "keeps (sw_print W) path ?m"
    by (intro keeps_seq keeps_if keeps_simple keeps_route[OF assms(1,2)])
  moreover have "snd (handle_connection W token reads s) = snd (?m s)"
    by (simp add: handle_connection_def split: prod.splits sum.splits)
  ultimately show ?thesis by (simp add: keeps_def)
qed

text \<open>
  C16: Whatever requests the window's server gets, with or without the token, and whatever the disk
  answers, the configuration file only ever changes to the whole text of a configuration that passed
  validation: at every moment it holds what it held when the server started, valid or not, or such a
  text. The one exception is a server that starts without a file: its first load writes the default
  in place, so that the file may hold a beginning of the default, and may keep it when the write fails.
\<close>

theorem settings_config_is_replaced_whole:
  assumes "\<forall>(W, reads) \<in> set conns.
      config_path (fw_xdg_config_home (sw_load W)) (fw_home (sw_load W)) = Inr path \<and>
      config_path (fw_xdg_config_home (sw_save W)) (fw_home (sw_save W)) = Inr path \<and>
      sw_print W = print"
  shows "\<exists>new. dk_history (ss_disk (serve_connections token conns s)) = dk_history (ss_disk s) @ new \<and>
     (\<forall>fs \<in> set (dk_files (ss_disk (serve_connections token conns s)) # new).
        fs path = dk_files (ss_disk s) path \<or>
        (\<exists>c t. config_validate c = Inr () \<and> print c = Inr t \<and> fs path = Some t) \<or>
        (dk_files (ss_disk s) path = None \<and> (\<exists>n. fs path = Some (take n default_config_text))))"
proof -
  have "valid_texts print path (ss_disk s) (ss_disk (serve_connections token conns s))"
    using assms
  proof (induction token conns s rule: serve_connections.induct)
    case (1 token s)
    then show ?case by (simp add: whole_refl)
  next
    case (2 token W reads conns s)
    let ?s = "snd (handle_connection W token reads s)"
    have first: "valid_texts print path (ss_disk s) (ss_disk ?s)"
      using handle_valid_texts[of W path s token reads] 2(2) by simp
    have "valid_texts print path (ss_disk ?s) (ss_disk (serve_connections token conns ?s))"
      using 2 by simp
    then show ?case using valid_texts_trans[OF first] by simp
  qed
  then show ?thesis unfolding whole_def by blast
qed

section \<open>Calibration\<close>

text \<open>The operations of a calibration that leave the recorder alone.\<close>

lemma host_unchanged:
  "ss_host (snd (load_config W s)) = ss_host s"
  "ss_host (snd (emit x s)) = ss_host s"
  "ss_host (snd (of_sum r s)) = ss_host s"
  by (auto simp: load_config_def on_disk_def emit_def of_sum_def split: prod.splits sum.splits)

text \<open>What a calibration does with its recording, as one function of the host.\<close>

lemma calibrate_host:
  assumes "calibrate_microphone_inner W s = (r, s')"
  shows "ss_host s' = ss_host s \<or>
    (case start_with_device (sw_capture W) (ss_host s) of
       (Inl e, h) \<Rightarrow> ss_host s' = h
     | (Inr rec, h) \<Rightarrow>
         (case stop_recording (sw_capture W) rec h of
            (Inl e, h') \<Rightarrow> ss_host s' = effect (RemoveFile (rc_path rec)) h'
          | (Inr result, h') \<Rightarrow> ss_host s' = effect (RemoveFile (rr_path result)) h'))"
proof -
  obtain q s1 where load: "load_config W s = (q, s1)" by (cases "load_config W s")
  have h1: "ss_host s1 = ss_host s" using host_unchanged(1)[of W s] load by simp
  show ?thesis
  proof (cases q)
    case (Inl e)
    then show ?thesis using assms load h1 by (simp add: calibrate_microphone_inner_def seq_def)
  next
    case (Inr config)
    obtain q2 h2 where start: "start_with_device (sw_capture W) (ss_host s) = (q2, h2)"
      by (cases "start_with_device (sw_capture W) (ss_host s)")
    show ?thesis
    proof (cases q2)
      case (Inl e)
      then show ?thesis using assms load Inr h1 start
        by (auto simp: calibrate_microphone_inner_def seq_def emit_def on_host_def)
    next
      case rec: (Inr rec)
      obtain q3 h3 where stop: "stop_recording (sw_capture W) rec h2 = (q3, h3)"
        by (cases "stop_recording (sw_capture W) rec h2")
      show ?thesis
        using assms load Inr h1 start rec stop
        by (cases q3; cases "sw_pcm W")
           (auto simp: calibrate_microphone_inner_def seq_def emit_def on_host_def of_sum_def Let_def
             split: sum.splits)
    qed
  qed
qed

text \<open>
  A calibration never leaves its recording behind. Wherever it ends, in an error or with a
  result, the file that was created for it has been removed last, and a recorder that was started is
  gone or was killed and waited for.
\<close>

theorem calibration_releases_recording:
  assumes "calibrate_microphone W s = (r, s')" and "ss_host s = host_new n"
    and "cw_path (sw_capture W) = Inr path"
  shows "(CreateFile path \<in> set (hs_effects (ss_host s')) \<longrightarrow>
            last (hs_effects (ss_host s')) = RemoveFile path) \<and>
         (SpawnChild \<in> set (hs_effects (ss_host s')) \<longrightarrow> settled (ss_host s'))"
proof -
  obtain q t where inner: "calibrate_microphone_inner W s = (q, t)"
    by (cases "calibrate_microphone_inner W s")
  have "ss_host s' = ss_host t"
    using assms(1) inner by (auto simp: calibrate_microphone_def emit_def split: sum.splits)
  moreover have "(CreateFile path \<in> set (hs_effects (ss_host t)) \<longrightarrow>
            last (hs_effects (ss_host t)) = RemoveFile path) \<and>
         (SpawnChild \<in> set (hs_effects (ss_host t)) \<longrightarrow> settled (ss_host t))"
  proof -
    obtain q2 h where start: "start_with_device (sw_capture W) (host_new n) = (q2, h)"
      by (cases "start_with_device (sw_capture W) (host_new n)")
    note outcome = start_outcome[OF start assms(3)]
    show ?thesis
    proof (cases q2)
      case (Inl e)
      then show ?thesis using calibrate_host[OF inner] start outcome assms(2)
        by (auto simp: host_new_def released_def)
    next
      case (Inr rec)
      obtain q3 h' where stop: "stop_recording (sw_capture W) rec h = (q3, h')"
        by (cases "stop_recording (sw_capture W) rec h")
      have "RemoveFile (rc_path rec) \<notin> set (hs_effects h)" "hs_reader h" "rc_path rec = path"
        using outcome Inr by simp_all
      note stopped = stop_released[OF stop this(2,1)]
      then have "settled h'" by (auto simp: settled_def split: sum.splits)
      then have "settled (effect x h')" for x using host_grows(1) grows_settled by blast
      moreover have "last (hs_effects (effect x h')) = x" for x by (simp add: effect_def)
      ultimately show ?thesis
        using calibrate_host[OF inner] start stop stopped assms(2) Inr \<open>rc_path rec = path\<close>
        by (auto simp: host_new_def split: sum.splits)
    qed
  qed
  ultimately show ?thesis by simp
qed

section \<open>New providers\<close>

lemma map_of_insert: "map_of (map_insert k v m) k' = (if k' = k then Some v else map_of m k')"
  by (induction k v m rule: map_insert.induct) auto

text \<open>
  A provider is added under a new name, with a profile of the same name that routes to it alone and
  never replays audio; every other provider, profile and setting stays as it was.
\<close>

theorem created_provider_is_isolated:
  assumes "apply_provider_create config update = Inr config'"
  shows "\<exists>name p. name = utf8_string (trim (cu_id update)) \<and>
     map_of (cfg_providers config) name = None \<and> map_of (cfg_profiles config) name = None \<and>
     new_provider update (name @ ''-api-key'') = Some p \<and> config_validate config' = Inr () \<and>
     map_of (cfg_providers config') = (map_of (cfg_providers config))(name \<mapsto> p) \<and>
     map_of (cfg_profiles config') = (map_of (cfg_profiles config))
       (name \<mapsto> \<lparr> pf_primary = name, pf_fallbacks = [],
                  pf_language = utf8_string (trim (cu_language update)), pf_replay = Never \<rparr>) \<and>
     default_profile config' = (if cu_make_default update then name else default_profile config) \<and>
     cfg_desktop config' = cfg_desktop config \<and> cfg_audio config' = cfg_audio config \<and>
     cfg_quotas config' = cfg_quotas config"
proof -
  obtain i where i: "provider_id_new (utf8_string (trim (cu_id update))) = Inr i"
    using assms by (cases "provider_id_new (utf8_string (trim (cu_id update)))")
      (auto simp: apply_provider_create_def)
  then have name: "provider_id_str i = utf8_string (trim (cu_id update))"
    by (auto simp: provider_id_new_ok)
  obtain p where p: "new_provider update (provider_id_str i @ ''-api-key'') = Some p"
    using assms i by (auto simp: apply_provider_create_def Let_def split: if_splits option.splits)
  show ?thesis
    using assms i p
    by (cases "config_validate config'")
       (auto simp: apply_provider_create_def Let_def name has_key_def fun_eq_iff map_of_insert
         map_sum_def split: if_splits sum.splits)
qed

section \<open>A request of the window\<close>

definition demo_post :: bytes where
  "demo_post = ascii ''POST /general?token=ab'' @ header_terminator"

definition demo_update :: general_update where
  "demo_update =
     \<lparr> gu_default_profile = ''main'', gu_audio_device = [32], gu_insertion_backend = ''fcitx'',
       gu_restore_clipboard = True, gu_retain_recordings = False,
       gu_transcript_history_enabled = False, gu_vad_enabled = False, gu_vad_rms_threshold = 300,
       gu_vad_minimum_voiced_frames = 2, gu_minimum_duration_millis = 250,
       gu_maximum_duration_seconds = 120 \<rparr>"

definition demo_settings_world :: settings_world where
  "demo_settings_world =
     \<lparr> sw_load = demo_files, sw_save = demo_files, sw_parse = (\<lambda>_. Inr demo_config),
       sw_print = (\<lambda>_. Inr ''x''), sw_create = (\<lambda>_. Inl ''no''), sw_general = (\<lambda>_. Inr demo_update),
       sw_rest = (\<lambda>_. Inl ''no''), sw_quota = (\<lambda>_. Inl ''no''), sw_reload = True, sw_open = None,
       sw_store = StoreAccepted, sw_secret_state = (\<lambda>_. None), sw_usage = None, sw_status = None,
       sw_capture = demo_capture_world, sw_pcm = Inl ''gone'',
       sw_f64 = \<lparr> fo_round = id, fo_log10 = id \<rparr>, sw_show_f64 = (\<lambda>_. []), sw_show_text = text_of \<rparr>"

definition demo_settings_state :: settings where
  "demo_settings_state = \<lparr> ss_disk = demo_disk, ss_host = host_new 0, ss_effects = [] \<rparr>"

lemma demo_window: "find_window header_terminator demo_post = Some 22"
  by code_simp

lemma demo_header: "from_utf8 (take 22 demo_post) = Some (text_of ''POST /general?token=ab'')"
  by code_simp

lemma demo_stream: "stream_of [Inr demo_post] = demo_post"
  by (simp add: demo_post_def header_terminator_def)

theorem settings_need_session_token_witness:
  "snd (handle_connection demo_settings_world (text_of ''b'') [Inr demo_post] demo_settings_state) =
     demo_settings_state"
proof -
  have other: "\<not> sublist (text_of ''token='' @ text_of ''b'') (text_of ''POST /general?token=ab'')"
    by code_simp
  have "\<not> (\<exists>p header. find_window header_terminator (stream_of [Inr demo_post]) = Some p \<and>
      from_utf8 (take p (stream_of [Inr demo_post])) = Some header \<and>
      sublist (text_of ''token='' @ text_of ''b'') header)"
    unfolding demo_stream demo_window using demo_header other by force
  from settings_need_session_token[OF prod.collapse[symmetric] this] show ?thesis by blast
qed

theorem settings_config_is_replaced_whole_witness:
  "\<exists>new. dk_history (ss_disk (serve_connections (text_of ''ab'')
       [(demo_settings_world, [Inr demo_post])] demo_settings_state)) = new \<and>
     (\<forall>fs \<in> set new. fs ''/c/voxtype/config.toml'' \<in> {Some ''old'', Some ''x''})"
proof -
  have "\<forall>(W, reads) \<in> set [(demo_settings_world, [Inr demo_post])].
      config_path (fw_xdg_config_home (sw_load W)) (fw_home (sw_load W)) = Inr ''/c/voxtype/config.toml'' \<and>
      config_path (fw_xdg_config_home (sw_save W)) (fw_home (sw_save W)) = Inr ''/c/voxtype/config.toml'' \<and>
      sw_print W = (\<lambda>_. Inr ''x'')"
    using demo_path by (simp add: demo_settings_world_def)
  from settings_config_is_replaced_whole[OF this, of "text_of ''ab''" demo_settings_state]
  show ?thesis by (fastforce simp: demo_settings_state_def demo_disk_def)
qed

theorem calibration_releases_recording_witness:
  "last (hs_effects (ss_host (snd (calibrate_microphone demo_settings_world demo_settings_state)))) =
     RemoveFile ''/run/a.pcm''"
proof -
  let ?s = "snd (calibrate_microphone demo_settings_world demo_settings_state)"
  have "load_config demo_settings_world demo_settings_state = (Inr demo_config, demo_settings_state)"
    using demo_path demo_config_valid
    by (simp add: load_config_def on_disk_def load_or_create_def demo_settings_world_def
        demo_settings_state_def demo_disk_def demo_files_def read_to_string_def seq_def
        parse_config_def utf8_decode.simps)
  then have "CreateFile ''/run/a.pcm'' \<in> set (hs_effects (ss_host ?s))"
    by (simp add: calibrate_microphone_def calibrate_microphone_inner_def demo_settings_world_def
        demo_settings_state_def demo_capture_world_def start_with_device_def on_error_def seq_def
        start_child_def host_defs host_new_def emit_def on_host_def stop_recording_def stop_body_def
        drop_recording_def)
  then show ?thesis
    using calibration_releases_recording[OF prod.collapse[symmetric], of demo_settings_state 0
        demo_settings_world "''/run/a.pcm''"]
    by (simp add: demo_settings_state_def demo_settings_world_def demo_capture_world_def)
qed

end
