(* ===== verification/Overlay.thy ===== *)
theory Overlay
  imports Config_Store Json
begin

text \<open>
  The overlay helper (src/bin/voxtype-overlay.rs) and the look-up of its QML runtime (src/qml.rs).
  The daemon starts it with a request on its standard input; it replaces the state file that the
  QML window reads, and starts the window when it is not running. The JSON library, the environment
  and the answers of the system are arguments; the errors are the texts that it prints.
\<close>

section \<open>Requests\<close>

definition max_overlay_request :: nat where
  "max_overlay_request = 4096"

record overlay_request =
  oq_state :: utext
  oq_title :: utext
  oq_body :: utext
  oq_timeout_ms :: nat
  oq_rms :: "nat option"
  oq_adaptive_threshold :: "nat option"
  oq_speech_active :: bool
  oq_clipping_percent :: nat

record overlay_state =
  os_state :: utext
  os_title :: utext
  os_body :: utext
  os_timeout_ms :: nat
  os_visible :: bool
  os_updated_ms :: nat
  os_rms :: "nat option"
  os_adaptive_threshold :: "nat option"
  os_speech_active :: bool
  os_clipping_percent :: nat

text \<open>
  The derived deserializer: a missing field is an error unless it has a default, a number must fit
  the width of its field, and a field that is known must not occur twice.
\<close>

definition uint_field :: "nat \<Rightarrow> json \<Rightarrow> nat option" where
  "uint_field bits v =
     Option.bind (json_as_u64 v) (\<lambda>n. if unat n < 2 ^ bits then Some (unat n) else None)"

definition required :: "(json \<Rightarrow> 'a option) \<Rightarrow> string \<Rightarrow> (string \<times> json) list \<Rightarrow> 'a option" where
  "required f k m = Option.bind (map_of m k) f"

definition defaulted :: "(json \<Rightarrow> 'a option) \<Rightarrow> 'a \<Rightarrow> string \<Rightarrow> (string \<times> json) list \<Rightarrow> 'a option" where
  "defaulted f z k m = (case map_of m k of None \<Rightarrow> Some z | Some v \<Rightarrow> f v)"

definition nullable :: "(json \<Rightarrow> 'a option) \<Rightarrow> json \<Rightarrow> 'a option option" where
  "nullable f v = (if v = JNull then Some None else map_option Some (f v))"

definition overlay_fields :: "string list" where
  "overlay_fields =
     [''state'', ''title'', ''body'', ''timeout_ms'', ''rms'', ''adaptive_threshold'',
      ''speech_active'', ''clipping_percent'']"

definition request_of_json :: "json \<Rightarrow> overlay_request option" where
  "request_of_json v =
     (case v of
        JObject m \<Rightarrow>
          if \<not> distinct (filter (\<lambda>k. k \<in> set overlay_fields) (map fst m)) then None
          else Option.bind (required json_as_str ''state'' m) (\<lambda>state.
               Option.bind (required json_as_str ''title'' m) (\<lambda>title.
               Option.bind (required json_as_str ''body'' m) (\<lambda>body.
               Option.bind (required (uint_field 32) ''timeout_ms'' m) (\<lambda>timeout_ms.
               Option.bind (defaulted (nullable (uint_field 16)) None ''rms'' m) (\<lambda>rms.
               Option.bind (defaulted (nullable (uint_field 16)) None ''adaptive_threshold'' m)
                 (\<lambda>threshold.
               Option.bind (defaulted json_as_bool False ''speech_active'' m) (\<lambda>active.
               Option.bind (defaulted (uint_field 8) 0 ''clipping_percent'' m) (\<lambda>clipping.
                 Some \<lparr> oq_state = state, oq_title = title, oq_body = body,
                        oq_timeout_ms = timeout_ms, oq_rms = rms,
                        oq_adaptive_threshold = threshold, oq_speech_active = active,
                        oq_clipping_percent = clipping \<rparr>))))))))
      | _ \<Rightarrow> None)"

text \<open>What the standard input gives: its bytes up to the end or up to an error.\<close>

type_synonym input_stream = "bytes \<times> string option"

definition read_limited :: "nat \<Rightarrow> input_stream \<Rightarrow> string + bytes" where
  "read_limited limit input =
     (case input of (bs, e) \<Rightarrow>
        if limit \<le> length bs then Inr (take limit bs)
        else case e of None \<Rightarrow> Inr bs | Some e \<Rightarrow> Inl e)"

definition read_overlay_request ::
  "(bytes \<Rightarrow> string + json) \<Rightarrow> input_stream \<Rightarrow> string + overlay_request" where
  "read_overlay_request parse input =
     (case read_limited (max_overlay_request + 1) input of
        Inl e \<Rightarrow> Inl e
      | Inr payload \<Rightarrow>
          if max_overlay_request < length payload then Inl ''overlay request is too large''
          else case parse payload of
            Inl e \<Rightarrow> Inl e
          | Inr v \<Rightarrow>
              (case request_of_json v of
                 None \<Rightarrow> Inl ''invalid overlay request'' | Some r \<Rightarrow> Inr r))"

definition legacy_request :: "utext \<Rightarrow> utext list \<Rightarrow> string + overlay_request" where
  "legacy_request state arguments =
     (let arg = (\<lambda>n z. if n < length arguments then arguments ! n else z)
      in case parse_text_uint 32 (arg 2 (text_of ''2000'')) of
           None \<Rightarrow> Inl ''invalid digit found in string''
         | Some timeout_ms \<Rightarrow>
             Inr \<lparr> oq_state = state, oq_title = arg 0 (text_of ''VoxType''), oq_body = arg 1 [],
                   oq_timeout_ms = timeout_ms, oq_rms = None, oq_adaptive_threshold = None,
                   oq_speech_active = False, oq_clipping_percent = 0 \<rparr>)"

definition validate_overlay_request :: "overlay_request \<Rightarrow> string + unit" where
  "validate_overlay_request r =
     (if list_ex (\<lambda>(v, maximum). maximum < length v)
           [(oq_state r, 32), (oq_title r, 80), (oq_body r, 240)]
      then Inl ''overlay field is too long'' else Inr ())"

section \<open>The state file\<close>

definition state_json :: "overlay_state \<Rightarrow> json" where
  "state_json s =
     (let level = (\<lambda>x. case x of None \<Rightarrow> JNull | Some n \<Rightarrow> jnat n)
      in JObject
        [(''state'', JString (os_state s)), (''title'', JString (os_title s)),
         (''body'', JString (os_body s)), (''timeout_ms'', jnat (os_timeout_ms s)),
         (''visible'', JBool (os_visible s)), (''updated_ms'', jnat (os_updated_ms s)),
         (''rms'', level (os_rms s)), (''adaptive_threshold'', level (os_adaptive_threshold s)),
         (''speech_active'', JBool (os_speech_active s)),
         (''clipping_percent'', jnat (os_clipping_percent s))])"

text \<open>The disk, and the windows that were started with their state file.\<close>

record overlay_host =
  oh_disk :: disk
  oh_started :: "(string \<times> string) list"

text \<open>
  The answers of one run: the runtime directory and the outcome of each preparation of it, the
  calls on the state file and on the pid file, the command lines of processes, the clock and the
  start of the window, which gives its process identifier.
\<close>

record overlay_world =
  ow_runtime :: "string option"
  ow_prepare :: "nat \<Rightarrow> string option"
  ow_state_files :: file_world
  ow_pid_files :: file_world
  ow_command_line :: "nat \<Rightarrow> string"
  ow_now_millis :: nat
  ow_spawn :: "string + nat"
  ow_qml :: string
  ow_print :: "json \<Rightarrow> string"
  ow_parse :: "bytes \<Rightarrow> string + json"

type_synonym 'a overlay_op = "(overlay_host, string, 'a) eff"

definition on_overlay_disk :: "(disk, vox_error, 'a) eff \<Rightarrow> 'a overlay_op" where
  "on_overlay_disk m h =
     (case m (oh_disk h) of
        (r, d) \<Rightarrow> (map_sum err_message id r, h\<lparr> oh_disk := d \<rparr>))"

definition of_result :: "string + 'a \<Rightarrow> 'a overlay_op" where
  "of_result r = (case r of Inl e \<Rightarrow> raise e | Inr a \<Rightarrow> give a)"

text \<open>A path below the runtime directory; the number tells the calls of a run apart.\<close>

definition runtime_path :: "overlay_world \<Rightarrow> nat \<Rightarrow> string \<Rightarrow> string + string" where
  "runtime_path W k name =
     (case ow_runtime W of
        None \<Rightarrow> Inl ''XDG_RUNTIME_DIR is unavailable''
      | Some directory \<Rightarrow>
          (case ow_prepare W k of
             Some e \<Rightarrow> Inl e
           | None \<Rightarrow> Inr (directory @ ''/voxtype/'' @ name)))"

definition state_path :: "overlay_world \<Rightarrow> nat \<Rightarrow> string + string" where
  "state_path W k = runtime_path W k ''overlay-state.json''"

definition pid_path :: "overlay_world \<Rightarrow> nat \<Rightarrow> string + string" where
  "pid_path W k = runtime_path W k ''overlay.pid''"

definition write_state :: "overlay_world \<Rightarrow> nat \<Rightarrow> overlay_state \<Rightarrow> unit overlay_op" where
  "write_state W k s =
     seq (of_result (state_path W k)) (\<lambda>path.
       on_overlay_disk (replace_through (ow_state_files W) (temporary_path (ow_state_files W) path)
         path (ow_print W (state_json s))))"

section \<open>The window\<close>

definition is_overlay_process :: "string \<Rightarrow> bool" where
  "is_overlay_process command_line \<longleftrightarrow>
     contains ''qml6'' command_line \<and> contains ''Overlay.qml'' command_line"

text \<open>A pid file of another process is removed; every failure counts as no window.\<close>

definition current_overlay_pid :: "overlay_world \<Rightarrow> overlay_host \<Rightarrow> nat option \<times> overlay_host" where
  "current_overlay_pid W h =
     (case pid_path W 2 of
        Inl _ \<Rightarrow> (None, h)
      | Inr path \<Rightarrow>
          (case read_pid (ow_pid_files W) path (oh_disk h) of
             None \<Rightarrow> (None, h)
           | Some pid \<Rightarrow>
               if is_overlay_process (ow_command_line W pid) then (Some pid, h)
               else (None, h\<lparr> oh_disk := remove_file (ow_pid_files W) path (oh_disk h) \<rparr>)))"

definition write_private :: "file_world \<Rightarrow> string \<Rightarrow> string \<Rightarrow> (disk, vox_error, unit) eff" where
  "write_private W path contents =
     seq (\<lambda>d. case fw_open W of
                Some e \<Rightarrow> (Inl (config_io e), d)
              | None \<Rightarrow> (Inr (), disk_set ((dk_files d)(path \<mapsto> [])) d))
       (\<lambda>_. write_all W path contents)"

definition ensure_running :: "overlay_world \<Rightarrow> unit overlay_op" where
  "ensure_running W h =
     (case current_overlay_pid W h of
        (Some _, h1) \<Rightarrow> (Inr (), h1)
      | (None, h1) \<Rightarrow>
          seq (of_result (state_path W 3)) (\<lambda>state.
          seq (of_result (ow_spawn W)) (\<lambda>pid.
          seq (\<lambda>h. (Inr (), h\<lparr> oh_started := oh_started h @ [(ow_qml W, state)] \<rparr>)) (\<lambda>_.
          seq (of_result (pid_path W 4)) (\<lambda>path.
            on_overlay_disk (write_private (ow_pid_files W) path (show_nat pid)))))) h1)"

section \<open>Showing and hiding\<close>

definition shown_state :: "nat \<Rightarrow> overlay_request \<Rightarrow> overlay_state" where
  "shown_state now r =
     \<lparr> os_state = oq_state r, os_title = oq_title r, os_body = oq_body r,
       os_timeout_ms = min (oq_timeout_ms r) 60000, os_visible = True, os_updated_ms = now,
       os_rms = oq_rms r, os_adaptive_threshold = oq_adaptive_threshold r,
       os_speech_active = oq_speech_active r,
       os_clipping_percent = min (oq_clipping_percent r) 100 \<rparr>"

definition overlay_show :: "overlay_world \<Rightarrow> overlay_request \<Rightarrow> unit overlay_op" where
  "overlay_show W r =
     seq (of_result (validate_overlay_request r)) (\<lambda>_.
     seq (write_state W 1 (shown_state (ow_now_millis W) r)) (\<lambda>_. ensure_running W))"

definition hidden_state :: "nat \<Rightarrow> overlay_state" where
  "hidden_state now =
     \<lparr> os_state = text_of ''idle'', os_title = text_of ''VoxType'', os_body = [], os_timeout_ms = 0,
       os_visible = False, os_updated_ms = now, os_rms = None, os_adaptive_threshold = None,
       os_speech_active = False, os_clipping_percent = 0 \<rparr>"

definition overlay_hide :: "overlay_world \<Rightarrow> unit overlay_op" where
  "overlay_hide W =
     seq (of_result (state_path W 0)) (\<lambda>path h.
       if dk_files (oh_disk h) path = None then (Inr (), h)
       else write_state W 1 (hidden_state (ow_now_millis W)) h)"

definition overlay_usage :: string where
  "overlay_usage = ''usage: voxtype-overlay show [STATE TITLE BODY TIMEOUT_MS] | hide''"

fun overlay_run :: "overlay_world \<Rightarrow> utext list \<Rightarrow> input_stream \<Rightarrow> unit overlay_op" where
  "overlay_run W [] input = raise overlay_usage"
| "overlay_run W (action # arguments) input =
     (if action = text_of ''show''
      then seq (of_result (case arguments of
                   [] \<Rightarrow> read_overlay_request (ow_parse W) input
                 | state # rest \<Rightarrow> legacy_request state rest)) (overlay_show W)
      else if action = text_of ''hide'' then overlay_hide W
      else raise overlay_usage)"

section \<open>The other writer\<close>

text \<open>
  While it records, the daemon replaces the state file itself (write_overlay_telemetry of
  src/daemon.rs), through a temporary file of its own.
\<close>

definition telemetry_temporary :: "overlay_world \<Rightarrow> string \<Rightarrow> string" where
  "telemetry_temporary W directory =
     directory @ ''/voxtype/overlay-state.telemetry-'' @ show_nat (fw_pid (ow_state_files W)) @ ''.tmp''"

definition write_overlay_telemetry :: "overlay_world \<Rightarrow> json \<Rightarrow> unit overlay_op" where
  "write_overlay_telemetry W v =
     (case ow_runtime W of
        None \<Rightarrow> raise ''XDG_RUNTIME_DIR is unavailable''
      | Some directory \<Rightarrow>
          seq (of_result (state_path W 0)) (\<lambda>path.
            on_overlay_disk (replace_through (ow_state_files W) (telemetry_temporary W directory)
              path (ow_print W v))))"

datatype overlay_writer =
    HelperRun "utext list" input_stream
  | TelemetryWrite json

fun overlay_step :: "overlay_world \<Rightarrow> overlay_writer \<Rightarrow> overlay_host \<Rightarrow> overlay_host" where
  "overlay_step W (HelperRun arguments input) h = snd (overlay_run W arguments input h)"
| "overlay_step W (TelemetryWrite v) h = snd (write_overlay_telemetry W v h)"

text \<open>The writers of the state file, one after the other, each with its own answers.\<close>

fun overlay_writes :: "(overlay_world \<times> overlay_writer) list \<Rightarrow> overlay_host \<Rightarrow> overlay_host" where
  "overlay_writes [] h = h"
| "overlay_writes ((W, x) # ws) h = overlay_writes ws (overlay_step W x h)"

section \<open>The runtime and its files\<close>

definition qml_runtime :: "string option \<Rightarrow> (string \<Rightarrow> bool) \<Rightarrow> string" where
  "qml_runtime configured is_file =
     (case configured of
        Some path \<Rightarrow> path
      | None \<Rightarrow>
          (case find is_file [''/usr/lib/qt6/bin/qml6'', ''/usr/libexec/qt6/qml6''] of
             Some path \<Rightarrow> path
           | None \<Rightarrow> ''qml6''))"

text \<open>The QML file: an environment variable of its own, or a file of the data directory.\<close>

definition data_directory :: "string option \<Rightarrow> string option \<Rightarrow> string \<Rightarrow> string" where
  "data_directory xdg_data_home home temp =
     (case xdg_data_home of
        Some directory \<Rightarrow> directory
      | None \<Rightarrow> (case home of Some directory \<Rightarrow> directory @ ''/.local/share'' | None \<Rightarrow> temp))"

definition overlay_qml_path ::
  "string option \<Rightarrow> string option \<Rightarrow> string option \<Rightarrow> string \<Rightarrow> string" where
  "overlay_qml_path configured xdg_data_home home temp =
     (case configured of
        Some path \<Rightarrow> path
      | None \<Rightarrow> data_directory xdg_data_home home temp @ ''/voxtype/Overlay.qml'')"

end
