(* ===== verification/Status.thy ===== *)
theory Status
  imports Daemon Grammar Fcitx
begin

text \<open>
  The answers of the daemon that show its state (src/daemon.rs): the status and the active session,
  the JSON documents of provider health and of usage, the replies of a stop, the text checks of the
  last transcript and of the focused text, and the overlay documents. A document is a value of the
  JSON library, which prints it.
\<close>

section \<open>State\<close>

definition daemon_status :: "daemon \<Rightarrow> string" where
  "daemon_status d = state_name (dm_state d)"

definition active_session :: "daemon \<Rightarrow> string" where
  "active_session d = session_string (dm_state d)"

section \<open>Provider health\<close>

fun error_category_name :: "error_category \<Rightarrow> string" where
  "error_category_name EcInvalidArgument = ''invalid-argument''"
| "error_category_name EcInvalidState = ''invalid-state''"
| "error_category_name EcConfiguration = ''configuration''"
| "error_category_name EcAuthentication = ''authentication''"
| "error_category_name EcPermission = ''permission''"
| "error_category_name EcConnection = ''connection''"
| "error_category_name EcTimeout = ''timeout''"
| "error_category_name EcProtocol = ''protocol''"
| "error_category_name EcRateLimited = ''rate-limited''"
| "error_category_name EcUnavailable = ''unavailable''"
| "error_category_name EcCancelled = ''cancelled''"
| "error_category_name EcInternal = ''internal''"

definition provider_health_snapshot_default :: provider_health_snapshot where
  "provider_health_snapshot_default =
     \<lparr> hsn_route_available = False, hsn_verified = False, hsn_verified_age_seconds = None,
       hsn_verification_ttl_seconds = 0, hsn_consecutive_failures = 0,
       hsn_retry_after_seconds = None, hsn_last_failure_age_seconds = None,
       hsn_last_error_category = None, hsn_last_error_code = None \<rparr>"

definition joption :: "('a \<Rightarrow> json) \<Rightarrow> 'a option \<Rightarrow> json" where
  "joption f x = (case x of None \<Rightarrow> JNull | Some a \<Rightarrow> f a)"

definition health_json :: "provider_health_snapshot \<Rightarrow> json" where
  "health_json h =
     JObject
       [(''route_available'', JBool (hsn_route_available h)),
        (''verified'', JBool (hsn_verified h)),
        (''verified_age_seconds'', joption jnat (hsn_verified_age_seconds h)),
        (''verification_ttl_seconds'', jnat (hsn_verification_ttl_seconds h)),
        (''consecutive_failures'', jnat (unat (hsn_consecutive_failures h))),
        (''retry_after_seconds'', joption jnat (hsn_retry_after_seconds h)),
        (''last_failure_age_seconds'', joption jnat (hsn_last_failure_age_seconds h)),
        (''last_error_category'',
           joption (\<lambda>c. jtext (error_category_name c)) (hsn_last_error_category h)),
        (''last_error_code'', joption jtext (hsn_last_error_code h))]"

definition health_of :: "app_controller \<Rightarrow> instant \<Rightarrow> string \<Rightarrow> provider_health_snapshot" where
  "health_of a now name =
     (case provider_id_new name of
        Inl _ \<Rightarrow> provider_health_snapshot_default
      | Inr i \<Rightarrow> provider_health_snapshot a i now)"

definition provider_status_json :: "config \<Rightarrow> app_controller \<Rightarrow> instant \<Rightarrow> json" where
  "provider_status_json config a now =
     JObject
       [(''schema'', jnat 1),
        (''providers'',
           JObject (map (\<lambda>(name, _). (name, health_json (health_of a now name)))
                      (cfg_providers config)))]"

definition provider_status :: "instant \<Rightarrow> daemon \<Rightarrow> json" where
  "provider_status now d = provider_status_json (dm_config d) (dm_app d) now"

section \<open>Usage\<close>

definition usage_of :: "app_controller \<Rightarrow> string \<Rightarrow> provider_usage_snapshot" where
  "usage_of a name =
     (case provider_id_new name of
        Inl _ \<Rightarrow> provider_usage_snapshot_default
      | Inr i \<Rightarrow> provider_usage_snapshot a i)"

definition usage_json :: "provider_usage_snapshot \<Rightarrow> json" where
  "usage_json u =
     JObject
       [(''attempts'', jnat (unat (us_attempts u))),
        (''requests'', jnat (unat (us_requests u))),
        (''successes'', jnat (unat (us_successes u))),
        (''failures'', jnat (unat (us_failures u))),
        (''audio_millis'', jnat (unat (us_audio_millis u))),
        (''token_reports'', jnat (unat (us_token_reports u))),
        (''input_tokens'', jnat (unat (us_input_tokens u))),
        (''output_tokens'', jnat (unat (us_output_tokens u))),
        (''total_tokens'', jnat (unat (us_total_tokens u))),
        (''reported_tokens'', jnat (unat (us_reported_tokens u)))]"

definition usage_status :: "daemon \<Rightarrow> json" where
  "usage_status d =
     JObject
       [(''scope'', jtext ''daemon-session''),
        (''providers'',
           JObject (map (\<lambda>(name, _). (name, JObject
                      [(''usage'', usage_json (usage_of (dm_app d) name)),
                       (''quota'', quota_json (map_of (cfg_quotas (dm_config d)) name))]))
                      (cfg_providers (dm_config d))))]"

section \<open>Replies\<close>

text \<open>The retained result of a session as it goes over the bus.\<close>

definition session_result_reply ::
  "terminal_session_result option \<Rightarrow> bool \<times> string \<times> string \<times> string \<times> 64 word" where
  "session_result_reply r =
     (case r of
        None \<Rightarrow> (False, [], [], [], 0)
      | Some t \<Rightarrow> (True, tr_outcome t, tr_error_code t, tr_backend t, tr_char_count t))"

text \<open>
  The text of a response. What follows the fields named here, the levels of the recording and the
  insertion, is an argument.
\<close>

definition response_text :: "string \<Rightarrow> daemon_response \<Rightarrow> string" where
  "response_text rest response =
     (case response of
        RespProcessing s \<Rightarrow> ''session='' @ session_str s @ '' result=processing''
      | RespNoSpeech s reason \<Rightarrow>
          ''session='' @ session_str s @ '' result=no-speech reason='' @ reason @ rest
      | RespTooShort s \<Rightarrow> ''session='' @ session_str s @ '' result=no-speech duration_ms='' @ rest
      | RespInserted s provider chars insertion \<Rightarrow>
          ''session='' @ session_str s @ '' provider='' @ provider_id_str provider @
          '' chars='' @ show_nat chars @ rest)"

section \<open>Overlay documents\<close>

definition overlay_payload :: "string \<Rightarrow> string \<Rightarrow> utext \<Rightarrow> 32 word \<Rightarrow> json" where
  "overlay_payload state title body timeout_millis =
     JObject [(''state'', jtext state), (''title'', jtext title), (''body'', JString body),
              (''timeout_ms'', jnat (unat timeout_millis))]"

text \<open>A middle dot between blanks.\<close>

definition dot_separator :: utext where
  "dot_separator = [0x20, 0xB7, 0x20]"

definition metrics_body :: "vad_frame_analysis \<Rightarrow> 32 word \<Rightarrow> utext" where
  "metrics_body analysis clipping_percent =
     text_of (''RMS '' @ show_nat (unat (va_rms analysis))) @ dot_separator @
     text_of (''threshold '' @ show_nat (unat (va_adaptive_threshold analysis))) @ dot_separator @
     text_of (if va_speech_active analysis then ''speech'' else ''noise'') @ dot_separator @
     text_of (''clipping '' @ show_nat (unat clipping_percent) @ ''%'')"

definition overlay_audio_metrics :: "vad_frame_analysis \<Rightarrow> 32 word \<Rightarrow> 64 word \<Rightarrow> json" where
  "overlay_audio_metrics analysis clipping_percent now_ms =
     JObject
       [(''state'', jtext ''listening''), (''title'', jtext ''Listening''),
        (''body'', JString (metrics_body analysis clipping_percent)), (''timeout_ms'', jnat 0),
        (''visible'', JBool True), (''rms'', jnat (unat (va_rms analysis))),
        (''adaptive_threshold'', jnat (unat (va_adaptive_threshold analysis))),
        (''speech_active'', JBool (va_speech_active analysis)),
        (''clipping_percent'', jnat (unat (min clipping_percent 100))),
        (''updated_ms'', jnat (unat now_ms))]"

text \<open>The share of clipped samples among the frames of one poll.\<close>

definition clip_totals :: "capture_frame_metrics list \<Rightarrow> 32 word \<times> 32 word" where
  "clip_totals frames =
     fold (\<lambda>f (clipped, seen).
             (sat_add clipped (ucast (cm_clipped_samples f)), sat_add seen (ucast (cm_samples f))))
       frames (0, 0)"

definition clip_percent :: "capture_frame_metrics list \<Rightarrow> 32 word" where
  "clip_percent frames =
     (case clip_totals frames of (clipped, seen) \<Rightarrow>
        (case checked_div (sat_mul clipped 100) seen of None \<Rightarrow> 0 | Some p \<Rightarrow> p))"

section \<open>Text checks\<close>

definition cleanup_overlay_body :: "grammar_report \<Rightarrow> utext option \<Rightarrow> utext" where
  "cleanup_overlay_body report source =
     (let prefix = (case source of None \<Rightarrow> [] | Some p \<Rightarrow> if p = [] then [] else p @ dot_separator)
      in if gr_clean report then prefix @ text_of ''no local cleanup suggestions''
         else prefix @ text_of (show_nat (gr_safe_edit_count report) @ '' safe'') @ dot_separator @
              text_of (show_nat (gr_review_edit_count report) @ '' need review''))"

fun safety_name :: "edit_safety \<Rightarrow> string" where
  "safety_name Safe = ''safe''"
| "safety_name Review = ''review''"

fun confidence_name :: "edit_confidence \<Rightarrow> string" where
  "confidence_name High = ''high''"
| "confidence_name Medium = ''medium''"

definition edit_json :: "cleanup_edit \<Rightarrow> json" where
  "edit_json e =
     JObject
       [(''start_byte'', jnat (ce_start_byte e)), (''end_byte'', jnat (ce_end_byte e)),
        (''original'', JString (ce_original e)), (''replacement'', JString (ce_replacement e)),
        (''rule_id'', jtext (ce_rule_id e)), (''message'', jtext (ce_message e)),
        (''safety'', jtext (safety_name (ce_safety e))),
        (''confidence'', jtext (confidence_name (ce_confidence e)))]"

definition report_fields :: "grammar_report \<Rightarrow> (string \<times> json) list" where
  "report_fields r =
     [(''schema'', jnat (unat (gr_schema r))), (''clean'', JBool (gr_clean r)),
      (''original_fingerprint'', jtext (gr_original_fingerprint r)),
      (''original_bytes'', jnat (gr_original_bytes r)),
      (''original_characters'', jnat (gr_original_characters r)),
      (''suggested'', JString (gr_suggested r)),
      (''safe_edit_count'', jnat (gr_safe_edit_count r)),
      (''review_edit_count'', jnat (gr_review_edit_count r)),
      (''edits'', JArray (map edit_json (gr_edits r)))]"

text \<open>A check gives its reply and the document of the overlay that it shows.\<close>

definition check_last_grammar :: "(nat \<Rightarrow> bool) \<Rightarrow> daemon \<Rightarrow> json fdo \<times> json option" where
  "check_last_grammar beyond_ascii d =
     (if dm_history d = [] then (Inl (FdoFailed ''no previous transcript is available''), None)
      else let report = check beyond_ascii (last (dm_history d))
           in (Inr (JObject (report_fields report)),
               Some (overlay_payload ''grammar'' ''Local text cleanup''
                       (cleanup_overlay_body report None) 5000)))"

definition context_source :: "fcitx_context \<Rightarrow> json" where
  "context_source c =
     JObject
       [(''kind'', jtext ''fcitx''), (''program'', JString (ft_program (fx_target c))),
        (''frontend'', JString (ft_frontend (fx_target c))),
        (''generation'', jnat (unat (fx_generation c))), (''truncated'', JBool (fx_truncated c))]"

definition check_context_grammar ::
  "(nat \<Rightarrow> bool) \<Rightarrow> (string \<Rightarrow> utext) \<Rightarrow> fcitx_context outcome \<Rightarrow> json fdo \<times> json" where
  "check_context_grammar beyond_ascii shown answer =
     (case answer of
        Inl e \<Rightarrow>
          (Inl (map_error e),
           overlay_payload ''error'' ''Focused text unavailable'' (shown (err_message e)) 3000)
      | Inr context \<Rightarrow>
          let t = review_text context
          in if trim t = []
             then (Inl (FdoFailed ''the focused input context has no reviewable text''),
                   overlay_payload ''grammar'' ''No focused text to review''
                     (text_of ''Select text or place the cursor after a paragraph'') 3000)
             else let report = check beyond_ascii t
                  in (Inr (JObject (report_fields report @ [(''source'', context_source context)])),
                      overlay_payload ''grammar'' ''Focused text cleanup''
                        (cleanup_overlay_body report (Some (ft_program (fx_target context)))) 5000))"

end
