(* ===== verification/Overlay_Props.thy ===== *)
theory Overlay_Props
  imports Overlay Status Config_Store_Props
begin

text \<open>
  What the overlay guarantees: its state file is whole at every moment although two programs write
  it, and a document of the daemon is shown as it was sent, within the bounds of the helper.
\<close>

section \<open>Whole files\<close>

definition keeps_file :: "(string \<Rightarrow> bool) \<Rightarrow> string \<Rightarrow> 'a overlay_op \<Rightarrow> bool" where
  "keeps_file good path m \<longleftrightarrow> (\<forall>h. whole good path (oh_disk h) (oh_disk (snd (m h))))"

lemma keeps_fileD: "keeps_file good path m \<Longrightarrow> whole good path (oh_disk h) (oh_disk (snd (m h)))"
  by (simp add: keeps_file_def)

lemma keeps_file_seq:
  assumes "keeps_file good path m" and "\<And>a. keeps_file good path (f a)"
  shows "keeps_file good path (seq m f)"
  unfolding keeps_file_def
proof
  fix h
  obtain r t where m: "m h = (r, t)" by (cases "m h")
  have first: "whole good path (oh_disk h) (oh_disk t)" using keeps_fileD[OF assms(1), of h] m by simp
  show "whole good path (oh_disk h) (oh_disk (snd (seq m f h)))"
  proof (cases r)
    case (Inl e)
    then show ?thesis using m first by (simp add: seq_def)
  next
    case (Inr a)
    then show ?thesis
      using m whole_trans[OF first keeps_fileD[OF assms(2), of t a]] by (simp add: seq_def)
  qed
qed

lemma keeps_file_same: "(\<And>h. oh_disk (snd (m h)) = oh_disk h) \<Longrightarrow> keeps_file good path m"
  by (simp add: keeps_file_def whole_refl)

lemma keeps_file_simple:
  "keeps_file good path (give a)" "keeps_file good path (raise e)" "keeps_file good path (of_result r)"
  "keeps_file good path (\<lambda>h. (Inr (), h\<lparr> oh_started := f h \<rparr>))"
  by (rule keeps_file_same, simp add: of_result_def split: sum.splits)+

text \<open>The result of a path names the path, whatever the number of the call.\<close>

lemma runtime_path_is:
  "runtime_path W k name = Inr p \<Longrightarrow> ow_runtime W = Some directory \<Longrightarrow>
     p = directory @ ''/voxtype/'' @ name"
  by (auto simp: runtime_path_def split: option.splits)

lemma keeps_file_path:
  assumes "\<And>p. r = Inr p \<Longrightarrow> keeps_file good path (f p)"
  shows "keeps_file good path (seq (of_result r) f)"
  using assms by (cases r) (simp_all add: of_result_def keeps_file_simple)

lemma keeps_file_disk:
  "(\<And>d. whole good path d (snd (m d))) \<Longrightarrow> keeps_file good path (on_overlay_disk m)"
  by (auto simp: keeps_file_def on_overlay_disk_def split: prod.splits) (metis snd_conv)

lemma keeps_file_replace:
  assumes "temporary \<noteq> path" and "good contents"
  shows "keeps_file good path (on_overlay_disk (replace_through W temporary path contents))"
proof (rule keeps_file_disk)
  fix d
  obtain r d' where "replace_through W temporary path contents d = (r, d')"
    by (cases "replace_through W temporary path contents d")
  then show "whole good path d (snd (replace_through W temporary path contents d))"
    using replace_through_replaced[OF _ assms(1)] replaced_whole[of _ _ _ _ _ _ good, OF _ assms(2)]
    by fastforce
qed

lemma whole_other:
  "p \<noteq> path \<Longrightarrow> whole good path d (disk_set ((dk_files d)(p := x)) d)"
  by (rule only_temporary_whole[of p]) (auto intro: disk_set_temporary)

lemma write_private_whole:
  assumes "p \<noteq> path"
  shows "whole good path d (snd (write_private W p contents d))"
proof -
  have "whole good path d' (snd (write_all W p contents d'))" for d'
    using whole_other[OF assms] by (auto simp: write_all_def split: option.splits)
  moreover have "whole good path d (disk_set ((dk_files d)(p \<mapsto> [])) d)" by (rule whole_other[OF assms])
  ultimately show ?thesis
    using whole_trans whole_refl by (fastforce simp: write_private_def seq_def split: option.splits)
qed

lemma current_pid_whole:
  assumes "ow_runtime W = Some directory" and "directory @ ''/voxtype/overlay.pid'' \<noteq> path"
  shows "whole good path (oh_disk h) (oh_disk (snd (current_overlay_pid W h)))"
proof -
  have "whole good path d (remove_file V p d)" if "p \<noteq> path" for p d V
    using whole_other[OF that] by (auto simp: remove_file_def whole_refl split: option.splits)
  moreover have "p \<noteq> path" if "pid_path W 2 = Inr p" for p
    using runtime_path_is[OF that[unfolded pid_path_def] assms(1)] assms(2) by simp
  ultimately show ?thesis
    by (auto simp: current_overlay_pid_def whole_refl split: sum.splits option.splits)
qed

lemma keeps_file_running:
  assumes "ow_runtime W = Some directory" and "directory @ ''/voxtype/overlay.pid'' \<noteq> path"
  shows "keeps_file good path (ensure_running W)"
  unfolding keeps_file_def
proof
  fix h
  obtain r t where pid: "current_overlay_pid W h = (r, t)" by (cases "current_overlay_pid W h")
  have first: "whole good path (oh_disk h) (oh_disk t)"
    using current_pid_whole[OF assms, of good h] pid by simp
  show "whole good path (oh_disk h) (oh_disk (snd (ensure_running W h)))"
  proof (cases r)
    case (Some n)
    then show ?thesis using pid first by (simp add: ensure_running_def)
  next
    case None
    let ?start = "seq (of_result (state_path W 3)) (\<lambda>state.
          seq (of_result (ow_spawn W)) (\<lambda>pid.
          seq (\<lambda>h. (Inr (), h\<lparr> oh_started := oh_started h @ [(ow_qml W, state)] \<rparr>)) (\<lambda>_.
          seq (of_result (pid_path W 4)) (\<lambda>path.
            on_overlay_disk (write_private (ow_pid_files W) path (show_nat pid))))))"
    have "keeps_file good path ?start"
      by (intro keeps_file_seq keeps_file_simple keeps_file_path keeps_file_disk write_private_whole)
         (use assms runtime_path_is in \<open>auto simp: pid_path_def\<close>)
    from keeps_fileD[OF this] have "whole good path (oh_disk t) (oh_disk (snd (?start t)))" .
    then show ?thesis using pid None whole_trans[OF first] by (simp add: ensure_running_def)
  qed
qed

section \<open>The writers\<close>

text \<open>The bounds of a document of the helper.\<close>

definition within_bounds :: "overlay_state \<Rightarrow> bool" where
  "within_bounds s \<longleftrightarrow>
     length (os_state s) \<le> 32 \<and> length (os_title s) \<le> 80 \<and> length (os_body s) \<le> 240 \<and>
     os_timeout_ms s \<le> 60000 \<and> os_clipping_percent s \<le> 100"

lemma shown_within_bounds: "validate_overlay_request r = Inr () \<Longrightarrow> within_bounds (shown_state now r)"
  by (auto simp: validate_overlay_request_def within_bounds_def shown_state_def split: if_splits)

lemma hidden_within_bounds: "within_bounds (hidden_state now)"
  by (simp add: within_bounds_def hidden_state_def text_of_def)

definition overlay_file :: "string \<Rightarrow> string" where
  "overlay_file directory = directory @ ''/voxtype/overlay-state.json''"

lemma state_path_is: "state_path W k = Inr p \<Longrightarrow> ow_runtime W = Some directory \<Longrightarrow> p = overlay_file directory"
  using runtime_path_is by (simp add: state_path_def overlay_file_def)

lemma keeps_write_state:
  assumes "ow_runtime W = Some directory" and "good (ow_print W (state_json s))"
  shows "keeps_file good (overlay_file directory) (write_state W k s)"
  unfolding write_state_def
proof (rule keeps_file_path)
  fix p assume "state_path W k = Inr p"
  then have "p = overlay_file directory" using state_path_is assms(1) by blast
  then show "keeps_file good (overlay_file directory) (on_overlay_disk
      (replace_through (ow_state_files W) (temporary_path (ow_state_files W) p) p
        (ow_print W (state_json s))))"
    using keeps_file_replace[of _ _ good, OF temporary_differs assms(2)] by simp
qed

lemma keeps_show:
  assumes "ow_runtime W = Some directory"
    and "\<And>s. within_bounds s \<Longrightarrow> good (ow_print W (state_json s))"
  shows "keeps_file good (overlay_file directory) (overlay_show W r)"
proof -
  have "keeps_file good (overlay_file directory)
      (seq (write_state W 1 (shown_state (ow_now_millis W) r)) (\<lambda>_. ensure_running W))"
    if "validate_overlay_request r = Inr ()"
    by (intro keeps_file_seq keeps_write_state[OF assms(1)] keeps_file_running[OF assms(1)] assms(2)
        shown_within_bounds[OF that]) (simp add: overlay_file_def)
  then show ?thesis
    by (auto simp: overlay_show_def intro!: keeps_file_path)
qed

lemma keeps_hide:
  assumes "ow_runtime W = Some directory"
    and "\<And>s. within_bounds s \<Longrightarrow> good (ow_print W (state_json s))"
  shows "keeps_file good (overlay_file directory) (overlay_hide W)"
  unfolding overlay_hide_def
proof (rule keeps_file_path)
  fix path
  have "keeps_file good (overlay_file directory) (write_state W 1 (hidden_state (ow_now_millis W)))"
    by (rule keeps_write_state[OF assms(1)]) (rule assms(2)[OF hidden_within_bounds])
  then show "keeps_file good (overlay_file directory)
      (\<lambda>h. if dk_files (oh_disk h) path = None then (Inr (), h)
           else write_state W 1 (hidden_state (ow_now_millis W)) h)"
    by (simp add: keeps_file_def whole_refl)
qed

lemma keeps_run:
  assumes "ow_runtime W = Some directory"
    and "\<And>s. within_bounds s \<Longrightarrow> good (ow_print W (state_json s))"
  shows "keeps_file good (overlay_file directory) (overlay_run W arguments input)"
proof (cases arguments)
  case (Cons action rest)
  then show ?thesis
    using keeps_show[of _ _ good, OF assms] keeps_hide[of _ _ good, OF assms]
    by (simp add: keeps_file_path keeps_file_simple)
qed (simp add: keeps_file_simple)

lemma keeps_telemetry:
  assumes "ow_runtime W = Some directory" and "good (ow_print W v)"
  shows "keeps_file good (overlay_file directory) (write_overlay_telemetry W v)"
proof -
  have "keeps_file good (overlay_file directory)
      (seq (of_result (state_path W 0)) (\<lambda>path.
         on_overlay_disk (replace_through (ow_state_files W) (telemetry_temporary W directory) path
           (ow_print W v))))"
  proof (rule keeps_file_path)
    fix p assume "state_path W 0 = Inr p"
    then have p: "p = overlay_file directory" using state_path_is assms(1) by blast
    have "telemetry_temporary W directory \<noteq> overlay_file directory"
      by (simp add: telemetry_temporary_def overlay_file_def)
    then show "keeps_file good (overlay_file directory) (on_overlay_disk
        (replace_through (ow_state_files W) (telemetry_temporary W directory) p (ow_print W v)))"
      unfolding p using keeps_file_replace assms(2) by blast
  qed
  then show ?thesis using assms(1) by (simp add: write_overlay_telemetry_def)
qed

lemma whole_writes:
  assumes "\<forall>(W, x) \<in> set ws. ow_runtime W = Some directory \<and>
      (\<forall>s. within_bounds s \<longrightarrow> good (ow_print W (state_json s))) \<and>
      (\<forall>v. x = TelemetryWrite v \<longrightarrow> good (ow_print W v))"
  shows "whole good (overlay_file directory) (oh_disk h) (oh_disk (overlay_writes ws h))"
  using assms
proof (induction ws h rule: overlay_writes.induct)
  case (1 h)
  then show ?case by (simp add: whole_refl)
next
  case (2 W x ws h)
  have "whole good (overlay_file directory) (oh_disk h) (oh_disk (overlay_step W x h))"
  proof (cases x)
    case (HelperRun arguments input)
    then show ?thesis
      using 2(2) keeps_fileD[OF keeps_run[of W directory good arguments input], of h] by auto
  next
    case (TelemetryWrite v)
    then show ?thesis
      using 2(2) keeps_fileD[OF keeps_telemetry[of W directory good v], of h] by auto
  qed
  moreover have "whole good (overlay_file directory) (oh_disk (overlay_step W x h))
      (oh_disk (overlay_writes ws (overlay_step W x h)))"
    using 2 by simp
  ultimately show ?case using whole_trans by simp
qed

section \<open>A document of the daemon\<close>

lemma json_as_u64_jnat: "n < 2 ^ 64 \<Longrightarrow> json_as_u64 (jnat n) = Some (word_of_nat n)"
  by (simp add: jnat_def)

lemma uint_field_jnat: "n < 2 ^ bits \<Longrightarrow> bits \<le> 64 \<Longrightarrow> uint_field bits (jnat n) = Some n"
proof -
  assume n: "n < 2 ^ bits" "bits \<le> 64"
  moreover have "(2 :: nat) ^ bits \<le> 2 ^ 64" using n(2) by (rule power_increasing) simp
  ultimately have "n < 2 ^ 64" by linarith
  then show ?thesis using n(1) by (simp add: uint_field_def json_as_u64_jnat unat_word_of_nat)
qed

lemma payload_request:
  "request_of_json (overlay_payload state title body ms) =
     Some \<lparr> oq_state = text_of state, oq_title = text_of title, oq_body = body,
            oq_timeout_ms = unat ms, oq_rms = None, oq_adaptive_threshold = None,
            oq_speech_active = False, oq_clipping_percent = 0 \<rparr>"
proof -
  have "uint_field 32 (jnat (unat ms)) = Some (unat ms)"
    using uint_field_jnat[of "unat ms" 32] unat_lt_length[of ms] by simp
  then show ?thesis
    by (simp add: request_of_json_def overlay_payload_def required_def defaulted_def overlay_fields_def
        jtext_def)
qed

lemma running_keeps_state:
  assumes "ow_runtime W = Some directory"
  shows "dk_files (oh_disk (snd (ensure_running W h))) (overlay_file directory) =
         dk_files (oh_disk h) (overlay_file directory)"
proof -
  have "keeps_file (\<lambda>_. False) (overlay_file directory) (ensure_running W)"
    by (rule keeps_file_running[OF assms]) (simp add: overlay_file_def)
  from keeps_fileD[OF this, of h] show ?thesis by (auto simp: whole_def)
qed

lemma on_overlay_disk_ok:
  "on_overlay_disk m h = (Inr a, h') \<Longrightarrow> m (oh_disk h) = (Inr a, oh_disk h')"
  by (cases "m (oh_disk h)"; cases "fst (m (oh_disk h))") (auto simp: on_overlay_disk_def)

lemma write_state_result:
  assumes "write_state W k s h = (Inr (), h')" and "ow_runtime W = Some directory"
  shows "dk_files (oh_disk h') (overlay_file directory) = Some (ow_print W (state_json s))"
proof -
  obtain p where p: "state_path W k = Inr p"
    using assms(1) by (cases "state_path W k") (auto simp: write_state_def of_result_def)
  then have path: "p = overlay_file directory" using state_path_is assms(2) by blast
  have "replace_through (ow_state_files W) (temporary_path (ow_state_files W) p) p
      (ow_print W (state_json s)) (oh_disk h) = (Inr (), oh_disk h')"
    using assms(1) p on_overlay_disk_ok by (auto simp: write_state_def of_result_def)
  from replace_through_replaced[OF this temporary_differs] show ?thesis
    by (simp add: replaced_def path)
qed

section \<open>Properties\<close>

text \<open>
  C31: The overlay's state file is whole at every moment. However runs of the helper and writes of
  the daemon follow one another, with any arguments and inputs and whatever call of the system fails,
  the file holds what it held at first, or a complete document: one that the daemon wrote, or one of
  the helper within its bounds on the lengths of the texts, the timeout and the percentage.
\<close>

theorem overlay_file_is_whole:
  assumes "\<forall>(W, x) \<in> set ws. ow_runtime W = Some directory \<and> ow_print W = print"
  shows "\<exists>new. dk_history (oh_disk (overlay_writes ws h)) = dk_history (oh_disk h) @ new \<and>
     (\<forall>fs \<in> set (dk_files (oh_disk (overlay_writes ws h)) # new).
        fs (overlay_file directory) = dk_files (oh_disk h) (overlay_file directory) \<or>
        (\<exists>v. fs (overlay_file directory) = Some (print v) \<and>
           (TelemetryWrite v \<in> snd ` set ws \<or> (\<exists>s. v = state_json s \<and> within_bounds s))))"
proof -
  let ?good = "\<lambda>t. \<exists>v. t = print v \<and>
      (TelemetryWrite v \<in> snd ` set ws \<or> (\<exists>s. v = state_json s \<and> within_bounds s))"
  have "whole ?good (overlay_file directory) (oh_disk h) (oh_disk (overlay_writes ws h))"
    by (rule whole_writes) (use assms in force)
  then obtain new where
    "dk_history (oh_disk (overlay_writes ws h)) = dk_history (oh_disk h) @ new"
    "\<forall>fs \<in> set (dk_files (oh_disk (overlay_writes ws h)) # new).
       fs (overlay_file directory) = dk_files (oh_disk h) (overlay_file directory) \<or>
       (\<exists>t. ?good t \<and> fs (overlay_file directory) = Some t)"
    unfolding whole_def by blast
  then show ?thesis by (intro exI[of _ new]) blast
qed

text \<open>
  A document of the daemon is shown as it was sent. When the JSON library reads the document
  back and it fits the bound on a request, a body within 240 characters (and a title and state within
  theirs) puts exactly these texts into the state file, with the timeout cut to a minute; a longer
  body is refused and leaves everything as it was.
\<close>

theorem daemon_overlay_is_shown:
  assumes "ow_parse W payload = Inr (overlay_payload state title body ms)"
    and "length payload \<le> 4096" and "ow_runtime W = Some directory"
    and "length state \<le> 32" and "length title \<le> 80"
    and "overlay_run W [text_of ''show''] (payload, None) h = (r, h')"
  shows "(240 < length body \<longrightarrow> r = Inl ''overlay field is too long'' \<and> h' = h) \<and>
     (r = Inr () \<longrightarrow> length body \<le> 240 \<and>
        dk_files (oh_disk h') (overlay_file directory) =
          Some (ow_print W (state_json
            \<lparr> os_state = text_of state, os_title = text_of title, os_body = body,
              os_timeout_ms = min (unat ms) 60000, os_visible = True,
              os_updated_ms = ow_now_millis W, os_rms = None, os_adaptive_threshold = None,
              os_speech_active = False, os_clipping_percent = 0 \<rparr>)))"
proof -
  let ?q = "\<lparr> oq_state = text_of state, oq_title = text_of title, oq_body = body,
      oq_timeout_ms = unat ms, oq_rms = None, oq_adaptive_threshold = None,
      oq_speech_active = False, oq_clipping_percent = 0 \<rparr>"
  have "read_overlay_request (ow_parse W) (payload, None) = Inr ?q"
    using assms(1,2) payload_request
    by (simp add: read_overlay_request_def read_limited_def max_overlay_request_def)
  then have run: "overlay_show W ?q h = (r, h')"
    using assms(6) by (simp add: of_result_def)
  show ?thesis
  proof (cases "240 < length body")
    case True
    then show ?thesis
      using run by (auto simp: overlay_show_def validate_overlay_request_def of_result_def)
  next
    case False
    then have valid: "validate_overlay_request ?q = Inr ()"
      using assms(4,5) by (simp add: validate_overlay_request_def text_of_def)
    have "dk_files (oh_disk h') (overlay_file directory) =
        Some (ow_print W (state_json (shown_state (ow_now_millis W) ?q)))" if ok: "r = Inr ()"
    proof -
      obtain h1 where "write_state W 1 (shown_state (ow_now_millis W) ?q) h = (Inr (), h1)"
        "ensure_running W h1 = (Inr (), h')"
        using run[unfolded ok] valid by (auto simp: overlay_show_def of_result_def seq_ok)
      then show ?thesis
        using write_state_result[OF _ assms(3)] running_keeps_state[OF assms(3), of h1] by simp
    qed
    then show ?thesis using False by (simp add: shown_state_def)
  qed
qed

section \<open>A run of both writers\<close>

definition demo_overlay_world :: overlay_world where
  "demo_overlay_world =
     \<lparr> ow_runtime = Some ''/r'', ow_prepare = (\<lambda>_. None), ow_state_files = demo_files,
       ow_pid_files = demo_files, ow_command_line = (\<lambda>_. []), ow_now_millis = 5,
       ow_spawn = Inr 11, ow_qml = ''q'', ow_print = (\<lambda>_. ''x''),
       ow_parse = (\<lambda>_. Inr (overlay_payload ''done'' ''Text copied'' [0x41] 3000)) \<rparr>"

definition demo_overlay_host :: overlay_host where
  "demo_overlay_host =
     \<lparr> oh_disk = \<lparr> dk_files = (\<lambda>_. None)(overlay_file ''/r'' \<mapsto> ''old''), dk_history = [] \<rparr>,
       oh_started = [] \<rparr>"

theorem overlay_file_is_whole_witness:
  "(\<lambda>fs. fs (overlay_file ''/r'')) ` set (dk_history (oh_disk (overlay_writes
       [(demo_overlay_world, TelemetryWrite JNull),
        (demo_overlay_world, HelperRun [text_of ''hide''] ([], None))] demo_overlay_host)))
   \<subseteq> {Some ''old'', Some ''x''}"
proof -
  have "\<forall>(W, x) \<in> set [(demo_overlay_world, TelemetryWrite JNull),
        (demo_overlay_world, HelperRun [text_of ''hide''] ([], None))].
      ow_runtime W = Some ''/r'' \<and> ow_print W = (\<lambda>_. ''x'')"
    by (simp add: demo_overlay_world_def)
  from overlay_file_is_whole[OF this, of demo_overlay_host] show ?thesis
    by (auto simp: demo_overlay_host_def)
qed

lemma demo_overlay_runs:
  "fst (overlay_run demo_overlay_world [text_of ''show''] ([], None) demo_overlay_host) = Inr ()"
  by (simp add: demo_overlay_world_def demo_overlay_host_def demo_files_def of_result_def
      read_overlay_request_def read_limited_def max_overlay_request_def payload_request
      overlay_show_def validate_overlay_request_def text_of_def write_state_def state_path_def
      runtime_path_def on_overlay_disk_def replace_through_def create_new_def write_all_def
      rename_file_def io_result_def temporary_path_def seq_def overlay_file_def ensure_running_def
      current_overlay_pid_def pid_path_def read_pid_def write_private_def)

theorem daemon_overlay_is_shown_witness:
  "dk_files (oh_disk (snd (overlay_run demo_overlay_world [text_of ''show''] ([], None)
     demo_overlay_host))) (overlay_file ''/r'') = Some ''x''"
  using daemon_overlay_is_shown[OF _ _ _ _ _ prod.collapse[symmetric],
      of demo_overlay_world "[]" "''done''" "''Text copied''" "[0x41]" 3000 "''/r''" demo_overlay_host]
    demo_overlay_runs
  by (simp add: demo_overlay_world_def)

end
