(* ===== verification/Status_Props.thy ===== *)
theory Status_Props
  imports Status Settings_Props
begin

text \<open>
  What the documents of the daemon say to their readers: the settings window reads the health of
  each provider back as the controller holds it.
\<close>

section \<open>JSON pointers\<close>

lemma escape_Cons:
  "json_pointer_escape (c # cs) =
     (if c = CHR ''~'' then ''~0'' else if c = CHR ''/'' then ''~1'' else [c]) @ json_pointer_escape cs"
  by (simp add: json_pointer_escape_def)

lemma unescape_other: "c \<noteq> CHR ''~'' \<Longrightarrow> pointer_unescape (c # cs) = c # pointer_unescape cs"
  by (cases cs) simp_all

lemma pointer_unescape_escape: "pointer_unescape (json_pointer_escape v) = v"
proof (induction v)
  case Nil
  then show ?case by (simp add: json_pointer_escape_def)
next
  case (Cons c cs)
  then show ?case by (simp add: escape_Cons unescape_other)
qed

lemma escape_no_slash: "CHR ''/'' \<notin> set (json_pointer_escape v)"
  by (induction v) (simp_all add: escape_Cons, simp add: json_pointer_escape_def)

lemma pointer_providers:
  "json_pointer (''/providers/'' @ json_pointer_escape name) v =
     Option.bind (json_get ''providers'' v) (json_get name)"
proof -
  have "split_elem CHR ''/'' (''/providers/'' @ json_pointer_escape name) =
      [[], ''providers'', json_pointer_escape name]"
    using escape_no_slash[of name] by (simp add: split_elem_single)
  moreover have "pointer_unescape ''providers'' = ''providers''" by code_simp
  moreover have "pointer_at [json_pointer_escape name] = json_get name"
    by (rule ext) (simp add: pointer_unescape_escape split: bind_split)
  ultimately show ?thesis by (simp add: json_pointer_def)
qed

lemma pointer_usage:
  "json_pointer (''/providers/'' @ json_pointer_escape name @ ''/usage'') v =
     Option.bind (Option.bind (json_get ''providers'' v) (json_get name)) (json_get ''usage'')"
proof -
  have "split_elem CHR ''/'' (''/providers/'' @ json_pointer_escape name @ ''/usage'') =
      [[], ''providers'', json_pointer_escape name, ''usage'']"
    using escape_no_slash[of name] by (simp add: split_elem_prefix)
  moreover have "pointer_unescape ''providers'' = ''providers''" "pointer_unescape ''usage'' = ''usage''"
    by code_simp+
  moreover have "pointer_at [json_pointer_escape name, ''usage''] =
      (\<lambda>m. Option.bind (json_get name m) (json_get ''usage''))"
    by (rule ext) (simp add: pointer_unescape_escape \<open>pointer_unescape ''usage'' = ''usage''\<close>
        split: bind_split)
  ultimately show ?thesis by (simp add: json_pointer_def Option.bind_assoc)
qed

section \<open>The health of a provider\<close>

lemma map_of_values: "map_of (map (\<lambda>(k, x). (k, f k x)) m) k = map_option (f k) (map_of m k)"
  by (induction m) auto

lemma health_document:
  assumes "map_of (cfg_providers (dm_config d)) name = Some p" and "provider_id_new name = Inr i"
  shows "provider_health_for (provider_status now d) name =
     health_json (provider_health_snapshot (dm_app d) i now)"
proof -
  have "json_get name (JObject (map (\<lambda>(name, _). (name, health_json (health_of (dm_app d) now name)))
      (cfg_providers (dm_config d)))) = Some (health_json (health_of (dm_app d) now name))"
    using map_of_values[of "\<lambda>k (x :: provider_config). health_json (health_of (dm_app d) now k)"] assms(1) by simp
  then show ?thesis
    unfolding provider_health_for_def pointer_providers
    using assms(2) by (simp add: provider_status_def provider_status_json_def health_of_def)
qed

lemma usage_document:
  assumes "map_of (cfg_providers (dm_config d)) name = Some p"
  shows "usage_for (usage_status d) name = usage_json (usage_of (dm_app d) name)"
proof -
  let ?f = "\<lambda>k (x :: provider_config). JObject [(''usage'', usage_json (usage_of (dm_app d) k)),
      (''quota'', quota_json (map_of (cfg_quotas (dm_config d)) k))]"
  have "json_get name (JObject (map (\<lambda>(k, x). (k, ?f k x)) (cfg_providers (dm_config d)))) =
      Some (?f name p)"
    using map_of_values[of ?f] assms(1) by simp
  then show ?thesis unfolding usage_for_def pointer_usage by (simp add: usage_status_def)
qed

lemma age_document:
  "now < 2 ^ 64 * 1000000000 \<Longrightarrow>
   json_as_u64 (joption jnat (map_option (\<lambda>t. as_secs (now - t)) x)) =
     map_option (\<lambda>t. word_of_nat (as_secs (now - t))) x"
  by (auto simp: joption_def jnat_def as_secs_def div_less_iff_less_mult split: option.splits)

lemma no_age: "json_as_u64 (joption jnat None) = None"
  by (simp add: joption_def)

lemma word_of_age_le:
  assumes "now < 2 ^ 64 * 1000000000"
  shows "(word_of_nat (as_secs (now - a)) :: 64 word) \<le> word_of_nat (as_secs (now - b)) \<longleftrightarrow>
     as_secs (now - a) \<le> as_secs (now - b)"
proof -
  have "as_secs (now - t) < 2 ^ 64" for t
    using assms by (simp add: as_secs_def div_less_iff_less_mult)
  then show ?thesis by (simp add: word_le_nat_alt unat_word_of_nat)
qed

text \<open>The last failure is not older than the last success, in whole seconds.\<close>

definition failed_last :: "provider_health_state \<Rightarrow> instant \<Rightarrow> bool" where
  "failed_last h now \<longleftrightarrow>
     (case hs_last_failure_at h of
        None \<Rightarrow> False
      | Some f \<Rightarrow>
          (case hs_last_success_at h of
             None \<Rightarrow> True | Some s \<Rightarrow> as_secs (now - f) \<le> as_secs (now - s)))"

lemma readiness_of_snapshot:
  assumes "now < 2 ^ 64 * 1000000000"
  shows "provider_readiness kind secret (health_json (provider_health_snapshot a i now)) =
    (if kind = ''mock'' then ''demo''
     else if secret = ''missing'' \<or> secret = ''unavailable'' then ''setup-needed''
     else if \<not> route_available a now i then ''unavailable''
     else case ac_provider_health a i of
            None \<Rightarrow> ''configured''
          | Some h \<Rightarrow> if failed_last h now then ''degraded''
                      else if verified_at h now then ''healthy'' else ''configured'')"
  using assms
  by (cases "ac_provider_health a i")
     (simp_all add: provider_readiness_def health_json_def provider_health_snapshot_def Let_def
       age_document no_age word_of_age_le latest_event_is_failure_def failed_last_def
       split: option.splits)

section \<open>Properties\<close>

text \<open>
  C32: What the settings window says of a provider is what the controller holds. The readiness that
  the window computes from the daemon's health document is, for a configured provider, whatever
  characters its name has, decided by the state of its circuit, its last success and its last
  failure: it is healthy exactly when it may be routed to, was verified within the last fifteen
  minutes and has not failed since; the mock provider and one without its secret never are.
\<close>

theorem readiness_reflects_health:
  assumes "map_of (cfg_providers (dm_config d)) name = Some p" and "provider_id_new name = Inr i"
    and "now < 2 ^ 64 * 1000000000"
  shows "provider_readiness kind secret (provider_health_for (provider_status now d) name) =
    (if kind = ''mock'' then ''demo''
     else if secret = ''missing'' \<or> secret = ''unavailable'' then ''setup-needed''
     else if \<not> route_available (dm_app d) now i then ''unavailable''
     else case ac_provider_health (dm_app d) i of
            None \<Rightarrow> ''configured''
          | Some h \<Rightarrow> if failed_last h now then ''degraded''
                      else if verified_at h now then ''healthy'' else ''configured'')"
  unfolding health_document[OF assms(1,2)] by (rule readiness_of_snapshot[OF assms(3)])

text \<open>A provider that has just succeeded.\<close>

definition demo_verified :: daemon where
  "demo_verified = demo_daemon\<lparr> dm_app := record_route_success 0
     \<lparr> rs_provider_id = ProviderId ''mock'',
       rs_transcript = \<lparr> pt_text = [104], pt_usage = provider_usage_default \<rparr> \<rparr>
     (dm_app demo_daemon) \<rparr>"

theorem readiness_reflects_health_witness:
  "provider_readiness ''command'' ''not-required''
     (provider_health_for (provider_status 0 demo_verified) ''mock'') = ''healthy''"
proof -
  have config: "map_of (cfg_providers (dm_config demo_verified)) ''mock'' = Some (Mock [104, 105])"
    by (simp add: demo_verified_def demo_compose(4) demo_config_def)
  show ?thesis
    unfolding readiness_reflects_health[OF config demo_provider_id, of 0, simplified]
    using demo_compose(5,6)
    by (simp add: demo_verified_def record_route_success_def Let_def route_available_def
        health_entry_def provider_health_state_default_def record_success_at_def is_available_at_def
        failed_last_def verified_at_def)
qed

end
