(* ===== verification/Client.thy ===== *)
theory Client
  imports Utext Eff Controller
begin

text \<open>
  The blocking D-Bus client of the command line and the tray (src/client.rs). Every method is one
  call of the daemon; the calls are recorded in the order in which they are made. What the bus
  answers to each call and what the clock shows at each reading are arguments.
\<close>

section \<open>Calls\<close>

datatype client_call =
    CallStatus
  | CallProviderStatus
  | CallUsageStatus
  | CallLastTranscript
  | CallTranscriptHistory
  | CallCheckLastGrammar
  | CallCheckContextGrammar
  | CallClearHistory
  | CallStart utext
  | CallStop utext
  | CallSessionResult utext
  | CallToggle utext
  | CallCancel utext
  | CallReset
  | CallInsertTest utext
  | CallReload

text \<open>A reply of the bus; one of another type than the method expects is an error of the bus.\<close>

datatype bus_reply =
    ReplyText utext
  | ReplyTexts "utext list"
  | ReplyUnit
  | ReplyResult bool utext utext utext "64 word"

record client =
  cl_calls :: "client_call list"
  cl_readings :: nat

text \<open>The answer to a call may depend on the number of calls made before it.\<close>

record bus_world =
  bw_reply :: "nat \<Rightarrow> client_call \<Rightarrow> string + bus_reply"
  bw_clock :: "nat \<Rightarrow> instant"

type_synonym ('x, 'a) client_op = "('x client_scheme, string, 'a) eff"

definition bus_call :: "bus_world \<Rightarrow> client_call \<Rightarrow> ('x, bus_reply) client_op" where
  "bus_call B call s =
     (bw_reply B (length (cl_calls s)) call, s\<lparr> cl_calls := cl_calls s @ [call] \<rparr>)"

definition wrong_signature :: string where
  "wrong_signature = ''Signature mismatch''"

definition call_text :: "bus_world \<Rightarrow> client_call \<Rightarrow> ('x, utext) client_op" where
  "call_text B call =
     seq (bus_call B call) (\<lambda>r. case r of ReplyText t \<Rightarrow> give t | _ \<Rightarrow> raise wrong_signature)"

definition call_unit :: "bus_world \<Rightarrow> client_call \<Rightarrow> ('x, unit) client_op" where
  "call_unit B call =
     seq (bus_call B call) (\<lambda>r. case r of ReplyUnit \<Rightarrow> give () | _ \<Rightarrow> raise wrong_signature)"

definition client_transcript_history :: "bus_world \<Rightarrow> ('x, utext list) client_op" where
  "client_transcript_history B =
     seq (bus_call B CallTranscriptHistory)
       (\<lambda>r. case r of ReplyTexts ts \<Rightarrow> give ts | _ \<Rightarrow> raise wrong_signature)"

definition client_status :: "bus_world \<Rightarrow> ('x, utext) client_op" where
  "client_status B = call_text B CallStatus"

definition client_provider_status :: "bus_world \<Rightarrow> ('x, utext) client_op" where
  "client_provider_status B = call_text B CallProviderStatus"

definition client_usage_status :: "bus_world \<Rightarrow> ('x, utext) client_op" where
  "client_usage_status B = call_text B CallUsageStatus"

definition client_last_transcript :: "bus_world \<Rightarrow> ('x, utext) client_op" where
  "client_last_transcript B = call_text B CallLastTranscript"

definition client_check_last_grammar :: "bus_world \<Rightarrow> ('x, utext) client_op" where
  "client_check_last_grammar B = call_text B CallCheckLastGrammar"

definition client_check_context_grammar :: "bus_world \<Rightarrow> ('x, utext) client_op" where
  "client_check_context_grammar B = call_text B CallCheckContextGrammar"

definition client_clear_history :: "bus_world \<Rightarrow> ('x, unit) client_op" where
  "client_clear_history B = call_unit B CallClearHistory"

definition client_start :: "bus_world \<Rightarrow> utext \<Rightarrow> ('x, utext) client_op" where
  "client_start B profile = call_text B (CallStart profile)"

definition client_stop :: "bus_world \<Rightarrow> utext \<Rightarrow> ('x, utext) client_op" where
  "client_stop B session = call_text B (CallStop session)"

definition client_toggle :: "bus_world \<Rightarrow> utext \<Rightarrow> ('x, utext) client_op" where
  "client_toggle B profile = call_text B (CallToggle profile)"

definition client_cancel :: "bus_world \<Rightarrow> utext \<Rightarrow> ('x, unit) client_op" where
  "client_cancel B session = call_unit B (CallCancel session)"

definition client_reset :: "bus_world \<Rightarrow> ('x, unit) client_op" where
  "client_reset B = call_unit B CallReset"

definition client_insert_test :: "bus_world \<Rightarrow> utext \<Rightarrow> ('x, utext) client_op" where
  "client_insert_test B t = call_text B (CallInsertTest t)"

definition client_reload_configuration :: "bus_world \<Rightarrow> ('x, unit) client_op" where
  "client_reload_configuration B = call_unit B CallReload"

section \<open>Results\<close>

record client_result =
  sr_session :: utext
  sr_outcome :: utext
  sr_error_code :: utext
  sr_backend :: utext
  sr_char_count :: "64 word"

definition client_session_result :: "bus_world \<Rightarrow> utext \<Rightarrow> ('x, client_result option) client_op" where
  "client_session_result B session =
     seq (bus_call B (CallSessionResult session)) (\<lambda>r.
       case r of
         ReplyResult found outcome error_code backend chars \<Rightarrow>
           give (if found
                 then Some \<lparr> sr_session = session, sr_outcome = outcome, sr_error_code = error_code,
                             sr_backend = backend, sr_char_count = chars \<rparr>
                 else None)
       | _ \<Rightarrow> raise wrong_signature)"

definition strip_text_prefix :: "utext \<Rightarrow> utext \<Rightarrow> utext option" where
  "strip_text_prefix p t = (if take (length p) t = p then Some (drop (length p) t) else None)"

text \<open>The session that an accepted stop names.\<close>

definition accepted_session :: "utext \<Rightarrow> utext" where
  "accepted_session accepted =
     (case find_map (strip_text_prefix (text_of ''session='')) (split_whitespace accepted) of
        None \<Rightarrow> [] | Some session \<Rightarrow> session)"

definition session_result_wait_timeout :: nat where
  "session_result_wait_timeout = secs (5 * 60)"

definition read_clock :: "bus_world \<Rightarrow> ('x, instant) client_op" where
  "read_clock B s = (Inr (bw_clock B (cl_readings s)), s\<lparr> cl_readings := cl_readings s + 1 \<rparr>)"

definition timed_out_message :: "utext \<Rightarrow> string" where
  "timed_out_message session =
     ''timed out waiting for terminal result for session '' @ utf8_string session"

text \<open>One query, and the decision whether to wait for the next one; the pause has no effect.\<close>

definition poll_session_result ::
  "bus_world \<Rightarrow> utext \<Rightarrow> instant \<Rightarrow> unit \<Rightarrow> ('x, client_result + unit) client_op" where
  "poll_session_result B session deadline _ =
     seq (client_session_result B session) (\<lambda>r.
       case r of
         Some result \<Rightarrow> give (Inl result)
       | None \<Rightarrow>
           seq (read_clock B) (\<lambda>now.
             if deadline \<le> now then raise (timed_out_message session) else give (Inr ())))"

definition wait_for_result ::
  "bus_world \<Rightarrow> utext \<Rightarrow> ('x client_scheme, string, client_result) run" where
  "wait_for_result B session =
     andthen (lift (read_clock B)) (\<lambda>now.
       iterate (poll_session_result B session (now + session_result_wait_timeout)) ())"

definition stop_wait :: "bus_world \<Rightarrow> utext \<Rightarrow> ('x client_scheme, string, client_result) run" where
  "stop_wait B session =
     andthen (lift (client_stop B session)) (\<lambda>accepted.
       let requested = (if session = [] then accepted_session accepted else session)
       in if requested = []
          then lift (raise ''daemon did not return a session ID while accepting Stop'')
          else wait_for_result B requested)"

end
