(* ===== verification/Client_Props.thy ===== *)
theory Client_Props
  imports Client Status Daemon_Props
begin

text \<open>
  What waiting for a session guarantees to the command line: it ends, it asks about the session that
  the daemon accepted, and what it returns is the first result that the daemon has for it.
\<close>

section \<open>Words of a reply\<close>

lemma word_pieces_word:
  "\<forall>c \<in> set w. \<not> is_whitespace c \<Longrightarrow> is_whitespace z \<Longrightarrow>
     word_pieces (w @ z # rest) = w # word_pieces rest"
  by (induction w) simp_all

lemma split_whitespace_word:
  assumes "w \<noteq> []" and "\<forall>c \<in> set w. \<not> is_whitespace c" and "is_whitespace z"
  shows "split_whitespace (w @ z # rest) = w # split_whitespace rest"
  using assms word_pieces_word[OF assms(2,3)] by (simp add: split_whitespace_def)

lemma digit_not_space: "48 \<le> n \<and> n \<le> 57 \<Longrightarrow> \<not> is_whitespace n"
  by (simp add: is_whitespace_def)

lemma session_text_plain:
  "\<forall>c \<in> set (text_of (session_str (from_counter k))). \<not> is_whitespace c"
proof -
  have "\<forall>c \<in> set (text_of (show_nat (unat k))). \<not> is_whitespace c"
    using show_nat_digits digit_not_space by (auto simp: text_of_def)
  moreover have "\<forall>c \<in> set (text_of ''session-''). \<not> is_whitespace c"
    by (simp add: text_of_def is_whitespace_def)
  ultimately show ?thesis by (auto simp: from_counter_def text_of_def)
qed

definition response_session :: "daemon_response \<Rightarrow> session_id" where
  "response_session r =
     (case r of RespProcessing s \<Rightarrow> s | RespNoSpeech s _ \<Rightarrow> s | RespTooShort s \<Rightarrow> s
      | RespInserted s _ _ _ \<Rightarrow> s)"

lemma response_text_starts:
  "\<exists>more. response_text rest r = ''session='' @ session_str (response_session r) @ CHR '' '' # more"
  by (cases r) (auto simp: response_text_def response_session_def)

lemma accepted_session_of_response:
  assumes "response_session r = from_counter k"
  shows "accepted_session (text_of (response_text rest r)) = text_of (session_str (from_counter k))"
proof -
  let ?w = "text_of (''session='' @ session_str (from_counter k))"
  obtain more where "response_text rest r = ''session='' @ session_str (from_counter k) @ CHR '' '' # more"
    using response_text_starts[of rest r] assms by auto
  then have "text_of (response_text rest r) = ?w @ 32 # text_of more" by (simp add: text_of_def)
  moreover have "\<forall>c \<in> set ?w. \<not> is_whitespace c"
    using session_text_plain[of k] by (auto simp: text_of_def is_whitespace_def)
  moreover have "?w \<noteq> []" "is_whitespace 32" by (simp_all add: text_of_def is_whitespace_def)
  ultimately have "split_whitespace (text_of (response_text rest r)) = ?w # split_whitespace (text_of more)"
    using split_whitespace_word[of ?w 32 "text_of more"] by simp
  then show ?thesis by (simp add: accepted_session_def strip_text_prefix_def text_of_def)
qed

section \<open>Waiting\<close>

text \<open>The n-th query of a wait that starts after the calls already made found nothing.\<close>

definition not_found :: "bus_world \<Rightarrow> nat \<Rightarrow> utext \<Rightarrow> bool" where
  "not_found B n session \<longleftrightarrow>
     (\<exists>a b c d. bw_reply B n (CallSessionResult session) = Inr (ReplyResult False a b c d))"

definition found :: "bus_world \<Rightarrow> nat \<Rightarrow> utext \<Rightarrow> client_result \<Rightarrow> bool" where
  "found B n session result \<longleftrightarrow> sr_session result = session \<and>
     bw_reply B n (CallSessionResult session) =
       Inr (ReplyResult True (sr_outcome result) (sr_error_code result) (sr_backend result)
              (sr_char_count result))"

lemma session_result_call:
  assumes "client_session_result B session s = (r, t)"
  shows "cl_calls t = cl_calls s @ [CallSessionResult session] \<and> cl_readings t = cl_readings s \<and>
    (r = Inr None \<longrightarrow> not_found B (length (cl_calls s)) session) \<and>
    (\<forall>result. r = Inr (Some result) \<longrightarrow> found B (length (cl_calls s)) session result)"
  using assms
  by (auto simp: client_session_result_def bus_call_def seq_def not_found_def found_def
      split: sum.splits bus_reply.splits if_splits)

lemma poll_result_step:
  assumes "poll_session_result B session deadline u s = (r, t)"
  shows "cl_calls t = cl_calls s @ [CallSessionResult session] \<and>
    (\<forall>u'. r = Inr (Inr u') \<longrightarrow> not_found B (length (cl_calls s)) session \<and>
        cl_readings t = cl_readings s + 1 \<and> bw_clock B (cl_readings s) < deadline) \<and>
    (\<forall>result. r = Inr (Inl result) \<longrightarrow> found B (length (cl_calls s)) session result)"
proof -
  obtain q t1 where q: "client_session_result B session s = (q, t1)"
    by (cases "client_session_result B session s")
  note step = session_result_call[OF q]
  show ?thesis
    using assms q step
    by (auto simp: poll_session_result_def seq_def read_clock_def split: sum.splits option.splits if_splits)
qed

text \<open>A wait from a base: so many queries that found nothing.\<close>

definition waited :: "bus_world \<Rightarrow> utext \<Rightarrow> client_call list \<Rightarrow> nat \<Rightarrow> 'x client_scheme \<Rightarrow> bool" where
  "waited B session base n s \<longleftrightarrow>
     cl_calls s = base @ replicate n (CallSessionResult session) \<and>
     (\<forall>j < n. not_found B (length base + j) session)"

lemma poll_result_waited:
  assumes "poll_session_result B session deadline u s = (r, t)" and "waited B session base n s"
  shows "cl_calls t = base @ replicate (Suc n) (CallSessionResult session) \<and>
    (\<forall>u'. r = Inr (Inr u') \<longrightarrow> waited B session base (Suc n) t) \<and>
    (\<forall>result. r = Inr (Inl result) \<longrightarrow> found B (length base + n) session result)"
proof -
  have "cl_calls t = base @ replicate (Suc n) (CallSessionResult session)"
    using poll_result_step[OF assms(1)] assms(2)
    by (simp add: waited_def replicate_append_same)
  moreover have "length (cl_calls s) = length base + n" using assms(2) by (simp add: waited_def)
  ultimately show ?thesis
    using poll_result_step[OF assms(1)] assms(2) by (auto simp: waited_def less_Suc_eq)
qed

lemma wait_for_result_outcome:
  fixes s :: "'x client_scheme"
  assumes "\<And>t. \<exists>n. \<forall>m \<ge> n. t \<le> bw_clock B m"
  shows "\<exists>n r t. wait_for_result B session s = Some (r, t) \<and>
     cl_calls t = cl_calls s @ replicate (Suc n) (CallSessionResult session) \<and>
     (\<forall>j < n. not_found B (length (cl_calls s) + j) session) \<and>
     (\<forall>result. r = Inr result \<longrightarrow> found B (length (cl_calls s) + n) session result)"
proof -
  let ?deadline = "bw_clock B (cl_readings s) + session_result_wait_timeout"
  let ?s = "s\<lparr> cl_readings := cl_readings s + 1 \<rparr>"
  let ?body = "poll_session_result B session ?deadline"
  obtain n where n: "\<forall>m \<ge> n. ?deadline \<le> bw_clock B m" using assms by blast
  have ends: "cl_readings s' < cl_readings t \<and> cl_readings s' < n"
    if "?body a s' = (Inr (Inr a'), t)" for a a' s' t
  proof -
    have "cl_readings t = cl_readings s' + 1" "bw_clock B (cl_readings s') < ?deadline"
      using poll_result_step[OF that] by simp_all
    moreover from this(2) have "cl_readings s' < n" using n by (meson linorder_not_le)
    ultimately show ?thesis by simp
  qed
  have "\<exists>r t. iterate ?body () ?s = Some (r, t)"
    by (rule iterate_returns[of ?body cl_readings n]) (rule ends)
  then obtain r t where run: "iterate ?body () ?s = Some (r, t)" by blast
  let ?P = "\<lambda>(_ :: unit) s'. \<exists>n. waited B session (cl_calls s) n s'"
  let ?Q = "\<lambda>r (t :: 'x client_scheme). \<exists>n.
      cl_calls t = cl_calls s @ replicate (Suc n) (CallSessionResult session) \<and>
      (\<forall>j < n. not_found B (length (cl_calls s) + j) session) \<and>
      (\<forall>result. r = Inr result \<longrightarrow> found B (length (cl_calls s) + n) session result)"
  have "?Q r t"
  proof (rule iterate_inv[OF run, where P = ?P and Q = ?Q])
    show "?P () ?s" by (intro exI[of _ 0]) (simp add: waited_def)
  next
    fix a a' and s' t' :: "'x client_scheme" assume "?P a s'" "?body a s' = (Inr (Inr a'), t')"
    then show "?P a' t'" using poll_result_waited by blast
  next
    fix a b and s' t' :: "'x client_scheme" assume w: "?P a s'" "?body a s' = (Inr (Inl b), t')"
    then obtain m where "waited B session (cl_calls s) m s'" by blast
    with poll_result_waited[OF w(2) this] show "?Q (Inr b) t'"
      by (intro exI[of _ m]) (auto simp: waited_def)
  next
    fix a e and s' t' :: "'x client_scheme" assume w: "?P a s'" "?body a s' = (Inl e, t')"
    then obtain m where "waited B session (cl_calls s) m s'" by blast
    with poll_result_waited[OF w(2) this] show "?Q (Inl e) t'"
      by (intro exI[of _ m]) (auto simp: waited_def)
  qed
  moreover have "wait_for_result B session s = iterate ?body () ?s"
    by (simp add: wait_for_result_def andthen_def lift_def read_clock_def)
  ultimately show ?thesis using run by auto
qed

section \<open>Properties\<close>

text \<open>
  C33: Stopping and waiting always ends, with the session that the daemon accepted. When the daemon
  accepts a stop of its session, asked for by name or as the current one, and the clock moves on
  without bound, the client makes one stop and then asks for the result of exactly that session. What
  it returns is the first result that the daemon has, with its outcome unchanged; every query before
  it found none.
\<close>

theorem stop_wait_reports_its_session:
  fixes s :: "'x client_scheme"
  assumes "\<And>t. \<exists>n. \<forall>m \<ge> n. t \<le> bw_clock B m"
    and "bw_reply B (length (cl_calls s)) (CallStop session) =
           Inr (ReplyText (text_of (response_text rest response)))"
    and "response_session response = from_counter k"
    and "accepted = text_of (session_str (from_counter k))" and "session = [] \<or> session = accepted"
  shows "\<exists>n r t. stop_wait B session s = Some (r, t) \<and>
     cl_calls t = cl_calls s @ CallStop session # replicate (Suc n) (CallSessionResult accepted) \<and>
     (\<forall>j < n. not_found B (length (cl_calls s) + 1 + j) accepted) \<and>
     (\<forall>result. r = Inr result \<longrightarrow> found B (length (cl_calls s) + 1 + n) accepted result)"
proof -
  let ?s = "s\<lparr> cl_calls := cl_calls s @ [CallStop session] \<rparr>"
  let ?answer = "text_of (response_text rest response)"
  have accepted: "accepted_session ?answer = accepted"
    using accepted_session_of_response[OF assms(3)] assms(4) by simp
  have "accepted \<noteq> []" by (simp add: assms(4) text_of_def from_counter_def)
  then have requested: "(if session = [] then accepted_session ?answer else session) = accepted"
    using assms(5) accepted by auto
  have "client_stop B session s = (Inr ?answer, ?s)"
    using assms(2) by (simp add: client_stop_def call_text_def bus_call_def seq_def)
  then have stop: "stop_wait B session s = wait_for_result B accepted ?s"
    using requested \<open>accepted \<noteq> []\<close> by (simp add: stop_wait_def andthen_def lift_def Let_def)
  from wait_for_result_outcome[OF assms(1), where session = accepted and s = ?s]
  show ?thesis unfolding stop by auto
qed

text \<open>A daemon that has the result at the second query.\<close>

definition demo_bus :: bus_world where
  "demo_bus =
     \<lparr> bw_reply = (\<lambda>n call. if n = 0 then Inr (ReplyText (text_of (response_text []
          (RespProcessing (from_counter 1)))))
          else Inr (ReplyResult (2 \<le> n) (text_of ''completed'') [] (text_of ''fcitx'') 2)),
       bw_clock = (\<lambda>n. n) \<rparr>"

definition demo_client :: client where
  "demo_client = \<lparr> cl_calls = [], cl_readings = 0 \<rparr>"

theorem stop_wait_reports_its_session_witness:
  "\<exists>n r t. stop_wait demo_bus [] demo_client = Some (r, t) \<and>
     cl_calls t = CallStop [] #
       replicate (Suc n) (CallSessionResult (text_of (session_str (from_counter 1))))"
proof -
  have clock: "\<exists>n. \<forall>m \<ge> n. t \<le> bw_clock demo_bus m" for t
    by (auto simp: demo_bus_def)
  have reply: "bw_reply demo_bus (length (cl_calls demo_client)) (CallStop []) =
      Inr (ReplyText (text_of (response_text [] (RespProcessing (from_counter 1)))))"
    by (simp add: demo_bus_def demo_client_def)
  have session: "response_session (RespProcessing (from_counter 1)) = from_counter 1"
    by (simp add: response_session_def)
  from stop_wait_reports_its_session[OF clock reply session refl disjI1[OF refl]]
  show ?thesis by (auto simp: demo_client_def)
qed

end
