(* ===== verification/Shortcuts.thy ===== *)
theory Shortcuts
  imports Str Vox_Error "HOL-Library.List_Lexorder" "HOL-Library.Char_ord"
begin

text \<open>
  The diagnosis of the global shortcuts by the command line (src/bin/voxtype.rs): the expected
  shortcuts, what the desktop's shortcut service answers about each, the owners of a key that
  conflict with it, and the names of keys as Qt numbers them.
\<close>

unbundle bit_operations_syntax

section \<open>Names of keys\<close>

definition shift_modifier :: "32 word" where "shift_modifier = 0x02000000"
definition ctrl_modifier :: "32 word" where "ctrl_modifier = 0x04000000"
definition alt_modifier :: "32 word" where "alt_modifier = 0x08000000"
definition meta_modifier :: "32 word" where "meta_modifier = 0x10000000"
definition keypad_modifier :: "32 word" where "keypad_modifier = 0x20000000"

definition all_modifiers :: "32 word" where
  "all_modifiers =
     shift_modifier OR ctrl_modifier OR alt_modifier OR meta_modifier OR keypad_modifier"

text \<open>The modifiers in the order in which they are printed.\<close>

definition modifier_names :: "(32 word \<times> string) list" where
  "modifier_names =
     [(meta_modifier, ''Meta''), (ctrl_modifier, ''Ctrl''), (alt_modifier, ''Alt''),
      (shift_modifier, ''Shift''), (keypad_modifier, ''Keypad'')]"

definition named_keys :: "(nat \<times> string) list" where
  "named_keys =
     [(0x01000000, ''Escape''), (0x01000001, ''Tab''), (0x01000002, ''Backtab''),
      (0x01000003, ''Backspace''), (0x01000004, ''Return''), (0x01000005, ''Enter''),
      (0x01000006, ''Insert''), (0x01000007, ''Delete''), (0x01000010, ''Home''),
      (0x01000011, ''End''), (0x01000012, ''Left''), (0x01000013, ''Up''), (0x01000014, ''Right''),
      (0x01000015, ''Down''), (0x01000016, ''PageUp''), (0x01000017, ''PageDown''),
      (0x20, ''Space'')]"

definition hex_digit_upper :: "nat \<Rightarrow> char" where
  "hex_digit_upper d = (if d < 10 then char_of (48 + d) else char_of (55 + d))"

text \<open>Eight hexadecimal digits, the most significant first.\<close>

definition hex8 :: "nat \<Rightarrow> string" where
  "hex8 n = map (\<lambda>i. hex_digit_upper (n div 16 ^ i mod 16)) [7, 6, 5, 4, 3, 2, 1, 0]"

definition format_qt_key :: "32 word \<Rightarrow> string" where
  "format_qt_key key =
     (let k = unat key
      in case map_of named_keys k of
           Some name \<Rightarrow> name
         | None \<Rightarrow>
             if 0x01000030 \<le> k \<and> k \<le> 0x01000052 then ''F'' @ show_nat (k - 0x01000030 + 1)
             else if 0x21 \<le> k \<and> k \<le> 0x7E then [char_of k]
             else ''Key(0x'' @ hex8 k @ '')'')"

definition format_qt_shortcut :: "32 word \<Rightarrow> string" where
  "format_qt_shortcut v =
     join_elem CHR ''+''
       (map snd (filter (\<lambda>(m, _). v AND m \<noteq> 0) modifier_names) @
        [format_qt_key (v AND NOT all_modifiers)])"

definition format_shortcuts :: "32 word list \<Rightarrow> string" where
  "format_shortcuts ks =
     (if ks = [] then ''none'' else join_elem CHR ''|'' (map format_qt_shortcut ks))"

section \<open>Diagnosis\<close>

text \<open>
  The eight values by which the service describes a shortcut: the action and its component with
  their display names, the context with its name, the keys and the default keys.
\<close>

record shortcut_info =
  si_action :: string
  si_action_name :: string
  si_component :: string
  si_component_name :: string
  si_context :: string
  si_context_name :: string
  si_current :: "32 word list"
  si_default :: "32 word list"

record expected_shortcut =
  ex_label :: string
  ex_component_path :: string
  ex_component_id :: string
  ex_action_id :: string

definition voxtype_component :: "string \<Rightarrow> string \<Rightarrow> expected_shortcut" where
  "voxtype_component label action =
     \<lparr> ex_label = label, ex_component_path = ''/component/io_github_tinnci_VoxType_desktop'',
       ex_component_id = ''io.github.tinnci.VoxType.desktop'', ex_action_id = action \<rparr>"

definition expected_shortcuts :: "expected_shortcut list" where
  "expected_shortcuts =
     [voxtype_component ''toggle'' ''_launch'', voxtype_component ''cancel'' ''Cancel'',
      voxtype_component ''start'' ''Start'', voxtype_component ''stop'' ''Stop'',
      \<lparr> ex_label = ''grammar'',
        ex_component_path = ''/component/io_github_tinnci_VoxType_Grammar_desktop'',
        ex_component_id = ''io.github.tinnci.VoxType.Grammar.desktop'',
        ex_action_id = ''_launch'' \<rparr>]"

datatype shortcut_state =
  ShortcutOk | MissingComponent | MissingAction | Inactive | Unbound | Conflict

fun shortcut_state_str :: "shortcut_state \<Rightarrow> string" where
  "shortcut_state_str ShortcutOk = ''ok''"
| "shortcut_state_str MissingComponent = ''missing-component''"
| "shortcut_state_str MissingAction = ''missing-action''"
| "shortcut_state_str Inactive = ''inactive''"
| "shortcut_state_str Unbound = ''unbound''"
| "shortcut_state_str Conflict = ''conflict''"

record shortcut_diagnostic =
  sd_label :: string
  sd_state :: shortcut_state
  sd_current :: "32 word list"
  sd_defaults :: "32 word list"
  sd_conflicts :: "string list"

text \<open>What the shortcut service answers; every call may fail.\<close>

record shortcut_service =
  sv_connect :: "string option"
  sv_components :: "string + string list"
  sv_proxy :: "string \<Rightarrow> string option"
  sv_active :: "string \<Rightarrow> string + bool"
  sv_infos :: "string \<Rightarrow> string + shortcut_info list"
  sv_owners :: "32 word \<Rightarrow> string + shortcut_info list"

definition bound_shortcuts :: "32 word list \<Rightarrow> 32 word list" where
  "bound_shortcuts ks = filter (\<lambda>k. k \<noteq> 0) ks"

definition classify_shortcut :: "bool \<Rightarrow> 32 word list \<Rightarrow> string list \<Rightarrow> shortcut_state" where
  "classify_shortcut active current conflicts =
     (if \<not> active then Inactive else if conflicts \<noteq> [] then Conflict
      else if current = [] then Unbound else ShortcutOk)"

definition other_shortcut_owners ::
  "shortcut_info list \<Rightarrow> string \<Rightarrow> string \<Rightarrow> 32 word \<Rightarrow> string list" where
  "other_shortcut_owners owners component action key =
     map (\<lambda>i. si_component i @ '':'' @ si_action i @ ''@'' @ format_qt_shortcut key)
       (filter (\<lambda>i. si_component i \<noteq> component \<or> si_action i \<noteq> action) owners)"

definition diagnostic_without_keys :: "expected_shortcut \<Rightarrow> shortcut_state \<Rightarrow> shortcut_diagnostic" where
  "diagnostic_without_keys e st =
     \<lparr> sd_label = ex_label e, sd_state = st, sd_current = [], sd_defaults = [], sd_conflicts = [] \<rparr>"

text \<open>The conflicts of the keys, asked one after the other until a call fails.\<close>

fun collect_conflicts :: "shortcut_service \<Rightarrow> expected_shortcut \<Rightarrow> 32 word list \<Rightarrow> string + string list" where
  "collect_conflicts K e [] = Inr []"
| "collect_conflicts K e (key # keys) =
     (case sv_owners K key of
        Inl err \<Rightarrow> Inl err
      | Inr owners \<Rightarrow>
          map_sum id (\<lambda>rest. other_shortcut_owners owners (ex_component_id e) (ex_action_id e) key @ rest)
            (collect_conflicts K e keys))"

definition diagnose_shortcut ::
  "shortcut_service \<Rightarrow> string list \<Rightarrow> expected_shortcut \<Rightarrow> string + shortcut_diagnostic" where
  "diagnose_shortcut K components e =
     (let path = ex_component_path e
      in if path \<notin> set components then Inr (diagnostic_without_keys e MissingComponent)
         else case sv_proxy K path of
           Some err \<Rightarrow> Inl err
         | None \<Rightarrow>
         (case sv_active K path of
            Inl err \<Rightarrow> Inl err
          | Inr active \<Rightarrow>
          (case sv_infos K path of
             Inl err \<Rightarrow> Inl err
           | Inr infos \<Rightarrow>
           (case find (\<lambda>i. si_action i = ex_action_id e) infos of
              None \<Rightarrow> Inr (diagnostic_without_keys e MissingAction)
            | Some info \<Rightarrow>
                (let current = bound_shortcuts (si_current info);
                     defaults = bound_shortcuts (si_default info)
                 in map_sum id
                      (\<lambda>found.
                         let conflicts = remdups_adj (sort found)
                         in \<lparr> sd_label = ex_label e,
                              sd_state = classify_shortcut active current conflicts,
                              sd_current = current, sd_defaults = defaults,
                              sd_conflicts = conflicts \<rparr>)
                      (collect_conflicts K e (if current = [] then defaults else current)))))))"

fun diagnose_all ::
  "shortcut_service \<Rightarrow> string list \<Rightarrow> expected_shortcut list \<Rightarrow> string + shortcut_diagnostic list" where
  "diagnose_all K components [] = Inr []"
| "diagnose_all K components (e # es) =
     (case diagnose_shortcut K components e of
        Inl err \<Rightarrow> Inl err
      | Inr d \<Rightarrow> map_sum id (Cons d) (diagnose_all K components es))"

definition kglobalaccel_diagnostics :: "shortcut_service \<Rightarrow> string + shortcut_diagnostic list" where
  "kglobalaccel_diagnostics K =
     (case sv_connect K of
        Some e \<Rightarrow> Inl e
      | None \<Rightarrow>
          (case sv_components K of
             Inl e \<Rightarrow> Inl e
           | Inr components \<Rightarrow> diagnose_all K components expected_shortcuts))"

definition overall_shortcuts :: "shortcut_diagnostic list \<Rightarrow> string" where
  "overall_shortcuts ds =
     (if list_ex (\<lambda>d. sd_state d = Conflict) ds then ''conflict''
      else if list_all (\<lambda>d. sd_state d = ShortcutOk) ds then ''ok'' else ''incomplete'')"

definition diagnostic_line :: "shortcut_diagnostic \<Rightarrow> string" where
  "diagnostic_line d =
     ''shortcut.'' @ sd_label d @ ''='' @ shortcut_state_str (sd_state d) @
     '' current='' @ format_shortcuts (sd_current d) @
     '' default='' @ format_shortcuts (sd_defaults d) @
     (if sd_conflicts d = [] then [] else '' conflicts='' @ join_elem CHR '','' (sd_conflicts d))"

text \<open>The lines that the diagnosis prints.\<close>

definition shortcut_lines :: "shortcut_service \<Rightarrow> string list" where
  "shortcut_lines K =
     (case kglobalaccel_diagnostics K of
        Inl e \<Rightarrow> [''shortcut.kglobalaccel=unavailable'', ''shortcut.error='' @ e]
      | Inr ds \<Rightarrow> (''shortcut.kglobalaccel='' @ overall_shortcuts ds) # map diagnostic_line ds)"

end
