(* ===== verification/Shortcuts_Props.thy ===== *)
theory Shortcuts_Props
  imports Shortcuts
begin

text \<open>
  What the diagnosis of the shortcuts guarantees: the printed name of a shortcut determines it, and
  a shortcut is reported as working exactly when it is active, bound, and nobody else owns its keys.
\<close>

section \<open>Names of keys\<close>

definition hex_value_upper :: "char \<Rightarrow> nat" where
  "hex_value_upper c = (let n = of_char c in if n < 58 then n - 48 else n - 55)"

lemma upper_hex_value_digit: "d < 16 \<Longrightarrow> hex_value_upper (hex_digit_upper d) = d"
  by (auto simp: hex_value_upper_def hex_digit_upper_def Let_def)

lemma hex_step: "16 * (n div 16 ^ Suc i) + n div 16 ^ i mod 16 = (n div 16 ^ i :: nat)"
  by (metis div_mult2_eq mult_div_mod_eq power_Suc2)

lemma hex8_value:
  assumes "n < 2 ^ 32"
  shows "fold (\<lambda>c v. 16 * v + hex_value_upper c) (hex8 n) 0 = n"
proof -
  have top: "n div 16 ^ 7 mod 16 = n div 16 ^ 7"
    using assms by (simp add: div_less_iff_less_mult)
  have "fold (\<lambda>c v. 16 * v + hex_value_upper c) (hex8 n) 0 =
      16 * (16 * (16 * (16 * (16 * (16 * (16 * (n div 16 ^ 7 mod 16) + n div 16 ^ 6 mod 16) +
        n div 16 ^ 5 mod 16) + n div 16 ^ 4 mod 16) + n div 16 ^ 3 mod 16) + n div 16 ^ 2 mod 16) +
        n div 16 ^ 1 mod 16) + n div 16 ^ 0 mod 16"
    by (simp only: hex8_def list.map fold_simps upper_hex_value_digit mod_less_divisor zero_less_numeral
        mult_0_right add_0)
  also have "\<dots> = 16 * (n div 16 ^ Suc 0) + n div 16 ^ 0 mod 16"
    unfolding top
    using hex_step[of n 6] hex_step[of n 5] hex_step[of n 4] hex_step[of n 3] hex_step[of n 2]
      hex_step[of n 1] by (simp only: numeral_eq_Suc pred_numeral_simps BitM.simps One_nat_def)
  also have "\<dots> = n" unfolding hex_step by simp
  finally show ?thesis .
qed

text \<open>The key of a name, read back.\<close>

definition key_of_name :: "string \<Rightarrow> nat" where
  "key_of_name s =
     (case map_of (map prod.swap named_keys) s of
        Some k \<Rightarrow> k
      | None \<Rightarrow>
          if length s = 1 then of_char (hd s)
          else if hd s = CHR ''F'' then the (digits_value (tl s) 0) - 1 + 0x01000030
          else fold (\<lambda>c v. 16 * v + hex_value_upper c) (take 8 (drop 6 s)) 0)"

lemma map_of_swap:
  "map_of m k = Some v \<Longrightarrow> distinct (map snd m) \<Longrightarrow> map_of (map prod.swap m) v = Some k"
proof (induction m)
  case (Cons p m)
  then show ?case
    by (cases p) (use map_of_SomeD[of m k v] in \<open>force split: if_splits\<close>)
qed simp

lemma distinct_names: "distinct (map snd named_keys)"
  by (simp add: named_keys_def)

lemma named_key: "map_of named_keys k = Some name \<Longrightarrow> key_of_name name = k"
  using map_of_swap[OF _ distinct_names] by (simp add: key_of_name_def)

lemma show_nat_not_name:
  "map_of (map prod.swap named_keys) (CHR ''F'' # s) = None"
  "map_of (map prod.swap named_keys) [c] = None"
  "map_of (map prod.swap named_keys) (CHR ''K'' # s) = None"
  by (simp_all add: named_keys_def)

lemma key_of_name_format: "key_of_name (format_qt_key key) = unat key"
proof -
  let ?k = "unat key"
  have bound: "?k < 2 ^ 32" using unat_lt_length[of key] by simp
  consider (named) name where "map_of named_keys ?k = Some name"
    | (fkey) "map_of named_keys ?k = None" "0x01000030 \<le> ?k \<and> ?k \<le> 0x01000052"
    | (printed) "map_of named_keys ?k = None" "\<not> (0x01000030 \<le> ?k \<and> ?k \<le> 0x01000052)"
        "0x21 \<le> ?k \<and> ?k \<le> 0x7E"
    | (other) "map_of named_keys ?k = None" "\<not> (0x01000030 \<le> ?k \<and> ?k \<le> 0x01000052)"
        "\<not> (0x21 \<le> ?k \<and> ?k \<le> 0x7E)"
    by blast
  then show ?thesis
  proof cases
    case named
    then show ?thesis using named_key by (simp add: format_qt_key_def Let_def)
  next
    case fkey
    then have "format_qt_key key = CHR ''F'' # show_nat (?k - 0x01000030 + 1)"
      by (simp add: format_qt_key_def Let_def)
    then show ?thesis
      using fkey(2) show_nat_not_name(1) digits_value_show_nat[of "?k - 0x01000030 + 1"]
      by (simp add: key_of_name_def del: show_nat.simps)
  next
    case printed
    then have "format_qt_key key = [char_of ?k]" by (simp add: format_qt_key_def Let_def)
    then show ?thesis using printed(3) show_nat_not_name(2)[of "char_of ?k"] by (simp add: key_of_name_def)
  next
    case other
    then have "format_qt_key key = ''Key(0x'' @ hex8 ?k @ '')''"
      by (simp add: format_qt_key_def Let_def)
    moreover have "length (hex8 ?k) = 8" by (simp add: hex8_def)
    ultimately show ?thesis
      using show_nat_not_name(3) hex8_value[OF bound] by (simp add: key_of_name_def)
  qed
qed

section \<open>Modifiers\<close>

lemma join_pieces: "join_elem z (ns @ [k]) = concat (map (\<lambda>n. n @ [z]) ns) @ k"
proof (induction ns)
  case (Cons n ns)
  then show ?case by (cases ns) simp_all
qed simp

text \<open>The chosen names, each with the separator.\<close>

definition chosen :: "'a \<Rightarrow> ('a list \<times> bool) list \<Rightarrow> 'a list" where
  "chosen z xs = concat (map (\<lambda>(t, b). if b then t @ [z] else []) xs)"

lemma chosen_simps [simp]:
  "chosen z [] = []" "chosen z ((t, b) # xs) = (if b then t @ z # chosen z xs else chosen z xs)"
  by (simp_all add: chosen_def)

lemma takeWhile_before: "z \<notin> set p \<Longrightarrow> takeWhile (\<lambda>c. c \<noteq> z) (p @ z # rest) = p"
  by (induction p) auto

lemma first_chosen:
  assumes "chosen z xs @ k = t @ z # rest" and "z \<notin> set t" and "t \<noteq> []"
    and "\<forall>p \<in> set xs. z \<notin> set (fst p)" and "z \<notin> set k \<or> k = [z]"
  shows "t \<in> fst ` set xs"
  using assms(1,4)
proof (induction xs)
  case Nil
  then show ?case using assms(2,3,5) by (cases t) auto
next
  case (Cons p xs)
  obtain n b where p: "p = (n, b)" by (cases p)
  show ?case
  proof (cases b)
    case True
    then have "n @ z # (chosen z xs @ k) = t @ z # rest" using Cons.prems(1) p by simp
    moreover have "z \<notin> set n" using Cons.prems(2) p by simp
    ultimately have "n = t" using assms(2) takeWhile_before[of z] by metis
    then show ?thesis using p by simp
  next
    case False
    then show ?thesis using Cons p by auto
  qed
qed

lemma chosen_inject:
  assumes "chosen z xs @ k = chosen z ys @ l" and "map fst xs = map fst ys"
    and "distinct (map fst xs)" and "\<forall>p \<in> set xs. z \<notin> set (fst p) \<and> fst p \<noteq> []"
    and "z \<notin> set k \<or> k = [z]" and "z \<notin> set l \<or> l = [z]"
  shows "xs = ys \<and> k = l"
  using assms(1-4)
proof (induction xs arbitrary: ys)
  case Nil
  then show ?case by simp
next
  case (Cons p xs)
  obtain t b where p: "p = (t, b)" by (cases p)
  obtain c ys' where ys: "ys = (t, c) # ys'" "map fst xs = map fst ys'"
    using Cons.prems(2) p by (cases ys) auto
  have "\<forall>n \<in> set (map fst xs). z \<notin> set n" using Cons.prems(4) by simp
  then have names: "\<forall>n \<in> set (map fst ys'). z \<notin> set n" unfolding ys(2) .
  then have names': "\<forall>q \<in> set ys'. z \<notin> set (fst q)" by simp
  have t: "t \<notin> fst ` set xs" "t \<notin> fst ` set ys'" "z \<notin> set t" "t \<noteq> []"
    "\<forall>q \<in> set xs. z \<notin> set (fst q)" "\<forall>q \<in> set ys'. z \<notin> set (fst q)"
    using Cons.prems p ys(2) names' by (auto simp flip: set_map)
  have "b = c"
  proof (rule ccontr)
    assume "b \<noteq> c"
    then consider "b" "\<not> c" | "\<not> b" "c" by blast
    then show False
    proof cases
      case 1
      then have "chosen z ys' @ l = t @ z # (chosen z xs @ k)" using Cons.prems(1) p ys by simp
      from first_chosen[OF this t(3,4,6) assms(6)] t(2) show False by blast
    next
      case 2
      then have "chosen z xs @ k = t @ z # (chosen z ys' @ l)" using Cons.prems(1) p ys by simp
      from first_chosen[OF this t(3,4,5) assms(5)] t(1) show False by blast
    qed
  qed
  moreover from this have "chosen z xs @ k = chosen z ys' @ l"
    using Cons.prems(1) p ys by (auto split: if_splits)
  then have "xs = ys' \<and> k = l" using Cons.IH[of ys'] Cons.prems p ys(2) by auto
  ultimately show ?case using p ys by simp
qed

definition modifier_choice :: "32 word \<Rightarrow> (string \<times> bool) list" where
  "modifier_choice v = map (\<lambda>(m, n). (n, v AND m \<noteq> 0)) modifier_names"

lemma format_chosen:
  "format_qt_shortcut v = chosen CHR ''+'' (modifier_choice v) @ format_qt_key (v AND NOT all_modifiers)"
  by (simp add: format_qt_shortcut_def join_pieces modifier_choice_def modifier_names_def)

lemma plus_key: "CHR ''+'' \<notin> set (format_qt_key key) \<or> format_qt_key key = ''+''"
proof -
  have "CHR ''+'' \<notin> set name" if "map_of named_keys k = Some name" for k name
  proof -
    have "list_all (\<lambda>p. CHR ''+'' \<notin> set (snd p)) named_keys" by (simp add: named_keys_def)
    then show ?thesis using map_of_SomeD[OF that] by (auto simp: list_all_iff)
  qed
  moreover have "CHR ''+'' \<notin> set (show_nat n)" for n
    using show_nat_digits[of "CHR ''+''" n] by auto
  moreover have "CHR ''+'' \<notin> set (hex8 n)" for n
  proof -
    have "hex_digit_upper d \<noteq> CHR ''+''" if "d < 16" for d
      using that by (auto simp: hex_digit_upper_def char_of_eq_iff take_bit_eq_mod)
    then show ?thesis by (simp add: hex8_def) (metis mod_less_divisor zero_less_numeral)
  qed
  ultimately show ?thesis
    by (auto simp: format_qt_key_def Let_def split: option.splits)
qed

lemma modifier_bits:
  "shift_modifier = 2 ^ 25" "ctrl_modifier = 2 ^ 26" "alt_modifier = 2 ^ 27" "meta_modifier = 2 ^ 28"
  "keypad_modifier = 2 ^ 29"
  by (simp_all add: shift_modifier_def ctrl_modifier_def alt_modifier_def meta_modifier_def
      keypad_modifier_def)

lemma modifier_test:
  "v AND shift_modifier \<noteq> 0 \<longleftrightarrow> bit v 25" "v AND ctrl_modifier \<noteq> 0 \<longleftrightarrow> bit v 26"
  "v AND alt_modifier \<noteq> 0 \<longleftrightarrow> bit v 27" "v AND meta_modifier \<noteq> 0 \<longleftrightarrow> bit v 28"
  "v AND keypad_modifier \<noteq> 0 \<longleftrightarrow> bit v 29"
  by (simp_all only: modifier_bits and_exp_eq_0_iff_not_bit not_not)

lemma word_from_parts:
  fixes a b :: "32 word"
  assumes "modifier_choice a = modifier_choice b" and "a AND NOT all_modifiers = b AND NOT all_modifiers"
  shows "a = b"
proof (rule bit_word_eqI)
  fix n assume n: "n < LENGTH(32)"
  have mods: "bit a j \<longleftrightarrow> bit b j" if "j \<in> {25, 26, 27, 28, 29}" for j
    using assms(1) that by (auto simp: modifier_choice_def modifier_names_def modifier_test)
  show "bit a n \<longleftrightarrow> bit b n"
  proof (cases "n \<in> {25, 26, 27, 28, 29}")
    case True
    then show ?thesis by (rule mods)
  next
    case False
    then have "\<not> bit all_modifiers n"
      by (simp only: all_modifiers_def modifier_bits bit_or_iff bit_exp_iff) auto
    moreover have "bit (a AND NOT all_modifiers) n = bit (b AND NOT all_modifiers) n"
      by (simp only: assms(2))
    ultimately show ?thesis using n by (simp add: bit_and_iff bit_not_iff)
  qed
qed

section \<open>Diagnosis\<close>

lemma other_owners_none:
  "other_shortcut_owners owners c a key = [] \<longleftrightarrow>
     (\<forall>i \<in> set owners. si_component i = c \<and> si_action i = a)"
  by (simp add: other_shortcut_owners_def filter_empty_conv)

lemma collect_conflicts_none:
  "collect_conflicts K e keys = Inr found \<Longrightarrow>
     found = [] \<longleftrightarrow> (\<forall>key \<in> set keys. \<exists>owners. sv_owners K key = Inr owners \<and>
       (\<forall>i \<in> set owners. si_component i = ex_component_id e \<and> si_action i = ex_action_id e))"
proof (induction keys arbitrary: found)
  case (Cons key keys)
  obtain owners where owners: "sv_owners K key = Inr owners"
    using Cons.prems by (cases "sv_owners K key") simp_all
  obtain rest where rest: "collect_conflicts K e keys = Inr rest"
    using Cons.prems owners by (cases "collect_conflicts K e keys") simp_all
  show ?case using Cons.prems Cons.IH[OF rest] owners rest other_owners_none by auto
qed simp

text \<open>
  A shortcut is reported as working exactly when its component is registered and active, its action
  exists with a key of its own, and the service names no other owner of any of its keys.
\<close>

theorem working_shortcut:
  assumes "diagnose_shortcut K components e = Inr d"
  shows "sd_state d = ShortcutOk \<longleftrightarrow>
     ex_component_path e \<in> set components \<and> sv_active K (ex_component_path e) = Inr True \<and>
     (\<exists>infos info. sv_infos K (ex_component_path e) = Inr infos \<and>
        find (\<lambda>i. si_action i = ex_action_id e) infos = Some info \<and>
        bound_shortcuts (si_current info) \<noteq> [] \<and>
        (\<forall>key \<in> set (bound_shortcuts (si_current info)). \<exists>owners. sv_owners K key = Inr owners \<and>
           (\<forall>i \<in> set owners. si_component i = ex_component_id e \<and> si_action i = ex_action_id e)))"
proof (cases "ex_component_path e \<in> set components")
  case False
  then show ?thesis using assms by (auto simp: diagnose_shortcut_def diagnostic_without_keys_def)
next
  case True
  then obtain active infos where a: "sv_active K (ex_component_path e) = Inr active"
    "sv_infos K (ex_component_path e) = Inr infos" "sv_proxy K (ex_component_path e) = None"
    using assms
    by (cases "sv_proxy K (ex_component_path e)"; cases "sv_active K (ex_component_path e)";
        cases "sv_infos K (ex_component_path e)") (simp_all add: diagnose_shortcut_def Let_def)
  show ?thesis
  proof (cases "find (\<lambda>i. si_action i = ex_action_id e) infos")
    case None
    then show ?thesis using assms True a
      by (auto simp: diagnose_shortcut_def diagnostic_without_keys_def)
  next
    case (Some info)
    let ?keys = "if bound_shortcuts (si_current info) = [] then bound_shortcuts (si_default info)
        else bound_shortcuts (si_current info)"
    obtain found where found: "collect_conflicts K e ?keys = Inr found"
      using assms True a Some
      by (cases "collect_conflicts K e ?keys") (simp_all add: diagnose_shortcut_def Let_def)
    then have "d = \<lparr> sd_label = ex_label e,
        sd_state = classify_shortcut active (bound_shortcuts (si_current info)) (remdups_adj (sort found)),
        sd_current = bound_shortcuts (si_current info),
        sd_defaults = bound_shortcuts (si_default info), sd_conflicts = remdups_adj (sort found) \<rparr>"
      using assms True a Some by (simp add: diagnose_shortcut_def Let_def)
    moreover have "remdups_adj (sort found) = [] \<longleftrightarrow> found = []"
      by (metis remdups_adj_set set_empty set_sort)
    ultimately show ?thesis
      using True a Some collect_conflicts_none[OF found] by (auto simp: classify_shortcut_def)
  qed
qed

section \<open>Properties\<close>

lemma format_injective:
  assumes "format_qt_shortcut a = format_qt_shortcut b"
  shows "a = b"
proof -
  have names: "map fst (modifier_choice a) = map fst (modifier_choice b)"
    and distinct: "distinct (map fst (modifier_choice a))"
    and plain: "\<forall>p \<in> set (modifier_choice a). CHR ''+'' \<notin> set (fst p) \<and> fst p \<noteq> []"
    by (simp_all add: modifier_choice_def modifier_names_def)
  from chosen_inject[OF assms[unfolded format_chosen] names distinct plain plus_key plus_key]
  have "modifier_choice a = modifier_choice b \<and>
      format_qt_key (a AND NOT all_modifiers) = format_qt_key (b AND NOT all_modifiers)" .
  then show ?thesis
    using word_from_parts key_of_name_format by (metis word_unat_eq_iff)
qed

text \<open>
  The printed name of a shortcut determines it: two shortcuts, of any modifiers and any key
  number, are printed alike only when they are the same.
\<close>

theorem shortcut_names_differ: "format_qt_shortcut a = format_qt_shortcut b \<longleftrightarrow> a = b"
  using format_injective by blast

end
