(* ===== verification/Tray.thy ===== *)
theory Tray
  imports Client Json
begin

text \<open>
  The tray icon (src/bin/voxtype-tray.rs): what it shows for each state of the daemon, its menu and
  the actions of the menu, the summary of the usage, the signals that announce a change, and the
  messages of the thread that watches the daemon. The D-Bus client is that of theory Client; the
  processes that the tray starts are recorded with their arguments.
\<close>

section \<open>Presentation\<close>

record tray_presentation =
  tp_daemon_state :: utext
  tp_status :: string
  tp_icon_name :: string

definition presentation_active :: "utext \<Rightarrow> string \<Rightarrow> tray_presentation" where
  "presentation_active state icon =
     \<lparr> tp_daemon_state = state, tp_status = ''Active'', tp_icon_name = icon \<rparr>"

definition presentation_attention :: "utext \<Rightarrow> string \<Rightarrow> tray_presentation" where
  "presentation_attention state icon =
     \<lparr> tp_daemon_state = state, tp_status = ''NeedsAttention'', tp_icon_name = icon \<rparr>"

definition from_daemon_status :: "utext \<Rightarrow> tray_presentation" where
  "from_daemon_status status =
     (let is = (\<lambda>name. status = text_of name)
      in if is ''preparing'' then presentation_active status ''microphone-sensitivity-medium''
         else if is ''listening'' then presentation_attention status ''microphone-sensitivity-high''
         else if is ''finalizing'' then presentation_active status ''content-loading''
         else if is ''inserting'' then presentation_active status ''insert-text''
         else if is ''completed'' then presentation_active status ''emblem-default''
         else if is ''cancelled'' then presentation_active status ''process-stop''
         else if is ''failed'' \<or> is ''unavailable'' then presentation_attention status ''dialog-error''
         else presentation_active status ''audio-input-microphone'')"

definition is_busy :: "tray_presentation \<Rightarrow> bool" where
  "is_busy p \<longleftrightarrow>
     tp_daemon_state p \<in>
       text_of ` {''preparing'', ''listening'', ''finalizing'', ''inserting''}"

definition menu_item_enabled :: "int \<Rightarrow> tray_presentation \<Rightarrow> bool" where
  "menu_item_enabled item p =
     (if item = 1 then tp_daemon_state p \<noteq> text_of ''unavailable'' \<and> \<not> is_busy p
      else if item = 2 then tp_daemon_state p = text_of ''listening''
      else if item = 3 then is_busy p
      else True)"

section \<open>Usage\<close>

text \<open>The text of a JSON key, whose characters are the bytes of its UTF-8 form.\<close>

definition key_text :: "string \<Rightarrow> utext" where
  "key_text k = (case utf8_decode (map of_char k) of None \<Rightarrow> [] | Some t \<Rightarrow> t)"

definition format_audio_duration :: "64 word \<Rightarrow> utext" where
  "format_audio_duration millis =
     text_of (show_nat (unat millis div 1000) @ ''.'' @ show_nat (unat millis mod 1000 div 100) @ ''s'')"

definition usage_label :: utext where
  "usage_label = [0x7528, 0x91CF]"

text \<open>Reading a member of a value, which is null when it is absent.\<close>

definition json_member :: "string \<Rightarrow> json \<Rightarrow> json" where
  "json_member k v = (case json_get k v of None \<Rightarrow> JNull | Some x \<Rightarrow> x)"

definition member_count :: "string \<Rightarrow> json \<Rightarrow> 64 word" where
  "member_count k v = (case json_as_u64 (json_member k v) of None \<Rightarrow> 0 | Some n \<Rightarrow> n)"

definition usage_entry :: "string \<times> json \<Rightarrow> utext" where
  "usage_entry e =
     (let usage = json_member ''usage'' (snd e);
          dot = [0x20, 0xB7, 0x20];
          head = key_text (fst e) @ text_of '': '' @
            text_of (show_nat (unat (member_count ''requests'' usage))) @ [0x20, 0x6B21] @ dot @
            format_audio_duration (member_count ''audio_millis'' usage) @ dot
      in if member_count ''token_reports'' usage > 0
         then head @ text_of (show_nat (unat (member_count ''reported_tokens'' usage)) @ '' token'')
         else head @ text_of ''token '' @ [0x672A, 0x62A5, 0x544A])"

definition usage_unreadable :: utext where
  "usage_unreadable = usage_label @ [0xFF1A, 0x6570, 0x636E, 0x4E0D, 0x53EF, 0x7528]"

fun join_texts :: "utext \<Rightarrow> utext list \<Rightarrow> utext" where
  "join_texts z [] = []"
| "join_texts z [p] = p"
| "join_texts z (p # ps) = p @ z @ join_texts z ps"

definition usage_summary :: "(utext \<Rightarrow> json option) \<Rightarrow> utext \<Rightarrow> utext" where
  "usage_summary parse status =
     (case parse status of
        None \<Rightarrow> usage_unreadable
      | Some v \<Rightarrow>
          (case json_get ''providers'' v of
             Some (JObject []) \<Rightarrow> usage_label @ [0xFF1A, 0x65E0, 0x20] @ text_of ''Provider''
           | Some (JObject entries) \<Rightarrow>
               usage_label @ [0xFF08, 0x672C, 0x6B21, 0x20] @ text_of ''daemon '' @
               [0x4F1A, 0x8BDD, 0xFF09, 0xFF1A] @ join_texts [0xFF1B] (map usage_entry entries)
           | _ \<Rightarrow> usage_unreadable))"

section \<open>Actions\<close>

text \<open>The client with the presentation, the processes that were started and the emitted signals.\<close>

datatype tray_signal =
    StatusChanged
  | NewStatus string
  | IconNameChanged
  | NewIcon
  | LayoutUpdated nat nat

record tray = client +
  ty_presentation :: tray_presentation
  ty_spawned :: "(string \<times> utext list) list"
  ty_signals :: "tray_signal list"

text \<open>
  The answers of the bus and of the system: a connection may fail before any call, a process may not
  start, a signal may not be emitted.
\<close>

record tray_world =
  tw_bus :: bus_world
  tw_connect :: "nat \<Rightarrow> string option"
  tw_spawn :: "string \<Rightarrow> string option"
  tw_emit :: "tray_signal \<Rightarrow> string option"
  tw_parse :: "utext \<Rightarrow> json option"

type_synonym 'a tray_op = "(tray, string, 'a) eff"

definition with_client :: "tray_world \<Rightarrow> 'a tray_op \<Rightarrow> 'a tray_op" where
  "with_client T operation s =
     (case tw_connect T (length (cl_calls s)) of
        Some e \<Rightarrow> (Inl e, s) | None \<Rightarrow> operation s)"

definition spawn :: "string \<Rightarrow> utext list \<Rightarrow> tray \<Rightarrow> tray" where
  "spawn program arguments s = s\<lparr> ty_spawned := ty_spawned s @ [(program, arguments)] \<rparr>"

definition notify_send :: "string \<Rightarrow> utext \<Rightarrow> tray \<Rightarrow> tray" where
  "notify_send title body =
     spawn ''notify-send'' [text_of ''--app-name=VoxType'', text_of title, body]"

definition run_action :: "tray_world \<Rightarrow> string \<Rightarrow> 'a tray_op \<Rightarrow> tray \<Rightarrow> tray" where
  "run_action T name operation s =
     (case with_client T operation s of
        (Inl e, s') \<Rightarrow> notify_send ''VoxType'' (text_of (name @ '' failed: '' @ e)) s'
      | (Inr _, s') \<Rightarrow> s')"

definition tray_activate :: "tray_world \<Rightarrow> tray \<Rightarrow> tray" where
  "tray_activate T = run_action T ''Toggle dictation'' (client_toggle (tw_bus T) [])"

definition tray_secondary_activate :: "tray_world \<Rightarrow> tray \<Rightarrow> tray" where
  "tray_secondary_activate T = run_action T ''Cancel dictation'' (client_cancel (tw_bus T) [])"

text \<open>A click on an item of the menu; every other event and a disabled item do nothing.\<close>

definition menu_click :: "tray_world \<Rightarrow> int \<Rightarrow> tray \<Rightarrow> tray" where
  "menu_click T item s =
     (if item = 1 then run_action T ''Start dictation'' (client_start (tw_bus T) []) s
      else if item = 2 then run_action T ''Stop dictation'' (client_stop (tw_bus T) []) s
      else if item = 3 then run_action T ''Cancel dictation'' (client_cancel (tw_bus T) []) s
      else if item = 4 then
        (case tw_spawn T ''voxtype-cleanup'' of
           None \<Rightarrow> spawn ''voxtype-cleanup'' [text_of ''last''] s
         | Some e \<Rightarrow> notify_send ''VoxType'' (text_of (''Could not open text cleanup: '' @ e)) s)
      else if item = 5 then
        (case with_client T (client_usage_status (tw_bus T)) s of
           (Inl _, s') \<Rightarrow> s'
         | (Inr status, s') \<Rightarrow> notify_send ''VoxType usage'' (usage_summary (tw_parse T) status) s')
      else if item = 6 then spawn ''voxtype-settings'' [] s
      else if item = 7 then
        notify_send ''VoxType diagnostics'' (text_of ''Run: voxtype doctor'')
          (case with_client T (client_provider_status (tw_bus T)) s of
             (Inl _, s') \<Rightarrow> s'
           | (Inr status, s') \<Rightarrow> notify_send ''VoxType Provider'' status s')
      else if item = 8 then
        spawn ''systemctl'' [text_of ''--user'', text_of ''stop'', text_of ''voxtype-tray.service''] s
      else s)"

definition menu_event :: "tray_world \<Rightarrow> int \<Rightarrow> string \<Rightarrow> tray \<Rightarrow> tray" where
  "menu_event T item event s =
     (if event \<noteq> ''clicked'' \<or> \<not> menu_item_enabled item (ty_presentation s) then s
      else menu_click T item s)"

section \<open>The menu\<close>

definition menu_labels :: "(int \<times> utext) list" where
  "menu_labels =
     [(1, [0x5F00, 0x59CB, 0x8BED, 0x97F3, 0x8F93, 0x5165]),
      (2, [0x505C, 0x6B62, 0x8BED, 0x97F3, 0x8F93, 0x5165]),
      (3, [0x53D6, 0x6D88, 0x5F53, 0x524D, 0x4EFB, 0x52A1]),
      (4, [0x6574, 0x7406, 0x6700, 0x8FD1, 0x8F93, 0x5165]),
      (6, [0x8BBE, 0x7F6E, 0x4E0E, 0x20] @ text_of ''API'' @ [0x20, 0x5BC6, 0x94A5]),
      (7, [0x8BCA, 0x65AD, 0x72B6, 0x6001]),
      (8, [0x9000, 0x51FA, 0x6258, 0x76D8])]"

text \<open>The items with their labels and whether they are enabled; the fifth shows the usage.\<close>

definition menu_children :: "tray_world \<Rightarrow> tray \<Rightarrow> (int \<times> utext \<times> bool) list \<times> tray" where
  "menu_children T s =
     (case with_client T (client_usage_status (tw_bus T)) s of
        (r, s') \<Rightarrow>
          let usage = (case r of
                         Inl _ \<Rightarrow> usage_label @ [0xFF1A, 0x4E0D, 0x53EF, 0x7528]
                       | Inr status \<Rightarrow> usage_summary (tw_parse T) status);
              label = (\<lambda>item. case map_of menu_labels item of None \<Rightarrow> usage | Some l \<Rightarrow> l)
          in (map (\<lambda>item. (item, label item, menu_item_enabled item (ty_presentation s)))
                [1, 2, 3, 4, 5, 6, 7, 8], s'))"

section \<open>Changes\<close>

definition emit_signal :: "tray_world \<Rightarrow> tray_signal \<Rightarrow> unit tray_op" where
  "emit_signal T x s =
     (case tw_emit T x of
        Some e \<Rightarrow> (Inl e, s) | None \<Rightarrow> (Inr (), s\<lparr> ty_signals := ty_signals s @ [x] \<rparr>))"

definition emit_presentation_change ::
  "tray_world \<Rightarrow> tray_presentation \<Rightarrow> tray_presentation \<Rightarrow> unit tray_op" where
  "emit_presentation_change T previous p =
     seq (if tp_status previous \<noteq> tp_status p
          then seq (emit_signal T StatusChanged) (\<lambda>_. emit_signal T (NewStatus (tp_status p)))
          else give ()) (\<lambda>_.
     seq (if tp_icon_name previous \<noteq> tp_icon_name p
          then seq (emit_signal T IconNameChanged) (\<lambda>_. emit_signal T NewIcon)
          else give ()) (\<lambda>_.
       emit_signal T (LayoutUpdated 1 0)))"

text \<open>What the main loop receives from the thread that watches the daemon, within five seconds.\<close>

datatype tray_message =
    DaemonState utext
  | NoMessage
  | WatcherGone

definition read_presentation :: "tray_world \<Rightarrow> tray \<Rightarrow> tray_presentation \<times> tray" where
  "read_presentation T s =
     (case with_client T (client_status (tw_bus T)) s of
        (Inl _, s') \<Rightarrow> (from_daemon_status (text_of ''unavailable''), s')
      | (Inr status, s') \<Rightarrow> (from_daemon_status status, s'))"

definition tray_round :: "tray_world \<Rightarrow> tray_message \<Rightarrow> unit tray_op" where
  "tray_round T message s =
     (let (p, s1) = (case message of
                       DaemonState state \<Rightarrow> (from_daemon_status state, s)
                     | NoMessage \<Rightarrow> read_presentation T s
                     | WatcherGone \<Rightarrow> (from_daemon_status (text_of ''unavailable''), s));
          previous = ty_presentation s1
      in if previous = p then (Inr (), s1)
         else emit_presentation_change T previous p (s1\<lparr> ty_presentation := p \<rparr>))"

text \<open>The main loop ends at the first signal that cannot be emitted.\<close>

fun tray_rounds :: "(tray_world \<times> tray_message) list \<Rightarrow> unit tray_op" where
  "tray_rounds [] = give ()"
| "tray_rounds ((T, message) # ms) = seq (tray_round T message) (\<lambda>_. tray_rounds ms)"

section \<open>The watching thread\<close>

text \<open>
  One watch of the daemon: the status at first, whether the signals could be subscribed to, and
  the signals up to the end of the connection, each the state with its session or an error.
\<close>

record daemon_watch =
  dw_status :: "string + utext"
  dw_subscribe :: "string option"
  dw_signals :: "(string + utext \<times> utext) list"

fun watched_states :: "(string + utext \<times> utext) list \<Rightarrow> utext list \<times> bool" where
  "watched_states [] = ([], True)"
| "watched_states (Inl e # _) = ([], False)"
| "watched_states (Inr (state, _) # xs) =
     (case watched_states xs of (states, ok) \<Rightarrow> (state # states, ok))"

text \<open>The states that are sent to the main loop, and whether the watch ended without an error.\<close>

definition watch_daemon_once :: "daemon_watch \<Rightarrow> utext list \<times> bool" where
  "watch_daemon_once w =
     (case dw_status w of
        Inl _ \<Rightarrow> ([], False)
      | Inr initial \<Rightarrow>
          (case dw_subscribe w of
             Some _ \<Rightarrow> ([initial], False)
           | None \<Rightarrow>
               (case watched_states (dw_signals w) of (states, ok) \<Rightarrow> (initial # states, ok))))"

definition listen_for_daemon_states :: "daemon_watch list \<Rightarrow> utext list" where
  "listen_for_daemon_states ws =
     concat (map (\<lambda>w. case watch_daemon_once w of
                        (states, ok) \<Rightarrow> states @ (if ok then [] else [text_of ''unavailable''])) ws)"

end
