(* ===== verification/Tray_Props.thy ===== *)
theory Tray_Props
  imports Tray Status
begin

text \<open>
  What the tray guarantees: what its menu offers of what the session machine of the daemon
  accepts, and it announces every change of its presentation once.
\<close>

declare text_of_inject [simp]

lemma presentation_state [simp]: "tp_daemon_state (from_daemon_status t) = t"
  by (simp add: from_daemon_status_def presentation_active_def presentation_attention_def Let_def)

lemma busy_daemon:
  "is_busy (from_daemon_status (text_of (daemon_status d))) \<longleftrightarrow> is_active (dm_state d)"
  by (cases "dm_state d") (simp_all add: is_busy_def daemon_status_def)

lemma listening_daemon:
  "text_of (daemon_status d) = text_of ''listening'' \<longleftrightarrow> (\<exists>s mode. dm_state d = Listening s mode)"
  by (cases "dm_state d") (simp_all add: daemon_status_def)

lemma available_daemon: "text_of (daemon_status d) \<noteq> text_of ''unavailable''"
  by (cases "dm_state d") (simp_all add: daemon_status_def)

text \<open>
  C34: For the status that the daemon reports, the tray enables starting exactly when the session
  machine accepts a start, stopping exactly when it accepts a stop of its session, and cancelling
  exactly while a session is at work. The machine accepts to cancel every session that the menu
  offers to cancel, and besides them only the finished ones, completed, cancelled or failed, whose
  cancellation the menu does not offer.
\<close>

theorem menu_matches_daemon:
  "let p = from_daemon_status (text_of (daemon_status d)); m = dm_machine d
   in (menu_item_enabled 1 p \<longleftrightarrow> (\<forall>request. is_ok (fst (sm_apply (CmdStart request) m)))) \<and>
      (menu_item_enabled 2 p \<longleftrightarrow>
         (\<exists>s. state_session (sm_state m) = Some s \<and> is_ok (fst (sm_apply (CmdStop s) m)))) \<and>
      (menu_item_enabled 3 p \<longleftrightarrow> is_active (sm_state m)) \<and>
      ((\<exists>s. state_session (sm_state m) = Some s \<and> is_ok (fst (sm_apply (CmdCancel s) m))) \<longleftrightarrow>
         menu_item_enabled 3 p \<or> is_terminal (sm_state m))"
proof -
  have "(\<forall>request. is_ok (fst (sm_apply (CmdStart request) (dm_machine d)))) \<longleftrightarrow> \<not> is_active (dm_state d)"
    by (cases "dm_state d") (simp_all add: sm_op_defs Let_def)
  moreover have "(\<exists>s. state_session (dm_state d) = Some s \<and> is_ok (fst (sm_apply (CmdStop s) (dm_machine d))))
      \<longleftrightarrow> (\<exists>s mode. dm_state d = Listening s mode)"
    by (cases "dm_state d") (simp_all add: sm_op_defs Let_def)
  moreover have "(\<exists>s. state_session (dm_state d) = Some s \<and>
      is_ok (fst (sm_apply (CmdCancel s) (dm_machine d)))) \<longleftrightarrow>
      is_active (dm_state d) \<or> is_terminal (dm_state d)"
    by (cases "dm_state d") (simp_all add: sm_op_defs Let_def)
  ultimately show ?thesis
    using busy_daemon[of d] listening_daemon[of d] available_daemon[of d]
    by (simp add: Let_def menu_item_enabled_def)
qed

end
