(* ===== verification/Cli.thy ===== *)
theory Cli
  imports Client Config_Store Fcitx Shortcuts Vad Doubao_Managed
begin

text \<open>
  The command line (src/bin/voxtype.rs): the commands that call the daemon, the probes of the Fcitx
  bridge, the diagnosis, and the commands for the configuration and the secrets. What a command does
  is recorded: the calls of the daemon, the lines that it prints, what it asks of the bridge, the
  recorder and the provider, the files, and the runs of secret-tool. The texts that are printed are
  the bytes of their UTF-8 form.
\<close>

section \<open>The state and the world\<close>

text \<open>What a command does beside calling the daemon.\<close>

datatype cli_action =
    ActProbe
  | ActContext
  | ActCommitTest utext
  | ActPing
  | ActRecord utext
  | ActTranscribe

record cli = client +
  ci_lines :: "string list"
  ci_actions :: "cli_action list"
  ci_disk :: disk
  ci_stored :: "(string list \<times> string) list"

text \<open>
  The answers of the bus, the bridge, the files, the recorder, secret-tool, the provider and the
  system, and the renderings of the libraries.
\<close>

record cli_world =
  iw_bus :: bus_world
  iw_connect :: "string option"
  iw_probe :: "fcitx_target outcome"
  iw_context :: "fcitx_context outcome"
  iw_commit_test :: "utext \<Rightarrow> fcitx_target outcome"
  iw_ping :: "unit outcome"
  iw_files :: file_world
  iw_parse :: "string \<Rightarrow> string + config"
  iw_capture_start :: "string option"
  iw_capture_path :: string
  iw_capture_stop :: "string \<times> string + captured_audio \<times> string"
  iw_pcm_read :: "string option"
  iw_pcm_write :: "string option"
  iw_pcm_remove :: "string option"
  iw_pcm_drop :: "string option"
  iw_transcribe :: "managed_doubao_config \<Rightarrow> string \<Rightarrow> vox_error + transcription"
  iw_bundle :: "secret_string \<Rightarrow> managed_credential_bundle outcome"
  iw_secret :: "string \<Rightarrow> secret_tool"
  iw_stdin :: "string + string"
  iw_store :: store_answer
  iw_env :: "string \<Rightarrow> string option"
  iw_keyboard :: "utext option"
  iw_service :: "string \<Rightarrow> string option"
  iw_path :: "string list option"
  iw_is_file :: "string \<Rightarrow> bool"
  iw_shortcuts :: shortcut_service
  iw_parse_error :: "utext \<Rightarrow> string"
  iw_ratio :: "32 word \<Rightarrow> 32 word \<Rightarrow> string"
  iw_json_text :: "utext \<Rightarrow> string"

type_synonym 'a cli_op = "(cli, string, 'a) eff"

definition println :: "string \<Rightarrow> unit cli_op" where
  "println line c = (Inr (), c\<lparr> ci_lines := ci_lines c @ [line] \<rparr>)"

definition act :: "cli_action \<Rightarrow> unit cli_op" where
  "act a c = (Inr (), c\<lparr> ci_actions := ci_actions c @ [a] \<rparr>)"

definition of_outcome :: "'a outcome \<Rightarrow> 'a cli_op" where
  "of_outcome r = (case r of Inl e \<Rightarrow> raise (vox_error_display e) | Inr a \<Rightarrow> give a)"

definition of_answer :: "string option \<Rightarrow> unit cli_op" where
  "of_answer r = (case r of None \<Rightarrow> give () | Some e \<Rightarrow> raise e)"

definition on_cli_disk :: "(disk, vox_error, 'a) eff \<Rightarrow> 'a cli_op" where
  "on_cli_disk m c =
     (case m (ci_disk c) of
        (r, d) \<Rightarrow> (map_sum vox_error_display id r, c\<lparr> ci_disk := d \<rparr>))"

definition println_text :: "utext \<Rightarrow> unit cli_op" where
  "println_text t = println (utf8_string t)"

definition cli_load_config :: "cli_world \<Rightarrow> config cli_op" where
  "cli_load_config W = on_cli_disk (load_or_create (iw_parse W) (iw_files W))"

section \<open>Configuration and secrets\<close>

definition config_summary :: "config \<Rightarrow> string" where
  "config_summary config =
     '' schema='' @ show_nat (schema_version config) @
     '' profiles='' @ show_nat (length (cfg_profiles config)) @
     '' providers='' @ show_nat (length (cfg_providers config))"

definition config_command :: "cli_world \<Rightarrow> utext \<Rightarrow> unit cli_op" where
  "config_command W action =
     (if action = text_of ''path''
      then seq (of_outcome (config_path (fw_xdg_config_home (iw_files W)) (fw_home (iw_files W)))) println
      else if action = text_of ''validate''
      then seq (cli_load_config W) (\<lambda>config. println (''valid'' @ config_summary config))
      else raise (''unknown config command: '' @ utf8_string action))"

definition secret_command :: "cli_world \<Rightarrow> utext \<Rightarrow> utext \<Rightarrow> unit cli_op" where
  "secret_command W action name =
     (if action \<noteq> text_of ''set'' \<or> name = []
      then raise ''usage: voxtype secret set NAME (secret is read from stdin)''
      else case iw_stdin W of
        Inl e \<Rightarrow> raise e
      | Inr input \<Rightarrow>
          (let secret = strip_line_ends input
           in if secret = [] then raise ''refusing to store an empty secret''
              else case store_secret (utf8_string name) secret (iw_store W) of
                (result, run) \<Rightarrow>
                  seq (\<lambda>c. (Inr (), c\<lparr> ci_stored := ci_stored c @
                                 (case run of None \<Rightarrow> [] | Some r \<Rightarrow> [r]) \<rparr>)) (\<lambda>_.
                  seq (of_outcome result) (\<lambda>_.
                    println (''stored secret reference: '' @ utf8_string name)))))"

section \<open>Guards of the diagnosis\<close>

text \<open>A daemon that cannot be reached does not stand in the way.\<close>

definition require_idle_daemon :: "cli_world \<Rightarrow> string \<Rightarrow> unit cli_op" where
  "require_idle_daemon W operation =
     (if iw_connect W \<noteq> None then give ()
      else seq (client_status (iw_bus W)) (\<lambda>status.
        if status \<noteq> text_of ''idle''
        then raise (operation @ '' requires an idle daemon; current state='' @ utf8_string status)
        else give ()))"

definition microphone_level_status :: "16 word \<Rightarrow> string" where
  "microphone_level_status peak =
     (if 32000 \<le> peak then ''clipping'' else if peak < 500 then ''too-quiet'' else ''ok'')"

text \<open>The temporary recording: it is removed when its guard goes out of scope, on every way.\<close>

definition remove_if_present :: "string option \<Rightarrow> string \<Rightarrow> unit cli_op" where
  "remove_if_present answer path c =
     (if dk_files (ci_disk c) path = None then (Inr (), c)
      else case answer of
        Some e \<Rightarrow> (Inl e, c)
      | None \<Rightarrow> (Inr (), c\<lparr> ci_disk := disk_set ((dk_files (ci_disk c))(path := None)) (ci_disk c) \<rparr>))"

definition drop_temporary_pcm :: "cli_world \<Rightarrow> string \<Rightarrow> cli \<Rightarrow> cli" where
  "drop_temporary_pcm W path c = snd (remove_if_present (iw_pcm_drop W) path c)"

definition with_temporary_pcm :: "cli_world \<Rightarrow> string \<Rightarrow> 'a cli_op \<Rightarrow> 'a cli_op" where
  "with_temporary_pcm W path body c =
     (case seq body (\<lambda>a. seq (remove_if_present (iw_pcm_remove W) path) (\<lambda>_. give a)) c of
        (Inl e, c') \<Rightarrow> (Inl e, drop_temporary_pcm W path c')
      | (Inr a, c') \<Rightarrow> (Inr a, c'))"

text \<open>
  A recording that stops well leaves its file, which its result names; one whose stop fails had
  written a part of it, and its drop removes the file. A start that fails leaves none (theory
  Capture).
\<close>

definition record_pcm :: "cli_world \<Rightarrow> utext \<Rightarrow> captured_audio cli_op" where
  "record_pcm W device =
     seq (of_answer (iw_capture_start W)) (\<lambda>_.
     seq (act (ActRecord device)) (\<lambda>_ c.
       let path = iw_capture_path W;
           written = (\<lambda>pcm. c\<lparr> ci_disk :=
             disk_set ((dk_files (ci_disk c))(path \<mapsto> pcm)) (ci_disk c) \<rparr>)
       in case iw_capture_stop W of
            Inl (e, part) \<Rightarrow> (Inl e, drop_temporary_pcm W path (written part))
          | Inr (result, pcm) \<Rightarrow> (Inr (result\<lparr> ca_path := path \<rparr>), written pcm)))"

definition vad_config_of :: "config \<Rightarrow> vad_config" where
  "vad_config_of config =
     \<lparr> rms_threshold = vad_rms_threshold (cfg_audio config),
       minimum_voiced_frames = vad_minimum_voiced_frames (cfg_audio config) \<rparr>"

definition read_pcm :: "cli_world \<Rightarrow> string \<Rightarrow> bytes cli_op" where
  "read_pcm W path c =
     (case iw_pcm_read W of
        Some e \<Rightarrow> (Inl e, c)
      | None \<Rightarrow>
          (case dk_files (ci_disk c) path of
             None \<Rightarrow> (Inl ''No such file or directory (os error 2)'', c)
           | Some contents \<Rightarrow> (Inr (map of_char contents), c)))"

definition analyze_recording :: "cli_world \<Rightarrow> string \<Rightarrow> config \<Rightarrow> vad_result cli_op" where
  "analyze_recording W path config =
     seq (read_pcm W path) (\<lambda>pcm. give (analyze_pcm pcm (vad_config_of config)))"

section \<open>Audio\<close>

definition suggested_level :: "16 word \<Rightarrow> 16 word" where
  "suggested_level noise_floor = sat_add (sat_mul noise_floor 2) 80"

definition audio_line :: "cli_world \<Rightarrow> captured_audio \<Rightarrow> vad_result \<Rightarrow> string" where
  "audio_line W r v =
     ''audio.capture=ok backend='' @ ca_backend r @ '' bytes='' @ show_nat (unat (ca_bytes r)) @
     '' duration_ms='' @ show_nat (unat (ca_duration_millis r)) @
     '' format=s16le rate=16000 channels=1 rms='' @ show_nat (unat (vr_average_rms v)) @
     '' peak='' @ show_nat (unat (vr_peak v)) @
     '' level='' @ microphone_level_status (vr_peak v) @
     '' noise_floor='' @ show_nat (unat (vr_noise_floor v)) @
     '' threshold='' @ show_nat (unat (vr_adaptive_threshold v)) @
     '' suggested_threshold='' @ show_nat (unat (suggested_level (vr_noise_floor v))) @
     '' speech_ratio='' @
     (if vr_total_frames v = 0 then ''0.000'' else iw_ratio W (vr_voiced_frames v) (vr_total_frames v)) @
     '' clipping='' @ show_bool (32000 \<le> vr_peak v)"

definition doctor_audio :: "cli_world \<Rightarrow> unit cli_op" where
  "doctor_audio W =
     seq (require_idle_daemon W ''audio doctor'') (\<lambda>_.
     seq (cli_load_config W) (\<lambda>config.
     seq (record_pcm W (cfg_device (cfg_audio config))) (\<lambda>result.
     seq (with_temporary_pcm W (ca_path result)
            (analyze_recording W (ca_path result) config)) (\<lambda>vad.
       if ca_bytes result = 0 then raise ''audio capture produced no PCM data''
       else println (audio_line W result vad)))))"

section \<open>Providers\<close>

definition write_pcm :: "cli_world \<Rightarrow> string \<Rightarrow> bytes \<Rightarrow> unit cli_op" where
  "write_pcm W path pcm c =
     (case iw_pcm_write W of
        Some e \<Rightarrow> (Inl e, c)
      | None \<Rightarrow>
          (Inr (), c\<lparr> ci_disk := disk_set ((dk_files (ci_disk c))(path \<mapsto> map (\<lambda>b. char_of (unat b)) pcm)) (ci_disk c) \<rparr>))"

definition no_live_speech :: string where
  "no_live_speech = ''live provider doctor did not detect speech''"

text \<open>The recording is checked, trimmed and recognized; the result is the trimmed length as well.\<close>

definition recognize_live ::
  "cli_world \<Rightarrow> config \<Rightarrow> managed_doubao_config \<Rightarrow> string \<Rightarrow> (nat \<times> transcription) cli_op" where
  "recognize_live W config provider path =
     seq (analyze_recording W path config) (\<lambda>vad.
       if \<not> vr_speech_detected vad then raise no_live_speech
       else
         seq (read_pcm W path) (\<lambda>pcm.
           let (trimmed_bytes, trimmed) = trim_file pcm vad
           in seq (write_pcm W path trimmed) (\<lambda>_.
              seq (act ActTranscribe) (\<lambda>_ c.
                case dk_files (ci_disk c) path of
                  None \<Rightarrow> (Inl ''No such file or directory (os error 2)'', c)
                | Some contents \<Rightarrow>
                    (case iw_transcribe W provider contents of
                       Inl e \<Rightarrow> (Inl (vox_error_display e), c)
                     | Inr result \<Rightarrow> (Inr (trimmed_bytes, result), c))))))"

definition live_line :: "cli_world \<Rightarrow> string \<Rightarrow> nat \<Rightarrow> transcription \<Rightarrow> string" where
  "live_line W provider trimmed_bytes r =
     ''provider.live=ok provider='' @ provider @
     '' captured_ms='' @ show_nat (unat (sat_mul (word_of_nat trimmed_bytes) 1000 div (32000 :: 64 word))) @
     '' sent_audio_ms='' @ show_nat (unat (tn_sent_audio_millis r)) @
     '' partials='' @ show_nat (unat (tn_partial_results r)) @
     '' provider_vad_started='' @ show_bool (tn_provider_vad_started r) @
     '' provider_vad_finished='' @ show_bool (tn_provider_vad_finished r) @
     '' transcript='' @ iw_json_text W (tn_text r)"

definition live_provider :: "cli_world \<Rightarrow> config \<Rightarrow> string \<Rightarrow> (string \<times> managed_doubao_config) cli_op" where
  "live_provider W config profile_name =
     (case map_of (cfg_profiles config) profile_name of
        None \<Rightarrow> raise ''requested live provider profile does not exist''
      | Some profile \<Rightarrow>
          (case map_of (cfg_providers config) (pf_primary profile) of
             None \<Rightarrow> raise ''live provider profile references an unknown provider''
           | Some (DoubaoUnofficial secret phase_timeout total_timeout frame_interval) \<Rightarrow>
               seq (of_outcome (lookup_secret secret (iw_secret W secret))) (\<lambda>found.
               seq (of_outcome (iw_bundle W found)) (\<lambda>credentials.
                 give (pf_primary profile,
                   \<lparr> mc_credentials = credentials, mc_phase_timeout = secs phase_timeout,
                     mc_total_timeout = secs total_timeout,
                     mc_frame_interval = frame_interval * 1000000 \<rparr>)))
           | Some _ \<Rightarrow> raise ''live provider doctor currently supports Doubao profiles only''))"

definition doctor_provider_live :: "cli_world \<Rightarrow> utext \<Rightarrow> utext option \<Rightarrow> unit cli_op" where
  "doctor_provider_live W profile_name requested =
     seq (require_idle_daemon W ''live provider doctor'') (\<lambda>_.
       if profile_name = [] then raise ''usage: voxtype doctor provider-live PROFILE [SECONDS]''
       else
         let chosen = (case requested of None \<Rightarrow> text_of ''6'' | Some t \<Rightarrow> t)
         in case parse_text_uint 64 chosen of
              None \<Rightarrow> raise (iw_parse_error W chosen)
            | Some seconds \<Rightarrow>
                if seconds < 1 \<or> 30 < seconds
                then raise ''live provider doctor duration must be between 1 and 30 seconds''
                else
                  seq (cli_load_config W) (\<lambda>config.
                  seq (live_provider W config (utf8_string profile_name)) (\<lambda>(name, provider).
                  seq (println (''provider.live.capture=started seconds='' @ show_nat seconds)) (\<lambda>_.
                  seq (record_pcm W (cfg_device (cfg_audio config))) (\<lambda>recording.
                  seq (with_temporary_pcm W (ca_path recording)
                         (recognize_live W config provider (ca_path recording))) (\<lambda>(trimmed_bytes, result).
                    println (live_line W name trimmed_bytes result)))))))"

definition secret_status :: "secret_string outcome \<Rightarrow> string" where
  "secret_status found =
     (case found of
        Inr _ \<Rightarrow> ''ok''
      | Inl e \<Rightarrow> if err_code e = ''secret.not_found'' then ''missing'' else ''unavailable'')"

text \<open>The kind of a provider, with the line on its secret where it has one.\<close>

definition provider_lines :: "cli_world \<Rightarrow> string \<times> provider_config \<Rightarrow> string list" where
  "provider_lines W entry =
     (let (name, p) = entry;
          secret_line = (\<lambda>label secret.
            ''provider.'' @ name @ label @ secret_status (lookup_secret secret (iw_secret W secret)));
          (lines1, kind) =
            (case p of
               Mock _ \<Rightarrow> ([], ''mock'')
             | OpenaiCompatible _ _ secret _ \<Rightarrow> ([secret_line ''.secret='' secret], ''openai-compatible'')
             | Deepgram _ _ secret _ _ \<Rightarrow> ([secret_line ''.secret='' secret], ''deepgram'')
             | DoubaoUnofficial secret _ _ _ \<Rightarrow>
                 ([secret_line ''.credential_bundle='' secret], ''doubao-unofficial'')
             | CommandProvider _ _ _ \<Rightarrow> ([], ''command''))
      in lines1 @ [''provider.'' @ name @ ''=configured kind='' @ kind])"

fun println_all :: "string list \<Rightarrow> unit cli_op" where
  "println_all [] = give ()"
| "println_all (l # ls) = seq (println l) (\<lambda>_. println_all ls)"

definition doctor_provider :: "cli_world \<Rightarrow> unit cli_op" where
  "doctor_provider W =
     seq (cli_load_config W) (\<lambda>config.
     seq (println_all (concat (map (provider_lines W) (cfg_providers config)))) (\<lambda>_.
       if iw_connect W \<noteq> None then give ()
       else seq (client_provider_status (iw_bus W)) (\<lambda>health.
              println (''provider.health='' @ utf8_string health))))"

section \<open>The general diagnosis\<close>

definition config_value :: "utext \<Rightarrow> utext \<Rightarrow> utext option" where
  "config_value contents key =
     find_map (\<lambda>line. case split_once 0x3D line of
                        None \<Rightarrow> None
                      | Some (name, v) \<Rightarrow> if trim name = key then Some (trim v) else None)
       (text_lines contents)"

definition user_service_state :: "cli_world \<Rightarrow> string \<Rightarrow> string" where
  "user_service_state W service =
     (case iw_service W service of
        None \<Rightarrow> ''unavailable''
      | Some output \<Rightarrow>
          (let state = trim_str output in if state = [] then ''unavailable'' else state))"

definition on_search_path :: "cli_world \<Rightarrow> string \<Rightarrow> bool" where
  "on_search_path W command \<longleftrightarrow>
     (case iw_path W of
        None \<Rightarrow> False
      | Some directories \<Rightarrow> list_ex (\<lambda>d. iw_is_file W (d @ ''/'' @ command)) directories)"

definition env_or_unset :: "cli_world \<Rightarrow> string \<Rightarrow> string" where
  "env_or_unset W name = (case iw_env W name of None \<Rightarrow> ''unset'' | Some v \<Rightarrow> v)"

definition keyboard_lines :: "cli_world \<Rightarrow> string list" where
  "keyboard_lines W =
     (case iw_keyboard W of
        None \<Rightarrow> [''keyboard.xkb=unavailable'']
      | Some contents \<Rightarrow>
          (let v = (\<lambda>key. case config_value contents (text_of key) of
                            None \<Rightarrow> ''unset'' | Some t \<Rightarrow> utf8_string t)
           in [''keyboard.xkb_model='' @ v ''Model'', ''keyboard.xkb_layout='' @ v ''LayoutList'']))"

definition diagnosed_services :: "string list" where
  "diagnosed_services =
     [''voxtyped.service'', ''voxtype-tray.service'', ''hyprwhspr.service'', ''ydotool.service'']"

definition diagnosed_commands :: "string list" where
  "diagnosed_commands =
     [''parec'', ''curl'', ''wl-copy'', ''wl-paste'', ''ydotool'', ''notify-send'', ''qdbus6'', ''qml6'',
      ''secret-tool'', ''xdg-open'', ''systemsettings'']"

definition system_lines :: "cli_world \<Rightarrow> string list" where
  "system_lines W =
     [''session.wayland='' @ show_bool (iw_env W ''WAYLAND_DISPLAY'' \<noteq> None),
      ''input.xmodifiers='' @ env_or_unset W ''XMODIFIERS''] @
     map (\<lambda>name. ''input.'' @ name @ ''='' @ env_or_unset W name) [''QT_IM_MODULE'', ''GTK_IM_MODULE''] @
     keyboard_lines W @
     map (\<lambda>service. ''service.'' @ service @ ''='' @ user_service_state W service) diagnosed_services @
     shortcut_lines (iw_shortcuts W) @
     map (\<lambda>command. ''command.'' @ command @
            (if on_search_path W command then ''=ok'' else ''=missing'')) diagnosed_commands"

definition doctor_all :: "cli_world \<Rightarrow> unit cli_op" where
  "doctor_all W =
     seq (cli_load_config W) (\<lambda>config.
     seq (println (''config=ok'' @ config_summary config)) (\<lambda>_.
     seq (act ActPing) (\<lambda>_.
     seq (println (case iw_ping W of
                     Inr _ \<Rightarrow> ''fcitx5-bridge=ok''
                   | Inl e \<Rightarrow> ''fcitx5-bridge=unavailable code='' @ err_code e)) (\<lambda>_.
       println_all (system_lines W)))))"

definition target_text :: "fcitx_target \<Rightarrow> string" where
  "target_text t =
     ''program='' @ utf8_string (ft_program t) @ '' frontend='' @ utf8_string (ft_frontend t)"

text \<open>A probe of the focused window.\<close>

definition probe_focus :: "cli_world \<Rightarrow> fcitx_target cli_op" where
  "probe_focus W = seq (act ActProbe) (\<lambda>_. of_outcome (iw_probe W))"

definition doctor_usage :: string where
  "doctor_usage =
     ''usage: voxtype doctor [audio|shortcut|insertion|provider|provider-live PROFILE [SECONDS]|all]''"

text \<open>The argument at a position, if there is one.\<close>

definition argument_at :: "nat \<Rightarrow> utext list \<Rightarrow> utext option" where
  "argument_at n arguments = (if n < length arguments then Some (arguments ! n) else None)"

definition argument_or :: "string \<Rightarrow> nat \<Rightarrow> utext list \<Rightarrow> utext" where
  "argument_or z n arguments = (case argument_at n arguments of None \<Rightarrow> text_of z | Some t \<Rightarrow> t)"

definition doctor_command :: "cli_world \<Rightarrow> utext list \<Rightarrow> unit cli_op" where
  "doctor_command W arguments =
     (case arguments of
        [] \<Rightarrow> doctor_all W
      | section # rest \<Rightarrow>
          if section = text_of ''audio'' then doctor_audio W
          else if section = text_of ''shortcut'' then println_all (shortcut_lines (iw_shortcuts W))
          else if section = text_of ''insertion''
          then seq (require_idle_daemon W ''insertion doctor'') (\<lambda>_.
               seq (probe_focus W) (\<lambda>t. println (''insertion.fcitx=ok '' @ target_text t)))
          else if section = text_of ''provider'' then doctor_provider W
          else if section = text_of ''provider-live''
          then doctor_provider_live W (argument_or [] 0 rest) (argument_at 1 rest)
          else if section = text_of ''all'' then doctor_all W
          else raise doctor_usage)"

section \<open>The commands\<close>

definition result_line :: "client_result \<Rightarrow> string" where
  "result_line r =
     ''session='' @ utf8_string (sr_session r) @ '' outcome='' @ utf8_string (sr_outcome r) @
     '' error_code='' @ utf8_string (sr_error_code r) @ '' backend='' @ utf8_string (sr_backend r) @
     '' chars='' @ show_nat (unat (sr_char_count r))"

definition print_session_result :: "cli_world \<Rightarrow> utext \<Rightarrow> unit cli_op" where
  "print_session_result W session =
     seq (client_session_result (iw_bus W) session) (\<lambda>r.
       case r of
         None \<Rightarrow> raise ''no retained terminal result for that session''
       | Some result \<Rightarrow> println (result_line result))"

definition history_lines :: "utext list \<Rightarrow> string list" where
  "history_lines texts =
     map (\<lambda>(index, t). show_nat (index + 1) @ [CHR 0x09] @ utf8_string t) (enumerate 0 texts)"

definition grammar_command :: "cli_world \<Rightarrow> utext \<Rightarrow> unit cli_op" where
  "grammar_command W action =
     (if action = text_of ''context''
      then seq (client_check_context_grammar (iw_bus W)) println_text
      else if action = text_of ''last'' then seq (client_check_last_grammar (iw_bus W)) println_text
      else if action = text_of ''show'' then seq (client_last_transcript (iw_bus W)) println_text
      else if action = text_of ''history''
      then seq (client_transcript_history (iw_bus W)) (\<lambda>texts. println_all (history_lines texts))
      else if action = text_of ''clear'' then client_clear_history (iw_bus W)
      else raise ''usage: voxtype grammar context|last|show|history|clear'')"

definition join_arguments :: "utext list \<Rightarrow> utext" where
  "join_arguments arguments = join_elem 0x20 arguments"

definition context_line :: "fcitx_context \<Rightarrow> string" where
  "context_line c =
     target_text (fx_target c) @
     '' generation='' @ show_nat (unat (fx_generation c)) @
     '' chars='' @ show_nat (length (fx_text c)) @
     '' cursor='' @ show_nat (fx_cursor c) @ '' anchor='' @ show_nat (fx_anchor c) @
     '' selected_chars='' @
       show_nat (if fx_cursor c \<le> fx_anchor c then fx_anchor c - fx_cursor c else fx_cursor c - fx_anchor c) @
     '' truncated='' @ show_bool (fx_truncated c) @
     '' capabilities='' @ utf8_string (join_elem 0x2C (fx_capabilities c))"

text \<open>The guard of the Fcitx commands; unlike require_idle_daemon it needs the daemon to answer.\<close>

definition require_idle_status :: "cli_world \<Rightarrow> string \<Rightarrow> unit cli_op" where
  "require_idle_status W message =
     seq (client_status (iw_bus W)) (\<lambda>status.
       if status \<noteq> text_of ''idle'' then raise message else give ())"

definition stop_command :: "cli_world \<Rightarrow> utext list \<Rightarrow> (cli, string, unit) run" where
  "stop_command W arguments =
     (let first = argument_or [] 0 arguments
      in if first = text_of ''--wait''
         then andthen (stop_wait (iw_bus W) (argument_or [] 1 arguments)) (\<lambda>r. lift (println (result_line r)))
         else lift (seq (client_stop (iw_bus W) first) println_text))"

text \<open>The commands that need the daemon; stop is the one that may wait.\<close>

definition client_dispatch :: "cli_world \<Rightarrow> utext \<Rightarrow> utext list \<Rightarrow> unit cli_op" where
  "client_dispatch W command arguments =
     (let is = (\<lambda>name. command = text_of name); B = iw_bus W
      in if is ''status'' then seq (client_status B) println_text
         else if is ''providers'' then seq (client_provider_status B) println_text
         else if is ''usage'' then seq (client_usage_status B) println_text
         else if is ''result'' then
           (case argument_at 0 arguments of
              None \<Rightarrow> raise ''usage: voxtype result SESSION''
            | Some session \<Rightarrow> print_session_result W session)
         else if is ''grammar'' then grammar_command W (argument_or ''last'' 0 arguments)
         else if is ''fcitx-focus'' then
           seq (require_idle_status W ''fcitx focus probing requires an idle daemon'') (\<lambda>_.
           seq (probe_focus W) (\<lambda>t. println (target_text t)))
         else if is ''fcitx-context'' then
           seq (act ActContext) (\<lambda>_.
           seq (of_outcome (iw_context W)) (\<lambda>c. println (context_line c)))
         else if is ''fcitx-insert-test'' then
           seq (require_idle_status W ''fcitx insertion testing requires an idle daemon'') (\<lambda>_.
             let t = join_arguments arguments
             in seq (act (ActCommitTest t)) (\<lambda>_.
                seq (of_outcome (iw_commit_test W t)) (\<lambda>target.
                  println (''dispatched=true '' @ target_text target))))
         else if is ''start'' then seq (client_start B (argument_or [] 0 arguments)) println_text
         else if is ''toggle'' then seq (client_toggle B (argument_or [] 0 arguments)) println_text
         else if is ''cancel'' then client_cancel B (argument_or [] 0 arguments)
         else if is ''reset'' then client_reset B
         else if is ''insert-test''
         then seq (client_insert_test B (join_arguments arguments)) println_text
         else if is ''reload'' then client_reload_configuration B
         else raise (''unknown command: '' @ utf8_string command))"

definition client_command :: "cli_world \<Rightarrow> utext \<Rightarrow> utext list \<Rightarrow> (cli, string, unit) run" where
  "client_command W command arguments =
     (if command = text_of ''stop'' then stop_command W arguments
      else lift (client_dispatch W command arguments))"

definition help_lines :: "string list" where
  "help_lines =
     [''VoxType CLI'', [], ''Usage:'', ''  voxtype status'', ''  voxtype providers'', ''  voxtype usage'',
      ''  voxtype result SESSION'', ''  voxtype grammar context|last|show|history|clear'',
      ''  voxtype fcitx-focus'', ''  voxtype fcitx-context'', ''  voxtype fcitx-insert-test TEXT'',
      ''  voxtype start [PROFILE]'', ''  voxtype stop [SESSION]'', ''  voxtype stop --wait [SESSION]'',
      ''  voxtype toggle [PROFILE]'', ''  voxtype cancel [SESSION]'', ''  voxtype reset'',
      ''  voxtype reload'',
      ''  voxtype doctor [audio|shortcut|insertion|provider|provider-live PROFILE [SECONDS]|all]'',
      ''  voxtype insert-test TEXT'', ''  voxtype config path|validate'',
      ''  voxtype secret set NAME'']"

text \<open>One run of the program with its arguments.\<close>

definition cli_run :: "cli_world \<Rightarrow> utext list \<Rightarrow> (cli, string, unit) run" where
  "cli_run W arguments =
     (let command = argument_or ''status'' 0 arguments; rest = tl arguments
      in if command \<in> text_of ` {''help'', ''--help'', ''-h''} then lift (println_all help_lines)
         else if command = text_of ''config'' then lift (config_command W (argument_or ''path'' 0 rest))
         else if command = text_of ''secret''
         then lift (secret_command W (argument_or [] 0 rest) (argument_or [] 1 rest))
         else if command = text_of ''doctor'' then lift (doctor_command W rest)
         else case iw_connect W of
           Some e \<Rightarrow> lift (raise e)
         | None \<Rightarrow> client_command W command rest)"

end
