(* ===== verification/Cli_Props.thy ===== *)
theory Cli_Props
  imports Cli
begin

text \<open>
  What the command line guarantees: it does not disturb a daemon at work, it leaves no recording
  behind, and it shows nothing of a secret.
\<close>

section \<open>What runs keep\<close>

text \<open>A run of an operation relates the state before it to the state after it.\<close>

definition obeys :: "('s \<Rightarrow> 's \<Rightarrow> bool) \<Rightarrow> ('s, 'e, 'a) eff \<Rightarrow> 's \<Rightarrow> bool" where
  "obeys R m s \<longleftrightarrow> R s (snd (m s))"

text \<open>No file has changed but the configuration file.\<close>

definition same_files :: "cli_world \<Rightarrow> cli \<Rightarrow> cli \<Rightarrow> bool" where
  "same_files W c d \<longleftrightarrow>
     (\<forall>q. config_path (fw_xdg_config_home (iw_files W)) (fw_home (iw_files W)) \<noteq> Inr q \<longrightarrow>
        dk_files (ci_disk d) q = dk_files (ci_disk c) q)"

text \<open>An action that reaches into what the user does: the focused window, the microphone, a provider.\<close>

fun intrusive :: "cli_action \<Rightarrow> bool" where
  "intrusive ActProbe = True"
| "intrusive (ActCommitTest _) = True"
| "intrusive (ActRecord _) = True"
| "intrusive ActTranscribe = True"
| "intrusive _ = False"

text \<open>A daemon that answers, but not that it is idle.\<close>

definition daemon_busy :: "cli_world \<Rightarrow> cli \<Rightarrow> bool" where
  "daemon_busy W c \<longleftrightarrow>
     iw_connect W = None \<and>
     bw_reply (iw_bus W) (length (cl_calls c)) CallStatus \<noteq> Inr (ReplyText (text_of ''idle''))"

lemma status_reply:
  "client_status B c = (Inr t, c') \<Longrightarrow> bw_reply B (length (cl_calls c)) CallStatus = Inr (ReplyText t)"
  by (auto simp: client_status_def call_text_def seq_def bus_call_def
      split: prod.splits sum.splits bus_reply.splits)

lemma guard_passes:
  assumes "require_idle_daemon W operation c = (Inr u, c')"
  shows "\<not> daemon_busy W c"
proof (cases "iw_connect W")
  case None
  obtain r c1 where status: "client_status (iw_bus W) c = (r, c1)" by force
  then have "r = Inr (text_of ''idle'')"
    using assms None by (cases r) (auto simp: require_idle_daemon_def seq_def split: if_splits)
  then show ?thesis
    using status_reply[of "iw_bus W" c "text_of ''idle''" c1] status by (simp add: daemon_busy_def)
qed (simp add: daemon_busy_def)

lemma status_guard_passes:
  assumes "require_idle_status W message c = (Inr u, c')"
  shows "\<not> daemon_busy W c"
proof -
  obtain r c1 where status: "client_status (iw_bus W) c = (r, c1)" by force
  then have "r = Inr (text_of ''idle'')"
    using assms by (cases r) (auto simp: require_idle_status_def seq_def split: if_splits)
  then show ?thesis
    using status_reply[of "iw_bus W" c "text_of ''idle''" c1] status by (simp add: daemon_busy_def)
qed

lemmas client_defs =
  client_status_def client_provider_status_def client_usage_status_def client_last_transcript_def
  client_check_last_grammar_def client_check_context_grammar_def client_clear_history_def
  client_start_def client_stop_def client_toggle_def client_cancel_def client_reset_def
  client_insert_test_def client_reload_configuration_def

lemma lifted: "lift m c = Some (r, c') \<Longrightarrow> obeys R m c \<Longrightarrow> R c c'"
  by (simp add: lift_def obeys_def)

lemma cli_run_cases:
  assumes "cli_run W arguments c = Some (r, c')"
  obtains (helped) "lift (println_all help_lines) c = Some (r, c')"
  | (config) action where "lift (config_command W action) c = Some (r, c')"
  | (secret) action name where "lift (secret_command W action name) c = Some (r, c')"
  | (doctor) "lift (doctor_command W (tl arguments)) c = Some (r, c')"
  | (unconnected) e where "lift (raise e) c = Some (r, c')"
  | (connected) command where "client_command W command (tl arguments) c = Some (r, c')"
  using assms unfolding cli_run_def Let_def by (simp only: split: if_splits option.splits)

text \<open>
  A relation that the commands keep, up to the actions that it allows: calls, printing and the
  configuration file do not matter to it.
\<close>

locale cli_relation =
  fixes R :: "cli \<Rightarrow> cli \<Rightarrow> bool" and W :: cli_world and allowed :: "cli_action \<Rightarrow> bool"
  assumes chain: "R c d \<Longrightarrow> R d e \<Longrightarrow> R c e"
    and neutral: "ci_actions d = ci_actions c \<Longrightarrow> same_files W c d \<Longrightarrow> R c d"
    and acted: "allowed a \<Longrightarrow> R c (c\<lparr> ci_actions := ci_actions c @ [a] \<rparr>)"
begin

lemma unchanged: "ci_actions d = ci_actions c \<Longrightarrow> ci_disk d = ci_disk c \<Longrightarrow> R c d"
  by (rule neutral) (simp_all add: same_files_def)

lemma obeys_give: "obeys R (give a) c"
  by (simp add: obeys_def unchanged)

lemma obeys_raise: "obeys R (raise e) c"
  by (simp add: obeys_def unchanged)

lemma obeys_seq:
  assumes "obeys R m c" and "\<And>a d. m c = (Inr a, d) \<Longrightarrow> obeys R (f a) d"
  shows "obeys R (seq m f) c"
proof (cases "m c")
  case (Pair r d)
  then show ?thesis
    using assms chain[of c d] by (cases r) (auto simp: obeys_def seq_def)
qed

text \<open>The calls of the daemon, the lines that are printed, the answers of the world.\<close>

lemma obeys_calls:
  "obeys R (call_text B call) c" "obeys R (call_unit B call) c"
  "obeys R (client_session_result B session) c" "obeys R (client_transcript_history B) c"
  by (auto simp: obeys_def call_text_def call_unit_def client_session_result_def
      client_transcript_history_def seq_def bus_call_def intro!: unchanged
      split: sum.splits bus_reply.splits)

lemma obeys_simple:
  "obeys R (println l) c" "obeys R (println_text t) c" "obeys R (of_outcome r) c"
  "obeys R (of_answer s) c" "obeys R (read_pcm W path) c" "obeys R (read_clock B) c"
  by (auto simp: obeys_def println_def println_text_def of_outcome_def of_answer_def read_pcm_def
      read_clock_def intro!: unchanged split: sum.splits option.splits)

lemma obeys_act: "allowed a \<Longrightarrow> obeys R (act a) c"
  by (simp add: obeys_def act_def acted)

lemma obeys_println_all: "obeys R (println_all ls) c"
  by (induction ls arbitrary: c) (simp_all add: obeys_give obeys_seq obeys_simple)

lemma obeys_cli_load_config: "obeys R (cli_load_config W) c"
proof -
  have "same_files W c (snd (cli_load_config W c))"
    by (auto simp: same_files_def cli_load_config_def on_cli_disk_def load_or_create_def seq_def
        create_default_def create_new_def write_all_def read_to_string_def disk_outcome_def io_result_def
        disk_set_def split: sum.splits option.splits prod.splits if_splits)
  then show ?thesis
    by (auto simp: obeys_def intro!: neutral) (simp add: cli_load_config_def on_cli_disk_def split: prod.splits)
qed

lemmas obeys_intros =
  obeys_give obeys_raise obeys_seq obeys_calls obeys_simple obeys_act obeys_println_all obeys_cli_load_config

text \<open>The commands that touch no recording.\<close>

lemma obeys_guards:
  "obeys R (require_idle_daemon W operation) c" "obeys R (require_idle_status W message) c"
  by (auto simp: require_idle_daemon_def require_idle_status_def client_status_def intro!: obeys_intros)

lemma obeys_analyze: "obeys R (analyze_recording W path config) c"
  unfolding analyze_recording_def by (intro obeys_intros)

lemma obeys_live_provider: "obeys R (live_provider W config name) c"
  unfolding live_provider_def
  by (auto intro!: obeys_intros split: option.splits provider_config.splits)

lemma obeys_probe: "allowed ActProbe \<Longrightarrow> obeys R (probe_focus W) c"
  unfolding probe_focus_def by (intro obeys_intros)

lemma obeys_doctor_provider: "obeys R (doctor_provider W) c"
  unfolding doctor_provider_def client_provider_status_def by (auto intro!: obeys_intros)

lemma obeys_doctor_all: "allowed ActPing \<Longrightarrow> obeys R (doctor_all W) c"
  unfolding doctor_all_def by (intro obeys_intros)

lemma obeys_grammar: "obeys R (grammar_command W action) c"
  unfolding grammar_command_def client_check_context_grammar_def client_check_last_grammar_def
    client_last_transcript_def client_clear_history_def
  by (auto intro!: obeys_intros)

lemma obeys_config: "obeys R (config_command W action) c"
  unfolding config_command_def by (auto intro!: obeys_intros)

lemma obeys_secret: "obeys R (secret_command W action name) c"
  unfolding secret_command_def Let_def
  by (auto simp: case_prod_beta intro!: obeys_intros split: sum.splits)
    (auto simp: obeys_def intro!: unchanged)

lemma obeys_print_result: "obeys R (print_session_result W session) c"
  unfolding print_session_result_def by (auto intro!: obeys_intros split: option.splits)

text \<open>Waiting for the result of a session.\<close>

lemma obeys_poll: "obeys R (poll_session_result B session deadline u) c"
  unfolding poll_session_result_def by (auto intro!: obeys_intros split: option.splits)

lemma obeys_wait:
  assumes "wait_for_result B session c = Some (r, d)"
  shows "R c d"
proof -
  obtain now c1 where clock: "read_clock B c = (Inr now, c1)" "R c c1"
    using obeys_simple(6)[of B c] by (simp add: read_clock_def obeys_def)
  have loop: "iterate (poll_session_result B session (now + session_result_wait_timeout)) () c1 = Some (r, d)"
    using assms clock by (simp add: wait_for_result_def andthen_def lift_def)
  have step: "R c t"
    if "R c s" "poll_session_result B session (now + session_result_wait_timeout) u s = (x, t)" for u x s t
    using obeys_poll[of B session "now + session_result_wait_timeout" u s] that chain[of c s t]
    by (simp add: obeys_def)
  show ?thesis
    by (rule iterate_inv[OF loop, where P = "\<lambda>_. R c" and Q = "\<lambda>_. R c"]) (rule clock(2) | erule (1) step)+
qed

lemma obeys_stop:
  assumes "stop_command W arguments c = Some (r, d)"
  shows "R c d"
proof (cases "argument_or [] 0 arguments = text_of ''--wait''")
  case True
  let ?session = "argument_or [] 1 arguments"
  obtain r1 c1 where stop: "client_stop (iw_bus W) ?session c = (r1, c1)" by force
  have c1: "R c c1" using obeys_calls(1)[of "iw_bus W" "CallStop ?session" c] stop
    by (simp add: client_stop_def obeys_def)
  have waited: "R c e" if "stop_wait (iw_bus W) ?session c = Some (q, e)" for q e
    using that stop c1 chain[OF c1 obeys_wait] unchanged[of e c]
    by (cases r1) (auto simp: stop_wait_def andthen_def lift_def Let_def split: if_splits)
  obtain q e where wait: "stop_wait (iw_bus W) ?session c = Some (q, e)"
    using assms True by (auto simp: stop_command_def andthen_def split: option.splits)
  then have "d = (case q of Inl _ \<Rightarrow> e | Inr x \<Rightarrow> snd (println (result_line x) e))"
    using assms True by (auto simp: stop_command_def andthen_def lift_def split: sum.splits)
  then show ?thesis
    using waited[OF wait] chain[OF waited[OF wait]] obeys_simple(1)
    by (auto simp: obeys_def split: sum.splits)
next
  case False
  have "obeys R (seq (client_stop (iw_bus W) (argument_or [] 0 arguments)) println_text) c"
    unfolding client_stop_def by (intro obeys_intros)
  then show ?thesis using assms False by (simp add: stop_command_def lift_def obeys_def)
qed

text \<open>A recording, when what is done with it is kept as well.\<close>

lemma obeys_insertion_doctor:
  assumes "\<not> daemon_busy W c \<Longrightarrow> allowed ActProbe"
  shows "obeys R (seq (require_idle_daemon W ''insertion doctor'') (\<lambda>_.
    seq (probe_focus W) (\<lambda>t. println (''insertion.fcitx=ok '' @ target_text t)))) c"
  by (rule obeys_seq[OF obeys_guards(1)], drule guard_passes)
    (use assms in \<open>auto intro!: obeys_intros obeys_probe\<close>)

lemma obeys_focus:
  assumes "\<not> daemon_busy W c \<Longrightarrow> allowed ActProbe"
  shows "obeys R (seq (require_idle_status W message) (\<lambda>_.
     seq (probe_focus W) (\<lambda>t. println (target_text t)))) c"
  by (rule obeys_seq[OF obeys_guards(2)], drule status_guard_passes)
    (use assms in \<open>auto intro!: obeys_intros obeys_probe\<close>)

lemma obeys_insert_test:
  assumes "\<And>t. \<not> daemon_busy W c \<Longrightarrow> allowed (ActCommitTest t)"
  shows "obeys R (seq (require_idle_status W message) (\<lambda>_.
     let t = join_arguments arguments
     in seq (act (ActCommitTest t)) (\<lambda>_.
        seq (of_outcome (iw_commit_test W t)) (\<lambda>target.
          println (''dispatched=true '' @ target_text target))))) c"
  unfolding Let_def
  by (rule obeys_seq[OF obeys_guards(2)], drule status_guard_passes)
    (use assms in \<open>auto intro!: obeys_intros\<close>)

lemma obeys_dispatch:
  assumes "\<And>a. intrusive a \<Longrightarrow> \<not> daemon_busy W c \<Longrightarrow> allowed a" and "allowed ActContext"
  shows "obeys R (client_dispatch W command arguments) c"
proof -
  have shown: "obeys R (seq (act ActContext) (\<lambda>_.
      seq (of_outcome (iw_context W)) (\<lambda>x. println (context_line x)))) c"
    by (intro obeys_intros) (rule assms(2))
  have calls: "obeys R (seq (call_text B call) println_text) c" for B call
    by (intro obeys_intros)
  show ?thesis
    using obeys_focus[OF assms(1)] obeys_insert_test[OF assms(1)]
    by (simp add: client_dispatch_def Let_def client_defs shown calls obeys_grammar obeys_print_result
        obeys_calls obeys_raise split: option.splits)
qed

lemma obeys_doctor:
  assumes "\<And>a. intrusive a \<Longrightarrow> \<not> daemon_busy W c \<Longrightarrow> allowed a" and "allowed ActPing"
    and "obeys R (doctor_audio W) c" and "\<And>name s. obeys R (doctor_provider_live W name s) c"
  shows "obeys R (doctor_command W arguments) c"
  using assms obeys_insertion_doctor[of c] obeys_doctor_all[of c] obeys_doctor_provider[of c]
  by (cases arguments) (simp_all add: doctor_command_def obeys_println_all obeys_raise)

text \<open>A whole run, when the two commands that record keep the relation.\<close>

lemma obeys_run:
  assumes "cli_run W arguments c = Some (r, d)"
    and "\<And>a. intrusive a \<Longrightarrow> \<not> daemon_busy W c \<Longrightarrow> allowed a" and "allowed ActPing"
    and "allowed ActContext"
    and "obeys R (doctor_audio W) c" and "\<And>name s. obeys R (doctor_provider_live W name s) c"
  shows "R c d"
  using assms(1)
proof (cases rule: cli_run_cases)
  case helped
  then show ?thesis by (rule lifted) (rule obeys_println_all)
next
  case config
  then show ?thesis by (rule lifted) (rule obeys_config)
next
  case secret
  then show ?thesis by (rule lifted) (rule obeys_secret)
next
  case doctor
  then show ?thesis by (rule lifted) (rule obeys_doctor[OF assms(2,3,5,6)])
next
  case unconnected
  then show ?thesis by (rule lifted) (rule obeys_raise)
next
  case (connected command)
  then consider "stop_command W (tl arguments) c = Some (r, d)"
    | "lift (client_dispatch W command (tl arguments)) c = Some (r, d)"
    by (auto simp: client_command_def split: if_splits)
  then show ?thesis
  proof cases
    case 1
    then show ?thesis by (rule obeys_stop)
  next
    case 2
    then show ?thesis by (rule lifted) (rule obeys_dispatch[OF assms(2,4)])
  qed
qed

end

section \<open>A daemon at work\<close>

text \<open>The actions that are added, all of which are allowed.\<close>

definition acts_within :: "(cli_action \<Rightarrow> bool) \<Rightarrow> cli \<Rightarrow> cli \<Rightarrow> bool" where
  "acts_within allowed c c' \<longleftrightarrow>
     (\<exists>new. ci_actions c' = ci_actions c @ new \<and> list_all allowed new)"

lemma acts_trans: "acts_within P c d \<Longrightarrow> acts_within P d e \<Longrightarrow> acts_within P c e"
proof -
  assume "acts_within P c d" and "acts_within P d e"
  then obtain new new' where "ci_actions d = ci_actions c @ new" "list_all P new"
    "ci_actions e = ci_actions d @ new'" "list_all P new'"
    by (auto simp: acts_within_def)
  then show ?thesis by (auto simp: acts_within_def)
qed

interpretation acting: cli_relation "acts_within allowed" W allowed for allowed W
proof
  show "acts_within allowed c e" if "acts_within allowed c d" "acts_within allowed d e" for c d e
    using that by (rule acts_trans)
qed (simp_all add: acts_within_def)

lemma remove_actions [simp]: "ci_actions (snd (remove_if_present answer path d)) = ci_actions d"
  by (auto simp: remove_if_present_def split: option.splits)

lemma acts_record: "allowed (ActRecord device) \<Longrightarrow> obeys (acts_within allowed) (record_pcm W device) c"
  unfolding record_pcm_def
  by (intro acting.obeys_intros)
    (auto simp: obeys_def acts_within_def drop_temporary_pcm_def Let_def split: sum.splits)

lemma acts_temporary:
  assumes "obeys (acts_within allowed) body c"
  shows "obeys (acts_within allowed) (with_temporary_pcm W path body) c"
proof -
  have "obeys (acts_within allowed) (seq body (\<lambda>a. seq (remove_if_present (iw_pcm_remove W) path) (\<lambda>_. give a))) c"
    by (intro acting.obeys_seq assms acting.obeys_give) (simp add: obeys_def acts_within_def)
  then show ?thesis
    by (auto simp: obeys_def with_temporary_pcm_def drop_temporary_pcm_def acts_within_def
        split: prod.splits sum.splits)
qed

lemma acts_recognize:
  "allowed ActTranscribe \<Longrightarrow> obeys (acts_within allowed) (recognize_live W config provider path) c"
  unfolding recognize_live_def Let_def
  by (auto simp: case_prod_beta intro!: acting.obeys_intros acting.obeys_analyze)
    (auto simp: obeys_def acts_within_def write_pcm_def split: option.splits sum.splits)

abbreviation permitted :: "cli_world \<Rightarrow> cli \<Rightarrow> cli_action \<Rightarrow> bool" where
  "permitted W c a \<equiv> intrusive a \<longrightarrow> \<not> daemon_busy W c"

lemma acts_doctor_audio: "obeys (acts_within (permitted W c)) (doctor_audio W) c"
  unfolding doctor_audio_def
  by (rule acting.obeys_seq[OF acting.obeys_guards(1)], drule guard_passes)
    (auto intro!: acting.obeys_intros acts_record acts_temporary acting.obeys_analyze)

lemma acts_doctor_live: "obeys (acts_within (permitted W c)) (doctor_provider_live W name requested) c"
  unfolding doctor_provider_live_def Let_def
  by (rule acting.obeys_seq[OF acting.obeys_guards(1)], drule guard_passes)
    (auto intro!: acting.obeys_intros acts_record acts_temporary acts_recognize acting.obeys_live_provider
      split: option.splits)

text \<open>
  C28: The command line does not disturb a daemon at work. Whatever the arguments, a run probes the
  focused window, dispatches a text to it, opens the microphone or calls a provider only when the
  daemon could not be reached or answered the status call of this run, made before, with idle.
\<close>

theorem busy_daemon_is_left_alone:
  assumes "cli_run W arguments c = Some (r, c')"
  shows "\<exists>new. ci_actions c' = ci_actions c @ new \<and>
     ((\<exists>a \<in> set new. intrusive a) \<longrightarrow>
        iw_connect W \<noteq> None \<or>
        bw_reply (iw_bus W) (length (cl_calls c)) CallStatus = Inr (ReplyText (text_of ''idle'')))"
proof -
  have "acts_within (permitted W c) c c'"
    by (rule acting.obeys_run[OF assms]) (simp_all add: acts_doctor_audio acts_doctor_live)
  then show ?thesis by (auto simp: acts_within_def daemon_busy_def list_all_iff)
qed

section \<open>Recordings\<close>

interpretation filing: cli_relation "same_files W" W "\<lambda>_. True" for W
  by unfold_locales (auto simp: same_files_def)

text \<open>Only the given file may change.\<close>

definition only_file :: "string \<Rightarrow> cli \<Rightarrow> cli \<Rightarrow> bool" where
  "only_file path c d \<longleftrightarrow> (\<forall>q. q \<noteq> path \<longrightarrow> dk_files (ci_disk d) q = dk_files (ci_disk c) q)"

lemma temporary_is_removed:
  assumes "obeys (only_file path) body c" and "iw_pcm_drop W = None"
  shows "only_file path c (snd (with_temporary_pcm W path body c)) \<and>
    dk_files (ci_disk (snd (with_temporary_pcm W path body c))) path = None"
proof -
  obtain r d where body: "body c = (r, d)" by force
  then have others: "only_file path c d" using assms(1) by (simp add: obeys_def)
  show ?thesis
  proof (cases r)
    case (Inl e)
    then show ?thesis using body others assms(2)
      by (auto simp: with_temporary_pcm_def seq_def drop_temporary_pcm_def remove_if_present_def
          only_file_def disk_set_def)
  next
    case (Inr a)
    then show ?thesis using body others assms(2)
      by (auto simp: with_temporary_pcm_def seq_def drop_temporary_pcm_def remove_if_present_def
          only_file_def disk_set_def split: option.splits)
  qed
qed

lemma analyze_files: "obeys (only_file path) (analyze_recording W path config) c"
  by (auto simp: obeys_def only_file_def analyze_recording_def seq_def read_pcm_def split: option.splits)

lemma recognize_files: "obeys (only_file path) (recognize_live W config provider path) c"
proof -
  have "snd (analyze_recording W path config c) = c"
    by (auto simp: analyze_recording_def seq_def read_pcm_def split: option.splits)
  then show ?thesis
    by (auto simp: obeys_def only_file_def recognize_live_def seq_def read_pcm_def write_pcm_def act_def
        disk_set_def Let_def case_prod_beta split: prod.splits sum.splits option.splits)
qed

text \<open>The name of a recording is new, unless it is that of the configuration file.\<close>

definition fresh_recording :: "cli_world \<Rightarrow> cli \<Rightarrow> bool" where
  "fresh_recording W c \<longleftrightarrow>
     (iw_capture_start W = None \<longrightarrow>
        config_path (fw_xdg_config_home (iw_files W)) (fw_home (iw_files W)) \<noteq> Inr (iw_capture_path W) \<longrightarrow>
        dk_files (ci_disk c) (iw_capture_path W) = None)"

lemma fresh_same: "fresh_recording W c \<Longrightarrow> same_files W c d \<Longrightarrow> fresh_recording W d"
  by (simp add: fresh_recording_def same_files_def)

lemma fresh_after: "fresh_recording W c \<Longrightarrow> obeys (same_files W) m c \<Longrightarrow> m c = (r, d) \<Longrightarrow> fresh_recording W d"
  using fresh_same by (simp add: obeys_def)

lemma files_recording:
  assumes "iw_pcm_drop W = None" and "fresh_recording W c"
    and "\<And>result d. obeys (only_file (ca_path result)) (body result) d"
    and "\<And>result a d. obeys (same_files W) (rest result a) d"
  shows "obeys (same_files W) (seq (record_pcm W device) (\<lambda>result.
    seq (with_temporary_pcm W (ca_path result) (body result)) (rest result))) c"
proof (cases "iw_capture_start W")
  case (Some e)
  then show ?thesis by (simp add: record_pcm_def of_answer_def filing.obeys_raise)
next
  case None
  let ?c1 = "c\<lparr> ci_actions := ci_actions c @ [ActRecord device] \<rparr>"
  show ?thesis
  proof (cases "iw_capture_stop W")
    case (Inl failed)
    obtain e part where failed: "failed = (e, part)" by force
    then show ?thesis using None Inl assms(1,2)
      by (auto simp: obeys_def record_pcm_def of_answer_def seq_def act_def drop_temporary_pcm_def
          remove_if_present_def same_files_def fresh_recording_def disk_set_def Let_def)
  next
    case (Inr stopped)
    obtain captured pcm where stopped: "stopped = (captured, pcm)" by force
    let ?path = "iw_capture_path W"
    define result where "result = captured\<lparr> ca_path := ?path \<rparr>"
    then have path: "ca_path result = ?path" by simp
    define c2 where "c2 = ?c1\<lparr> ci_disk := disk_set ((dk_files (ci_disk c))(?path \<mapsto> pcm)) (ci_disk c) \<rparr>"
    define c3 where "c3 = with_temporary_pcm W ?path (body result) c2"
    have recorded: "record_pcm W device c = (Inr result, c2)"
      using None Inr stopped by (simp add: record_pcm_def of_answer_def seq_def act_def c2_def result_def Let_def)
    have c2: "dk_files (ci_disk c2) q = dk_files (ci_disk c) q" if "q \<noteq> ?path" for q
      using that by (simp add: c2_def disk_set_def)
    have c3: "only_file ?path c2 (snd c3)" "dk_files (ci_disk (snd c3)) ?path = None"
      using temporary_is_removed[OF assms(3)[of result] assms(1), unfolded path] unfolding c3_def by blast+
    have "dk_files (ci_disk (snd c3)) q = dk_files (ci_disk c) q"
      if "config_path (fw_xdg_config_home (iw_files W)) (fw_home (iw_files W)) \<noteq> Inr q" for q
    proof (cases "q = ?path")
      case True
      then show ?thesis using c3(2) assms(2) that None by (simp add: fresh_recording_def)
    next
      case False
      then show ?thesis using c3(1) c2 by (simp add: only_file_def)
    qed
    then have same: "same_files W c (snd c3)" by (simp add: same_files_def)
    have "same_files W c (snd (seq (with_temporary_pcm W ?path (body result)) (rest result) c2))"
    proof (cases "fst c3")
      case (Inl e)
      then show ?thesis using same by (cases c3) (simp add: seq_def c3_def[symmetric])
    next
      case (Inr a)
      then show ?thesis using filing.chain[OF same] assms(4)[of result a "snd c3"]
        by (cases c3) (simp add: seq_def obeys_def c3_def[symmetric])
    qed
    then show ?thesis using recorded path by (simp add: obeys_def seq_def)
  qed
qed

lemma files_doctor_audio:
  assumes "iw_pcm_drop W = None" and "fresh_recording W c"
  shows "obeys (same_files W) (doctor_audio W) c"
proof -
  have "obeys (same_files W) (seq (record_pcm W device) (\<lambda>result.
      seq (with_temporary_pcm W (ca_path result) (analyze_recording W (ca_path result) config)) (\<lambda>vad.
        if ca_bytes result = 0 then raise ''audio capture produced no PCM data''
        else println (audio_line W result vad)))) d" if "fresh_recording W d" for device config d
    by (rule files_recording[OF assms(1) that])
      (auto intro: analyze_files filing.obeys_raise filing.obeys_simple)
  note recording = this
  show ?thesis unfolding doctor_audio_def
  proof (rule filing.obeys_seq[OF filing.obeys_guards(1)], rule filing.obeys_seq[OF filing.obeys_cli_load_config])
    fix u d config d'
    assume run: "require_idle_daemon W ''audio doctor'' c = (Inr u, d)" "cli_load_config W d = (Inr config, d')"
    have "fresh_recording W d'"
      by (rule fresh_after[OF fresh_after[OF assms(2) filing.obeys_guards(1) run(1)]
            filing.obeys_cli_load_config run(2)])
    then show "obeys (same_files W) (seq (record_pcm W (cfg_device (cfg_audio config))) (\<lambda>result.
        seq (with_temporary_pcm W (ca_path result) (analyze_recording W (ca_path result) config)) (\<lambda>vad.
          if ca_bytes result = 0 then raise ''audio capture produced no PCM data''
          else println (audio_line W result vad)))) d'"
      by (rule recording)
  qed
qed

lemma files_doctor_live:
  assumes "iw_pcm_drop W = None" and "fresh_recording W c"
  shows "obeys (same_files W) (doctor_provider_live W name requested) c"
proof -
  have recording: "obeys (same_files W) (seq (record_pcm W device) (\<lambda>recording.
      seq (with_temporary_pcm W (ca_path recording)
             (recognize_live W config provider (ca_path recording))) (\<lambda>(trimmed_bytes, result).
        println (live_line W shown trimmed_bytes result)))) d"
    if "fresh_recording W d" for device config provider shown d
    by (rule files_recording[OF assms(1) that])
      (auto intro: recognize_files filing.obeys_simple)
  have capture: "obeys (same_files W)
      (seq (cli_load_config W) (\<lambda>config.
       seq (live_provider W config profile) (\<lambda>(shown, provider).
       seq (println line) (\<lambda>_.
       seq (record_pcm W (cfg_device (cfg_audio config))) (\<lambda>recording.
       seq (with_temporary_pcm W (ca_path recording)
              (recognize_live W config provider (ca_path recording))) (\<lambda>(trimmed_bytes, result).
         println (live_line W shown trimmed_bytes result))))))) d"
    if fresh: "fresh_recording W d" for profile line d
  proof (rule filing.obeys_seq[OF filing.obeys_cli_load_config], rule filing.obeys_seq[OF filing.obeys_live_provider])
    fix config d1 found d2
    assume run: "cli_load_config W d = (Inr config, d1)" "live_provider W config profile d1 = (Inr found, d2)"
    have fresh2: "fresh_recording W d2"
      by (rule fresh_after[OF fresh_after[OF fresh filing.obeys_cli_load_config run(1)]
            filing.obeys_live_provider run(2)])
    obtain shown provider where found: "found = (shown, provider)" by force
    have "obeys (same_files W) (seq (println line) (\<lambda>_.
        seq (record_pcm W (cfg_device (cfg_audio config))) (\<lambda>recording.
        seq (with_temporary_pcm W (ca_path recording)
               (recognize_live W config provider (ca_path recording))) (\<lambda>(trimmed_bytes, result).
          println (live_line W shown trimmed_bytes result))))) d2"
    proof (rule filing.obeys_seq[OF filing.obeys_simple(1)])
      fix u d3 assume "println line d2 = (Inr u, d3)"
      then show "obeys (same_files W) (seq (record_pcm W (cfg_device (cfg_audio config))) (\<lambda>recording.
          seq (with_temporary_pcm W (ca_path recording)
                 (recognize_live W config provider (ca_path recording))) (\<lambda>(trimmed_bytes, result).
            println (live_line W shown trimmed_bytes result)))) d3"
        by (intro recording fresh_after[OF fresh2 filing.obeys_simple(1)])
    qed
    then show "obeys (same_files W) (case found of (shown, provider) \<Rightarrow>
        seq (println line) (\<lambda>_.
        seq (record_pcm W (cfg_device (cfg_audio config))) (\<lambda>recording.
        seq (with_temporary_pcm W (ca_path recording)
               (recognize_live W config provider (ca_path recording))) (\<lambda>(trimmed_bytes, result).
          println (live_line W shown trimmed_bytes result))))) d2"
      by (simp add: found)
  qed
  show ?thesis unfolding doctor_provider_live_def Let_def
  proof (rule filing.obeys_seq[OF filing.obeys_guards(1)], goal_cases)
    case (1 u d)
    note fresh1 = fresh_after[OF assms(2) filing.obeys_guards(1) 1]
    show ?case
      using capture[OF fresh1] by (simp add: filing.obeys_raise split: option.splits)
  qed
qed

text \<open>
  C29: The command line leaves no recording behind and changes no file of the user. When the guard of a
  recording can remove it and recordings get new names, then whatever the arguments, and however the
  recorder, the detector, the provider, the first removal or any other call fails, every file is after a
  run as it was before; only the configuration file may have been created.
\<close>

theorem diagnosis_leaves_no_recording:
  assumes "cli_run W arguments c = Some (r, c')" and "iw_pcm_drop W = None"
    and "iw_capture_start W = None \<longrightarrow> dk_files (ci_disk c) (iw_capture_path W) = None"
    and "config_path (fw_xdg_config_home (iw_files W)) (fw_home (iw_files W)) \<noteq> Inr path"
  shows "dk_files (ci_disk c') path = dk_files (ci_disk c) path"
proof -
  have "fresh_recording W c" using assms(3) by (simp add: fresh_recording_def)
  then have "same_files W c c'"
    by (intro filing.obeys_run[OF assms(1)] files_doctor_audio files_doctor_live assms(2)) simp_all
  then show ?thesis using assms(4) by (simp add: same_files_def)
qed

section \<open>Secrets\<close>

text \<open>
  Storing a secret shows nothing of it. For two secrets that are both accepted, the command has the
  same result and prints the same lines; what differs is only what secret-tool reads. No line and no
  error depends on the secret. An empty one, or nothing but line ends, is never stored.
\<close>

theorem secret_is_not_shown:
  assumes "validate_secret_bytes (strip_line_ends s1) = Inr ()"
    and "validate_secret_bytes (strip_line_ends s2) = Inr ()"
  shows "fst (secret_command (W\<lparr> iw_stdin := Inr s1 \<rparr>) action name c) =
           fst (secret_command (W\<lparr> iw_stdin := Inr s2 \<rparr>) action name c) \<and>
         ci_lines (snd (secret_command (W\<lparr> iw_stdin := Inr s1 \<rparr>) action name c)) =
           ci_lines (snd (secret_command (W\<lparr> iw_stdin := Inr s2 \<rparr>) action name c))"
proof -
  have "strip_line_ends s1 \<noteq> []" "strip_line_ends s2 \<noteq> []"
    using assms by (auto simp: validate_secret_bytes_def)
  then show ?thesis using assms
    by (auto simp: secret_command_def Let_def store_secret_def seq_def of_outcome_def println_def
        split: store_answer.splits)
qed

section \<open>Examples\<close>

definition demo_shortcuts :: shortcut_service where
  "demo_shortcuts =
     \<lparr> sv_connect = Some ''no bus'', sv_components = Inr [], sv_proxy = (\<lambda>_. None),
       sv_active = (\<lambda>_. Inr True), sv_infos = (\<lambda>_. Inr []), sv_owners = (\<lambda>_. Inr []) \<rparr>"

text \<open>An idle daemon, a recording of one frame and a focused editor.\<close>

definition demo_cli_world :: cli_world where
  "demo_cli_world =
     \<lparr> iw_bus = \<lparr> bw_reply = (\<lambda>_ _. Inr (ReplyText (text_of ''idle''))), bw_clock = (\<lambda>n. n) \<rparr>,
       iw_connect = None,
       iw_probe = Inr \<lparr> ft_program = text_of ''editor'', ft_frontend = text_of ''wayland'' \<rparr>,
       iw_context = Inl (configuration []),
       iw_commit_test = (\<lambda>_. Inl (configuration [])), iw_ping = Inr (),
       iw_files = \<lparr> fw_xdg_config_home = Some ''/cfg'', fw_home = None, fw_pid = 42, fw_mkdir = None,
         fw_open = None, fw_write = None, fw_sync = None, fw_rename = None, fw_remove = None,
         fw_read = None \<rparr>,
       iw_parse = (\<lambda>_. Inl ''unreadable''), iw_capture_start = None,
       iw_capture_path = ''rec.pcm'',
       iw_capture_stop = Inr (\<lparr> ca_path = ''rec.pcm'', ca_bytes = 640, ca_duration_millis = 20,
         ca_backend = ''parec'' \<rparr>, ''pcm''),
       iw_pcm_read = None, iw_pcm_write = None, iw_pcm_remove = Some ''busy'', iw_pcm_drop = None,
       iw_transcribe = (\<lambda>_ _. Inl (configuration [])),
       iw_bundle = (\<lambda>_. Inl (configuration [])), iw_secret = (\<lambda>_. ToolFailed),
       iw_stdin = Inr ''secret'', iw_store = StoreAccepted, iw_env = (\<lambda>_. None), iw_keyboard = None,
       iw_service = (\<lambda>_. None), iw_path = None, iw_is_file = (\<lambda>_. False),
       iw_shortcuts = demo_shortcuts, iw_parse_error = (\<lambda>_. ''invalid digit''),
       iw_ratio = (\<lambda>_ _. ''0.500''), iw_json_text = utf8_string \<rparr>"

definition demo_cli :: cli where
  "demo_cli =
     \<lparr> cl_calls = [], cl_readings = 0, ci_lines = [], ci_actions = [],
       ci_disk = \<lparr> dk_files = (\<lambda>_. None), dk_history = [] \<rparr>, ci_stored = [] \<rparr>"

lemma demo_doctor:
  "cli_run demo_cli_world [text_of ''doctor'', part] c = Some (doctor_command demo_cli_world [part] c)"
  by (simp add: cli_run_def argument_or_def argument_at_def lift_def Let_def text_of_inject)

lemma demo_insertion:
  "doctor_command demo_cli_world [text_of ''insertion''] =
     seq (require_idle_daemon demo_cli_world ''insertion doctor'') (\<lambda>_.
     seq (probe_focus demo_cli_world) (\<lambda>t. println (''insertion.fcitx=ok '' @ target_text t)))"
  by (rule ext) (simp add: doctor_command_def text_of_inject)

lemma demo_probe: "ci_actions (snd (doctor_command demo_cli_world [text_of ''insertion''] demo_cli)) = [ActProbe]"
proof -
  have "require_idle_daemon demo_cli_world ''insertion doctor'' demo_cli =
      (Inr (), demo_cli\<lparr> cl_calls := [CallStatus] \<rparr>)"
    by (simp add: require_idle_daemon_def client_status_def call_text_def bus_call_def seq_def
        demo_cli_world_def demo_cli_def)
  moreover have "iw_probe demo_cli_world = Inr \<lparr> ft_program = text_of ''editor'', ft_frontend = text_of ''wayland'' \<rparr>"
    "ci_actions demo_cli = []"
    by (simp_all add: demo_cli_world_def demo_cli_def)
  ultimately show ?thesis
    by (simp add: demo_insertion seq_def probe_focus_def act_def of_outcome_def println_def)
qed

theorem busy_daemon_is_left_alone_witness:
  "\<exists>r c'. cli_run demo_cli_world [text_of ''doctor'', text_of ''insertion''] demo_cli = Some (r, c') \<and>
     ci_actions c' = [ActProbe] \<and>
     bw_reply (iw_bus demo_cli_world) 0 CallStatus = Inr (ReplyText (text_of ''idle''))"
proof -
  obtain r c' where run:
    "cli_run demo_cli_world [text_of ''doctor'', text_of ''insertion''] demo_cli = Some (r, c')"
    "ci_actions c' = [ActProbe]"
    using demo_probe by (simp add: demo_doctor) (metis prod.collapse)
  have start: "ci_actions demo_cli = []" "cl_calls demo_cli = []" "iw_connect demo_cli_world = None"
    by (simp_all add: demo_cli_def demo_cli_world_def)
  have "bw_reply (iw_bus demo_cli_world) 0 CallStatus = Inr (ReplyText (text_of ''idle''))"
    using busy_daemon_is_left_alone[OF run(1)] run(2) start by auto
  then show ?thesis using run by blast
qed

theorem diagnosis_leaves_no_recording_witness:
  "\<exists>r c'. cli_run demo_cli_world [text_of ''doctor'', text_of ''audio''] demo_cli = Some (r, c') \<and>
     dk_files (ci_disk c') ''rec.pcm'' = None"
proof -
  obtain r c' where run:
    "cli_run demo_cli_world [text_of ''doctor'', text_of ''audio''] demo_cli = Some (r, c')"
    by (simp add: demo_doctor) (metis prod.collapse)
  have "config_path (fw_xdg_config_home (iw_files demo_cli_world)) (fw_home (iw_files demo_cli_world)) \<noteq>
      Inr ''rec.pcm''"
    by (simp add: config_path_def demo_cli_world_def)
  from diagnosis_leaves_no_recording[OF run _ _ this] run show ?thesis
    by (auto simp: demo_cli_world_def demo_cli_def)
qed

theorem secret_is_not_shown_witness:
  "ci_lines (snd (secret_command (demo_cli_world\<lparr> iw_stdin := Inr ''alpha'' \<rparr>)
      (text_of ''set'') (text_of ''key'') demo_cli)) =
   ci_lines (snd (secret_command (demo_cli_world\<lparr> iw_stdin := Inr ''beta'' \<rparr>)
      (text_of ''set'') (text_of ''key'') demo_cli))"
  using secret_is_not_shown[of "''alpha''" "''beta''"]
  by (simp add: validate_secret_bytes_def strip_line_ends_def is_ascii_control_def)

end
