(* ===== verification/Cleanup.thy ===== *)
theory Cleanup
  imports Client Json Overlay
begin

text \<open>
  The window that reviews a text check (src/bin/voxtype-cleanup.rs): the report of the daemon is
  checked, written to a file that a window reads, and removed when the window has ended. The client
  is that of theory Client, the files those of theory Config_Store, without their permissions.
\<close>

section \<open>The report\<close>

definition max_report_bytes :: nat where
  "max_report_bytes = 256 * 1024"

definition validate_report :: "(utext \<Rightarrow> string + json) \<Rightarrow> utext \<Rightarrow> string + json" where
  "validate_report parse report =
     (if max_report_bytes < length (utf8_string report) then Inl ''cleanup report is too large''
      else case parse report of
        Inl e \<Rightarrow> Inl e
      | Inr v \<Rightarrow>
          if Option.bind (json_get ''schema'' v) json_as_u64 \<noteq> Some 1 \<or>
             Option.bind (json_get ''clean'' v) json_as_bool = None \<or>
             Option.bind (json_get ''suggested'' v) json_as_str = None \<or>
             Option.bind (json_get ''edits'' v) json_as_array = None
          then Inl ''cleanup report has an unsupported schema'' else Inr v)"

section \<open>The host\<close>

text \<open>
  The client with the disk, the windows that were run, each with its program, its arguments and the
  contents of the report's file when it started, and the notifications.
\<close>

record review_host = client +
  rv_disk :: disk
  rv_windows :: "(string \<times> string list \<times> string option) list"
  rv_notices :: "string list"

text \<open>How the window ends: it cannot be started, or it exits with a status and a text for it.\<close>

datatype window_end =
    WindowNotStarted string
  | WindowExited bool string

record review_world =
  rw_bus :: bus_world
  rw_connect :: "string option"
  rw_runtime :: "string option"
  rw_mkdir :: "string option"
  rw_permissions :: "string option"
  rw_nonce :: nat
  rw_files :: file_world
  rw_qml_runtime :: "string option"
  rw_is_file :: "string \<Rightarrow> bool"
  rw_qml_file :: "string option"
  rw_data_home :: "string option"
  rw_home :: "string option"
  rw_temp :: string
  rw_window :: window_end
  rw_parse :: "utext \<Rightarrow> string + json"

type_synonym 'a review_op = "(review_host, string, 'a) eff"

definition on_review_disk :: "(disk, vox_error, 'a) eff \<Rightarrow> 'a review_op" where
  "on_review_disk m h =
     (case m (rv_disk h) of
        (r, d) \<Rightarrow> (map_sum err_message id r, h\<lparr> rv_disk := d \<rparr>))"

definition review_result :: "string + 'a \<Rightarrow> 'a review_op" where
  "review_result r = (case r of Inl e \<Rightarrow> raise e | Inr a \<Rightarrow> give a)"

definition review_io :: "string option \<Rightarrow> unit review_op" where
  "review_io answer = (case answer of None \<Rightarrow> give () | Some e \<Rightarrow> raise e)"

section \<open>The private file\<close>

definition report_path :: "review_world \<Rightarrow> string \<Rightarrow> string" where
  "report_path W directory =
     directory @ ''/voxtype/cleanup-report-'' @ show_nat (fw_pid (rw_files W)) @ ''-'' @
     show_nat (rw_nonce W) @ ''.json''"

text \<open>Writing through to the disk; a file that cannot be written is removed again.\<close>

definition write_synced :: "file_world \<Rightarrow> string \<Rightarrow> string \<Rightarrow> (disk, vox_error, unit) eff" where
  "write_synced F path contents d =
     (case seq (write_all F path contents) (\<lambda>_. io_result (fw_sync F)) d of
        (Inl e, d') \<Rightarrow> (Inl e, remove_file F path d')
      | (Inr _, d') \<Rightarrow> (Inr (), d'))"

definition write_private_report :: "review_world \<Rightarrow> string \<Rightarrow> string review_op" where
  "write_private_report W payload =
     (case rw_runtime W of
        None \<Rightarrow> raise ''XDG_RUNTIME_DIR is unavailable''
      | Some directory \<Rightarrow>
          (let path = report_path W directory
           in seq (review_io (rw_mkdir W)) (\<lambda>_.
              seq (review_io (rw_permissions W)) (\<lambda>_.
              seq (on_review_disk (create_new (rw_files W) path)) (\<lambda>_.
              seq (on_review_disk (write_synced (rw_files W) path payload)) (\<lambda>_. give path))))))"

definition drop_report :: "review_world \<Rightarrow> string \<Rightarrow> review_host \<Rightarrow> review_host" where
  "drop_report W path h = h\<lparr> rv_disk := remove_file (rw_files W) path (rv_disk h) \<rparr>"

section \<open>The window\<close>

definition cleanup_qml_path :: "review_world \<Rightarrow> string" where
  "cleanup_qml_path W =
     (case rw_qml_file W of
        Some path \<Rightarrow> path
      | None \<Rightarrow> data_directory (rw_data_home W) (rw_home W) (rw_temp W) @ ''/voxtype/Cleanup.qml'')"

definition run_window :: "review_world \<Rightarrow> string \<Rightarrow> (bool \<times> string) review_op" where
  "run_window W path h =
     (case rw_window W of
        WindowNotStarted e \<Rightarrow> (Inl e, h)
      | WindowExited success shown \<Rightarrow>
          (Inr (success, shown),
           h\<lparr> rv_windows := rv_windows h @
             [(qml_runtime (rw_qml_runtime W) (rw_is_file W), [cleanup_qml_path W, ''--'', path],
               dk_files (rv_disk h) path)] \<rparr>))"

text \<open>The report is removed on both ways out.\<close>

definition review_window :: "review_world \<Rightarrow> string \<Rightarrow> unit review_op" where
  "review_window W path h =
     (case run_window W path h of
        (Inl e, h') \<Rightarrow> (Inl e, drop_report W path h')
      | (Inr (success, shown), h') \<Rightarrow>
          (if success then Inr () else Inl (''QML review window exited with '' @ shown),
           drop_report W path h'))"

definition request_report :: "review_world \<Rightarrow> utext \<Rightarrow> utext review_op" where
  "request_report W mode =
     (if mode = text_of ''context'' then client_check_context_grammar (rw_bus W)
      else if mode = text_of ''last'' then client_check_last_grammar (rw_bus W)
      else raise ''usage: voxtype-cleanup [context|last]'')"

text \<open>One run; the first argument is absent when the mode is not given.\<close>

definition cleanup_run :: "review_world \<Rightarrow> utext option \<Rightarrow> unit review_op" where
  "cleanup_run W argument =
     seq (review_io (rw_connect W)) (\<lambda>_.
     seq (request_report W (case argument of None \<Rightarrow> text_of ''context'' | Some mode \<Rightarrow> mode)) (\<lambda>report.
     seq (review_result (validate_report (rw_parse W) report)) (\<lambda>_.
     seq (write_private_report W (utf8_string report)) (\<lambda>path. review_window W path))))"

text \<open>The exit code of the process.\<close>

definition cleanup_main :: "review_world \<Rightarrow> utext option \<Rightarrow> review_host \<Rightarrow> nat \<times> review_host" where
  "cleanup_main W argument h =
     (case cleanup_run W argument h of
        (Inl e, h') \<Rightarrow> (1, h'\<lparr> rv_notices := rv_notices h' @ [e] \<rparr>)
      | (Inr _, h') \<Rightarrow> (0, h'))"

end
