(* ===== verification/Cleanup_Props.thy ===== *)
theory Cleanup_Props
  imports Cleanup Status Daemon_Props
begin

text \<open>
  What the review of a text check guarantees: the report of the daemon is shown as it is, only when it
  has the expected form, and its file is gone in the end.
\<close>

section \<open>The file of the report\<close>

lemma remove_file_files [simp]:
  "fw_remove F = None \<Longrightarrow> dk_files (remove_file F path d) = (dk_files d)(path := None)"
  by (simp add: remove_file_def disk_set_def)

lemma create_new_cases:
  "create_new F path d = (r, d') \<Longrightarrow>
     (\<exists>e. r = Inl e \<and> d' = d) \<or>
     (r = Inr () \<and> dk_files d path = None \<and> dk_files d' = (dk_files d)(path \<mapsto> []))"
  by (auto simp: create_new_def disk_set_def split: if_splits option.splits)

lemma write_synced_cases:
  assumes "write_synced F path contents d = (r, d')" and "fw_remove F = None"
  shows "(\<exists>e. r = Inl e \<and> dk_files d' = (dk_files d)(path := None)) \<or>
    (r = Inr () \<and> dk_files d' = (dk_files d)(path \<mapsto> contents))"
  using assms
  by (auto simp: write_synced_def seq_def write_all_def io_result_def disk_set_def
      split: prod.splits sum.splits option.splits)

text \<open>A written report is the only change of the files; otherwise there is none.\<close>

lemma write_private_report_cases:
  assumes "write_private_report W payload h = (r, h')" and "fw_remove (rw_files W) = None"
  shows "\<exists>d. h' = h\<lparr> rv_disk := d \<rparr> \<and>
    ((\<exists>e. r = Inl e \<and> dk_files d = dk_files (rv_disk h)) \<or>
     (\<exists>path. r = Inr path \<and> dk_files (rv_disk h) path = None \<and>
        dk_files d = (dk_files (rv_disk h))(path \<mapsto> payload)))"
proof (cases "rw_runtime W = None \<or> rw_mkdir W \<noteq> None \<or> rw_permissions W \<noteq> None")
  case True
  then show ?thesis using assms(1)
    by (intro exI[of _ "rv_disk h"])
      (auto simp: write_private_report_def seq_def review_io_def split: option.splits)
next
  case False
  then obtain directory where ready: "rw_runtime W = Some directory" "rw_mkdir W = None"
    "rw_permissions W = None" by auto
  define path where "path = report_path W directory"
  obtain r1 d1 where create: "create_new (rw_files W) path (rv_disk h) = (r1, d1)" by force
  obtain r2 d2 where "write": "write_synced (rw_files W) path payload d1 = (r2, d2)" by force
  show ?thesis
  proof (cases r1)
    case (Inl e)
    then show ?thesis
      using assms(1) ready create create_new_cases[OF create]
      by (intro exI[of _ "rv_disk h"]) (auto simp: write_private_report_def seq_def review_io_def on_review_disk_def
          path_def[symmetric] Let_def)
  next
    case (Inr u)
    have fresh: "dk_files (rv_disk h) path = None" "dk_files d1 = (dk_files (rv_disk h))(path \<mapsto> [])"
      using create_new_cases[OF create] Inr by auto
    have result: "(r, h') = (map_sum err_message (\<lambda>_. path) r2, h\<lparr> rv_disk := d2 \<rparr>)"
      using assms(1) ready create "write" Inr
      by (cases r2) (auto simp: write_private_report_def seq_def review_io_def on_review_disk_def
          path_def[symmetric] Let_def)
    have gone: "(dk_files (rv_disk h))(path := None) = dk_files (rv_disk h)"
      using fresh(1) by (simp add: fun_upd_idem)
    show ?thesis
      using write_synced_cases[OF "write" assms(2)] fresh gone result
      by (intro exI[of _ d2]) auto
  qed
qed

lemma review_window_cases:
  assumes "review_window W path h = (r, h')" and "fw_remove (rw_files W) = None"
  shows "dk_files (rv_disk h') = (dk_files (rv_disk h))(path := None) \<and> cl_calls h' = cl_calls h \<and>
    (\<exists>ws. rv_windows h' = rv_windows h @ ws \<and> length ws \<le> 1 \<and> (r = Inr () \<longrightarrow> ws \<noteq> []) \<and>
       (\<forall>w \<in> set ws. snd (snd w) = dk_files (rv_disk h) path))"
  using assms by (cases "rw_window W")
    (auto simp: review_window_def run_window_def drop_report_def split: if_splits)

section \<open>The daemon's report\<close>

lemma validate_report_text: "validate_report parse report = Inr v \<Longrightarrow> parse report = Inr v"
  by (auto simp: validate_report_def split: if_splits sum.splits)

lemma daemon_report_is_valid:
  assumes "parse report = Inr (JObject (report_fields (check beyond_ascii t) @ rest))"
  shows "validate_report parse report =
    (if max_report_bytes < length (utf8_string report) then Inl ''cleanup report is too large''
     else parse report)"
  using assms
  by (simp add: validate_report_def report_fields_def jnat_def jtext_def check_def Let_def)


section \<open>Runs\<close>

definition report_call :: "utext \<Rightarrow> client_call" where
  "report_call mode = (if mode = text_of ''context'' then CallCheckContextGrammar else CallCheckLastGrammar)"

lemma request_report_cases:
  assumes "request_report W mode h = (Inr report, h')"
  shows "h' = h\<lparr> cl_calls := cl_calls h @ [report_call mode] \<rparr> \<and>
    bw_reply (rw_bus W) (length (cl_calls h)) (report_call mode) = Inr (ReplyText report)"
  using assms
  by (auto simp: request_report_def report_call_def client_check_context_grammar_def
      client_check_last_grammar_def call_text_def bus_call_def seq_def text_of_def
      split: if_splits prod.splits sum.splits bus_reply.splits)

lemma request_report_keeps:
  assumes "request_report W mode h = (r, h')"
  shows "rv_disk h' = rv_disk h \<and> rv_windows h' = rv_windows h"
  using assms
  by (auto simp: request_report_def client_check_context_grammar_def
      client_check_last_grammar_def call_text_def bus_call_def seq_def
      split: if_splits prod.splits sum.splits bus_reply.splits)

abbreviation review_mode :: "utext option \<Rightarrow> utext" where
  "review_mode argument \<equiv> (case argument of None \<Rightarrow> text_of ''context'' | Some mode \<Rightarrow> mode)"

text \<open>A run past the checks: what was asked, and what follows.\<close>

lemma cleanup_run_stages:
  assumes "cleanup_run W argument h = (r, h')"
  shows "(rv_disk h' = rv_disk h \<and> rv_windows h' = rv_windows h \<and> (\<exists>e. r = Inl e)) \<or>
    (\<exists>report v h1.
       bw_reply (rw_bus W) (length (cl_calls h)) (report_call (review_mode argument)) = Inr (ReplyText report) \<and>
       validate_report (rw_parse W) report = Inr v \<and>
       rv_disk h1 = rv_disk h \<and> rv_windows h1 = rv_windows h \<and>
       seq (write_private_report W (utf8_string report)) (review_window W) h1 = (r, h'))"
proof (cases "rw_connect W")
  case (Some e)
  then show ?thesis using assms by (auto simp: cleanup_run_def review_io_def)
next
  case None
  obtain r1 h1 where request: "request_report W (review_mode argument) h = (r1, h1)" by force
  show ?thesis
  proof (cases r1)
    case (Inl e)
    then show ?thesis using assms None request request_report_keeps[OF request]
      by (auto simp: cleanup_run_def review_io_def seq_def)
  next
    case (Inr report)
    note asked = request_report_cases[OF request[unfolded Inr]]
    have rest: "(r, h') = seq (review_result (validate_report (rw_parse W) report)) (\<lambda>_.
        seq (write_private_report W (utf8_string report)) (review_window W)) h1"
      using assms None request Inr by (simp add: cleanup_run_def review_io_def seq_def)
    show ?thesis
    proof (cases "validate_report (rw_parse W) report")
      case (Inl e)
      then show ?thesis using rest asked by (simp add: review_result_def)
    next
      case (Inr v)
      then have "seq (write_private_report W (utf8_string report)) (review_window W) h1 = (r, h')"
        using rest by (simp add: review_result_def)
      moreover have "rv_disk h1 = rv_disk h" "rv_windows h1 = rv_windows h" using asked by simp_all
      ultimately show ?thesis using asked Inr by blast
    qed
  qed
qed

text \<open>
  C30: A review shows the report that the daemon gave and leaves no file behind. Whatever the bus, the
  file system and the window answer, when files can be removed, every file is in the end as it was
  before the run. At most one window is run, and it is given the report that the daemon answered to
  this run, unchanged, once it has the expected schema; a run that succeeds has shown one.
\<close>

theorem review_shows_report_and_removes_it:
  assumes "cleanup_run W argument h = (r, h')" and "fw_remove (rw_files W) = None"
  shows "dk_files (rv_disk h') = dk_files (rv_disk h) \<and>
    (\<exists>ws. rv_windows h' = rv_windows h @ ws \<and> length ws \<le> 1 \<and> (r = Inr () \<longrightarrow> ws \<noteq> []) \<and>
       (\<forall>(_, _, contents) \<in> set ws. \<exists>report v.
          bw_reply (rw_bus W) (length (cl_calls h)) (report_call (review_mode argument)) =
            Inr (ReplyText report) \<and>
          validate_report (rw_parse W) report = Inr v \<and> contents = Some (utf8_string report)))"
  using cleanup_run_stages[OF assms(1)]
proof (elim disjE exE conjE)
  fix report v h1
  assume asked: "bw_reply (rw_bus W) (length (cl_calls h)) (report_call (review_mode argument)) =
      Inr (ReplyText report)" "validate_report (rw_parse W) report = Inr v"
    and same: "rv_disk h1 = rv_disk h" "rv_windows h1 = rv_windows h"
    and run: "seq (write_private_report W (utf8_string report)) (review_window W) h1 = (r, h')"
  obtain r2 h2 where "write": "write_private_report W (utf8_string report) h1 = (r2, h2)" by force
  note cases = write_private_report_cases[OF "write" assms(2)]
  show ?thesis
  proof (cases r2)
    case (Inl e)
    then show ?thesis using cases run "write" same by (auto simp: seq_def)
  next
    case (Inr path)
    then have window: "review_window W path h2 = (r, h')" using run "write" by (simp add: seq_def)
    have fresh: "dk_files (rv_disk h) path = None" "rv_windows h2 = rv_windows h"
      "dk_files (rv_disk h2) = (dk_files (rv_disk h))(path \<mapsto> utf8_string report)"
      using cases Inr same by auto
    then have "dk_files (rv_disk h') = dk_files (rv_disk h)"
      using review_window_cases[OF window assms(2)] by (simp add: fun_upd_idem)
    then show ?thesis using review_window_cases[OF window assms(2)] fresh asked by fastforce
  qed
qed simp


section \<open>The daemon and the window\<close>

text \<open>What a check of the daemon replies for a mode of the window.\<close>

definition daemon_report ::
  "utext \<Rightarrow> (nat \<Rightarrow> bool) \<Rightarrow> (string \<Rightarrow> utext) \<Rightarrow> fcitx_context outcome \<Rightarrow> daemon \<Rightarrow> json fdo" where
  "daemon_report mode beyond_ascii shown answer d =
     (if mode = text_of ''last'' then fst (check_last_grammar beyond_ascii d)
      else fst (check_context_grammar beyond_ascii shown answer))"

lemma daemon_report_fields:
  assumes "daemon_report mode beyond_ascii shown answer d = Inr v"
  shows "\<exists>t rest. v = JObject (report_fields (check beyond_ascii t) @ rest)"
proof (cases "mode = text_of ''last''")
  case True
  then have "v = JObject (report_fields (check beyond_ascii (last (dm_history d))) @ [])"
    using assms by (simp add: daemon_report_def check_last_grammar_def Let_def split: if_splits)
  then show ?thesis by blast
next
  case False
  then show ?thesis using assms
    by (auto simp: daemon_report_def check_context_grammar_def Let_def
        split: sum.splits if_splits)
qed

text \<open>A host on which the run can do its work: every call succeeds and the name of the file is free.\<close>

definition review_ready :: "review_world \<Rightarrow> review_host \<Rightarrow> bool" where
  "review_ready W h \<longleftrightarrow>
     rw_connect W = None \<and> rw_mkdir W = None \<and> rw_permissions W = None \<and>
     fw_open (rw_files W) = None \<and> fw_write (rw_files W) = None \<and> fw_sync (rw_files W) = None \<and>
     (case rw_runtime W of
        None \<Rightarrow> False | Some directory \<Rightarrow> dk_files (rv_disk h) (report_path W directory) = None)"

lemma write_private_report_ready:
  assumes "review_ready W h"
  shows "\<exists>path d. write_private_report W payload h = (Inr path, h\<lparr> rv_disk := d \<rparr>) \<and>
    dk_files d path = Some payload"
  using assms
  by (auto simp: review_ready_def write_private_report_def Let_def seq_def review_io_def
      on_review_disk_def create_new_def write_synced_def write_all_def io_result_def disk_set_def
      split: option.splits)

text \<open>
  Every report of the daemon can be reviewed. When the daemon replies to a check with a report of at
  most 256 KiB, whatever text was checked and whatever was found in it, and the system does its part,
  the report passes the checks of the window and is shown unchanged, and the run ends as the window
  does.
\<close>

theorem daemon_report_is_reviewed:
  assumes "argument \<in> {None, Some (text_of ''context''), Some (text_of ''last'')}"
    and "bw_reply (rw_bus W) (length (cl_calls h)) (report_call (review_mode argument)) =
           Inr (ReplyText report)"
    and "daemon_report (review_mode argument) beyond_ascii shown answer d = Inr v"
    and "rw_parse W report = Inr v" and "length (utf8_string report) \<le> 262144"
    and "review_ready W h" and "rw_window W = WindowExited success status"
  shows "\<exists>h' program arguments.
     cleanup_run W argument h =
       (if success then Inr () else Inl (''QML review window exited with '' @ status), h') \<and>
     rv_windows h' = rv_windows h @ [(program, arguments, Some (utf8_string report))]"
proof -
  let ?h1 = "h\<lparr> cl_calls := cl_calls h @ [report_call (review_mode argument)] \<rparr>"
  have request: "request_report W (review_mode argument) h = (Inr report, ?h1)"
    using assms(1,2)
    by (auto simp: request_report_def report_call_def client_check_context_grammar_def
        client_check_last_grammar_def call_text_def bus_call_def seq_def text_of_def)
  obtain t rest where "v = JObject (report_fields (check beyond_ascii t) @ rest)"
    using daemon_report_fields[OF assms(3)] by blast
  then have "validate_report (rw_parse W) report = Inr v"
    using daemon_report_is_valid[of "rw_parse W"] assms(4,5) by (simp add: max_report_bytes_def)
  moreover have "review_ready W ?h1" using assms(6) by (simp add: review_ready_def split: option.splits)
  then obtain path disk where
    "write_private_report W (utf8_string report) ?h1 = (Inr path, ?h1\<lparr> rv_disk := disk \<rparr>)"
    "dk_files disk path = Some (utf8_string report)"
    using write_private_report_ready by blast
  moreover have "rw_connect W = None" using assms(6) by (simp add: review_ready_def)
  ultimately show ?thesis
    using request assms(7)
    by (simp add: cleanup_run_def review_io_def seq_def review_result_def review_window_def
        run_window_def drop_report_def)
qed

section \<open>Examples\<close>

text \<open>A daemon whose last transcript is a word.\<close>

definition demo_report :: json where
  "demo_report = JObject (report_fields (check (\<lambda>_. False) (text_of ''word'')))"

definition demo_review :: review_world where
  "demo_review =
     \<lparr> rw_bus = \<lparr> bw_reply = (\<lambda>_ _. Inr (ReplyText (text_of ''report''))), bw_clock = (\<lambda>n. n) \<rparr>,
       rw_connect = None, rw_runtime = Some ''/run'', rw_mkdir = None, rw_permissions = None,
       rw_nonce = 7,
       rw_files = \<lparr> fw_xdg_config_home = None, fw_home = None, fw_pid = 42, fw_mkdir = None,
         fw_open = None, fw_write = None, fw_sync = None, fw_rename = None, fw_remove = None,
         fw_read = None \<rparr>,
       rw_qml_runtime = None, rw_is_file = (\<lambda>_. False), rw_qml_file = None, rw_data_home = None,
       rw_home = None, rw_temp = ''/tmp'', rw_window = WindowExited True ''exit status: 0'',
       rw_parse = (\<lambda>_. Inr demo_report) \<rparr>"

definition demo_reviewer :: review_host where
  "demo_reviewer =
     \<lparr> cl_calls = [], cl_readings = 0, rv_disk = \<lparr> dk_files = (\<lambda>_. None), dk_history = [] \<rparr>,
       rv_windows = [], rv_notices = [] \<rparr>"

definition demo_speaker :: daemon where
  "demo_speaker = demo_daemon\<lparr> dm_history := [text_of ''word''] \<rparr>"

lemma demo_report_last:
  "daemon_report (text_of ''last'') (\<lambda>_. False) shown answer demo_speaker = Inr demo_report"
  by (simp add: daemon_report_def check_last_grammar_def demo_speaker_def demo_report_def Let_def)

lemma demo_report_short: "length (utf8_string (text_of ''report'')) = 6"
  by (simp add: utf8_string_def text_of_def utf8_encode_def utf8_char_def)

lemma demo_review_ready: "review_ready demo_review demo_reviewer"
  by (simp add: review_ready_def demo_review_def demo_reviewer_def)

theorem daemon_report_is_reviewed_witness:
  "\<exists>h' program arguments. cleanup_run demo_review (Some (text_of ''last'')) demo_reviewer = (Inr (), h') \<and>
     rv_windows h' = [(program, arguments, Some (utf8_string (text_of ''report'')))]"
  using daemon_report_is_reviewed[of "Some (text_of ''last'')" demo_review demo_reviewer
      "text_of ''report''" "\<lambda>_. False" "\<lambda>_. []" "Inl (configuration [])" demo_speaker demo_report
      True "''exit status: 0''"]
    demo_report_last demo_report_short demo_review_ready
  by (simp add: demo_review_def) (simp add: demo_reviewer_def)

theorem review_shows_report_and_removes_it_witness:
  "dk_files (rv_disk (snd (cleanup_run demo_review None demo_reviewer))) = (\<lambda>_. None)"
  using review_shows_report_and_removes_it[of demo_review None demo_reviewer
      "fst (cleanup_run demo_review None demo_reviewer)" "snd (cleanup_run demo_review None demo_reviewer)"]
  by (simp add: demo_review_def) (simp add: demo_reviewer_def)

end
