(* ===== verification/Process.thy ===== *)
theory Process
  imports Daemon_Invariant Capture
begin

text \<open>
  The main function of the daemon process (src/bin/voxtyped.rs). Each round of its loop takes the
  daemon, lets it poll the audio, the deadline and the recognition, takes its events, and emits them
  as signals once the daemon is free again; then it waits for a notification or for the time that
  the daemon names. The calls of clients fall between the rounds, because a round and a call both
  hold the daemon.
\<close>

text \<open>
  The process: its daemon, every signal that it tried to emit with the error if there was one, the
  lines of its log, and the waits between the rounds.
\<close>

record process =
  pc_daemon :: daemon
  pc_signals :: "(app_event \<times> string option) list"
  pc_lines :: "string list"
  pc_waits :: "nat list"

text \<open>
  The answers of one round: the object server may refuse the interface, each poll has its own
  answers and readings of the clock, and a signal may not be emitted.
\<close>

record round_world =
  rd_interface :: "string option"
  rd_telemetry :: world
  rd_deadline :: world
  rd_recognition :: world
  rd_now :: instant
  rd_emit :: "app_event \<Rightarrow> string option"
  rd_display :: "fdo_error \<Rightarrow> string"

definition log_failure :: "string \<Rightarrow> ('a \<Rightarrow> string) \<Rightarrow> 'a + 'b \<Rightarrow> string list" where
  "log_failure prefix display r = (case r of Inl e \<Rightarrow> [prefix @ display e] | Inr _ \<Rightarrow> [])"

definition emit_events :: "round_world \<Rightarrow> app_event list \<Rightarrow> process \<Rightarrow> process" where
  "emit_events R events p =
     p\<lparr> pc_signals := pc_signals p @ map (\<lambda>e. (e, rd_emit R e)) events,
        pc_lines := pc_lines p @
          concat (map (\<lambda>e. case rd_emit R e of
                             None \<Rightarrow> [] | Some msg \<Rightarrow> [''voxtyped lifecycle signal failed: '' @ msg]) events) \<rparr>"

text \<open>What a round does while it holds the daemon: the events, the wait and the lines of the log.\<close>

definition maintain :: "round_world \<Rightarrow> daemon \<Rightarrow> (app_event list \<times> nat \<times> string list) \<times> daemon" where
  "maintain R d =
     (let d1 = poll_audio_telemetry (rd_telemetry R) d;
          (stopped, d2) = enforce_recording_deadline (rd_deadline R) d1;
          (polled, d3) = poll_recognition (rd_recognition R) d2;
          (events, d4) = daemon_drain_events d3
      in ((events, maintenance_wait (rd_now R) d4,
           log_failure ''voxtyped deadline handling failed: '' (rd_display R) stopped @
           log_failure ''voxtyped recognition failed: '' (rd_display R) polled), d4))"

text \<open>One round; the result says whether the loop goes on.\<close>

definition process_round :: "round_world \<Rightarrow> process \<Rightarrow> (string + bool) \<times> process" where
  "process_round R p =
     (case rd_interface R of
        Some e \<Rightarrow> (Inl e, p)
      | None \<Rightarrow>
          if dm_quit (pc_daemon p) then (Inr False, p)
          else case maintain R (pc_daemon p) of
            ((events, wait, lines1), d) \<Rightarrow>
              (Inr True,
               (emit_events R events (p\<lparr> pc_daemon := d, pc_lines := pc_lines p @ lines1 \<rparr>))
                 \<lparr> pc_waits := pc_waits p @ [wait] \<rparr>))"

text \<open>The calls that reach the daemon while the process waits.\<close>

definition serve_calls :: "(daemon_op \<times> world) list \<Rightarrow> process \<Rightarrow> process" where
  "serve_calls calls p = p\<lparr> pc_daemon := snd (daemon_run calls (pc_daemon p)) \<rparr>"

text \<open>
  The loop over the given rounds, each after the calls before it. The result is the error that ended
  the process, or whether it is still in the loop.
\<close>

fun process_loop ::
  "((daemon_op \<times> world) list \<times> round_world) list \<Rightarrow> process \<Rightarrow> (string + bool) \<times> process" where
  "process_loop [] p = (Inr True, p)"
| "process_loop ((calls, R) # rounds) p =
     (case process_round R (serve_calls calls p) of
        (Inr True, p') \<Rightarrow> process_loop rounds p'
      | other \<Rightarrow> other)"

definition process_new :: "daemon \<Rightarrow> process" where
  "process_new d = \<lparr> pc_daemon = d, pc_signals = [], pc_lines = [], pc_waits = [] \<rparr>"

section \<open>The start of the process\<close>

text \<open>
  The recordings that an earlier process left in the runtime directory, with their paths; listing
  the directory may fail.
\<close>

definition cleanup_stale_recordings ::
  "string option \<Rightarrow> string \<Rightarrow> (string \<Rightarrow> string list option) \<Rightarrow> string list" where
  "cleanup_stale_recordings runtime temp entries =
     (let directory = (case runtime of None \<Rightarrow> temp | Some r \<Rightarrow> r) @ ''/voxtype''
      in map (\<lambda>name. directory @ ''/'' @ name) (cleanup_directory (entries directory)))"

record start_world =
  st_config :: "config outcome"
  st_recognizers :: "provider_config \<Rightarrow> recognizer_fun"
  st_runtime :: "string option"
  st_temp :: string
  st_entries :: "string \<Rightarrow> string list option"
  st_bus :: "string option"

text \<open>The daemon, and the stale recordings that were removed.\<close>

definition load_with_wake :: "start_world \<Rightarrow> wake_handle \<Rightarrow> daemon outcome \<times> string list" where
  "load_with_wake S wake =
     (case st_config S of
        Inl e \<Rightarrow> (Inl e, [])
      | Inr config \<Rightarrow>
          (compose (st_recognizers S) config wake,
           if retain_recordings (cfg_desktop config) then []
           else cleanup_stale_recordings (st_runtime S) (st_temp S) (st_entries S)))"

text \<open>Loading the daemon and serving it on the bus, then the loop.\<close>

definition process_main ::
  "start_world \<Rightarrow> ((daemon_op \<times> world) list \<times> round_world) list \<Rightarrow>
   string + (string + bool) \<times> process" where
  "process_main S rounds =
     (case fst (load_with_wake S wake_channel) of
        Inl e \<Rightarrow> Inl (vox_error_display e)
      | Inr d \<Rightarrow>
          (case st_bus S of
             Some e \<Rightarrow> Inl e
           | None \<Rightarrow>
               Inr (process_loop rounds
                 ((process_new d)\<lparr> pc_lines := [''voxtyped ready on io.github.tinnci.VoxType''] \<rparr>))))"

end
