(* ===== verification/Process_Props.thy ===== *)
theory Process_Props
  imports Process Daemon_Props
begin

text \<open>
  What the process guarantees: it only ever takes the steps of the daemon, and by its signals every
  listener learns each result that a client could ask for.
\<close>

section \<open>What the operations keep of the controller\<close>

text \<open>A predicate of the controller that each operation of it keeps that the daemon uses.\<close>

locale app_invariant =
  fixes P :: "app_controller \<Rightarrow> bool"
  assumes keep_apply: "P a \<Longrightarrow> P (snd (app_apply c a))"
    and keep_finish: "P a \<Longrightarrow> P (snd (finish_session s oc e b n a))"
    and keep_record: "P a \<Longrightarrow> P (record_route_result r ms now a)"
    and keep_registry: "P a \<Longrightarrow> P (replace_registry reg a)"
    and keep_notify: "P a \<Longrightarrow> P (notify a)"
begin

lemma ak_apply: "P (dm_app d) \<Longrightarrow> P (dm_app (snd (apply_command c d)))"
  by (simp add: apply_command_app keep_apply)

lemma ak_ignored: "P (dm_app d) \<Longrightarrow> P (dm_app (apply_ignored c d))"
  by (simp add: apply_ignored_app keep_apply)

lemma ak_fail_nonterminal: "P (dm_app d) \<Longrightarrow> P (dm_app (fail_nonterminal_session s c m d))"
  by (simp add: fail_nonterminal_session_def ak_ignored)

lemma ak_no_speech: "P (dm_app d) \<Longrightarrow> P (dm_app (snd (no_speech s d)))"
  using ak_apply[of "cancel_armed d" "CmdNoSpeech s"]
  by (auto simp: no_speech_def split: prod.splits sum.splits)

lemma ak_fail_recognition: "P (dm_app d) \<Longrightarrow> P (dm_app (snd (fail_recognition s e d)))"
  by (simp add: fail_recognition_def ak_ignored)

lemma ak_spawn: "P (dm_app d) \<Longrightarrow> P (dm_app (snd (spawn_recognition s rec v ms w d)))"
  by (auto simp: spawn_recognition_def Let_def ak_fail_recognition split: option.splits sum.splits)

lemma ak_begin_recognition: "P (dm_app d) \<Longrightarrow> P (dm_app (snd (begin_recognition s rec w d)))"
  using begin_recognition_end[of s rec w d] ak_no_speech[of d] ak_spawn[of d] by auto

lemma ak_complete: "P (dm_app d) \<Longrightarrow> P (dm_app (snd (complete_recognition s i t w d)))"
  by (simp add: complete_recognition_def Let_def case_prod_beta ak_apply ak_ignored keep_finish
      split: sum.splits command_effect.splits)

lemma ak_finish: "P (dm_app d) \<Longrightarrow> P (dm_app (snd (finish_recognition job r w d)))"
  by (simp add: finish_recognition_def Let_def case_prod_beta ak_complete ak_fail_recognition
      keep_record split: sum.splits)

lemma ak_poll: "P (dm_app d) \<Longrightarrow> P (dm_app (snd (poll_recognition w d)))"
  by (simp add: poll_recognition_def Let_def ak_finish split: option.splits recv_result.splits)

lemma ak_after_stop: "P (dm_app (snd out)) \<Longrightarrow> P (dm_app (snd (after_stop rec out s w)))"
  by (simp add: after_stop_def Let_def case_prod_beta ak_fail_nonterminal split: sum.splits)

lemma ak_stop: "P (dm_app d) \<Longrightarrow> P (dm_app (snd (daemon_stop s w d)))"
  by (simp add: daemon_stop_def Let_def case_prod_beta ak_apply ak_ignored ak_after_stop
      ak_begin_recognition split: sum.splits)

lemma ak_cancel: "P (dm_app d) \<Longrightarrow> P (dm_app (snd (daemon_cancel s d)))"
  by (simp add: daemon_cancel_def case_prod_beta ak_apply split: sum.splits)

lemma ak_reset: "P (dm_app d) \<Longrightarrow> P (dm_app (snd (daemon_reset d)))"
  by (simp add: daemon_reset_def case_prod_beta ak_apply split: sum.splits)

lemma ak_begin_capture: "P (dm_app d) \<Longrightarrow> P (dm_app (snd (begin_capture n s w d)))"
  by (simp add: begin_capture_def Let_def case_prod_beta ak_apply ak_ignored split: sum.splits)

lemma ak_start: "P (dm_app d) \<Longrightarrow> P (dm_app (snd (daemon_start p w d)))"
  by (simp add: daemon_start_def Let_def case_prod_beta ak_apply ak_ignored ak_begin_capture
      split: sum.splits command_effect.splits option.splits)

lemma ak_reload: "P (dm_app d) \<Longrightarrow> P (dm_app (snd (reload_configuration w d)))"
  by (simp add: reload_configuration_def clear_history_def Let_def keep_registry split: sum.splits)

lemma ak_quit: "P (dm_app d) \<Longrightarrow> P (dm_app (daemon_quit d))"
  by (simp add: daemon_quit_def Let_def keep_notify)

lemma ak_deadline: "P (dm_app d) \<Longrightarrow> P (dm_app (snd (enforce_recording_deadline w d)))"
  using snd_deadline[of w d] ak_stop[of d "[]" w] by auto

text \<open>Draining apart, every step of the daemon keeps it.\<close>

lemma ak_step:
  "P (dm_app d) \<Longrightarrow> op \<noteq> OpDrainEvents \<Longrightarrow> P (dm_app (snd (daemon_step (op, w) d)))"
  by (cases op) (simp_all add: case_prod_beta Let_def ak_start ak_stop ak_cancel ak_reset ak_poll
      ak_deadline ak_reload ak_quit clear_history_def)

end

section \<open>Results and announcements\<close>

text \<open>The announcement of a retained result.\<close>

definition announcement :: "terminal_session_result \<Rightarrow> app_event" where
  "announcement r =
     SessionFinished (tr_session r) (tr_outcome r) (tr_error_code r) (tr_backend r) (tr_char_count r)"

text \<open>Every retained result was announced, in the events already sent or those still queued.\<close>

definition all_announced :: "app_event set \<Rightarrow> app_controller \<Rightarrow> bool" where
  "all_announced sent a \<longleftrightarrow>
     announcement ` set (ac_session_results a) \<subseteq> sent \<union> set (ac_events a)"

lemma push_bounded_subset: "set (push_bounded m x xs) \<subseteq> insert x (set xs)"
  by (cases xs) (auto simp: push_bounded_def)

lemma announced_queue:
  assumes "all_announced sent a"
  shows "all_announced sent (queue_session_finished s oc e b n a)"
proof -
  let ?r = "\<lparr> tr_session = session_str s, tr_outcome = oc, tr_error_code = e, tr_backend = b,
              tr_char_count = n \<rparr>"
  let ?kept = "remove_first (\<lambda>r. tr_session r = session_str s) (ac_session_results a)"
  have "set (push_bounded max_session_results ?r ?kept) \<subseteq> insert ?r (set (ac_session_results a))"
    using push_bounded_subset[of max_session_results ?r ?kept]
      remove_first_subset[of "\<lambda>r. tr_session r = session_str s" "ac_session_results a"] by blast
  then have "announcement ` set (push_bounded max_session_results ?r ?kept) \<subseteq>
      insert (announcement ?r) (sent \<union> set (ac_events a))"
    using assms by (auto simp: all_announced_def)
  then show ?thesis by (simp add: all_announced_def queue_session_finished_def Let_def announcement_def)
qed

lemma announced_fields [simp]:
  "all_announced sent (a\<lparr> ac_machine := m \<rparr>) = all_announced sent a"
  "all_announced sent (notify a) = all_announced sent a"
  "all_announced sent (replace_registry reg a) = all_announced sent a"
  by (simp_all add: all_announced_def notify_def replace_registry_def)

lemma announced_state: "all_announced sent a \<Longrightarrow> all_announced sent (queue_current_state a)"
  by (auto simp: all_announced_def queue_current_state_def)

interpretation announced: app_invariant "all_announced sent" for sent
proof
  fix a c
  assume "all_announced sent a"
  then show "all_announced sent (snd (app_apply c a))"
    by (auto simp: app_apply_def Let_def announced_queue announced_state
        split: prod.splits sum.splits option.splits)
next
  fix r ms now a
  assume "all_announced sent a"
  then show "all_announced sent (record_route_result r ms now a)"
    by (simp add: all_announced_def)
qed (simp_all add: finish_session_def announced_queue)


section \<open>Rounds\<close>

text \<open>The operations that clients can call; the others are those of the loop.\<close>

definition is_client_call :: "daemon_op \<Rightarrow> bool" where
  "is_client_call op \<longleftrightarrow> op \<notin> {OpPollRecognition, OpPollAudio, OpDeadline, OpDrainEvents}"

abbreviation client_calls :: "(daemon_op \<times> world) list \<Rightarrow> bool" where
  "client_calls calls \<equiv> list_all (\<lambda>(op, _). is_client_call op) calls"

text \<open>The steps of a round.\<close>

definition round_steps :: "round_world \<Rightarrow> (daemon_op \<times> world) list" where
  "round_steps R =
     [(OpPollAudio, rd_telemetry R), (OpDeadline, rd_deadline R), (OpPollRecognition, rd_recognition R),
      (OpDrainEvents, rd_recognition R)]"

lemma maintain_steps: "snd (maintain R d) = snd (daemon_run (round_steps R) d)"
  by (simp add: maintain_def round_steps_def run_simps case_prod_beta Let_def)

lemma maintain_events:
  fixes R d
  defines "d3 \<equiv> snd (poll_recognition (rd_recognition R)
             (snd (enforce_recording_deadline (rd_deadline R) (poll_audio_telemetry (rd_telemetry R) d))))"
  shows "fst (fst (maintain R d)) = ac_events (dm_app d3)"
    and "dm_app (snd (maintain R d)) = (dm_app d3)\<lparr> ac_events := [] \<rparr>"
  by (simp_all add: maintain_def d3_def case_prod_beta Let_def daemon_drain_events_def drain_events_def)

lemma announced_run:
  "all_announced sent (dm_app d) \<Longrightarrow> client_calls calls \<Longrightarrow>
   all_announced sent (dm_app (snd (daemon_run calls d)))"
proof (induction calls arbitrary: d)
  case (Cons c calls)
  obtain op w where c: "c = (op, w)" by force
  then have "op \<noteq> OpDrainEvents" using Cons.prems(2) by (simp add: is_client_call_def)
  then show ?case
    using Cons announced.ak_step[OF Cons.prems(1), of op w] c
    by (simp add: run_simps del: run_steps.simps(2) daemon_step.simps)
qed simp

definition process_inv :: "process \<Rightarrow> bool" where
  "process_inv p \<longleftrightarrow> all_announced (fst ` set (pc_signals p)) (dm_app (pc_daemon p))"

lemma serve_inv: "process_inv p \<Longrightarrow> client_calls calls \<Longrightarrow> process_inv (serve_calls calls p)"
  by (simp add: process_inv_def serve_calls_def announced_run)

text \<open>A round that goes on sends what it takes from the queue, and leaves the queue empty.\<close>

lemma round_effect:
  assumes "process_round R p = (Inr True, p')"
  shows "pc_daemon p' = snd (maintain R (pc_daemon p)) \<and> ac_events (dm_app (pc_daemon p')) = [] \<and>
    fst ` set (pc_signals p') = fst ` set (pc_signals p) \<union> set (fst (fst (maintain R (pc_daemon p)))) \<and>
    rd_interface R = None \<and> \<not> dm_quit (pc_daemon p)"
  using assms
  by (auto simp: process_round_def emit_events_def case_prod_beta maintain_events(2) image_image
      image_Un split: option.splits if_splits)

lemma round_other: "process_round R p = (r, p') \<Longrightarrow> r \<noteq> Inr True \<Longrightarrow> p' = p"
  by (auto simp: process_round_def case_prod_beta split: option.splits if_splits)

lemma round_inv:
  assumes "process_inv p" and "process_round R p = (r, p')"
  shows "process_inv p'"
proof (cases "r = Inr True")
  case True
  have "all_announced (fst ` set (pc_signals p)) (dm_app (poll_audio_telemetry (rd_telemetry R) (pc_daemon p)))"
    using assms(1) by (simp add: process_inv_def)
  note announced.ak_poll[OF announced.ak_deadline[OF this]]
  then show ?thesis
    using round_effect[OF assms(2)[unfolded True]] maintain_events[of R "pc_daemon p"]
    by (auto simp: process_inv_def all_announced_def)
next
  case False
  then show ?thesis using round_other[OF assms(2)] assms(1) by simp
qed

lemma loop_inv:
  assumes "process_inv p" and "process_loop rounds p = (r, p')"
    and "list_all (client_calls \<circ> fst) rounds"
  shows "process_inv p' \<and> (r = Inr True \<and> rounds \<noteq> [] \<longrightarrow> ac_events (dm_app (pc_daemon p')) = [])"
  using assms
proof (induction rounds arbitrary: p)
  case (Cons c rounds)
  obtain calls R where c: "c = (calls, R)" by force
  obtain r1 p1 where round: "process_round R (serve_calls calls p) = (r1, p1)" by force
  have inv: "process_inv p1"
    using round_inv[OF serve_inv round] Cons.prems(1,3) c by simp
  show ?case
  proof (cases "r1 = Inr True")
    case True
    then have "process_loop rounds p1 = (r, p')" using Cons.prems(2) c round by simp
    moreover have "ac_events (dm_app (pc_daemon p1)) = []" using round_effect round True by blast
    ultimately show ?thesis using Cons.IH[OF inv] Cons.prems(3) by (cases rounds) auto
  next
    case False
    then have "r = r1" "p' = p1" using Cons.prems(2) c round
      by (auto split: sum.splits bool.splits)
    then show ?thesis using inv False by simp
  qed
qed simp


section \<open>The whole process\<close>

lemma loop_steps:
  "process_loop rounds p = (r, p') \<Longrightarrow>
   \<exists>steps. pc_daemon p' = snd (daemon_run steps (pc_daemon p)) \<and>
      set steps \<subseteq> (\<Union>(calls, R) \<in> set rounds. set calls \<union> set (round_steps R)) \<and>
      length steps \<le> (\<Sum>(calls, R) \<leftarrow> rounds. length calls + 4)"
proof (induction rounds arbitrary: p)
  case Nil
  then show ?case by (intro exI[of _ "[]"]) simp
next
  case (Cons c rounds)
  obtain calls R where c: "c = (calls, R)" by force
  obtain r1 p1 where round: "process_round R (serve_calls calls p) = (r1, p1)" by force
  show ?case
  proof (cases "r1 = Inr True")
    case True
    have p1: "pc_daemon p1 = snd (daemon_run (calls @ round_steps R) (pc_daemon p))"
      using round_effect round True by (simp add: serve_calls_def maintain_steps snd_run_append)
    have "process_loop rounds p1 = (r, p')" using Cons.prems c round True by simp
    then obtain steps where "pc_daemon p' = snd (daemon_run steps (pc_daemon p1))"
      "set steps \<subseteq> (\<Union>(calls, R) \<in> set rounds. set calls \<union> set (round_steps R))"
      "length steps \<le> (\<Sum>(calls, R) \<leftarrow> rounds. length calls + 4)"
      using Cons.IH by blast
    moreover have "length (round_steps R) = 4" by (simp add: round_steps_def)
    ultimately show ?thesis using p1 c
      by (intro exI[of _ "(calls @ round_steps R) @ steps"]) (auto simp: snd_run_append)
  next
    case False
    then have "p' = serve_calls calls p" using Cons.prems c round round_other[OF round]
      by (auto split: sum.splits bool.splits)
    then show ?thesis using c by (intro exI[of _ calls]) (auto simp: serve_calls_def)
  qed
qed

lemma process_main_ok:
  assumes "process_main S rounds = Inr (r, p)"
  shows "\<exists>config d p0. compose (st_recognizers S) config wake_channel = Inr d \<and>
    pc_daemon p0 = d \<and> pc_signals p0 = [] \<and> process_loop rounds p0 = (r, p)"
proof -
  obtain config where config: "st_config S = Inr config"
    using assms by (cases "st_config S") (simp_all add: process_main_def load_with_wake_def)
  obtain d where d: "compose (st_recognizers S) config wake_channel = Inr d"
    using assms config
    by (cases "compose (st_recognizers S) config wake_channel")
      (simp_all add: process_main_def load_with_wake_def)
  show ?thesis using assms config d
    by (intro exI[of _ config] exI[of _ d]
        exI[of _ "(process_new d)\<lparr> pc_lines := [''voxtyped ready on io.github.tinnci.VoxType''] \<rparr>"])
      (simp add: process_main_def load_with_wake_def process_new_def split: option.splits)
qed

lemma compose_announced:
  assumes "compose recognizers config wake = Inr d"
  shows "all_announced sent (dm_app d)"
  using compose_ok(2)[OF assms] by (auto simp: all_announced_def app_with_wake_def)

lemma main_inv:
  assumes "process_main S rounds = Inr (r, p)" and "list_all (client_calls \<circ> fst) rounds"
  shows "process_inv p \<and> (r = Inr True \<and> rounds \<noteq> [] \<longrightarrow> ac_events (dm_app (pc_daemon p)) = [])"
proof -
  obtain config d p0 where start: "compose (st_recognizers S) config wake_channel = Inr d"
    "pc_daemon p0 = d" "process_loop rounds p0 = (r, p)"
    using process_main_ok[OF assms(1)] by blast
  have "process_inv p0" using compose_announced[OF start(1)] start(2) by (simp add: process_inv_def)
  then show ?thesis using loop_inv start(3) assms(2) by blast
qed

lemma run_wf: "dm_wf d \<Longrightarrow> dm_wf (snd (daemon_run ops d))"
  by (induction ops arbitrary: d) (simp_all add: run_simps step_wf del: run_steps.simps(2))

lemma main_wf:
  assumes "process_main S rounds = Inr (r, p)"
  shows "dm_wf (pc_daemon p)"
proof -
  obtain config d p0 where start: "compose (st_recognizers S) config wake_channel = Inr d"
    "pc_daemon p0 = d" "process_loop rounds p0 = (r, p)"
    using process_main_ok[OF assms] by blast
  then obtain steps where "pc_daemon p = snd (daemon_run steps d)" using loop_steps by blast
  then show ?thesis using run_wf[OF compose_wf[OF start(1)]] by simp
qed

lemma find_SomeD: "List.find Q xs = Some x \<Longrightarrow> x \<in> set xs \<and> Q x"
  by (induction xs) (auto split: if_splits)

lemma session_result_in:
  "session_result k a = Some res \<Longrightarrow> res \<in> set (ac_session_results a) \<and> tr_session res = k"
  unfolding session_result_def by (drule find_SomeD) simp

text \<open>
  C9: By its signals the process tells every result that it retains. However calls of clients and rounds
  of the loop follow one another, whatever the world answers, a result that a client could ask for has
  been handed to the bus as a signal with the same fields; only while no round has come since, or when
  the process ends before it, is it still in the queue of events.
\<close>

theorem signals_tell_every_result:
  assumes "process_main S rounds = Inr (r, p)" and "list_all (client_calls \<circ> fst) rounds"
    and "session_result k (dm_app (pc_daemon p)) = Some res"
  shows "tr_session res = k \<and>
    (announcement res \<in> fst ` set (pc_signals p) \<or>
     (announcement res \<in> set (ac_events (dm_app (pc_daemon p))) \<and> (r \<noteq> Inr True \<or> rounds = [])))"
  using main_inv[OF assms(1,2)] session_result_in[OF assms(3)]
  by (auto simp: process_inv_def all_announced_def)

lemma round_ends_delivered:
  assumes "process_main S rounds = Inr (Inr True, p0)" and "list_all (client_calls \<circ> fst) rounds"
    and "client_calls calls" and "p = serve_calls calls p0" and "dm_job (pc_daemon p) = Some job"
    and "length (ac_events (dm_app (pc_daemon p))) \<le> 253"
    and "w_recv (rd_recognition R) \<in> {RecvReady (run_recognition_route reg route input tok now), RecvDisconnected}"
    and "process_round R p = (Inr True, p')"
  shows "\<exists>res. session_result (session_str (rj_session job)) (dm_app (pc_daemon p')) = Some res \<and>
     announcement res \<in> fst ` set (pc_signals p') \<and>
     (tr_outcome res = ''completed'' \<and> dm_state (pc_daemon p') = Completed (rj_session job) \<or>
      tr_outcome res = ''failed'' \<and> (\<exists>e. dm_state (pc_daemon p') = Failed (rj_session job) e)) \<and>
     dm_job (pc_daemon p') = None \<and> dm_armed (pc_daemon p') = None \<and>
     dm_active_profile (pc_daemon p') = None"
proof -
  let ?s = "rj_session job" and ?w = "rd_recognition R"
  let ?d1 = "poll_audio_telemetry (rd_telemetry R) (pc_daemon p)"
  have wf: "dm_wf (pc_daemon p)"
    using main_wf[OF assms(1)] assms(4) by (simp add: serve_calls_def run_wf)
  then have wf1: "dm_wf ?d1" using step_wf[of "pc_daemon p" "(OpPollAudio, rd_telemetry R)"] by simp
  have job: "dm_job ?d1 = Some job" "length (ac_events (dm_app ?d1)) \<le> 253"
    using assms(5,6) by simp_all
  have "dm_recording_started_at ?d1 = None" using wf assms(5) by (auto simp: dm_wf_def)
  then have idle: "snd (enforce_recording_deadline (rd_deadline R) ?d1) = ?d1"
    by (simp add: enforce_recording_deadline_def)
  obtain res d3 where polled: "poll_recognition ?w ?d1 = (res, d3)" by force
  note ends = poll_delivered[OF wf1 job assms(7) polled]
  have p': "pc_daemon p' = d3\<lparr> dm_app := (dm_app d3)\<lparr> ac_events := [] \<rparr> \<rparr>"
    using round_effect[OF assms(8)] idle polled
    by (simp add: maintain_def case_prod_beta Let_def daemon_drain_events_def drain_events_def)
  then have same: "dm_state (pc_daemon p') = dm_state d3" "dm_job (pc_daemon p') = dm_job d3"
    "dm_armed (pc_daemon p') = dm_armed d3" "dm_active_profile (pc_daemon p') = dm_active_profile d3"
    "session_result k (dm_app (pc_daemon p')) = session_result k (dm_app d3)" for k
    by (simp_all add: session_result_def)
  obtain result where result: "session_result (session_str ?s) (dm_app d3) = Some result"
    "tr_outcome result = ''completed'' \<and> dm_state d3 = Completed ?s \<or>
     tr_outcome result = ''failed'' \<and> (\<exists>e. dm_state d3 = Failed ?s e)"
    using ends by (cases res) auto
  have "process_inv p'"
    using main_inv[OF assms(1,2)] serve_inv[OF _ assms(3)] assms(4) round_inv[OF _ assms(8)] by blast
  then have "announcement result \<in> fst ` set (pc_signals p')"
    using session_result_in[of "session_str ?s" "dm_app (pc_daemon p')" result] same(5) result(1)
      round_effect[OF assms(8)]
    by (auto simp: process_inv_def all_announced_def)
  then show ?thesis using result same ends by (intro exI[of _ result]) simp
qed

text \<open>
  C7: The loop brings every recognition to its end and tells the clients. Take any process that is
  still in its loop, and any calls after its last round. When a recognition is at work and its
  worker has delivered or died, the next round ends the session, as completed or failed, leaves no
  job, target or profile, and has handed the result to the bus as a signal when it returns. At
  most 253 events of the calls leave room for those of the end.
\<close>

theorem round_ends_delivered_recognition:
  assumes "process_main S rounds = Inr (Inr True, p0)" and "list_all (client_calls \<circ> fst) rounds"
    and "client_calls calls" and "p = serve_calls calls p0" and "dm_job (pc_daemon p) = Some job"
    and "length (ac_events (dm_app (pc_daemon p))) \<le> 253"
    and "w_recv (rd_recognition R) \<in> {RecvReady (run_recognition_route reg route input tok now), RecvDisconnected}"
    and "process_round R p = (Inr True, p')"
  shows "\<exists>res. session_result (session_str (rj_session job)) (dm_app (pc_daemon p')) = Some res \<and>
     announcement res \<in> fst ` set (pc_signals p') \<and>
     (tr_outcome res = ''completed'' \<and> dm_state (pc_daemon p') = Completed (rj_session job) \<or>
      tr_outcome res = ''failed'' \<and> (\<exists>e. dm_state (pc_daemon p') = Failed (rj_session job) e)) \<and>
     dm_job (pc_daemon p') = None \<and> dm_armed (pc_daemon p') = None \<and>
     dm_active_profile (pc_daemon p') = None"
  by (rule round_ends_delivered[OF assms])

text \<open>
  The process hands at most one text for each session to the desktop, whatever calls and rounds it
  runs, because it only takes steps of the daemon.
\<close>

lemma process_commits_once:
  assumes "process_main S rounds = Inr (r, p)"
    and "(\<Sum>(calls, R) \<leftarrow> rounds. length calls + 4) + 1 < 2 ^ 64"
  shows "distinct (map fst (dm_commits (pc_daemon p)))"
proof -
  obtain config d p0 where start: "compose (st_recognizers S) config wake_channel = Inr d"
    "pc_daemon p0 = d" "process_loop rounds p0 = (r, p)"
    using process_main_ok[OF assms(1)] by blast
  then obtain steps where steps: "pc_daemon p = snd (daemon_run steps d)"
    "length steps \<le> (\<Sum>(calls, R) \<leftarrow> rounds. length calls + 4)"
    using loop_steps by blast
  have "commit_inv (pc_daemon p)"
    unfolding steps(1) using compose_commit_inv[OF start(1)] assms(2) steps(2)
    by (intro run_commit_inv) (simp_all add: has_room_def)
  then show ?thesis by (simp add: commit_inv_def)
qed

section \<open>Examples\<close>

definition demo_start :: start_world where
  "demo_start =
     \<lparr> st_config = Inr demo_config, st_recognizers = w_recognizers demo_world, st_runtime = None,
       st_temp = ''/tmp'', st_entries = (\<lambda>_. None), st_bus = None \<rparr>"

definition demo_round :: round_world where
  "demo_round =
     \<lparr> rd_interface = None, rd_telemetry = demo_world, rd_deadline = demo_world,
       rd_recognition = demo_world\<lparr> w_recv := RecvDisconnected \<rparr>, rd_now = 0, rd_emit = (\<lambda>_. None),
       rd_display = (\<lambda>_. ''failed'') \<rparr>"

definition demo_process :: process where
  "demo_process =
     (process_new demo_daemon)\<lparr> pc_lines := [''voxtyped ready on io.github.tinnci.VoxType''] \<rparr>"

abbreviation demo_calls :: "(daemon_op \<times> world) list" where
  "demo_calls \<equiv> [(OpStart ''main'', demo_world), (OpStop [], demo_world)]"

lemma demo_main: "process_main demo_start [] = Inr (Inr True, demo_process)"
  using demo_compose(1)
  by (simp add: process_main_def load_with_wake_def demo_start_def demo_process_def)

lemma demo_serve: "pc_daemon (serve_calls demo_calls demo_process) = demo_finalizing"
  by (simp add: serve_calls_def demo_process_def process_new_def demo_finalizing_def
      demo_listening_def case_prod_beta Let_def)

lemma quit_frames [simp]:
  "dm_quit (snd (apply_command c d)) = dm_quit d" "dm_quit (apply_ignored c d) = dm_quit d"
  "dm_quit (log_fx f d) = dm_quit d" "dm_quit (cancel_armed d) = dm_quit d"
  "dm_quit (clear_live d) = dm_quit d" "dm_quit (poll_audio_telemetry w d) = dm_quit d"
  by (simp_all add: apply_command_def apply_ignored_def log_fx_def cancel_armed_def clear_live_def
      poll_audio_telemetry_def case_prod_beta Let_def split: option.splits)

lemma start_quit: "dm_quit (snd (daemon_start p w d)) = dm_quit d"
  by (rule start_cases) (simp_all add: begin_capture_def Let_def case_prod_beta split: sum.splits)

lemma begin_recognition_quit: "dm_quit (snd (begin_recognition s rec w d)) = dm_quit d"
proof -
  have "dm_quit (snd (no_speech s d)) = dm_quit d"
    by (simp add: no_speech_def case_prod_beta split: sum.splits)
  moreover have "dm_quit (snd (spawn_recognition s rec v ms w d)) = dm_quit d" for v ms
    by (auto simp: spawn_recognition_def fail_recognition_def Let_def split: option.splits sum.splits)
  ultimately show ?thesis using begin_recognition_end[of s rec w d] by auto
qed

lemma stop_quit: "dm_quit (snd (daemon_stop s w d)) = dm_quit d"
  by (simp add: daemon_stop_def Let_def case_prod_beta after_stop_def fail_nonterminal_session_def
      begin_recognition_quit split: sum.splits)

lemma compose_quit: "compose recognizers config wake = Inr d \<Longrightarrow> \<not> dm_quit d"
  by (auto simp: compose_def try_then_ok_iff)

lemma demo_goes_on:
  "\<exists>p'. process_round demo_round (serve_calls demo_calls demo_process) = (Inr True, p')"
proof -
  have "\<not> dm_quit demo_daemon" using demo_compose(1) by (rule compose_quit)
  then have "\<not> dm_quit demo_finalizing"
    by (simp add: demo_finalizing_def demo_listening_def stop_quit start_quit)
  then show ?thesis by (simp add: process_round_def demo_serve demo_round_def case_prod_beta)
qed

lemma demo_delivered:
  "w_recv (rd_recognition demo_round) \<in> {RecvReady (run_recognition_route Map.empty (demo_plan Never)
     demo_input token_new 0), RecvDisconnected}"
  by (simp add: demo_round_def)

theorem round_ends_delivered_recognition_witness:
  "\<exists>p' res. process_round demo_round (serve_calls demo_calls demo_process) = (Inr True, p') \<and>
     announcement res \<in> fst ` set (pc_signals p') \<and> tr_outcome res \<in> {''completed'', ''failed''}"
proof -
  obtain p' where round: "process_round demo_round (serve_calls demo_calls demo_process) = (Inr True, p')"
    using demo_goes_on by blast
  obtain job where job: "dm_job demo_finalizing = Some job" using demo_stop(4) by auto
  have "client_calls demo_calls" by (simp add: is_client_call_def)
  from round_ends_delivered_recognition[OF demo_main _ this refl _ _ demo_delivered round] show ?thesis
    using job demo_stop(3) round by (force simp: demo_serve)
qed

theorem signals_tell_every_result_witness:
  "\<exists>p' k res. process_main demo_start [(demo_calls, demo_round)] = Inr (Inr True, p') \<and>
     session_result k (dm_app (pc_daemon p')) = Some res \<and> announcement res \<in> fst ` set (pc_signals p')"
proof -
  obtain p' where round: "process_round demo_round (serve_calls demo_calls demo_process) = (Inr True, p')"
    using demo_goes_on by blast
  then have main: "process_main demo_start [(demo_calls, demo_round)] = Inr (Inr True, p')"
    using demo_main by (auto simp: process_main_def split: sum.splits option.splits)
  obtain job where job: "dm_job demo_finalizing = Some job" using demo_stop(4) by auto
  have calls: "client_calls demo_calls" by (simp add: is_client_call_def)
  obtain k res where "session_result k (dm_app (pc_daemon p')) = Some res"
    using round_ends_delivered[OF demo_main _ calls refl _ _ demo_delivered round] job demo_stop(3)
    by (force simp: demo_serve)
  then show ?thesis
    using signals_tell_every_result[OF main] calls main by fastforce
qed

end
