(* ===== verification/Presentation.thy ===== *)
theory Presentation
  imports Status Daemon_Invariant
begin

text \<open>
  What the daemon presents on the desktop while it works (src/daemon.rs): the notifications and the
  overlays of each operation, in their order. The control flow is that of the operations of theory
  Daemon, whose results and states decide which branch is taken.
\<close>

section \<open>Feedback\<close>

text \<open>A notification; an overlay with its state, title, body and timeout; the levels of the microphone.\<close>

datatype feedback =
    Notify string utext
  | ShowOverlay string string utext "32 word"
  | ShowMetrics vad_frame_analysis "32 word"

text \<open>A helper process is started for each of them; without desktop feedback there is none.\<close>

definition notify_arguments :: "string \<Rightarrow> utext \<Rightarrow> utext list" where
  "notify_arguments summary body = [text_of ''--app-name=VoxType'', text_of summary, body]"

definition present :: "bool \<Rightarrow> feedback list \<Rightarrow> feedback list" where
  "present enabled fs = (if enabled then fs else [])"

text \<open>The document of an overlay.\<close>

fun overlay_document :: "64 word \<Rightarrow> feedback \<Rightarrow> json option" where
  "overlay_document now (Notify summary body) = None"
| "overlay_document now (ShowOverlay state title body ms) = Some (overlay_payload state title body ms)"
| "overlay_document now (ShowMetrics analysis percent) = Some (overlay_audio_metrics analysis percent now)"

section \<open>Recording\<close>

definition telemetry_feedback :: "world \<Rightarrow> daemon \<Rightarrow> feedback list" where
  "telemetry_feedback w d =
     (let frames = (if dm_recording d then w_metrics w else [])
      in if frames = [] then []
         else case dm_live_vad d of
           None \<Rightarrow> []
         | Some v \<Rightarrow>
             (let analyses = fst (run_steps process_level (map cm_rms frames) v);
                  shown = [ShowMetrics (last analyses) (clip_percent frames)]
              in case dm_last_audio_overlay_at d of
                   Some t \<Rightarrow> if w_now w - t < millis 100 then [] else shown
                 | None \<Rightarrow> shown))"

definition ellipsis :: utext where "ellipsis = [0x2026]"

definition listening_overlay :: feedback where
  "listening_overlay =
     ShowOverlay ''listening'' ''Listening''
       (text_of ''Speak now'' @ dot_separator @ text_of ''shortcut again to stop'') 0"

definition start_feedback :: "string \<Rightarrow> world \<Rightarrow> daemon \<Rightarrow> feedback list" where
  "start_feedback profile w d =
     (case fst (daemon_start profile w d) of
        Inl _ \<Rightarrow> []
      | Inr _ \<Rightarrow> [Notify ''VoxType'' (text_of ''Listening'' @ ellipsis), listening_overlay])"

section \<open>Recognition\<close>

definition no_speech_guidance :: "vad_result \<Rightarrow> 16 word \<Rightarrow> 32 word \<Rightarrow> utext" where
  "no_speech_guidance result configured minimum =
     (let reason = no_speech_reason result configured minimum;
          advise = (\<lambda>problem advice. text_of problem @ dot_separator @ text_of advice)
      in if reason = ''clipping''
         then advise ''Input clipped'' ''lower microphone gain or move slightly farther away''
         else if reason = ''high-noise''
         then advise ''Background noise is high'' ''reduce noise or run microphone calibration''
         else if reason = ''too-quiet''
         then advise ''Input is too quiet'' ''speak closer or increase microphone gain''
         else if reason = ''speech-too-short''
         then advise ''Speech was too brief'' ''hold the shortcut and speak a little longer''
         else advise ''Speech was not confirmed'' ''speak continuously and avoid keyboard noise'')"

definition short_feedback :: "feedback list" where
  "short_feedback =
     [Notify ''VoxType'' (text_of ''Recording was too short''),
      ShowOverlay ''no-speech'' ''Recording too short'' (text_of ''Hold the shortcut a little longer'') 2000]"

definition no_speech_feedback :: "captured_audio \<Rightarrow> world \<Rightarrow> daemon \<Rightarrow> feedback list" where
  "no_speech_feedback rec w d =
     (case w_read_file w (ca_path rec) of
        Inl _ \<Rightarrow> []
      | Inr pcm \<Rightarrow>
          [Notify ''VoxType'' (text_of ''No speech detected''),
           ShowOverlay ''no-speech'' ''No speech detected''
             (no_speech_guidance (analyze_pcm pcm (live_vad_config (dm_config d)))
                (vad_rms_threshold (cfg_audio (dm_config d)))
                (vad_minimum_voiced_frames (cfg_audio (dm_config d)))) 2800])"

definition failed_feedback :: "(string \<Rightarrow> utext) \<Rightarrow> vox_error \<Rightarrow> feedback list" where
  "failed_feedback shown e =
     [Notify ''VoxType recognition failed'' (shown (vox_error_display e)),
      ShowOverlay ''error'' ''Recognition failed'' (text_of ''Open diagnostics for details'') 3500]"

definition spawn_feedback :: "(string \<Rightarrow> utext) \<Rightarrow> world \<Rightarrow> daemon \<Rightarrow> feedback list" where
  "spawn_feedback shown w d =
     (let profile_name = (case dm_active_profile d of
                            None \<Rightarrow> default_profile (dm_config d) | Some n \<Rightarrow> n)
      in case map_of (cfg_profiles (dm_config d)) profile_name of
        None \<Rightarrow> []
      | Some profile \<Rightarrow>
          (case profile_policy profile of
             Inl _ \<Rightarrow> []
           | Inr policy \<Rightarrow>
               (case plan_route policy (w_now w) (dm_app d) of
                  Inl e \<Rightarrow> failed_feedback shown e
                | Inr _ \<Rightarrow> [])))"

definition begin_feedback ::
  "(string \<Rightarrow> utext) \<Rightarrow> session_id \<Rightarrow> captured_audio \<Rightarrow> world \<Rightarrow> daemon \<Rightarrow> feedback list" where
  "begin_feedback shown session rec w d =
     (case check_minimum_duration session rec d of
        (Inl e, d1) \<Rightarrow> []
      | (Inr (Some response), d1) \<Rightarrow> short_feedback
      | (Inr None, d1) \<Rightarrow>
          (case check_voice_activity session rec w d1 of
             (Inl e, d2) \<Rightarrow> []
           | (Inr (VoiceNoSpeech reason), d2) \<Rightarrow> no_speech_feedback rec w d1
           | (Inr (VoiceContinue vad audio_millis), d2) \<Rightarrow> spawn_feedback shown w d2))"

definition processing_overlay :: feedback where
  "processing_overlay =
     ShowOverlay ''processing'' ''Processing speech'' (text_of ''Running VAD and recognition'') 0"

definition stop_feedback :: "(string \<Rightarrow> utext) \<Rightarrow> string \<Rightarrow> world \<Rightarrow> daemon \<Rightarrow> feedback list" where
  "stop_feedback shown session w d =
     (case active_session_id session d of
        Inl e \<Rightarrow> []
      | Inr active \<Rightarrow>
          telemetry_feedback w d @
          (case apply_command (CmdStop active) (poll_audio_telemetry w d) of
             (Inl e, d1) \<Rightarrow> []
           | (Inr _, d1) \<Rightarrow>
               if \<not> dm_recording d1 then []
               else
                 (let d2 = log_fx FxCaptureStop (clear_live (d1\<lparr> dm_recording := False \<rparr>))
                  in case w_capture_stop w of
                       Inl e \<Rightarrow> []
                     | Inr rec \<Rightarrow> processing_overlay # begin_feedback shown active rec w d2)))"

definition maximum_overlay :: feedback where
  "maximum_overlay =
     ShowOverlay ''processing'' ''Maximum duration reached''
       (text_of ''Stopping safely and processing captured speech'') 0"

definition deadline_feedback :: "(string \<Rightarrow> utext) \<Rightarrow> world \<Rightarrow> daemon \<Rightarrow> feedback list" where
  "deadline_feedback shown w d =
     (case dm_recording_started_at d of
        None \<Rightarrow> []
      | Some started_at \<Rightarrow>
          if \<not> recording_deadline_reached (w_now w - started_at)
                 (maximum_duration_seconds (cfg_audio (dm_config d)))
          then [] else maximum_overlay # stop_feedback shown [] w d)"

definition dispatched_feedback :: "insertion_outcome \<Rightarrow> feedback list" where
  "dispatched_feedback insertion =
     (if io_backend insertion = ''copy-only''
      then [Notify ''VoxType'' (text_of ''Dictation copied to clipboard''),
            ShowOverlay ''done'' ''Text copied'' (text_of ''Paste it when the intended field is ready'') 3000]
      else [Notify ''VoxType'' (text_of ''Dictation dispatched''),
            ShowOverlay ''done'' ''Text dispatched''
              (text_of ''Sent to the focused input path'' @ dot_separator @
               text_of ''Meta+Alt+G reviews focused text'') 2000])"

definition complete_feedback ::
  "session_id \<Rightarrow> provider_id \<Rightarrow> provider_transcript \<Rightarrow> world \<Rightarrow> daemon \<Rightarrow> feedback list" where
  "complete_feedback session provider transcript w d =
     (case fst (complete_recognition session provider transcript w d) of
        Inr (RespInserted _ _ _ insertion) \<Rightarrow> dispatched_feedback insertion
      | _ \<Rightarrow> [])"

definition finish_feedback ::
  "(string \<Rightarrow> utext) \<Rightarrow> recognition_job \<Rightarrow> recognition_route_result \<Rightarrow> world \<Rightarrow> daemon \<Rightarrow> feedback list" where
  "finish_feedback shown job received w d =
     (let d1 = d\<lparr> dm_app := record_route_result received (rj_audio_millis job) (w_now w) (dm_app d) \<rparr>
      in case rr_outcome received of
           Inr success \<Rightarrow>
             complete_feedback (rj_session job) (rs_provider_id success) (rs_transcript success) w d1
         | Inl e \<Rightarrow> failed_feedback shown e)"

definition poll_feedback :: "(string \<Rightarrow> utext) \<Rightarrow> world \<Rightarrow> daemon \<Rightarrow> feedback list" where
  "poll_feedback shown w d =
     (case dm_job d of
        None \<Rightarrow> []
      | Some job \<Rightarrow>
          (let handle = (\<lambda>received.
                 let d1 = d\<lparr> dm_job := None \<rparr>
                 in if \<not> job_is_current job d1 then [] else finish_feedback shown job received w d1)
           in case w_recv w of
                RecvEmpty \<Rightarrow> []
              | RecvReady received \<Rightarrow> handle received
              | RecvDisconnected \<Rightarrow> handle worker_disconnected))"

section \<open>Cancelling, and all operations\<close>

definition cancel_feedback :: "string \<Rightarrow> daemon \<Rightarrow> feedback list" where
  "cancel_feedback session d =
     (case fst (daemon_cancel session d) of
        Inl _ \<Rightarrow> []
      | Inr _ \<Rightarrow>
          [Notify ''VoxType'' (text_of ''Dictation cancelled''),
           ShowOverlay ''cancelled'' ''Dictation cancelled'' (text_of ''No text was inserted'') 1800])"

fun step_feedback :: "(string \<Rightarrow> utext) \<Rightarrow> daemon_op \<times> world \<Rightarrow> daemon \<Rightarrow> feedback list" where
  "step_feedback shown (OpStart p, w) d = start_feedback p w d"
| "step_feedback shown (OpStop s, w) d = stop_feedback shown s w d"
| "step_feedback shown (OpToggle p, w) d =
     (if dm_recording d then stop_feedback shown [] w d else start_feedback p w d)"
| "step_feedback shown (OpCancel s, w) d = cancel_feedback s d"
| "step_feedback shown (OpPollRecognition, w) d = poll_feedback shown w d"
| "step_feedback shown (OpPollAudio, w) d = telemetry_feedback w d"
| "step_feedback shown (OpDeadline, w) d = deadline_feedback shown w d"
| "step_feedback shown (_, w) d = []"

fun run_feedback :: "(string \<Rightarrow> utext) \<Rightarrow> (daemon_op \<times> world) list \<Rightarrow> daemon \<Rightarrow> feedback list" where
  "run_feedback shown [] d = []"
| "run_feedback shown (c # cs) d =
     step_feedback shown c d @ run_feedback shown cs (snd (daemon_step c d))"

end
