(* ===== verification/Presentation_Props.thy ===== *)
theory Presentation_Props
  imports Presentation Daemon_Props Overlay_Props
begin

text \<open>
  What the user sees while the daemon works: as long as a recording is listening the last overlay
  is one that stays on the screen, as long as a recognition runs it is the processing overlay, and
  the overlay helper accepts every overlay of the operations. Two error paths leave an overlay behind.
\<close>

text \<open>The overlay on the screen once some feedback was shown over another overlay.\<close>

fun on_screen :: "feedback option \<Rightarrow> feedback list \<Rightarrow> feedback option" where
  "on_screen s [] = s"
| "on_screen s (Notify summary body # fs) = on_screen s fs"
| "on_screen s (f # fs) = on_screen (Some f) fs"

lemma on_screen_append [simp]: "on_screen s (fs @ gs) = on_screen (on_screen s fs) gs"
  by (induction s fs rule: on_screen.induct) simp_all

text \<open>Overlays without a timeout: those of a recording, and the one of a recognition.\<close>

fun processing_shown :: "feedback option \<Rightarrow> bool" where
  "processing_shown (Some (ShowOverlay state title body ms)) \<longleftrightarrow> state = ''processing'' \<and> ms = 0"
| "processing_shown _ \<longleftrightarrow> False"

fun recording_shown :: "feedback option \<Rightarrow> bool" where
  "recording_shown (Some (ShowOverlay state title body ms)) \<longleftrightarrow>
     state \<in> {''listening'', ''processing''} \<and> ms = 0"
| "recording_shown (Some (ShowMetrics analysis percent)) \<longleftrightarrow> True"
| "recording_shown _ \<longleftrightarrow> False"

definition listening :: "daemon \<Rightarrow> bool" where
  "listening d \<longleftrightarrow> dm_recording d \<and> (\<exists>s m. dm_state d = Listening s m)"

definition tells_work :: "daemon \<Rightarrow> feedback option \<Rightarrow> bool" where
  "tells_work d s \<longleftrightarrow>
     (listening d \<longrightarrow> recording_shown s) \<and> (dm_job d \<noteq> None \<longrightarrow> processing_shown s)"

lemma overlays_shown [simp]:
  "processing_shown (Some processing_overlay)" "processing_shown (Some maximum_overlay)"
  "recording_shown (Some maximum_overlay)" "recording_shown (Some listening_overlay)"
  by (simp_all add: processing_overlay_def maximum_overlay_def listening_overlay_def)

lemma on_screen_overlays [simp]:
  "on_screen s (processing_overlay # fs) = on_screen (Some processing_overlay) fs"
  "on_screen s (maximum_overlay # fs) = on_screen (Some maximum_overlay) fs"
  "on_screen s (listening_overlay # fs) = on_screen (Some listening_overlay) fs"
  by (simp_all add: processing_overlay_def maximum_overlay_def listening_overlay_def)

lemma at_rest_tells: "at_rest d \<Longrightarrow> tells_work d s"
  by (simp add: tells_work_def listening_def at_rest_def)

lemma tells_recording: "dm_wf d \<Longrightarrow> dm_recording d \<Longrightarrow> recording_shown s \<Longrightarrow> tells_work d s"
  by (simp add: tells_work_def dm_wf_def)

lemma tells_job: "dm_wf d \<Longrightarrow> dm_job d \<noteq> None \<Longrightarrow> processing_shown s \<Longrightarrow> tells_work d s"
  by (auto simp: tells_work_def dm_wf_def listening_def)

lemma tells_rejected:
  "is_err (fst (apply_command c d)) \<Longrightarrow> tells_work d s \<Longrightarrow> tells_work (snd (apply_command c d)) s"
  by (simp add: apply_command_rejected)

section \<open>The operations\<close>

lemma telemetry_screen:
  "on_screen s (telemetry_feedback w d) = s \<or>
   (dm_recording d \<and> recording_shown (on_screen s (telemetry_feedback w d)))"
  by (simp add: telemetry_feedback_def Let_def split: option.splits)

lemma telemetry_tells:
  assumes "dm_wf d" "tells_work d s"
  shows "tells_work (poll_audio_telemetry w d) (on_screen s (telemetry_feedback w d))"
  using telemetry_screen[of s w d] assms tells_recording[of d]
  by (auto simp: tells_work_def listening_def)

lemma spawn_shows_nothing:
  "dm_job d = None \<Longrightarrow> dm_job (snd (spawn_recognition s rec v ms w d)) \<noteq> None \<Longrightarrow>
   spawn_feedback shown w d = []"
  by (auto simp: spawn_recognition_def spawn_feedback_def Let_def fail_recognition_def
      split: option.splits sum.splits)

lemma begin_shows_nothing:
  assumes "dm_job d = None" "dm_job (snd (begin_recognition s rec w d)) \<noteq> None"
  shows "begin_feedback shown s rec w d = []"
  using assms spawn_shows_nothing[of _ s rec _ _ w shown]
  by (auto simp: begin_recognition_def begin_feedback_def check_minimum_duration_def
      check_voice_activity_def no_speech_def Let_def case_prod_beta
      split: sum.splits option.splits voice_activity.splits if_splits)

lemma after_stop_at_rest:
  "dm_job (snd out) = None \<Longrightarrow> dm_job (snd (after_stop rec out s w)) = None"
  by (simp add: after_stop_def fail_nonterminal_session_def Let_def case_prod_beta split: sum.splits)

lemma stop_shows:
  assumes wf: "dm_wf d" and tells: "tells_work d scr"
  shows "tells_work (snd (daemon_stop s w d)) (on_screen scr (stop_feedback shown s w d))"
proof (cases "active_session_id s d")
  case (Inl e)
  then show ?thesis using tells by (simp add: daemon_stop_def stop_feedback_def)
next
  case (Inr active)
  let ?p = "poll_audio_telemetry w d"
  let ?scr = "on_screen scr (telemetry_feedback w d)"
  let ?d1 = "snd (apply_command (CmdStop active) ?p)"
  let ?d2 = "log_fx FxCaptureStop (clear_live (?d1\<lparr> dm_recording := False \<rparr>))"
  have shown_p: "tells_work ?p ?scr" by (rule telemetry_tells[OF wf tells])
  show ?thesis
  proof (cases "fst (apply_command (CmdStop active) ?p)")
    case err: (Inl e)
    then show ?thesis using Inr tells_rejected[OF _ shown_p, of "CmdStop active"]
      by (simp add: daemon_stop_def stop_feedback_def case_prod_beta)
  next
    case ok: (Inr e)
    have job: "dm_job d = None" using stop_effect(1)[OF ok] wf
      by (cases "dm_job d") (auto simp: dm_wf_def)
    show ?thesis
    proof (cases "\<exists>rec. dm_recording d \<and> w_capture_stop w = Inr rec")
      case False
      then have "dm_job (snd (daemon_stop s w d)) = None \<and> \<not> dm_recording (snd (daemon_stop s w d))"
        using Inr ok job by (auto simp: daemon_stop_def Let_def case_prod_beta split: sum.splits)
      then show ?thesis by (simp add: tells_work_def listening_def)
    next
      case True
      then obtain rec where r: "dm_recording d" "w_capture_stop w = Inr rec" by blast
      let ?b = "begin_recognition active rec w ?d2"
      have stop: "snd (daemon_stop s w d) = snd (after_stop rec ?b active w)"
        "stop_feedback shown s w d =
           telemetry_feedback w d @ processing_overlay # begin_feedback shown active rec w ?d2"
        using Inr ok r by (simp_all add: daemon_stop_def stop_feedback_def Let_def case_prod_beta)
      have idle: "\<not> dm_recording (snd (daemon_stop s w d))"
        by (simp add: stop(1) after_stop_capture begin_recognition_capture)
      show ?thesis
      proof (cases "dm_job (snd ?b)")
        case None
        then show ?thesis using idle after_stop_at_rest[OF None, of rec active w] stop(1)
          by (simp add: tells_work_def listening_def)
      next
        case (Some j)
        then have "begin_feedback shown active rec w ?d2 = []"
          using begin_shows_nothing[of ?d2 active rec w shown] job by simp
        then show ?thesis using idle stop(2)
          by (simp add: tells_work_def listening_def)
      qed
    qed
  qed
qed

lemma start_prepares:
  assumes "fst (apply_command (CmdStart q) d) = Inr e"
  shows "\<exists>s m. dm_state (snd (apply_command (CmdStart q) d)) = Preparing s m"
  using assms
  by (auto simp: apply_command_fst apply_command_app app_apply_result app_apply_machine sm_start_def
      Let_def split: if_splits)

lemma begin_capture_screen:
  assumes "dm_state d = Preparing a m" and "\<not> dm_recording d"
  shows "is_ok (fst (begin_capture n s w d)) \<and> dm_recording (snd (begin_capture n s w d)) \<or>
         is_err (fst (begin_capture n s w d)) \<and> \<not> listening (snd (begin_capture n s w d))"
  using assms apply_command_rejected
  by (auto simp: begin_capture_def Let_def case_prod_beta listening_def split: sum.splits)

lemma start_screen:
  "is_ok (fst (daemon_start p w d)) \<and> dm_recording (snd (daemon_start p w d)) \<or>
   is_err (fst (daemon_start p w d)) \<and>
     (snd (daemon_start p w d) = d \<or>
      \<not> listening (snd (daemon_start p w d)) \<and> \<not> is_active (dm_state d))"
proof (cases "dm_recording d \<or> config_profile (if p = [] then None else Some p) (dm_config d) = None")
  case True
  then show ?thesis by (auto simp: daemon_start_def split: option.splits)
next
  case False
  then obtain q selected where q: "\<not> dm_recording d"
    "config_profile (if p = [] then None else Some p) (dm_config d) = Some (q, selected)" by auto
  let ?c = "apply_command (start_command q) d"
  show ?thesis
  proof (cases "(p = [] \<and> profile_is_demo_only (dm_config d) selected) \<or> is_err (fst ?c)")
    case True
    then show ?thesis using q apply_command_rejected[of "start_command q" d]
      by (auto simp: daemon_start_def case_prod_beta split: sum.splits)
  next
    case False
    then obtain e where e: "fst ?c = Inr e" by (cases "fst ?c") auto
    have idle: "\<not> is_active (dm_state d)"
      using e by (cases "dm_state d")
        (auto simp: apply_command_fst app_apply_result sm_start_def Let_def split: if_splits)
    obtain a m where "dm_state (snd ?c) = Preparing a m" using start_prepares[OF e] by blast
    then have ready: "dm_state ((log_fx f (snd ?c))\<lparr> dm_armed := arm \<rparr>) = Preparing a m"
      "\<not> dm_recording ((log_fx f (snd ?c))\<lparr> dm_armed := arm \<rparr>)" for f arm
      using q(1) by simp_all
    obtain s r where eff: "e = BeginCapture s r"
      using e by (auto simp: apply_command_fst app_apply_result sm_start_def Let_def split: if_splits)
    let ?arm = "w_arm w (insertion_mode_of (cfg_insertion_backend (cfg_desktop (dm_config d)))) s"
    show ?thesis
    proof (cases ?arm)
      case (Inl err)
      then show ?thesis using False q e eff idle
        by (auto simp: daemon_start_def Let_def case_prod_beta listening_def)
    next
      case (Inr arm)
      then have "daemon_start p w d =
          begin_capture q s w ((log_fx (FxArm s) (snd ?c))\<lparr> dm_armed := Some arm \<rparr>)"
        using False q e eff by (auto simp: daemon_start_def Let_def case_prod_beta)
      then show ?thesis using idle begin_capture_screen[OF ready[of "Some arm" "FxArm s"], of q s w]
        by auto
    qed
  qed
qed

lemma start_shows:
  assumes wf: "dm_wf d" and tells: "tells_work d scr"
  shows "tells_work (snd (daemon_start p w d)) (on_screen scr (start_feedback p w d))"
  using start_screen[of p w d]
proof (elim disjE conjE)
  assume "is_ok (fst (daemon_start p w d))" "dm_recording (snd (daemon_start p w d))"
  then show ?thesis
    by (intro tells_recording[OF start_wf[OF wf]]) (auto simp: start_feedback_def split: sum.splits)
next
  assume "is_err (fst (daemon_start p w d))" "snd (daemon_start p w d) = d"
  then show ?thesis using tells by (auto simp: start_feedback_def split: sum.splits)
next
  assume err: "is_err (fst (daemon_start p w d))" "\<not> listening (snd (daemon_start p w d))"
    and "\<not> is_active (dm_state d)"
  then have "dm_job d = None" using wf_at_rest(2)[OF wf] by (simp add: at_rest_def)
  then have "dm_job (snd (daemon_start p w d)) = None"
    by (intro start_cases[where P = "\<lambda>d'. dm_job d' = None"])
       (auto simp: begin_capture_def Let_def case_prod_beta split: sum.splits)
  then show ?thesis using err by (simp add: tells_work_def)
qed

lemma cancel_shows:
  assumes "dm_wf d" "tells_work d scr"
  shows "tells_work (snd (daemon_cancel s d)) (on_screen scr (cancel_feedback s d))"
  using assms(2) tells_rejected[OF _ assms(2)]
  by (auto simp: daemon_cancel_def cancel_feedback_def case_prod_beta tells_work_def listening_def
      apply_command_rejected split: sum.splits)

lemma reset_shows:
  assumes "dm_wf d" "tells_work d scr"
  shows "tells_work (snd (daemon_reset d)) scr"
proof (cases "is_err (fst (apply_command CmdReset d))")
  case True
  then show ?thesis using assms(2) apply_command_rejected[OF True]
    by (simp add: daemon_reset_def case_prod_beta split: sum.splits)
next
  case False
  then have "\<not> is_active (dm_state d)"
    by (auto simp: apply_command_fst app_apply_result sm_reset_def split: if_splits)
  then show ?thesis using wf_at_rest(2)[OF assms(1)] False
    by (simp add: daemon_reset_def case_prod_beta at_rest_tells split: sum.splits)
qed

lemma poll_shows:
  assumes wf: "dm_wf d" and tells: "tells_work d scr"
  shows "tells_work (snd (poll_recognition w d)) (on_screen scr (poll_feedback shown w d))"
proof (cases "dm_job d")
  case None
  then show ?thesis using tells by (simp add: poll_recognition_def poll_feedback_def)
next
  case (Some job)
  show ?thesis
  proof (cases "w_recv w")
    case RecvEmpty
    then show ?thesis using tells Some by (simp add: poll_recognition_def poll_feedback_def)
  qed (use Some wf_at_rest(3)[OF wf Some] in
      \<open>simp_all add: poll_recognition_def Let_def at_rest_tells at_rest_finish\<close>)
qed

lemma deadline_shows:
  assumes wf: "dm_wf d" and tells: "tells_work d scr"
  shows "tells_work (snd (enforce_recording_deadline w d)) (on_screen scr (deadline_feedback shown w d))"
proof (cases "dm_recording_started_at d")
  case None
  then show ?thesis using tells by (simp add: enforce_recording_deadline_def deadline_feedback_def)
next
  case (Some started)
  then have "tells_work d (Some maximum_overlay)"
    using wf by (intro tells_recording) (auto simp: dm_wf_def)
  from stop_shows[OF wf this] Some tells show ?thesis
    by (simp add: enforce_recording_deadline_def deadline_feedback_def case_prod_beta
        split: sum.splits)
qed

lemma step_shows:
  assumes wf: "dm_wf d" and tells: "tells_work d scr"
  shows "tells_work (snd (daemon_step ow d)) (on_screen scr (step_feedback shown ow d))"
proof -
  obtain op w where ow: "ow = (op, w)" by (metis prod.exhaust)
  have quiet: "tells_work (daemon_quit d) scr" "tells_work (clear_history d) scr"
    "tells_work (snd (daemon_drain_events d)) scr"
    "tells_work (snd (daemon_insert_test t w d)) scr" for t
    using tells by (auto simp: tells_work_def listening_def daemon_quit_def clear_history_def
        daemon_drain_events_def drain_events_def daemon_insert_test_def log_fx_def Let_def)
  have "tells_work (snd (reload_configuration w d)) scr"
    using tells by (auto simp: tells_work_def listening_def reload_configuration_def clear_history_def
        Let_def split: sum.splits)
  then show ?thesis
    using quiet stop_shows[OF wf tells] start_shows[OF wf tells] cancel_shows[OF wf tells]
      reset_shows[OF wf tells] poll_shows[OF wf tells] deadline_shows[OF wf tells]
      telemetry_tells[OF wf tells]
    unfolding ow by (cases op) (simp_all add: case_prod_beta Let_def)
qed

lemma run_shows:
  "dm_wf d \<Longrightarrow> tells_work d scr \<Longrightarrow>
   tells_work (snd (daemon_run ops d)) (on_screen scr (run_feedback shown ops d))"
proof (induction ops arbitrary: d scr)
  case (Cons op ops)
  then show ?case using step_shows[of d scr op shown] step_wf[of d op]
    by (simp add: run_simps del: run_steps.simps(2))
qed simp

section \<open>The work at hand is shown\<close>

text \<open>
  In every run of a composed daemon (its operations other than the cleanup reports of theory
  Status, which show an overlay of their own) the last overlay stays on the screen while a
  recording is listening, and is the processing overlay while a recognition runs.
\<close>

theorem work_is_shown:
  assumes "compose recognizers config wake = Inr d0"
  shows "let d = snd (daemon_run ops d0); screen = on_screen None (run_feedback shown ops d0)
         in (dm_recording d \<and> (\<exists>s m. dm_state d = Listening s m) \<longrightarrow> recording_shown screen) \<and>
            (dm_job d \<noteq> None \<longrightarrow> processing_shown screen)"
proof -
  have "tells_work d0 None"
    using compose_ok[OF assms] by (intro at_rest_tells wf_at_rest(1) compose_wf[OF assms]) simp_all
  from run_shows[OF compose_wf[OF assms] this, of ops shown] show ?thesis
    by (simp add: Let_def tells_work_def listening_def)
qed

text \<open>
  The converse fails. A recording whose capture cannot be stopped ends its session without any
  feedback, so that the overlay of the recording stays on the screen.
\<close>

theorem failed_stop_keeps_overlay:
  assumes st: "dm_state d = Listening active m" and rec: "dm_recording d"
    and room: "length (ac_events (dm_app d)) \<le> 252" and err: "w_capture_stop w = Inl e"
    and scr: "recording_shown scr"
  shows "dm_state (snd (daemon_stop [] w d)) = Failed active e"
    and "recording_shown (on_screen scr (stop_feedback shown [] w d))"
proof -
  let ?p = "poll_audio_telemetry w d"
  let ?d1 = "snd (apply_command (CmdStop active) ?p)"
  let ?d2 = "log_fx FxCaptureStop (clear_live (?d1\<lparr> dm_recording := False \<rparr>))"
  have ok: "fst (apply_command (CmdStop active) ?p) = Inr (StopCapture active)"
    using st room by (simp add: apply_command_fst app_apply_result sm_stop_def ensure_session_def)
  have fin: "dm_state ?d1 = Finalizing active" using stop_effect(2)[OF ok] .
  have len: "length (ac_events (dm_app ?d1)) \<le> 254"
    using room app_apply_events_length[of "CmdStop active" "dm_app d"]
    by (simp add: apply_command_app)
  have active: "active_session_id [] d = Inr active" using st by (simp add: active_session_id_def)
  have "snd (daemon_stop [] w d) = apply_ignored (CmdFail active e) ?d2"
    using ok active rec err by (simp add: daemon_stop_def Let_def case_prod_beta)
  then show "dm_state (snd (daemon_stop [] w d)) = Failed active e"
    using fin len by (simp add: apply_ignored_app app_apply_machine sm_fail_def ensure_session_def)
  have "stop_feedback shown [] w d = telemetry_feedback w d"
    using ok active rec err by (simp add: stop_feedback_def Let_def case_prod_beta)
  then show "recording_shown (on_screen scr (stop_feedback shown [] w d))"
    using telemetry_screen[of scr w d] scr by auto
qed

text \<open>
  A text that cannot be inserted ends its session without feedback, so that the processing overlay
  of the recognition stays on the screen.
\<close>

theorem failed_insertion_keeps_overlay:
  assumes "is_err (fst (complete_recognition session provider transcript w d))"
  shows "on_screen scr (complete_feedback session provider transcript w d) = scr"
  using assms by (auto simp: complete_feedback_def split: sum.splits)

section \<open>The overlays are accepted by the helper\<close>

text \<open>
  Every overlay of an operation is within the bounds of voxtype-overlay, so that the helper accepts
  its document.
\<close>

fun within_helper :: "feedback \<Rightarrow> bool" where
  "within_helper (ShowOverlay state title body ms) \<longleftrightarrow>
     length state \<le> 32 \<and> length title \<le> 80 \<and> length body \<le> 240 \<and> unat ms \<le> 60000"
| "within_helper _ \<longleftrightarrow> True"

lemma within_parts:
  "list_all within_helper (telemetry_feedback w d)" "list_all within_helper (start_feedback p w d)"
  "list_all within_helper short_feedback" "list_all within_helper (failed_feedback shown e)"
  "list_all within_helper (dispatched_feedback insertion)" "list_all within_helper (cancel_feedback s d)"
  "list_all within_helper (no_speech_feedback rec w d)"
  "within_helper processing_overlay" "within_helper maximum_overlay"
  by (simp_all add: telemetry_feedback_def start_feedback_def listening_overlay_def short_feedback_def
      failed_feedback_def dispatched_feedback_def cancel_feedback_def no_speech_feedback_def
      no_speech_guidance_def processing_overlay_def maximum_overlay_def text_of_def
      dot_separator_def Let_def split: sum.splits option.splits)

lemma within_begin: "list_all within_helper (begin_feedback shown s rec w d)"
  using within_parts
  by (simp add: begin_feedback_def spawn_feedback_def Let_def case_prod_beta
      split: sum.splits option.splits voice_activity.splits)

lemma within_stop: "list_all within_helper (stop_feedback shown s w d)"
  using within_parts within_begin
  by (simp add: stop_feedback_def Let_def case_prod_beta split: sum.splits)

lemma within_poll: "list_all within_helper (poll_feedback shown w d)"
  using within_parts
  by (simp add: poll_feedback_def finish_feedback_def complete_feedback_def Let_def
      split: option.splits recv_result.splits sum.splits daemon_response.splits)

lemma within_deadline: "list_all within_helper (deadline_feedback shown w d)"
  using within_parts within_stop by (simp add: deadline_feedback_def split: option.splits)

lemma within_step: "list_all within_helper (step_feedback shown ow d)"
proof -
  obtain op w where ow: "ow = (op, w)" by (metis prod.exhaust)
  show ?thesis
    using within_parts within_stop within_poll within_deadline unfolding ow by (cases op) simp_all
qed

theorem operation_overlays_are_accepted:
  assumes shown: "ShowOverlay state title body ms \<in> set (step_feedback shown ow d)"
    and doc: "overlay_document now (ShowOverlay state title body ms) = Some document"
    and parsed: "ow_parse W payload = Inr document" and bound: "length payload \<le> 4096"
  shows "\<exists>q. read_overlay_request (ow_parse W) (payload, None) = Inr q \<and> oq_body q = body \<and>
             oq_timeout_ms q \<le> 60000 \<and> validate_overlay_request q = Inr ()"
proof -
  have fits: "within_helper (ShowOverlay state title body ms)"
    using shown within_step[of shown ow d] by (simp add: list_all_iff del: within_helper.simps)
  have "ow_parse W payload = Inr (overlay_payload state title body ms)" using doc parsed by simp
  then show ?thesis
    using fits bound payload_request[of state title body ms]
    by (simp add: read_overlay_request_def read_limited_def max_overlay_request_def
        validate_overlay_request_def text_of_def)
qed

end
