(* ===== verification/Spec2Isabelle.thy ===== *)
theory Spec2Isabelle
  imports Daemon_Props Vad_Runs Doubao_Wire_Props Doubao_Managed_Props Grammar_Props Desktop_Props
    Calibration_Props Capture_Props Config_Store_Props Settings_Props
    Overlay_Props Status_Props Client_Props Shortcuts_Props Tray_Props Cli_Props Cleanup_Props
    Process_Props Presentation_Props
begin

text \<open>
  A model of VoxType, a dictation daemon for Linux desktops, and the theorems that make it
  correct. The daemon records the microphone on request, decides from the recording whether there
  was speech, sends it to a chain of speech recognizers under a privacy policy, and inserts the
  transcript into the window that had the focus when the recording began.

  The program and its theories.

  \<^item> The core (src/crates/voxtype-core): error values (theory Vox_Error, error.rs), the values
    that cross the provider interface (Provider_Types, audio.rs and provider.rs), the state machine
    of one session with its commands and effects (Session and Session_Runs, session.rs), and the
    decisions of a routing policy (Routing, routing.rs).
  \<^item> The application layer (src/crates/voxtype-app): the registry of providers with their health
    and the execution of a route (Route, provider.rs), the wake channel (Wake, wake.rs), the
    controller that owns the session machine, the queue of pending events, the cache of finished
    results and the usage counters (Controller, Controller_Lifecycle and Controller_Accounting,
    controller.rs), and the values of the adapter ports (Ports, ports.rs).
  \<^item> Audio: integer roots and levels (Levels, vad.rs and audio.rs), the detector of voice
    activity and the trimming of a recording (Vad and Vad_Runs, vad.rs), the calibration of the
    microphone (Calibration and Calibration_Props, calibration.rs), and the recorder with its child
    process, its reader thread and its guards (Capture and Capture_Props, audio.rs).
  \<^item> The cloud providers: secrets, curl configuration, the cancellable run of curl and its
    evidence, WAV staging (Provider_Common and Provider_Common_Props, voxtype-provider-common), the
    adapters for commands, OpenAI-compatible servers and Deepgram and the registry that is built
    from the configuration (Adapters and Adapters_Props, provider_adapters.rs, voxtype-provider-rest
    and voxtype-provider-deepgram), the configuration itself, its file and its secrets
    (Config, Config_Store and Config_Store_Props; config.rs).
  \<^item> The unofficial Doubao provider (src/crates/voxtype-provider-doubao): the wire format and the
    recognition events (Doubao_Wire, Doubao_Events, Doubao_Wire_Props; lib.rs), the protocol of a
    session (Doubao_Session, Doubao_Session_Props; session.rs), the WebSocket adapter
    (Doubao_Socket; websocket.rs), the runner with its deadlines and its single refresh of the
    token (Doubao_Runner, Doubao_Runner_Props; runner.rs), the HTTP exchange that registers a device
    and fetches the token (Doubao_Bootstrap; lib.rs), and the recognition with its credential
    bundle (Doubao_Managed, Doubao_Managed_Props; managed.rs).
  \<^item> The desktop: the client of the Fcitx bridge (Fcitx, Fcitx_Props; fcitx.rs), the clipboard and
    the choice between the two (Desktop, Desktop_Props; desktop.rs and insertion.rs), and the local
    text checks (Utf8_Index, Grammar, Grammar_Props; grammar.rs).
  \<^item> The daemon (Daemon, Daemon_Frames, Daemon_Invariant, Daemon_Props; daemon.rs): the operations
    of the D-Bus interface and of the maintenance loop over all of the above; the documents on
    status, health and usage, the overlay documents and the text checks (Status, Status_Props); the
    notifications and overlays of the operations (Presentation, Presentation_Props); and the process
    with its loop and its signals (Process, Process_Props; bin/voxtyped.rs).
  \<^item> The settings window (bin/voxtype-settings.rs): the reading of its HTTP requests (Settings_Http
    and Settings_Http_Props), the changes that they make (Settings), and the state, the calibration
    and the connections (Settings_Server, Settings_Props).
  \<^item> The clients of the daemon: the D-Bus client (Client, Client_Props; client.rs), the command line
    (Cli, Cli_Props; bin/voxtype.rs) with its diagnosis of the global shortcuts and the names of
    keys (Shortcuts, Shortcuts_Props), the tray (Tray, Tray_Props; bin/voxtype-tray.rs), the overlay
    helper (Overlay, Overlay_Props; bin/voxtype-overlay.rs and qml.rs), and the window that reviews a
    text check (Cleanup, Cleanup_Props; bin/voxtype-cleanup.rs).
  \<^item> Texts that several parts read: strings of bytes (Str), UTF-8 (Utf8), texts of scalar values
    (Utext) and JSON values (Json).

  How the model corresponds to the code. A struct is a record, an enum a datatype, a machine
  integer a word of its width (natural numbers stand for lengths and positions in memory), and a
  text the list of its scalar values. A method that takes its object by mutable reference takes the
  state and returns it updated. A Result is a sum with the error on the left; theory Eff composes
  such operations, and its loops may run forever. Each definition is named after the function that
  it models; a long function is split into one definition per stage.

  What the outside world does is an argument: the clock, files, sockets, child processes, the JSON,
  TLS, WebSocket and Opus libraries, the D-Bus peers. A theorem holds for all of its answers, or
  says what it assumes of them. Threads are sequences of steps: the background recognition of the
  daemon is a job whose result a later step receives or not, and the audio thread gives the metrics
  that a poll finds.

  What the lemmas show. Session and controller: the lifecycle of sessions, that an insertion
  needs a complete recording, that events are announced without loss and that queue and cache are
  bounded. Route and adapters: in which order providers are tried, that audio is disclosed to one
  provider unless the policy allows more, and on which evidence a failure counts as not having
  sent audio, down to what the process curl itself reported; the same evidence for the Doubao
  runner, whose requests follow the order of the protocol and which counts every message that the
  WebSocket library did not give back. A command is killed at its deadline; the adapter waits for
  its output without one, which the model keeps: it blocks only on a pipe that stays open.
  Detector: each frame carries exactly the event that the runs of voiced and unvoiced frames call
  for. Daemon: at most one commit for each session, none after a cancellation, resources that
  follow the state, deadlines, the end of every recognition, and that the overlay on the screen
  tells of the recording or recognition at work; a stop at the deadline is refused only while
  more than 254 events wait. Insertion: the armed path is kept, a commit is repeated only after a
  lost answer and the clipboard is restored only while it holds the text. Reports of the text
  checks can be applied. Recorder: whatever ends a recording, its child is waited for and its
  file removed. Configuration: a change replaces the file in one step or not at all, and what is
  saved loads again; only the first default is written in place. Settings window: no request
  without the token of the session changes anything, and every request is read from the bytes
  alone, however they arrive. Process: every result is told by a signal, and every delivered
  recognition is brought to its end. Clients: waiting for a session ends and reports that
  session, the menu of the tray (but for the cancelling of a finished session, which it does not
  offer) and the readiness in the settings window agree with the daemon, the overlay's file is
  whole at every moment, and the command line and the review leave a working daemon alone and no
  file behind. Codecs: the wire format, WAV and UTF-8.

  Interfaces stated as locales: codec (theory Codec) for encodings that can be read back,
  guarded_machine, invariant_machine and atomic_machine (theory Prelude) for the state machines,
  bounded_recent (Prelude) for the bounded queues, floor_root (Levels) for the square roots,
  app_invariant (Process_Props) for what the operations of the controller keep, cli_relation
  (Cli_Props) for what the commands keep, and recognizer (Adapters_Props) for the evidence of the
  adapters. Each is interpreted on the definitions of the components.

  Loops and bounds. Structural loops are functions with a termination proof. The loops that wait for
  another party (curl, the connection, the WebSocket) are the partial functions of theory Eff or
  take the number of rounds after which the world answers; the theorems on termination show that
  they return when the clock moves on, without a bound on the number of rounds. Lengths of texts and
  recordings are natural numbers, since memory bounds them far below the width of a usize.

  Not modelled: Opus encoding (a call of a C library), the programs that display the notifications,
  the registration of the tray on the bus, the permissions of files, the QML files of the windows,
  and the C++ add-on on the other side of the Fcitx bridge.
\<close>

end
